(* ===== verification/Prelude.thy ===== *)
theory Prelude
  imports Main "HOL-Library.Word" "HOL-Library.Monad_Syntax"
begin

text \<open>
  What every component shares: the result values of \<open>packages/kernel/src/result.ts\<close> as sums,
  the values a TypeScript parameter of type \<open>unknown\<close> can hold, decimal notation of integers,
  and JavaScript's stable sort. A JavaScript string is carried as the list of its UTF-8 bytes
  (type \<^typ>\<open>string\<close>); \<open>js_length\<close> is its length in UTF-16 code units, which is what
  JavaScript's \<open>length\<close> counts. Strings with a lone surrogate are outside the model.
\<close>

named_theorems result_simps \<open>equations of the result and parser combinators\<close>
named_theorems parse_inv \<open>what a successful parse says of its value\<close>

section \<open>Results\<close>

text \<open>\<open>Result<T, E>\<close>: \<^term>\<open>Inr\<close> is \<open>ok\<close>, \<^term>\<open>Inl\<close> is \<open>err\<close>.\<close>

definition rbind :: "'e + 'a \<Rightarrow> ('a \<Rightarrow> 'e + 'b) \<Rightarrow> 'e + 'b" where
  "rbind r f = (case r of Inl e \<Rightarrow> Inl e | Inr x \<Rightarrow> f x)"

text \<open>\<open>if (!r.ok) return err(code)\<close>: the error is replaced, the value kept.\<close>

definition relabel :: "'e \<Rightarrow> 'd + 'a \<Rightarrow> 'e + 'a" where
  "relabel e r = (case r of Inl _ \<Rightarrow> Inl e | Inr x \<Rightarrow> Inr x)"

definition isOk :: "'e + 'a \<Rightarrow> bool" where
  "isOk r = (case r of Inl _ \<Rightarrow> False | Inr _ \<Rightarrow> True)"

lemma rbind_simps [simp, result_simps]:
  "rbind (Inl e) f = Inl e" "rbind (Inr x) f = f x"
  by (simp_all add: rbind_def)

lemma relabel_simps [simp, result_simps]:
  "relabel e (Inl d) = Inl e" "relabel e (Inr x) = Inr x"
  by (simp_all add: relabel_def)

lemma isOk_simps [simp, result_simps]: "\<not> isOk (Inl e)" "isOk (Inr x)"
  by (simp_all add: isOk_def)

lemma rbind_eq_Inr [result_simps]: "rbind r f = Inr y \<longleftrightarrow> (\<exists>x. r = Inr x \<and> f x = Inr y)"
  by (cases r) auto

lemma rbind_eq_Inl [result_simps]:
  "rbind r f = Inl e \<longleftrightarrow> r = Inl e \<or> (\<exists>x. r = Inr x \<and> f x = Inl e)"
  by (cases r) auto

lemma relabel_eq_Inr [simp, result_simps]: "relabel e r = Inr y \<longleftrightarrow> r = Inr y"
  by (cases r) auto

lemma relabel_eq_Inl [result_simps]: "relabel e r = Inl d \<longleftrightarrow> (d = e \<and> \<not> isOk r)"
  by (cases r) auto

lemma isOk_iff: "isOk r \<longleftrightarrow> (\<exists>x. r = Inr x)"
  by (cases r) auto

text \<open>\<open>if (x === undefined) return err(code)\<close>.\<close>

definition need :: "'e \<Rightarrow> 'a option \<Rightarrow> 'e + 'a" where
  "need e x = (case x of None \<Rightarrow> Inl e | Some y \<Rightarrow> Inr y)"

lemma need_simps [simp, result_simps]: "need e None = Inl e" "need e (Some y) = Inr y"
  by (simp_all add: need_def)

lemma need_eq_Inr [simp, result_simps]: "need e x = Inr y \<longleftrightarrow> x = Some y"
  by (cases x) auto

lemma need_eq_Inl [simp, result_simps]: "need e x = Inl d \<longleftrightarrow> x = None \<and> d = e"
  by (cases x) auto

text \<open>A loop that parses each element and returns the first error.\<close>

fun rmap :: "('a \<Rightarrow> 'e + 'b) \<Rightarrow> 'a list \<Rightarrow> 'e + 'b list" where
  "rmap f [] = Inr []"
| "rmap f (x # xs) = rbind (f x) (\<lambda>y. rbind (rmap f xs) (\<lambda>ys. Inr (y # ys)))"

lemma rmap_eq_Inr: "rmap f xs = Inr ys \<longleftrightarrow> list_all2 (\<lambda>x y. f x = Inr y) xs ys"
  by (induction xs arbitrary: ys) (auto simp: rbind_eq_Inr list_all2_Cons1)

lemma rmap_map: "rmap f (map g xs) = rmap (f \<circ> g) xs"
  by (induction xs) auto

lemma rmap_Inr: "(\<And>x. x \<in> set xs \<Longrightarrow> f x = Inr (h x)) \<Longrightarrow> rmap f xs = Inr (map h xs)"
  by (induction xs) auto

lemma rmap_eq_Inl: "rmap f xs = Inl e \<Longrightarrow> \<exists>x \<in> set xs. f x = Inl e"
  by (induction xs) (auto simp: rbind_eq_Inl)

section \<open>JavaScript values\<close>

text \<open>
  The plain values a caller can pass where the code takes \<open>unknown\<close>: what \<open>JSON.parse\<close>
  yields, plus \<open>bigint\<close> and \<open>undefined\<close>. A \<open>number\<close> is an integral value, or one for which
  \<open>Number.isInteger\<close> is false (a fraction, an infinity or NaN); no code under study looks further
  at the latter. An object is its own enumerable properties.
\<close>

datatype jsnum = IntNum int | NonIntNum

datatype js =
    JUndef
  | JNull
  | JBool bool
  | JNum jsnum
  | JBig int
  | JStr string
  | JArr "js list"
  | JObj "(string \<times> js) list"

text \<open>\<open>typeof v === 'object' && v !== null\<close>.\<close>

fun is_object :: "js \<Rightarrow> bool" where
  "is_object (JArr _) = True"
| "is_object (JObj _) = True"
| "is_object _ = False"

fun is_plain_object :: "js \<Rightarrow> bool" where
  "is_plain_object (JObj _) = True"
| "is_plain_object _ = False"

text \<open>\<open>r[k]\<close>, for the property names the code reads; an array has none of them.\<close>

fun jget :: "js \<Rightarrow> string \<Rightarrow> js" where
  "jget (JObj kvs) k = (case map_of kvs k of None \<Rightarrow> JUndef | Some v \<Rightarrow> v)"
| "jget _ k = JUndef"

section \<open>Decimal notation\<close>

definition digit_char :: "nat \<Rightarrow> char" where
  "digit_char d = char_of (48 + d)"

definition is_digit :: "char \<Rightarrow> bool" where
  "is_digit c \<longleftrightarrow> 48 \<le> (of_char c :: nat) \<and> (of_char c :: nat) \<le> 57"

definition digit_val :: "char \<Rightarrow> nat" where
  "digit_val c = of_char c - 48"

fun nat_str :: "nat \<Rightarrow> string" where
  "nat_str n = (if n < 10 then [digit_char n] else nat_str (n div 10) @ [digit_char (n mod 10)])"

declare nat_str.simps [simp del]

text \<open>\<open>Object.keys\<close>: the own property names, the indices of an array.\<close>

fun object_keys :: "js \<Rightarrow> string list" where
  "object_keys (JObj kvs) = map fst kvs"
| "object_keys (JArr xs) = map nat_str [0..<length xs]"
| "object_keys _ = []"

definition only_keys :: "string list \<Rightarrow> js \<Rightarrow> bool" where
  "only_keys known r = list_all (\<lambda>k. k \<in> set known) (object_keys r)"

text \<open>\<open>String(v)\<close> of a bigint.\<close>

definition int_str :: "int \<Rightarrow> string" where
  "int_str i = (if i < 0 then CHR ''-'' # nat_str (nat (- i)) else nat_str (nat i))"

definition digits_val :: "string \<Rightarrow> nat" where
  "digits_val s = foldl (\<lambda>v c. 10 * v + digit_val c) 0 s"

lemma of_char_digit_char [simp]: "d < 10 \<Longrightarrow> (of_char (digit_char d) :: nat) = 48 + d"
  by (simp add: digit_char_def)

lemma digit_val_digit_char [simp]: "d < 10 \<Longrightarrow> digit_val (digit_char d) = d"
  by (simp add: digit_val_def)

lemma is_digit_digit_char [simp]: "d < 10 \<Longrightarrow> is_digit (digit_char d)"
  by (simp add: is_digit_def)

lemma nat_str_nonempty [simp]: "nat_str n \<noteq> []"
  by (subst nat_str.simps) simp

lemma nat_str_digits: "\<forall>c \<in> set (nat_str n). is_digit c"
proof (induction n rule: nat_str.induct)
  case (1 n)
  then show ?case by (subst nat_str.simps) auto
qed

lemma digits_val_snoc [simp]: "digits_val (s @ [c]) = 10 * digits_val s + digit_val c"
  by (simp add: digits_val_def)

lemma digits_val_nat_str [simp]: "digits_val (nat_str n) = n"
proof (induction n rule: nat_str.induct)
  case (1 n)
  show ?case
  proof (cases "n < 10")
    case True
    then show ?thesis by (subst nat_str.simps) (simp add: digits_val_def)
  next
    case False
    with "1.IH" have "digits_val (nat_str (n div 10)) = n div 10" by simp
    with False show ?thesis by (subst nat_str.simps) simp
  qed
qed

lemma nat_str_hd: "0 < n \<Longrightarrow> hd (nat_str n) \<noteq> CHR ''0''"
proof (induction n rule: nat_str.induct)
  case (1 n)
  show ?case
  proof (cases "n < 10")
    case True
    have "digit_char n \<noteq> CHR ''0''"
    proof
      assume "digit_char n = CHR ''0''"
      then have "(of_char (digit_char n) :: nat) = of_char (CHR ''0'')" by (rule arg_cong)
      with True "1.prems" show False by simp
    qed
    with True show ?thesis by (subst nat_str.simps) simp
  next
    case False
    with "1.IH" show ?thesis by (subst nat_str.simps) simp
  qed
qed

lemma length_nat_str: "m < 10 ^ k \<Longrightarrow> 0 < k \<Longrightarrow> length (nat_str m) \<le> k"
proof (induction m arbitrary: k rule: nat_str.induct)
  case (1 n)
  show ?case
  proof (cases "n < 10")
    case True
    with "1.prems" show ?thesis by (subst nat_str.simps) simp
  next
    case False
    with "1.prems" obtain j where k: "k = Suc j" "0 < j" by (cases k; cases "k = 1") auto
    with "1.prems" have "n div 10 < 10 ^ j" by (simp add: less_mult_imp_div_less mult.commute)
    from "1.IH" [OF False this k(2)] False k show ?thesis by (subst nat_str.simps) simp
  qed
qed

lemma nat_str_inj: "nat_str m = nat_str n \<longleftrightarrow> m = n"
  by (metis digits_val_nat_str)

section \<open>Lengths and sorting\<close>

text \<open>UTF-16 length of a string given as UTF-8: a continuation byte adds nothing, a four-byte lead two.\<close>

definition js_units :: "char \<Rightarrow> nat" where
  "js_units c = (let n = (of_char c :: nat)
     in if 128 \<le> n \<and> n < 192 then 0 else if 240 \<le> n then 2 else 1)"

definition js_length :: "string \<Rightarrow> nat" where
  "js_length s = sum_list (map js_units s)"

definition is_ascii :: "string \<Rightarrow> bool" where
  "is_ascii s \<longleftrightarrow> (\<forall>c \<in> set s. (of_char c :: nat) < 128)"

lemma js_length_ascii: "is_ascii s \<Longrightarrow> js_length s = length s"
  by (induction s) (auto simp: js_length_def is_ascii_def js_units_def)

lemma js_length_Nil [simp]: "js_length [] = 0"
  by (simp add: js_length_def)

text \<open>
  \<open>Array.prototype.sort\<close> with a comparator: stable, so an element is placed before the first later
  element it is not greater than.
\<close>

fun insort_cmp :: "('a \<Rightarrow> 'a \<Rightarrow> int) \<Rightarrow> 'a \<Rightarrow> 'a list \<Rightarrow> 'a list" where
  "insort_cmp cmp x [] = [x]"
| "insort_cmp cmp x (y # ys) = (if cmp x y \<le> 0 then x # y # ys else y # insort_cmp cmp x ys)"

definition js_sort :: "('a \<Rightarrow> 'a \<Rightarrow> int) \<Rightarrow> 'a list \<Rightarrow> 'a list" where
  "js_sort cmp xs = foldr (insort_cmp cmp) xs []"

lemma set_insort_cmp [simp]: "set (insort_cmp cmp x ys) = insert x (set ys)"
  by (induction ys) auto

lemma length_insort_cmp [simp]: "length (insort_cmp cmp x ys) = Suc (length ys)"
  by (induction ys) auto

lemma js_sort_simps [simp]:
  "js_sort cmp [] = []" "js_sort cmp (x # xs) = insort_cmp cmp x (js_sort cmp xs)"
  by (simp_all add: js_sort_def)

lemma set_js_sort [simp]: "set (js_sort cmp xs) = set xs"
  by (induction xs) auto

lemma length_js_sort [simp]: "length (js_sort cmp xs) = length xs"
  by (induction xs) auto

lemma distinct_insort_cmp: "distinct (insort_cmp cmp x ys) \<longleftrightarrow> x \<notin> set ys \<and> distinct ys"
  by (induction ys) auto

lemma distinct_js_sort [simp]: "distinct (js_sort cmp xs) \<longleftrightarrow> distinct xs"
  by (induction xs) (auto simp: distinct_insort_cmp)

text \<open>A sorted list is left alone: this is what makes parsing a canonical set the identity.\<close>

lemma insort_cmp_le: "(\<And>y. y \<in> set ys \<Longrightarrow> cmp x y \<le> 0) \<Longrightarrow> insort_cmp cmp x ys = x # ys"
  by (cases ys) auto

lemma js_sort_sorted: "sorted_wrt (\<lambda>a b. cmp a b \<le> 0) xs \<Longrightarrow> js_sort cmp xs = xs"
  by (induction xs) (simp_all add: insort_cmp_le)

text \<open>
  The laws under which \<open>js_sort\<close> sorts, and those under which its result depends on the set of
  elements alone.
\<close>

locale cmp_preorder =
  fixes cmp :: "'a \<Rightarrow> 'a \<Rightarrow> int"
  assumes cmp_total: "cmp a b \<le> 0 \<or> cmp b a \<le> 0"
    and cmp_trans: "cmp a b \<le> 0 \<Longrightarrow> cmp b c \<le> 0 \<Longrightarrow> cmp a c \<le> 0"
begin

lemma sorted_insort:
  "sorted_wrt (\<lambda>a b. cmp a b \<le> 0) ys \<Longrightarrow> sorted_wrt (\<lambda>a b. cmp a b \<le> 0) (insort_cmp cmp x ys)"
proof (induction ys)
  case Nil
  then show ?case by simp
next
  case (Cons y ys)
  show ?case
  proof (cases "cmp x y \<le> 0")
    case True
    with Cons.prems show ?thesis by (auto intro: cmp_trans)
  next
    case False
    with cmp_total have "cmp y x \<le> 0" by blast
    with False Cons show ?thesis by auto
  qed
qed

lemma sorted_sort: "sorted_wrt (\<lambda>a b. cmp a b \<le> 0) (js_sort cmp xs)"
  by (induction xs) (auto intro: sorted_insort)

lemma sort_idem [simp]: "js_sort cmp (js_sort cmp xs) = js_sort cmp xs"
  by (rule js_sort_sorted) (rule sorted_sort)

lemma sorted_unique_on:
  "sorted_wrt (\<lambda>a b. cmp a b \<le> 0) xs \<Longrightarrow> sorted_wrt (\<lambda>a b. cmp a b \<le> 0) ys \<Longrightarrow>
   distinct xs \<Longrightarrow> distinct ys \<Longrightarrow> set xs = set ys \<Longrightarrow>
   (\<And>a b. a \<in> set xs \<Longrightarrow> b \<in> set xs \<Longrightarrow> cmp a b \<le> 0 \<Longrightarrow> cmp b a \<le> 0 \<Longrightarrow> a = b) \<Longrightarrow> xs = ys"
proof (induction xs arbitrary: ys)
  case Nil
  then show ?case by simp
next
  case (Cons x xs)
  then obtain y zs where ys: "ys = y # zs" by (cases ys) auto
  have "y \<in> set (x # xs)" "x \<in> set (y # zs)"
    using Cons.prems(5) ys by (metis list.set_intros(1))+
  then have "y = x \<or> cmp x y \<le> 0" "x = y \<or> cmp y x \<le> 0"
    using Cons.prems(1,2) ys by auto
  then have "x = y"
    using Cons.prems(6) [of x y] \<open>y \<in> set (x # xs)\<close> by auto
  moreover have "set xs = set zs"
    using Cons.prems(3-5) ys \<open>x = y\<close> by auto
  ultimately have "xs = zs"
    using Cons.prems(1-4,6) ys by (intro Cons.IH) auto
  with \<open>x = y\<close> ys show ?case by simp
qed

end

locale comparator = cmp_preorder cmp for cmp :: "'a \<Rightarrow> 'a \<Rightarrow> int" +
  assumes cmp_antisym: "cmp a b \<le> 0 \<Longrightarrow> cmp b a \<le> 0 \<Longrightarrow> a = b"
begin

lemma sorted_distinct_strict:
  "sorted_wrt (\<lambda>a b. cmp a b \<le> 0) xs \<Longrightarrow> distinct xs \<Longrightarrow> sorted_wrt (\<lambda>a b. \<not> cmp b a \<le> 0) xs"
  by (induction xs) (auto dest: cmp_antisym)

lemma sorted_unique:
  "sorted_wrt (\<lambda>a b. cmp a b \<le> 0) xs \<Longrightarrow> sorted_wrt (\<lambda>a b. cmp a b \<le> 0) ys \<Longrightarrow>
   distinct xs \<Longrightarrow> distinct ys \<Longrightarrow> set xs = set ys \<Longrightarrow> xs = ys"
  by (rule sorted_unique_on) (auto intro: cmp_antisym)

lemma sort_set_eq: "distinct xs \<Longrightarrow> distinct ys \<Longrightarrow> set xs = set ys \<Longrightarrow> js_sort cmp xs = js_sort cmp ys"
  by (rule sorted_unique) (auto simp: sorted_sort)

end

end
