(* ===== verification/Wire.thy ===== *)
theory Wire
  imports Prelude
begin

text \<open>
  The byte layer of \<open>packages/kernel\<close>: fixed-width hex values (\<open>bytes.ts\<close>), the primitive writers
  (\<open>encoding/writer.ts\<close>) and the primitive readers (\<open>encoding/reader.ts\<close>). A \<open>Uint8Array\<close> is a list of
  8-bit words. A writer that throws is \<^term>\<open>None\<close>; the \<open>ByteWriter\<close>'s chunks are concatenated by
  \<open>wcat\<close>. A reader takes the bytes from the current offset on and returns the value with the bytes
  after it; \<^term>\<open>None\<close> is the \<open>undefined\<close> the code's readers return. The codecs keep reading after a
  failed read but turn any failure into one fixed code, so stopping at the first is the same result.
\<close>

named_theorems rd_wr \<open>reading what was written\<close>
named_theorems rd_inv \<open>what a successful read says of the bytes\<close>

type_synonym u8 = "8 word"

section \<open>Big-endian integers\<close>

fun be_bytes :: "nat \<Rightarrow> int \<Rightarrow> u8 list" where
  "be_bytes 0 v = []"
| "be_bytes (Suc n) v = be_bytes n (v div 256) @ [word_of_int (v mod 256)]"

definition be_val :: "u8 list \<Rightarrow> int" where
  "be_val bs = foldl (\<lambda>v b. v * 256 + uint b) 0 bs"

lemma length_be_bytes [simp]: "length (be_bytes n v) = n"
  by (induction n arbitrary: v) auto

lemma be_val_Nil [simp]: "be_val [] = 0"
  by (simp add: be_val_def)

lemma be_val_snoc [simp]: "be_val (bs @ [b]) = be_val bs * 256 + uint b"
  by (simp add: be_val_def)

lemma uint_u8_of_mod: "uint (word_of_int (v mod 256) :: u8) = v mod 256"
  by (simp add: uint_word_of_int)

lemma be_val_be_bytes: "0 \<le> v \<Longrightarrow> v < 256 ^ n \<Longrightarrow> be_val (be_bytes n v) = v"
proof (induction n arbitrary: v)
  case 0
  then show ?case by simp
next
  case (Suc n)
  then have "v div 256 < 256 ^ n" by (simp add: div_less_iff_less_mult)
  with Suc show ?case by (simp add: uint_u8_of_mod pos_imp_zdiv_nonneg_iff)
qed

lemma be_val_bounds: "0 \<le> be_val bs \<and> be_val bs < 256 ^ length bs"
proof (induction bs rule: rev_induct)
  case Nil
  then show ?case by simp
next
  case (snoc b bs)
  have "uint b < 256" using uint_bounded [of b] by simp
  with snoc show ?case by (simp add: mult.commute)
qed

lemma be_val_nonneg [simp]: "0 \<le> be_val bs"
  using be_val_bounds by blast

lemma be_bytes_be_val: "be_bytes (length bs) (be_val bs) = bs"
proof (induction bs rule: rev_induct)
  case Nil
  then show ?case by simp
next
  case (snoc b bs)
  have b: "0 \<le> uint b" "uint b < 256" using uint_bounded [of b] by simp_all
  have "(be_val bs * 256 + uint b) div 256 = be_val bs"
    and "(be_val bs * 256 + uint b) mod 256 = uint b"
    using b by simp_all
  with snoc show ?case by simp
qed

section \<open>Hexadecimal (bytes.ts)\<close>

definition hex_digit :: "nat \<Rightarrow> char" where
  "hex_digit n = (if n < 10 then char_of (48 + n) else char_of (87 + n))"

definition is_hex :: "char \<Rightarrow> bool" where
  "is_hex c = (let n = (of_char c :: nat) in (48 \<le> n \<and> n \<le> 57) \<or> (97 \<le> n \<and> n \<le> 102))"

definition hex_val :: "char \<Rightarrow> nat" where
  "hex_val c = (let n = (of_char c :: nat) in if n \<le> 57 then n - 48 else n - 87)"

definition hex_byte :: "u8 \<Rightarrow> string" where
  "hex_byte b = [hex_digit (unat b div 16), hex_digit (unat b mod 16)]"

definition bytesToHex :: "u8 list \<Rightarrow> string" where
  "bytesToHex bs = ''0x'' @ concat (map hex_byte bs)"

fun hex_pairs :: "string \<Rightarrow> u8 list" where
  "hex_pairs (a # b # cs) = word_of_nat (16 * hex_val a + hex_val b) # hex_pairs cs"
| "hex_pairs _ = []"

text \<open>\<open>/^0x[0-9a-f]{n}$/\<close>.\<close>

definition hex_literal :: "nat \<Rightarrow> string \<Rightarrow> bool" where
  "hex_literal n s \<longleftrightarrow> take 2 s = ''0x'' \<and> length s = n + 2 \<and> list_all is_hex (drop 2 s)"

definition bytes32ToBytes :: "string \<Rightarrow> u8 list" where
  "bytes32ToBytes v = hex_pairs (take 64 (drop 2 v))"

definition hexToBytes :: "string \<Rightarrow> u8 list option" where
  "hexToBytes raw =
     (if take 2 raw = ''0x'' \<and> even (length (drop 2 raw)) \<and> list_all is_hex (drop 2 raw)
      then Some (hex_pairs (drop 2 raw)) else None)"

lemma hex_digit_props [simp]:
  assumes "n < 16"
  shows "hex_val (hex_digit n) = n" and "is_hex (hex_digit n)"
  using assms by (auto simp: hex_val_def hex_digit_def is_hex_def)

lemma is_hex_val: "is_hex c \<Longrightarrow> hex_val c < 16 \<and> hex_digit (hex_val c) = c"
proof -
  assume h: "is_hex c"
  define n where "n = (of_char c :: nat)"
  have c: "c = char_of n" by (simp add: n_def)
  from h have "(48 \<le> n \<and> n \<le> 57) \<or> (97 \<le> n \<and> n \<le> 102)"
    by (simp add: is_hex_def n_def Let_def)
  moreover have "hex_val c = (if n \<le> 57 then n - 48 else n - 87)"
    by (simp add: hex_val_def n_def Let_def)
  ultimately show ?thesis by (auto simp: hex_digit_def c)
qed

lemma unat_u8_lt [simp]: "unat (b :: u8) < 256"
  using unsigned_less [of b] by simp

lemma hex_pairs_bytes [simp]: "hex_pairs (concat (map hex_byte bs)) = bs"
proof (induction bs)
  case Nil
  then show ?case by simp
next
  case (Cons b bs)
  have "unat b div 16 < 16" using unat_u8_lt [of b] by (simp add: div_less_iff_less_mult)
  with Cons show ?case by (simp add: hex_byte_def)
qed

lemma length_hex_bytes [simp]: "length (concat (map hex_byte bs)) = 2 * length bs"
  by (induction bs) (auto simp: hex_byte_def)

lemma hex_bytes_is_hex: "list_all is_hex (concat (map hex_byte bs))"
proof (induction bs)
  case Nil
  then show ?case by simp
next
  case (Cons b bs)
  have "unat b div 16 < 16" using unat_u8_lt [of b] by (simp add: div_less_iff_less_mult)
  with Cons show ?case by (simp add: hex_byte_def)
qed

lemma hex_literal_bytesToHex: "length bs = 32 \<Longrightarrow> hex_literal 64 (bytesToHex bs)"
  by (simp add: hex_literal_def bytesToHex_def hex_bytes_is_hex)

lemma bytes32ToBytes_bytesToHex [simp]: "length bs = 32 \<Longrightarrow> bytes32ToBytes (bytesToHex bs) = bs"
  by (simp add: bytes32ToBytes_def bytesToHex_def)

lemma hex_bytes_pairs:
  "list_all is_hex s \<Longrightarrow> even (length s) \<Longrightarrow> concat (map hex_byte (hex_pairs s)) = s"
proof (induction s rule: hex_pairs.induct)
  case (1 a b cs)
  then have v: "hex_val a < 16" "hex_val b < 16" "hex_digit (hex_val a) = a" "hex_digit (hex_val b) = b"
    using is_hex_val by auto
  have "unat (word_of_nat (16 * hex_val a + hex_val b) :: u8) = 16 * hex_val a + hex_val b"
    using v by (subst unat_of_nat) simp
  with v 1 show ?case by (simp add: hex_byte_def)
qed auto

lemma length_hex_pairs: "even (length s) \<Longrightarrow> length (hex_pairs s) = length s div 2"
  by (induction s rule: hex_pairs.induct) auto

lemma hex_literal_split: "hex_literal n s \<Longrightarrow> s = ''0x'' @ drop 2 s"
  by (metis append_take_drop_id hex_literal_def)

lemma bytesToHex_bytes32ToBytes: "hex_literal 64 s \<Longrightarrow> bytesToHex (bytes32ToBytes s) = s"
proof -
  assume h: "hex_literal 64 s"
  then have "list_all is_hex (drop 2 s)" "length (drop 2 s) = 64" by (simp_all add: hex_literal_def)
  then have "concat (map hex_byte (hex_pairs (drop 2 s))) = drop 2 s" by (simp add: hex_bytes_pairs)
  with \<open>length (drop 2 s) = 64\<close> hex_literal_split [OF h] show ?thesis
    by (simp add: bytesToHex_def bytes32ToBytes_def)
qed

lemma length_bytes32ToBytes: "hex_literal 64 s \<Longrightarrow> length (bytes32ToBytes s) = 32"
  by (simp add: hex_literal_def bytes32ToBytes_def length_hex_pairs)

lemma hex_literal_bytes: "length bs = n \<Longrightarrow> hex_literal (2 * n) (bytesToHex bs)"
  by (simp add: hex_literal_def bytesToHex_def hex_bytes_is_hex)

lemma hexToBytes_bytesToHex [simp]: "hexToBytes (bytesToHex bs) = Some bs"
  by (simp add: hexToBytes_def bytesToHex_def hex_bytes_is_hex)

lemma hexToBytes_literal: "hex_literal n s \<Longrightarrow> even n \<Longrightarrow> \<exists>bs. hexToBytes s = Some bs \<and> length bs = n div 2"
  by (auto simp: hex_literal_def hexToBytes_def length_hex_pairs)

section \<open>Text encoding\<close>

text \<open>\<open>TextEncoder.encode\<close>: a string is already carried as its UTF-8 bytes.\<close>

definition char_byte :: "char \<Rightarrow> u8" where
  "char_byte c = word_of_nat (of_char c)"

definition byte_char :: "u8 \<Rightarrow> char" where
  "byte_char b = char_of (unat b)"

definition text_encode :: "string \<Rightarrow> u8 list" where
  "text_encode s = map char_byte s"

definition utf8_cont :: "nat \<Rightarrow> bool" where
  "utf8_cont n \<longleftrightarrow> 128 \<le> n \<and> n < 192"

text \<open>Well-formed UTF-8: what a fatal \<open>TextDecoder\<close> accepts.\<close>

fun utf8_ok :: "nat list \<Rightarrow> bool" where
  "utf8_ok [] = True"
| "utf8_ok (a # bs) =
     (if a < 128 then utf8_ok bs
      else if 194 \<le> a \<and> a \<le> 223 then
        (case bs of b # cs \<Rightarrow> utf8_cont b \<and> utf8_ok cs | _ \<Rightarrow> False)
      else if 224 \<le> a \<and> a \<le> 239 then
        (case bs of b # c # ds \<Rightarrow>
           (if a = 224 then 160 else 128) \<le> b \<and> b < (if a = 237 then 160 else 192)
           \<and> utf8_cont c \<and> utf8_ok ds
         | _ \<Rightarrow> False)
      else if 240 \<le> a \<and> a \<le> 244 then
        (case bs of b # c # d # es \<Rightarrow>
           (if a = 240 then 144 else 128) \<le> b \<and> b < (if a = 244 then 144 else 192)
           \<and> utf8_cont c \<and> utf8_cont d \<and> utf8_ok es
         | _ \<Rightarrow> False)
      else False)"

definition utf8_bom :: "u8 list" where
  "utf8_bom = [0xEF, 0xBB, 0xBF]"

text \<open>
  \<open>new TextDecoder('utf-8', { fatal: true }).decode\<close>: \<open>ignoreBOM\<close> is left at its default, so a leading
  byte-order mark is consumed and is not part of the decoded string.
\<close>

definition text_decode :: "u8 list \<Rightarrow> string option" where
  "text_decode bs =
     (let rest = (if take 3 bs = utf8_bom then drop 3 bs else bs)
      in if utf8_ok (map unat rest) then Some (map byte_char rest) else None)"

lemma unat_char_byte [simp]: "unat (char_byte c) = of_char c"
proof -
  have "(of_char c :: nat) < 256" by simp
  then show ?thesis by (simp add: char_byte_def unat_of_nat)
qed

lemma byte_char_char_byte [simp]: "byte_char (char_byte c) = c"
  by (simp add: byte_char_def)

lemma char_byte_byte_char [simp]: "char_byte (byte_char b) = b"
  by (simp add: byte_char_def char_byte_def)

lemma char_byte_inj [simp]: "char_byte c = char_byte d \<longleftrightarrow> c = d"
  by (metis byte_char_char_byte)

lemma length_text_encode [simp]: "length (text_encode s) = length s"
  by (simp add: text_encode_def)

lemma utf8_ok_ascii: "list_all (\<lambda>n. n < 128) ns \<Longrightarrow> utf8_ok ns"
  by (induction ns) auto

lemma text_decode_encode:
  assumes "is_ascii s"
  shows "text_decode (text_encode s) = Some s"
proof -
  have "take 3 (text_encode s) \<noteq> utf8_bom"
  proof
    assume e: "take 3 (text_encode s) = utf8_bom"
    then obtain c t where s: "s = c # t" by (cases s) (auto simp: text_encode_def utf8_bom_def)
    with e have "char_byte c = 0xEF" by (simp add: text_encode_def utf8_bom_def)
    then have "(of_char c :: nat) = 239" by (simp flip: unat_char_byte)
    with assms s show False by (simp add: is_ascii_def)
  qed
  moreover have "utf8_ok (map unat (text_encode s))"
    using assms by (intro utf8_ok_ascii) (simp add: text_encode_def list_all_iff is_ascii_def)
  ultimately show ?thesis by (simp add: text_decode_def text_encode_def comp_def)
qed

text \<open>Without a byte-order mark the decoder reads back exactly the bytes it was given.\<close>

lemma text_encode_decode: "text_decode bs = Some s \<Longrightarrow> take 3 bs \<noteq> utf8_bom \<Longrightarrow> text_encode s = bs"
  by (auto simp: text_decode_def text_encode_def comp_def split: if_splits)

section \<open>Primitive writers (encoding/writer.ts)\<close>

text \<open>The chunks a \<open>ByteWriter\<close> was given, in order; \<^term>\<open>None\<close> as soon as one of them threw.\<close>

fun wcat :: "u8 list option list \<Rightarrow> u8 list option" where
  "wcat [] = Some []"
| "wcat (None # ws) = None"
| "wcat (Some b # ws) = map_option ((@) b) (wcat ws)"

definition tag_char :: "char \<Rightarrow> bool" where
  "tag_char c = (let n = (of_char c :: nat) in (65 \<le> n \<and> n \<le> 90) \<or> (48 \<le> n \<and> n \<le> 57) \<or> n = 46)"

definition wr_tag :: "string \<Rightarrow> u8 list option" where
  "wr_tag t = (if t \<noteq> [] \<and> list_all tag_char t then Some (text_encode t) else None)"

definition wr_uint :: "int \<Rightarrow> nat \<Rightarrow> u8 list option" where
  "wr_uint v n = (if v < 0 then None else if v > 2 ^ (n * 8) - 1 then None else Some (be_bytes n v))"

definition wr_u8 :: "int \<Rightarrow> u8 list option" where "wr_u8 v = wr_uint v 1"
definition wr_u16 :: "int \<Rightarrow> u8 list option" where "wr_u16 v = wr_uint v 2"
definition wr_u32 :: "int \<Rightarrow> u8 list option" where "wr_u32 v = wr_uint v 4"
definition wr_u64 :: "int \<Rightarrow> u8 list option" where "wr_u64 v = wr_uint v 8"
definition wr_u256 :: "int \<Rightarrow> u8 list option" where "wr_u256 v = wr_uint v 32"

definition wr_i64 :: "int \<Rightarrow> u8 list option" where
  "wr_i64 v = (if v < - (2 ^ 63) \<or> v > 2 ^ 63 - 1 then None
               else wr_uint (if v < 0 then v + 2 ^ 64 else v) 8)"

definition wr_str :: "string \<Rightarrow> u8 list option" where
  "wr_str s = (let bytes = text_encode s
     in if length bytes > 1024 then None else wcat [wr_u16 (int (length bytes)), Some bytes])"

definition wr_bytes32 :: "u8 list \<Rightarrow> u8 list option" where
  "wr_bytes32 b = (if length b \<noteq> 32 then None else Some b)"

text \<open>\<open>a < b\<close> on strings, and the order of identifiers as their length-prefixed encodings compare.\<close>

fun str_less :: "string \<Rightarrow> string \<Rightarrow> bool" where
  "str_less [] [] = False"
| "str_less [] (_ # _) = True"
| "str_less (_ # _) [] = False"
| "str_less (a # as) (b # bs) =
     ((of_char a :: nat) < of_char b \<or> (a = b \<and> str_less as bs))"

definition compareStrings :: "string \<Rightarrow> string \<Rightarrow> int" where
  "compareStrings a b = (if str_less a b then -1 else if str_less b a then 1 else 0)"

definition compareIdentifierBytes :: "string \<Rightarrow> string \<Rightarrow> int" where
  "compareIdentifierBytes a b =
     (if js_length a \<noteq> js_length b then (if js_length a < js_length b then -1 else 1)
      else if str_less a b then -1 else if str_less b a then 1 else 0)"

definition writeIdentifierSet :: "string list \<Rightarrow> u8 list option" where
  "writeIdentifierSet values =
     (let s = js_sort compareIdentifierBytes values
      in wcat (wr_u16 (int (length s)) # map wr_str s))"

section \<open>Primitive readers (encoding/reader.ts)\<close>

type_synonym 'a reader = "u8 list \<Rightarrow> ('a \<times> u8 list) option"

definition rd_raw :: "nat \<Rightarrow> u8 list reader" where
  "rd_raw n bs = (if length bs < n then None else Some (take n bs, drop n bs))"

definition rd_tag :: "string \<Rightarrow> unit reader" where
  "rd_tag expected bs = do {
     (b, bs) \<leftarrow> rd_raw (length expected) bs;
     if b = text_encode expected then Some ((), bs) else None }"

definition rd_uint :: "nat \<Rightarrow> int reader" where
  "rd_uint n bs = do { (b, bs) \<leftarrow> rd_raw n bs; Some (be_val b, bs) }"

definition rd_u8 :: "int reader" where "rd_u8 = rd_uint 1"
definition rd_u16 :: "int reader" where "rd_u16 = rd_uint 2"
definition rd_u32 :: "int reader" where "rd_u32 = rd_uint 4"
definition rd_u64 :: "int reader" where "rd_u64 = rd_uint 8"
definition rd_u256 :: "int reader" where "rd_u256 = rd_uint 32"

definition rd_i64 :: "int reader" where
  "rd_i64 bs = do {
     (raw, bs) \<leftarrow> rd_uint 8 bs;
     Some (if raw \<ge> 2 ^ 63 then raw - 2 ^ 64 else raw, bs) }"

definition rd_str :: "string reader" where
  "rd_str bs = do {
     (n, bs) \<leftarrow> rd_u16 bs;
     (b, bs) \<leftarrow> rd_raw (nat n) bs;
     s \<leftarrow> text_decode b;
     Some (s, bs) }"

definition rd_bytes32 :: "u8 list reader" where
  "rd_bytes32 = rd_raw 32"

section \<open>Writer and reader laws\<close>

lemma wcat_eq_Some: "wcat ws = Some b \<longleftrightarrow> (\<exists>cs. ws = map Some cs \<and> b = concat cs)"
proof (induction ws arbitrary: b rule: wcat.induct)
  case (3 c ws)
  have "map Some (c # cs) = Some c # map Some cs" for cs by simp
  with 3 show ?case by (auto simp: Cons_eq_map_conv)
qed auto

lemma wcat_map_Some [simp]: "wcat (map Some cs) = Some (concat cs)"
  by (auto simp: wcat_eq_Some)

lemma wcat_Cons_eq_Some:
  "wcat (w # ws) = Some b \<longleftrightarrow> (\<exists>c d. w = Some c \<and> wcat ws = Some d \<and> b = c @ d)"
  by (cases w) auto

lemma wcat_neq_None: "list_all (\<lambda>w. w \<noteq> None) ws \<Longrightarrow> wcat ws \<noteq> None"
  by (induction ws rule: wcat.induct) auto

lemma pow256: "(2::int) ^ (n * 8) = 256 ^ n"
proof -
  have "(2::int) ^ (n * 8) = (2 ^ 8) ^ n" by (simp only: power_mult mult.commute [of n])
  then show ?thesis by simp
qed

lemma rd_raw_append [simp]: "length b = n \<Longrightarrow> rd_raw n (b @ rest) = Some (b, rest)"
  by (simp add: rd_raw_def)

lemma rd_raw_inv: "rd_raw n bs = Some (b, rest) \<Longrightarrow> bs = b @ rest \<and> length b = n"
  by (auto simp: rd_raw_def split: if_splits)

lemma wr_uint_Some: "wr_uint v n = Some b \<longleftrightarrow> 0 \<le> v \<and> v < 256 ^ n \<and> b = be_bytes n v"
  by (auto simp: wr_uint_def pow256)

lemma rd_uint_wr: "wr_uint v n = Some b \<Longrightarrow> rd_uint n (b @ rest) = Some (v, rest)"
  by (simp add: wr_uint_Some rd_uint_def be_val_be_bytes)

lemma rd_uint_inv: "rd_uint n bs = Some (v, rest) \<Longrightarrow> \<exists>b. wr_uint v n = Some b \<and> bs = b @ rest"
proof -
  assume "rd_uint n bs = Some (v, rest)"
  then obtain b where b: "rd_raw n bs = Some (b, rest)" "v = be_val b"
    by (auto simp: rd_uint_def bind_eq_Some_conv)
  from rd_raw_inv [OF b(1)] have "bs = b @ rest" "length b = n" by auto
  with b(2) be_val_bounds [of b] be_bytes_be_val [of b] show ?thesis
    by (auto simp: wr_uint_Some)
qed

lemmas uint_widths = wr_u8_def wr_u16_def wr_u32_def wr_u64_def wr_u256_def
  rd_u8_def rd_u16_def rd_u32_def rd_u64_def rd_u256_def

lemma rd_wr_uints [rd_wr]:
  "wr_u8 v = Some b \<Longrightarrow> rd_u8 (b @ rest) = Some (v, rest)"
  "wr_u16 v = Some b \<Longrightarrow> rd_u16 (b @ rest) = Some (v, rest)"
  "wr_u32 v = Some b \<Longrightarrow> rd_u32 (b @ rest) = Some (v, rest)"
  "wr_u64 v = Some b \<Longrightarrow> rd_u64 (b @ rest) = Some (v, rest)"
  "wr_u256 v = Some b \<Longrightarrow> rd_u256 (b @ rest) = Some (v, rest)"
  by (simp_all add: uint_widths rd_uint_wr)

lemma rd_inv_uints [rd_inv]:
  "rd_u8 bs = Some (v, rest) \<Longrightarrow> \<exists>b. wr_u8 v = Some b \<and> bs = b @ rest"
  "rd_u16 bs = Some (v, rest) \<Longrightarrow> \<exists>b. wr_u16 v = Some b \<and> bs = b @ rest"
  "rd_u32 bs = Some (v, rest) \<Longrightarrow> \<exists>b. wr_u32 v = Some b \<and> bs = b @ rest"
  "rd_u64 bs = Some (v, rest) \<Longrightarrow> \<exists>b. wr_u64 v = Some b \<and> bs = b @ rest"
  "rd_u256 bs = Some (v, rest) \<Longrightarrow> \<exists>b. wr_u256 v = Some b \<and> bs = b @ rest"
  by (simp_all add: uint_widths rd_uint_inv)

lemma wr_uints_None [simp]:
  "wr_u8 v = None \<longleftrightarrow> \<not> (0 \<le> v \<and> v < 2 ^ 8)"
  "wr_u16 v = None \<longleftrightarrow> \<not> (0 \<le> v \<and> v < 2 ^ 16)"
  "wr_u32 v = None \<longleftrightarrow> \<not> (0 \<le> v \<and> v < 2 ^ 32)"
  "wr_u64 v = None \<longleftrightarrow> \<not> (0 \<le> v \<and> v < 2 ^ 64)"
  "wr_u256 v = None \<longleftrightarrow> \<not> (0 \<le> v \<and> v < 2 ^ 256)"
  "wr_i64 v = None \<longleftrightarrow> \<not> (- (2 ^ 63) \<le> v \<and> v < 2 ^ 63)"
  by (auto simp: uint_widths wr_uint_def wr_i64_def)

lemma rd_wr_i64 [rd_wr]: "wr_i64 v = Some b \<Longrightarrow> rd_i64 (b @ rest) = Some (v, rest)"
  by (auto simp: wr_i64_def rd_i64_def rd_uint_wr split: if_splits)

lemma rd_inv_i64 [rd_inv]: "rd_i64 bs = Some (v, rest) \<Longrightarrow> \<exists>b. wr_i64 v = Some b \<and> bs = b @ rest"
proof -
  assume "rd_i64 bs = Some (v, rest)"
  then obtain raw where raw: "rd_uint 8 bs = Some (raw, rest)"
    and v: "v = (if raw \<ge> 2 ^ 63 then raw - 2 ^ 64 else raw)"
    by (auto simp: rd_i64_def bind_eq_Some_conv)
  from rd_uint_inv [OF raw] obtain b where b: "wr_uint raw 8 = Some b" "bs = b @ rest" by blast
  from b(1) have "0 \<le> raw" "raw < 2 ^ 64" by (auto simp: wr_uint_Some)
  with v b show ?thesis by (auto simp: wr_i64_def)
qed

lemma rd_wr_bytes32 [rd_wr]: "wr_bytes32 v = Some b \<Longrightarrow> rd_bytes32 (b @ rest) = Some (v, rest)"
  by (simp add: wr_bytes32_def rd_bytes32_def split: if_splits)

lemma rd_inv_bytes32 [rd_inv]:
  "rd_bytes32 bs = Some (v, rest) \<Longrightarrow> \<exists>b. wr_bytes32 v = Some b \<and> bs = b @ rest \<and> length v = 32"
  by (auto simp: wr_bytes32_def rd_bytes32_def dest!: rd_raw_inv)

lemma rd_wr_tag [rd_wr]: "wr_tag t = Some b \<Longrightarrow> rd_tag t (b @ rest) = Some ((), rest)"
  by (auto simp: wr_tag_def rd_tag_def split: if_splits)

lemma rd_inv_tag: "rd_tag t bs = Some (u, rest) \<Longrightarrow> bs = text_encode t @ rest"
  by (auto simp: rd_tag_def bind_eq_Some_conv dest!: rd_raw_inv split: if_splits)

lemma rd_wr_str [rd_wr]:
  assumes "wr_str s = Some b" "is_ascii s"
  shows "rd_str (b @ rest) = Some (s, rest)"
proof -
  from assms(1) obtain c where c: "wr_u16 (int (length s)) = Some c" "b = c @ text_encode s"
    by (auto simp: wr_str_def Let_def wcat_Cons_eq_Some split: if_splits)
  with assms(2) show ?thesis
    by (simp add: rd_str_def rd_wr text_decode_encode)
qed

text \<open>A byte-order mark at the start of a string's bytes is what the reader does not give back.\<close>

definition no_bom :: "u8 list \<Rightarrow> bool" where
  "no_bom bs \<longleftrightarrow> (\<forall>i. take 3 (drop i bs) \<noteq> utf8_bom)"

lemma no_bom_append: "no_bom (a @ b) \<Longrightarrow> no_bom a \<and> no_bom b"
proof -
  assume nb: "no_bom (a @ b)"
  have "take 3 (drop i a) \<noteq> utf8_bom" for i
  proof
    assume e: "take 3 (drop i a) = utf8_bom"
    then have "length (take 3 (drop i a)) = 3" by (simp add: utf8_bom_def)
    then have "3 \<le> length (drop i a)" by simp
    then have "take 3 (drop i (a @ b)) = take 3 (drop i a)" by simp
    with e nb show False by (metis no_bom_def)
  qed
  moreover have "take 3 (drop i b) \<noteq> utf8_bom" for i
    using nb unfolding no_bom_def by (metis add.commute append_eq_conv_conj drop_drop)
  ultimately show ?thesis by (simp add: no_bom_def)
qed

lemma rd_inv_str:
  assumes "rd_str bs = Some (s, rest)" "no_bom bs" "length s \<le> 1024"
  shows "\<exists>b. wr_str s = Some b \<and> bs = b @ rest"
proof -
  from assms(1) obtain n bs1 b where n: "rd_u16 bs = Some (n, bs1)"
    and b: "rd_raw (nat n) bs1 = Some (b, rest)" and s: "text_decode b = Some s"
    by (auto simp: rd_str_def bind_eq_Some_conv)
  from rd_inv(2) [OF n] obtain c where c: "wr_u16 n = Some c" "bs = c @ bs1" by blast
  from rd_raw_inv [OF b] have b': "bs1 = b @ rest" "length b = nat n" by auto
  with assms(2) c have "no_bom b" by (auto dest: no_bom_append)
  then have "take 3 b \<noteq> utf8_bom" by (metis drop_0 no_bom_def)
  with s have e: "text_encode s = b" by (rule text_encode_decode)
  moreover from c(1) have "0 \<le> n" by (auto simp: wr_u16_def wr_uint_Some)
  ultimately have "int (length s) = n" using b' by (metis int_nat_eq length_text_encode)
  with e b' c assms(3) show ?thesis by (auto simp: wr_str_def Let_def)
qed

lemma wr_str_None [simp]: "wr_str s = None \<longleftrightarrow> 1024 < length s"
proof (cases "1024 < length s")
  case True
  then show ?thesis by (simp add: wr_str_def)
next
  case False
  then have "wr_u16 (int (length s)) \<noteq> None" by (simp only: wr_uints_None) simp
  then obtain c where "wr_u16 (int (length s)) = Some c" by blast
  with False show ?thesis by (simp add: wr_str_def)
qed

lemma wr_bytes32_None [simp]: "wr_bytes32 b = None \<longleftrightarrow> length b \<noteq> 32"
  by (simp add: wr_bytes32_def)

section \<open>The identifier order is total\<close>

lemma str_less_irrefl [simp]: "\<not> str_less a a"
  by (induction a) auto

lemma str_less_trans: "str_less a b \<Longrightarrow> str_less b c \<Longrightarrow> str_less a c"
proof (induction a b arbitrary: c rule: str_less.induct)
  case (4 a as b bs)
  then show ?case by (cases c) auto
next
  case (2 b bs)
  then show ?case by (cases c) auto
qed auto

lemma str_less_total: "str_less a b \<or> a = b \<or> str_less b a"
proof (induction a b rule: str_less.induct)
  case (4 a as b bs)
  have "(of_char a :: nat) = of_char b \<Longrightarrow> a = b" by (metis char_of_char)
  with 4 show ?case by auto
qed auto

lemma compareStrings_le: "compareStrings a b \<le> 0 \<longleftrightarrow> a = b \<or> str_less a b"
proof -
  have "\<not> (str_less a b \<and> str_less b a)" by (metis str_less_irrefl str_less_trans)
  then show ?thesis using str_less_total [of a b] by (auto simp: compareStrings_def)
qed

interpretation str_cmp: comparator compareStrings
proof
  fix a b c :: string
  show "compareStrings a b \<le> 0 \<or> compareStrings b a \<le> 0"
    using str_less_total [of a b] by (auto simp: compareStrings_le)
  show "compareStrings a b \<le> 0 \<Longrightarrow> compareStrings b c \<le> 0 \<Longrightarrow> compareStrings a c \<le> 0"
    by (auto simp: compareStrings_le intro: str_less_trans)
  show "compareStrings a b \<le> 0 \<Longrightarrow> compareStrings b a \<le> 0 \<Longrightarrow> a = b"
    using str_less_trans [of a b a] by (auto simp: compareStrings_le)
qed

lemma compareIdentifierBytes_le:
  "compareIdentifierBytes a b \<le> 0 \<longleftrightarrow>
     js_length a < js_length b \<or> (js_length a = js_length b \<and> compareStrings a b \<le> 0)"
  by (auto simp: compareIdentifierBytes_def compareStrings_def)

interpretation id_cmp: comparator compareIdentifierBytes
proof
  fix a b c :: string
  show "compareIdentifierBytes a b \<le> 0 \<or> compareIdentifierBytes b a \<le> 0"
    using str_cmp.cmp_total [of a b] by (auto simp: compareIdentifierBytes_le)
  show "compareIdentifierBytes a b \<le> 0 \<Longrightarrow> compareIdentifierBytes b c \<le> 0 \<Longrightarrow> compareIdentifierBytes a c \<le> 0"
    by (auto simp: compareIdentifierBytes_le intro: str_cmp.cmp_trans)
  show "compareIdentifierBytes a b \<le> 0 \<Longrightarrow> compareIdentifierBytes b a \<le> 0 \<Longrightarrow> a = b"
    by (auto simp: compareIdentifierBytes_le intro: str_cmp.cmp_antisym)
qed

end
