(* ===== verification/Values.thy ===== *)
theory Values
  imports Wire
begin

text \<open>
  The value types of \<open>packages/kernel\<close> that carry no protocol logic of their own: the reason-code
  registry (\<open>reason-codes.ts\<close>), identifiers and asset references (\<open>identifiers.ts\<close>), fixed-width hex
  (\<open>parseBytes32\<close> of \<open>bytes.ts\<close>) and time (\<open>time.ts\<close>). Each parser takes a JavaScript value and
  is characterised by one lemma saying exactly which values it accepts.
\<close>

section \<open>The reason-code registry (reason-codes.ts)\<close>

datatype (plugins only: code) reason_code =
    MALFORMED_MANDATE | UNSUPPORTED_MANDATE_VERSION | MALFORMED_CANDIDATE | MALFORMED_TRUSTED_STATE
     | MALFORMED_AUTHORIZATION | MALFORMED_IDENTIFIER | RESOURCE_LIMIT_EXCEEDED | UNIT_MISMATCH
     | VALUE_OUT_OF_RANGE | NOTIONAL_INCONSISTENT | VERIFIER_INTERNAL_ERROR | MANDATE_EXPIRED
     | MANDATE_NOT_YET_ACTIVE | SIGNATURE_INVALID | SIGNER_UNAUTHORIZED | MANDATE_QUARANTINED
     | AGENT_UNAUTHORIZED | MANDATE_ALREADY_CONSUMED | MANDATE_RESERVED | REPLAY_STATE_UNKNOWN
     | AUTHORIZATION_SCHEME_UNSUPPORTED | AUTHORIZATION_DOMAIN_MISMATCH | CANONICAL_ASSET_MISMATCH
     | REPRESENTATION_ASSET_MISMATCH | REPRESENTATION_UNKNOWN | ISSUER_NOT_ALLOWED
     | SYNTHETIC_NOT_ALLOWED | REPRESENTATION_INACTIVE | REPRESENTATION_METADATA_UNKNOWN
     | REPRESENTATION_CHAIN_INCONSISTENT | REPRESENTATION_ATTRIBUTES_MISMATCH
     | MAX_NOTIONAL_EXCEEDED | PRICE_DEVIATION_EXCEEDED | SIDE_MISMATCH | TOTAL_DEBIT_EXCEEDED
     | TOTAL_CREDIT_BELOW_MINIMUM | FEES_EXCEED_NOTIONAL | PRICE_STATE_STALE
     | CORPORATE_ACTION_STATE_CHANGED | CORPORATE_ACTION_STATE_INCONSISTENT | TRADING_HALTED
     | MARKET_STATE_UNKNOWN | CORPORATE_ACTION_STATE_UNKNOWN | CORPORATE_ACTION_STATE_STALE
     | CANDIDATE_STATE_MISMATCH | REGISTRY_SNAPSHOT_MISMATCH | REGISTRY_SNAPSHOT_UNKNOWN
     | CHAIN_NOT_ALLOWED | VENUE_NOT_ALLOWED | UNTRUSTED_REQUIRED_STATE | TRUSTED_STATE_MISSING

datatype reason_family =
    Fam_INPUT | Fam_AUTH | Fam_ASSET | Fam_REPR | Fam_ECON | Fam_STATE | Fam_NET | Fam_TRUST

datatype enforcement_point =
    A_MANDATE_INTEGRITY | B_AUTHORIZATION_SCOPE | C_ASSET_IDENTITY | D_REPRESENTATION_SEMANTICS
  | E_ECONOMIC_BOUNDS | F_MARKET_AND_CORPORATE_ACTION_STATE | G_INTENT_FIDELITY

text \<open>
  \<open>DEFINITIONS\<close>: every code with its permanent id, its symbolic name, its family and its enforcement
  point. The two message texts of a row are display data and are left out.
\<close>

type_synonym reason_row = "reason_code \<times> string \<times> string \<times> reason_family \<times> enforcement_point"

definition INPUT_DEFINITIONS :: "reason_row list" where
  "INPUT_DEFINITIONS = [
    (MALFORMED_MANDATE, ''MND-INPUT-001'', ''MALFORMED_MANDATE'', Fam_INPUT, A_MANDATE_INTEGRITY),
    (UNSUPPORTED_MANDATE_VERSION, ''MND-INPUT-002'', ''UNSUPPORTED_MANDATE_VERSION'', Fam_INPUT, A_MANDATE_INTEGRITY),
    (MALFORMED_CANDIDATE, ''MND-INPUT-003'', ''MALFORMED_CANDIDATE'', Fam_INPUT, G_INTENT_FIDELITY),
    (MALFORMED_TRUSTED_STATE, ''MND-INPUT-004'', ''MALFORMED_TRUSTED_STATE'', Fam_INPUT, F_MARKET_AND_CORPORATE_ACTION_STATE),
    (MALFORMED_AUTHORIZATION, ''MND-INPUT-005'', ''MALFORMED_AUTHORIZATION'', Fam_INPUT, A_MANDATE_INTEGRITY),
    (MALFORMED_IDENTIFIER, ''MND-INPUT-006'', ''MALFORMED_IDENTIFIER'', Fam_INPUT, A_MANDATE_INTEGRITY),
    (RESOURCE_LIMIT_EXCEEDED, ''MND-INPUT-011'', ''RESOURCE_LIMIT_EXCEEDED'', Fam_INPUT, F_MARKET_AND_CORPORATE_ACTION_STATE),
    (UNIT_MISMATCH, ''MND-INPUT-007'', ''UNIT_MISMATCH'', Fam_INPUT, E_ECONOMIC_BOUNDS),
    (VALUE_OUT_OF_RANGE, ''MND-INPUT-008'', ''VALUE_OUT_OF_RANGE'', Fam_INPUT, E_ECONOMIC_BOUNDS),
    (NOTIONAL_INCONSISTENT, ''MND-INPUT-009'', ''NOTIONAL_INCONSISTENT'', Fam_INPUT, E_ECONOMIC_BOUNDS),
    (VERIFIER_INTERNAL_ERROR, ''MND-INPUT-010'', ''VERIFIER_INTERNAL_ERROR'', Fam_INPUT, A_MANDATE_INTEGRITY)]"

definition AUTH_DEFINITIONS :: "reason_row list" where
  "AUTH_DEFINITIONS = [
    (MANDATE_EXPIRED, ''MND-AUTH-001'', ''MANDATE_EXPIRED'', Fam_AUTH, B_AUTHORIZATION_SCOPE),
    (MANDATE_NOT_YET_ACTIVE, ''MND-AUTH-002'', ''MANDATE_NOT_YET_ACTIVE'', Fam_AUTH, B_AUTHORIZATION_SCOPE),
    (SIGNATURE_INVALID, ''MND-AUTH-003'', ''SIGNATURE_INVALID'', Fam_AUTH, A_MANDATE_INTEGRITY),
    (SIGNER_UNAUTHORIZED, ''MND-AUTH-004'', ''SIGNER_UNAUTHORIZED'', Fam_AUTH, B_AUTHORIZATION_SCOPE),
    (MANDATE_QUARANTINED, ''MND-AUTH-011'', ''MANDATE_QUARANTINED'', Fam_AUTH, B_AUTHORIZATION_SCOPE),
    (AGENT_UNAUTHORIZED, ''MND-AUTH-005'', ''AGENT_UNAUTHORIZED'', Fam_AUTH, B_AUTHORIZATION_SCOPE),
    (MANDATE_ALREADY_CONSUMED, ''MND-AUTH-006'', ''MANDATE_ALREADY_CONSUMED'', Fam_AUTH, B_AUTHORIZATION_SCOPE),
    (MANDATE_RESERVED, ''MND-AUTH-010'', ''MANDATE_RESERVED'', Fam_AUTH, B_AUTHORIZATION_SCOPE),
    (REPLAY_STATE_UNKNOWN, ''MND-AUTH-007'', ''REPLAY_STATE_UNKNOWN'', Fam_AUTH, B_AUTHORIZATION_SCOPE),
    (AUTHORIZATION_SCHEME_UNSUPPORTED, ''MND-AUTH-008'', ''AUTHORIZATION_SCHEME_UNSUPPORTED'', Fam_AUTH, A_MANDATE_INTEGRITY),
    (AUTHORIZATION_DOMAIN_MISMATCH, ''MND-AUTH-009'', ''AUTHORIZATION_DOMAIN_MISMATCH'', Fam_AUTH, A_MANDATE_INTEGRITY)]"

definition ASSET_DEFINITIONS :: "reason_row list" where
  "ASSET_DEFINITIONS = [
    (CANONICAL_ASSET_MISMATCH, ''MND-ASSET-001'', ''CANONICAL_ASSET_MISMATCH'', Fam_ASSET, C_ASSET_IDENTITY),
    (REPRESENTATION_ASSET_MISMATCH, ''MND-ASSET-002'', ''REPRESENTATION_ASSET_MISMATCH'', Fam_ASSET, C_ASSET_IDENTITY),
    (REPRESENTATION_UNKNOWN, ''MND-ASSET-003'', ''REPRESENTATION_UNKNOWN'', Fam_ASSET, C_ASSET_IDENTITY)]"

definition REPR_DEFINITIONS :: "reason_row list" where
  "REPR_DEFINITIONS = [
    (ISSUER_NOT_ALLOWED, ''MND-REPR-001'', ''ISSUER_NOT_ALLOWED'', Fam_REPR, D_REPRESENTATION_SEMANTICS),
    (SYNTHETIC_NOT_ALLOWED, ''MND-REPR-002'', ''SYNTHETIC_NOT_ALLOWED'', Fam_REPR, D_REPRESENTATION_SEMANTICS),
    (REPRESENTATION_INACTIVE, ''MND-REPR-003'', ''REPRESENTATION_INACTIVE'', Fam_REPR, D_REPRESENTATION_SEMANTICS),
    (REPRESENTATION_METADATA_UNKNOWN, ''MND-REPR-004'', ''REPRESENTATION_METADATA_UNKNOWN'', Fam_REPR, D_REPRESENTATION_SEMANTICS),
    (REPRESENTATION_CHAIN_INCONSISTENT, ''MND-REPR-006'', ''REPRESENTATION_CHAIN_INCONSISTENT'', Fam_REPR, C_ASSET_IDENTITY),
    (REPRESENTATION_ATTRIBUTES_MISMATCH, ''MND-REPR-005'', ''REPRESENTATION_ATTRIBUTES_MISMATCH'', Fam_REPR, G_INTENT_FIDELITY)]"

definition ECON_DEFINITIONS :: "reason_row list" where
  "ECON_DEFINITIONS = [
    (MAX_NOTIONAL_EXCEEDED, ''MND-ECON-001'', ''MAX_NOTIONAL_EXCEEDED'', Fam_ECON, E_ECONOMIC_BOUNDS),
    (PRICE_DEVIATION_EXCEEDED, ''MND-ECON-002'', ''PRICE_DEVIATION_EXCEEDED'', Fam_ECON, E_ECONOMIC_BOUNDS),
    (SIDE_MISMATCH, ''MND-ECON-003'', ''SIDE_MISMATCH'', Fam_ECON, G_INTENT_FIDELITY),
    (TOTAL_DEBIT_EXCEEDED, ''MND-ECON-004'', ''TOTAL_DEBIT_EXCEEDED'', Fam_ECON, E_ECONOMIC_BOUNDS),
    (TOTAL_CREDIT_BELOW_MINIMUM, ''MND-ECON-005'', ''TOTAL_CREDIT_BELOW_MINIMUM'', Fam_ECON, E_ECONOMIC_BOUNDS),
    (FEES_EXCEED_NOTIONAL, ''MND-ECON-006'', ''FEES_EXCEED_NOTIONAL'', Fam_ECON, E_ECONOMIC_BOUNDS)]"

definition STATE_DEFINITIONS :: "reason_row list" where
  "STATE_DEFINITIONS = [
    (PRICE_STATE_STALE, ''MND-STATE-001'', ''PRICE_STATE_STALE'', Fam_STATE, F_MARKET_AND_CORPORATE_ACTION_STATE),
    (CORPORATE_ACTION_STATE_CHANGED, ''MND-STATE-002'', ''CORPORATE_ACTION_STATE_CHANGED'', Fam_STATE, F_MARKET_AND_CORPORATE_ACTION_STATE),
    (CORPORATE_ACTION_STATE_INCONSISTENT, ''MND-STATE-003'', ''CORPORATE_ACTION_STATE_INCONSISTENT'', Fam_STATE, F_MARKET_AND_CORPORATE_ACTION_STATE),
    (TRADING_HALTED, ''MND-STATE-004'', ''TRADING_HALTED'', Fam_STATE, F_MARKET_AND_CORPORATE_ACTION_STATE),
    (MARKET_STATE_UNKNOWN, ''MND-STATE-005'', ''MARKET_STATE_UNKNOWN'', Fam_STATE, F_MARKET_AND_CORPORATE_ACTION_STATE),
    (CORPORATE_ACTION_STATE_UNKNOWN, ''MND-STATE-007'', ''CORPORATE_ACTION_STATE_UNKNOWN'', Fam_STATE, F_MARKET_AND_CORPORATE_ACTION_STATE),
    (CORPORATE_ACTION_STATE_STALE, ''MND-STATE-008'', ''CORPORATE_ACTION_STATE_STALE'', Fam_STATE, F_MARKET_AND_CORPORATE_ACTION_STATE),
    (CANDIDATE_STATE_MISMATCH, ''MND-STATE-006'', ''CANDIDATE_STATE_MISMATCH'', Fam_STATE, G_INTENT_FIDELITY),
    (REGISTRY_SNAPSHOT_MISMATCH, ''MND-STATE-009'', ''REGISTRY_SNAPSHOT_MISMATCH'', Fam_STATE, G_INTENT_FIDELITY),
    (REGISTRY_SNAPSHOT_UNKNOWN, ''MND-STATE-010'', ''REGISTRY_SNAPSHOT_UNKNOWN'', Fam_STATE, G_INTENT_FIDELITY)]"

definition NET_DEFINITIONS :: "reason_row list" where
  "NET_DEFINITIONS = [
    (CHAIN_NOT_ALLOWED, ''MND-NET-001'', ''CHAIN_NOT_ALLOWED'', Fam_NET, C_ASSET_IDENTITY),
    (VENUE_NOT_ALLOWED, ''MND-NET-002'', ''VENUE_NOT_ALLOWED'', Fam_NET, G_INTENT_FIDELITY)]"

definition TRUST_DEFINITIONS :: "reason_row list" where
  "TRUST_DEFINITIONS = [
    (UNTRUSTED_REQUIRED_STATE, ''MND-TRUST-001'', ''UNTRUSTED_REQUIRED_STATE'', Fam_TRUST, F_MARKET_AND_CORPORATE_ACTION_STATE),
    (TRUSTED_STATE_MISSING, ''MND-TRUST-002'', ''TRUSTED_STATE_MISSING'', Fam_TRUST, F_MARKET_AND_CORPORATE_ACTION_STATE)]"

definition DEFINITIONS :: "reason_row list" where
  "DEFINITIONS = INPUT_DEFINITIONS @
     AUTH_DEFINITIONS @
     ASSET_DEFINITIONS @
     REPR_DEFINITIONS @
     ECON_DEFINITIONS @
     STATE_DEFINITIONS @
     NET_DEFINITIONS @
     TRUST_DEFINITIONS"

lemmas reason_rows = DEFINITIONS_def INPUT_DEFINITIONS_def AUTH_DEFINITIONS_def ASSET_DEFINITIONS_def REPR_DEFINITIONS_def ECON_DEFINITIONS_def STATE_DEFINITIONS_def NET_DEFINITIONS_def TRUST_DEFINITIONS_def append_Cons append_Nil

text \<open>\<open>reasonCode(name)\<close>, by the map \<open>BY_NAME\<close>; the lookup of a registered name never fails.\<close>

definition reasonCode :: "reason_code \<Rightarrow> string \<times> string \<times> reason_family \<times> enforcement_point" where
  "reasonCode c = the (map_of DEFINITIONS c)"

definition reason_id :: "reason_code \<Rightarrow> string" where
  "reason_id c = fst (reasonCode c)"

definition reason_name :: "reason_code \<Rightarrow> string" where
  "reason_name c = fst (snd (reasonCode c))"

definition reasonCodeById :: "string \<Rightarrow> reason_code option" where
  "reasonCodeById i = map_option fst (find (\<lambda>row. fst (snd row) = i) DEFINITIONS)"

lemma defined_codes: "map fst DEFINITIONS = [
    MALFORMED_MANDATE, UNSUPPORTED_MANDATE_VERSION, MALFORMED_CANDIDATE, MALFORMED_TRUSTED_STATE
    , MALFORMED_AUTHORIZATION, MALFORMED_IDENTIFIER, RESOURCE_LIMIT_EXCEEDED, UNIT_MISMATCH
    , VALUE_OUT_OF_RANGE, NOTIONAL_INCONSISTENT, VERIFIER_INTERNAL_ERROR, MANDATE_EXPIRED
    , MANDATE_NOT_YET_ACTIVE, SIGNATURE_INVALID, SIGNER_UNAUTHORIZED, MANDATE_QUARANTINED
    , AGENT_UNAUTHORIZED, MANDATE_ALREADY_CONSUMED, MANDATE_RESERVED, REPLAY_STATE_UNKNOWN
    , AUTHORIZATION_SCHEME_UNSUPPORTED, AUTHORIZATION_DOMAIN_MISMATCH, CANONICAL_ASSET_MISMATCH
    , REPRESENTATION_ASSET_MISMATCH, REPRESENTATION_UNKNOWN, ISSUER_NOT_ALLOWED
    , SYNTHETIC_NOT_ALLOWED, REPRESENTATION_INACTIVE, REPRESENTATION_METADATA_UNKNOWN
    , REPRESENTATION_CHAIN_INCONSISTENT, REPRESENTATION_ATTRIBUTES_MISMATCH, MAX_NOTIONAL_EXCEEDED
    , PRICE_DEVIATION_EXCEEDED, SIDE_MISMATCH, TOTAL_DEBIT_EXCEEDED, TOTAL_CREDIT_BELOW_MINIMUM
    , FEES_EXCEED_NOTIONAL, PRICE_STATE_STALE, CORPORATE_ACTION_STATE_CHANGED
    , CORPORATE_ACTION_STATE_INCONSISTENT, TRADING_HALTED, MARKET_STATE_UNKNOWN
    , CORPORATE_ACTION_STATE_UNKNOWN, CORPORATE_ACTION_STATE_STALE, CANDIDATE_STATE_MISMATCH
    , REGISTRY_SNAPSHOT_MISMATCH, REGISTRY_SNAPSHOT_UNKNOWN, CHAIN_NOT_ALLOWED, VENUE_NOT_ALLOWED
    , UNTRUSTED_REQUIRED_STATE, TRUSTED_STATE_MISSING]"
  by (simp only: reason_rows list.map fst_conv)

lemma reasonCode_defined: "map_of DEFINITIONS c \<noteq> None"
proof -
  have "c \<in> set (map fst DEFINITIONS)"
    unfolding defined_codes by (cases c) simp_all
  then show ?thesis by (simp add: map_of_eq_None_iff)
qed

lemma distinct_reason_rows:
  "distinct (map fst DEFINITIONS)"
  "distinct (map (fst \<circ> snd) DEFINITIONS)"
  "distinct (map (fst \<circ> snd \<circ> snd) DEFINITIONS)"
  by code_simp+

lemma reason_row: "\<exists>row \<in> set DEFINITIONS. fst row = c \<and> reasonCode c = snd row"
proof -
  obtain r where "map_of DEFINITIONS c = Some r" using reasonCode_defined [of c] by blast
  then have "(c, r) \<in> set DEFINITIONS" "reasonCode c = r"
    by (simp_all add: map_of_SomeD reasonCode_def)
  then show ?thesis by (intro bexI [of _ "(c, r)"]) simp_all
qed

lemma reason_id_inj [simp]: "reason_id c = reason_id d \<longleftrightarrow> c = d"
proof
  assume e: "reason_id c = reason_id d"
  obtain r where r: "r \<in> set DEFINITIONS" "fst r = c" "reasonCode c = snd r"
    using reason_row [of c] by blast
  obtain q where q: "q \<in> set DEFINITIONS" "fst q = d" "reasonCode d = snd q"
    using reason_row [of d] by blast
  from e r q have "(fst \<circ> snd) r = (fst \<circ> snd) q" by (simp add: reason_id_def)
  with distinct_reason_rows(2) r q have "r = q" by (metis distinct_map inj_onD)
  with r q show "c = d" by simp
qed simp

lemma reason_name_inj [simp]: "reason_name c = reason_name d \<longleftrightarrow> c = d"
proof
  assume e: "reason_name c = reason_name d"
  obtain r where r: "r \<in> set DEFINITIONS" "fst r = c" "reasonCode c = snd r"
    using reason_row [of c] by blast
  obtain q where q: "q \<in> set DEFINITIONS" "fst q = d" "reasonCode d = snd q"
    using reason_row [of d] by blast
  from e r q have "(fst \<circ> snd \<circ> snd) r = (fst \<circ> snd \<circ> snd) q" by (simp add: reason_name_def)
  with distinct_reason_rows(3) r q have "r = q" by (metis distinct_map inj_onD)
  with r q show "c = d" by simp
qed simp

type_synonym 'a result = "reason_code + 'a"

section \<open>Identifiers (identifiers.ts)\<close>

definition ident_char :: "char \<Rightarrow> bool" where
  "ident_char c = (let n = (of_char c :: nat)
     in (65 \<le> n \<and> n \<le> 90) \<or> (97 \<le> n \<and> n \<le> 122) \<or> (48 \<le> n \<and> n \<le> 57) \<or> c \<in> set ''._-:/'')"

definition SEPARATORS :: "char set" where
  "SEPARATORS = set ''._-:/''"

definition IDENTIFIER_MAX_LENGTH :: nat where
  "IDENTIFIER_MAX_LENGTH = 128"

definition parseIdentifier :: "js \<Rightarrow> string result" where
  "parseIdentifier raw = (case raw of
     JStr s \<Rightarrow>
       if js_length s = 0 \<or> js_length s > IDENTIFIER_MAX_LENGTH then Inl MALFORMED_IDENTIFIER
       else if \<not> (s \<noteq> [] \<and> list_all ident_char s) then Inl MALFORMED_IDENTIFIER
       else if hd s \<in> SEPARATORS \<or> last s \<in> SEPARATORS then Inl MALFORMED_IDENTIFIER
       else Inr s
   | _ \<Rightarrow> Inl MALFORMED_IDENTIFIER)"

definition valid_ident :: "string \<Rightarrow> bool" where
  "valid_ident s \<longleftrightarrow> s \<noteq> [] \<and> length s \<le> 128 \<and> list_all ident_char s
     \<and> hd s \<notin> SEPARATORS \<and> last s \<notin> SEPARATORS"

lemma ident_char_ascii: "ident_char c \<Longrightarrow> (of_char c :: nat) < 128 \<and> c \<noteq> CHR 0x00 \<and> c \<noteq> CHR ''=''"
  by (auto simp: ident_char_def Let_def)

lemma ident_chars_ascii: "list_all ident_char s \<Longrightarrow> is_ascii s"
  using ident_char_ascii by (auto simp: is_ascii_def list_all_iff)

lemma valid_ident_ascii [simp]: "valid_ident s \<Longrightarrow> is_ascii s"
  by (simp add: valid_ident_def ident_chars_ascii)

lemma valid_ident_length [simp]: "valid_ident s \<Longrightarrow> length s \<le> 128"
  by (simp add: valid_ident_def)

lemma parseIdentifier_Inr [parse_inv]: "parseIdentifier v = Inr s \<longleftrightarrow> v = JStr s \<and> valid_ident s"
proof (cases v)
  case (JStr t)
  show ?thesis
  proof (cases "t \<noteq> [] \<and> list_all ident_char t")
    case True
    then have "js_length t = length t" by (simp add: js_length_ascii ident_chars_ascii)
    with JStr True show ?thesis
      by (auto simp: parseIdentifier_def valid_ident_def IDENTIFIER_MAX_LENGTH_def)
  next
    case False
    with JStr show ?thesis by (auto simp: parseIdentifier_def valid_ident_def)
  qed
qed (simp_all add: parseIdentifier_def)

lemma parseIdentifier_JStr [simp]: "valid_ident s \<Longrightarrow> parseIdentifier (JStr s) = Inr s"
  by (simp add: parseIdentifier_Inr)

lemma parseIdentifier_Inl: "parseIdentifier v = Inl e \<Longrightarrow> e = MALFORMED_IDENTIFIER"
  by (auto simp: parseIdentifier_def split: js.splits if_splits)

record asset_id =
  assetClass :: string
  idScheme :: string
  assetValue :: string

definition parseCanonicalAssetId :: "js \<Rightarrow> asset_id result" where
  "parseCanonicalAssetId raw =
     (if \<not> is_object raw then Inl MALFORMED_IDENTIFIER
      else rbind (parseIdentifier (jget raw ''assetClass'')) (\<lambda>ac.
           rbind (parseIdentifier (jget raw ''idScheme'')) (\<lambda>sch.
           rbind (parseIdentifier (jget raw ''value'')) (\<lambda>v.
           Inr \<lparr>assetClass = ac, idScheme = sch, assetValue = v\<rparr>))))"

definition canonicalAssetIdEquals :: "asset_id \<Rightarrow> asset_id \<Rightarrow> bool" where
  "canonicalAssetIdEquals a b \<longleftrightarrow>
     assetClass a = assetClass b \<and> idScheme a = idScheme b \<and> assetValue a = assetValue b"

definition wf_asset :: "asset_id \<Rightarrow> bool" where
  "wf_asset a \<longleftrightarrow> valid_ident (assetClass a) \<and> valid_ident (idScheme a) \<and> valid_ident (assetValue a)"

definition js_asset :: "asset_id \<Rightarrow> js" where
  "js_asset a = JObj [(''assetClass'', JStr (assetClass a)), (''idScheme'', JStr (idScheme a)),
     (''value'', JStr (assetValue a))]"

lemma canonicalAssetIdEquals_eq [simp]: "canonicalAssetIdEquals a b \<longleftrightarrow> a = b"
  by (auto simp: canonicalAssetIdEquals_def)

lemma parseCanonicalAssetId_wf [parse_inv]: "parseCanonicalAssetId v = Inr a \<Longrightarrow> wf_asset a"
  by (auto simp: parseCanonicalAssetId_def wf_asset_def rbind_eq_Inr parseIdentifier_Inr split: if_splits)

lemma parseCanonicalAssetId_js [simp]: "wf_asset a \<Longrightarrow> parseCanonicalAssetId (js_asset a) = Inr a"
  by (simp add: parseCanonicalAssetId_def js_asset_def wf_asset_def)

lemma parseCanonicalAssetId_js_Inr [simp]:
  "parseCanonicalAssetId (js_asset a) = Inr b \<longleftrightarrow> b = a \<and> wf_asset a"
  by (auto simp: parseCanonicalAssetId_def js_asset_def wf_asset_def rbind_eq_Inr parseIdentifier_Inr)

text \<open>Everything before the first and only \<open>/\<close>, or \<^term>\<open>None\<close> for any other shape.\<close>

definition chainSegmentOf :: "string \<Rightarrow> string option" where
  "chainSegmentOf rid =
     (let chain = takeWhile (\<lambda>c. c \<noteq> CHR ''/'') rid;
          rest = dropWhile (\<lambda>c. c \<noteq> CHR ''/'') rid
      in if rest = [] \<or> chain = [] then None
         else if CHR ''/'' \<in> set (tl rest) then None else Some chain)"

lemma chainSegmentOf_Some:
  "chainSegmentOf rid = Some chain \<longleftrightarrow>
     chain \<noteq> [] \<and> CHR ''/'' \<notin> set chain \<and> (\<exists>l. rid = chain @ CHR ''/'' # l \<and> CHR ''/'' \<notin> set l)"
proof
  assume a: "chainSegmentOf rid = Some chain"
  define rest where "rest = dropWhile (\<lambda>c. c \<noteq> CHR ''/'') rid"
  define ch where "ch = takeWhile (\<lambda>c. c \<noteq> CHR ''/'') rid"
  have "(if rest = [] \<or> ch = [] then None else if CHR ''/'' \<in> set (tl rest) then None else Some ch) = Some chain"
    using a unfolding chainSegmentOf_def Let_def ch_def rest_def .
  then have h: "chain = ch" "ch \<noteq> []" "rest \<noteq> []" "CHR ''/'' \<notin> set (tl rest)"
    by (auto split: if_splits)
  have "hd rest = CHR ''/''" 
    using hd_dropWhile [of "\<lambda>c. c \<noteq> CHR ''/''" rid] h(3) unfolding rest_def by blast
  then have "rid = chain @ CHR ''/'' # tl rest"
    using h(1,3) by (metis ch_def list.collapse rest_def takeWhile_dropWhile_id)
  moreover have "CHR ''/'' \<notin> set chain" 
    using h(1) ch_def by (auto dest: set_takeWhileD)
  ultimately show "chain \<noteq> [] \<and> CHR ''/'' \<notin> set chain \<and> (\<exists>l. rid = chain @ CHR ''/'' # l \<and> CHR ''/'' \<notin> set l)"
    using h by blast
next
  assume "chain \<noteq> [] \<and> CHR ''/'' \<notin> set chain \<and> (\<exists>l. rid = chain @ CHR ''/'' # l \<and> CHR ''/'' \<notin> set l)"
  then obtain l where l: "rid = chain @ CHR ''/'' # l" "CHR ''/'' \<notin> set l" "chain \<noteq> []" "CHR ''/'' \<notin> set chain"
    by blast
  then have "\<And>c. c \<in> set chain \<Longrightarrow> c \<noteq> CHR ''/''" by auto
  with l show "chainSegmentOf rid = Some chain"
    by (simp add: chainSegmentOf_def takeWhile_append2 dropWhile_append2)
qed

section \<open>Fixed-width hex (bytes.ts)\<close>

definition parseBytes32 :: "js \<Rightarrow> reason_code \<Rightarrow> string result" where
  "parseBytes32 raw code = (case raw of
     JStr s \<Rightarrow> if hex_literal 64 s then Inr s else Inl code
   | _ \<Rightarrow> Inl code)"

lemma parseBytes32_Inr [parse_inv]: "parseBytes32 v c = Inr s \<longleftrightarrow> v = JStr s \<and> hex_literal 64 s"
  by (auto simp: parseBytes32_def split: js.splits)

lemma parseBytes32_JStr [simp]: "hex_literal 64 s \<Longrightarrow> parseBytes32 (JStr s) c = Inr s"
  by (simp add: parseBytes32_def)

lemma is_hex_ascii: "is_hex c \<Longrightarrow> (of_char c :: nat) < 128 \<and> c \<noteq> CHR 0x00"
  by (auto simp: is_hex_def Let_def)

section \<open>Integers and time (time.ts)\<close>

abbreviation INT64_MIN :: int where "INT64_MIN \<equiv> - (2 ^ 63)"
abbreviation INT64_MAX :: int where "INT64_MAX \<equiv> 2 ^ 63 - 1"
abbreviation UINT16_MAX :: int where "UINT16_MAX \<equiv> 2 ^ 16 - 1"
abbreviation UINT32_MAX :: int where "UINT32_MAX \<equiv> 2 ^ 32 - 1"
abbreviation UINT64_MAX :: int where "UINT64_MAX \<equiv> 2 ^ 64 - 1"
abbreviation UINT256_MAX :: int where "UINT256_MAX \<equiv> 2 ^ 256 - 1"

text \<open>\<open>/^-?(0|[1-9][0-9]*)$/\<close>.\<close>

definition canonical_nat :: "string \<Rightarrow> bool" where
  "canonical_nat s \<longleftrightarrow> s = ''0'' \<or> (s \<noteq> [] \<and> hd s \<noteq> CHR ''0'' \<and> list_all is_digit s)"

definition canonical_int :: "string \<Rightarrow> bool" where
  "canonical_int s \<longleftrightarrow> canonical_nat s \<or> (s \<noteq> [] \<and> hd s = CHR ''-'' \<and> canonical_nat (tl s))"

definition BigInt :: "string \<Rightarrow> int" where
  "BigInt s = (if s \<noteq> [] \<and> hd s = CHR ''-'' then - int (digits_val (tl s)) else int (digits_val s))"

definition parseBigInt :: "js \<Rightarrow> int option" where
  "parseBigInt raw = (case raw of
     JBig i \<Rightarrow> Some i
   | JStr s \<Rightarrow> if \<not> canonical_int s then None else Some (BigInt s)
   | _ \<Rightarrow> None)"

lemma parseBigInt_JBig [simp]: "parseBigInt (JBig i) = Some i"
  by (simp add: parseBigInt_def)

lemma canonical_nat_str: "canonical_nat (nat_str n)"
proof (cases "n = 0")
  case True
  have "nat_str 0 = ''0''" by (subst nat_str.simps) (simp add: digit_char_def char_of_eq_iff)
  with True show ?thesis by (simp add: canonical_nat_def)
next
  case False
  then show ?thesis
    using nat_str_hd [of n] nat_str_digits [of n] by (simp add: canonical_nat_def list_all_iff)
qed

text \<open>A decimal string is read back as the integer it prints.\<close>

lemma parseBigInt_int_str: "parseBigInt (JStr (int_str i)) = Some i"
proof (cases "i < 0")
  case True
  then show ?thesis
    by (simp add: parseBigInt_def int_str_def canonical_int_def canonical_nat_str BigInt_def)
next
  case False
  have "hd (nat_str (nat i)) \<noteq> CHR ''-''"
  proof -
    have "hd (nat_str (nat i)) \<in> set (nat_str (nat i))" by (simp add: list.set_sel)
    then have "is_digit (hd (nat_str (nat i)))" using nat_str_digits by blast
    then show ?thesis by (auto simp: is_digit_def)
  qed
  with False show ?thesis
    by (simp add: parseBigInt_def int_str_def canonical_int_def canonical_nat_str BigInt_def)
qed

text \<open>
  \<open>parseUnixSeconds\<close>, \<open>parseDurationSeconds\<close> and \<open>parseBoundedUint\<close> of \<open>mandate.ts\<close> are one shape:
  parse an integer, refuse it outside a range.
\<close>

definition parseRange :: "int \<Rightarrow> int \<Rightarrow> js \<Rightarrow> reason_code \<Rightarrow> int result" where
  "parseRange lo hi raw code = (case parseBigInt raw of
     None \<Rightarrow> Inl code
   | Some v \<Rightarrow> if v < lo \<or> v > hi then Inl VALUE_OUT_OF_RANGE else Inr v)"

definition parseUnixSeconds :: "js \<Rightarrow> reason_code \<Rightarrow> int result" where
  "parseUnixSeconds raw code = parseRange INT64_MIN INT64_MAX raw code"

definition parseDurationSeconds :: "js \<Rightarrow> reason_code \<Rightarrow> int result" where
  "parseDurationSeconds raw code = parseRange 0 UINT32_MAX raw code"

definition parseBoundedUint :: "js \<Rightarrow> int \<Rightarrow> reason_code \<Rightarrow> int result" where
  "parseBoundedUint raw bound code = parseRange 0 bound raw code"

definition wf_time :: "int \<Rightarrow> bool" where
  "wf_time t \<longleftrightarrow> INT64_MIN \<le> t \<and> t \<le> INT64_MAX"

lemma parseRange_Inr: "parseRange lo hi v c = Inr i \<longleftrightarrow> parseBigInt v = Some i \<and> lo \<le> i \<and> i \<le> hi"
  by (auto simp: parseRange_def split: option.splits)

lemma parseUnixSeconds_Inr [parse_inv]: "parseUnixSeconds v c = Inr i \<longleftrightarrow> parseBigInt v = Some i \<and> wf_time i"
  by (auto simp: parseUnixSeconds_def parseRange_Inr wf_time_def)

lemma parseDurationSeconds_Inr [parse_inv]:
  "parseDurationSeconds v c = Inr i \<longleftrightarrow> parseBigInt v = Some i \<and> 0 \<le> i \<and> i \<le> UINT32_MAX"
  by (simp add: parseDurationSeconds_def parseRange_Inr)

lemma parseBoundedUint_Inr [parse_inv]:
  "parseBoundedUint v m c = Inr i \<longleftrightarrow> parseBigInt v = Some i \<and> 0 \<le> i \<and> i \<le> m"
  by (simp add: parseBoundedUint_def parseRange_Inr)

lemma parse_JBig [simp]:
  "wf_time i \<Longrightarrow> parseUnixSeconds (JBig i) c = Inr i"
  "0 \<le> j \<Longrightarrow> j \<le> UINT32_MAX \<Longrightarrow> parseDurationSeconds (JBig j) c = Inr j"
  "0 \<le> j \<Longrightarrow> j \<le> m \<Longrightarrow> parseBoundedUint (JBig j) m c = Inr j"
  by (simp_all add: parseUnixSeconds_Inr parseDurationSeconds_Inr parseBoundedUint_Inr)

definition parseClock :: "js \<Rightarrow> int result" where
  "parseClock raw =
     (if \<not> is_object raw then Inl MALFORMED_TRUSTED_STATE
      else parseUnixSeconds (jget raw ''nowUnixSeconds'') MALFORMED_TRUSTED_STATE)"

lemma parseClock_wf [parse_inv]: "parseClock v = Inr t \<Longrightarrow> wf_time t"
  by (auto simp: parseClock_def parse_inv split: if_splits)

section \<open>Enumerations\<close>

text \<open>\<open>Object.prototype.hasOwnProperty.call(values, raw)\<close>, then the value of that member.\<close>

definition parseEnum :: "js \<Rightarrow> (string \<times> 'a) list \<Rightarrow> reason_code \<Rightarrow> 'a result" where
  "parseEnum raw values code = (case raw of
     JStr s \<Rightarrow> (case map_of values s of None \<Rightarrow> Inl code | Some x \<Rightarrow> Inr x)
   | _ \<Rightarrow> Inl code)"

lemma parseEnum_Inr [parse_inv]: "parseEnum v t c = Inr x \<longleftrightarrow> (\<exists>s. v = JStr s \<and> map_of t s = Some x)"
  by (auto simp: parseEnum_def split: js.splits option.splits)

lemma parseEnum_JStr: "parseEnum (JStr s) t c = (case map_of t s of None \<Rightarrow> Inl c | Some x \<Rightarrow> Inr x)"
  by (simp add: parseEnum_def)

end
