(* ===== verification/Units.thy ===== *)
theory Units
  imports Values Complex_Main
begin

text \<open>
  Quantities with their unit and scale, and the exact arithmetic on them (\<open>packages/kernel/src/units.ts\<close>).
  \<open>amount_val\<close> and \<open>price_val\<close> are the rational numbers an \<open>Amount\<close> and a \<open>Price\<close> denote: they are not
  code, they are what the theorems measure the integer arithmetic against. A bigint division truncates
  towards zero, as JavaScript's does.
\<close>

definition MAX_DECIMALS :: int where
  "MAX_DECIMALS = 38"

record amount =
  unit :: string
  decimals :: int
  atoms :: int

record price =
  numeratorUnit :: string
  denominatorUnit :: string
  p_decimals :: int
  p_atoms :: int

definition parseDecimals :: "js \<Rightarrow> int result" where
  "parseDecimals raw = (case raw of
     JNum (IntNum d) \<Rightarrow> if d < 0 \<or> d > MAX_DECIMALS then Inl VALUE_OUT_OF_RANGE else Inr d
   | _ \<Rightarrow> Inl MALFORMED_IDENTIFIER)"

definition parseAtoms :: "js \<Rightarrow> int result" where
  "parseAtoms raw = (case parseBigInt raw of
     None \<Rightarrow> Inl MALFORMED_IDENTIFIER
   | Some v \<Rightarrow> if v < 0 \<or> v > UINT256_MAX then Inl VALUE_OUT_OF_RANGE else Inr v)"

definition parseAmount :: "js \<Rightarrow> amount result" where
  "parseAmount raw =
     (if \<not> is_object raw then Inl MALFORMED_IDENTIFIER
      else rbind (parseIdentifier (jget raw ''unit'')) (\<lambda>u.
           rbind (parseDecimals (jget raw ''decimals'')) (\<lambda>d.
           rbind (parseAtoms (jget raw ''atoms'')) (\<lambda>a.
           Inr \<lparr>unit = u, decimals = d, atoms = a\<rparr>))))"

definition parsePrice :: "js \<Rightarrow> price result" where
  "parsePrice raw =
     (if \<not> is_object raw then Inl MALFORMED_IDENTIFIER
      else rbind (parseIdentifier (jget raw ''numeratorUnit'')) (\<lambda>n.
           rbind (parseIdentifier (jget raw ''denominatorUnit'')) (\<lambda>u.
           rbind (parseDecimals (jget raw ''decimals'')) (\<lambda>d.
           rbind (parseAtoms (jget raw ''atoms'')) (\<lambda>a.
           Inr \<lparr>numeratorUnit = n, denominatorUnit = u, p_decimals = d, p_atoms = a\<rparr>)))))"

definition sameUnitAndScale :: "amount \<Rightarrow> amount \<Rightarrow> bool" where
  "sameUnitAndScale a b \<longleftrightarrow> unit a = unit b \<and> decimals a = decimals b"

definition pow10 :: "int \<Rightarrow> int" where
  "pow10 n = 10 ^ nat n"

definition compareAmounts :: "amount \<Rightarrow> amount \<Rightarrow> int result" where
  "compareAmounts a b =
     (if unit a \<noteq> unit b then Inl UNIT_MISMATCH
      else let left = atoms a * pow10 (decimals b); right = atoms b * pow10 (decimals a)
           in Inr (if left < right then -1 else if left > right then 1 else 0))"

text \<open>Bigint \<open>/\<close> and \<open>%\<close>: truncation towards zero, and the remainder that goes with it.\<close>

definition big_div :: "int \<Rightarrow> int \<Rightarrow> int" where
  "big_div a b = sgn a * sgn b * (\<bar>a\<bar> div \<bar>b\<bar>)"

definition big_mod :: "int \<Rightarrow> int \<Rightarrow> int" where
  "big_mod a b = a - b * big_div a b"

record notional_bounds =
  floorAtoms :: int
  ceilAtoms :: int

definition notionalBounds :: "amount \<Rightarrow> price \<Rightarrow> string \<Rightarrow> int \<Rightarrow> notional_bounds result" where
  "notionalBounds quantity price targetUnit targetDecimals =
     (if denominatorUnit price \<noteq> unit quantity then Inl UNIT_MISMATCH
      else if numeratorUnit price \<noteq> targetUnit then Inl UNIT_MISMATCH
      else if targetDecimals < 0 \<or> targetDecimals > MAX_DECIMALS then Inl VALUE_OUT_OF_RANGE
      else let numerator = atoms quantity * p_atoms price * pow10 targetDecimals;
               denominator = pow10 (decimals quantity + p_decimals price);
               flo = big_div numerator denominator;
               cei = (if big_mod numerator denominator = 0 then flo else flo + 1)
           in if cei > UINT256_MAX then Inl VALUE_OUT_OF_RANGE
              else Inr \<lparr>floorAtoms = flo, ceilAtoms = cei\<rparr>)"

definition addAmounts :: "amount \<Rightarrow> amount \<Rightarrow> amount result" where
  "addAmounts a b =
     (if unit a \<noteq> unit b then Inl UNIT_MISMATCH
      else let d = (if decimals a > decimals b then decimals a else decimals b);
               s = atoms a * pow10 (d - decimals a) + atoms b * pow10 (d - decimals b)
           in if s > UINT256_MAX then Inl VALUE_OUT_OF_RANGE
              else Inr \<lparr>unit = unit a, decimals = d, atoms = s\<rparr>)"

definition subtractAmounts :: "amount \<Rightarrow> amount \<Rightarrow> amount result" where
  "subtractAmounts a b =
     (if unit a \<noteq> unit b then Inl UNIT_MISMATCH
      else let d = (if decimals a > decimals b then decimals a else decimals b);
               s = atoms a * pow10 (d - decimals a) - atoms b * pow10 (d - decimals b)
           in if s < 0 then Inl VALUE_OUT_OF_RANGE
              else Inr \<lparr>unit = unit a, decimals = d, atoms = s\<rparr>)"

definition BPS_SCALE :: int where
  "BPS_SCALE = 10000"

definition deviationBps :: "price \<Rightarrow> price \<Rightarrow> int result" where
  "deviationBps execution reference =
     (if numeratorUnit execution \<noteq> numeratorUnit reference then Inl UNIT_MISMATCH
      else if denominatorUnit execution \<noteq> denominatorUnit reference then Inl UNIT_MISMATCH
      else if p_atoms reference \<le> 0 then Inl MARKET_STATE_UNKNOWN
      else let e = p_atoms execution * pow10 (p_decimals reference);
               r = p_atoms reference * pow10 (p_decimals execution);
               diff = (if e > r then e - r else r - e);
               numerator = diff * BPS_SCALE;
               quotient = big_div numerator r
           in Inr (if big_mod numerator r = 0 then quotient else quotient + 1))"

section \<open>What parsing establishes\<close>

definition wf_amount :: "amount \<Rightarrow> bool" where
  "wf_amount a \<longleftrightarrow> valid_ident (unit a) \<and> 0 \<le> decimals a \<and> decimals a \<le> MAX_DECIMALS
     \<and> 0 \<le> atoms a \<and> atoms a \<le> UINT256_MAX"

definition wf_price :: "price \<Rightarrow> bool" where
  "wf_price p \<longleftrightarrow> valid_ident (numeratorUnit p) \<and> valid_ident (denominatorUnit p)
     \<and> 0 \<le> p_decimals p \<and> p_decimals p \<le> MAX_DECIMALS \<and> 0 \<le> p_atoms p \<and> p_atoms p \<le> UINT256_MAX"

definition js_amount :: "amount \<Rightarrow> js" where
  "js_amount a = JObj [(''unit'', JStr (unit a)), (''decimals'', JNum (IntNum (decimals a))),
     (''atoms'', JBig (atoms a))]"

definition js_price :: "price \<Rightarrow> js" where
  "js_price p = JObj [(''numeratorUnit'', JStr (numeratorUnit p)),
     (''denominatorUnit'', JStr (denominatorUnit p)), (''decimals'', JNum (IntNum (p_decimals p))),
     (''atoms'', JBig (p_atoms p))]"

lemma parseDecimals_Inr [parse_inv]:
  "parseDecimals v = Inr d \<longleftrightarrow> v = JNum (IntNum d) \<and> 0 \<le> d \<and> d \<le> MAX_DECIMALS"
  by (auto simp: parseDecimals_def split: js.splits jsnum.splits)

lemma parseAtoms_Inr [parse_inv]:
  "parseAtoms v = Inr a \<longleftrightarrow> parseBigInt v = Some a \<and> 0 \<le> a \<and> a \<le> UINT256_MAX"
  by (auto simp: parseAtoms_def split: option.splits)

lemma parseAmount_wf [parse_inv]: "parseAmount v = Inr a \<Longrightarrow> wf_amount a"
  by (auto simp: parseAmount_def wf_amount_def rbind_eq_Inr parse_inv split: if_splits)

lemma parsePrice_wf [parse_inv]: "parsePrice v = Inr p \<Longrightarrow> wf_price p"
  by (auto simp: parsePrice_def wf_price_def rbind_eq_Inr parse_inv split: if_splits)

lemma parseAmount_js_Inr [simp]: "parseAmount (js_amount a) = Inr b \<longleftrightarrow> b = a \<and> wf_amount a"
  by (auto simp: parseAmount_def js_amount_def wf_amount_def rbind_eq_Inr parse_inv)

lemma parsePrice_js_Inr [simp]: "parsePrice (js_price p) = Inr q \<longleftrightarrow> q = p \<and> wf_price p"
  by (auto simp: parsePrice_def js_price_def wf_price_def rbind_eq_Inr parse_inv)

section \<open>Exactness\<close>

definition amount_val :: "amount \<Rightarrow> rat" where
  "amount_val a = of_int (atoms a) / of_int (pow10 (decimals a))"

definition price_val :: "price \<Rightarrow> rat" where
  "price_val p = of_int (p_atoms p) / of_int (pow10 (p_decimals p))"

lemma pow10_pos [simp]: "0 < pow10 n"
  by (simp add: pow10_def)

lemma pow10_not_neg [simp]: "\<not> pow10 n < 0"
  by (simp add: pow10_def)

lemma pow10_neq_0 [simp]: "pow10 n \<noteq> 0"
  by (simp add: pow10_def)

lemma pow10_add: "0 \<le> m \<Longrightarrow> 0 \<le> n \<Longrightarrow> pow10 (m + n) = pow10 m * pow10 n"
  by (simp add: pow10_def nat_add_distrib power_add)

lemma pow10_diff: "0 \<le> m \<Longrightarrow> m \<le> n \<Longrightarrow> pow10 n = pow10 (n - m) * pow10 m"
  using pow10_add [of "n - m" m] by simp

lemma big_div_nonneg [simp]: "0 \<le> a \<Longrightarrow> 0 < b \<Longrightarrow> big_div a b = a div b"
  by (cases "a = 0") (simp_all add: big_div_def)

lemma big_mod_nonneg [simp]: "0 \<le> a \<Longrightarrow> 0 < b \<Longrightarrow> big_mod a b = a mod b"
  by (simp add: big_mod_def minus_mult_div_eq_mod)

lemma floor_rat_div: "0 < b \<Longrightarrow> \<lfloor>of_int a / (of_int b :: rat)\<rfloor> = a div b"
  by (simp add: floor_divide_of_int_eq)

lemma ceiling_rat_div:
  assumes "0 < b"
  shows "\<lceil>of_int a / (of_int b :: rat)\<rceil> = (if a mod b = 0 then a div b else a div b + 1)"
proof -
  have "\<lceil>of_int a / (of_int b :: rat)\<rceil> = - ((- a) div b)"
  proof -
    have "- (of_int a / (of_int b :: rat)) = of_int (- a) / of_int b" by simp
    then show ?thesis unfolding ceiling_def by (simp only: floor_divide_of_int_eq)
  qed
  also have "\<dots> = (if a mod b = 0 then a div b else a div b + 1)"
    using assms by (simp add: zdiv_zminus1_eq_if)
  finally show ?thesis .
qed

text \<open>The sign of the comparison is the sign of the difference of the values.\<close>

lemma compareAmounts_val:
  assumes "compareAmounts a b = Inr c"
  shows "unit a = unit b \<and> (c < 0 \<longleftrightarrow> amount_val a < amount_val b)
    \<and> (c > 0 \<longleftrightarrow> amount_val a > amount_val b) \<and> (c = 0 \<longleftrightarrow> amount_val a = amount_val b)"
proof -
  have less: "amount_val x < amount_val y \<longleftrightarrow> atoms x * pow10 (decimals y) < atoms y * pow10 (decimals x)" for x y
    by (simp add: amount_val_def field_simps flip: of_int_mult)
  have eq: "amount_val x = amount_val y \<longleftrightarrow> atoms x * pow10 (decimals y) = atoms y * pow10 (decimals x)" for x y
    by (simp add: amount_val_def field_simps flip: of_int_mult)
  show ?thesis using assms by (auto simp: compareAmounts_def Let_def less eq split: if_splits)
qed

lemma scale_up:
  assumes "0 \<le> decimals a" "decimals a \<le> d"
  shows "of_int (atoms a * pow10 (d - decimals a)) / of_int (pow10 d) = amount_val a"
  using pow10_diff [OF assms] by (simp add: amount_val_def)

lemma addAmounts_val:
  assumes "addAmounts a b = Inr c" "0 \<le> decimals a" "0 \<le> decimals b"
  shows "unit a = unit b \<and> unit c = unit a \<and> amount_val c = amount_val a + amount_val b \<and> atoms c \<le> UINT256_MAX"
proof -
  define d where "d = (if decimals a > decimals b then decimals a else decimals b)"
  from assms(1) have c: "unit a = unit b" "atoms c \<le> UINT256_MAX"
      "c = \<lparr>unit = unit a, decimals = d, atoms = atoms a * pow10 (d - decimals a) + atoms b * pow10 (d - decimals b)\<rparr>"
    by (auto simp: addAmounts_def d_def Let_def split: if_splits)
  then have "amount_val c = of_int (atoms a * pow10 (d - decimals a)) / of_int (pow10 d)
      + of_int (atoms b * pow10 (d - decimals b)) / of_int (pow10 d)"
    by (simp add: amount_val_def add_divide_distrib)
  moreover have "decimals a \<le> d" "decimals b \<le> d" by (auto simp: d_def)
  ultimately show ?thesis using c assms(2,3) scale_up [of a d] scale_up [of b d] by simp
qed

lemma subtractAmounts_val:
  assumes "subtractAmounts a b = Inr c" "0 \<le> decimals a" "0 \<le> decimals b"
  shows "unit a = unit b \<and> unit c = unit a \<and> amount_val c = amount_val a - amount_val b \<and> 0 \<le> atoms c"
proof -
  define d where "d = (if decimals a > decimals b then decimals a else decimals b)"
  from assms(1) have c: "unit a = unit b" "0 \<le> atoms c"
      "c = \<lparr>unit = unit a, decimals = d, atoms = atoms a * pow10 (d - decimals a) - atoms b * pow10 (d - decimals b)\<rparr>"
    by (auto simp: subtractAmounts_def d_def Let_def split: if_splits)
  then have "amount_val c = of_int (atoms a * pow10 (d - decimals a)) / of_int (pow10 d)
      - of_int (atoms b * pow10 (d - decimals b)) / of_int (pow10 d)"
    by (simp add: amount_val_def diff_divide_distrib)
  moreover have "decimals a \<le> d" "decimals b \<le> d" by (auto simp: d_def)
  ultimately show ?thesis using c assms(2,3) scale_up [of a d] scale_up [of b d] by simp
qed

lemma notional_ratio:
  assumes "0 \<le> decimals q" "0 \<le> p_decimals p"
  shows "amount_val q * price_val p * of_int (pow10 d)
    = of_int (atoms q * p_atoms p * pow10 d) / of_int (pow10 (decimals q + p_decimals p))"
  using assms by (simp add: amount_val_def price_val_def pow10_add)

lemma notionalBounds_val:
  assumes "notionalBounds q p u d = Inr b" "wf_amount q" "wf_price p"
  shows "denominatorUnit p = unit q \<and> numeratorUnit p = u
    \<and> floorAtoms b = \<lfloor>amount_val q * price_val p * of_int (pow10 d)\<rfloor>
    \<and> ceilAtoms b = \<lceil>amount_val q * price_val p * of_int (pow10 d)\<rceil>
    \<and> ceilAtoms b \<le> UINT256_MAX"
proof -
  let ?n = "atoms q * p_atoms p * pow10 d" and ?m = "pow10 (decimals q + p_decimals p)"
  have n: "0 \<le> ?n" using assms(2,3) by (simp add: wf_amount_def wf_price_def less_imp_le)
  have r: "amount_val q * price_val p * of_int (pow10 d) = of_int ?n / of_int ?m"
    using assms(2,3) by (intro notional_ratio) (simp_all add: wf_amount_def wf_price_def)
  have "floorAtoms b = ?n div ?m \<and> ceilAtoms b = (if ?n mod ?m = 0 then ?n div ?m else ?n div ?m + 1)"
    and "denominatorUnit p = unit q \<and> numeratorUnit p = u \<and> ceilAtoms b \<le> UINT256_MAX"
    using assms(1) n by (auto simp: notionalBounds_def Let_def simp del: power_numeral split: if_splits)
  then show ?thesis
    unfolding r floor_rat_div [OF pow10_pos] ceiling_rat_div [OF pow10_pos] by blast
qed

lemma dev_ratio:
  fixes a c x y :: rat
  assumes "0 < x" "0 < y" "0 < c"
  shows "\<bar>a / x - c / y\<bar> / (c / y) * 10000 = \<bar>a * y - c * x\<bar> * 10000 / (c * x)"
proof -
  have "a / x - c / y = (a * y - c * x) / (x * y)" using assms by (simp add: field_simps)
  then have "\<bar>a / x - c / y\<bar> = \<bar>a * y - c * x\<bar> / (x * y)"
    using assms by (simp add: abs_mult)
  then show ?thesis using assms by (simp add: field_simps)
qed

lemma deviationBps_val:
  assumes "deviationBps e r = Inr b"
  shows "b = \<lceil>\<bar>price_val e - price_val r\<bar> / price_val r * 10000\<rceil> \<and> 0 < price_val r"
proof -
  let ?e = "p_atoms e * pow10 (p_decimals r)" and ?r = "p_atoms r * pow10 (p_decimals e)"
  from assms have pos: "0 < p_atoms r" by (auto simp: deviationBps_def split: if_splits)
  then have r: "0 < ?r" by simp
  have d: "(if ?e > ?r then ?e - ?r else ?r - ?e) = \<bar>?e - ?r\<bar>" by auto
  have b: "b = (if \<bar>?e - ?r\<bar> * 10000 mod ?r = 0 then \<bar>?e - ?r\<bar> * 10000 div ?r else \<bar>?e - ?r\<bar> * 10000 div ?r + 1)"
    using assms r by (auto simp: deviationBps_def Let_def d BPS_SCALE_def simp del: zero_less_mult_iff split: if_splits)
  have q: "\<bar>price_val e - price_val r\<bar> / price_val r * 10000 = of_int (\<bar>?e - ?r\<bar> * 10000) / of_int ?r"
    using pos dev_ratio [of "of_int (pow10 (p_decimals e))" "of_int (pow10 (p_decimals r))"
        "of_int (p_atoms r)" "of_int (p_atoms e)"]
    by (simp add: price_val_def)
  have "0 < price_val r" using pos by (simp add: price_val_def)
  then show ?thesis unfolding q ceiling_rat_div [OF r] using b by blast
qed

end
