(* ===== verification/Mandate.thy ===== *)
theory Mandate
  imports Units
begin

text \<open>
  The canonical mandate (\<open>packages/kernel/src/mandate.ts\<close>): parties, the enumerations, the record of a
  parsed mandate and its strict parser. \<open>wf_mandate\<close> collects every range and shape the parser
  establishes; \<open>js_mandate\<close> is a mandate as the plain object the decoder hands to the parser.
\<close>

definition MANDATE_SCHEMA_VERSION :: int where
  "MANDATE_SCHEMA_VERSION = 2"

definition MAX_SET_SIZE :: nat where
  "MAX_SET_SIZE = 1024"

datatype side = BUY | SELL

datatype economic_limit_kind = MAX_TOTAL_DEBIT | MIN_TOTAL_CREDIT

datatype synthetic_policy = FORBIDDEN | ALLOWED

datatype halt_policy = FORBID_WHEN_HALTED | ALLOW_WHEN_HALTED

definition Side :: "(string \<times> side) list" where
  "Side = [(''BUY'', BUY), (''SELL'', SELL)]"

definition SyntheticPolicy :: "(string \<times> synthetic_policy) list" where
  "SyntheticPolicy = [(''FORBIDDEN'', FORBIDDEN), (''ALLOWED'', ALLOWED)]"

definition HaltPolicy :: "(string \<times> halt_policy) list" where
  "HaltPolicy = [(''FORBID_WHEN_HALTED'', FORBID_WHEN_HALTED), (''ALLOW_WHEN_HALTED'', ALLOW_WHEN_HALTED)]"

definition economicLimitKind :: "side \<Rightarrow> economic_limit_kind" where
  "economicLimitKind s = (if s = BUY then MAX_TOTAL_DEBIT else MIN_TOTAL_CREDIT)"

record party =
  kind :: string
  party_value :: string

definition PARTY_KIND_EIP155_ADDRESS :: string where
  "PARTY_KIND_EIP155_ADDRESS = ''eip155-address''"

definition parsePartyId :: "js \<Rightarrow> reason_code \<Rightarrow> party result" where
  "parsePartyId raw code =
     (if \<not> is_object raw then Inl code
      else rbind (parseIdentifier (jget raw ''kind'')) (\<lambda>k.
           rbind (parseIdentifier (jget raw ''value'')) (\<lambda>v.
           if k = PARTY_KIND_EIP155_ADDRESS \<and> \<not> hex_literal 40 v then Inl MALFORMED_IDENTIFIER
           else Inr \<lparr>kind = k, party_value = v\<rparr>)))"

definition partyIdEquals :: "party \<Rightarrow> party \<Rightarrow> bool" where
  "partyIdEquals a b \<longleftrightarrow> kind a = kind b \<and> party_value a = party_value b"

record mandate =
  m_version :: int
  m_mandateId :: string
  m_nonce :: int
  m_principal :: party
  m_agent :: party
  m_canonicalAsset :: asset_id
  m_side :: side
  m_maxNotional :: amount
  m_economicLimit :: amount
  m_maxDeviationBps :: int
  m_syntheticPolicy :: synthetic_policy
  m_allowedIssuers :: "string list"
  m_allowedChains :: "string list"
  m_allowedVenues :: "string list"
  m_requiredCorporateActionEpoch :: int
  m_maxPriceAgeSeconds :: int
  m_maxCorporateActionAgeSeconds :: int
  m_haltPolicy :: halt_policy
  m_createdAtUnixSeconds :: int
  m_notBeforeUnixSeconds :: int
  m_expiresAtUnixSeconds :: int

definition MANDATE_FIELDS :: "string list" where
  "MANDATE_FIELDS = [''version'', ''mandateId'', ''nonce'', ''principal'', ''agent'', ''canonicalAsset'',
     ''side'', ''maxNotional'', ''economicLimit'', ''maxDeviationBps'', ''syntheticPolicy'',
     ''allowedIssuers'', ''allowedChains'', ''allowedVenues'', ''requiredCorporateActionEpoch'',
     ''maxPriceAgeSeconds'', ''maxCorporateActionAgeSeconds'', ''haltPolicy'',
     ''createdAtUnixSeconds'', ''notBeforeUnixSeconds'', ''expiresAtUnixSeconds'']"

text \<open>Duplicates reject, and the set is sorted by the encoder's own order.\<close>

definition parseIdentifierSet :: "js \<Rightarrow> reason_code \<Rightarrow> string list result" where
  "parseIdentifierSet raw code = (case raw of
     JArr xs \<Rightarrow>
       if length xs > MAX_SET_SIZE then Inl VALUE_OUT_OF_RANGE
       else rbind (rmap parseIdentifier xs) (\<lambda>out.
            if \<not> distinct out then Inl code
            else Inr (js_sort compareIdentifierBytes out))
   | _ \<Rightarrow> Inl code)"

definition parseMandate :: "js \<Rightarrow> mandate result" where
  "parseMandate raw =
    (if \<not> is_object raw then Inl MALFORMED_MANDATE else
     case jget raw ''version'' of
       JNum (IntNum version) \<Rightarrow>
        (if version \<noteq> MANDATE_SCHEMA_VERSION then Inl UNSUPPORTED_MANDATE_VERSION
         else if \<not> only_keys MANDATE_FIELDS raw then Inl MALFORMED_MANDATE else
         rbind (parseBytes32 (jget raw ''mandateId'') MALFORMED_MANDATE) (\<lambda>mandateId.
         rbind (parseBoundedUint (jget raw ''nonce'') UINT64_MAX MALFORMED_MANDATE) (\<lambda>nonce.
         rbind (parsePartyId (jget raw ''principal'') MALFORMED_MANDATE) (\<lambda>principal.
         rbind (parsePartyId (jget raw ''agent'') MALFORMED_MANDATE) (\<lambda>agent.
         rbind (parseCanonicalAssetId (jget raw ''canonicalAsset'')) (\<lambda>canonicalAsset.
         rbind (parseEnum (jget raw ''side'') Side MALFORMED_MANDATE) (\<lambda>sid.
         rbind (parseAmount (jget raw ''maxNotional'')) (\<lambda>maxNotional.
         rbind (parseAmount (jget raw ''economicLimit'')) (\<lambda>economicLimit.
         rbind (parseBoundedUint (jget raw ''maxDeviationBps'') UINT16_MAX MALFORMED_MANDATE) (\<lambda>maxDeviationBps.
         rbind (parseEnum (jget raw ''syntheticPolicy'') SyntheticPolicy MALFORMED_MANDATE) (\<lambda>syntheticPolicy.
         rbind (parseIdentifierSet (jget raw ''allowedIssuers'') MALFORMED_MANDATE) (\<lambda>allowedIssuers.
         rbind (parseIdentifierSet (jget raw ''allowedChains'') MALFORMED_MANDATE) (\<lambda>allowedChains.
         rbind (parseIdentifierSet (jget raw ''allowedVenues'') MALFORMED_MANDATE) (\<lambda>allowedVenues.
         rbind (parseBoundedUint (jget raw ''requiredCorporateActionEpoch'') UINT64_MAX MALFORMED_MANDATE) (\<lambda>epoch.
         rbind (parseDurationSeconds (jget raw ''maxPriceAgeSeconds'') MALFORMED_MANDATE) (\<lambda>maxPriceAge.
         rbind (parseDurationSeconds (jget raw ''maxCorporateActionAgeSeconds'') MALFORMED_MANDATE) (\<lambda>maxCaAge.
         rbind (parseEnum (jget raw ''haltPolicy'') HaltPolicy MALFORMED_MANDATE) (\<lambda>haltPolicy.
         rbind (parseUnixSeconds (jget raw ''createdAtUnixSeconds'') MALFORMED_MANDATE) (\<lambda>createdAt.
         rbind (parseUnixSeconds (jget raw ''notBeforeUnixSeconds'') MALFORMED_MANDATE) (\<lambda>notBefore.
         rbind (parseUnixSeconds (jget raw ''expiresAtUnixSeconds'') MALFORMED_MANDATE) (\<lambda>expiresAt.
         if notBefore \<ge> expiresAt then Inl MALFORMED_MANDATE
         else if unit maxNotional \<noteq> unit economicLimit then Inl UNIT_MISMATCH
         else Inr \<lparr>m_version = version, m_mandateId = mandateId, m_nonce = nonce,
           m_principal = principal, m_agent = agent, m_canonicalAsset = canonicalAsset, m_side = sid,
           m_maxNotional = maxNotional, m_economicLimit = economicLimit,
           m_maxDeviationBps = maxDeviationBps, m_syntheticPolicy = syntheticPolicy,
           m_allowedIssuers = allowedIssuers, m_allowedChains = allowedChains,
           m_allowedVenues = allowedVenues, m_requiredCorporateActionEpoch = epoch,
           m_maxPriceAgeSeconds = maxPriceAge, m_maxCorporateActionAgeSeconds = maxCaAge,
           m_haltPolicy = haltPolicy, m_createdAtUnixSeconds = createdAt,
           m_notBeforeUnixSeconds = notBefore, m_expiresAtUnixSeconds = expiresAt\<rparr>)))))))))))))))))))))
     | _ \<Rightarrow> Inl MALFORMED_MANDATE)"

section \<open>What parsing establishes\<close>

definition wf_party :: "party \<Rightarrow> bool" where
  "wf_party p \<longleftrightarrow> valid_ident (kind p) \<and> valid_ident (party_value p)
     \<and> (kind p = PARTY_KIND_EIP155_ADDRESS \<longrightarrow> hex_literal 40 (party_value p))"

definition wf_id_set :: "string list \<Rightarrow> bool" where
  "wf_id_set xs \<longleftrightarrow> length xs \<le> MAX_SET_SIZE \<and> list_all valid_ident xs \<and> distinct xs
     \<and> sorted_wrt (\<lambda>a b. compareIdentifierBytes a b \<le> 0) xs"

definition wf_mandate :: "mandate \<Rightarrow> bool" where
  "wf_mandate m \<longleftrightarrow>
     m_version m = MANDATE_SCHEMA_VERSION \<and> hex_literal 64 (m_mandateId m)
   \<and> 0 \<le> m_nonce m \<and> m_nonce m \<le> UINT64_MAX
   \<and> wf_party (m_principal m) \<and> wf_party (m_agent m) \<and> wf_asset (m_canonicalAsset m)
   \<and> wf_amount (m_maxNotional m) \<and> wf_amount (m_economicLimit m)
   \<and> 0 \<le> m_maxDeviationBps m \<and> m_maxDeviationBps m \<le> UINT16_MAX
   \<and> wf_id_set (m_allowedIssuers m) \<and> wf_id_set (m_allowedChains m) \<and> wf_id_set (m_allowedVenues m)
   \<and> 0 \<le> m_requiredCorporateActionEpoch m \<and> m_requiredCorporateActionEpoch m \<le> UINT64_MAX
   \<and> 0 \<le> m_maxPriceAgeSeconds m \<and> m_maxPriceAgeSeconds m \<le> UINT32_MAX
   \<and> 0 \<le> m_maxCorporateActionAgeSeconds m \<and> m_maxCorporateActionAgeSeconds m \<le> UINT32_MAX
   \<and> wf_time (m_createdAtUnixSeconds m) \<and> wf_time (m_notBeforeUnixSeconds m)
   \<and> wf_time (m_expiresAtUnixSeconds m) \<and> m_notBeforeUnixSeconds m < m_expiresAtUnixSeconds m
   \<and> unit (m_maxNotional m) = unit (m_economicLimit m)"

fun side_name :: "side \<Rightarrow> string" where
  "side_name BUY = ''BUY''"
| "side_name SELL = ''SELL''"

fun synthetic_policy_name :: "synthetic_policy \<Rightarrow> string" where
  "synthetic_policy_name FORBIDDEN = ''FORBIDDEN''"
| "synthetic_policy_name ALLOWED = ''ALLOWED''"

fun halt_policy_name :: "halt_policy \<Rightarrow> string" where
  "halt_policy_name FORBID_WHEN_HALTED = ''FORBID_WHEN_HALTED''"
| "halt_policy_name ALLOW_WHEN_HALTED = ''ALLOW_WHEN_HALTED''"

definition js_party :: "party \<Rightarrow> js" where
  "js_party p = JObj [(''kind'', JStr (kind p)), (''value'', JStr (party_value p))]"

definition js_mandate :: "mandate \<Rightarrow> js" where
  "js_mandate m = JObj [
     (''version'', JNum (IntNum (m_version m))),
     (''mandateId'', JStr (m_mandateId m)),
     (''nonce'', JBig (m_nonce m)),
     (''principal'', js_party (m_principal m)),
     (''agent'', js_party (m_agent m)),
     (''canonicalAsset'', js_asset (m_canonicalAsset m)),
     (''side'', JStr (side_name (m_side m))),
     (''maxNotional'', js_amount (m_maxNotional m)),
     (''economicLimit'', js_amount (m_economicLimit m)),
     (''maxDeviationBps'', JBig (m_maxDeviationBps m)),
     (''syntheticPolicy'', JStr (synthetic_policy_name (m_syntheticPolicy m))),
     (''allowedIssuers'', JArr (map JStr (m_allowedIssuers m))),
     (''allowedChains'', JArr (map JStr (m_allowedChains m))),
     (''allowedVenues'', JArr (map JStr (m_allowedVenues m))),
     (''requiredCorporateActionEpoch'', JBig (m_requiredCorporateActionEpoch m)),
     (''maxPriceAgeSeconds'', JBig (m_maxPriceAgeSeconds m)),
     (''maxCorporateActionAgeSeconds'', JBig (m_maxCorporateActionAgeSeconds m)),
     (''haltPolicy'', JStr (halt_policy_name (m_haltPolicy m))),
     (''createdAtUnixSeconds'', JBig (m_createdAtUnixSeconds m)),
     (''notBeforeUnixSeconds'', JBig (m_notBeforeUnixSeconds m)),
     (''expiresAtUnixSeconds'', JBig (m_expiresAtUnixSeconds m))]"

lemma partyIdEquals_eq [simp]: "partyIdEquals a b \<longleftrightarrow> a = b"
  by (auto simp: partyIdEquals_def)

lemma parsePartyId_wf [parse_inv]: "parsePartyId v c = Inr p \<Longrightarrow> wf_party p"
  by (auto simp: parsePartyId_def wf_party_def rbind_eq_Inr parseIdentifier_Inr split: if_splits)

lemma parsePartyId_js_Inr [simp]: "parsePartyId (js_party p) c = Inr q \<longleftrightarrow> q = p \<and> wf_party p"
  by (auto simp: parsePartyId_def js_party_def wf_party_def rbind_eq_Inr parseIdentifier_Inr)

lemma parseIdentifierSet_wf [parse_inv]: "parseIdentifierSet v c = Inr xs \<Longrightarrow> wf_id_set xs"
proof -
  assume "parseIdentifierSet v c = Inr xs"
  then obtain js out where p: "length js \<le> MAX_SET_SIZE" "rmap parseIdentifier js = Inr out"
      "distinct out" "xs = js_sort compareIdentifierBytes out"
    by (auto simp: parseIdentifierSet_def rbind_eq_Inr not_less split: js.splits if_splits)
  from p(2) have l2: "list_all2 (\<lambda>x y. parseIdentifier x = Inr y) js out" by (simp add: rmap_eq_Inr)
  then have "length js = length out" by (rule list_all2_lengthD)
  moreover have "list_all valid_ident out"
    using l2 by (induction rule: list_all2_induct) (simp_all add: parseIdentifier_Inr)
  ultimately show ?thesis
    using p id_cmp.sorted_sort [of out] by (simp add: wf_id_set_def list_all_iff)
qed

lemma rmap_parseIdentifier_JStr:
  "rmap parseIdentifier (map JStr xs) = Inr ys \<longleftrightarrow> ys = xs \<and> list_all valid_ident xs"
  by (induction xs arbitrary: ys) (auto simp: rbind_eq_Inr parseIdentifier_Inr)

lemma parseIdentifierSet_js [simp]:
  "wf_id_set xs \<Longrightarrow> parseIdentifierSet (JArr (map JStr xs)) c = Inr xs"
  using rmap_parseIdentifier_JStr [of xs xs]
  by (simp add: parseIdentifierSet_def wf_id_set_def js_sort_sorted)

lemma parseIdentifierSet_JStrs:
  "parseIdentifierSet (JArr (map JStr xs)) c = Inr ys \<Longrightarrow> ys = js_sort compareIdentifierBytes xs"
  by (auto simp: parseIdentifierSet_def rbind_eq_Inr rmap_parseIdentifier_JStr split: if_splits)

lemma parseEnum_side [simp]: "parseEnum (JStr (side_name s)) Side c = Inr s"
  by (cases s) (simp_all add: parseEnum_JStr Side_def)

lemma parseEnum_synthetic [simp]:
  "parseEnum (JStr (synthetic_policy_name y)) SyntheticPolicy c = Inr y"
  by (cases y) (simp_all add: parseEnum_JStr SyntheticPolicy_def)

lemma parseEnum_halt [simp]: "parseEnum (JStr (halt_policy_name h)) HaltPolicy c = Inr h"
  by (cases h) (simp_all add: parseEnum_JStr HaltPolicy_def)

text \<open>The parser accepts exactly the well-formed values, and gives them back unchanged.\<close>

lemma parseMandate_wf [parse_inv]: "parseMandate v = Inr m \<Longrightarrow> wf_mandate m"
  by (auto simp: parseMandate_def wf_mandate_def rbind_eq_Inr
      parseBytes32_Inr parseBoundedUint_Inr parseUnixSeconds_Inr parseDurationSeconds_Inr
      dest: parsePartyId_wf parseCanonicalAssetId_wf parseAmount_wf parseIdentifierSet_wf
      split: if_splits js.splits jsnum.splits)

lemma js_mandate_shape [simp]: "is_object (js_mandate m)" "only_keys MANDATE_FIELDS (js_mandate m)"
  by (simp_all add: js_mandate_def only_keys_def MANDATE_FIELDS_def)

lemma js_mandate_get [simp]:
  "jget (js_mandate m) ''version'' = JNum (IntNum (m_version m))"
  "jget (js_mandate m) ''mandateId'' = JStr (m_mandateId m)"
  "jget (js_mandate m) ''nonce'' = JBig (m_nonce m)"
  "jget (js_mandate m) ''principal'' = js_party (m_principal m)"
  "jget (js_mandate m) ''agent'' = js_party (m_agent m)"
  "jget (js_mandate m) ''canonicalAsset'' = js_asset (m_canonicalAsset m)"
  "jget (js_mandate m) ''side'' = JStr (side_name (m_side m))"
  "jget (js_mandate m) ''maxNotional'' = js_amount (m_maxNotional m)"
  "jget (js_mandate m) ''economicLimit'' = js_amount (m_economicLimit m)"
  "jget (js_mandate m) ''maxDeviationBps'' = JBig (m_maxDeviationBps m)"
  "jget (js_mandate m) ''syntheticPolicy'' = JStr (synthetic_policy_name (m_syntheticPolicy m))"
  "jget (js_mandate m) ''allowedIssuers'' = JArr (map JStr (m_allowedIssuers m))"
  "jget (js_mandate m) ''allowedChains'' = JArr (map JStr (m_allowedChains m))"
  "jget (js_mandate m) ''allowedVenues'' = JArr (map JStr (m_allowedVenues m))"
  "jget (js_mandate m) ''requiredCorporateActionEpoch'' = JBig (m_requiredCorporateActionEpoch m)"
  "jget (js_mandate m) ''maxPriceAgeSeconds'' = JBig (m_maxPriceAgeSeconds m)"
  "jget (js_mandate m) ''maxCorporateActionAgeSeconds'' = JBig (m_maxCorporateActionAgeSeconds m)"
  "jget (js_mandate m) ''haltPolicy'' = JStr (halt_policy_name (m_haltPolicy m))"
  "jget (js_mandate m) ''createdAtUnixSeconds'' = JBig (m_createdAtUnixSeconds m)"
  "jget (js_mandate m) ''notBeforeUnixSeconds'' = JBig (m_notBeforeUnixSeconds m)"
  "jget (js_mandate m) ''expiresAtUnixSeconds'' = JBig (m_expiresAtUnixSeconds m)"
  by (simp_all add: js_mandate_def)

lemma parseMandate_js [simp]: "wf_mandate m \<Longrightarrow> parseMandate (js_mandate m) = Inr m"
  by (simp add: parseMandate_def rbind_eq_Inr wf_mandate_def)

text \<open>
  What the parser reads back, whatever the object held; a set comes back sorted, so it is the one field
  this says nothing of.
\<close>

lemma parseMandate_js_Inr:
  "parseMandate (js_mandate m) = Inr n \<Longrightarrow>
     n = m\<lparr>m_allowedIssuers := m_allowedIssuers n, m_allowedChains := m_allowedChains n,
           m_allowedVenues := m_allowedVenues n\<rparr> \<and>
     m_allowedIssuers n = js_sort compareIdentifierBytes (m_allowedIssuers m) \<and>
     m_allowedChains n = js_sort compareIdentifierBytes (m_allowedChains m) \<and>
     m_allowedVenues n = js_sort compareIdentifierBytes (m_allowedVenues m)"
  by (auto simp: parseMandate_def rbind_eq_Inr parse_inv parseIdentifierSet_JStrs split: if_splits)

end
