(* ===== verification/Candidate.thy ===== *)
theory Candidate
  imports Mandate
begin

text \<open>
  The execution candidate (\<open>packages/kernel/src/candidate.ts\<close>): what an agent proposes to execute, its
  strict parser, and the shape the parser establishes.
\<close>

definition CANDIDATE_SCHEMA_VERSION :: int where
  "CANDIDATE_SCHEMA_VERSION = 3"

record candidate =
  c_version :: int
  c_representationId :: string
  c_canonicalAsset :: asset_id
  c_issuer :: string
  c_chain :: string
  c_venue :: string
  c_side :: side
  c_agent :: party
  c_quantity :: amount
  c_executionPrice :: price
  c_notional :: amount
  c_feeTotal :: amount
  c_evaluationStateId :: string
  c_evaluationStateDigest :: string
  c_registrySnapshotDigest :: string
  c_corporateActionEpoch :: int

definition CANDIDATE_FIELDS :: "string list" where
  "CANDIDATE_FIELDS = [''version'', ''representationId'', ''canonicalAsset'', ''issuer'', ''chain'',
     ''venue'', ''side'', ''agent'', ''quantity'', ''executionPrice'', ''notional'', ''feeTotal'',
     ''evaluationStateId'', ''evaluationStateDigest'', ''registrySnapshotDigest'', ''corporateActionEpoch'']"

definition parseCandidate :: "js \<Rightarrow> candidate result" where
  "parseCandidate raw =
    (if \<not> is_object raw then Inl MALFORMED_CANDIDATE else
     case jget raw ''version'' of
       JNum (IntNum version) \<Rightarrow>
        (if version \<noteq> CANDIDATE_SCHEMA_VERSION then Inl MALFORMED_CANDIDATE
         else if \<not> only_keys CANDIDATE_FIELDS raw then Inl MALFORMED_CANDIDATE else
         rbind (parseIdentifier (jget raw ''representationId'')) (\<lambda>representationId.
         rbind (parseCanonicalAssetId (jget raw ''canonicalAsset'')) (\<lambda>canonicalAsset.
         rbind (parseIdentifier (jget raw ''issuer'')) (\<lambda>issuer.
         rbind (parseIdentifier (jget raw ''chain'')) (\<lambda>chain.
         rbind (parseIdentifier (jget raw ''venue'')) (\<lambda>venue.
         rbind (parseEnum (jget raw ''side'') Side MALFORMED_CANDIDATE) (\<lambda>sid.
         rbind (parsePartyId (jget raw ''agent'') MALFORMED_CANDIDATE) (\<lambda>agent.
         rbind (parseAmount (jget raw ''quantity'')) (\<lambda>quantity.
         rbind (parsePrice (jget raw ''executionPrice'')) (\<lambda>executionPrice.
         rbind (parseAmount (jget raw ''notional'')) (\<lambda>notional.
         rbind (parseAmount (jget raw ''feeTotal'')) (\<lambda>feeTotal.
         rbind (parseIdentifier (jget raw ''evaluationStateId'')) (\<lambda>evaluationStateId.
         rbind (parseBytes32 (jget raw ''evaluationStateDigest'') MALFORMED_CANDIDATE) (\<lambda>evaluationStateDigest.
         rbind (parseBytes32 (jget raw ''registrySnapshotDigest'') MALFORMED_CANDIDATE) (\<lambda>registrySnapshotDigest.
         rbind (parseBoundedUint (jget raw ''corporateActionEpoch'') UINT64_MAX MALFORMED_CANDIDATE) (\<lambda>epoch.
         Inr \<lparr>c_version = version, c_representationId = representationId,
           c_canonicalAsset = canonicalAsset, c_issuer = issuer, c_chain = chain, c_venue = venue,
           c_side = sid, c_agent = agent, c_quantity = quantity, c_executionPrice = executionPrice,
           c_notional = notional, c_feeTotal = feeTotal, c_evaluationStateId = evaluationStateId,
           c_evaluationStateDigest = evaluationStateDigest,
           c_registrySnapshotDigest = registrySnapshotDigest, c_corporateActionEpoch = epoch\<rparr>))))))))))))))))
     | _ \<Rightarrow> Inl MALFORMED_CANDIDATE)"

definition wf_candidate :: "candidate \<Rightarrow> bool" where
  "wf_candidate c \<longleftrightarrow>
     c_version c = CANDIDATE_SCHEMA_VERSION \<and> valid_ident (c_representationId c)
   \<and> wf_asset (c_canonicalAsset c) \<and> valid_ident (c_issuer c) \<and> valid_ident (c_chain c)
   \<and> valid_ident (c_venue c) \<and> wf_party (c_agent c) \<and> wf_amount (c_quantity c)
   \<and> wf_price (c_executionPrice c) \<and> wf_amount (c_notional c) \<and> wf_amount (c_feeTotal c)
   \<and> valid_ident (c_evaluationStateId c) \<and> hex_literal 64 (c_evaluationStateDigest c)
   \<and> hex_literal 64 (c_registrySnapshotDigest c)
   \<and> 0 \<le> c_corporateActionEpoch c \<and> c_corporateActionEpoch c \<le> UINT64_MAX"

definition js_candidate :: "candidate \<Rightarrow> js" where
  "js_candidate c = JObj [
     (''version'', JNum (IntNum (c_version c))),
     (''representationId'', JStr (c_representationId c)),
     (''canonicalAsset'', js_asset (c_canonicalAsset c)),
     (''issuer'', JStr (c_issuer c)),
     (''chain'', JStr (c_chain c)),
     (''venue'', JStr (c_venue c)),
     (''side'', JStr (side_name (c_side c))),
     (''agent'', js_party (c_agent c)),
     (''quantity'', js_amount (c_quantity c)),
     (''executionPrice'', js_price (c_executionPrice c)),
     (''notional'', js_amount (c_notional c)),
     (''feeTotal'', js_amount (c_feeTotal c)),
     (''evaluationStateId'', JStr (c_evaluationStateId c)),
     (''evaluationStateDigest'', JStr (c_evaluationStateDigest c)),
     (''registrySnapshotDigest'', JStr (c_registrySnapshotDigest c)),
     (''corporateActionEpoch'', JBig (c_corporateActionEpoch c))]"

lemma parseCandidate_wf [parse_inv]: "parseCandidate v = Inr c \<Longrightarrow> wf_candidate c"
  by (auto simp: parseCandidate_def wf_candidate_def rbind_eq_Inr
      parseIdentifier_Inr parseBytes32_Inr parseBoundedUint_Inr
      dest: parsePartyId_wf parseCanonicalAssetId_wf parseAmount_wf parsePrice_wf
      split: if_splits js.splits jsnum.splits)

lemma js_candidate_shape [simp]:
  "is_object (js_candidate c)" "only_keys CANDIDATE_FIELDS (js_candidate c)"
  by (simp_all add: js_candidate_def only_keys_def CANDIDATE_FIELDS_def)

lemma js_candidate_get [simp]:
  "jget (js_candidate c) ''version'' = JNum (IntNum (c_version c))"
  "jget (js_candidate c) ''representationId'' = JStr (c_representationId c)"
  "jget (js_candidate c) ''canonicalAsset'' = js_asset (c_canonicalAsset c)"
  "jget (js_candidate c) ''issuer'' = JStr (c_issuer c)"
  "jget (js_candidate c) ''chain'' = JStr (c_chain c)"
  "jget (js_candidate c) ''venue'' = JStr (c_venue c)"
  "jget (js_candidate c) ''side'' = JStr (side_name (c_side c))"
  "jget (js_candidate c) ''agent'' = js_party (c_agent c)"
  "jget (js_candidate c) ''quantity'' = js_amount (c_quantity c)"
  "jget (js_candidate c) ''executionPrice'' = js_price (c_executionPrice c)"
  "jget (js_candidate c) ''notional'' = js_amount (c_notional c)"
  "jget (js_candidate c) ''feeTotal'' = js_amount (c_feeTotal c)"
  "jget (js_candidate c) ''evaluationStateId'' = JStr (c_evaluationStateId c)"
  "jget (js_candidate c) ''evaluationStateDigest'' = JStr (c_evaluationStateDigest c)"
  "jget (js_candidate c) ''registrySnapshotDigest'' = JStr (c_registrySnapshotDigest c)"
  "jget (js_candidate c) ''corporateActionEpoch'' = JBig (c_corporateActionEpoch c)"
  by (simp_all add: js_candidate_def)

lemma parseCandidate_js [simp]: "wf_candidate c \<Longrightarrow> parseCandidate (js_candidate c) = Inr c"
  by (simp add: parseCandidate_def rbind_eq_Inr wf_candidate_def)

lemma parseCandidate_js_Inr: "parseCandidate (js_candidate c) = Inr d \<Longrightarrow> d = c"
  by (auto simp: parseCandidate_def rbind_eq_Inr parse_inv split: if_splits)

end
