(* ===== verification/Trusted_State.thy ===== *)
theory Trusted_State
  imports Mandate
begin

text \<open>
  Trusted state (\<open>packages/kernel/src/trust.ts\<close> and \<open>state.ts\<close>): provenance, observed values, the
  per-domain states, the parser of a whole snapshot and what it establishes. A nullable field is an
  option. \<open>INHERITED s\<close> is the trust class of a string that is no key of \<open>TrustClass\<close> but is a property
  every object inherits, which the operator \<open>in\<close> of \<open>parseProvenance\<close> also accepts.
\<close>

section \<open>Trust (trust.ts)\<close>

datatype trust_class = AUTHORITATIVE | VERIFIED | ADVISORY | UNTRUSTED | INHERITED string

definition TrustClass :: "(string \<times> trust_class) list" where
  "TrustClass = [(''AUTHORITATIVE'', AUTHORITATIVE), (''VERIFIED'', VERIFIED), (''ADVISORY'', ADVISORY),
     (''UNTRUSTED'', UNTRUSTED)]"

definition object_prototype_names :: "string list" where
  "object_prototype_names = [''constructor'', ''__defineGetter__'', ''__defineSetter__'',
     ''hasOwnProperty'', ''__lookupGetter__'', ''__lookupSetter__'', ''isPrototypeOf'',
     ''propertyIsEnumerable'', ''toString'', ''valueOf'', ''__proto__'', ''toLocaleString'']"

definition trust_class_of :: "string \<Rightarrow> trust_class option" where
  "trust_class_of s = (case map_of TrustClass s of
     Some c \<Rightarrow> Some c
   | None \<Rightarrow> if s \<in> set object_prototype_names then Some (INHERITED s) else None)"

definition isTrustedForAuthorization :: "trust_class \<Rightarrow> bool" where
  "isTrustedForAuthorization c \<longleftrightarrow> c \<in> {AUTHORITATIVE, VERIFIED}"

record provenance =
  trustClass :: trust_class
  sourceId :: string
  observedAt :: int

record 'a observed =
  value_of :: 'a
  prov :: provenance

definition parseProvenance :: "js \<Rightarrow> provenance result" where
  "parseProvenance raw =
     (if \<not> is_object raw then Inl MALFORMED_TRUSTED_STATE else
      case jget raw ''trustClass'' of
        JStr s \<Rightarrow> (case trust_class_of s of
            None \<Rightarrow> Inl MALFORMED_TRUSTED_STATE
          | Some tc \<Rightarrow>
              rbind (relabel MALFORMED_TRUSTED_STATE (parseIdentifier (jget raw ''sourceId''))) (\<lambda>src.
              rbind (parseUnixSeconds (jget raw ''observedAtUnixSeconds'') MALFORMED_TRUSTED_STATE) (\<lambda>t.
              Inr \<lparr>trustClass = tc, sourceId = src, observedAt = t\<rparr>)))
      | _ \<Rightarrow> Inl MALFORMED_TRUSTED_STATE)"

definition parseObserved :: "js \<Rightarrow> (js \<Rightarrow> 'a result) \<Rightarrow> 'a observed result" where
  "parseObserved raw parseValue =
     (if \<not> is_object raw then Inl MALFORMED_TRUSTED_STATE
      else rbind (parseProvenance (jget raw ''provenance'')) (\<lambda>p.
           if \<not> isTrustedForAuthorization (trustClass p) then Inl UNTRUSTED_REQUIRED_STATE
           else rbind (parseValue (jget raw ''value'')) (\<lambda>v.
                Inr \<lparr>value_of = v, prov = p\<rparr>)))"

definition ageSeconds :: "provenance \<Rightarrow> int \<Rightarrow> int" where
  "ageSeconds p now = now - observedAt p"

section \<open>State (state.ts)\<close>

definition STATE_SCHEMA_VERSION :: int where
  "STATE_SCHEMA_VERSION = 2"

definition MAX_STATE_REPRESENTATIONS :: nat where
  "MAX_STATE_REPRESENTATIONS = 65535"

datatype tri_state = YES | NO | TRI_UNKNOWN

datatype operational_state = ACTIVE | PAUSED | TRANSITION | DEPRECATED | OP_UNKNOWN

datatype halt_status = TRADING | HALTED | HALT_UNKNOWN

datatype replay_status = UNUSED | RESERVED | CONSUMED | QUARANTINED | REPLAY_UNKNOWN

definition TriState :: "(string \<times> tri_state) list" where
  "TriState = [(''YES'', YES), (''NO'', NO), (''UNKNOWN'', TRI_UNKNOWN)]"

definition OperationalState :: "(string \<times> operational_state) list" where
  "OperationalState = [(''ACTIVE'', ACTIVE), (''PAUSED'', PAUSED), (''TRANSITION'', TRANSITION),
     (''DEPRECATED'', DEPRECATED), (''UNKNOWN'', OP_UNKNOWN)]"

definition HaltStatus :: "(string \<times> halt_status) list" where
  "HaltStatus = [(''TRADING'', TRADING), (''HALTED'', HALTED), (''UNKNOWN'', HALT_UNKNOWN)]"

definition ReplayStatus :: "(string \<times> replay_status) list" where
  "ReplayStatus = [(''UNUSED'', UNUSED), (''RESERVED'', RESERVED), (''CONSUMED'', CONSUMED),
     (''QUARANTINED'', QUARANTINED), (''UNKNOWN'', REPLAY_UNKNOWN)]"

record representation_state =
  rep_id :: string
  rep_asset :: asset_id
  rep_issuer :: string
  rep_chain :: string
  instrumentType :: "string option"
  synthetic :: tri_state
  operationalState :: operational_state

record market_state =
  market_asset :: asset_id
  referencePrice :: "price option"
  haltStatus :: halt_status

record corporate_action_state =
  ca_asset :: asset_id
  ca_epoch :: "int option"

record replay_state =
  rs_mandateDigest :: string
  rs_status :: replay_status

record trusted_state =
  s_version :: int
  s_stateId :: string
  s_registrySnapshotDigest :: "string option"
  s_representations :: "representation_state observed list"
  s_market :: "market_state observed option"
  s_corporateAction :: "corporate_action_state observed option"
  s_replay :: "replay_state observed option"

text \<open>\<open>x == null\<close>, and a field that is absent, null or parsed by \<open>f\<close>.\<close>

definition is_nullish :: "js \<Rightarrow> bool" where
  "is_nullish v \<longleftrightarrow> v = JUndef \<or> v = JNull"

definition parse_nullable :: "(js \<Rightarrow> 'a result) \<Rightarrow> js \<Rightarrow> 'a option result" where
  "parse_nullable f v = (if is_nullish v then Inr None else rbind (f v) (\<lambda>x. Inr (Some x)))"

definition parseRepresentationState :: "js \<Rightarrow> representation_state result" where
  "parseRepresentationState raw =
     (if \<not> is_object raw then Inl MALFORMED_TRUSTED_STATE else
      rbind (relabel MALFORMED_TRUSTED_STATE (parseIdentifier (jget raw ''representationId''))) (\<lambda>rid.
      rbind (relabel MALFORMED_TRUSTED_STATE (parseCanonicalAssetId (jget raw ''canonicalAsset''))) (\<lambda>asset.
      rbind (relabel MALFORMED_TRUSTED_STATE (parseIdentifier (jget raw ''issuer''))) (\<lambda>issuer.
      rbind (relabel MALFORMED_TRUSTED_STATE (parseIdentifier (jget raw ''chain''))) (\<lambda>chain.
      rbind (relabel MALFORMED_TRUSTED_STATE (parse_nullable parseIdentifier (jget raw ''instrumentType''))) (\<lambda>instr.
      rbind (parseEnum (jget raw ''synthetic'') TriState MALFORMED_TRUSTED_STATE) (\<lambda>syn.
      rbind (parseEnum (jget raw ''operationalState'') OperationalState MALFORMED_TRUSTED_STATE) (\<lambda>op.
      Inr \<lparr>rep_id = rid, rep_asset = asset, rep_issuer = issuer, rep_chain = chain,
           instrumentType = instr, synthetic = syn, operationalState = op\<rparr>))))))))"

definition parseMarketState :: "js \<Rightarrow> market_state result" where
  "parseMarketState raw =
     (if \<not> is_object raw then Inl MALFORMED_TRUSTED_STATE else
      rbind (relabel MALFORMED_TRUSTED_STATE (parseCanonicalAssetId (jget raw ''canonicalAsset''))) (\<lambda>asset.
      rbind (relabel MALFORMED_TRUSTED_STATE (parse_nullable parsePrice (jget raw ''referencePrice''))) (\<lambda>price.
      rbind (parseEnum (jget raw ''haltStatus'') HaltStatus MALFORMED_TRUSTED_STATE) (\<lambda>halt.
      Inr \<lparr>market_asset = asset, referencePrice = price, haltStatus = halt\<rparr>))))"

definition parseCorporateActionState :: "js \<Rightarrow> corporate_action_state result" where
  "parseCorporateActionState raw =
     (if \<not> is_object raw then Inl MALFORMED_TRUSTED_STATE else
      rbind (relabel MALFORMED_TRUSTED_STATE (parseCanonicalAssetId (jget raw ''canonicalAsset''))) (\<lambda>asset.
      rbind (parse_nullable (\<lambda>v. parseBoundedUint v UINT64_MAX MALFORMED_TRUSTED_STATE) (jget raw ''epoch'')) (\<lambda>epoch.
      Inr \<lparr>ca_asset = asset, ca_epoch = epoch\<rparr>)))"

definition parseReplayState :: "js \<Rightarrow> replay_state result" where
  "parseReplayState raw =
     (if \<not> is_object raw then Inl MALFORMED_TRUSTED_STATE else
      rbind (parseBytes32 (jget raw ''mandateDigest'') MALFORMED_TRUSTED_STATE) (\<lambda>d.
      rbind (parseEnum (jget raw ''status'') ReplayStatus MALFORMED_TRUSTED_STATE) (\<lambda>st.
      Inr \<lparr>rs_mandateDigest = d, rs_status = st\<rparr>)))"

definition parseTrustedState :: "js \<Rightarrow> trusted_state result" where
  "parseTrustedState raw =
    (if \<not> is_object raw then Inl MALFORMED_TRUSTED_STATE else
     case jget raw ''version'' of
       JNum (IntNum version) \<Rightarrow>
        (if version \<noteq> STATE_SCHEMA_VERSION then Inl MALFORMED_TRUSTED_STATE else
         rbind (relabel MALFORMED_TRUSTED_STATE (parseIdentifier (jget raw ''stateId''))) (\<lambda>stateId.
         rbind (parse_nullable (\<lambda>v. parseBytes32 v MALFORMED_TRUSTED_STATE) (jget raw ''registrySnapshotDigest'')) (\<lambda>registry.
         case jget raw ''representations'' of
           JArr entries \<Rightarrow>
            (if length entries > MAX_STATE_REPRESENTATIONS then Inl RESOURCE_LIMIT_EXCEEDED else
             rbind (rmap (\<lambda>v. parseObserved v parseRepresentationState) entries) (\<lambda>reps.
             if \<not> distinct (map (rep_id \<circ> value_of) reps) then Inl MALFORMED_TRUSTED_STATE else
             rbind (parse_nullable (\<lambda>v. parseObserved v parseMarketState) (jget raw ''market'')) (\<lambda>market.
             rbind (parse_nullable (\<lambda>v. parseObserved v parseCorporateActionState) (jget raw ''corporateAction'')) (\<lambda>ca.
             rbind (parse_nullable (\<lambda>v. parseObserved v parseReplayState) (jget raw ''replay'')) (\<lambda>replay.
             Inr \<lparr>s_version = version, s_stateId = stateId, s_registrySnapshotDigest = registry,
               s_representations = reps, s_market = market, s_corporateAction = ca, s_replay = replay\<rparr>)))))
         | _ \<Rightarrow> Inl MALFORMED_TRUSTED_STATE)))
     | _ \<Rightarrow> Inl MALFORMED_TRUSTED_STATE)"

definition findRepresentation :: "trusted_state \<Rightarrow> string \<Rightarrow> representation_state observed option" where
  "findRepresentation s rid = List.find (\<lambda>o'. rep_id (value_of o') = rid) (s_representations s)"

section \<open>What parsing establishes\<close>

definition wf_provenance :: "provenance \<Rightarrow> bool" where
  "wf_provenance p \<longleftrightarrow> isTrustedForAuthorization (trustClass p) \<and> valid_ident (sourceId p) \<and> wf_time (observedAt p)"

definition wf_observed :: "('a \<Rightarrow> bool) \<Rightarrow> 'a observed \<Rightarrow> bool" where
  "wf_observed ok o' \<longleftrightarrow> ok (value_of o') \<and> wf_provenance (prov o')"

definition wf_representation :: "representation_state \<Rightarrow> bool" where
  "wf_representation r \<longleftrightarrow> valid_ident (rep_id r) \<and> wf_asset (rep_asset r) \<and> valid_ident (rep_issuer r)
     \<and> valid_ident (rep_chain r) \<and> pred_option valid_ident (instrumentType r)"

definition wf_market :: "market_state \<Rightarrow> bool" where
  "wf_market m \<longleftrightarrow> wf_asset (market_asset m) \<and> pred_option wf_price (referencePrice m)"

definition wf_corporate_action :: "corporate_action_state \<Rightarrow> bool" where
  "wf_corporate_action c \<longleftrightarrow> wf_asset (ca_asset c) \<and> pred_option (\<lambda>e. 0 \<le> e \<and> e \<le> UINT64_MAX) (ca_epoch c)"

definition wf_replay_state :: "replay_state \<Rightarrow> bool" where
  "wf_replay_state r \<longleftrightarrow> hex_literal 64 (rs_mandateDigest r)"

definition wf_state :: "trusted_state \<Rightarrow> bool" where
  "wf_state s \<longleftrightarrow>
     s_version s = STATE_SCHEMA_VERSION \<and> valid_ident (s_stateId s)
   \<and> pred_option (hex_literal 64) (s_registrySnapshotDigest s)
   \<and> length (s_representations s) \<le> MAX_STATE_REPRESENTATIONS
   \<and> list_all (wf_observed wf_representation) (s_representations s)
   \<and> distinct (map (rep_id \<circ> value_of) (s_representations s))
   \<and> pred_option (wf_observed wf_market) (s_market s)
   \<and> pred_option (wf_observed wf_corporate_action) (s_corporateAction s)
   \<and> pred_option (wf_observed wf_replay_state) (s_replay s)"

lemma trust_class_of_trusted:
  "trust_class_of s = Some c \<Longrightarrow> isTrustedForAuthorization c \<Longrightarrow>
     (s = ''AUTHORITATIVE'' \<and> c = AUTHORITATIVE) \<or> (s = ''VERIFIED'' \<and> c = VERIFIED)"
  by (auto simp: trust_class_of_def TrustClass_def isTrustedForAuthorization_def split: if_splits)

lemma parseProvenance_wf:
  "parseProvenance v = Inr p \<Longrightarrow> isTrustedForAuthorization (trustClass p) \<Longrightarrow> wf_provenance p"
  by (auto simp: parseProvenance_def wf_provenance_def rbind_eq_Inr parseIdentifier_Inr parseUnixSeconds_Inr
      split: if_splits js.splits option.splits)

lemma parseObserved_wf:
  assumes "parseObserved v f = Inr o'" "\<And>w x. f w = Inr x \<Longrightarrow> ok x"
  shows "wf_observed ok o'"
  using assms by (auto simp: parseObserved_def wf_observed_def rbind_eq_Inr dest: parseProvenance_wf split: if_splits)

lemma parse_nullable_pred:
  assumes "parse_nullable f v = Inr x" "\<And>w y. f w = Inr y \<Longrightarrow> P y"
  shows "pred_option P x"
  using assms by (auto simp: parse_nullable_def rbind_eq_Inr split: if_splits)

lemma parseRepresentationState_wf: "parseRepresentationState v = Inr r \<Longrightarrow> wf_representation r"
  by (auto simp: parseRepresentationState_def wf_representation_def rbind_eq_Inr parseIdentifier_Inr
      dest: parseCanonicalAssetId_wf elim!: parse_nullable_pred split: if_splits)

lemma parseMarketState_wf: "parseMarketState v = Inr m \<Longrightarrow> wf_market m"
  by (auto simp: parseMarketState_def wf_market_def rbind_eq_Inr
      dest: parseCanonicalAssetId_wf elim!: parse_nullable_pred intro: parsePrice_wf split: if_splits)

lemma parseCorporateActionState_wf: "parseCorporateActionState v = Inr c \<Longrightarrow> wf_corporate_action c"
  by (auto simp: parseCorporateActionState_def wf_corporate_action_def rbind_eq_Inr parseBoundedUint_Inr
      dest: parseCanonicalAssetId_wf elim!: parse_nullable_pred split: if_splits)

lemma parseReplayState_wf: "parseReplayState v = Inr r \<Longrightarrow> wf_replay_state r"
  by (auto simp: parseReplayState_def wf_replay_state_def rbind_eq_Inr parseBytes32_Inr split: if_splits)

lemma rmap_list_all:
  "rmap f xs = Inr ys \<Longrightarrow> (\<And>x y. f x = Inr y \<Longrightarrow> P y) \<Longrightarrow> list_all P ys"
  by (induction xs arbitrary: ys) (auto simp: rbind_eq_Inr)

lemma parseTrustedState_wf [parse_inv]: "parseTrustedState v = Inr s \<Longrightarrow> wf_state s"
proof -
  assume "parseTrustedState v = Inr s"
  then obtain reps es where
    "s_version s = STATE_SCHEMA_VERSION" "valid_ident (s_stateId s)" "length es \<le> MAX_STATE_REPRESENTATIONS"
    and reg: "parse_nullable (\<lambda>v. parseBytes32 v MALFORMED_TRUSTED_STATE) (jget v ''registrySnapshotDigest'')
        = Inr (s_registrySnapshotDigest s)"
    and reps: "rmap (\<lambda>v. parseObserved v parseRepresentationState) es = Inr (s_representations s)"
    and "distinct (map (rep_id \<circ> value_of) (s_representations s))"
    and m: "parse_nullable (\<lambda>v. parseObserved v parseMarketState) (jget v ''market'') = Inr (s_market s)"
    and c: "parse_nullable (\<lambda>v. parseObserved v parseCorporateActionState) (jget v ''corporateAction'')
        = Inr (s_corporateAction s)"
    and r: "parse_nullable (\<lambda>v. parseObserved v parseReplayState) (jget v ''replay'') = Inr (s_replay s)"
    by (cases "jget v ''representations''"; cases "jget v ''version''")
      (auto simp: parseTrustedState_def rbind_eq_Inr parseIdentifier_Inr not_less
        split: if_splits jsnum.splits)
  moreover from reps have "length (s_representations s) = length es"
    by (auto simp: rmap_eq_Inr dest: list_all2_lengthD)
  moreover from reg have "pred_option (hex_literal 64) (s_registrySnapshotDigest s)"
    by (rule parse_nullable_pred) (simp add: parseBytes32_Inr)
  moreover from reps have "list_all (wf_observed wf_representation) (s_representations s)"
    by (rule rmap_list_all) (blast intro: parseObserved_wf parseRepresentationState_wf)
  moreover from m have "pred_option (wf_observed wf_market) (s_market s)"
    by (rule parse_nullable_pred) (blast intro: parseObserved_wf parseMarketState_wf)
  moreover from c have "pred_option (wf_observed wf_corporate_action) (s_corporateAction s)"
    by (rule parse_nullable_pred) (blast intro: parseObserved_wf parseCorporateActionState_wf)
  moreover from r have "pred_option (wf_observed wf_replay_state) (s_replay s)"
    by (rule parse_nullable_pred) (blast intro: parseObserved_wf parseReplayState_wf)
  ultimately show ?thesis by (simp add: wf_state_def)
qed

lemma findRepresentation_Some:
  "findRepresentation s rid = Some o' \<Longrightarrow> o' \<in> set (s_representations s) \<and> rep_id (value_of o') = rid"
  by (auto simp: findRepresentation_def find_Some_iff)

section \<open>A state as the plain object the decoder parses\<close>

text \<open>
  The decoder's tables name four trust classes only; the name given to \<open>INHERITED\<close> is one the parser
  refuses.
\<close>

fun trust_class_name :: "trust_class \<Rightarrow> string" where
  "trust_class_name AUTHORITATIVE = ''AUTHORITATIVE''"
| "trust_class_name VERIFIED = ''VERIFIED''"
| "trust_class_name ADVISORY = ''ADVISORY''"
| "trust_class_name UNTRUSTED = ''UNTRUSTED''"
| "trust_class_name (INHERITED _) = ''INHERITED''"

fun tri_state_name :: "tri_state \<Rightarrow> string" where
  "tri_state_name YES = ''YES''"
| "tri_state_name NO = ''NO''"
| "tri_state_name TRI_UNKNOWN = ''UNKNOWN''"

fun operational_state_name :: "operational_state \<Rightarrow> string" where
  "operational_state_name ACTIVE = ''ACTIVE''"
| "operational_state_name PAUSED = ''PAUSED''"
| "operational_state_name TRANSITION = ''TRANSITION''"
| "operational_state_name DEPRECATED = ''DEPRECATED''"
| "operational_state_name OP_UNKNOWN = ''UNKNOWN''"

fun halt_status_name :: "halt_status \<Rightarrow> string" where
  "halt_status_name TRADING = ''TRADING''"
| "halt_status_name HALTED = ''HALTED''"
| "halt_status_name HALT_UNKNOWN = ''UNKNOWN''"

fun replay_status_name :: "replay_status \<Rightarrow> string" where
  "replay_status_name UNUSED = ''UNUSED''"
| "replay_status_name RESERVED = ''RESERVED''"
| "replay_status_name CONSUMED = ''CONSUMED''"
| "replay_status_name QUARANTINED = ''QUARANTINED''"
| "replay_status_name REPLAY_UNKNOWN = ''UNKNOWN''"

definition js_provenance :: "provenance \<Rightarrow> js" where
  "js_provenance p = JObj [(''trustClass'', JStr (trust_class_name (trustClass p))),
     (''sourceId'', JStr (sourceId p)), (''observedAtUnixSeconds'', JBig (observedAt p))]"

definition js_observed :: "('a \<Rightarrow> js) \<Rightarrow> 'a observed \<Rightarrow> js" where
  "js_observed f o' = JObj [(''provenance'', js_provenance (prov o')), (''value'', f (value_of o'))]"

definition js_nullable :: "('a \<Rightarrow> js) \<Rightarrow> 'a option \<Rightarrow> js" where
  "js_nullable f x = (case x of None \<Rightarrow> JNull | Some y \<Rightarrow> f y)"

definition js_representation :: "representation_state \<Rightarrow> js" where
  "js_representation r = JObj [
     (''representationId'', JStr (rep_id r)),
     (''canonicalAsset'', js_asset (rep_asset r)),
     (''issuer'', JStr (rep_issuer r)),
     (''chain'', JStr (rep_chain r)),
     (''instrumentType'', js_nullable JStr (instrumentType r)),
     (''synthetic'', JStr (tri_state_name (synthetic r))),
     (''operationalState'', JStr (operational_state_name (operationalState r)))]"

definition js_market :: "market_state \<Rightarrow> js" where
  "js_market m = JObj [(''canonicalAsset'', js_asset (market_asset m)),
     (''referencePrice'', js_nullable js_price (referencePrice m)),
     (''haltStatus'', JStr (halt_status_name (haltStatus m)))]"

definition js_corporate_action :: "corporate_action_state \<Rightarrow> js" where
  "js_corporate_action c = JObj [(''canonicalAsset'', js_asset (ca_asset c)),
     (''epoch'', js_nullable JBig (ca_epoch c))]"

definition js_replay_state :: "replay_state \<Rightarrow> js" where
  "js_replay_state r = JObj [(''mandateDigest'', JStr (rs_mandateDigest r)),
     (''status'', JStr (replay_status_name (rs_status r)))]"

definition js_state :: "trusted_state \<Rightarrow> js" where
  "js_state s = JObj [
     (''version'', JNum (IntNum (s_version s))),
     (''stateId'', JStr (s_stateId s)),
     (''registrySnapshotDigest'', js_nullable JStr (s_registrySnapshotDigest s)),
     (''representations'', JArr (map (js_observed js_representation) (s_representations s))),
     (''market'', js_nullable (js_observed js_market) (s_market s)),
     (''corporateAction'', js_nullable (js_observed js_corporate_action) (s_corporateAction s)),
     (''replay'', js_nullable (js_observed js_replay_state) (s_replay s))]"

lemma parseEnum_state_names [simp]:
  "parseEnum (JStr (tri_state_name t)) TriState c = Inr t"
  "parseEnum (JStr (operational_state_name op)) OperationalState c = Inr op"
  "parseEnum (JStr (halt_status_name h)) HaltStatus c = Inr h"
  "parseEnum (JStr (replay_status_name r)) ReplayStatus c = Inr r"
  subgoal by (cases t) (simp_all add: parseEnum_JStr TriState_def)
  subgoal by (cases op) (simp_all add: parseEnum_JStr OperationalState_def)
  subgoal by (cases h) (simp_all add: parseEnum_JStr HaltStatus_def)
  subgoal by (cases r) (simp_all add: parseEnum_JStr ReplayStatus_def)
  done

lemma trust_class_of_simps [simp]:
  "trust_class_of ''AUTHORITATIVE'' = Some AUTHORITATIVE"
  "trust_class_of ''VERIFIED'' = Some VERIFIED"
  "trust_class_of ''ADVISORY'' = Some ADVISORY"
  "trust_class_of ''UNTRUSTED'' = Some UNTRUSTED"
  "trust_class_of ''INHERITED'' = None"
  by (simp_all add: trust_class_of_def TrustClass_def object_prototype_names_def)

lemma parseProvenance_js:
  "parseProvenance (js_provenance p) = Inr q \<and> isTrustedForAuthorization (trustClass q) \<longleftrightarrow>
     q = p \<and> wf_provenance p"
  by (cases p; cases "trustClass p") (auto simp: parseProvenance_def js_provenance_def wf_provenance_def
      rbind_eq_Inr parseIdentifier_Inr parseUnixSeconds_Inr isTrustedForAuthorization_def)

lemma parseObserved_js:
  assumes "\<And>w. f (g (value_of o')) = Inr w \<longleftrightarrow> w = value_of o' \<and> ok (value_of o')"
  shows "parseObserved (js_observed g o') f = Inr q \<longleftrightarrow> q = o' \<and> wf_observed ok o'"
proof -
  have "parseObserved (js_observed g o') f = Inr q \<longleftrightarrow>
      (\<exists>p. (parseProvenance (js_provenance (prov o')) = Inr p \<and> isTrustedForAuthorization (trustClass p))
        \<and> (\<exists>w. f (g (value_of o')) = Inr w \<and> q = \<lparr>value_of = w, prov = p\<rparr>))"
    by (auto simp: parseObserved_def js_observed_def rbind_eq_Inr split: if_splits)
  then show ?thesis unfolding parseProvenance_js assms by (auto simp: wf_observed_def)
qed

lemma parse_nullable_js:
  assumes "\<And>y w. x = Some y \<Longrightarrow> f (g y) = Inr w \<longleftrightarrow> w = y \<and> ok y" "\<And>y. \<not> is_nullish (g y)"
  shows "parse_nullable f (js_nullable g x) = Inr z \<longleftrightarrow> z = x \<and> pred_option ok x"
  using assms by (cases x) (auto simp: parse_nullable_def js_nullable_def rbind_eq_Inr is_nullish_def)

lemma not_nullish [simp]:
  "\<not> is_nullish (JStr s)" "\<not> is_nullish (JBig i)" "\<not> is_nullish (js_price p)" "\<not> is_nullish (js_observed g o')"
  by (simp_all add: is_nullish_def js_price_def js_observed_def)

lemma parseRepresentationState_js:
  "parseRepresentationState (js_representation r) = Inr q \<longleftrightarrow> q = r \<and> wf_representation r"
proof -
  have "parse_nullable parseIdentifier (js_nullable JStr (instrumentType r)) = Inr z \<longleftrightarrow>
      z = instrumentType r \<and> pred_option valid_ident (instrumentType r)" for z
    by (rule parse_nullable_js) (auto simp: parseIdentifier_Inr)
  then show ?thesis
    by (auto simp: parseRepresentationState_def js_representation_def wf_representation_def
        rbind_eq_Inr parseIdentifier_Inr)
qed

lemma parseMarketState_js: "parseMarketState (js_market m) = Inr q \<longleftrightarrow> q = m \<and> wf_market m"
proof -
  have "parse_nullable parsePrice (js_nullable js_price (referencePrice m)) = Inr z \<longleftrightarrow>
      z = referencePrice m \<and> pred_option wf_price (referencePrice m)" for z
    by (rule parse_nullable_js) auto
  then show ?thesis by (auto simp: parseMarketState_def js_market_def wf_market_def rbind_eq_Inr)
qed

lemma parseCorporateActionState_js:
  "parseCorporateActionState (js_corporate_action c) = Inr q \<longleftrightarrow> q = c \<and> wf_corporate_action c"
proof -
  have "parse_nullable (\<lambda>v. parseBoundedUint v UINT64_MAX MALFORMED_TRUSTED_STATE) (js_nullable JBig (ca_epoch c)) = Inr z
      \<longleftrightarrow> z = ca_epoch c \<and> pred_option (\<lambda>e. 0 \<le> e \<and> e \<le> UINT64_MAX) (ca_epoch c)" for z
    by (rule parse_nullable_js) (auto simp: parseBoundedUint_Inr)
  then show ?thesis
    by (auto simp: parseCorporateActionState_def js_corporate_action_def wf_corporate_action_def rbind_eq_Inr)
qed

lemma parseReplayState_js: "parseReplayState (js_replay_state r) = Inr q \<longleftrightarrow> q = r \<and> wf_replay_state r"
  by (auto simp: parseReplayState_def js_replay_state_def wf_replay_state_def rbind_eq_Inr parseBytes32_Inr)

lemma rmap_js:
  assumes "\<And>x y. x \<in> set xs \<Longrightarrow> f (g x) = Inr y \<longleftrightarrow> y = x \<and> ok x"
  shows "rmap f (map g xs) = Inr ys \<longleftrightarrow> ys = xs \<and> list_all ok xs"
  using assms by (induction xs arbitrary: ys) (auto simp: rbind_eq_Inr)

text \<open>The parser takes a state back from its plain object exactly when the state is well-formed.\<close>

lemma parseTrustedState_js: "parseTrustedState (js_state s) = Inr t \<longleftrightarrow> t = s \<and> wf_state s"
proof -
  have reg: "parse_nullable (\<lambda>v. parseBytes32 v MALFORMED_TRUSTED_STATE) (js_nullable JStr (s_registrySnapshotDigest s)) = Inr z
      \<longleftrightarrow> z = s_registrySnapshotDigest s \<and> pred_option (hex_literal 64) (s_registrySnapshotDigest s)" for z
    by (rule parse_nullable_js) (auto simp: parseBytes32_Inr)
  have reps: "rmap (\<lambda>v. parseObserved v parseRepresentationState) (map (js_observed js_representation) (s_representations s)) = Inr ys
      \<longleftrightarrow> ys = s_representations s \<and> list_all (wf_observed wf_representation) (s_representations s)" for ys
    by (rule rmap_js) (rule parseObserved_js, rule parseRepresentationState_js)
  have m: "parse_nullable (\<lambda>v. parseObserved v parseMarketState) (js_nullable (js_observed js_market) (s_market s)) = Inr z
      \<longleftrightarrow> z = s_market s \<and> pred_option (wf_observed wf_market) (s_market s)" for z
    by (rule parse_nullable_js) (simp_all add: parseObserved_js [where ok = wf_market] parseMarketState_js)
  have c: "parse_nullable (\<lambda>v. parseObserved v parseCorporateActionState) (js_nullable (js_observed js_corporate_action) (s_corporateAction s)) = Inr z
      \<longleftrightarrow> z = s_corporateAction s \<and> pred_option (wf_observed wf_corporate_action) (s_corporateAction s)" for z
    by (rule parse_nullable_js)
      (simp_all add: parseObserved_js [where ok = wf_corporate_action] parseCorporateActionState_js)
  have r: "parse_nullable (\<lambda>v. parseObserved v parseReplayState) (js_nullable (js_observed js_replay_state) (s_replay s)) = Inr z
      \<longleftrightarrow> z = s_replay s \<and> pred_option (wf_observed wf_replay_state) (s_replay s)" for z
    by (rule parse_nullable_js) (simp_all add: parseObserved_js [where ok = wf_replay_state] parseReplayState_js)
  show ?thesis
    by (auto simp: parseTrustedState_def js_state_def wf_state_def rbind_eq_Inr reg reps m c r
        parseIdentifier_Inr simp del: o_apply)
qed

end
