(* ===== verification/Wire_Codec.thy ===== *)
theory Wire_Codec
  imports Candidate Trusted_State
begin

text \<open>
  The components of the MCE v1 codecs (\<open>packages/kernel/src/encoding/codec.ts\<close>). The locale
  \<open>wire_codec\<close> is the contract of a writer and its reader: every well-formed value is written, what was written is read back, and what was read is what would have been
  written, provided the bytes hold no byte-order mark. Each component of the wire format is an
  interpretation of it, built from the interpretations of its parts.
\<close>

section \<open>The contract of a codec\<close>

locale wire_codec =
  fixes wr :: "'a \<Rightarrow> u8 list option" and rd :: "'a reader" and ok :: "'a \<Rightarrow> bool"
  assumes total: "ok x \<Longrightarrow> \<exists>b. wr x = Some b"
    and rd_wr: "wr x = Some b \<Longrightarrow> ok x \<Longrightarrow> rd (b @ rest) = Some (x, rest)"
    and rd_inv: "rd bs = Some (x, rest) \<Longrightarrow> ok x \<Longrightarrow> no_bom bs \<Longrightarrow> \<exists>b. wr x = Some b \<and> bs = b @ rest"
begin

lemma step:
  assumes "rd bs = Some (x, rest)" "no_bom bs" "ok x"
  obtains b where "wr x = Some b" "bs = b @ rest" "no_bom rest"
  using rd_inv [OF assms(1,3,2)] assms(2) no_bom_append by blast

lemma prefix_free:
  assumes "ok x" "ok y" "wr x = Some b" "wr y = Some c" "b @ r = c @ s"
  shows "x = y \<and> r = s"
  using rd_wr [OF assms(3,1), of r] rd_wr [OF assms(4,2), of s] assms(5) by simp

lemma wr_inj: "ok x \<Longrightarrow> ok y \<Longrightarrow> wr x = wr y \<Longrightarrow> x = y"
  using prefix_free [of x y] total [of x] by fastforce

end

lemma wcat_total: "list_all (\<lambda>w. \<exists>b. w = Some b) ws \<Longrightarrow> \<exists>b. wcat ws = Some b"
  by (induction ws) auto

section \<open>Components\<close>

definition wr_hex32 :: "string \<Rightarrow> u8 list option" where
  "wr_hex32 h = wr_bytes32 (bytes32ToBytes h)"

definition rd_hex32 :: "string reader" where
  "rd_hex32 bs = do { (b, bs) \<leftarrow> rd_bytes32 bs; Some (bytesToHex b, bs) }"

definition wr_code :: "('a \<times> int) list \<Rightarrow> 'a \<Rightarrow> u8 list option" where
  "wr_code table x = do { c \<leftarrow> map_of table x; wr_u8 c }"

definition rd_code :: "(int \<times> 'a) list \<Rightarrow> 'a reader" where
  "rd_code table bs = do { (c, bs) \<leftarrow> rd_u8 bs; x \<leftarrow> map_of table c; Some (x, bs) }"

definition SIDE_CODE :: "(side \<times> int) list" where
  "SIDE_CODE = [(BUY, 1), (SELL, 2)]"

definition SIDE_BY_CODE :: "(int \<times> side) list" where
  "SIDE_BY_CODE = [(1, BUY), (2, SELL)]"

definition SYNTHETIC_POLICY_CODE :: "(synthetic_policy \<times> int) list" where
  "SYNTHETIC_POLICY_CODE = [(FORBIDDEN, 1), (ALLOWED, 2)]"

definition SYNTHETIC_POLICY_BY_CODE :: "(int \<times> synthetic_policy) list" where
  "SYNTHETIC_POLICY_BY_CODE = [(1, FORBIDDEN), (2, ALLOWED)]"

definition HALT_POLICY_CODE :: "(halt_policy \<times> int) list" where
  "HALT_POLICY_CODE = [(FORBID_WHEN_HALTED, 1), (ALLOW_WHEN_HALTED, 2)]"

definition HALT_POLICY_BY_CODE :: "(int \<times> halt_policy) list" where
  "HALT_POLICY_BY_CODE = [(1, FORBID_WHEN_HALTED), (2, ALLOW_WHEN_HALTED)]"

definition TRISTATE_CODE :: "(tri_state \<times> int) list" where
  "TRISTATE_CODE = [(NO, 1), (YES, 2), (TRI_UNKNOWN, 3)]"

definition TRISTATE_BY_CODE :: "(int \<times> tri_state) list" where
  "TRISTATE_BY_CODE = [(1, NO), (2, YES), (3, TRI_UNKNOWN)]"

definition OPERATIONAL_CODE :: "(operational_state \<times> int) list" where
  "OPERATIONAL_CODE = [(ACTIVE, 1), (PAUSED, 2), (TRANSITION, 3), (DEPRECATED, 4), (OP_UNKNOWN, 5)]"

definition OPERATIONAL_BY_CODE :: "(int \<times> operational_state) list" where
  "OPERATIONAL_BY_CODE = [(1, ACTIVE), (2, PAUSED), (3, TRANSITION), (4, DEPRECATED), (5, OP_UNKNOWN)]"

definition HALT_STATUS_CODE :: "(halt_status \<times> int) list" where
  "HALT_STATUS_CODE = [(TRADING, 1), (HALTED, 2), (HALT_UNKNOWN, 3)]"

definition HALT_STATUS_BY_CODE :: "(int \<times> halt_status) list" where
  "HALT_STATUS_BY_CODE = [(1, TRADING), (2, HALTED), (3, HALT_UNKNOWN)]"

definition REPLAY_STATUS_CODE :: "(replay_status \<times> int) list" where
  "REPLAY_STATUS_CODE = [(UNUSED, 1), (CONSUMED, 2), (REPLAY_UNKNOWN, 3), (RESERVED, 4), (QUARANTINED, 5)]"

definition REPLAY_STATUS_BY_CODE :: "(int \<times> replay_status) list" where
  "REPLAY_STATUS_BY_CODE = [(1, UNUSED), (2, CONSUMED), (3, REPLAY_UNKNOWN), (4, RESERVED), (5, QUARANTINED)]"

text \<open>\<open>INHERITED\<close> has no code: \<open>writeProvenance\<close> throws on it.\<close>

definition TRUST_CLASS_CODE :: "(trust_class \<times> int) list" where
  "TRUST_CLASS_CODE = [(AUTHORITATIVE, 1), (VERIFIED, 2), (ADVISORY, 3), (UNTRUSTED, 4)]"

definition TRUST_CLASS_BY_CODE :: "(int \<times> trust_class) list" where
  "TRUST_CLASS_BY_CODE = [(1, AUTHORITATIVE), (2, VERIFIED), (3, ADVISORY), (4, UNTRUSTED)]"

definition writeParty :: "party \<Rightarrow> u8 list option" where
  "writeParty p = wcat [wr_str (kind p), wr_str (party_value p)]"

definition rd_party :: "party reader" where
  "rd_party bs = do {
     (k, bs) \<leftarrow> rd_str bs;
     (v, bs) \<leftarrow> rd_str bs;
     Some (\<lparr>kind = k, party_value = v\<rparr>, bs) }"

definition writeAsset :: "asset_id \<Rightarrow> u8 list option" where
  "writeAsset a = wcat [wr_str (assetClass a), wr_str (idScheme a), wr_str (assetValue a)]"

definition rd_asset :: "asset_id reader" where
  "rd_asset bs = do {
     (c, bs) \<leftarrow> rd_str bs;
     (i, bs) \<leftarrow> rd_str bs;
     (v, bs) \<leftarrow> rd_str bs;
     Some (\<lparr>assetClass = c, idScheme = i, assetValue = v\<rparr>, bs) }"

definition writeAmount :: "amount \<Rightarrow> u8 list option" where
  "writeAmount a = wcat [wr_str (unit a), wr_u8 (decimals a), wr_u256 (atoms a)]"

definition rd_amount :: "amount reader" where
  "rd_amount bs = do {
     (u, bs) \<leftarrow> rd_str bs;
     (d, bs) \<leftarrow> rd_u8 bs;
     (a, bs) \<leftarrow> rd_u256 bs;
     Some (\<lparr>unit = u, decimals = d, atoms = a\<rparr>, bs) }"

definition writePrice :: "price \<Rightarrow> u8 list option" where
  "writePrice p = wcat [wr_str (numeratorUnit p), wr_str (denominatorUnit p), wr_u8 (p_decimals p),
     wr_u256 (p_atoms p)]"

definition rd_price :: "price reader" where
  "rd_price bs = do {
     (n, bs) \<leftarrow> rd_str bs;
     (u, bs) \<leftarrow> rd_str bs;
     (d, bs) \<leftarrow> rd_u8 bs;
     (a, bs) \<leftarrow> rd_u256 bs;
     Some (\<lparr>numeratorUnit = n, denominatorUnit = u, p_decimals = d, p_atoms = a\<rparr>, bs) }"

definition writeProvenance :: "provenance \<Rightarrow> u8 list option" where
  "writeProvenance p = wcat [wr_code TRUST_CLASS_CODE (trustClass p), wr_str (sourceId p), wr_i64 (observedAt p)]"

definition readProvenance :: "provenance reader" where
  "readProvenance bs = do {
     (c, bs) \<leftarrow> rd_code TRUST_CLASS_BY_CODE bs;
     (s, bs) \<leftarrow> rd_str bs;
     (t, bs) \<leftarrow> rd_i64 bs;
     Some (\<lparr>trustClass = c, sourceId = s, observedAt = t\<rparr>, bs) }"

text \<open>The loop of \<open>readIdentifierSet\<close>: the count left, the previous element.\<close>

fun read_ids :: "nat \<Rightarrow> string option \<Rightarrow> string list reader" where
  "read_ids 0 prev bs = Some ([], bs)"
| "read_ids (Suc n) prev bs = do {
     (s, bs) \<leftarrow> rd_str bs;
     if \<not> isOk (parseIdentifier (JStr s)) then None
     else if (case prev of None \<Rightarrow> False | Some p \<Rightarrow> compareIdentifierBytes p s \<ge> 0) then None
     else do { (ss, bs) \<leftarrow> read_ids n (Some s) bs; Some (s # ss, bs) } }"

definition readIdentifierSet :: "string list reader" where
  "readIdentifierSet bs = do { (n, bs) \<leftarrow> rd_u16 bs; read_ids (nat n) None bs }"

text \<open>A nullable field: its presence flag, then the value when present.\<close>

definition wr_opt :: "('a \<Rightarrow> u8 list option) \<Rightarrow> 'a option \<Rightarrow> u8 list option" where
  "wr_opt w x = (case x of None \<Rightarrow> wr_u8 0 | Some y \<Rightarrow> wcat [wr_u8 1, w y])"

definition readFlag :: "bool reader" where
  "readFlag bs = do {
     (n, bs) \<leftarrow> rd_u8 bs;
     if n \<noteq> 0 \<and> n \<noteq> 1 then None else Some (n = 1, bs) }"

definition rd_opt :: "'a reader \<Rightarrow> 'a option reader" where
  "rd_opt r bs = do {
     (present, bs) \<leftarrow> readFlag bs;
     if present then do { (x, bs) \<leftarrow> r bs; Some (Some x, bs) } else Some (None, bs) }"

section \<open>The contract holds of the components\<close>

abbreviation ok_str :: "string \<Rightarrow> bool" where
  "ok_str s \<equiv> is_ascii s \<and> length s \<le> 1024"

interpretation str_c: wire_codec wr_str rd_str ok_str
proof
  fix s :: string and b bs rest :: "u8 list"
  show "ok_str s \<Longrightarrow> \<exists>b. wr_str s = Some b" using wr_str_None [of s] by (cases "wr_str s") auto
  show "wr_str s = Some b \<Longrightarrow> ok_str s \<Longrightarrow> rd_str (b @ rest) = Some (s, rest)" by (simp add: rd_wr)
  show "rd_str bs = Some (s, rest) \<Longrightarrow> ok_str s \<Longrightarrow> no_bom bs \<Longrightarrow> \<exists>b. wr_str s = Some b \<and> bs = b @ rest"
    by (simp add: rd_inv_str)
qed

lemma uint_total: "0 \<le> v \<Longrightarrow> v < 256 ^ n \<Longrightarrow> \<exists>b. wr_uint v n = Some b"
  by (simp add: wr_uint_Some)

interpretation u8_c: wire_codec wr_u8 rd_u8 "\<lambda>v. 0 \<le> v \<and> v < 2 ^ 8"
  by unfold_locales (simp_all add: uint_widths rd_uint_wr rd_uint_inv uint_total)

interpretation u16_c: wire_codec wr_u16 rd_u16 "\<lambda>v. 0 \<le> v \<and> v < 2 ^ 16"
  by unfold_locales (simp_all add: uint_widths rd_uint_wr rd_uint_inv uint_total)

interpretation u32_c: wire_codec wr_u32 rd_u32 "\<lambda>v. 0 \<le> v \<and> v < 2 ^ 32"
  by unfold_locales (simp_all add: uint_widths rd_uint_wr rd_uint_inv uint_total)

interpretation u64_c: wire_codec wr_u64 rd_u64 "\<lambda>v. 0 \<le> v \<and> v < 2 ^ 64"
  by unfold_locales (simp_all add: uint_widths rd_uint_wr rd_uint_inv uint_total)

interpretation u256_c: wire_codec wr_u256 rd_u256 "\<lambda>v. 0 \<le> v \<and> v < 2 ^ 256"
  by unfold_locales (simp_all add: uint_widths rd_uint_wr rd_uint_inv uint_total)

interpretation i64_c: wire_codec wr_i64 rd_i64 wf_time
proof
  fix v :: int and b bs rest :: "u8 list"
  show "wf_time v \<Longrightarrow> \<exists>b. wr_i64 v = Some b"
    using wr_uints_None(6) [of v] by (cases "wr_i64 v") (auto simp: wf_time_def)
qed (simp_all add: rd_wr rd_inv)

interpretation hex32_c: wire_codec wr_hex32 rd_hex32 "hex_literal 64"
proof
  fix h :: string and b bs rest :: "u8 list"
  show "hex_literal 64 h \<Longrightarrow> \<exists>b. wr_hex32 h = Some b"
    by (simp add: wr_hex32_def wr_bytes32_def length_bytes32ToBytes)
  show "wr_hex32 h = Some b \<Longrightarrow> hex_literal 64 h \<Longrightarrow> rd_hex32 (b @ rest) = Some (h, rest)"
    by (simp add: wr_hex32_def rd_hex32_def rd_wr_bytes32 bytesToHex_bytes32ToBytes)
  show "rd_hex32 bs = Some (h, rest) \<Longrightarrow> hex_literal 64 h \<Longrightarrow> no_bom bs \<Longrightarrow> \<exists>b. wr_hex32 h = Some b \<and> bs = b @ rest"
    by (auto simp: wr_hex32_def rd_hex32_def bind_eq_Some_conv dest!: rd_inv_bytes32)
qed

text \<open>A pair of tables that invert each other gives a codec of one byte.\<close>

lemma code_codec:
  assumes "\<And>x. ok x \<Longrightarrow> \<exists>c. map_of t x = Some c"
    and "\<And>x c. map_of t x = Some c \<longleftrightarrow> map_of u c = Some x"
    and "list_all (\<lambda>(x, c). 0 \<le> c \<and> c < 256) t"
  shows "wire_codec (wr_code t) (rd_code u) ok"
proof
  fix x b bs rest
  have range: "map_of t y = Some c \<Longrightarrow> \<exists>b. wr_u8 c = Some b" for y c
    using assms(3) by (intro u8_c.total) (auto simp: list_all_iff dest: map_of_SomeD)
  show "ok x \<Longrightarrow> \<exists>b. wr_code t x = Some b"
    using assms(1) range by (fastforce simp: wr_code_def)
  show "wr_code t x = Some b \<Longrightarrow> ok x \<Longrightarrow> rd_code u (b @ rest) = Some (x, rest)"
    using assms(2) by (auto simp: wr_code_def rd_code_def bind_eq_Some_conv rd_wr)
  show "rd_code u bs = Some (x, rest) \<Longrightarrow> ok x \<Longrightarrow> no_bom bs \<Longrightarrow> \<exists>b. wr_code t x = Some b \<and> bs = b @ rest"
    using assms(2) by (auto simp: wr_code_def rd_code_def bind_eq_Some_conv dest!: rd_inv(1))
qed

interpretation side_c: wire_codec "wr_code SIDE_CODE" "rd_code SIDE_BY_CODE" "\<lambda>_. True"
proof (rule code_codec)
  show "\<exists>c. map_of SIDE_CODE x = Some c" for x by (cases x) (simp_all add: SIDE_CODE_def)
qed (auto simp: SIDE_CODE_def SIDE_BY_CODE_def)

interpretation synthetic_policy_c:
  wire_codec "wr_code SYNTHETIC_POLICY_CODE" "rd_code SYNTHETIC_POLICY_BY_CODE" "\<lambda>_. True"
proof (rule code_codec)
  show "\<exists>c. map_of SYNTHETIC_POLICY_CODE x = Some c" for x
    by (cases x) (simp_all add: SYNTHETIC_POLICY_CODE_def)
qed (auto simp: SYNTHETIC_POLICY_CODE_def SYNTHETIC_POLICY_BY_CODE_def)

interpretation halt_policy_c: wire_codec "wr_code HALT_POLICY_CODE" "rd_code HALT_POLICY_BY_CODE" "\<lambda>_. True"
proof (rule code_codec)
  show "\<exists>c. map_of HALT_POLICY_CODE x = Some c" for x by (cases x) (simp_all add: HALT_POLICY_CODE_def)
qed (auto simp: HALT_POLICY_CODE_def HALT_POLICY_BY_CODE_def)

interpretation tri_state_c: wire_codec "wr_code TRISTATE_CODE" "rd_code TRISTATE_BY_CODE" "\<lambda>_. True"
proof (rule code_codec)
  show "\<exists>c. map_of TRISTATE_CODE x = Some c" for x by (cases x) (simp_all add: TRISTATE_CODE_def)
qed (auto simp: TRISTATE_CODE_def TRISTATE_BY_CODE_def)

interpretation operational_c: wire_codec "wr_code OPERATIONAL_CODE" "rd_code OPERATIONAL_BY_CODE" "\<lambda>_. True"
proof (rule code_codec)
  show "\<exists>c. map_of OPERATIONAL_CODE x = Some c" for x by (cases x) (simp_all add: OPERATIONAL_CODE_def)
qed (auto simp: OPERATIONAL_CODE_def OPERATIONAL_BY_CODE_def)

interpretation halt_status_c: wire_codec "wr_code HALT_STATUS_CODE" "rd_code HALT_STATUS_BY_CODE" "\<lambda>_. True"
proof (rule code_codec)
  show "\<exists>c. map_of HALT_STATUS_CODE x = Some c" for x by (cases x) (simp_all add: HALT_STATUS_CODE_def)
qed (auto simp: HALT_STATUS_CODE_def HALT_STATUS_BY_CODE_def)

interpretation replay_status_c: wire_codec "wr_code REPLAY_STATUS_CODE" "rd_code REPLAY_STATUS_BY_CODE" "\<lambda>_. True"
proof (rule code_codec)
  show "\<exists>c. map_of REPLAY_STATUS_CODE x = Some c" for x by (cases x) (simp_all add: REPLAY_STATUS_CODE_def)
qed (auto simp: REPLAY_STATUS_CODE_def REPLAY_STATUS_BY_CODE_def)

interpretation trust_class_c:
  wire_codec "wr_code TRUST_CLASS_CODE" "rd_code TRUST_CLASS_BY_CODE" isTrustedForAuthorization
proof (rule code_codec)
  show "isTrustedForAuthorization x \<Longrightarrow> \<exists>c. map_of TRUST_CLASS_CODE x = Some c" for x
    by (auto simp: TRUST_CLASS_CODE_def isTrustedForAuthorization_def)
qed (auto simp: TRUST_CLASS_CODE_def TRUST_CLASS_BY_CODE_def)

lemma valid_ident_1024 [simp]: "valid_ident s \<Longrightarrow> length s \<le> 1024"
  using valid_ident_length [of s] by linarith

text \<open>The ranges the parsers establish, in the form the contracts of the integer codecs ask for.\<close>

lemma ok_intros:
  "True"
  "valid_ident s \<Longrightarrow> ok_str s"
  "0 \<le> d \<Longrightarrow> d \<le> MAX_DECIMALS \<Longrightarrow> 0 \<le> d \<and> d < 2 ^ 8"
  "0 \<le> v \<Longrightarrow> v \<le> UINT16_MAX \<Longrightarrow> 0 \<le> v \<and> v < 2 ^ 16"
  "0 \<le> v \<Longrightarrow> v \<le> UINT32_MAX \<Longrightarrow> 0 \<le> v \<and> v < 2 ^ 32"
  "0 \<le> v \<Longrightarrow> v \<le> UINT64_MAX \<Longrightarrow> 0 \<le> v \<and> v < 2 ^ 64"
  "0 \<le> v \<Longrightarrow> v \<le> UINT256_MAX \<Longrightarrow> 0 \<le> v \<and> v < 2 ^ 256"
  by (simp_all add: MAX_DECIMALS_def)

lemmas primitive_totals = str_c.total u8_c.total u16_c.total u32_c.total u64_c.total u256_c.total
  i64_c.total hex32_c.total side_c.total synthetic_policy_c.total halt_policy_c.total tri_state_c.total
  operational_c.total halt_status_c.total replay_status_c.total trust_class_c.total

lemmas primitive_rd_wr = str_c.rd_wr u8_c.rd_wr u16_c.rd_wr u32_c.rd_wr u64_c.rd_wr u256_c.rd_wr
  i64_c.rd_wr hex32_c.rd_wr side_c.rd_wr synthetic_policy_c.rd_wr halt_policy_c.rd_wr tri_state_c.rd_wr
  operational_c.rd_wr halt_status_c.rd_wr replay_status_c.rd_wr trust_class_c.rd_wr

lemmas primitive_steps = str_c.step u8_c.step u16_c.step u32_c.step u64_c.step u256_c.step
  i64_c.step hex32_c.step side_c.step synthetic_policy_c.step halt_policy_c.step tri_state_c.step
  operational_c.step halt_status_c.step replay_status_c.step trust_class_c.step

interpretation party_c: wire_codec writeParty rd_party wf_party
proof
  fix p and b bs rest :: "u8 list"
  show "wf_party p \<Longrightarrow> \<exists>b. writeParty p = Some b"
    unfolding writeParty_def wf_party_def by (intro wcat_total) (simp add: primitive_totals)
  show "writeParty p = Some b \<Longrightarrow> wf_party p \<Longrightarrow> rd_party (b @ rest) = Some (p, rest)"
    by (auto simp: writeParty_def wf_party_def rd_party_def wcat_Cons_eq_Some primitive_rd_wr)
  show "rd_party bs = Some (p, rest) \<Longrightarrow> wf_party p \<Longrightarrow> no_bom bs \<Longrightarrow> \<exists>b. writeParty p = Some b \<and> bs = b @ rest"
    by (auto simp: writeParty_def wf_party_def rd_party_def bind_eq_Some_conv elim!: primitive_steps)
qed

interpretation amount_c: wire_codec writeAmount rd_amount wf_amount
proof
  fix p and b bs rest :: "u8 list"
  show "wf_amount p \<Longrightarrow> \<exists>b. writeAmount p = Some b"
    unfolding writeAmount_def wf_amount_def MAX_DECIMALS_def by (intro wcat_total) (simp add: primitive_totals)
  show "writeAmount p = Some b \<Longrightarrow> wf_amount p \<Longrightarrow> rd_amount (b @ rest) = Some (p, rest)"
    by (auto simp: writeAmount_def wf_amount_def MAX_DECIMALS_def rd_amount_def wcat_Cons_eq_Some primitive_rd_wr)
  show "rd_amount bs = Some (p, rest) \<Longrightarrow> wf_amount p \<Longrightarrow> no_bom bs \<Longrightarrow> \<exists>b. writeAmount p = Some b \<and> bs = b @ rest"
    by (auto simp: writeAmount_def wf_amount_def MAX_DECIMALS_def rd_amount_def bind_eq_Some_conv elim!: primitive_steps)
qed
interpretation asset_c: wire_codec writeAsset rd_asset wf_asset
proof
  fix a and b bs rest :: "u8 list"
  show "wf_asset a \<Longrightarrow> \<exists>b. writeAsset a = Some b"
    unfolding writeAsset_def wf_asset_def by (intro wcat_total) (simp add: primitive_totals)
  show "writeAsset a = Some b \<Longrightarrow> wf_asset a \<Longrightarrow> rd_asset (b @ rest) = Some (a, rest)"
    by (auto simp: writeAsset_def wf_asset_def rd_asset_def wcat_Cons_eq_Some primitive_rd_wr)
  show "rd_asset bs = Some (a, rest) \<Longrightarrow> wf_asset a \<Longrightarrow> no_bom bs \<Longrightarrow> \<exists>b. writeAsset a = Some b \<and> bs = b @ rest"
    by (auto simp: writeAsset_def wf_asset_def rd_asset_def bind_eq_Some_conv elim!: primitive_steps)
qed

interpretation price_c: wire_codec writePrice rd_price wf_price
proof
  fix p and b bs rest :: "u8 list"
  show "wf_price p \<Longrightarrow> \<exists>b. writePrice p = Some b"
    unfolding writePrice_def wf_price_def MAX_DECIMALS_def by (intro wcat_total) (simp add: primitive_totals)
  show "writePrice p = Some b \<Longrightarrow> wf_price p \<Longrightarrow> rd_price (b @ rest) = Some (p, rest)"
    by (auto simp: writePrice_def wf_price_def MAX_DECIMALS_def rd_price_def wcat_Cons_eq_Some primitive_rd_wr)
  show "rd_price bs = Some (p, rest) \<Longrightarrow> wf_price p \<Longrightarrow> no_bom bs \<Longrightarrow> \<exists>b. writePrice p = Some b \<and> bs = b @ rest"
    by (auto simp: writePrice_def wf_price_def MAX_DECIMALS_def rd_price_def bind_eq_Some_conv elim!: primitive_steps)
qed

interpretation provenance_c: wire_codec writeProvenance readProvenance wf_provenance
proof
  fix p and b bs rest :: "u8 list"
  show "wf_provenance p \<Longrightarrow> \<exists>b. writeProvenance p = Some b"
    unfolding writeProvenance_def wf_provenance_def by (intro wcat_total) (simp add: primitive_totals)
  show "writeProvenance p = Some b \<Longrightarrow> wf_provenance p \<Longrightarrow> readProvenance (b @ rest) = Some (p, rest)"
    by (auto simp: writeProvenance_def wf_provenance_def readProvenance_def wcat_Cons_eq_Some primitive_rd_wr)
  show "readProvenance bs = Some (p, rest) \<Longrightarrow> wf_provenance p \<Longrightarrow> no_bom bs \<Longrightarrow> \<exists>b. writeProvenance p = Some b \<and> bs = b @ rest"
    by (auto simp: writeProvenance_def wf_provenance_def readProvenance_def bind_eq_Some_conv elim!: primitive_steps)
qed

text \<open>Options and counted lists of anything that has a codec.\<close>

lemma readFlag_wr:
  "wr_u8 0 = Some b \<Longrightarrow> readFlag (b @ rest) = Some (False, rest)"
  "wr_u8 1 = Some b \<Longrightarrow> readFlag (b @ rest) = Some (True, rest)"
  by (simp_all add: readFlag_def u8_c.rd_wr)

lemma readFlag_step:
  assumes "readFlag bs = Some (p, rest)" "no_bom bs"
  obtains b where "wr_u8 (if p then 1 else 0) = Some b" "bs = b @ rest" "no_bom rest"
  using assms by (auto simp: readFlag_def bind_eq_Some_conv elim!: u8_c.step split: if_splits)

lemma opt_codec:
  assumes "wire_codec w r ok"
  shows "wire_codec (wr_opt w) (rd_opt r) (pred_option ok)"
proof
  note c = wire_codec.total [OF assms] wire_codec.rd_wr [OF assms] wire_codec.rd_inv [OF assms]
  fix x and b bs rest :: "u8 list"
  show "pred_option ok x \<Longrightarrow> \<exists>b. wr_opt w x = Some b"
    using c(1) by (cases x) (auto simp: wr_opt_def u8_c.total intro!: wcat_total)
  show "wr_opt w x = Some b \<Longrightarrow> pred_option ok x \<Longrightarrow> rd_opt r (b @ rest) = Some (x, rest)"
    by (cases x) (auto simp: wr_opt_def rd_opt_def readFlag_wr c(2) wcat_Cons_eq_Some)
  show "rd_opt r bs = Some (x, rest) \<Longrightarrow> pred_option ok x \<Longrightarrow> no_bom bs \<Longrightarrow> \<exists>b. wr_opt w x = Some b \<and> bs = b @ rest"
    by (auto simp: wr_opt_def rd_opt_def bind_eq_Some_conv wcat_Cons_eq_Some elim!: readFlag_step
        wire_codec.step [OF assms] split: if_splits)
qed

fun rd_many :: "'a reader \<Rightarrow> nat \<Rightarrow> 'a list reader" where
  "rd_many r 0 bs = Some ([], bs)"
| "rd_many r (Suc n) bs = do {
     (x, bs) \<leftarrow> r bs;
     (xs, bs) \<leftarrow> rd_many r n bs;
     Some (x # xs, bs) }"

definition wr_list :: "('a \<Rightarrow> u8 list option) \<Rightarrow> 'a list \<Rightarrow> u8 list option" where
  "wr_list w xs = wcat (wr_u16 (int (length xs)) # map w xs)"

definition rd_list :: "'a reader \<Rightarrow> 'a list reader" where
  "rd_list r bs = do { (n, bs) \<leftarrow> rd_u16 bs; rd_many r (nat n) bs }"

lemma rd_many_length: "rd_many r n bs = Some (xs, rest) \<Longrightarrow> length xs = n"
  by (induction n arbitrary: bs xs) (auto simp: bind_eq_Some_conv)

lemma rd_many_wr:
  assumes "wire_codec w r ok"
  shows "wcat (map w xs) = Some b \<Longrightarrow> list_all ok xs \<Longrightarrow> rd_many r (length xs) (b @ rest) = Some (xs, rest)"
  by (induction xs arbitrary: b) (auto simp: wcat_Cons_eq_Some wire_codec.rd_wr [OF assms])

lemma rd_many_inv:
  assumes "wire_codec w r ok"
  shows "rd_many r n bs = Some (xs, rest) \<Longrightarrow> list_all ok xs \<Longrightarrow> no_bom bs \<Longrightarrow>
    \<exists>b. wcat (map w xs) = Some b \<and> bs = b @ rest"
proof (induction n arbitrary: bs xs)
  case (Suc n)
  from Suc.prems(1) obtain x bs1 ys where x: "r bs = Some (x, bs1)" "rd_many r n bs1 = Some (ys, rest)" "xs = x # ys"
    by (auto simp: bind_eq_Some_conv)
  moreover from x Suc.prems obtain b where "w x = Some b" "bs = b @ bs1" "no_bom bs1"
    by (auto elim!: wire_codec.step [OF assms])
  ultimately show ?case using Suc.IH [of bs1 ys] Suc.prems(2) by auto
qed simp

lemma list_codec:
  fixes w :: "'a \<Rightarrow> u8 list option"
  assumes "wire_codec w r ok"
  shows "wire_codec (wr_list w) (rd_list r) (\<lambda>xs. length xs \<le> 65535 \<and> list_all ok xs)"
proof
  fix xs :: "'a list" and b bs rest :: "u8 list"
  have len: "length xs \<le> 65535 \<Longrightarrow> \<exists>b. wr_u16 (int (length xs)) = Some b" by (rule u16_c.total) simp
  show "length xs \<le> 65535 \<and> list_all ok xs \<Longrightarrow> \<exists>b. wr_list w xs = Some b"
    unfolding wr_list_def using len wire_codec.total [OF assms]
    by (intro wcat_total) (simp add: list_all_iff)
  show "wr_list w xs = Some b \<Longrightarrow> length xs \<le> 65535 \<and> list_all ok xs \<Longrightarrow> rd_list r (b @ rest) = Some (xs, rest)"
    using rd_many_wr [OF assms]
    by (auto simp: wr_list_def rd_list_def wcat_Cons_eq_Some u16_c.rd_wr)
  show "rd_list r bs = Some (xs, rest) \<Longrightarrow> length xs \<le> 65535 \<and> list_all ok xs \<Longrightarrow> no_bom bs \<Longrightarrow>
      \<exists>b. wr_list w xs = Some b \<and> bs = b @ rest"
  proof -
    assume a: "rd_list r bs = Some (xs, rest)" "length xs \<le> 65535 \<and> list_all ok xs" "no_bom bs"
    then obtain n bs1 where n: "rd_u16 bs = Some (n, bs1)" "rd_many r (nat n) bs1 = Some (xs, rest)"
      by (auto simp: rd_list_def bind_eq_Some_conv)
    from rd_inv(2) [OF n(1)] obtain c where c: "wr_u16 n = Some c" "bs = c @ bs1" by blast
    have "no_bom bs1" using a(3) no_bom_append unfolding c(2) by blast
    moreover have "0 \<le> n" using c(1) by (simp add: wr_u16_def wr_uint_Some)
    moreover from rd_many_inv [OF assms n(2)] a(2) \<open>no_bom bs1\<close>
    obtain d where "wcat (map w xs) = Some d" "bs1 = d @ rest" by blast
    ultimately have "wr_list w xs = Some (c @ d)" "bs = (c @ d) @ rest"
      using rd_many_length [OF n(2)] c by (simp_all add: wr_list_def)
    then show ?thesis by blast
  qed
qed

text \<open>
  \<open>readIdentifierSet\<close> is the counted list of strings with two tests: every element is an identifier, and
  each is strictly greater than the one before.
\<close>

lemma compareIdentifierBytes_less:
  "compareIdentifierBytes a b < 0 \<longleftrightarrow> compareIdentifierBytes a b \<le> 0 \<and> a \<noteq> b"
  using str_less_total [of a b] by (auto simp: compareIdentifierBytes_def)

abbreviation "ascending \<equiv> sorted_wrt (\<lambda>a b. compareIdentifierBytes a b < 0)"

lemma ascending_iff: "ascending xs \<longleftrightarrow> sorted_wrt (\<lambda>a b. compareIdentifierBytes a b \<le> 0) xs \<and> distinct xs"
  by (induction xs) (auto simp: compareIdentifierBytes_less)

lemma ascending_Cons_Cons:
  "ascending (a # b # xs) \<longleftrightarrow> compareIdentifierBytes a b < 0 \<and> ascending (b # xs)"
proof
  show "ascending (a # b # xs) \<Longrightarrow> compareIdentifierBytes a b < 0 \<and> ascending (b # xs)" by simp
  assume r: "compareIdentifierBytes a b < 0 \<and> ascending (b # xs)"
  have "compareIdentifierBytes a x < 0" if "x \<in> set xs" for x
  proof -
    from r that have "compareIdentifierBytes a b \<le> 0" "compareIdentifierBytes b x \<le> 0" "b \<noteq> x" "a \<noteq> b"
      by (auto simp: compareIdentifierBytes_less)
    then show ?thesis
      using id_cmp.cmp_trans [of a b x] id_cmp.cmp_antisym [of a b] by (auto simp: compareIdentifierBytes_less)
  qed
  with r show "ascending (a # b # xs)" by simp
qed

lemma read_ids_iff:
  "read_ids n prev bs = Some (ss, rest) \<longleftrightarrow>
     rd_many rd_str n bs = Some (ss, rest) \<and> list_all valid_ident ss \<and>
     ascending (case prev of None \<Rightarrow> ss | Some p \<Rightarrow> p # ss)"
proof (induction n arbitrary: prev bs ss)
  case 0
  then show ?case by (auto split: option.splits)
next
  case (Suc n)
  show ?case
  proof (cases "rd_str bs")
    case None
    then show ?thesis by simp
  next
    case (Some y)
    then obtain s bs1 where s: "rd_str bs = Some (s, bs1)" by (cases y) auto
    let ?first = "valid_ident s \<and> (case prev of None \<Rightarrow> True | Some p \<Rightarrow> compareIdentifierBytes p s < 0)"
    have step: "read_ids (Suc n) prev bs =
        (if ?first then map_option (\<lambda>(ss, bs). (s # ss, bs)) (read_ids n (Some s) bs1) else None)"
      using s by (cases prev; cases "read_ids n (Some s) bs1") (auto simp: isOk_iff parseIdentifier_Inr)
    have "read_ids (Suc n) prev bs = Some (ss, rest) \<longleftrightarrow>
        ?first \<and> (\<exists>ys. ss = s # ys \<and> read_ids n (Some s) bs1 = Some (ys, rest))"
      unfolding step by auto
    also have "\<dots> \<longleftrightarrow> ?first \<and> (\<exists>ys. ss = s # ys \<and> rd_many rd_str n bs1 = Some (ys, rest)
        \<and> list_all valid_ident ys \<and> ascending (s # ys))"
      unfolding Suc.IH by simp
    also have "\<dots> \<longleftrightarrow> (\<exists>ys. ss = s # ys \<and> rd_many rd_str n bs1 = Some (ys, rest))
        \<and> list_all valid_ident ss \<and> ascending (case prev of None \<Rightarrow> ss | Some p \<Rightarrow> p # ss)"
      by (cases prev) (auto simp: ascending_Cons_Cons simp del: sorted_wrt.simps)
    also have "(\<exists>ys. ss = s # ys \<and> rd_many rd_str n bs1 = Some (ys, rest)) \<longleftrightarrow>
        rd_many rd_str (Suc n) bs = Some (ss, rest)"
      using s by (auto simp: bind_eq_Some_conv)
    finally show ?thesis .
  qed
qed

interpretation str_list_c: wire_codec "wr_list wr_str" "rd_list rd_str"
    "\<lambda>xs. length xs \<le> 65535 \<and> list_all ok_str xs"
  by (rule list_codec) (rule str_c.wire_codec_axioms)

lemma wf_id_set_ok: "wf_id_set xs \<Longrightarrow> length xs \<le> 65535 \<and> list_all ok_str xs"
  by (auto simp: wf_id_set_def MAX_SET_SIZE_def list_all_iff)

lemma writeIdentifierSet_sorted: "wf_id_set xs \<Longrightarrow> writeIdentifierSet xs = wr_list wr_str xs"
  by (simp add: writeIdentifierSet_def wr_list_def wf_id_set_def js_sort_sorted Let_def)

lemma readIdentifierSet_iff:
  "readIdentifierSet bs = Some (ss, rest) \<longleftrightarrow>
     rd_list rd_str bs = Some (ss, rest) \<and> list_all valid_ident ss \<and> ascending ss"
  by (auto simp: readIdentifierSet_def rd_list_def bind_eq_Some_conv read_ids_iff)

interpretation id_set_c: wire_codec writeIdentifierSet readIdentifierSet wf_id_set
proof
  fix xs and b bs rest :: "u8 list"
  show "wf_id_set xs \<Longrightarrow> \<exists>b. writeIdentifierSet xs = Some b"
    by (metis str_list_c.total wf_id_set_ok writeIdentifierSet_sorted)
  show "writeIdentifierSet xs = Some b \<Longrightarrow> wf_id_set xs \<Longrightarrow> readIdentifierSet (b @ rest) = Some (xs, rest)"
    using wf_id_set_ok [of xs]
    by (simp add: writeIdentifierSet_sorted readIdentifierSet_iff str_list_c.rd_wr ascending_iff wf_id_set_def)
  show "readIdentifierSet bs = Some (xs, rest) \<Longrightarrow> wf_id_set xs \<Longrightarrow> no_bom bs \<Longrightarrow>
      \<exists>b. writeIdentifierSet xs = Some b \<and> bs = b @ rest"
    using str_list_c.rd_inv [of bs xs rest] wf_id_set_ok [of xs]
    by (simp add: writeIdentifierSet_sorted readIdentifierSet_iff)
qed

end
