(* ===== verification/Codec.thy ===== *)
theory Codec
  imports Wire_Codec
begin

text \<open>
  The encoders and decoders of mandate, candidate and trusted state
  (\<open>packages/kernel/src/encoding/codec.ts\<close>) and the digests over them (\<open>encoding/digest.ts\<close>).

  The decoders read every field and only then compare with \<open>undefined\<close>, test for trailing bytes and look
  up the enumeration codes; all of these fail with the same code, so the readers below fail at once and
  look codes up as they are read. A \<open>rd_\<close> reader returns the raw record that the code hands, as a plain
  object, to the structural parser.
\<close>

section \<open>The mandate\<close>

definition MANDATE_TAG :: string where "MANDATE_TAG = ''MANDATE.MANDATE.V2''"
definition CANDIDATE_TAG :: string where "CANDIDATE_TAG = ''MANDATE.CANDIDATE.V3''"
definition STATE_TAG :: string where "STATE_TAG = ''MANDATE.STATE.V2''"
definition AUTHZ_TAG :: string where "AUTHZ_TAG = ''MANDATE.AUTHZ.V1''"
definition RECEIPT_TAG :: string where "RECEIPT_TAG = ''MANDATE.RECEIPT.V1''"

definition write_mandate_fields :: "mandate \<Rightarrow> u8 list option" where
  "write_mandate_fields m = wcat [
     wr_hex32 (m_mandateId m),
     wr_u64 (m_nonce m),
     writeParty (m_principal m),
     writeParty (m_agent m),
     writeAsset (m_canonicalAsset m),
     wr_code SIDE_CODE (m_side m),
     writeAmount (m_maxNotional m),
     writeAmount (m_economicLimit m),
     wr_u16 (m_maxDeviationBps m),
     wr_code SYNTHETIC_POLICY_CODE (m_syntheticPolicy m),
     writeIdentifierSet (m_allowedIssuers m),
     writeIdentifierSet (m_allowedChains m),
     writeIdentifierSet (m_allowedVenues m),
     wr_u64 (m_requiredCorporateActionEpoch m),
     wr_u32 (m_maxPriceAgeSeconds m),
     wr_u32 (m_maxCorporateActionAgeSeconds m),
     wr_code HALT_POLICY_CODE (m_haltPolicy m),
     wr_i64 (m_createdAtUnixSeconds m),
     wr_i64 (m_notBeforeUnixSeconds m),
     wr_i64 (m_expiresAtUnixSeconds m)]"

definition encodeMandate :: "mandate \<Rightarrow> u8 list option" where
  "encodeMandate m = wcat [wr_tag MANDATE_TAG, wr_u16 (m_version m), write_mandate_fields m]"

definition read_mandate_fields :: "mandate reader" where
  "read_mandate_fields bs = do {
     (mandateId, bs) \<leftarrow> rd_hex32 bs;
     (nonce, bs) \<leftarrow> rd_u64 bs;
     (principal, bs) \<leftarrow> rd_party bs;
     (agent, bs) \<leftarrow> rd_party bs;
     (asset, bs) \<leftarrow> rd_asset bs;
     (sid, bs) \<leftarrow> rd_code SIDE_BY_CODE bs;
     (notional, bs) \<leftarrow> rd_amount bs;
     (limit, bs) \<leftarrow> rd_amount bs;
     (maxDeviationBps, bs) \<leftarrow> rd_u16 bs;
     (syn, bs) \<leftarrow> rd_code SYNTHETIC_POLICY_BY_CODE bs;
     (issuers, bs) \<leftarrow> readIdentifierSet bs;
     (chains, bs) \<leftarrow> readIdentifierSet bs;
     (venues, bs) \<leftarrow> readIdentifierSet bs;
     (epoch, bs) \<leftarrow> rd_u64 bs;
     (maxPriceAge, bs) \<leftarrow> rd_u32 bs;
     (maxCaAge, bs) \<leftarrow> rd_u32 bs;
     (halt, bs) \<leftarrow> rd_code HALT_POLICY_BY_CODE bs;
     (createdAt, bs) \<leftarrow> rd_i64 bs;
     (notBefore, bs) \<leftarrow> rd_i64 bs;
     (expiresAt, bs) \<leftarrow> rd_i64 bs;
     Some (\<lparr>m_version = MANDATE_SCHEMA_VERSION, m_mandateId = mandateId, m_nonce = nonce,
       m_principal = principal, m_agent = agent, m_canonicalAsset = asset, m_side = sid,
       m_maxNotional = notional, m_economicLimit = limit, m_maxDeviationBps = maxDeviationBps,
       m_syntheticPolicy = syn, m_allowedIssuers = issuers, m_allowedChains = chains,
       m_allowedVenues = venues, m_requiredCorporateActionEpoch = epoch,
       m_maxPriceAgeSeconds = maxPriceAge, m_maxCorporateActionAgeSeconds = maxCaAge,
       m_haltPolicy = halt, m_createdAtUnixSeconds = createdAt, m_notBeforeUnixSeconds = notBefore,
       m_expiresAtUnixSeconds = expiresAt\<rparr>, bs) }"

definition decodeMandate :: "u8 list \<Rightarrow> mandate result" where
  "decodeMandate bytes = (case rd_tag MANDATE_TAG bytes of
     None \<Rightarrow> Inl MALFORMED_MANDATE
   | Some (_, bs) \<Rightarrow> (case rd_u16 bs of
       None \<Rightarrow> Inl MALFORMED_MANDATE
     | Some (version, bs) \<Rightarrow>
         if version \<noteq> MANDATE_SCHEMA_VERSION then Inl UNSUPPORTED_MANDATE_VERSION else
         case read_mandate_fields bs of
           None \<Rightarrow> Inl MALFORMED_MANDATE
         | Some (m, rest) \<Rightarrow>
             if rest \<noteq> [] then Inl MALFORMED_MANDATE else parseMandate (js_mandate m)))"

section \<open>The candidate\<close>

definition write_candidate_fields :: "candidate \<Rightarrow> u8 list option" where
  "write_candidate_fields c = wcat [
     wr_str (c_representationId c),
     writeAsset (c_canonicalAsset c),
     wr_str (c_issuer c),
     wr_str (c_chain c),
     wr_str (c_venue c),
     wr_code SIDE_CODE (c_side c),
     writeParty (c_agent c),
     writeAmount (c_quantity c),
     writePrice (c_executionPrice c),
     writeAmount (c_notional c),
     writeAmount (c_feeTotal c),
     wr_str (c_evaluationStateId c),
     wr_hex32 (c_evaluationStateDigest c),
     wr_hex32 (c_registrySnapshotDigest c),
     wr_u64 (c_corporateActionEpoch c)]"

definition encodeCandidate :: "candidate \<Rightarrow> u8 list option" where
  "encodeCandidate c = wcat [wr_tag CANDIDATE_TAG, wr_u16 (c_version c), write_candidate_fields c]"

definition read_candidate_fields :: "candidate reader" where
  "read_candidate_fields bs = do {
     (representationId, bs) \<leftarrow> rd_str bs;
     (asset, bs) \<leftarrow> rd_asset bs;
     (issuer, bs) \<leftarrow> rd_str bs;
     (chain, bs) \<leftarrow> rd_str bs;
     (venue, bs) \<leftarrow> rd_str bs;
     (sid, bs) \<leftarrow> rd_code SIDE_BY_CODE bs;
     (agent, bs) \<leftarrow> rd_party bs;
     (qty, bs) \<leftarrow> rd_amount bs;
     (price, bs) \<leftarrow> rd_price bs;
     (notional, bs) \<leftarrow> rd_amount bs;
     (fee, bs) \<leftarrow> rd_amount bs;
     (evaluationStateId, bs) \<leftarrow> rd_str bs;
     (evaluationStateDigest, bs) \<leftarrow> rd_hex32 bs;
     (registrySnapshotDigest, bs) \<leftarrow> rd_hex32 bs;
     (epoch, bs) \<leftarrow> rd_u64 bs;
     Some (\<lparr>c_version = CANDIDATE_SCHEMA_VERSION, c_representationId = representationId,
       c_canonicalAsset = asset, c_issuer = issuer, c_chain = chain, c_venue = venue, c_side = sid,
       c_agent = agent, c_quantity = qty, c_executionPrice = price, c_notional = notional,
       c_feeTotal = fee, c_evaluationStateId = evaluationStateId,
       c_evaluationStateDigest = evaluationStateDigest,
       c_registrySnapshotDigest = registrySnapshotDigest, c_corporateActionEpoch = epoch\<rparr>, bs) }"

definition decodeCandidate :: "u8 list \<Rightarrow> candidate result" where
  "decodeCandidate bytes = (case rd_tag CANDIDATE_TAG bytes of
     None \<Rightarrow> Inl MALFORMED_CANDIDATE
   | Some (_, bs) \<Rightarrow> (case rd_u16 bs of
       None \<Rightarrow> Inl MALFORMED_CANDIDATE
     | Some (version, bs) \<Rightarrow>
         if version \<noteq> CANDIDATE_SCHEMA_VERSION then Inl MALFORMED_CANDIDATE else
         case read_candidate_fields bs of
           None \<Rightarrow> Inl MALFORMED_CANDIDATE
         | Some (c, rest) \<Rightarrow>
             if rest \<noteq> [] then Inl MALFORMED_CANDIDATE else parseCandidate (js_candidate c)))"

lemmas codec_totals = primitive_totals party_c.total asset_c.total amount_c.total price_c.total
  provenance_c.total id_set_c.total

lemmas codec_rd_wr = primitive_rd_wr party_c.rd_wr asset_c.rd_wr amount_c.rd_wr price_c.rd_wr
  provenance_c.rd_wr id_set_c.rd_wr

lemmas codec_steps = primitive_steps party_c.step asset_c.step amount_c.step price_c.step
  provenance_c.step id_set_c.step

interpretation mandate_c: wire_codec write_mandate_fields read_mandate_fields wf_mandate
proof
  fix m and b bs rest :: "u8 list"
  show "wf_mandate m \<Longrightarrow> \<exists>b. write_mandate_fields m = Some b"
    unfolding write_mandate_fields_def wf_mandate_def by (intro wcat_total) (simp add: codec_totals)
  show "write_mandate_fields m = Some b \<Longrightarrow> wf_mandate m \<Longrightarrow> read_mandate_fields (b @ rest) = Some (m, rest)"
    by (auto simp: write_mandate_fields_def wf_mandate_def read_mandate_fields_def wcat_Cons_eq_Some codec_rd_wr)
  show "read_mandate_fields bs = Some (m, rest) \<Longrightarrow> wf_mandate m \<Longrightarrow> no_bom bs \<Longrightarrow>
      \<exists>b. write_mandate_fields m = Some b \<and> bs = b @ rest"
    unfolding read_mandate_fields_def
    apply (simp only: bind_eq_Some_conv split_paired_Ex case_prod_conv option.inject prod.inject)
    apply (elim exE conjE, hypsubst, simp only: wf_mandate_def mandate.simps, elim conjE)
    apply (erule codec_steps, assumption, (assumption | (rule ok_intros; assumption)))+
    by (simp add: write_mandate_fields_def)
qed

interpretation candidate_c: wire_codec write_candidate_fields read_candidate_fields wf_candidate
proof
  fix c and b bs rest :: "u8 list"
  show "wf_candidate c \<Longrightarrow> \<exists>b. write_candidate_fields c = Some b"
    unfolding write_candidate_fields_def wf_candidate_def by (intro wcat_total) (simp add: codec_totals)
  show "write_candidate_fields c = Some b \<Longrightarrow> wf_candidate c \<Longrightarrow> read_candidate_fields (b @ rest) = Some (c, rest)"
    by (auto simp: write_candidate_fields_def wf_candidate_def read_candidate_fields_def wcat_Cons_eq_Some codec_rd_wr)
  show "read_candidate_fields bs = Some (c, rest) \<Longrightarrow> wf_candidate c \<Longrightarrow> no_bom bs \<Longrightarrow>
      \<exists>b. write_candidate_fields c = Some b \<and> bs = b @ rest"
    unfolding read_candidate_fields_def
    apply (simp only: bind_eq_Some_conv split_paired_Ex case_prod_conv option.inject prod.inject)
    apply (elim exE conjE, hypsubst, simp only: wf_candidate_def candidate.simps, elim conjE)
    apply (erule codec_steps, assumption, (assumption | (rule ok_intros; assumption)))+
    by (simp add: write_candidate_fields_def)
qed

section \<open>Trusted state\<close>

definition wr_observed :: "('a \<Rightarrow> u8 list option) \<Rightarrow> 'a observed \<Rightarrow> u8 list option" where
  "wr_observed w o' = wcat [writeProvenance (prov o'), w (value_of o')]"

definition rd_observed :: "'a reader \<Rightarrow> 'a observed reader" where
  "rd_observed r bs = do {
     (p, bs) \<leftarrow> readProvenance bs;
     (v, bs) \<leftarrow> r bs;
     Some (\<lparr>value_of = v, prov = p\<rparr>, bs) }"

definition write_representation :: "representation_state \<Rightarrow> u8 list option" where
  "write_representation v = wcat [
     wr_str (rep_id v),
     writeAsset (rep_asset v),
     wr_str (rep_issuer v),
     wr_str (rep_chain v),
     wr_opt wr_str (instrumentType v),
     wr_code TRISTATE_CODE (synthetic v),
     wr_code OPERATIONAL_CODE (operationalState v)]"

definition read_representation :: "representation_state reader" where
  "read_representation bs = do {
     (rid, bs) \<leftarrow> rd_str bs;
     (asset, bs) \<leftarrow> rd_asset bs;
     (issuer, bs) \<leftarrow> rd_str bs;
     (chain, bs) \<leftarrow> rd_str bs;
     (instr, bs) \<leftarrow> rd_opt rd_str bs;
     (syn, bs) \<leftarrow> rd_code TRISTATE_BY_CODE bs;
     (op, bs) \<leftarrow> rd_code OPERATIONAL_BY_CODE bs;
     Some (\<lparr>rep_id = rid, rep_asset = asset, rep_issuer = issuer, rep_chain = chain,
       instrumentType = instr, synthetic = syn, operationalState = op\<rparr>, bs) }"

definition write_market :: "market_state \<Rightarrow> u8 list option" where
  "write_market m = wcat [writeAsset (market_asset m), wr_opt writePrice (referencePrice m),
     wr_code HALT_STATUS_CODE (haltStatus m)]"

definition read_market :: "market_state reader" where
  "read_market bs = do {
     (asset, bs) \<leftarrow> rd_asset bs;
     (price, bs) \<leftarrow> rd_opt rd_price bs;
     (halt, bs) \<leftarrow> rd_code HALT_STATUS_BY_CODE bs;
     Some (\<lparr>market_asset = asset, referencePrice = price, haltStatus = halt\<rparr>, bs) }"

definition write_corporate_action :: "corporate_action_state \<Rightarrow> u8 list option" where
  "write_corporate_action c = wcat [writeAsset (ca_asset c), wr_opt wr_u64 (ca_epoch c)]"

definition read_corporate_action :: "corporate_action_state reader" where
  "read_corporate_action bs = do {
     (asset, bs) \<leftarrow> rd_asset bs;
     (epoch, bs) \<leftarrow> rd_opt rd_u64 bs;
     Some (\<lparr>ca_asset = asset, ca_epoch = epoch\<rparr>, bs) }"

definition write_replay_state :: "replay_state \<Rightarrow> u8 list option" where
  "write_replay_state r = wcat [wr_hex32 (rs_mandateDigest r), wr_code REPLAY_STATUS_CODE (rs_status r)]"

definition read_replay_state :: "replay_state reader" where
  "read_replay_state bs = do {
     (d, bs) \<leftarrow> rd_hex32 bs;
     (st, bs) \<leftarrow> rd_code REPLAY_STATUS_BY_CODE bs;
     Some (\<lparr>rs_mandateDigest = d, rs_status = st\<rparr>, bs) }"

definition rep_order :: "representation_state observed \<Rightarrow> representation_state observed \<Rightarrow> int" where
  "rep_order a b = compareIdentifierBytes (rep_id (value_of a)) (rep_id (value_of b))"

definition write_state_fields :: "trusted_state \<Rightarrow> u8 list option" where
  "write_state_fields s = wcat [
     wr_str (s_stateId s),
     wr_opt wr_hex32 (s_registrySnapshotDigest s),
     wr_list (wr_observed write_representation) (s_representations s),
     wr_opt (wr_observed write_market) (s_market s),
     wr_opt (wr_observed write_corporate_action) (s_corporateAction s),
     wr_opt (wr_observed write_replay_state) (s_replay s)]"

text \<open>The representations are sorted by identifier first, whatever order an adapter emitted them in.\<close>

definition sort_representations :: "trusted_state \<Rightarrow> trusted_state" where
  "sort_representations s = s\<lparr>s_representations := js_sort rep_order (s_representations s)\<rparr>"

definition encodeTrustedState :: "trusted_state \<Rightarrow> u8 list option" where
  "encodeTrustedState s =
     wcat [wr_tag STATE_TAG, wr_u16 (s_version s), write_state_fields (sort_representations s)]"

definition read_state_fields :: "trusted_state reader" where
  "read_state_fields bs = do {
     (stateId, bs) \<leftarrow> rd_str bs;
     (registry, bs) \<leftarrow> rd_opt rd_hex32 bs;
     (reps, bs) \<leftarrow> rd_list (rd_observed read_representation) bs;
     (market, bs) \<leftarrow> rd_opt (rd_observed read_market) bs;
     (ca, bs) \<leftarrow> rd_opt (rd_observed read_corporate_action) bs;
     (replay, bs) \<leftarrow> rd_opt (rd_observed read_replay_state) bs;
     Some (\<lparr>s_version = STATE_SCHEMA_VERSION, s_stateId = stateId, s_registrySnapshotDigest = registry,
       s_representations = reps, s_market = market, s_corporateAction = ca, s_replay = replay\<rparr>, bs) }"

definition decodeTrustedState :: "u8 list \<Rightarrow> trusted_state result" where
  "decodeTrustedState bytes = (case rd_tag STATE_TAG bytes of
     None \<Rightarrow> Inl MALFORMED_TRUSTED_STATE
   | Some (_, bs) \<Rightarrow> (case rd_u16 bs of
       None \<Rightarrow> Inl MALFORMED_TRUSTED_STATE
     | Some (version, bs) \<Rightarrow>
         if version \<noteq> STATE_SCHEMA_VERSION then Inl MALFORMED_TRUSTED_STATE else
         case read_state_fields bs of
           None \<Rightarrow> Inl MALFORMED_TRUSTED_STATE
         | Some (s, rest) \<Rightarrow>
             if rest \<noteq> [] then Inl MALFORMED_TRUSTED_STATE else parseTrustedState (js_state s)))"

lemma observed_codec:
  fixes w :: "'a \<Rightarrow> u8 list option"
  assumes "wire_codec w r ok"
  shows "wire_codec (wr_observed w) (rd_observed r) (wf_observed ok)"
proof
  fix o' :: "'a observed" and b bs rest :: "u8 list"
  show "wf_observed ok o' \<Longrightarrow> \<exists>b. wr_observed w o' = Some b"
    unfolding wr_observed_def wf_observed_def
    by (intro wcat_total) (simp add: provenance_c.total wire_codec.total [OF assms])
  show "wr_observed w o' = Some b \<Longrightarrow> wf_observed ok o' \<Longrightarrow> rd_observed r (b @ rest) = Some (o', rest)"
    by (auto simp: wr_observed_def wf_observed_def rd_observed_def wcat_Cons_eq_Some
        provenance_c.rd_wr wire_codec.rd_wr [OF assms])
  show "rd_observed r bs = Some (o', rest) \<Longrightarrow> wf_observed ok o' \<Longrightarrow> no_bom bs \<Longrightarrow>
      \<exists>b. wr_observed w o' = Some b \<and> bs = b @ rest"
    by (auto simp: wr_observed_def wf_observed_def rd_observed_def bind_eq_Some_conv
        elim!: provenance_c.step wire_codec.step [OF assms])
qed

interpretation opt_str_c: wire_codec "wr_opt wr_str" "rd_opt rd_str" "pred_option ok_str"
  by (rule opt_codec) (rule str_c.wire_codec_axioms)

interpretation opt_hex32_c: wire_codec "wr_opt wr_hex32" "rd_opt rd_hex32" "pred_option (hex_literal 64)"
  by (rule opt_codec) (rule hex32_c.wire_codec_axioms)

interpretation opt_price_c: wire_codec "wr_opt writePrice" "rd_opt rd_price" "pred_option wf_price"
  by (rule opt_codec) (rule price_c.wire_codec_axioms)

interpretation opt_u64_c: wire_codec "wr_opt wr_u64" "rd_opt rd_u64" "pred_option (\<lambda>e. 0 \<le> e \<and> e \<le> UINT64_MAX)"
proof (rule opt_codec)
  have "(\<lambda>v. 0 \<le> v \<and> v < 2 ^ 64) = (\<lambda>e. 0 \<le> e \<and> e \<le> UINT64_MAX)" by (auto simp: fun_eq_iff)
  then show "wire_codec wr_u64 rd_u64 (\<lambda>e. 0 \<le> e \<and> e \<le> UINT64_MAX)"
    using u64_c.wire_codec_axioms by simp
qed

lemma pred_option_mono: "pred_option P x \<Longrightarrow> (\<And>y. P y \<Longrightarrow> Q y) \<Longrightarrow> pred_option Q x"
  by (cases x) auto

lemma ok_option_ident: "pred_option valid_ident x \<Longrightarrow> pred_option ok_str x"
  by (erule pred_option_mono) simp

interpretation representation_c: wire_codec write_representation read_representation wf_representation
proof
  fix r and b bs rest :: "u8 list"
  show "wf_representation r \<Longrightarrow> \<exists>b. write_representation r = Some b"
    unfolding write_representation_def wf_representation_def
    by (intro wcat_total) (simp add: codec_totals opt_str_c.total ok_option_ident)
  show "write_representation r = Some b \<Longrightarrow> wf_representation r \<Longrightarrow> read_representation (b @ rest) = Some (r, rest)"
    by (auto simp: write_representation_def wf_representation_def read_representation_def wcat_Cons_eq_Some
        codec_rd_wr opt_str_c.rd_wr ok_option_ident)
  show "read_representation bs = Some (r, rest) \<Longrightarrow> wf_representation r \<Longrightarrow> no_bom bs \<Longrightarrow>
      \<exists>b. write_representation r = Some b \<and> bs = b @ rest"
    unfolding read_representation_def
    apply (simp only: bind_eq_Some_conv split_paired_Ex case_prod_conv option.inject prod.inject)
    apply (elim exE conjE, hypsubst, simp only: wf_representation_def representation_state.simps, elim conjE)
    apply (erule codec_steps opt_str_c.step, assumption,
        (assumption | (rule ok_intros ok_option_ident; assumption)))+
    by (simp add: write_representation_def)
qed

interpretation market_c: wire_codec write_market read_market wf_market
proof
  fix m and b bs rest :: "u8 list"
  show "wf_market m \<Longrightarrow> \<exists>b. write_market m = Some b"
    unfolding write_market_def wf_market_def
    by (intro wcat_total) (simp add: asset_c.total halt_status_c.total opt_price_c.total)
  show "write_market m = Some b \<Longrightarrow> wf_market m \<Longrightarrow> read_market (b @ rest) = Some (m, rest)"
    by (auto simp: write_market_def wf_market_def read_market_def wcat_Cons_eq_Some
        asset_c.rd_wr halt_status_c.rd_wr opt_price_c.rd_wr)
  show "read_market bs = Some (m, rest) \<Longrightarrow> wf_market m \<Longrightarrow> no_bom bs \<Longrightarrow> \<exists>b. write_market m = Some b \<and> bs = b @ rest"
    by (auto simp: write_market_def wf_market_def read_market_def bind_eq_Some_conv
        elim!: asset_c.step halt_status_c.step opt_price_c.step)
qed

interpretation corporate_action_c: wire_codec write_corporate_action read_corporate_action wf_corporate_action
proof
  fix c and b bs rest :: "u8 list"
  show "wf_corporate_action c \<Longrightarrow> \<exists>b. write_corporate_action c = Some b"
    unfolding write_corporate_action_def wf_corporate_action_def
    by (intro wcat_total) (simp add: asset_c.total opt_u64_c.total)
  show "write_corporate_action c = Some b \<Longrightarrow> wf_corporate_action c \<Longrightarrow> read_corporate_action (b @ rest) = Some (c, rest)"
    by (auto simp: write_corporate_action_def wf_corporate_action_def read_corporate_action_def
        wcat_Cons_eq_Some asset_c.rd_wr opt_u64_c.rd_wr)
  show "read_corporate_action bs = Some (c, rest) \<Longrightarrow> wf_corporate_action c \<Longrightarrow> no_bom bs \<Longrightarrow>
      \<exists>b. write_corporate_action c = Some b \<and> bs = b @ rest"
    by (auto simp: write_corporate_action_def wf_corporate_action_def read_corporate_action_def
        bind_eq_Some_conv elim!: asset_c.step opt_u64_c.step)
qed

interpretation replay_c: wire_codec write_replay_state read_replay_state wf_replay_state
proof
  fix r and b bs rest :: "u8 list"
  show "wf_replay_state r \<Longrightarrow> \<exists>b. write_replay_state r = Some b"
    unfolding write_replay_state_def wf_replay_state_def
    by (intro wcat_total) (simp add: hex32_c.total replay_status_c.total)
  show "write_replay_state r = Some b \<Longrightarrow> wf_replay_state r \<Longrightarrow> read_replay_state (b @ rest) = Some (r, rest)"
    by (auto simp: write_replay_state_def wf_replay_state_def read_replay_state_def wcat_Cons_eq_Some
        hex32_c.rd_wr replay_status_c.rd_wr)
  show "read_replay_state bs = Some (r, rest) \<Longrightarrow> wf_replay_state r \<Longrightarrow> no_bom bs \<Longrightarrow>
      \<exists>b. write_replay_state r = Some b \<and> bs = b @ rest"
    by (auto simp: write_replay_state_def wf_replay_state_def read_replay_state_def bind_eq_Some_conv
        elim!: hex32_c.step replay_status_c.step)
qed

interpretation reps_c: wire_codec "wr_list (wr_observed write_representation)" "rd_list (rd_observed read_representation)"
    "\<lambda>xs. length xs \<le> 65535 \<and> list_all (wf_observed wf_representation) xs"
  by (rule list_codec) (rule observed_codec, rule representation_c.wire_codec_axioms)

interpretation opt_market_c: wire_codec "wr_opt (wr_observed write_market)" "rd_opt (rd_observed read_market)"
    "pred_option (wf_observed wf_market)"
  by (rule opt_codec) (rule observed_codec, rule market_c.wire_codec_axioms)

interpretation opt_corporate_action_c: wire_codec "wr_opt (wr_observed write_corporate_action)"
    "rd_opt (rd_observed read_corporate_action)" "pred_option (wf_observed wf_corporate_action)"
  by (rule opt_codec) (rule observed_codec, rule corporate_action_c.wire_codec_axioms)

interpretation opt_replay_c: wire_codec "wr_opt (wr_observed write_replay_state)"
    "rd_opt (rd_observed read_replay_state)" "pred_option (wf_observed wf_replay_state)"
  by (rule opt_codec) (rule observed_codec, rule replay_c.wire_codec_axioms)

lemmas state_totals = str_c.total opt_hex32_c.total reps_c.total opt_market_c.total
  opt_corporate_action_c.total opt_replay_c.total
lemmas state_rd_wr = str_c.rd_wr opt_hex32_c.rd_wr reps_c.rd_wr opt_market_c.rd_wr
  opt_corporate_action_c.rd_wr opt_replay_c.rd_wr
lemmas state_steps = str_c.step opt_hex32_c.step reps_c.step opt_market_c.step
  opt_corporate_action_c.step opt_replay_c.step

interpretation state_c: wire_codec write_state_fields read_state_fields wf_state
proof
  fix s and b bs rest :: "u8 list"
  show "wf_state s \<Longrightarrow> \<exists>b. write_state_fields s = Some b"
    unfolding write_state_fields_def wf_state_def MAX_STATE_REPRESENTATIONS_def
    by (intro wcat_total) (simp add: state_totals)
  show "write_state_fields s = Some b \<Longrightarrow> wf_state s \<Longrightarrow> read_state_fields (b @ rest) = Some (s, rest)"
    by (auto simp: write_state_fields_def wf_state_def MAX_STATE_REPRESENTATIONS_def read_state_fields_def
        wcat_Cons_eq_Some state_rd_wr)
  show "read_state_fields bs = Some (s, rest) \<Longrightarrow> wf_state s \<Longrightarrow> no_bom bs \<Longrightarrow>
      \<exists>b. write_state_fields s = Some b \<and> bs = b @ rest"
    unfolding read_state_fields_def
    apply (simp only: bind_eq_Some_conv split_paired_Ex case_prod_conv option.inject prod.inject)
    apply (elim exE conjE, hypsubst, simp only: wf_state_def MAX_STATE_REPRESENTATIONS_def trusted_state.simps, elim conjE)
    apply (erule state_steps, assumption, (assumption | (rule ok_intros conjI; assumption)))+
    by (simp add: write_state_fields_def)
qed

end
