(* ===== verification/Digest.thy ===== *)
theory Digest
  imports Codec
begin

text \<open>
  What the codecs guarantee as whole functions, and the digests over the encodings
  (\<open>packages/kernel/src/encoding/digest.ts\<close>). Keccak-256 is the library's: a parameter from bytes to
  bytes, of which only the length of its result is ever assumed.
\<close>

section \<open>Digests (digest.ts)\<close>

definition keccak256 :: "(u8 list \<Rightarrow> u8 list) \<Rightarrow> u8 list \<Rightarrow> string" where
  "keccak256 keccak bytes = bytesToHex (keccak bytes)"

definition mandateDigest :: "(u8 list \<Rightarrow> u8 list) \<Rightarrow> mandate \<Rightarrow> string option" where
  "mandateDigest keccak m = map_option (keccak256 keccak) (encodeMandate m)"

definition candidateDigest :: "(u8 list \<Rightarrow> u8 list) \<Rightarrow> candidate \<Rightarrow> string option" where
  "candidateDigest keccak c = map_option (keccak256 keccak) (encodeCandidate c)"

definition trustedStateDigest :: "(u8 list \<Rightarrow> u8 list) \<Rightarrow> trusted_state \<Rightarrow> string option" where
  "trustedStateDigest keccak s = map_option (keccak256 keccak) (encodeTrustedState s)"

lemma keccak256_inj: "keccak256 k a = keccak256 k b \<longleftrightarrow> k a = k b"
  by (auto simp: keccak256_def bytesToHex_def dest: arg_cong [where f = hex_pairs])

lemma keccak256_literal: "length (k b) = 32 \<Longrightarrow> hex_literal 64 (keccak256 k b)"
  by (simp add: keccak256_def hex_literal_bytesToHex)

section \<open>Mandates\<close>

lemma tags [simp]:
  "wr_tag MANDATE_TAG = Some (text_encode MANDATE_TAG)"
  "wr_tag CANDIDATE_TAG = Some (text_encode CANDIDATE_TAG)"
  "wr_tag STATE_TAG = Some (text_encode STATE_TAG)"
  "wr_tag AUTHZ_TAG = Some (text_encode AUTHZ_TAG)"
  "wr_tag RECEIPT_TAG = Some (text_encode RECEIPT_TAG)"
  by (simp_all add: wr_tag_def tag_char_def MANDATE_TAG_def CANDIDATE_TAG_def STATE_TAG_def
      AUTHZ_TAG_def RECEIPT_TAG_def)

lemma rd_tag_encode [simp]:
  "rd_tag MANDATE_TAG (text_encode MANDATE_TAG @ rest) = Some ((), rest)"
  "rd_tag CANDIDATE_TAG (text_encode CANDIDATE_TAG @ rest) = Some ((), rest)"
  "rd_tag STATE_TAG (text_encode STATE_TAG @ rest) = Some ((), rest)"
  by (rule rd_wr_tag, simp)+

lemma wr_version: "0 \<le> v \<Longrightarrow> v < 2 ^ 16 \<Longrightarrow> wr_u16 v = Some (be_bytes 2 v)"
  by (simp add: wr_u16_def wr_uint_Some)

lemma rd_version [simp]: "0 \<le> v \<Longrightarrow> v < 2 ^ 16 \<Longrightarrow> rd_u16 (be_bytes 2 v @ rest) = Some (v, rest)"
  by (rule u16_c.rd_wr) (auto intro: wr_version)

lemmas versions = MANDATE_SCHEMA_VERSION_def CANDIDATE_SCHEMA_VERSION_def STATE_SCHEMA_VERSION_def

lemma encodeMandate_wf:
  "wf_mandate m \<Longrightarrow> encodeMandate m = Some b \<longleftrightarrow>
     (\<exists>d. write_mandate_fields m = Some d \<and> b = text_encode MANDATE_TAG @ be_bytes 2 MANDATE_SCHEMA_VERSION @ d)"
  by (auto simp: encodeMandate_def wf_mandate_def wcat_Cons_eq_Some wr_version versions)

lemma encodeMandate_total: "wf_mandate m \<Longrightarrow> \<exists>b. encodeMandate m = Some b"
  using mandate_c.total by (auto simp: encodeMandate_wf)

lemma decode_encodeMandate: "wf_mandate m \<Longrightarrow> encodeMandate m = Some b \<Longrightarrow> decodeMandate b = Inr m"
  using mandate_c.rd_wr [of m _ "[]"] by (auto simp: encodeMandate_wf decodeMandate_def versions)

text \<open>
  A successful decode, taken apart: the tag, the version, the fields with nothing after them, and the
  structural parser.
\<close>

lemma decodeMandate_Inr:
  assumes "decodeMandate b = Inr m"
  obtains c d raw where "b = text_encode MANDATE_TAG @ be_bytes 2 MANDATE_SCHEMA_VERSION @ d"
    "read_mandate_fields d = Some (raw, [])" "parseMandate (js_mandate raw) = Inr m"
proof -
  from assms obtain c d raw where r: "rd_tag MANDATE_TAG b = Some ((), c)"
      "rd_u16 c = Some (MANDATE_SCHEMA_VERSION, d)"
      "read_mandate_fields d = Some (raw, [])" "parseMandate (js_mandate raw) = Inr m"
    by (auto simp: decodeMandate_def split: option.splits prod.splits if_splits)
  moreover from rd_inv(2) [OF r(2)] have "c = be_bytes 2 MANDATE_SCHEMA_VERSION @ d"
    by (auto simp: wr_u16_def wr_uint_Some)
  ultimately show ?thesis using that rd_inv_tag by blast
qed

lemma read_mandate_fields_ascending:
  "read_mandate_fields bs = Some (m, rest) \<Longrightarrow> ascending (m_allowedIssuers m) \<and>
     ascending (m_allowedChains m) \<and> ascending (m_allowedVenues m)"
  by (auto simp: read_mandate_fields_def bind_eq_Some_conv readIdentifierSet_iff)

lemma ascending_sorted: "ascending xs \<Longrightarrow> js_sort compareIdentifierBytes xs = xs"
  by (simp add: ascending_iff js_sort_sorted)

lemma decodeMandate_wf: "decodeMandate b = Inr m \<Longrightarrow> wf_mandate m"
  by (erule decodeMandate_Inr) (rule parseMandate_wf)

lemma encode_decodeMandate:
  assumes "decodeMandate b = Inr m" "no_bom b"
  shows "encodeMandate m = Some b"
proof -
  from assms(1) obtain d raw where b: "b = text_encode MANDATE_TAG @ be_bytes 2 MANDATE_SCHEMA_VERSION @ d"
    and raw: "read_mandate_fields d = Some (raw, [])" "parseMandate (js_mandate raw) = Inr m"
    by (rule decodeMandate_Inr)
  have "m = raw"
    using parseMandate_js_Inr [OF raw(2)] read_mandate_fields_ascending [OF raw(1)]
    by (cases m; cases raw) (simp add: ascending_sorted)
  moreover have "no_bom d" using assms(2) no_bom_append unfolding b by blast
  ultimately show ?thesis
    using mandate_c.rd_inv [of d m "[]"] raw parseMandate_wf [OF raw(2)] b by (auto simp: encodeMandate_wf)
qed

section \<open>Candidates\<close>

lemma encodeCandidate_wf:
  "wf_candidate c \<Longrightarrow> encodeCandidate c = Some b \<longleftrightarrow>
     (\<exists>d. write_candidate_fields c = Some d \<and> b = text_encode CANDIDATE_TAG @ be_bytes 2 CANDIDATE_SCHEMA_VERSION @ d)"
  by (auto simp: encodeCandidate_def wf_candidate_def wcat_Cons_eq_Some wr_version versions)

lemma encodeCandidate_total: "wf_candidate c \<Longrightarrow> \<exists>b. encodeCandidate c = Some b"
  using candidate_c.total by (auto simp: encodeCandidate_wf)

lemma decodeCandidate_fields:
  "read_candidate_fields d = Some (c, []) \<Longrightarrow> wf_candidate c \<Longrightarrow>
     decodeCandidate (text_encode CANDIDATE_TAG @ be_bytes 2 CANDIDATE_SCHEMA_VERSION @ d) = Inr c"
  by (simp add: decodeCandidate_def versions)

lemma decode_encodeCandidate: "wf_candidate c \<Longrightarrow> encodeCandidate c = Some b \<Longrightarrow> decodeCandidate b = Inr c"
  using candidate_c.rd_wr [of c _ "[]"] by (auto simp: encodeCandidate_wf intro: decodeCandidate_fields)

lemma decodeCandidate_Inr:
  assumes "decodeCandidate b = Inr c"
  obtains d where "b = text_encode CANDIDATE_TAG @ be_bytes 2 CANDIDATE_SCHEMA_VERSION @ d"
    "read_candidate_fields d = Some (c, [])" "wf_candidate c"
proof -
  from assms obtain e d raw where r: "rd_tag CANDIDATE_TAG b = Some ((), e)"
      "rd_u16 e = Some (CANDIDATE_SCHEMA_VERSION, d)"
      "read_candidate_fields d = Some (raw, [])" "parseCandidate (js_candidate raw) = Inr c"
    by (auto simp: decodeCandidate_def split: option.splits prod.splits if_splits)
  moreover from rd_inv(2) [OF r(2)] have "e = be_bytes 2 CANDIDATE_SCHEMA_VERSION @ d"
    by (auto simp: wr_u16_def wr_uint_Some)
  ultimately show ?thesis
    using that rd_inv_tag parseCandidate_js_Inr parseCandidate_wf by blast
qed

lemma decodeCandidate_wf: "decodeCandidate b = Inr c \<Longrightarrow> wf_candidate c"
  by (erule decodeCandidate_Inr)

lemma encode_decodeCandidate:
  assumes "decodeCandidate b = Inr c" "no_bom b"
  shows "encodeCandidate c = Some b"
proof -
  from assms(1) obtain d where b: "b = text_encode CANDIDATE_TAG @ be_bytes 2 CANDIDATE_SCHEMA_VERSION @ d"
    and d: "read_candidate_fields d = Some (c, [])" "wf_candidate c"
    by (rule decodeCandidate_Inr)
  moreover have "no_bom d" using assms(2) no_bom_append unfolding b by blast
  ultimately show ?thesis using candidate_c.rd_inv [of d c "[]"] by (auto simp: encodeCandidate_wf)
qed

text \<open>A byte-order mark in front of a string, counted in its length, is not seen by the reader.\<close>

lemma rd_str_bom:
  assumes "is_ascii s" "length s \<le> 1024"
  shows "rd_str (be_bytes 2 (int (length s + 3)) @ utf8_bom @ text_encode s @ rest) = Some (s, rest)"
proof -
  have "take 3 (utf8_bom @ text_encode s) = utf8_bom" "drop 3 (utf8_bom @ text_encode s) = text_encode s"
    by (simp_all add: utf8_bom_def)
  moreover have "text_decode (text_encode s) = Some s" using assms(1) by (rule text_decode_encode)
  moreover have "take 3 (text_encode s) \<noteq> utf8_bom"
  proof
    assume "take 3 (text_encode s) = utf8_bom"
    then have "\<exists>b \<in> set (text_encode s). b = 0xEF"
      by (metis in_set_takeD list.set_intros(1) utf8_bom_def)
    then obtain c where "c \<in> set s" "char_byte c = 0xEF" by (auto simp: text_encode_def)
    then have "(of_char c :: nat) = 239" using unat_char_byte [of c] by simp
    with assms(1) \<open>c \<in> set s\<close> show False by (auto simp: is_ascii_def)
  qed
  ultimately have "text_decode (utf8_bom @ text_encode s) = Some s"
    unfolding text_decode_def Let_def by (simp split: if_splits)
  moreover have "rd_raw (length s + 3) ((utf8_bom @ text_encode s) @ rest) = Some (utf8_bom @ text_encode s, rest)"
    by (rule rd_raw_append) (simp add: utf8_bom_def)
  moreover have "nat (int (length s + 3)) = length s + 3" by simp
  ultimately show ?thesis
    using assms(2) unfolding rd_str_def by (subst rd_version) simp_all
qed

text \<open>
  So the bytes of a candidate are never unique: whatever the candidate, some other bytes decode to it.
\<close>

lemma decodeCandidate_bom:
  assumes "wf_candidate c" "encodeCandidate c = Some b"
  shows "\<exists>b'. b' \<noteq> b \<and> decodeCandidate b' = Inr c"
proof -
  let ?s = "c_representationId c" and ?h = "text_encode CANDIDATE_TAG @ be_bytes 2 CANDIDATE_SCHEMA_VERSION"
  from assms obtain d where d: "write_candidate_fields c = Some d" "b = ?h @ d"
    by (auto simp: encodeCandidate_wf)
  then obtain e f where e: "wr_str ?s = Some e" "d = e @ f"
    by (auto simp: write_candidate_fields_def wcat_Cons_eq_Some)
  have s: "is_ascii ?s" "length ?s \<le> 1024" using assms(1) by (simp_all add: wf_candidate_def)
  define e' where "e' = be_bytes 2 (int (length ?s + 3)) @ utf8_bom @ text_encode ?s"
  have "rd_str (e' @ f) = rd_str (e @ f)"
    using rd_str_bom [OF s, of f] str_c.rd_wr [OF e(1), of f] s by (simp add: e'_def)
  then have "read_candidate_fields (e' @ f) = read_candidate_fields d"
    by (simp add: read_candidate_fields_def e(2))
  then have "decodeCandidate (?h @ e' @ f) = Inr c"
    using candidate_c.rd_wr [OF d(1) assms(1), of "[]"] assms(1) decodeCandidate_fields by simp
  moreover have "length e = length ?s + 2"
    using e(1) s by (auto simp: wr_str_def wcat_Cons_eq_Some wr_u16_def wr_uint_Some)
  then have "?h @ e' @ f \<noteq> b" unfolding d(2) e(2) by (auto simp: e'_def utf8_bom_def dest!: arg_cong [where f = length])
  ultimately show ?thesis by blast
qed

section \<open>Trusted states\<close>

interpretation rep_cmp: cmp_preorder rep_order
proof
  fix a b c
  show "rep_order a b \<le> 0 \<or> rep_order b a \<le> 0"
    unfolding rep_order_def by (rule id_cmp.cmp_total)
  show "rep_order a b \<le> 0 \<Longrightarrow> rep_order b c \<le> 0 \<Longrightarrow> rep_order a c \<le> 0"
    unfolding rep_order_def by (rule id_cmp.cmp_trans)
qed

abbreviation reps_sorted :: "trusted_state \<Rightarrow> bool" where
  "reps_sorted s \<equiv> sorted_wrt (\<lambda>a b. rep_order a b \<le> 0) (s_representations s)"

lemma sort_representations_id: "reps_sorted s \<Longrightarrow> sort_representations s = s"
  by (simp add: sort_representations_def js_sort_sorted)

lemma sort_representations_sorted: "reps_sorted (sort_representations s)"
  by (simp add: sort_representations_def rep_cmp.sorted_sort)

lemma wf_sort_representations: "wf_state (sort_representations s) \<longleftrightarrow> wf_state s"
  by (auto simp: wf_state_def sort_representations_def list_all_iff distinct_map)

lemma sort_representations_perm:
  assumes "wf_state s" "wf_state (s\<lparr>s_representations := ys\<rparr>)" "set ys = set (s_representations s)"
  shows "sort_representations (s\<lparr>s_representations := ys\<rparr>) = sort_representations s"
proof -
  let ?xs = "s_representations s"
  have d: "distinct (map (rep_id \<circ> value_of) ?xs)" "distinct (map (rep_id \<circ> value_of) ys)"
    using assms(1,2) by (simp_all add: wf_state_def)
  have "js_sort rep_order ys = js_sort rep_order ?xs"
  proof (rule rep_cmp.sorted_unique_on)
    show "distinct (js_sort rep_order ys)" "distinct (js_sort rep_order ?xs)"
      using d by (simp_all add: distinct_map)
    show "set (js_sort rep_order ys) = set (js_sort rep_order ?xs)" using assms(3) by simp
    fix a b assume ab: "a \<in> set (js_sort rep_order ys)" "b \<in> set (js_sort rep_order ys)"
      "rep_order a b \<le> 0" "rep_order b a \<le> 0"
    then have "rep_id (value_of a) = rep_id (value_of b)"
      unfolding rep_order_def by (intro id_cmp.cmp_antisym)
    with ab d(2) show "a = b" by (auto simp: distinct_map inj_on_def)
  qed (rule rep_cmp.sorted_sort)+
  then show ?thesis by (simp add: sort_representations_def)
qed

lemma encodeTrustedState_wf:
  "wf_state s \<Longrightarrow> encodeTrustedState s = Some b \<longleftrightarrow>
     (\<exists>d. write_state_fields (sort_representations s) = Some d
        \<and> b = text_encode STATE_TAG @ be_bytes 2 STATE_SCHEMA_VERSION @ d)"
  by (auto simp: encodeTrustedState_def wf_state_def wcat_Cons_eq_Some wr_version versions)

lemma encodeTrustedState_total: "wf_state s \<Longrightarrow> \<exists>b. encodeTrustedState s = Some b"
  using state_c.total [of "sort_representations s"] by (auto simp: encodeTrustedState_wf wf_sort_representations)

lemma encodeTrustedState_sort:
  "encodeTrustedState (sort_representations s) = encodeTrustedState s"
  using sort_representations_id [OF sort_representations_sorted, of s]
  by (simp add: encodeTrustedState_def) (simp add: sort_representations_def)

lemma decodeTrustedState_fields:
  "read_state_fields d = Some (s, []) \<Longrightarrow> wf_state s \<Longrightarrow>
     decodeTrustedState (text_encode STATE_TAG @ be_bytes 2 STATE_SCHEMA_VERSION @ d) = Inr s"
  by (simp add: decodeTrustedState_def versions parseTrustedState_js)

lemma decode_encodeTrustedState:
  "wf_state s \<Longrightarrow> encodeTrustedState s = Some b \<Longrightarrow> decodeTrustedState b = Inr (sort_representations s)"
  using state_c.rd_wr [of "sort_representations s" _ "[]"]
  by (auto simp: encodeTrustedState_wf wf_sort_representations intro: decodeTrustedState_fields)

lemma decodeTrustedState_Inr:
  assumes "decodeTrustedState b = Inr s"
  obtains d where "b = text_encode STATE_TAG @ be_bytes 2 STATE_SCHEMA_VERSION @ d"
    "read_state_fields d = Some (s, [])" "wf_state s"
proof -
  from assms obtain e d raw where r: "rd_tag STATE_TAG b = Some ((), e)"
      "rd_u16 e = Some (STATE_SCHEMA_VERSION, d)"
      "read_state_fields d = Some (raw, [])" "parseTrustedState (js_state raw) = Inr s"
    by (auto simp: decodeTrustedState_def split: option.splits prod.splits if_splits)
  moreover from rd_inv(2) [OF r(2)] have "e = be_bytes 2 STATE_SCHEMA_VERSION @ d"
    by (auto simp: wr_u16_def wr_uint_Some)
  ultimately show ?thesis
    using that rd_inv_tag [OF r(1)] by (auto simp: parseTrustedState_js)
qed

lemma encode_decodeTrustedState:
  assumes "decodeTrustedState b = Inr s" "no_bom b"
  shows "encodeTrustedState s = Some b \<longleftrightarrow> reps_sorted s"
proof -
  from assms(1) obtain d where b: "b = text_encode STATE_TAG @ be_bytes 2 STATE_SCHEMA_VERSION @ d"
    and d: "read_state_fields d = Some (s, [])" "wf_state s"
    by (rule decodeTrustedState_Inr)
  have "no_bom d" using assms(2) no_bom_append unfolding b by blast
  then have w: "write_state_fields s = Some d" using state_c.rd_inv [of d s "[]"] d by auto
  show ?thesis
  proof
    assume "reps_sorted s"
    with w b d(2) show "encodeTrustedState s = Some b" by (simp add: encodeTrustedState_wf sort_representations_id)
  next
    assume "encodeTrustedState s = Some b"
    with decode_encodeTrustedState [OF d(2)] assms(1) have "s = sort_representations s" by simp
    then show "reps_sorted s" using sort_representations_sorted [of s] by simp
  qed
qed

lemma decodeTrustedState_any_order: "wf_state s \<Longrightarrow> \<exists>b. decodeTrustedState b = Inr s"
  using state_c.total [of s] state_c.rd_wr [of s _ "[]"] decodeTrustedState_fields by fastforce

section \<open>Kinds of object\<close>

text \<open>The tags tell the kinds apart, whatever follows them.\<close>

lemma encodings_apart:
  assumes "wf_mandate m" "wf_candidate c" "wf_state s"
    and "encodeMandate m = Some a" "encodeCandidate c = Some b" "encodeTrustedState s = Some e"
  shows "a \<noteq> b" "a \<noteq> e" "b \<noteq> e"
  using assms encodeMandate_wf [of m a] encodeCandidate_wf [of c b] encodeTrustedState_wf [of s e]
  by (auto simp: text_encode_def MANDATE_TAG_def CANDIDATE_TAG_def STATE_TAG_def char_byte_def)

text \<open>A collision of the hash function at two given encodings.\<close>

definition collides :: "(u8 list \<Rightarrow> u8 list) \<Rightarrow> u8 list option \<Rightarrow> u8 list option \<Rightarrow> bool" where
  "collides keccak a b \<longleftrightarrow> (\<exists>x y. a = Some x \<and> b = Some y \<and> x \<noteq> y \<and> keccak x = keccak y)"

end
