(* ===== verification/Authorization.thy ===== *)
theory Authorization
  imports Digest
begin

text \<open>
  Authorization envelopes (\<open>packages/kernel/src/authorization/eip712.ts\<close> and \<open>envelope.ts\<close>). The curve
  library is a parameter: \<open>recover\<close> takes the 64 signature bytes, the recovery bit and the hash, and
  returns the uncompressed public key, or \<^term>\<open>None\<close> when it throws; \<open>n\<close> is the order of the curve.
  Keccak-256 is the parameter \<open>keccak\<close>.
\<close>

section \<open>EIP-712 (eip712.ts)\<close>

record eip712_domain =
  d_name :: string
  d_version :: string
  chainId :: int
  verifyingContract :: string

definition EIP712_DOMAIN_TYPE :: string where
  "EIP712_DOMAIN_TYPE = ''EIP712Domain(string name,string version,uint256 chainId,address verifyingContract)''"

definition MANDATE_AUTHORIZATION_TYPE :: string where
  "MANDATE_AUTHORIZATION_TYPE = ''MandateAuthorization(bytes32 mandateDigest)''"

definition parseEip712Domain :: "js \<Rightarrow> eip712_domain result" where
  "parseEip712Domain raw =
    (if \<not> is_object raw then Inl MALFORMED_AUTHORIZATION else
     case jget raw ''name'' of
       JStr name \<Rightarrow> if js_length name = 0 \<or> js_length name > 128 then Inl MALFORMED_AUTHORIZATION else
        (case jget raw ''version'' of
           JStr version \<Rightarrow> if js_length version = 0 \<or> js_length version > 32 then Inl MALFORMED_AUTHORIZATION else
            (case jget raw ''verifyingContract'' of
               JStr contract \<Rightarrow> if \<not> hex_literal 40 contract then Inl MALFORMED_AUTHORIZATION else
                (case parseBigInt (jget raw ''chainId'') of
                   None \<Rightarrow> Inl MALFORMED_AUTHORIZATION
                 | Some cid \<Rightarrow>
                     if cid < 0 \<or> cid > UINT256_MAX then Inl MALFORMED_AUTHORIZATION
                     else Inr \<lparr>d_name = name, d_version = version, chainId = cid, verifyingContract = contract\<rparr>)
             | _ \<Rightarrow> Inl MALFORMED_AUTHORIZATION)
         | _ \<Rightarrow> Inl MALFORMED_AUTHORIZATION)
     | _ \<Rightarrow> Inl MALFORMED_AUTHORIZATION)"

definition eip712DomainEquals :: "eip712_domain \<Rightarrow> eip712_domain \<Rightarrow> bool" where
  "eip712DomainEquals a b \<longleftrightarrow> d_name a = d_name b \<and> d_version a = d_version b \<and> chainId a = chainId b
     \<and> verifyingContract a = verifyingContract b"

text \<open>The 32-byte big-endian word, and \<open>BigInt\<close> of a \<open>0x\<close> literal.\<close>

definition abi_word :: "int \<Rightarrow> u8 list" where
  "abi_word v = be_bytes 32 v"

definition BigInt_hex :: "string \<Rightarrow> int" where
  "BigInt_hex s = foldl (\<lambda>v c. 16 * v + int (hex_val c)) 0 (drop 2 s)"

definition domainSeparator :: "(u8 list \<Rightarrow> u8 list) \<Rightarrow> eip712_domain \<Rightarrow> u8 list" where
  "domainSeparator keccak d = keccak (concat [
     keccak (text_encode EIP712_DOMAIN_TYPE),
     keccak (text_encode (d_name d)),
     keccak (text_encode (d_version d)),
     abi_word (chainId d),
     abi_word (BigInt_hex (verifyingContract d))])"

text \<open>\<^term>\<open>None\<close>: the digest is not 32 bytes, and the code throws.\<close>

definition mandateAuthorizationStructHash :: "(u8 list \<Rightarrow> u8 list) \<Rightarrow> string \<Rightarrow> u8 list option" where
  "mandateAuthorizationStructHash keccak d = (case hexToBytes d of
     None \<Rightarrow> None
   | Some b \<Rightarrow> if length b \<noteq> 32 then None
               else Some (keccak (concat [keccak (text_encode MANDATE_AUTHORIZATION_TYPE), b])))"

definition eip712SigningHash :: "(u8 list \<Rightarrow> u8 list) \<Rightarrow> eip712_domain \<Rightarrow> string \<Rightarrow> u8 list option" where
  "eip712SigningHash keccak ed d =
     map_option (\<lambda>h. keccak (concat [[0x19, 0x01], domainSeparator keccak ed, h]))
       (mandateAuthorizationStructHash keccak d)"

section \<open>Envelopes (envelope.ts)\<close>

definition EIP712_SECP256K1 :: string where
  "EIP712_SECP256K1 = ''eip712-secp256k1''"

record envelope =
  scheme :: string
  signer :: party
  signature :: string
  domain :: eip712_domain

definition parseAuthorizationEnvelope :: "js \<Rightarrow> envelope result" where
  "parseAuthorizationEnvelope raw =
    (if \<not> is_object raw then Inl MALFORMED_AUTHORIZATION else
     case jget raw ''scheme'' of
       JStr sch \<Rightarrow> if sch \<noteq> EIP712_SECP256K1 then Inl AUTHORIZATION_SCHEME_UNSUPPORTED else
         rbind (relabel MALFORMED_AUTHORIZATION (parsePartyId (jget raw ''signer'') MALFORMED_AUTHORIZATION)) (\<lambda>s.
         if kind s \<noteq> PARTY_KIND_EIP155_ADDRESS then Inl MALFORMED_AUTHORIZATION else
         case jget raw ''signature'' of
           JStr sig \<Rightarrow> if \<not> hex_literal 130 sig then Inl MALFORMED_AUTHORIZATION else
             rbind (parseEip712Domain (jget raw ''domain'')) (\<lambda>d.
             Inr \<lparr>scheme = EIP712_SECP256K1, signer = s, signature = sig, domain = d\<rparr>)
         | _ \<Rightarrow> Inl MALFORMED_AUTHORIZATION)
     | _ \<Rightarrow> Inl MALFORMED_AUTHORIZATION)"

definition addressFromPublicKey :: "(u8 list \<Rightarrow> u8 list) \<Rightarrow> u8 list \<Rightarrow> string" where
  "addressFromPublicKey keccak uncompressed = bytesToHex (drop 12 (keccak (drop 1 uncompressed)))"

type_synonym recovery = "u8 list \<Rightarrow> int \<Rightarrow> u8 list \<Rightarrow> u8 list option"

text \<open>The outer option is a throw; it can only come from the struct hash.\<close>

definition verifyAuthorization ::
    "(u8 list \<Rightarrow> u8 list) \<Rightarrow> recovery \<Rightarrow> int \<Rightarrow> envelope \<Rightarrow> string \<Rightarrow> eip712_domain \<Rightarrow> party result option" where
  "verifyAuthorization keccak recover n env d expected =
    (if \<not> eip712DomainEquals (domain env) expected then Some (Inl AUTHORIZATION_DOMAIN_MISMATCH) else
     case hexToBytes (signature env) of
       None \<Rightarrow> Some (Inl MALFORMED_AUTHORIZATION)
     | Some sig \<Rightarrow>
        (if length sig \<noteq> 65 then Some (Inl MALFORMED_AUTHORIZATION) else
         let v = uint (sig ! 64);
             r = be_val (take 32 sig);
             s = be_val (take 32 (drop 32 sig))
         in if v \<noteq> 27 \<and> v \<noteq> 28 then Some (Inl SIGNATURE_INVALID)
            else if r = 0 \<or> r \<ge> n \<or> s = 0 \<or> s \<ge> n then Some (Inl SIGNATURE_INVALID)
            else if s > n div 2 then Some (Inl SIGNATURE_INVALID)
            else case eip712SigningHash keccak expected d of
              None \<Rightarrow> None
            | Some hash \<Rightarrow> (case recover (take 64 sig) (v - 27) hash of
                None \<Rightarrow> Some (Inl SIGNATURE_INVALID)
              | Some key \<Rightarrow>
                  if addressFromPublicKey keccak key \<noteq> party_value (signer env) then Some (Inl SIGNATURE_INVALID)
                  else Some (Inr (signer env)))))"

section \<open>What parsing establishes\<close>

definition wf_domain :: "eip712_domain \<Rightarrow> bool" where
  "wf_domain d \<longleftrightarrow> js_length (d_name d) \<le> 128 \<and> js_length (d_version d) \<le> 32 \<and> js_length (d_name d) \<noteq> 0
     \<and> js_length (d_version d) \<noteq> 0 \<and> 0 \<le> chainId d \<and> chainId d \<le> UINT256_MAX
     \<and> hex_literal 40 (verifyingContract d)"

definition wf_envelope :: "envelope \<Rightarrow> bool" where
  "wf_envelope e \<longleftrightarrow> scheme e = EIP712_SECP256K1 \<and> wf_party (signer e)
     \<and> kind (signer e) = PARTY_KIND_EIP155_ADDRESS \<and> hex_literal 130 (signature e) \<and> wf_domain (domain e)"

definition js_domain :: "eip712_domain \<Rightarrow> js" where
  "js_domain d = JObj [(''name'', JStr (d_name d)), (''version'', JStr (d_version d)),
     (''chainId'', JBig (chainId d)), (''verifyingContract'', JStr (verifyingContract d))]"

definition js_envelope :: "envelope \<Rightarrow> js" where
  "js_envelope e = JObj [(''scheme'', JStr (scheme e)), (''signer'', js_party (signer e)),
     (''signature'', JStr (signature e)), (''domain'', js_domain (domain e))]"

lemma eip712DomainEquals_eq [simp]: "eip712DomainEquals a b \<longleftrightarrow> a = b"
  by (auto simp: eip712DomainEquals_def)

lemma parseEip712Domain_wf [parse_inv]: "parseEip712Domain v = Inr d \<Longrightarrow> wf_domain d"
  by (auto simp: parseEip712Domain_def wf_domain_def split: if_splits js.splits option.splits)

lemma parseEip712Domain_js: "wf_domain d \<Longrightarrow> parseEip712Domain (js_domain d) = Inr d"
  by (simp add: parseEip712Domain_def js_domain_def wf_domain_def not_less)

lemma parseAuthorizationEnvelope_wf [parse_inv]: "parseAuthorizationEnvelope v = Inr e \<Longrightarrow> wf_envelope e"
  by (auto simp: parseAuthorizationEnvelope_def wf_envelope_def rbind_eq_Inr
      dest: parsePartyId_wf parseEip712Domain_wf split: if_splits js.splits)

lemma parseAuthorizationEnvelope_js: "wf_envelope e \<Longrightarrow> parseAuthorizationEnvelope (js_envelope e) = Inr e"
  by (auto simp: parseAuthorizationEnvelope_def js_envelope_def wf_envelope_def rbind_eq_Inr parseEip712Domain_js)

lemma signing_hash_total: "hex_literal 64 d \<Longrightarrow> \<exists>h. eip712SigningHash keccak ed d = Some h"
  using hexToBytes_literal [of 64 d] by (auto simp: eip712SigningHash_def mandateAuthorizationStructHash_def)

lemma verifyAuthorization_total:
  "hex_literal 64 d \<Longrightarrow> \<exists>r. verifyAuthorization keccak recover n env d ed = Some r"
  using signing_hash_total [of d keccak ed]
  by (auto simp: verifyAuthorization_def Let_def split: option.splits)

text \<open>
  An accepted envelope: its domain is the deployment's, its signature is canonical (recovery byte 27 or
  28, low \<open>s\<close>), and the key recovered from it over this digest in this domain has the signer's address.
\<close>

lemma verifyAuthorization_Inr:
  "verifyAuthorization keccak recover n env d ed = Some (Inr p) \<longleftrightarrow>
     p = signer env \<and> domain env = ed \<and>
     (\<exists>sig hash key. hexToBytes (signature env) = Some sig \<and> length sig = 65 \<and>
        uint (sig ! 64) \<in> {27, 28} \<and> 0 < be_val (take 32 sig) \<and> be_val (take 32 sig) < n \<and>
        0 < be_val (take 32 (drop 32 sig)) \<and> be_val (take 32 (drop 32 sig)) < n \<and>
        be_val (take 32 (drop 32 sig)) \<le> n div 2 \<and>
        eip712SigningHash keccak ed d = Some hash \<and>
        recover (take 64 sig) (uint (sig ! 64) - 27) hash = Some key \<and>
        addressFromPublicKey keccak key = party_value (signer env))"
  (is "?l = Some (Inr p) \<longleftrightarrow> ?r")
proof -
  have pos: "0 < be_val bs \<longleftrightarrow> be_val bs \<noteq> 0" for bs using be_val_nonneg [of bs] by linarith
  show ?thesis
    unfolding verifyAuthorization_def Let_def pos
    by (auto simp: not_le not_less split: option.splits if_splits)
qed

text \<open>What a signature says: the key it recovers over the digest's signing hash in a domain has a given address.\<close>

definition signs_for :: "(u8 list \<Rightarrow> u8 list) \<Rightarrow> recovery \<Rightarrow> u8 list \<Rightarrow> eip712_domain \<Rightarrow> string \<Rightarrow> string \<Rightarrow> bool" where
  "signs_for keccak recover sig ed d address \<longleftrightarrow> (\<exists>hash key. eip712SigningHash keccak ed d = Some hash
     \<and> recover (take 64 sig) (uint (sig ! 64) - 27) hash = Some key \<and> addressFromPublicKey keccak key = address)"

end
