(* ===== verification/Checks.thy ===== *)
theory Checks
  imports Authorization
begin

text \<open>
  The check families (\<open>packages/kernel/src/verifier/checks.ts\<close>): nineteen functions from the verification
  context to a list of violations, in the order of the table \<open>CHECKS\<close>. A check that throws is
  \<^term>\<open>None\<close>. A violation's detail is an association list in the order its literal is written.
\<close>

record found_violation =
  code :: reason_code
  detail :: "(string \<times> string) list"

definition violation :: "reason_code \<Rightarrow> (string \<times> string) list \<Rightarrow> found_violation" where
  "violation c d = \<lparr>code = c, detail = d\<rparr>"

record check_context =
  x_mandate :: mandate
  x_authorization :: envelope
  x_candidate :: candidate
  x_state :: trusted_state
  x_now :: int
  x_expectedDomain :: eip712_domain
  x_mandateDigest :: string
  x_trustedStateDigest :: string

record check =
  check_name :: string
  run :: "check_context \<Rightarrow> found_violation list option"

section \<open>Authority\<close>

definition checkSignature ::
    "(u8 list \<Rightarrow> u8 list) \<Rightarrow> recovery \<Rightarrow> int \<Rightarrow> check_context \<Rightarrow> found_violation list option" where
  "checkSignature keccak recover n ctx =
    (case verifyAuthorization keccak recover n (x_authorization ctx) (x_mandateDigest ctx) (x_expectedDomain ctx) of
       None \<Rightarrow> None
     | Some (Inl e) \<Rightarrow> Some [violation e [(''scheme'', scheme (x_authorization ctx))]]
     | Some (Inr who) \<Rightarrow>
         if \<not> partyIdEquals who (m_principal (x_mandate ctx))
         then Some [violation SIGNER_UNAUTHORIZED [(''expected'', party_value (m_principal (x_mandate ctx))),
                (''observed'', party_value who)]]
         else Some [])"

definition checkAgent :: "check_context \<Rightarrow> found_violation list" where
  "checkAgent ctx =
    (if partyIdEquals (c_agent (x_candidate ctx)) (m_agent (x_mandate ctx)) then []
     else [violation AGENT_UNAUTHORIZED [(''expected'', party_value (m_agent (x_mandate ctx))),
             (''observed'', party_value (c_agent (x_candidate ctx)))]])"

definition checkValidityWindow :: "check_context \<Rightarrow> found_violation list" where
  "checkValidityWindow ctx =
    (let now = x_now ctx; m = x_mandate ctx in
     (if now \<ge> m_expiresAtUnixSeconds m
      then [violation MANDATE_EXPIRED [(''now'', int_str now), (''expiresAt'', int_str (m_expiresAtUnixSeconds m))]]
      else []) @
     (if now < m_notBeforeUnixSeconds m
      then [violation MANDATE_NOT_YET_ACTIVE [(''now'', int_str now), (''notBefore'', int_str (m_notBeforeUnixSeconds m))]]
      else []))"

definition checkReplay :: "check_context \<Rightarrow> found_violation list" where
  "checkReplay ctx = (case s_replay (x_state ctx) of
     None \<Rightarrow> [violation TRUSTED_STATE_MISSING [(''input'', ''replay'')]]
   | Some r \<Rightarrow>
       if rs_mandateDigest (value_of r) \<noteq> x_mandateDigest ctx
       then [violation REPLAY_STATE_UNKNOWN [(''reason'', ''record-is-for-a-different-mandate'')]]
       else case rs_status (value_of r) of
         CONSUMED \<Rightarrow> [violation MANDATE_ALREADY_CONSUMED [(''mandateDigest'', x_mandateDigest ctx)]]
       | RESERVED \<Rightarrow> [violation MANDATE_RESERVED [(''mandateDigest'', x_mandateDigest ctx)]]
       | QUARANTINED \<Rightarrow> [violation MANDATE_QUARANTINED [(''mandateDigest'', x_mandateDigest ctx)]]
       | REPLAY_UNKNOWN \<Rightarrow> [violation REPLAY_STATE_UNKNOWN [(''reason'', ''source-reported-unknown'')]]
       | UNUSED \<Rightarrow> [])"

section \<open>Asset identity and scope\<close>

definition checkCanonicalAsset :: "check_context \<Rightarrow> found_violation list" where
  "checkCanonicalAsset ctx =
    (if canonicalAssetIdEquals (c_canonicalAsset (x_candidate ctx)) (m_canonicalAsset (x_mandate ctx)) then []
     else [violation CANONICAL_ASSET_MISMATCH [(''expected'', assetValue (m_canonicalAsset (x_mandate ctx))),
             (''observed'', assetValue (c_canonicalAsset (x_candidate ctx)))]])"

definition checkChain :: "check_context \<Rightarrow> found_violation list" where
  "checkChain ctx =
    (if c_chain (x_candidate ctx) \<in> set (m_allowedChains (x_mandate ctx)) then []
     else [violation CHAIN_NOT_ALLOWED [(''observed'', c_chain (x_candidate ctx))]])"

definition checkVenue :: "check_context \<Rightarrow> found_violation list" where
  "checkVenue ctx =
    (if c_venue (x_candidate ctx) \<in> set (m_allowedVenues (x_mandate ctx)) then []
     else [violation VENUE_NOT_ALLOWED [(''observed'', c_venue (x_candidate ctx))]])"

definition checkSide :: "check_context \<Rightarrow> found_violation list" where
  "checkSide ctx =
    (if c_side (x_candidate ctx) = m_side (x_mandate ctx) then []
     else [violation SIDE_MISMATCH [(''expected'', side_name (m_side (x_mandate ctx))),
             (''observed'', side_name (c_side (x_candidate ctx)))]])"

definition checkRepresentation :: "check_context \<Rightarrow> found_violation list" where
  "checkRepresentation ctx =
    (let c = x_candidate ctx; m = x_mandate ctx in
     case findRepresentation (x_state ctx) (c_representationId c) of
       None \<Rightarrow> [violation REPRESENTATION_UNKNOWN [(''representationId'', c_representationId c)]]
     | Some observed \<Rightarrow>
         let rep = value_of observed in
         (if \<not> canonicalAssetIdEquals (rep_asset rep) (m_canonicalAsset m)
          then [violation REPRESENTATION_ASSET_MISMATCH [(''expected'', assetValue (m_canonicalAsset m)),
                 (''observed'', assetValue (rep_asset rep))]] else []) @
         (if rep_issuer rep \<noteq> c_issuer c
          then [violation REPRESENTATION_ATTRIBUTES_MISMATCH [(''field'', ''issuer''),
                 (''expected'', rep_issuer rep), (''observed'', c_issuer c)]] else []) @
         (if rep_chain rep \<noteq> c_chain c
          then [violation REPRESENTATION_ATTRIBUTES_MISMATCH [(''field'', ''chain''),
                 (''expected'', rep_chain rep), (''observed'', c_chain c)]] else []) @
         (if rep_issuer rep \<notin> set (m_allowedIssuers m)
          then [violation ISSUER_NOT_ALLOWED [(''observed'', rep_issuer rep)]] else []) @
         (if synthetic rep = TRI_UNKNOWN
          then [violation REPRESENTATION_METADATA_UNKNOWN [(''field'', ''synthetic'')]]
          else if synthetic rep = YES \<and> m_syntheticPolicy m = FORBIDDEN
          then [violation SYNTHETIC_NOT_ALLOWED [(''representationId'', rep_id rep)]] else []) @
         (if operationalState rep = OP_UNKNOWN
          then [violation REPRESENTATION_METADATA_UNKNOWN [(''field'', ''operationalState'')]]
          else if operationalState rep \<noteq> ACTIVE
          then [violation REPRESENTATION_INACTIVE [(''observed'', operational_state_name (operationalState rep))]]
          else []))"

definition chain_inconsistent :: "string \<Rightarrow> string \<Rightarrow> bool" where
  "chain_inconsistent rid chain \<longleftrightarrow> chainSegmentOf rid = None \<or> chainSegmentOf rid \<noteq> Some chain"

definition checkRepresentationChain :: "check_context \<Rightarrow> found_violation list" where
  "checkRepresentationChain ctx =
    (let c = x_candidate ctx in
     (if chain_inconsistent (c_representationId c) (c_chain c)
      then [violation REPRESENTATION_CHAIN_INCONSISTENT [(''source'', ''candidate''),
              (''representationId'', c_representationId c), (''declared'', c_chain c)]] else []) @
     concat (map (\<lambda>observed. let rep = value_of observed in
       if chain_inconsistent (rep_id rep) (rep_chain rep)
       then [violation REPRESENTATION_CHAIN_INCONSISTENT [(''source'', ''trustedState''),
               (''representationId'', rep_id rep), (''declared'', rep_chain rep)]] else [])
       (s_representations (x_state ctx))))"

section \<open>Economic bounds\<close>

definition checkNotionalConsistency :: "check_context \<Rightarrow> found_violation list" where
  "checkNotionalConsistency ctx =
    (let c = x_candidate ctx in
     case notionalBounds (c_quantity c) (c_executionPrice c) (unit (c_notional c)) (decimals (c_notional c)) of
       Inl e \<Rightarrow> [violation e [(''check'', ''notional-consistency'')]]
     | Inr b \<Rightarrow>
         if atoms (c_notional c) < floorAtoms b \<or> atoms (c_notional c) > ceilAtoms b
         then [violation NOTIONAL_INCONSISTENT [(''declared'', int_str (atoms (c_notional c))),
                 (''floor'', int_str (floorAtoms b)), (''ceil'', int_str (ceilAtoms b))]]
         else [])"

definition checkMaxNotional :: "check_context \<Rightarrow> found_violation list" where
  "checkMaxNotional ctx =
    (let c = x_candidate ctx; mx = m_maxNotional (x_mandate ctx) in
     case compareAmounts (c_notional c) mx of
       Inl e \<Rightarrow> [violation e [(''check'', ''max-notional'')]]
     | Inr cmp \<Rightarrow>
         if cmp > 0
         then [violation MAX_NOTIONAL_EXCEEDED [(''declared'', int_str (atoms (c_notional c))),
                 (''maximum'', int_str (atoms mx))]]
         else
           let product = notionalBounds (c_quantity c) (c_executionPrice c) (unit mx) (decimals mx);
               exceeded = (\<lambda>rendered. [violation MAX_NOTIONAL_EXCEEDED [
                 (''basis'', ''quantity-times-execution-price''), (''productCeil'', rendered),
                 (''maximum'', int_str (atoms mx)), (''maximumDecimals'', int_str (decimals mx))]])
           in case product of
                Inl e \<Rightarrow>
                  if e \<noteq> VALUE_OUT_OF_RANGE then [violation e [(''check'', ''max-notional'')]]
                  else exceeded ''beyond-uint256''
              | Inr b \<Rightarrow> if ceilAtoms b > atoms mx then exceeded (int_str (ceilAtoms b)) else [])"

definition checkEconomicLimit :: "check_context \<Rightarrow> found_violation list" where
  "checkEconomicLimit ctx =
    (let c = x_candidate ctx; limit = m_economicLimit (x_mandate ctx) in
     if economicLimitKind (m_side (x_mandate ctx)) = MAX_TOTAL_DEBIT then
       (case addAmounts (c_notional c) (c_feeTotal c) of
          Inl e \<Rightarrow> [violation e [(''check'', ''economic-limit''), (''kind'', ''MAX_TOTAL_DEBIT'')]]
        | Inr debit \<Rightarrow> (case compareAmounts debit limit of
            Inl e \<Rightarrow> [violation e [(''check'', ''economic-limit'')]]
          | Inr cmp \<Rightarrow>
              if cmp > 0
              then [violation TOTAL_DEBIT_EXCEEDED [(''declared'', int_str (atoms debit)),
                     (''decimals'', int_str (decimals debit)), (''maximum'', int_str (atoms limit)),
                     (''maximumDecimals'', int_str (decimals limit))]]
              else []))
     else
       (case compareAmounts (c_feeTotal c) (c_notional c) of
          Inl e \<Rightarrow> [violation e [(''check'', ''economic-limit'')]]
        | Inr fees \<Rightarrow>
            if fees \<ge> 0
            then [violation FEES_EXCEED_NOTIONAL [(''fees'', int_str (atoms (c_feeTotal c))),
                   (''notional'', int_str (atoms (c_notional c)))]]
            else case subtractAmounts (c_notional c) (c_feeTotal c) of
              Inl e \<Rightarrow> [violation e [(''check'', ''economic-limit''), (''kind'', ''MIN_TOTAL_CREDIT'')]]
            | Inr credit \<Rightarrow> (case compareAmounts credit limit of
                Inl e \<Rightarrow> [violation e [(''check'', ''economic-limit'')]]
              | Inr cmp \<Rightarrow>
                  if cmp < 0
                  then [violation TOTAL_CREDIT_BELOW_MINIMUM [(''declared'', int_str (atoms credit)),
                         (''decimals'', int_str (decimals credit)), (''minimum'', int_str (atoms limit)),
                         (''minimumDecimals'', int_str (decimals limit))]]
                  else [])))"

definition checkPriceDeviation :: "check_context \<Rightarrow> found_violation list" where
  "checkPriceDeviation ctx = (case s_market (x_state ctx) of
     None \<Rightarrow> [violation TRUSTED_STATE_MISSING [(''input'', ''market'')]]
   | Some market \<Rightarrow>
       if \<not> canonicalAssetIdEquals (market_asset (value_of market)) (m_canonicalAsset (x_mandate ctx))
       then [violation MARKET_STATE_UNKNOWN [(''reason'', ''market-state-is-for-a-different-asset'')]]
       else case referencePrice (value_of market) of
         None \<Rightarrow> [violation MARKET_STATE_UNKNOWN [(''field'', ''referencePrice'')]]
       | Some reference \<Rightarrow> (case deviationBps (c_executionPrice (x_candidate ctx)) reference of
           Inl e \<Rightarrow> [violation e [(''check'', ''price-deviation'')]]
         | Inr bps \<Rightarrow>
             if bps > m_maxDeviationBps (x_mandate ctx)
             then [violation PRICE_DEVIATION_EXCEEDED [(''observedBps'', int_str bps),
                    (''maximumBps'', int_str (m_maxDeviationBps (x_mandate ctx)))]]
             else []))"

section \<open>Market and corporate-action state\<close>

definition checkPriceFreshness :: "check_context \<Rightarrow> found_violation list" where
  "checkPriceFreshness ctx = (case s_market (x_state ctx) of
     None \<Rightarrow> [violation TRUSTED_STATE_MISSING [(''input'', ''market'')]]
   | Some market \<Rightarrow>
       let age = x_now ctx - observedAt (prov market) in
       if age < 0
       then [violation MARKET_STATE_UNKNOWN [(''reason'', ''observation-is-in-the-future''), (''ageSeconds'', int_str age)]]
       else if age > m_maxPriceAgeSeconds (x_mandate ctx)
       then [violation PRICE_STATE_STALE [(''ageSeconds'', int_str age),
              (''maximumSeconds'', int_str (m_maxPriceAgeSeconds (x_mandate ctx)))]]
       else [])"

definition checkHalt :: "check_context \<Rightarrow> found_violation list" where
  "checkHalt ctx = (case s_market (x_state ctx) of
     None \<Rightarrow> [violation TRUSTED_STATE_MISSING [(''input'', ''market'')]]
   | Some market \<Rightarrow>
       if haltStatus (value_of market) = HALT_UNKNOWN
       then [violation MARKET_STATE_UNKNOWN [(''field'', ''haltStatus'')]]
       else if haltStatus (value_of market) = HALTED \<and> m_haltPolicy (x_mandate ctx) = FORBID_WHEN_HALTED
       then [violation TRADING_HALTED []]
       else [])"

definition checkCorporateAction :: "check_context \<Rightarrow> found_violation list" where
  "checkCorporateAction ctx = (case s_corporateAction (x_state ctx) of
     None \<Rightarrow> [violation TRUSTED_STATE_MISSING [(''input'', ''corporateAction'')]]
   | Some ca \<Rightarrow>
       if \<not> canonicalAssetIdEquals (ca_asset (value_of ca)) (m_canonicalAsset (x_mandate ctx))
       then [violation CORPORATE_ACTION_STATE_UNKNOWN [(''reason'', ''state-is-for-a-different-asset'')]]
       else
         let m = x_mandate ctx;
             age = x_now ctx - observedAt (prov ca);
             stale =
               (if age < 0
                then [violation CORPORATE_ACTION_STATE_UNKNOWN [(''reason'', ''observation-is-in-the-future'')]]
                else if age > m_maxCorporateActionAgeSeconds m
                then [violation CORPORATE_ACTION_STATE_STALE [(''ageSeconds'', int_str age),
                       (''maximumSeconds'', int_str (m_maxCorporateActionAgeSeconds m))]]
                else []);
             required = m_requiredCorporateActionEpoch m
         in case ca_epoch (value_of ca) of
              None \<Rightarrow> stale @ [violation CORPORATE_ACTION_STATE_UNKNOWN [(''field'', ''epoch'')]]
            | Some observed \<Rightarrow>
                stale @
                (if observed > required
                 then [violation CORPORATE_ACTION_STATE_CHANGED [(''authorized'', int_str required), (''observed'', int_str observed)]]
                 else if observed < required
                 then [violation CORPORATE_ACTION_STATE_INCONSISTENT [(''authorized'', int_str required), (''observed'', int_str observed)]]
                 else []) @
                (if c_corporateActionEpoch (x_candidate ctx) \<noteq> observed
                 then [violation CANDIDATE_STATE_MISMATCH [(''field'', ''corporateActionEpoch''),
                        (''observed'', int_str observed),
                        (''candidate'', int_str (c_corporateActionEpoch (x_candidate ctx)))]]
                 else []))"

section \<open>Structural binding and trust\<close>

definition checkRegistrySnapshotBinding :: "check_context \<Rightarrow> found_violation list" where
  "checkRegistrySnapshotBinding ctx = (case s_registrySnapshotDigest (x_state ctx) of
     None \<Rightarrow> [violation REGISTRY_SNAPSHOT_UNKNOWN [(''candidate'', c_registrySnapshotDigest (x_candidate ctx))]]
   | Some declared \<Rightarrow>
       if declared \<noteq> c_registrySnapshotDigest (x_candidate ctx)
       then [violation REGISTRY_SNAPSHOT_MISMATCH [(''observed'', declared),
              (''candidate'', c_registrySnapshotDigest (x_candidate ctx))]]
       else [])"

fun trust_class_text :: "trust_class \<Rightarrow> string" where
  "trust_class_text (INHERITED s) = s"
| "trust_class_text c = trust_class_name c"

definition untrusted :: "string \<Rightarrow> provenance \<Rightarrow> found_violation list" where
  "untrusted name p =
    (if \<not> isTrustedForAuthorization (trustClass p)
     then [violation UNTRUSTED_REQUIRED_STATE [(''input'', name), (''trustClass'', trust_class_text (trustClass p))]]
     else [])"

definition checkTrustLevels :: "check_context \<Rightarrow> found_violation list" where
  "checkTrustLevels ctx =
    (let s = x_state ctx;
         inputs = [(''market'', map_option prov (s_market s)),
                   (''corporateAction'', map_option prov (s_corporateAction s)),
                   (''replay'', map_option prov (s_replay s))] @
                  map (\<lambda>o'. (''representation:'' @ rep_id (value_of o'), Some (prov o'))) (s_representations s)
     in concat (map (\<lambda>(name, input). case input of None \<Rightarrow> [] | Some p \<Rightarrow> untrusted name p) inputs))"

definition pure_check :: "string \<Rightarrow> (check_context \<Rightarrow> found_violation list) \<Rightarrow> check" where
  "pure_check name f = \<lparr>check_name = name, run = (\<lambda>ctx. Some (f ctx))\<rparr>"

definition CHECKS :: "(u8 list \<Rightarrow> u8 list) \<Rightarrow> recovery \<Rightarrow> int \<Rightarrow> check list" where
  "CHECKS keccak recover n = [
     \<lparr>check_name = ''signature'', run = checkSignature keccak recover n\<rparr>,
     pure_check ''agent'' checkAgent,
     pure_check ''validity-window'' checkValidityWindow,
     pure_check ''replay'' checkReplay,
     pure_check ''canonical-asset'' checkCanonicalAsset,
     pure_check ''chain'' checkChain,
     pure_check ''venue'' checkVenue,
     pure_check ''side'' checkSide,
     pure_check ''representation'' checkRepresentation,
     pure_check ''representation-chain'' checkRepresentationChain,
     pure_check ''notional-consistency'' checkNotionalConsistency,
     pure_check ''max-notional'' checkMaxNotional,
     pure_check ''economic-limit'' checkEconomicLimit,
     pure_check ''price-deviation'' checkPriceDeviation,
     pure_check ''price-freshness'' checkPriceFreshness,
     pure_check ''halt'' checkHalt,
     pure_check ''corporate-action'' checkCorporateAction,
     pure_check ''registry-snapshot-binding'' checkRegistrySnapshotBinding,
     pure_check ''trust-levels'' checkTrustLevels]"

end
