(* ===== verification/Admissible.thy ===== *)
theory Admissible
  imports Checks
begin

text \<open>
  What each check means. Every check is shown to report nothing exactly when a predicate over the parsed
  values holds; the economic checks are stated over the rational numbers the amounts and prices denote,
  so the integer arithmetic of \<open>units.ts\<close> is gone from them. \<open>admissible\<close> collects the predicates: it is
  the specification the verifier is proved against.
\<close>

section \<open>The specification\<close>

definition product_val :: "candidate \<Rightarrow> rat" where
  "product_val c = amount_val (c_quantity c) * price_val (c_executionPrice c)"

text \<open>Quantity and execution price are in the units the product is then measured in.\<close>

definition product_units :: "candidate \<Rightarrow> string \<Rightarrow> bool" where
  "product_units c u \<longleftrightarrow> denominatorUnit (c_executionPrice c) = unit (c_quantity c)
     \<and> numeratorUnit (c_executionPrice c) = u"

definition notional_declared :: "candidate \<Rightarrow> bool" where
  "notional_declared c \<longleftrightarrow> product_units c (unit (c_notional c)) \<and>
     (let x = product_val c * of_int (pow10 (decimals (c_notional c)))
      in \<lfloor>x\<rfloor> \<le> atoms (c_notional c) \<and> atoms (c_notional c) \<le> \<lceil>x\<rceil> \<and> \<lceil>x\<rceil> \<le> UINT256_MAX)"

definition within_max_notional :: "mandate \<Rightarrow> candidate \<Rightarrow> bool" where
  "within_max_notional m c \<longleftrightarrow> product_units c (unit (m_maxNotional m))
     \<and> unit (c_notional c) = unit (m_maxNotional m)
     \<and> amount_val (c_notional c) \<le> amount_val (m_maxNotional m)
     \<and> product_val c \<le> amount_val (m_maxNotional m)"

text \<open>The sum of notional and fee, at the finer of the two scales, is a \<open>uint256\<close>.\<close>

definition debit_representable :: "candidate \<Rightarrow> bool" where
  "debit_representable c \<longleftrightarrow>
     (amount_val (c_notional c) + amount_val (c_feeTotal c)) *
       of_int (pow10 (max (decimals (c_notional c)) (decimals (c_feeTotal c)))) \<le> of_int UINT256_MAX"

definition within_economic_limit :: "mandate \<Rightarrow> candidate \<Rightarrow> bool" where
  "within_economic_limit m c \<longleftrightarrow>
     unit (c_notional c) = unit (c_feeTotal c) \<and> unit (c_notional c) = unit (m_economicLimit m) \<and>
     (case m_side m of
        BUY \<Rightarrow> debit_representable c
          \<and> amount_val (c_notional c) + amount_val (c_feeTotal c) \<le> amount_val (m_economicLimit m)
      | SELL \<Rightarrow> amount_val (c_feeTotal c) < amount_val (c_notional c)
          \<and> amount_val (m_economicLimit m) \<le> amount_val (c_notional c) - amount_val (c_feeTotal c))"

definition within_deviation :: "mandate \<Rightarrow> candidate \<Rightarrow> price \<Rightarrow> bool" where
  "within_deviation m c r \<longleftrightarrow>
     numeratorUnit (c_executionPrice c) = numeratorUnit r \<and> denominatorUnit (c_executionPrice c) = denominatorUnit r
     \<and> 0 < price_val r
     \<and> \<bar>price_val (c_executionPrice c) - price_val r\<bar> * 10000 \<le> of_int (m_maxDeviationBps m) * price_val r"

definition market_admissible :: "mandate \<Rightarrow> candidate \<Rightarrow> int \<Rightarrow> market_state observed \<Rightarrow> bool" where
  "market_admissible m c now k \<longleftrightarrow>
     market_asset (value_of k) = m_canonicalAsset m
     \<and> (\<exists>r. referencePrice (value_of k) = Some r \<and> within_deviation m c r)
     \<and> observedAt (prov k) \<le> now \<and> now - observedAt (prov k) \<le> m_maxPriceAgeSeconds m
     \<and> haltStatus (value_of k) \<noteq> HALT_UNKNOWN
     \<and> (haltStatus (value_of k) = HALTED \<longrightarrow> m_haltPolicy m = ALLOW_WHEN_HALTED)"

definition corporate_action_admissible :: "mandate \<Rightarrow> candidate \<Rightarrow> int \<Rightarrow> corporate_action_state observed \<Rightarrow> bool" where
  "corporate_action_admissible m c now k \<longleftrightarrow>
     ca_asset (value_of k) = m_canonicalAsset m
     \<and> ca_epoch (value_of k) = Some (m_requiredCorporateActionEpoch m)
     \<and> c_corporateActionEpoch c = m_requiredCorporateActionEpoch m
     \<and> observedAt (prov k) \<le> now \<and> now - observedAt (prov k) \<le> m_maxCorporateActionAgeSeconds m"

definition representation_admissible :: "mandate \<Rightarrow> candidate \<Rightarrow> representation_state \<Rightarrow> bool" where
  "representation_admissible m c r \<longleftrightarrow>
     rep_asset r = m_canonicalAsset m \<and> rep_issuer r = c_issuer c \<and> rep_chain r = c_chain c
     \<and> rep_issuer r \<in> set (m_allowedIssuers m)
     \<and> (synthetic r = NO \<or> (synthetic r = YES \<and> m_syntheticPolicy m = ALLOWED))
     \<and> operationalState r = ACTIVE"

definition chain_consistent :: "string \<Rightarrow> string \<Rightarrow> bool" where
  "chain_consistent rid chain \<longleftrightarrow> chain \<noteq> [] \<and> CHR ''/'' \<notin> set chain
     \<and> (\<exists>l. rid = chain @ CHR ''/'' # l \<and> CHR ''/'' \<notin> set l)"

definition signed_by_principal ::
    "(u8 list \<Rightarrow> u8 list) \<Rightarrow> recovery \<Rightarrow> int \<Rightarrow> check_context \<Rightarrow> bool" where
  "signed_by_principal keccak recover n ctx \<longleftrightarrow>
     verifyAuthorization keccak recover n (x_authorization ctx) (x_mandateDigest ctx) (x_expectedDomain ctx)
       = Some (Inr (m_principal (x_mandate ctx)))"

definition admissible ::
    "(u8 list \<Rightarrow> u8 list) \<Rightarrow> recovery \<Rightarrow> int \<Rightarrow> check_context \<Rightarrow> bool" where
  "admissible keccak recover n ctx \<longleftrightarrow>
     (let m = x_mandate ctx; c = x_candidate ctx; s = x_state ctx; now = x_now ctx in
      signed_by_principal keccak recover n ctx
      \<and> c_agent c = m_agent m
      \<and> m_notBeforeUnixSeconds m \<le> now \<and> now < m_expiresAtUnixSeconds m
      \<and> (\<exists>r. s_replay s = Some r \<and> rs_mandateDigest (value_of r) = x_mandateDigest ctx \<and> rs_status (value_of r) = UNUSED)
      \<and> c_canonicalAsset c = m_canonicalAsset m
      \<and> c_chain c \<in> set (m_allowedChains m) \<and> c_venue c \<in> set (m_allowedVenues m) \<and> c_side c = m_side m
      \<and> (\<exists>r. findRepresentation s (c_representationId c) = Some r \<and> representation_admissible m c (value_of r))
      \<and> chain_consistent (c_representationId c) (c_chain c)
      \<and> (\<forall>r \<in> set (s_representations s). chain_consistent (rep_id (value_of r)) (rep_chain (value_of r)))
      \<and> notional_declared c \<and> within_max_notional m c \<and> within_economic_limit m c
      \<and> (\<exists>k. s_market s = Some k \<and> market_admissible m c now k)
      \<and> (\<exists>k. s_corporateAction s = Some k \<and> corporate_action_admissible m c now k)
      \<and> s_registrySnapshotDigest s = Some (c_registrySnapshotDigest c))"

section \<open>The scope checks\<close>

lemma checkSignature_ok:
  "checkSignature keccak recover n ctx = Some [] \<longleftrightarrow> signed_by_principal keccak recover n ctx"
  by (auto simp: checkSignature_def signed_by_principal_def split: option.splits sum.splits)

lemma checkAgent_ok: "checkAgent ctx = [] \<longleftrightarrow> c_agent (x_candidate ctx) = m_agent (x_mandate ctx)"
  by (simp add: checkAgent_def)

lemma checkValidityWindow_ok:
  "checkValidityWindow ctx = [] \<longleftrightarrow>
     m_notBeforeUnixSeconds (x_mandate ctx) \<le> x_now ctx \<and> x_now ctx < m_expiresAtUnixSeconds (x_mandate ctx)"
  by (auto simp: checkValidityWindow_def Let_def)

lemma checkReplay_ok:
  "checkReplay ctx = [] \<longleftrightarrow> (\<exists>r. s_replay (x_state ctx) = Some r
     \<and> rs_mandateDigest (value_of r) = x_mandateDigest ctx \<and> rs_status (value_of r) = UNUSED)"
  by (auto simp: checkReplay_def split: option.splits replay_status.splits)

lemma checkCanonicalAsset_ok:
  "checkCanonicalAsset ctx = [] \<longleftrightarrow> c_canonicalAsset (x_candidate ctx) = m_canonicalAsset (x_mandate ctx)"
  by (simp add: checkCanonicalAsset_def)

lemma checkChain_ok: "checkChain ctx = [] \<longleftrightarrow> c_chain (x_candidate ctx) \<in> set (m_allowedChains (x_mandate ctx))"
  by (simp add: checkChain_def)

lemma checkVenue_ok: "checkVenue ctx = [] \<longleftrightarrow> c_venue (x_candidate ctx) \<in> set (m_allowedVenues (x_mandate ctx))"
  by (simp add: checkVenue_def)

lemma checkSide_ok: "checkSide ctx = [] \<longleftrightarrow> c_side (x_candidate ctx) = m_side (x_mandate ctx)"
  by (simp add: checkSide_def)

lemma checkRepresentation_ok:
  "checkRepresentation ctx = [] \<longleftrightarrow>
     (\<exists>r. findRepresentation (x_state ctx) (c_representationId (x_candidate ctx)) = Some r
        \<and> representation_admissible (x_mandate ctx) (x_candidate ctx) (value_of r))"
proof (cases "findRepresentation (x_state ctx) (c_representationId (x_candidate ctx))")
  case None
  then show ?thesis by (simp add: checkRepresentation_def)
next
  case (Some r)
  then show ?thesis
    by (cases "synthetic (value_of r)"; cases "m_syntheticPolicy (x_mandate ctx)")
      (auto simp: checkRepresentation_def representation_admissible_def Let_def)
qed

lemma chain_inconsistent_iff: "chain_inconsistent rid chain \<longleftrightarrow> \<not> chain_consistent rid chain"
  by (cases "chainSegmentOf rid")
    (auto simp: chain_inconsistent_def chain_consistent_def simp flip: chainSegmentOf_Some)

lemma checkRepresentationChain_ok:
  "checkRepresentationChain ctx = [] \<longleftrightarrow>
     chain_consistent (c_representationId (x_candidate ctx)) (c_chain (x_candidate ctx))
     \<and> (\<forall>r \<in> set (s_representations (x_state ctx)). chain_consistent (rep_id (value_of r)) (rep_chain (value_of r)))"
  by (auto simp: checkRepresentationChain_def Let_def chain_inconsistent_iff)

lemma checkRegistrySnapshotBinding_ok:
  "checkRegistrySnapshotBinding ctx = [] \<longleftrightarrow>
     s_registrySnapshotDigest (x_state ctx) = Some (c_registrySnapshotDigest (x_candidate ctx))"
  by (auto simp: checkRegistrySnapshotBinding_def split: option.splits)

lemma checkCorporateAction_ok:
  "checkCorporateAction ctx = [] \<longleftrightarrow>
     (\<exists>k. s_corporateAction (x_state ctx) = Some k
        \<and> corporate_action_admissible (x_mandate ctx) (x_candidate ctx) (x_now ctx) k)"
  by (auto simp: checkCorporateAction_def corporate_action_admissible_def Let_def split: option.splits if_splits)

text \<open>A parsed state holds no provenance the last check would refuse.\<close>

lemma checkTrustLevels_wf: "wf_state (x_state ctx) \<Longrightarrow> checkTrustLevels ctx = []"
  by (auto simp: checkTrustLevels_def untrusted_def wf_state_def wf_observed_def wf_provenance_def
      Let_def list_all_iff option.pred_set split: option.splits)

section \<open>The economic checks\<close>

lemma amount_val_le_iff: "x \<le> amount_val a \<longleftrightarrow> x * of_int (pow10 (decimals a)) \<le> of_int (atoms a)"
  by (simp add: amount_val_def pos_le_divide_eq)

lemma amount_val_nonneg: "wf_amount a \<Longrightarrow> 0 \<le> amount_val a"
  unfolding amount_val_def wf_amount_def by (intro divide_nonneg_pos) simp_all

lemma notionalBounds_cases:
  assumes "wf_amount q" "wf_price p" "0 \<le> d" "d \<le> MAX_DECIMALS"
  shows "notionalBounds q p u d =
    (if denominatorUnit p \<noteq> unit q \<or> numeratorUnit p \<noteq> u then Inl UNIT_MISMATCH
     else let x = amount_val q * price_val p * of_int (pow10 d)
          in if \<lceil>x\<rceil> > UINT256_MAX then Inl VALUE_OUT_OF_RANGE
             else Inr \<lparr>floorAtoms = \<lfloor>x\<rfloor>, ceilAtoms = \<lceil>x\<rceil>\<rparr>)"
proof -
  let ?n = "atoms q * p_atoms p * pow10 d" and ?m = "pow10 (decimals q + p_decimals p)"
  have n: "0 \<le> ?n" using assms(1,2) by (simp add: wf_amount_def wf_price_def less_imp_le)
  have r: "amount_val q * price_val p * of_int (pow10 d) = of_int ?n / of_int ?m"
    using assms(1,2) by (intro notional_ratio) (simp_all add: wf_amount_def wf_price_def)
  show ?thesis
    unfolding r Let_def floor_rat_div [OF pow10_pos] ceiling_rat_div [OF pow10_pos]
    unfolding notionalBounds_def Let_def using assms(3,4) n by simp
qed

lemma checkNotionalConsistency_ok:
  assumes "wf_candidate (x_candidate ctx)"
  shows "checkNotionalConsistency ctx = [] \<longleftrightarrow> notional_declared (x_candidate ctx)"
proof -
  let ?c = "x_candidate ctx"
  have "wf_amount (c_quantity ?c)" "wf_price (c_executionPrice ?c)" "wf_amount (c_notional ?c)"
    using assms by (simp_all add: wf_candidate_def)
  then have b: "notionalBounds (c_quantity ?c) (c_executionPrice ?c) (unit (c_notional ?c)) (decimals (c_notional ?c)) =
     (if \<not> product_units ?c (unit (c_notional ?c)) then Inl UNIT_MISMATCH
      else let x = product_val ?c * of_int (pow10 (decimals (c_notional ?c)))
           in if \<lceil>x\<rceil> > UINT256_MAX then Inl VALUE_OUT_OF_RANGE else Inr \<lparr>floorAtoms = \<lfloor>x\<rfloor>, ceilAtoms = \<lceil>x\<rceil>\<rparr>)"
    by (subst notionalBounds_cases) (auto simp: wf_amount_def product_units_def product_val_def)
  show ?thesis
    unfolding checkNotionalConsistency_def notional_declared_def Let_def b
    by (auto simp: not_less not_le)
qed

lemma compareAmounts_cases:
  "compareAmounts a b = (if unit a \<noteq> unit b then Inl UNIT_MISMATCH
     else Inr (if amount_val a < amount_val b then -1 else if amount_val b < amount_val a then 1 else 0))"
proof -
  have less: "amount_val x < amount_val y \<longleftrightarrow> atoms x * pow10 (decimals y) < atoms y * pow10 (decimals x)" for x y
    by (simp add: amount_val_def field_simps flip: of_int_mult)
  show ?thesis by (simp add: compareAmounts_def Let_def less)
qed

lemma checkMaxNotional_ok:
  assumes "wf_candidate (x_candidate ctx)" "wf_mandate (x_mandate ctx)"
  shows "checkMaxNotional ctx = [] \<longleftrightarrow> within_max_notional (x_mandate ctx) (x_candidate ctx)"
proof -
  let ?c = "x_candidate ctx" and ?mx = "m_maxNotional (x_mandate ctx)"
  let ?x = "product_val ?c * of_int (pow10 (decimals ?mx))"
  have wf: "wf_amount (c_quantity ?c)" "wf_price (c_executionPrice ?c)" "wf_amount ?mx"
    using assms by (simp_all add: wf_candidate_def wf_mandate_def)
  define y where "y = \<lceil>?x\<rceil>"
  have b: "notionalBounds (c_quantity ?c) (c_executionPrice ?c) (unit ?mx) (decimals ?mx) =
     (if \<not> product_units ?c (unit ?mx) then Inl UNIT_MISMATCH
      else if y > UINT256_MAX then Inl VALUE_OUT_OF_RANGE else Inr \<lparr>floorAtoms = \<lfloor>?x\<rfloor>, ceilAtoms = y\<rparr>)"
    unfolding y_def using wf
    by (subst notionalBounds_cases) (auto simp: wf_amount_def product_units_def product_val_def Let_def)
  have le: "product_val ?c \<le> amount_val ?mx \<longleftrightarrow> y \<le> atoms ?mx"
    by (simp add: amount_val_le_iff ceiling_le_iff y_def)
  have "atoms ?mx \<le> UINT256_MAX" using wf by (simp add: wf_amount_def)
  then show ?thesis
    unfolding checkMaxNotional_def within_max_notional_def Let_def b compareAmounts_cases le
    by (auto simp: not_less)
qed

lemma addAmounts_cases:
  assumes "wf_amount a" "wf_amount b"
  shows "unit a \<noteq> unit b \<Longrightarrow> addAmounts a b = Inl UNIT_MISMATCH"
    and "unit a = unit b \<Longrightarrow> addAmounts a b =
      (let d = max (decimals a) (decimals b); x = (amount_val a + amount_val b) * of_int (pow10 d)
       in if x > of_int UINT256_MAX then Inl VALUE_OUT_OF_RANGE
          else Inr \<lparr>unit = unit a, decimals = d, atoms = \<lfloor>x\<rfloor>\<rparr>)"
proof -
  show "unit a \<noteq> unit b \<Longrightarrow> addAmounts a b = Inl UNIT_MISMATCH" by (simp add: addAmounts_def)
  assume u: "unit a = unit b"
  define d where "d = max (decimals a) (decimals b)"
  have d: "(if decimals a > decimals b then decimals a else decimals b) = d" by (auto simp: d_def)
  have "of_int (atoms y * pow10 (d - decimals y)) = amount_val y * of_int (pow10 d)"
    if "y = a \<or> y = b" for y
    using scale_up [of y d] that assms by (auto simp: wf_amount_def d_def divide_eq_eq)
  then have x: "(amount_val a + amount_val b) * of_int (pow10 d) =
      of_int (atoms a * pow10 (d - decimals a) + atoms b * pow10 (d - decimals b))"
    by (simp add: distrib_right)
  show "addAmounts a b = (let d = max (decimals a) (decimals b); x = (amount_val a + amount_val b) * of_int (pow10 d)
       in if x > of_int UINT256_MAX then Inl VALUE_OUT_OF_RANGE
          else Inr \<lparr>unit = unit a, decimals = d, atoms = \<lfloor>x\<rfloor>\<rparr>)"
    unfolding Let_def d_def [symmetric] x of_int_less_iff floor_of_int
    using u by (simp add: addAmounts_def Let_def d)
qed

lemma subtractAmounts_total:
  assumes "wf_amount a" "wf_amount b" "unit a = unit b" "amount_val b \<le> amount_val a"
  shows "\<exists>c. subtractAmounts a b = Inr c"
proof -
  define d where "d = max (decimals a) (decimals b)"
  have d: "(if decimals a > decimals b then decimals a else decimals b) = d" by (auto simp: d_def)
  have x: "of_int (atoms y * pow10 (d - decimals y)) = amount_val y * of_int (pow10 d)"
    if "y = a \<or> y = b" for y
    using scale_up [of y d] that assms by (auto simp: wf_amount_def d_def divide_eq_eq)
  have "amount_val b * of_int (pow10 d) \<le> amount_val a * of_int (pow10 d)"
    using assms(4) by (simp add: mult_right_mono less_imp_le)
  then have "rat_of_int (atoms b * pow10 (d - decimals b)) \<le> rat_of_int (atoms a * pow10 (d - decimals a))"
    using x [of a] x [of b] by simp
  then have "atoms b * pow10 (d - decimals b) \<le> atoms a * pow10 (d - decimals a)"
    by (simp only: of_int_le_iff)
  then show ?thesis using assms(3) by (simp add: subtractAmounts_def Let_def d)
qed

lemma checkEconomicLimit_ok:
  assumes "wf_candidate (x_candidate ctx)" "wf_mandate (x_mandate ctx)"
  shows "checkEconomicLimit ctx = [] \<longleftrightarrow> within_economic_limit (x_mandate ctx) (x_candidate ctx)"
proof -
  let ?c = "x_candidate ctx" and ?m = "x_mandate ctx"
  let ?n = "c_notional ?c" and ?f = "c_feeTotal ?c" and ?l = "m_economicLimit (x_mandate ctx)"
  have wf: "wf_amount ?n" "wf_amount ?f" "0 \<le> decimals ?n" "0 \<le> decimals ?f"
    using assms by (simp_all add: wf_candidate_def wf_amount_def)
  show ?thesis
  proof (cases "m_side ?m")
    case BUY
    have add: "addAmounts ?n ?f = (if unit ?n \<noteq> unit ?f then Inl UNIT_MISMATCH
        else if \<not> debit_representable ?c then Inl VALUE_OUT_OF_RANGE
        else Inr \<lparr>unit = unit ?n, decimals = max (decimals ?n) (decimals ?f),
          atoms = \<lfloor>(amount_val ?n + amount_val ?f) * of_int (pow10 (max (decimals ?n) (decimals ?f)))\<rfloor>\<rparr>)"
      using addAmounts_cases [OF wf(1,2)] by (simp only: debit_representable_def Let_def not_le split: if_split) simp
    show ?thesis
    proof (cases "addAmounts ?n ?f")
      case (Inl e)
      then have "\<not> (unit ?n = unit ?f \<and> debit_representable ?c)" using add by (auto split: if_splits)
      with Inl BUY show ?thesis
        by (auto simp: checkEconomicLimit_def within_economic_limit_def economicLimitKind_def Let_def)
    next
      case (Inr debit)
      then have "unit ?n = unit ?f" "debit_representable ?c" using add by (auto split: if_splits)
      moreover note addAmounts_val [OF Inr wf(3,4)]
      ultimately show ?thesis using BUY Inr
        by (auto simp: checkEconomicLimit_def within_economic_limit_def economicLimitKind_def Let_def compareAmounts_cases)
    qed
  next
    case SELL
    show ?thesis
    proof (cases "unit ?n = unit ?f \<and> amount_val ?f < amount_val ?n")
      case False
      with SELL show ?thesis
        by (auto simp: checkEconomicLimit_def within_economic_limit_def economicLimitKind_def Let_def compareAmounts_cases)
    next
      case True
      obtain credit where credit: "subtractAmounts ?n ?f = Inr credit"
        using subtractAmounts_total [OF wf(1,2)] True by auto
      note subtractAmounts_val [OF credit wf(3,4)]
      with SELL True credit show ?thesis
        by (auto simp: checkEconomicLimit_def within_economic_limit_def economicLimitKind_def Let_def compareAmounts_cases)
    qed
  qed
qed

section \<open>The market checks\<close>

lemma price_val_pos_iff: "0 < price_val r \<longleftrightarrow> 0 < p_atoms r"
  by (simp add: price_val_def zero_less_divide_iff pow10_not_neg)

lemma deviationBps_cases:
  "deviationBps e r =
    (if numeratorUnit e \<noteq> numeratorUnit r \<or> denominatorUnit e \<noteq> denominatorUnit r then Inl UNIT_MISMATCH
     else if \<not> 0 < price_val r then Inl MARKET_STATE_UNKNOWN
     else Inr \<lceil>\<bar>price_val e - price_val r\<bar> / price_val r * 10000\<rceil>)"
proof (cases "deviationBps e r")
  case (Inl c)
  then show ?thesis by (auto simp: deviationBps_def Let_def price_val_pos_iff split: if_splits)
next
  case (Inr b)
  then have "numeratorUnit e = numeratorUnit r" "denominatorUnit e = denominatorUnit r"
    by (auto simp: deviationBps_def split: if_splits)
  with Inr deviationBps_val [OF Inr] show ?thesis by simp
qed

lemma deviation_bound:
  "0 < price_val r \<Longrightarrow> \<lceil>\<bar>price_val e - price_val r\<bar> / price_val r * 10000\<rceil> \<le> k \<longleftrightarrow>
     \<bar>price_val e - price_val r\<bar> * 10000 \<le> of_int k * price_val r"
  by (simp add: ceiling_le_iff pos_divide_le_eq)

lemma checkPriceDeviation_ok:
  "checkPriceDeviation ctx = [] \<longleftrightarrow> (\<exists>k r. s_market (x_state ctx) = Some k
     \<and> market_asset (value_of k) = m_canonicalAsset (x_mandate ctx)
     \<and> referencePrice (value_of k) = Some r \<and> within_deviation (x_mandate ctx) (x_candidate ctx) r)"
proof (cases "s_market (x_state ctx)")
  case None
  then show ?thesis by (simp add: checkPriceDeviation_def)
next
  case (Some k)
  show ?thesis
  proof (cases "referencePrice (value_of k)")
    case None
    with Some show ?thesis by (simp add: checkPriceDeviation_def)
  next
    case (Some r)
    with \<open>s_market (x_state ctx) = Some k\<close> show ?thesis
      by (auto simp: checkPriceDeviation_def deviationBps_cases within_deviation_def not_less
          simp flip: deviation_bound)
  qed
qed

lemma market_checks_ok:
  "checkPriceDeviation ctx = [] \<and> checkPriceFreshness ctx = [] \<and> checkHalt ctx = [] \<longleftrightarrow>
     (\<exists>k. s_market (x_state ctx) = Some k
        \<and> market_admissible (x_mandate ctx) (x_candidate ctx) (x_now ctx) k)"
proof -
  have halt: "h \<noteq> FORBID_WHEN_HALTED \<longleftrightarrow> h = ALLOW_WHEN_HALTED" for h by (cases h) simp_all
  show ?thesis
    unfolding checkPriceDeviation_ok
    by (auto simp: checkPriceFreshness_def checkHalt_def market_admissible_def Let_def halt not_less
        split: option.splits)
qed

section \<open>All checks together\<close>

text \<open>
  On parsed inputs the nineteen checks together report nothing exactly when the specification holds.
\<close>

definition wf_context :: "check_context \<Rightarrow> bool" where
  "wf_context ctx \<longleftrightarrow> wf_mandate (x_mandate ctx) \<and> wf_candidate (x_candidate ctx) \<and> wf_state (x_state ctx)"

lemma CHECKS_ok:
  assumes "wf_context ctx"
  shows "(\<forall>c \<in> set (CHECKS keccak recover n). run c ctx = Some []) \<longleftrightarrow> admissible keccak recover n ctx"
proof -
  have "(\<forall>c \<in> set (CHECKS keccak recover n). run c ctx = Some []) \<longleftrightarrow>
      checkSignature keccak recover n ctx = Some [] \<and> checkAgent ctx = [] \<and> checkValidityWindow ctx = []
      \<and> checkReplay ctx = [] \<and> checkCanonicalAsset ctx = [] \<and> checkChain ctx = [] \<and> checkVenue ctx = []
      \<and> checkSide ctx = [] \<and> checkRepresentation ctx = [] \<and> checkRepresentationChain ctx = []
      \<and> checkNotionalConsistency ctx = [] \<and> checkMaxNotional ctx = [] \<and> checkEconomicLimit ctx = []
      \<and> (checkPriceDeviation ctx = [] \<and> checkPriceFreshness ctx = [] \<and> checkHalt ctx = [])
      \<and> checkCorporateAction ctx = [] \<and> checkRegistrySnapshotBinding ctx = [] \<and> checkTrustLevels ctx = []"
    by (simp add: CHECKS_def pure_check_def)
  then show ?thesis
    using assms unfolding wf_context_def admissible_def Let_def
    by (simp add: checkSignature_ok checkAgent_ok checkValidityWindow_ok checkReplay_ok checkCanonicalAsset_ok
        checkChain_ok checkVenue_ok checkSide_ok checkRepresentation_ok checkRepresentationChain_ok
        checkNotionalConsistency_ok checkMaxNotional_ok checkEconomicLimit_ok market_checks_ok
        checkCorporateAction_ok checkRegistrySnapshotBinding_ok checkTrustLevels_wf)
qed

end
