(* ===== verification/Verify.thy ===== *)
theory Verify
  imports Admissible
begin

text \<open>
  Receipts (\<open>packages/kernel/src/receipt.ts\<close>) and the verifier (\<open>verifier/verify.ts\<close>). A result of
  \<^term>\<open>None\<close> is an exception that leaves the function. The request is the plain object a caller
  passes; its \<open>checks\<close> member, which holds functions, is a separate argument.
\<close>

section \<open>Receipts (receipt.ts)\<close>

definition VERIFIER_VERSION :: string where
  "VERIFIER_VERSION = ''mandate-kernel/2''"

datatype decision = PASS | REJECT

fun decision_name :: "decision \<Rightarrow> string" where
  "decision_name PASS = ''PASS''"
| "decision_name REJECT = ''REJECT''"

record digests =
  g_mandate :: "string option"
  g_candidate :: "string option"
  g_state :: "string option"
  g_evaluatedAt :: "int option"

record receipt_body =
  verifierVersion :: string
  b_digests :: digests
  decision_of :: decision
  reasonCodes :: "reason_code list"
  violations :: "found_violation list"

record receipt = receipt_body +
  receiptDigest :: string

definition sorted_keys :: "(string \<times> string) list \<Rightarrow> string list" where
  "sorted_keys d = js_sort compareStrings (map fst d)"

definition detail_get :: "(string \<times> string) list \<Rightarrow> string \<Rightarrow> string" where
  "detail_get d k = (case map_of d k of None \<Rightarrow> ''undefined'' | Some v \<Rightarrow> v)"

definition encode_violation :: "found_violation \<Rightarrow> u8 list option" where
  "encode_violation v =
    (let keys = sorted_keys (detail v)
     in wcat (wr_str (reason_name (code v)) # wr_u16 (int (length keys)) #
              concat (map (\<lambda>k. [wr_str k, wr_str (detail_get (detail v) k)]) keys)))"

definition encodeReceipt :: "('a receipt_body_scheme) \<Rightarrow> u8 list option" where
  "encodeReceipt r = wcat ([
     wr_tag RECEIPT_TAG,
     wr_u16 1,
     wr_str (verifierVersion r),
     wr_opt wr_hex32 (g_mandate (b_digests r)),
     wr_opt wr_hex32 (g_candidate (b_digests r)),
     wr_opt wr_hex32 (g_state (b_digests r)),
     wr_opt wr_i64 (g_evaluatedAt (b_digests r)),
     wr_str (decision_name (decision_of r)),
     wr_u16 (int (length (violations r)))] @
     map encode_violation (violations r))"

section \<open>The verifier (verify.ts)\<close>

fun join :: "string \<Rightarrow> string list \<Rightarrow> string" where
  "join sep [] = []"
| "join sep [x] = x"
| "join sep (x # xs) = x @ sep @ join sep xs"

definition violation_key :: "found_violation \<Rightarrow> string" where
  "violation_key v = reason_id (code v) @ [CHR 0x00] @
     join [CHR 0x00] (map (\<lambda>k. k @ ''='' @ detail_get (detail v) k) (sorted_keys (detail v)))"

text \<open>The \<open>Map\<close> the loop of \<open>canonicalize\<close> fills: its entries in insertion order, first one kept.\<close>

fun add_entries :: "(string \<times> found_violation) list \<Rightarrow> found_violation list \<Rightarrow> (string \<times> found_violation) list" where
  "add_entries seen [] = seen"
| "add_entries seen (v # vs) =
     add_entries (if violation_key v \<in> set (map fst seen) then seen else seen @ [(violation_key v, v)]) vs"

definition canonicalize :: "found_violation list \<Rightarrow> found_violation list" where
  "canonicalize vs = map snd (js_sort (\<lambda>a b. compareStrings (fst a) (fst b)) (add_entries [] vs))"

text \<open>\<open>[...new Set(xs)]\<close>: the first occurrence of each element.\<close>

definition dedupe :: "'a list \<Rightarrow> 'a list" where
  "dedupe xs = rev (remdups (rev xs))"

definition finish :: "(u8 list \<Rightarrow> u8 list) \<Rightarrow> digests \<Rightarrow> found_violation list \<Rightarrow> receipt option" where
  "finish keccak ds vs =
    (let canonical = canonicalize vs;
         body = \<lparr>verifierVersion = VERIFIER_VERSION, b_digests = ds,
           decision_of = (if length canonical = 0 then PASS else REJECT),
           reasonCodes = dedupe (map code canonical), violations = canonical\<rparr>
     in map_option (\<lambda>bytes. receipt_body.extend body (receipt.fields (keccak256 keccak bytes))) (encodeReceipt body))"

definition collect :: "'a result \<Rightarrow> string \<Rightarrow> found_violation list" where
  "collect r name = (case r of Inl e \<Rightarrow> [violation e [(''input'', name)]] | Inr _ \<Rightarrow> [])"

definition value_opt :: "'a result \<Rightarrow> 'a option" where
  "value_opt r = (case r of Inl _ \<Rightarrow> None | Inr x \<Rightarrow> Some x)"

text \<open>The digest of an input, and the violation when computing it threw.\<close>

definition digest_of :: "'a option \<Rightarrow> ('a \<Rightarrow> string option) \<Rightarrow> string \<Rightarrow> string option \<times> found_violation list" where
  "digest_of input f name = (case input of
     None \<Rightarrow> (None, [])
   | Some x \<Rightarrow> (case f x of
       None \<Rightarrow> (None, [violation VERIFIER_INTERNAL_ERROR [(''stage'', ''digest''), (''input'', name)]])
     | Some d \<Rightarrow> (Some d, [])))"

datatype checks_argument = Default_checks | Given_checks "check list" | Malformed_checks

definition run_checks :: "check list \<Rightarrow> check_context \<Rightarrow> found_violation list" where
  "run_checks cs ctx = concat (map (\<lambda>c. case run c ctx of
     None \<Rightarrow> [violation VERIFIER_INTERNAL_ERROR [(''check'', check_name c)]]
   | Some vs \<Rightarrow> vs) cs)"

definition verify ::
    "(u8 list \<Rightarrow> u8 list) \<Rightarrow> recovery \<Rightarrow> int \<Rightarrow> js \<Rightarrow> checks_argument \<Rightarrow> receipt option" where
  "verify keccak recover n request checks =
    (let r = (if is_plain_object request then request else JObj []);
         mandate = parseMandate (jget r ''mandate'');
         authorization = parseAuthorizationEnvelope (jget r ''authorization'');
         candidate = parseCandidate (jget r ''candidate'');
         state = parseTrustedState (jget r ''trustedState'');
         clock = parseClock (jget r ''clock'');
         expectedDomain = parseEip712Domain (jget r ''expectedDomain'');
         (md, mv) = digest_of (value_opt mandate) (mandateDigest keccak) ''mandate'';
         (cd, cv) = digest_of (value_opt candidate) (candidateDigest keccak) ''candidate'';
         (sd, sv) = digest_of (value_opt state) (trustedStateDigest keccak) ''trustedState'';
         parseViolations = collect mandate ''mandate'' @ collect authorization ''authorization'' @
           collect candidate ''candidate'' @ collect state ''trustedState'' @ collect clock ''clock'' @
           collect expectedDomain ''expectedDomain'' @ mv @ cv @ sv;
         ds = \<lparr>g_mandate = md, g_candidate = cd, g_state = sd, g_evaluatedAt = value_opt clock\<rparr>
     in case (mandate, authorization, candidate, state, clock, expectedDomain, md, sd) of
          (Inr m, Inr a, Inr c, Inr s, Inr now, Inr d, Some mdig, Some sdig) \<Rightarrow>
            (let ctx = \<lparr>x_mandate = m, x_authorization = a, x_candidate = c, x_state = s, x_now = now,
                   x_expectedDomain = d, x_mandateDigest = mdig, x_trustedStateDigest = sdig\<rparr>
             in case checks of
                  Malformed_checks \<Rightarrow> finish keccak ds (parseViolations @
                    [violation VERIFIER_INTERNAL_ERROR [(''stage'', ''checks''), (''input'', ''checks'')]])
                | Given_checks cs \<Rightarrow> finish keccak ds (parseViolations @ run_checks cs ctx)
                | Default_checks \<Rightarrow> finish keccak ds (parseViolations @ run_checks (CHECKS keccak recover n) ctx))
        | _ \<Rightarrow> finish keccak ds parseViolations)"

section \<open>Canonical violation lists\<close>

lemma map_insort_cmp:
  "map f (insort_cmp (\<lambda>a b. cmp (f a) (f b)) x xs) = insort_cmp cmp (f x) (map f xs)"
  by (induction xs) auto

lemma map_js_sort: "map f (js_sort (\<lambda>a b. cmp (f a) (f b)) xs) = js_sort cmp (map f xs)"
  by (induction xs) (simp_all add: map_insort_cmp)

lemma add_entries_keys:
  "set (map fst (add_entries seen vs)) = set (map fst seen) \<union> violation_key ` set vs"
  by (induction seen vs rule: add_entries.induct) auto

lemma add_entries_distinct: "distinct (map fst seen) \<Longrightarrow> distinct (map fst (add_entries seen vs))"
  by (induction seen vs rule: add_entries.induct) auto

lemma add_entries_sound:
  "(k, v) \<in> set (add_entries seen vs) \<Longrightarrow> (k, v) \<in> set seen \<or> (k = violation_key v \<and> v \<in> set vs)"
  by (induction seen vs rule: add_entries.induct) (auto split: if_splits)

lemma add_entries_length: "length (add_entries seen vs) \<le> length seen + length vs"
proof (induction vs arbitrary: seen)
  case (Cons v vs)
  show ?case using Cons [of seen] Cons [of "seen @ [(violation_key v, v)]"] by auto
qed simp

lemma canonicalize_subset: "set (canonicalize vs) \<subseteq> set vs"
  by (auto simp: canonicalize_def dest: add_entries_sound)

lemma canonicalize_keys:
  "map violation_key (canonicalize vs) = js_sort compareStrings (map fst (add_entries [] vs))"
proof -
  have "map violation_key (canonicalize vs) =
      map fst (js_sort (\<lambda>a b. compareStrings (fst a) (fst b)) (add_entries [] vs))"
    by (auto simp: canonicalize_def dest!: add_entries_sound)
  then show ?thesis by (simp add: map_js_sort)
qed

lemma canonicalize_key_set: "violation_key ` set (canonicalize vs) = violation_key ` set vs"
proof -
  have "violation_key ` set (canonicalize vs) = set (map violation_key (canonicalize vs))" by simp
  also have "\<dots> = set (map fst (add_entries [] vs))" unfolding canonicalize_keys by simp
  also have "\<dots> = violation_key ` set vs" unfolding add_entries_keys by simp
  finally show ?thesis .
qed

lemma canonicalize_keys_distinct: "distinct (map violation_key (canonicalize vs))"
  unfolding canonicalize_keys by (simp add: add_entries_distinct)

lemma canonicalize_keys_sorted:
  "sorted_wrt (\<lambda>a b. compareStrings a b \<le> 0) (map violation_key (canonicalize vs))"
  unfolding canonicalize_keys by (rule str_cmp.sorted_sort)

lemma canonicalize_Nil [simp]: "canonicalize vs = [] \<longleftrightarrow> vs = []"
  using canonicalize_key_set [of vs] by auto

lemma length_canonicalize: "length (canonicalize vs) \<le> length vs"
  using add_entries_length [of "[]" vs] by (simp add: canonicalize_def)

lemma length_canonicalize_card: "length (canonicalize vs) = card (violation_key ` set vs)"
  using distinct_card [OF canonicalize_keys_distinct [of vs]] canonicalize_key_set [of vs] by simp

text \<open>The canonical list depends on the set of keys alone, and so do its codes.\<close>

lemma canonicalize_keys_cong:
  "violation_key ` set vs = violation_key ` set ws \<Longrightarrow>
     map violation_key (canonicalize vs) = map violation_key (canonicalize ws)"
  by (rule str_cmp.sorted_unique)
    (simp_all add: canonicalize_keys_sorted canonicalize_keys_distinct canonicalize_key_set)

lemma reason_rows_plain:
  "list_all (\<lambda>row. CHR 0x00 \<notin> set (fst (snd row)) \<and> length (fst (snd (snd row))) \<le> 64) DEFINITIONS"
  by code_simp

lemma reason_plain: "CHR 0x00 \<notin> set (reason_id c) \<and> length (reason_name c) \<le> 64"
  using reason_row [of c] reason_rows_plain by (auto simp: list_all_iff reason_id_def reason_name_def)

lemma violation_key_code: "violation_key v = violation_key w \<Longrightarrow> code v = code w"
proof -
  assume e: "violation_key v = violation_key w"
  have "takeWhile (\<lambda>c. c \<noteq> CHR 0x00) (violation_key u) = reason_id (code u)" for u
  proof -
    have "\<forall>c \<in> set (reason_id (code u)). c \<noteq> CHR 0x00" using reason_plain by blast
    then show ?thesis unfolding violation_key_def by (subst takeWhile_append2) auto
  qed
  with e have "reason_id (code v) = reason_id (code w)" by metis
  then show ?thesis by simp
qed

lemma map_code_cong: "map violation_key vs = map violation_key ws \<Longrightarrow> map code vs = map code ws"
proof (induction vs arbitrary: ws)
  case (Cons v vs)
  from Cons.prems obtain w us where "ws = w # us" "violation_key v = violation_key w"
      "map violation_key vs = map violation_key us"
    by (cases ws) simp_all
  moreover from this(2) have "code v = code w" by (rule violation_key_code)
  moreover from Cons.IH calculation(3) have "map code vs = map code us" .
  ultimately show ?case by simp
qed simp

lemma canonicalize_cong:
  assumes "set vs = set ws" "inj_on violation_key (set vs)"
  shows "canonicalize vs = canonicalize ws"
proof (rule map_inj_on [where f = violation_key])
  show "map violation_key (canonicalize vs) = map violation_key (canonicalize ws)"
    using assms(1) by (intro canonicalize_keys_cong) simp
  show "inj_on violation_key (set (canonicalize vs) \<union> set (canonicalize ws))"
    using assms canonicalize_subset [of vs] canonicalize_subset [of ws] by (auto intro: inj_on_subset)
qed

section \<open>Receipts of a violation list\<close>

lemma finish_Some:
  "finish keccak ds vs = Some r \<Longrightarrow>
     violations r = canonicalize vs \<and> reasonCodes r = dedupe (map code (canonicalize vs)) \<and>
     (decision_of r = PASS \<longleftrightarrow> vs = []) \<and> b_digests r = ds \<and>
     (\<exists>b. encodeReceipt (receipt_body.truncate r) = Some b \<and> receiptDigest r = keccak256 keccak b)"
  by (cases "vs = []") (auto simp: finish_def Let_def receipt_body.defs receipt.defs)

lemma set_dedupe [simp]: "set (dedupe xs) = set xs" by (simp add: dedupe_def)

lemma distinct_dedupe [simp]: "distinct (dedupe xs)" by (simp add: dedupe_def)

end
