(* ===== verification/Verify_Correct.thy ===== *)
theory Verify_Correct
  imports Verify
begin

text \<open>
  The verifier as a whole: what a request that parses is, what \<open>verify\<close> does on it and on any other,
  when it passes, and why it returns at all. \<open>request_context\<close> is the context the checks run in.
\<close>

section \<open>Requests\<close>

definition request_context ::
    "(u8 list \<Rightarrow> u8 list) \<Rightarrow> js \<Rightarrow> check_context option" where
  "request_context keccak request =
     (if \<not> is_plain_object request then None else
      case (parseMandate (jget request ''mandate''), parseAuthorizationEnvelope (jget request ''authorization''),
            parseCandidate (jget request ''candidate''), parseTrustedState (jget request ''trustedState''),
            parseClock (jget request ''clock''), parseEip712Domain (jget request ''expectedDomain'')) of
        (Inr m, Inr a, Inr c, Inr s, Inr now, Inr d) \<Rightarrow>
          (case (mandateDigest keccak m, trustedStateDigest keccak s) of
             (Some md, Some sd) \<Rightarrow>
               Some \<lparr>x_mandate = m, x_authorization = a, x_candidate = c, x_state = s, x_now = now,
                 x_expectedDomain = d, x_mandateDigest = md, x_trustedStateDigest = sd\<rparr>
           | _ \<Rightarrow> None)
      | _ \<Rightarrow> None)"

lemma mandateDigest_total: "wf_mandate m \<Longrightarrow> \<exists>d. mandateDigest keccak m = Some d"
  using encodeMandate_total [of m] by (auto simp: mandateDigest_def)

lemma candidateDigest_total: "wf_candidate c \<Longrightarrow> \<exists>d. candidateDigest keccak c = Some d"
  using encodeCandidate_total [of c] by (auto simp: candidateDigest_def)

lemma trustedStateDigest_total: "wf_state s \<Longrightarrow> \<exists>d. trustedStateDigest keccak s = Some d"
  using encodeTrustedState_total [of s] by (auto simp: trustedStateDigest_def)

lemma digest_of_total:
  assumes "\<And>x. r = Inr x \<Longrightarrow> \<exists>d. f x = Some d"
  shows "digest_of (value_opt r) f name = (case r of Inl _ \<Rightarrow> None | Inr x \<Rightarrow> f x, [])"
  using assms by (cases r) (auto simp: digest_of_def value_opt_def split: option.splits)

text \<open>The digest stage never fails: every parsed value has an encoding.\<close>

lemma digest_stage:
  "digest_of (value_opt (parseMandate v)) (mandateDigest keccak) x
     = (case parseMandate v of Inl _ \<Rightarrow> None | Inr m \<Rightarrow> mandateDigest keccak m, [])"
  "digest_of (value_opt (parseCandidate v)) (candidateDigest keccak) x
     = (case parseCandidate v of Inl _ \<Rightarrow> None | Inr m \<Rightarrow> candidateDigest keccak m, [])"
  "digest_of (value_opt (parseTrustedState v)) (trustedStateDigest keccak) x
     = (case parseTrustedState v of Inl _ \<Rightarrow> None | Inr m \<Rightarrow> trustedStateDigest keccak m, [])"
  by (rule digest_of_total;
      blast intro: mandateDigest_total candidateDigest_total trustedStateDigest_total
        parseMandate_wf parseCandidate_wf parseTrustedState_wf)+

lemma request_context_wf:
  assumes "request_context keccak request = Some ctx"
  shows "wf_context ctx" "wf_envelope (x_authorization ctx)" "wf_domain (x_expectedDomain ctx)" "wf_time (x_now ctx)"
    "mandateDigest keccak (x_mandate ctx) = Some (x_mandateDigest ctx)"
  using assms
  by (auto simp: request_context_def wf_context_def split: if_splits sum.splits option.splits
      intro: parseMandate_wf parseCandidate_wf parseTrustedState_wf parseAuthorizationEnvelope_wf
        parseEip712Domain_wf parseClock_wf)

lemma parse_JUndef [simp]:
  "parseMandate JUndef = Inl MALFORMED_MANDATE"
  by (simp add: parseMandate_def)

definition request_digests :: "(u8 list \<Rightarrow> u8 list) \<Rightarrow> check_context \<Rightarrow> digests" where
  "request_digests keccak ctx = \<lparr>g_mandate = Some (x_mandateDigest ctx),
     g_candidate = candidateDigest keccak (x_candidate ctx), g_state = Some (x_trustedStateDigest ctx),
     g_evaluatedAt = Some (x_now ctx)\<rparr>"

text \<open>A request that parses is decided by the checks alone; any other is rejected for what did not parse.\<close>

lemma verify_parsed:
  assumes "request_context keccak request = Some ctx"
  shows "verify keccak recover n request Default_checks =
      finish keccak (request_digests keccak ctx) (run_checks (CHECKS keccak recover n) ctx)"
    and "verify keccak recover n request (Given_checks cs) =
      finish keccak (request_digests keccak ctx) (run_checks cs ctx)"
    and "verify keccak recover n request Malformed_checks = finish keccak (request_digests keccak ctx)
      [violation VERIFIER_INTERNAL_ERROR [(''stage'', ''checks''), (''input'', ''checks'')]]"
  using assms unfolding verify_def Let_def digest_stage prod.case
  by (auto simp: request_context_def collect_def value_opt_def request_digests_def
      split: if_splits sum.splits option.splits)

definition parse_failures :: "js \<Rightarrow> found_violation list" where
  "parse_failures r = collect (parseMandate (jget r ''mandate'')) ''mandate'' @
     collect (parseAuthorizationEnvelope (jget r ''authorization'')) ''authorization'' @
     collect (parseCandidate (jget r ''candidate'')) ''candidate'' @
     collect (parseTrustedState (jget r ''trustedState'')) ''trustedState'' @
     collect (parseClock (jget r ''clock'')) ''clock'' @
     collect (parseEip712Domain (jget r ''expectedDomain'')) ''expectedDomain''"

definition plain_request :: "js \<Rightarrow> js" where
  "plain_request request = (if is_plain_object request then request else JObj [])"

lemma collect_Nil: "collect r name = [] \<longleftrightarrow> isOk r"
  by (cases r) (simp_all add: collect_def)

lemma digest_None:
  "(case parseMandate v of Inl _ \<Rightarrow> None | Inr m \<Rightarrow> mandateDigest keccak m) = None \<longleftrightarrow> \<not> isOk (parseMandate v)"
  "(case parseTrustedState v of Inl _ \<Rightarrow> None | Inr s \<Rightarrow> trustedStateDigest keccak s) = None
     \<longleftrightarrow> \<not> isOk (parseTrustedState v)"
  using mandateDigest_total [OF parseMandate_wf] trustedStateDigest_total [OF parseTrustedState_wf]
  by (auto split: sum.splits)

lemma request_context_None:
  "request_context keccak request = None \<longleftrightarrow> parse_failures (plain_request request) \<noteq> []"
proof (cases "is_plain_object request")
  case True
  have "\<exists>d. mandateDigest keccak m = Some d" if "parseMandate v = Inr m" for v m
    using mandateDigest_total [OF parseMandate_wf [OF that]] .
  moreover have "\<exists>d. trustedStateDigest keccak m = Some d" if "parseTrustedState v = Inr m" for v m
    using trustedStateDigest_total [OF parseTrustedState_wf [OF that]] .
  ultimately show ?thesis using True
    by (fastforce simp: request_context_def parse_failures_def plain_request_def collect_def split: sum.splits option.splits)
next
  case False
  then show ?thesis by (simp add: request_context_def parse_failures_def plain_request_def collect_def)
qed

lemma verify_unparsed:
  assumes "request_context keccak request = None"
  obtains ds where "verify keccak recover n request checks = finish keccak ds (parse_failures (plain_request request))"
    "pred_option (\<lambda>m. \<exists>x. m = keccak256 keccak x) (g_mandate ds)"
    "pred_option (\<lambda>m. \<exists>x. m = keccak256 keccak x) (g_candidate ds)"
    "pred_option (\<lambda>m. \<exists>x. m = keccak256 keccak x) (g_state ds)" "pred_option wf_time (g_evaluatedAt ds)"
proof -
  define r where "r = plain_request request"
  define md where "md = (case parseMandate (jget r ''mandate'') of Inl _ \<Rightarrow> None | Inr m \<Rightarrow> mandateDigest keccak m)"
  define cd where "cd = (case parseCandidate (jget r ''candidate'') of Inl _ \<Rightarrow> None | Inr c \<Rightarrow> candidateDigest keccak c)"
  define sd where "sd = (case parseTrustedState (jget r ''trustedState'') of Inl _ \<Rightarrow> None | Inr s \<Rightarrow> trustedStateDigest keccak s)"
  define ds where "ds = \<lparr>g_mandate = md, g_candidate = cd, g_state = sd, g_evaluatedAt = value_opt (parseClock (jget r ''clock''))\<rparr>"
  have v: "verify keccak recover n request checks =
    (case (parseMandate (jget r ''mandate''), parseAuthorizationEnvelope (jget r ''authorization''),
           parseCandidate (jget r ''candidate''), parseTrustedState (jget r ''trustedState''),
           parseClock (jget r ''clock''), parseEip712Domain (jget r ''expectedDomain''), md, sd) of
          (Inr m, Inr a, Inr c, Inr s, Inr now, Inr d, Some mdig, Some sdig) \<Rightarrow>
            (let ctx = \<lparr>x_mandate = m, x_authorization = a, x_candidate = c, x_state = s, x_now = now,
                   x_expectedDomain = d, x_mandateDigest = mdig, x_trustedStateDigest = sdig\<rparr>
             in case checks of
                  Malformed_checks \<Rightarrow> finish keccak ds (parse_failures r @
                    [violation VERIFIER_INTERNAL_ERROR [(''stage'', ''checks''), (''input'', ''checks'')]])
                | Given_checks cs \<Rightarrow> finish keccak ds (parse_failures r @ run_checks cs ctx)
                | Default_checks \<Rightarrow> finish keccak ds (parse_failures r @ run_checks (CHECKS keccak recover n) ctx))
        | _ \<Rightarrow> finish keccak ds (parse_failures r))"
    unfolding verify_def Let_def digest_stage prod.case append_assoc append_Nil append_Nil2 parse_failures_def
      ds_def md_def cd_def sd_def r_def plain_request_def by (rule refl)
  have "\<not> (isOk (parseMandate (jget r ''mandate'')) \<and> isOk (parseAuthorizationEnvelope (jget r ''authorization''))
     \<and> isOk (parseCandidate (jget r ''candidate'')) \<and> isOk (parseTrustedState (jget r ''trustedState''))
     \<and> isOk (parseClock (jget r ''clock'')) \<and> isOk (parseEip712Domain (jget r ''expectedDomain'')))"
    using assms unfolding request_context_None r_def [symmetric] parse_failures_def by (simp add: collect_Nil)
  then have "verify keccak recover n request checks = finish keccak ds (parse_failures r)"
    unfolding v by (auto simp: isOk_iff split: sum.splits option.splits)
  moreover have "pred_option (\<lambda>m. \<exists>x. m = keccak256 keccak x) (g_mandate ds)"
      "pred_option (\<lambda>m. \<exists>x. m = keccak256 keccak x) (g_candidate ds)"
      "pred_option (\<lambda>m. \<exists>x. m = keccak256 keccak x) (g_state ds)"
    unfolding ds_def md_def cd_def sd_def mandateDigest_def candidateDigest_def trustedStateDigest_def
    by (auto simp: option.pred_set split: sum.splits)
  moreover have "pred_option wf_time (g_evaluatedAt ds)"
    unfolding ds_def value_opt_def by (auto split: sum.splits intro: parseClock_wf)
  ultimately show ?thesis using that by (simp add: r_def)
qed

section \<open>Verdicts\<close>

lemma run_checks_Nil: "run_checks cs ctx = [] \<longleftrightarrow> (\<forall>c \<in> set cs. run c ctx = Some [])"
  by (auto simp: run_checks_def split: option.splits)

lemma set_run_checks: "set (run_checks cs ctx) = (\<Union>c \<in> set cs. set (case run c ctx of
     None \<Rightarrow> [violation VERIFIER_INTERNAL_ERROR [(''check'', check_name c)]] | Some vs \<Rightarrow> vs))"
  by (simp add: run_checks_def)

lemma verify_pass_iff:
  assumes "verify keccak recover n request Default_checks = Some r"
  shows "decision_of r = PASS \<longleftrightarrow>
    (\<exists>ctx. request_context keccak request = Some ctx \<and> admissible keccak recover n ctx)"
proof (cases "request_context keccak request")
  case None
  obtain ds where "verify keccak recover n request Default_checks = finish keccak ds (parse_failures (plain_request request))"
    by (rule verify_unparsed [OF None])
  with assms None have "decision_of r \<noteq> PASS"
    using finish_Some request_context_None by fastforce
  with None show ?thesis by simp
next
  case (Some ctx)
  then have "finish keccak (request_digests keccak ctx) (run_checks (CHECKS keccak recover n) ctx) = Some r"
    using assms verify_parsed(1) by simp
  then have "decision_of r = PASS \<longleftrightarrow> run_checks (CHECKS keccak recover n) ctx = []"
    using finish_Some by blast
  also have "\<dots> \<longleftrightarrow> admissible keccak recover n ctx"
    using CHECKS_ok [OF request_context_wf(1) [OF Some]] by (simp add: run_checks_Nil)
  finally show ?thesis using Some by simp
qed

text \<open>The verdict, the reason codes and the violation keys depend on the set of checks alone.\<close>

lemma verify_order_independent:
  assumes "verify keccak recover n request (Given_checks cs) = Some r"
    and "verify keccak recover n request (Given_checks cs') = Some r'" and "set cs = set cs'"
  shows "decision_of r = decision_of r' \<and> reasonCodes r = reasonCodes r'
    \<and> map violation_key (violations r) = map violation_key (violations r')"
proof -
  obtain ds vs ds' vs' where f: "finish keccak ds vs = Some r" "finish keccak ds' vs' = Some r'" "set vs = set vs'"
  proof (cases "request_context keccak request")
    case None
    obtain ds where "verify keccak recover n request (Given_checks cs) = finish keccak ds (parse_failures (plain_request request))"
      by (rule verify_unparsed [OF None])
    moreover obtain ds' where "verify keccak recover n request (Given_checks cs') = finish keccak ds' (parse_failures (plain_request request))"
      by (rule verify_unparsed [OF None])
    ultimately show ?thesis using assms that by simp
  next
    case (Some ctx)
    moreover have "set (run_checks cs ctx) = set (run_checks cs' ctx)" using assms(3) by (simp add: set_run_checks)
    ultimately show ?thesis using assms(1,2) verify_parsed(2) that by simp
  qed
  then have k: "map violation_key (canonicalize vs) = map violation_key (canonicalize vs')"
    by (intro canonicalize_keys_cong) simp
  then have "canonicalize vs = [] \<longleftrightarrow> canonicalize vs' = []" by (metis map_is_Nil_conv)
  then have "decision_of r = PASS \<longleftrightarrow> decision_of r' = PASS"
    using finish_Some [OF f(1)] finish_Some [OF f(2)] by simp
  then have "decision_of r = decision_of r'" by (cases "decision_of r"; cases "decision_of r'") auto
  then show ?thesis
    using finish_Some [OF f(1)] finish_Some [OF f(2)] k map_code_cong [OF k] by simp
qed

text \<open>A rejection names every violated constraint: no violation any check reports is lost.\<close>

lemma verify_explains:
  assumes "verify keccak recover n request Default_checks = Some r"
    and "request_context keccak request = Some ctx"
    and "c \<in> set (CHECKS keccak recover n)" "run c ctx = Some vs" "v \<in> set vs"
  shows "\<exists>w \<in> set (violations r). violation_key w = violation_key v \<and> code w = code v \<and> code v \<in> set (reasonCodes r)"
proof -
  have f: "finish keccak (request_digests keccak ctx) (run_checks (CHECKS keccak recover n) ctx) = Some r"
    using assms(1) verify_parsed(1) [OF assms(2)] by simp
  have "v \<in> set (run_checks (CHECKS keccak recover n) ctx)"
    using assms(3-5) unfolding set_run_checks by force
  then have "violation_key v \<in> violation_key ` set (canonicalize (run_checks (CHECKS keccak recover n) ctx))"
    unfolding canonicalize_key_set by (rule imageI)
  then obtain w where w: "w \<in> set (violations r)" "violation_key v = violation_key w"
    using finish_Some [OF f] by auto
  moreover have "code v = code w" using w(2) by (rule violation_key_code)
  ultimately show ?thesis using finish_Some [OF f] by (intro bexI [of _ w]) simp_all
qed

end
