(* ===== verification/Totality.thy ===== *)
theory Totality
  imports Verify_Correct
begin

text \<open>
  When \<open>verify\<close> returns. The receipt encoder throws on a string of more than 1024 bytes and on more than
  65535 violations. No detail of any check is long, so the number of violations is all that matters: it is
  at most fifty more than the number of representations in the state, and a state may hold 65535 of them.
\<close>

section \<open>Encodable violations\<close>

definition encodable :: "found_violation \<Rightarrow> bool" where
  "encodable v \<longleftrightarrow> length (detail v) \<le> 8 \<and> list_all (\<lambda>(k, x). length k \<le> 1024 \<and> length x \<le> 1024) (detail v)"

lemma wcat_append_total: "\<exists>b. wcat ws = Some b \<Longrightarrow> \<exists>b. wcat vs = Some b \<Longrightarrow> \<exists>b. wcat (ws @ vs) = Some b"
  by (induction ws rule: wcat.induct) auto

lemma wr_str_total: "length s \<le> 1024 \<Longrightarrow> \<exists>b. wr_str s = Some b"
  using wr_str_None [of s] by (cases "wr_str s") auto

lemma detail_get_short:
  "list_all (\<lambda>(k, x). length k \<le> 1024 \<and> length x \<le> 1024) d \<Longrightarrow> length (detail_get d k) \<le> 1024"
  by (auto simp: detail_get_def list_all_iff split: option.splits dest: map_of_SomeD)

lemma encode_violation_total:
  assumes "encodable v"
  shows "\<exists>b. encode_violation v = Some b"
proof -
  let ?ks = "sorted_keys (detail v)"
  have k: "k \<in> set ?ks \<Longrightarrow> length k \<le> 1024" for k
    using assms by (auto simp: encodable_def sorted_keys_def list_all_iff)
  have "length ?ks \<le> 8" using assms by (simp add: encodable_def sorted_keys_def)
  then have "\<exists>b. wr_u16 (int (length ?ks)) = Some b" by (intro u16_c.total) simp
  moreover have "\<exists>b. wr_str (reason_name (code v)) = Some b"
    using reason_plain [of "code v"] by (intro wr_str_total) simp
  moreover have "\<exists>b. wr_str (detail_get (detail v) k) = Some b" for k
    using assms by (intro wr_str_total detail_get_short) (simp add: encodable_def)
  ultimately show ?thesis
    unfolding encode_violation_def Let_def using k wr_str_total
    by (intro wcat_total) (auto simp: list_all_iff)
qed

lemma encodeReceipt_total:
  assumes "list_all encodable (violations r)" "length (violations r) \<le> 65535"
    and "pred_option (hex_literal 64) (g_mandate (b_digests r))"
    and "pred_option (hex_literal 64) (g_candidate (b_digests r))"
    and "pred_option (hex_literal 64) (g_state (b_digests r))"
    and "pred_option wf_time (g_evaluatedAt (b_digests r))" "verifierVersion r = VERIFIER_VERSION"
  shows "\<exists>b. encodeReceipt r = Some b"
proof -
  have "\<exists>b. wr_opt wr_i64 (g_evaluatedAt (b_digests r)) = Some b"
    using wire_codec.total [OF opt_codec [OF i64_c.wire_codec_axioms]] assms(6) by blast
  moreover have "\<exists>b. wr_u16 (int (length (violations r))) = Some b"
    using assms(2) by (intro u16_c.total) simp
  moreover have "\<exists>b. wr_u16 1 = Some b" by (intro u16_c.total) simp
  moreover have "\<exists>b. wr_str (decision_name (decision_of r)) = Some b"
    by (cases "decision_of r") (simp_all add: wr_str_total)
  moreover have "\<exists>b. wr_str VERIFIER_VERSION = Some b" by (simp add: wr_str_total VERIFIER_VERSION_def)
  ultimately show ?thesis
    unfolding encodeReceipt_def
    using assms(1,3-5,7) opt_hex32_c.total encode_violation_total
    by (intro wcat_append_total wcat_total) (auto simp: list_all_iff)
qed

section \<open>Every check's details are short\<close>

text \<open>Integers of at most three hundred digits; every number a check prints is one.\<close>

definition small :: "int \<Rightarrow> bool" where
  "small i \<longleftrightarrow> \<bar>i\<bar> < 10 ^ 300"

lemma length_int_str: "small i \<Longrightarrow> length (int_str i) \<le> 1024"
proof -
  assume "small i"
  then have "nat \<bar>i\<bar> < 10 ^ 300" unfolding small_def by (simp add: nat_less_iff)
  then have "length (nat_str (nat \<bar>i\<bar>)) \<le> 300" by (rule length_nat_str) simp
  then show ?thesis by (auto simp: int_str_def split: if_splits)
qed

lemma small_range: "- (2 ^ 256) \<le> i \<Longrightarrow> i \<le> 2 ^ 256 \<Longrightarrow> small i"
  unfolding small_def by (simp add: abs_less_iff)

lemma small_amount [simp]: "wf_amount a \<Longrightarrow> small (atoms a)" "wf_amount a \<Longrightarrow> small (decimals a)"
  by (rule small_range; simp add: wf_amount_def MAX_DECIMALS_def)+

lemma small_time: "wf_time t \<Longrightarrow> small t"
  by (rule small_range) (simp_all add: wf_time_def)

lemma small_time_diff: "wf_time t \<Longrightarrow> wf_time u \<Longrightarrow> small (t - u)"
  by (rule small_range) (simp_all add: wf_time_def)

lemma small_uint64: "0 \<le> v \<Longrightarrow> v \<le> UINT64_MAX \<Longrightarrow> small v"
  by (rule small_range) simp_all

lemma small_uint32: "0 \<le> v \<Longrightarrow> v \<le> UINT32_MAX \<Longrightarrow> small v"
  by (rule small_range) simp_all

lemma small_uint16: "0 \<le> v \<Longrightarrow> v \<le> UINT16_MAX \<Longrightarrow> small v"
  by (rule small_range) simp_all

lemma encodable_violation [simp]:
  "encodable (violation c d) \<longleftrightarrow> length d \<le> 8 \<and> list_all (\<lambda>(k, x). length k \<le> 1024 \<and> length x \<le> 1024) d"
  by (simp add: encodable_def violation_def)

lemma short_ident [simp]: "valid_ident s \<Longrightarrow> length s \<le> 1024"
  by (rule valid_ident_1024)

lemma short_literal [simp]: "hex_literal 64 s \<Longrightarrow> length s \<le> 1024"
  by (simp add: hex_literal_def)

definition short_report :: "nat \<Rightarrow> found_violation list \<Rightarrow> bool" where
  "short_report k vs \<longleftrightarrow> length vs \<le> k \<and> list_all encodable vs"

lemma short_report_simps [simp]:
  "short_report k []"
  "short_report k (v # vs) \<longleftrightarrow> 0 < k \<and> encodable v \<and> short_report (k - 1) vs"
  by (auto simp: short_report_def)

lemma short_report_append: "short_report j vs \<Longrightarrow> short_report k ws \<Longrightarrow> short_report (j + k) (vs @ ws)"
  by (simp add: short_report_def)

lemma short_report_mono: "short_report j vs \<Longrightarrow> j \<le> k \<Longrightarrow> short_report k vs"
  by (simp add: short_report_def)

lemma short_report_concat:
  "(\<And>x. x \<in> set xs \<Longrightarrow> short_report 1 (f x)) \<Longrightarrow> short_report (length xs) (concat (map f xs))"
proof (induction xs)
  case (Cons x xs)
  then show ?case using short_report_append [of 1 "f x" "length xs" "concat (map f xs)"] by simp
qed simp

lemma pow10_le: "n \<le> MAX_DECIMALS \<Longrightarrow> pow10 n \<le> 10 ^ 38"
  unfolding pow10_def MAX_DECIMALS_def by (rule power_increasing) simp_all

lemma scaled_le:
  assumes "0 \<le> a" "a \<le> UINT256_MAX" "n \<le> MAX_DECIMALS"
  shows "0 \<le> a * pow10 n" "a * pow10 n \<le> UINT256_MAX * 10 ^ 38"
proof -
  show "0 \<le> a * pow10 n" using assms(1) by (simp add: less_imp_le)
  show "a * pow10 n \<le> UINT256_MAX * 10 ^ 38"
    using assms(2) pow10_le [OF assms(3)] by (rule mult_mono) (simp_all add: less_imp_le)
qed

lemma small_scaled: "0 \<le> i \<Longrightarrow> i \<le> UINT256_MAX * 10 ^ 38 * 10000 + 1 \<Longrightarrow> small i"
  by (simp add: small_def)

lemma economic_small:
  assumes "wf_amount a" "wf_amount b"
  shows "addAmounts a b = Inr c \<Longrightarrow> small (atoms c) \<and> small (decimals c)"
    and "subtractAmounts a b = Inr c \<Longrightarrow> small (atoms c) \<and> small (decimals c)"
proof -
  define d where "d = (if decimals a > decimals b then decimals a else decimals b)"
  have d: "0 \<le> d" "d \<le> MAX_DECIMALS" "d - decimals a \<le> MAX_DECIMALS" "d - decimals b \<le> MAX_DECIMALS"
    using assms by (auto simp: d_def wf_amount_def)
  have a: "0 \<le> atoms a" "atoms a \<le> UINT256_MAX" and b: "0 \<le> atoms b" "atoms b \<le> UINT256_MAX"
    using assms by (simp_all add: wf_amount_def)
  note sa = scaled_le [OF a d(3)] and sb = scaled_le [OF b d(4)]
  have sd: "small d" using d(1,2) by (intro small_range) (simp_all add: MAX_DECIMALS_def)
  show "small (atoms c) \<and> small (decimals c)" if "addAmounts a b = Inr c"
  proof -
    from that have c: "atoms c = atoms a * pow10 (d - decimals a) + atoms b * pow10 (d - decimals b)"
        "atoms c \<le> UINT256_MAX" "decimals c = d"
      by (auto simp: addAmounts_def d_def Let_def split: if_splits)
    with sa(1) sb(1) have "0 \<le> atoms c" by simp
    with c(2) have "small (atoms c)" by (intro small_scaled) simp_all
    with sd c(3) show ?thesis by simp
  qed
  show "small (atoms c) \<and> small (decimals c)" if "subtractAmounts a b = Inr c"
  proof -
    from that have c: "atoms c = atoms a * pow10 (d - decimals a) - atoms b * pow10 (d - decimals b)"
        "0 \<le> atoms c" "decimals c = d"
      by (auto simp: subtractAmounts_def d_def Let_def split: if_splits)
    with sa(2) sb(1) have "atoms c \<le> UINT256_MAX * 10 ^ 38" by linarith
    with c(2) have "small (atoms c)" by (intro small_scaled) simp_all
    with sd c(3) show ?thesis by simp
  qed
qed

lemma deviation_small:
  assumes "wf_price e" "wf_price r" "deviationBps e r = Inr b"
  shows "small b"
proof -
  let ?e = "p_atoms e * pow10 (p_decimals r)" and ?r = "p_atoms r * pow10 (p_decimals e)"
  define df where "df = (if ?e > ?r then ?e - ?r else ?r - ?e)"
  have p: "0 < p_atoms r" and b: "b = (if big_mod (df * 10000) ?r = 0 then big_div (df * 10000) ?r else big_div (df * 10000) ?r + 1)"
    using assms(3) by (auto simp: deviationBps_def Let_def df_def BPS_SCALE_def split: if_splits)
  have "0 \<le> ?e" "?e \<le> UINT256_MAX * 10 ^ 38"
    using scaled_le [of "p_atoms e" "p_decimals r"] assms(1,2) by (simp_all only: wf_price_def)
  moreover have "0 \<le> ?r" "?r \<le> UINT256_MAX * 10 ^ 38"
    using scaled_le [of "p_atoms r" "p_decimals e"] assms(1,2) by (simp_all only: wf_price_def)
  ultimately have df: "0 \<le> df * 10000" "df * 10000 \<le> UINT256_MAX * 10 ^ 38 * 10000"
    by (auto simp: df_def)
  have r: "0 < ?r" using p by simp
  have "big_div (df * 10000) ?r = df * 10000 div ?r" using df(1) r by (rule big_div_nonneg)
  moreover have "0 \<le> df * 10000 div ?r" using df(1) r by (simp add: pos_imp_zdiv_nonneg_iff)
  moreover have "df * 10000 div ?r \<le> df * 10000 div 1" using df(1) r by (intro zdiv_mono2) simp_all
  ultimately show ?thesis using df(2) unfolding b by (intro small_scaled) auto
qed

lemma notional_small:
  assumes "notionalBounds q p u d = Inr b" "wf_amount q" "wf_price p"
  shows "small (floorAtoms b) \<and> small (ceilAtoms b)"
proof -
  have "0 \<le> amount_val q * price_val p * of_int (pow10 d)"
    using assms(2,3) by (simp add: amount_val_nonneg price_val_def wf_price_def less_imp_le)
  then have "0 \<le> floorAtoms b" "floorAtoms b \<le> ceilAtoms b" "ceilAtoms b \<le> UINT256_MAX"
    using notionalBounds_val [OF assms] by (auto intro: floor_le_ceiling)
  then show ?thesis by (auto intro!: small_scaled)
qed

lemmas context_wf = wf_context_def wf_mandate_def wf_candidate_def wf_state_def wf_observed_def
  wf_party_def wf_asset_def

lemma short_scope_checks:
  assumes "wf_context ctx" "wf_time (x_now ctx)" "hex_literal 64 (x_mandateDigest ctx)"
  shows "short_report 2 (checkAgent ctx)" "short_report 2 (checkValidityWindow ctx)" "short_report 2 (checkReplay ctx)"
    "short_report 2 (checkCanonicalAsset ctx)" "short_report 2 (checkChain ctx)" "short_report 2 (checkVenue ctx)"
    "short_report 2 (checkSide ctx)" "short_report 2 (checkRegistrySnapshotBinding ctx)"
proof -
  note c = assms [unfolded context_wf]
  show "short_report 2 (checkAgent ctx)" using c by (simp add: checkAgent_def)
  show "short_report 2 (checkValidityWindow ctx)"
    using c by (auto simp: checkValidityWindow_def Let_def length_int_str small_time)
  show "short_report 2 (checkReplay ctx)"
    using c by (auto simp: checkReplay_def split: option.splits replay_status.splits)
  show "short_report 2 (checkCanonicalAsset ctx)" using c by (simp add: checkCanonicalAsset_def)
  show "short_report 2 (checkChain ctx)" using c by (simp add: checkChain_def)
  show "short_report 2 (checkVenue ctx)" using c by (simp add: checkVenue_def)
  show "short_report 2 (checkSide ctx)"
    by (cases "m_side (x_mandate ctx)"; cases "c_side (x_candidate ctx)") (simp_all add: checkSide_def)
  show "short_report 2 (checkRegistrySnapshotBinding ctx)"
    using c by (auto simp: checkRegistrySnapshotBinding_def option.pred_set split: option.splits)
qed

lemma findRepresentation_wf:
  "findRepresentation s rid = Some r \<Longrightarrow> wf_state s \<Longrightarrow> wf_representation (value_of r)"
  by (auto simp: wf_state_def wf_observed_def list_all_iff dest!: findRepresentation_Some)

lemma short_state_names [simp]:
  "length (operational_state_name op) \<le> 1024" "length (side_name sd) \<le> 1024"
  by (cases op; simp) (cases sd; simp)

lemma short_checkRepresentation:
  assumes "wf_context ctx"
  shows "short_report 6 (checkRepresentation ctx)"
proof (cases "findRepresentation (x_state ctx) (c_representationId (x_candidate ctx))")
  case None
  with assms show ?thesis by (simp add: checkRepresentation_def wf_context_def wf_candidate_def)
next
  case (Some r)
  have "wf_representation (value_of r)" using findRepresentation_wf [OF Some] assms by (simp add: wf_context_def)
  moreover have "wf_candidate (x_candidate ctx)" "wf_asset (m_canonicalAsset (x_mandate ctx))"
    using assms by (simp_all add: wf_context_def wf_mandate_def)
  moreover have "short_report 6 (a @ b @ c @ d @ e @ f)"
    if "short_report 1 a" "short_report 1 b" "short_report 1 c" "short_report 1 d" "short_report 1 e" "short_report 1 f"
    for a b c d e f :: "found_violation list"
    using that by (simp add: short_report_def)
  ultimately show ?thesis
    unfolding checkRepresentation_def Let_def Some option.case
    by (simp add: wf_representation_def wf_candidate_def wf_asset_def)
qed

lemma short_checkRepresentationChain:
  assumes "wf_context ctx"
  shows "short_report (1 + length (s_representations (x_state ctx))) (checkRepresentationChain ctx)"
proof -
  have "\<And>r. r \<in> set (s_representations (x_state ctx)) \<Longrightarrow> wf_representation (value_of r)"
    using assms by (simp add: wf_context_def wf_state_def wf_observed_def list_all_iff)
  then show ?thesis
    unfolding checkRepresentationChain_def Let_def using assms
    by (intro short_report_append short_report_concat)
      (auto simp: wf_context_def wf_candidate_def wf_representation_def)
qed

lemma short_economic_checks:
  assumes "wf_context ctx"
  shows "short_report 2 (checkNotionalConsistency ctx)" "short_report 2 (checkMaxNotional ctx)"
    "short_report 2 (checkEconomicLimit ctx)"
proof -
  have c: "wf_amount (c_quantity (x_candidate ctx))" "wf_price (c_executionPrice (x_candidate ctx))"
      "wf_amount (c_notional (x_candidate ctx))" "wf_amount (c_feeTotal (x_candidate ctx))"
      "wf_amount (m_maxNotional (x_mandate ctx))" "wf_amount (m_economicLimit (x_mandate ctx))"
    using assms by (simp_all add: wf_context_def wf_mandate_def wf_candidate_def)
  show "short_report 2 (checkNotionalConsistency ctx)"
    using c notional_small [OF _ c(1,2)]
    by (auto simp: checkNotionalConsistency_def Let_def length_int_str split: sum.splits)
  show "short_report 2 (checkMaxNotional ctx)"
    using c notional_small [OF _ c(1,2)]
    by (auto simp: checkMaxNotional_def Let_def length_int_str split: sum.splits)
  show "short_report 2 (checkEconomicLimit ctx)"
    using c economic_small [OF c(3,4)]
    by (auto simp: checkEconomicLimit_def Let_def length_int_str split: sum.splits)
qed

lemma short_market_checks:
  assumes "wf_context ctx" "wf_time (x_now ctx)"
  shows "short_report 2 (checkPriceDeviation ctx)" "short_report 2 (checkPriceFreshness ctx)"
    "short_report 2 (checkHalt ctx)" "short_report 4 (checkCorporateAction ctx)"
proof -
  have p: "wf_price (c_executionPrice (x_candidate ctx))"
    using assms by (simp add: wf_context_def wf_candidate_def)
  have r: "wf_price q" "wf_time (observedAt (prov k))"
    if "s_market (x_state ctx) = Some k" "referencePrice (value_of k) = Some q" for k q
    using that assms by (auto simp: wf_context_def wf_state_def wf_observed_def wf_market_def wf_provenance_def option.pred_set)
  have m: "small (m_maxDeviationBps (x_mandate ctx))" "small (m_maxPriceAgeSeconds (x_mandate ctx))"
      "small (m_maxCorporateActionAgeSeconds (x_mandate ctx))" "small (m_requiredCorporateActionEpoch (x_mandate ctx))"
      "small (c_corporateActionEpoch (x_candidate ctx))"
    using assms by (auto simp: wf_context_def wf_mandate_def wf_candidate_def intro: small_uint16 small_uint32 small_uint64)
  have k: "small (x_now ctx - observedAt (prov k))" if "s_market (x_state ctx) = Some k" for k
    using that assms by (auto simp: wf_context_def wf_state_def wf_observed_def wf_provenance_def intro: small_time_diff)
  have a: "small (x_now ctx - observedAt (prov k))" if "s_corporateAction (x_state ctx) = Some k" for k
    using that assms by (auto simp: wf_context_def wf_state_def wf_observed_def wf_provenance_def intro: small_time_diff)
  have e: "small i" if "s_corporateAction (x_state ctx) = Some k" "ca_epoch (value_of k) = Some i" for k i
    using that assms
    by (auto simp: wf_context_def wf_state_def wf_observed_def wf_corporate_action_def option.pred_set intro: small_uint64)
  show "short_report 2 (checkPriceDeviation ctx)"
    using m deviation_small [OF p r(1)]
    by (auto simp: checkPriceDeviation_def length_int_str split: option.splits sum.splits)
  show "short_report 2 (checkPriceFreshness ctx)"
    using m k by (auto simp: checkPriceFreshness_def Let_def length_int_str split: option.splits)
  show "short_report 2 (checkHalt ctx)"
    by (auto simp: checkHalt_def split: option.splits)
  show "short_report 4 (checkCorporateAction ctx)"
    using m a e by (auto simp: checkCorporateAction_def Let_def length_int_str split: option.splits)
qed

lemma short_checkSignature:
  assumes "wf_context ctx" "wf_envelope (x_authorization ctx)" "hex_literal 64 (x_mandateDigest ctx)"
  shows "\<exists>vs. checkSignature keccak recover n ctx = Some vs \<and> short_report 2 vs"
proof -
  obtain r where r: "verifyAuthorization keccak recover n (x_authorization ctx) (x_mandateDigest ctx) (x_expectedDomain ctx) = Some r"
    using verifyAuthorization_total [OF assms(3)] by blast
  have "scheme (x_authorization ctx) = EIP712_SECP256K1" using assms(2) by (simp add: wf_envelope_def)
  moreover have "r = Inr p \<Longrightarrow> wf_party p" for p
    using r verifyAuthorization_Inr assms(2) by (auto simp: wf_envelope_def)
  ultimately show ?thesis
    using r assms(1)
    by (cases r) (auto simp: checkSignature_def EIP712_SECP256K1_def wf_context_def wf_mandate_def wf_party_def)
qed

lemma short_all_checks:
  assumes "wf_context ctx" "wf_envelope (x_authorization ctx)" "wf_time (x_now ctx)" "hex_literal 64 (x_mandateDigest ctx)"
  shows "short_report (41 + length (s_representations (x_state ctx))) (run_checks (CHECKS keccak recover n) ctx)"
proof -
  obtain vs where vs: "checkSignature keccak recover n ctx = Some vs" "short_report 2 vs"
    using short_checkSignature assms by blast
  have t: "checkTrustLevels ctx = []" using assms(1) by (intro checkTrustLevels_wf) (simp add: wf_context_def)
  note parts = vs(2) short_scope_checks [OF assms(1,3,4)] short_checkRepresentation [OF assms(1)]
    short_checkRepresentationChain [OF assms(1)] short_economic_checks [OF assms(1)]
    short_market_checks [OF assms(1,3)]
  have run: "run_checks (CHECKS keccak recover n) ctx = vs @ checkAgent ctx @ checkValidityWindow ctx @
      checkReplay ctx @ checkCanonicalAsset ctx @ checkChain ctx @ checkVenue ctx @ checkSide ctx @
      checkRepresentation ctx @ checkRepresentationChain ctx @ checkNotionalConsistency ctx @
      checkMaxNotional ctx @ checkEconomicLimit ctx @ checkPriceDeviation ctx @ checkPriceFreshness ctx @
      checkHalt ctx @ checkCorporateAction ctx @ checkRegistrySnapshotBinding ctx"
    by (simp add: run_checks_def CHECKS_def pure_check_def vs(1) t)
  show ?thesis using parts unfolding run short_report_def by simp
qed

section \<open>The verifier returns\<close>

lemma finish_total:
  assumes "short_report 65535 vs" "pred_option (hex_literal 64) (g_mandate ds)"
    "pred_option (hex_literal 64) (g_candidate ds)" "pred_option (hex_literal 64) (g_state ds)"
    "pred_option wf_time (g_evaluatedAt ds)"
  shows "\<exists>r. finish keccak ds vs = Some r"
proof -
  have "list_all encodable (canonicalize vs)" "length (canonicalize vs) \<le> 65535"
    using assms(1) canonicalize_subset [of vs] length_canonicalize [of vs]
    by (auto simp: short_report_def list_all_iff)
  then have "\<exists>b. encodeReceipt \<lparr>verifierVersion = VERIFIER_VERSION, b_digests = ds,
      decision_of = (if length (canonicalize vs) = 0 then PASS else REJECT),
      reasonCodes = dedupe (map code (canonicalize vs)), violations = canonicalize vs\<rparr> = Some b"
    using assms(2-5) by (intro encodeReceipt_total) simp_all
  then show ?thesis unfolding finish_def Let_def by blast
qed

lemma short_parse_failures: "short_report 6 (parse_failures r)"
proof -
  have "short_report 1 (collect (x :: 'a result) name)" if "length name \<le> 1024" for x and name
    using that by (cases x) (simp_all add: collect_def)
  then show ?thesis
    unfolding parse_failures_def short_report_def by (simp add: collect_def split: sum.splits)
qed

lemma literal_keccak:
  "\<forall>b. length (keccak b) = 32 \<Longrightarrow> pred_option (\<lambda>m. \<exists>x. m = keccak256 keccak x) d \<Longrightarrow> pred_option (hex_literal 64) d"
  by (auto simp: option.pred_set keccak256_literal)

lemma receipt_exists:
  assumes "\<forall>b. length (keccak b) = 32" "request_context keccak request = Some ctx" "short_report 65535 vs"
  shows "\<exists>r. finish keccak (request_digests keccak ctx) vs = Some r"
proof -
  have "hex_literal 64 (x_mandateDigest ctx)" "hex_literal 64 (x_trustedStateDigest ctx)"
    using assms(1,2)
    by (auto simp: request_context_def mandateDigest_def trustedStateDigest_def keccak256_literal
        split: if_splits sum.splits option.splits)
  moreover have "pred_option (hex_literal 64) (candidateDigest keccak (x_candidate ctx))"
    using assms(1) by (auto simp: candidateDigest_def option.pred_set keccak256_literal)
  ultimately show ?thesis
    using request_context_wf(4) [OF assms(2)] assms(3)
    by (intro finish_total) (simp_all add: request_digests_def)
qed

lemma verify_total:
  assumes "\<forall>b. length (keccak b) = 32"
    and "\<And>ctx. request_context keccak request = Some ctx \<Longrightarrow> length (s_representations (x_state ctx)) \<le> 65494"
  shows "\<exists>r. verify keccak recover n request Default_checks = Some r"
proof (cases "request_context keccak request")
  case None
  obtain ds where "verify keccak recover n request Default_checks = finish keccak ds (parse_failures (plain_request request))"
    "pred_option (\<lambda>m. \<exists>x. m = keccak256 keccak x) (g_mandate ds)"
    "pred_option (\<lambda>m. \<exists>x. m = keccak256 keccak x) (g_candidate ds)"
    "pred_option (\<lambda>m. \<exists>x. m = keccak256 keccak x) (g_state ds)" "pred_option wf_time (g_evaluatedAt ds)"
    by (rule verify_unparsed [OF None])
  then show ?thesis
    using finish_total [of "parse_failures (plain_request request)" ds keccak] literal_keccak [OF assms(1)]
      short_report_mono [OF short_parse_failures, of 65535] by simp
next
  case (Some ctx)
  note wf = request_context_wf [OF Some]
  have "hex_literal 64 (x_mandateDigest ctx)"
    using Some assms(1)
    by (auto simp: request_context_def mandateDigest_def keccak256_literal split: if_splits sum.splits option.splits)
  then have "short_report 65535 (run_checks (CHECKS keccak recover n) ctx)"
    by (intro short_report_mono [OF short_all_checks [OF wf(1,2,4)]]) (use assms(2) [OF Some] in simp_all)
  then show ?thesis
    unfolding verify_parsed(1) [OF Some] by (rule receipt_exists [OF assms(1) Some])
qed

end
