(* ===== verification/Samples.thy ===== *)
theory Samples
  imports Totality
begin

text \<open>
  Requests built from parsed values, the concrete values the witnesses evaluate, and a request on which
  the verifier throws. The sample keccak maps everything to thirty-two zero bytes and the sample curve
  recovers one fixed key: enough for a request that passes.
\<close>

section \<open>Requests from values\<close>

definition js_request :: "mandate \<Rightarrow> envelope \<Rightarrow> candidate \<Rightarrow> trusted_state \<Rightarrow> int \<Rightarrow> eip712_domain \<Rightarrow> js" where
  "js_request m a c s now d = JObj [
     (''mandate'', js_mandate m), (''authorization'', js_envelope a), (''candidate'', js_candidate c),
     (''trustedState'', js_state s), (''clock'', JObj [(''nowUnixSeconds'', JBig now)]),
     (''expectedDomain'', js_domain d)]"

definition context_of ::
    "(u8 list \<Rightarrow> u8 list) \<Rightarrow> mandate \<Rightarrow> envelope \<Rightarrow> candidate \<Rightarrow> trusted_state \<Rightarrow> int \<Rightarrow> eip712_domain \<Rightarrow> check_context" where
  "context_of keccak m a c s now d = \<lparr>x_mandate = m, x_authorization = a, x_candidate = c, x_state = s,
     x_now = now, x_expectedDomain = d, x_mandateDigest = the (mandateDigest keccak m),
     x_trustedStateDigest = the (trustedStateDigest keccak s)\<rparr>"

lemma request_context_js:
  assumes "wf_mandate m" "wf_envelope a" "wf_candidate c" "wf_state s" "wf_time now" "wf_domain d"
  shows "request_context keccak (js_request m a c s now d) = Some (context_of keccak m a c s now d)"
proof -
  obtain md sd where "mandateDigest keccak m = Some md" "trustedStateDigest keccak s = Some sd"
    using mandateDigest_total trustedStateDigest_total assms by blast
  moreover have "parseTrustedState (js_state s) = Inr s" using assms by (simp add: parseTrustedState_js)
  moreover have "parseClock (JObj [(''nowUnixSeconds'', JBig now)]) = Inr now" using assms by (simp add: parseClock_def)
  ultimately show ?thesis
    using assms by (simp add: request_context_def js_request_def context_of_def
        parseAuthorizationEnvelope_js parseEip712Domain_js)
qed

section \<open>Sample values\<close>

definition keccak0 :: "u8 list \<Rightarrow> u8 list" where "keccak0 bs = replicate 32 0"
definition recover0 :: recovery where "recover0 sig rb hash = Some (replicate 65 4)"

definition zero_address :: string where "zero_address = ''0x'' @ replicate 40 (CHR ''0'')"
definition zero_digest :: string where "zero_digest = ''0x'' @ replicate 64 (CHR ''0'')"

definition sample_party :: party where
  "sample_party = \<lparr>kind = PARTY_KIND_EIP155_ADDRESS, party_value = zero_address\<rparr>"

definition sample_asset :: asset_id where
  "sample_asset = \<lparr>assetClass = ''equity'', idScheme = ''isin'', assetValue = ''US0378331005''\<rparr>"

definition usd :: "int \<Rightarrow> amount" where
  "usd a = \<lparr>unit = ''USD'', decimals = 2, atoms = a\<rparr>"

definition sample_mandate :: mandate where
  "sample_mandate = \<lparr>m_version = 2, m_mandateId = zero_digest, m_nonce = 1, m_principal = sample_party,
     m_agent = sample_party, m_canonicalAsset = sample_asset, m_side = BUY, m_maxNotional = usd 100000,
     m_economicLimit = usd 101000, m_maxDeviationBps = 50, m_syntheticPolicy = FORBIDDEN,
     m_allowedIssuers = [''issuer''], m_allowedChains = [''eip155:1''], m_allowedVenues = [''venue''],
     m_requiredCorporateActionEpoch = 3, m_maxPriceAgeSeconds = 60, m_maxCorporateActionAgeSeconds = 600,
     m_haltPolicy = FORBID_WHEN_HALTED, m_createdAtUnixSeconds = 0, m_notBeforeUnixSeconds = 100,
     m_expiresAtUnixSeconds = 200\<rparr>"

definition sample_price :: "int \<Rightarrow> price" where
  "sample_price a = \<lparr>numeratorUnit = ''USD'', denominatorUnit = ''share'', p_decimals = 2, p_atoms = a\<rparr>"

definition sample_candidate :: candidate where
  "sample_candidate = \<lparr>c_version = 3, c_representationId = ''eip155:1/erc20:1'', c_canonicalAsset = sample_asset,
     c_issuer = ''issuer'', c_chain = ''eip155:1'', c_venue = ''venue'', c_side = BUY, c_agent = sample_party,
     c_quantity = \<lparr>unit = ''share'', decimals = 0, atoms = 5\<rparr>, c_executionPrice = sample_price 10010,
     c_notional = usd 50050, c_feeTotal = usd 100, c_evaluationStateId = ''s1'',
     c_evaluationStateDigest = zero_digest, c_registrySnapshotDigest = zero_digest, c_corporateActionEpoch = 3\<rparr>"

definition sample_provenance :: provenance where
  "sample_provenance = \<lparr>trustClass = VERIFIED, sourceId = ''feed'', observedAt = 140\<rparr>"

definition observe :: "'a \<Rightarrow> 'a observed" where
  "observe v = \<lparr>value_of = v, prov = sample_provenance\<rparr>"

definition sample_representation :: "string \<Rightarrow> string \<Rightarrow> representation_state" where
  "sample_representation rid chain = \<lparr>rep_id = rid, rep_asset = sample_asset, rep_issuer = ''issuer'',
     rep_chain = chain, instrumentType = None, synthetic = NO, operationalState = ACTIVE\<rparr>"

definition sample_state :: "representation_state list \<Rightarrow> trusted_state" where
  "sample_state reps = \<lparr>s_version = 2, s_stateId = ''s2'', s_registrySnapshotDigest = Some zero_digest,
     s_representations = map observe reps,
     s_market = Some (observe \<lparr>market_asset = sample_asset, referencePrice = Some (sample_price 10000), haltStatus = TRADING\<rparr>),
     s_corporateAction = Some (observe \<lparr>ca_asset = sample_asset, ca_epoch = Some 3\<rparr>),
     s_replay = Some (observe \<lparr>rs_mandateDigest = zero_digest, rs_status = UNUSED\<rparr>)\<rparr>"

definition sample_domain :: eip712_domain where
  "sample_domain = \<lparr>d_name = ''Mandate'', d_version = ''1'', chainId = 1, verifyingContract = zero_address\<rparr>"

definition sample_signature :: "u8 list" where
  "sample_signature = replicate 31 0 @ [1] @ replicate 31 0 @ [1, 27]"

definition sample_envelope :: envelope where
  "sample_envelope = \<lparr>scheme = EIP712_SECP256K1, signer = sample_party,
     signature = bytesToHex sample_signature, domain = sample_domain\<rparr>"

definition good_state :: trusted_state where
  "good_state = sample_state [sample_representation ''eip155:1/erc20:1'' ''eip155:1'']"

definition good_request :: js where
  "good_request = js_request sample_mandate sample_envelope sample_candidate good_state 150 sample_domain"

lemma sample_idents:
  "valid_ident ''s2''" "valid_ident ''issuer''" "hex_literal 64 zero_digest" "wf_provenance sample_provenance"
  "wf_asset sample_asset" "wf_price (sample_price 10000)"
  by code_simp+

lemma wf_sample_state:
  "list_all wf_representation reps \<Longrightarrow> distinct (map rep_id reps) \<Longrightarrow> length reps \<le> MAX_STATE_REPRESENTATIONS \<Longrightarrow>
     wf_state (sample_state reps)"
  using sample_idents
  by (simp add: wf_state_def sample_state_def STATE_SCHEMA_VERSION_def wf_observed_def observe_def comp_def
      wf_market_def wf_corporate_action_def wf_replay_state_def list_all_iff)

lemma sample_wf:
  "wf_mandate sample_mandate" "wf_candidate sample_candidate" "wf_envelope sample_envelope"
  "wf_domain sample_domain" "wf_time 150"
proof -
  show d: "wf_domain sample_domain" by code_simp
  have "wf_party sample_party" by code_simp
  moreover have "hex_literal 130 (bytesToHex sample_signature)"
    using hex_literal_bytes [of sample_signature 65] by (simp add: sample_signature_def)
  ultimately show "wf_envelope sample_envelope"
    using d by (simp add: wf_envelope_def sample_envelope_def sample_party_def)
qed code_simp+

lemma wf_sample_representation:
  "valid_ident rid \<Longrightarrow> valid_ident chain \<Longrightarrow> wf_representation (sample_representation rid chain)"
  using sample_idents by (simp add: wf_representation_def sample_representation_def)

lemma good_state_wf: "wf_state good_state"
proof -
  have "valid_ident ''eip155:1/erc20:1''" "valid_ident ''eip155:1''" by code_simp+
  then show ?thesis
    unfolding good_state_def
    by (intro wf_sample_state) (simp_all add: wf_sample_representation MAX_STATE_REPRESENTATIONS_def)
qed

lemma keccak0_length: "\<forall>b. length (keccak0 b) = 32"
  by (simp add: keccak0_def)

lemma good_context:
  "request_context keccak good_request =
     Some (context_of keccak sample_mandate sample_envelope sample_candidate good_state 150 sample_domain)"
  unfolding good_request_def by (intro request_context_js sample_wf good_state_wf)

section \<open>A request on which the verifier throws\<close>

lemma wcat_None: "None \<in> set ws \<Longrightarrow> wcat ws = None"
  by (induction ws rule: wcat.induct) auto

lemma encodeReceipt_None: "65535 < length (violations r) \<Longrightarrow> encodeReceipt r = None"
proof -
  assume "65535 < length (violations r)"
  then have "\<not> (0 \<le> int (length (violations r)) \<and> int (length (violations r)) < 2 ^ 16)" by simp
  then have "wr_u16 (int (length (violations r))) = None" by (simp only: wr_uints_None simp_thms)
  then show ?thesis unfolding encodeReceipt_def by (intro wcat_None) (simp del: wr_uints_None)
qed

text \<open>As many representations as a state may hold, none of whose identifiers names a chain.\<close>

definition crowd_id :: "nat \<Rightarrow> string" where
  "crowd_id i = CHR ''r'' # nat_str i"

definition crowd_state :: trusted_state where
  "crowd_state = sample_state (map (\<lambda>i. sample_representation (crowd_id i) ''a'') [0..<65535])"

definition crowd_candidate :: candidate where
  "crowd_candidate = sample_candidate\<lparr>c_representationId := ''r'', c_chain := ''b''\<rparr>"

definition crowd_request :: js where
  "crowd_request = js_request sample_mandate sample_envelope crowd_candidate crowd_state 150 sample_domain"

lemma is_digit_ident: "is_digit c \<Longrightarrow> ident_char c \<and> c \<notin> SEPARATORS \<and> c \<noteq> CHR ''/'' \<and> c \<noteq> CHR 0x00"
  by (auto simp: is_digit_def ident_char_def SEPARATORS_def)

lemma crowd_id_wf: "i < 65535 \<Longrightarrow> valid_ident (crowd_id i)"
proof -
  assume "i < 65535"
  then have len: "length (nat_str i) \<le> 5" by (intro length_nat_str) simp_all
  have d: "\<forall>c \<in> set (nat_str i). ident_char c \<and> c \<notin> SEPARATORS"
    using nat_str_digits [of i] is_digit_ident by blast
  moreover have "ident_char (CHR ''r'')" "CHR ''r'' \<notin> SEPARATORS" by code_simp+
  moreover have "last (crowd_id i) \<in> set (nat_str i)" by (simp add: crowd_id_def)
  ultimately have "last (crowd_id i) \<notin> SEPARATORS" "list_all ident_char (crowd_id i)" "hd (crowd_id i) \<notin> SEPARATORS"
    by (simp_all only: list_all_iff crowd_id_def list.set list.sel) blast+
  with len show ?thesis by (simp add: valid_ident_def crowd_id_def)
qed

lemma crowd_id_no_chain: "chain_inconsistent (crowd_id i) chain"
proof -
  have "CHR ''/'' \<notin> set (nat_str i)" using nat_str_digits [of i] is_digit_ident by blast
  then have "CHR ''/'' \<notin> set (crowd_id i)" by (simp add: crowd_id_def)
  then show ?thesis by (auto simp: chain_inconsistent_iff chain_consistent_def)
qed

lemma crowd_id_inj: "crowd_id i = crowd_id j \<longleftrightarrow> i = j"
  by (simp add: crowd_id_def nat_str_inj)

lemma crowd_wf: "wf_state crowd_state" "wf_candidate crowd_candidate"
proof -
  have "valid_ident ''a''" by code_simp
  then show "wf_state crowd_state"
    unfolding crowd_state_def
    by (intro wf_sample_state)
      (auto simp: list_all_iff crowd_id_wf distinct_map inj_on_def crowd_id_inj sample_representation_def
        MAX_STATE_REPRESENTATIONS_def intro: wf_sample_representation [unfolded sample_representation_def])
  show "wf_candidate crowd_candidate" by code_simp
qed

definition chain_violation :: "string \<Rightarrow> string \<Rightarrow> string \<Rightarrow> found_violation" where
  "chain_violation src rid chain = violation REPRESENTATION_CHAIN_INCONSISTENT
     [(''source'', src), (''representationId'', rid), (''declared'', chain)]"

lemma chain_violation_key:
  "violation_key (chain_violation src rid chain) =
     reason_id REPRESENTATION_CHAIN_INCONSISTENT @ CHR 0x00 # ''declared='' @ chain @ CHR 0x00 #
     ''representationId='' @ rid @ CHR 0x00 # ''source='' @ src"
proof -
  have "sorted_keys [(''source'', src), (''representationId'', rid), (''declared'', chain)] =
      [''declared'', ''representationId'', ''source'']"
    by (simp add: sorted_keys_def) code_simp
  then show ?thesis
    by (simp add: violation_key_def chain_violation_def violation_def detail_get_def)
qed

lemma crowd_violations:
  assumes "x_candidate ctx = crowd_candidate" "x_state ctx = crowd_state"
  shows "chain_violation ''candidate'' ''r'' ''b'' \<in> set (run_checks (CHECKS keccak recover n) ctx)"
    "i < 65535 \<Longrightarrow> chain_violation ''trustedState'' (crowd_id i) ''a'' \<in> set (run_checks (CHECKS keccak recover n) ctx)"
proof -
  have sub: "set (checkRepresentationChain ctx) \<subseteq> set (run_checks (CHECKS keccak recover n) ctx)"
    by (auto simp: set_run_checks CHECKS_def pure_check_def)
  have "chain_inconsistent ''r'' ''b''" by code_simp
  then have "chain_violation ''candidate'' ''r'' ''b'' \<in> set (checkRepresentationChain ctx)"
    by (simp add: checkRepresentationChain_def Let_def assms crowd_candidate_def chain_violation_def)
  with sub show "chain_violation ''candidate'' ''r'' ''b'' \<in> set (run_checks (CHECKS keccak recover n) ctx)" by blast
  assume "i < 65535"
  then have "observe (sample_representation (crowd_id i) ''a'') \<in> set (s_representations (x_state ctx))"
    by (simp add: assms crowd_state_def sample_state_def)
  then have "chain_violation ''trustedState'' (crowd_id i) ''a'' \<in> set (checkRepresentationChain ctx)"
    unfolding checkRepresentationChain_def Let_def
    by (auto simp: chain_violation_def observe_def sample_representation_def crowd_id_no_chain intro!: bexI)
  with sub show "chain_violation ''trustedState'' (crowd_id i) ''a'' \<in> set (run_checks (CHECKS keccak recover n) ctx)" by blast
qed

lemma crowd_key_count:
  assumes "x_candidate ctx = crowd_candidate" "x_state ctx = crowd_state"
  shows "65535 < length (canonicalize (run_checks (CHECKS keccak recover n) ctx))"
proof -
  let ?vs = "run_checks (CHECKS keccak recover n) ctx"
  let ?k = "\<lambda>i. violation_key (chain_violation ''trustedState'' (crowd_id i) ''a'')"
  let ?c = "violation_key (chain_violation ''candidate'' ''r'' ''b'')"
  have "inj_on ?k {0..<65535}" by (simp add: inj_on_def chain_violation_key crowd_id_inj)
  then have "card (?k ` {0..<65535}) = 65535" by (simp add: card_image)
  moreover have "?c \<notin> ?k ` {0..<65535}" by (auto simp: chain_violation_key)
  ultimately have "card (insert ?c (?k ` {0..<65535})) = 65536" by simp
  moreover have "insert ?c (?k ` {0..<65535}) \<subseteq> violation_key ` set ?vs"
    using crowd_violations [OF assms] by auto
  then have "card (insert ?c (?k ` {0..<65535})) \<le> card (violation_key ` set ?vs)"
    by (intro card_mono) simp_all
  ultimately show ?thesis unfolding length_canonicalize_card by simp
qed

lemma crowd_throws: "verify keccak recover n crowd_request Default_checks = None"
proof -
  let ?ctx = "context_of keccak sample_mandate sample_envelope crowd_candidate crowd_state 150 sample_domain"
  have ctx: "request_context keccak crowd_request = Some ?ctx"
    unfolding crowd_request_def by (intro request_context_js sample_wf crowd_wf)
  have "65535 < length (canonicalize (run_checks (CHECKS keccak recover n) ?ctx))"
    by (intro crowd_key_count) (simp_all add: context_of_def)
  then show ?thesis
    unfolding verify_parsed(1) [OF ctx] finish_def Let_def by (simp add: encodeReceipt_None)
qed

section \<open>A request that passes\<close>

definition good_context_with :: "string \<Rightarrow> check_context" where
  "good_context_with sd = \<lparr>x_mandate = sample_mandate, x_authorization = sample_envelope,
     x_candidate = sample_candidate, x_state = good_state, x_now = 150, x_expectedDomain = sample_domain,
     x_mandateDigest = zero_digest, x_trustedStateDigest = sd\<rparr>"

lemma keccak0_digest: "keccak256 keccak0 b = zero_digest"
proof -
  have "bytesToHex (replicate 32 0) = zero_digest" by code_simp
  then show ?thesis by (simp add: keccak256_def keccak0_def)
qed

lemma be_val_zeros [simp]: "be_val (replicate k 0) = 0"
  by (induction k) (simp_all add: be_val_def)

lemma good_signature:
  assumes "hex_literal 64 d"
  shows "verifyAuthorization keccak0 recover0 7 sample_envelope d sample_domain = Some (Inr sample_party)"
proof -
  obtain h where "eip712SigningHash keccak0 sample_domain d = Some h" using signing_hash_total assms by blast
  moreover have "uint (sample_signature ! 64) = 27" "be_val (take 32 sample_signature) = 1"
      "be_val (take 32 (drop 32 sample_signature)) = 1" "length sample_signature = 65"
    using be_val_snoc [of "replicate 31 0" 1] by (simp_all add: sample_signature_def nth_append)
  moreover have "addressFromPublicKey keccak0 (replicate 65 4) = party_value sample_party"
    unfolding addressFromPublicKey_def keccak0_def by code_simp
  ultimately show ?thesis
    by (simp add: verifyAuthorization_Inr sample_envelope_def recover0_def)
qed

lemmas good_defs = good_context_with_def sample_mandate_def sample_candidate_def good_state_def sample_state_def
  observe_def sample_representation_def sample_provenance_def sample_price_def usd_def Let_def

lemmas units_defs = compareAmounts_def notionalBounds_def addAmounts_def deviationBps_def pow10_def
  MAX_DECIMALS_def BPS_SCALE_def economicLimitKind_def

lemmas lookup_defs = findRepresentation_def chain_inconsistent_def chainSegmentOf_def untrusted_def
  isTrustedForAuthorization_def

lemma good_checks: "run_checks (CHECKS keccak0 recover0 7) (good_context_with sd) = []"
proof -
  let ?ctx = "good_context_with sd"
  have "checkSignature keccak0 recover0 7 ?ctx = Some []"
    using good_signature [OF sample_idents(3)]
    by (simp add: checkSignature_def good_context_with_def sample_mandate_def)
  moreover have "checkAgent ?ctx = []" by (simp add: checkAgent_def good_defs)
  moreover have "checkValidityWindow ?ctx = []" by (simp add: checkValidityWindow_def good_defs)
  moreover have "checkReplay ?ctx = []" by (simp add: checkReplay_def good_defs)
  moreover have "checkCanonicalAsset ?ctx = []" by (simp add: checkCanonicalAsset_def good_defs)
  moreover have "checkChain ?ctx = []" by (simp add: checkChain_def good_defs)
  moreover have "checkVenue ?ctx = []" by (simp add: checkVenue_def good_defs)
  moreover have "checkSide ?ctx = []" by (simp add: checkSide_def good_defs)
  moreover have "checkRepresentation ?ctx = []" by (simp add: checkRepresentation_def good_defs lookup_defs)
  moreover have "checkRepresentationChain ?ctx = []" by (simp add: checkRepresentationChain_def good_defs lookup_defs)
  moreover have "checkNotionalConsistency ?ctx = []" by (simp add: checkNotionalConsistency_def good_defs units_defs)
  moreover have "checkMaxNotional ?ctx = []" by (simp add: checkMaxNotional_def good_defs units_defs)
  moreover have "checkEconomicLimit ?ctx = []" by (simp add: checkEconomicLimit_def good_defs units_defs)
  moreover have "checkPriceDeviation ?ctx = []" by (simp add: checkPriceDeviation_def good_defs units_defs)
  moreover have "checkPriceFreshness ?ctx = []" by (simp add: checkPriceFreshness_def good_defs)
  moreover have "checkHalt ?ctx = []" by (simp add: checkHalt_def good_defs)
  moreover have "checkCorporateAction ?ctx = []" by (simp add: checkCorporateAction_def good_defs)
  moreover have "checkRegistrySnapshotBinding ?ctx = []" by (simp add: checkRegistrySnapshotBinding_def good_defs)
  moreover have "checkTrustLevels ?ctx = []" by (simp add: checkTrustLevels_def good_defs lookup_defs)
  ultimately show ?thesis by (simp add: run_checks_def CHECKS_def pure_check_def)
qed

lemma good_admissible:
  "admissible keccak0 recover0 7
     (context_of keccak0 sample_mandate sample_envelope sample_candidate good_state 150 sample_domain)"
proof -
  let ?ctx = "context_of keccak0 sample_mandate sample_envelope sample_candidate good_state 150 sample_domain"
  obtain b where "encodeMandate sample_mandate = Some b" using encodeMandate_total [OF sample_wf(1)] by blast
  then have "?ctx = good_context_with (x_trustedStateDigest ?ctx)"
    by (simp add: context_of_def good_context_with_def mandateDigest_def keccak0_digest)
  then have "run_checks (CHECKS keccak0 recover0 7) ?ctx = []" by (metis good_checks)
  moreover have "wf_context ?ctx"
    using sample_wf good_state_wf by (simp add: wf_context_def context_of_def)
  ultimately show ?thesis by (simp add: run_checks_Nil flip: CHECKS_ok)
qed

lemma good_verify: "\<exists>r. verify keccak0 recover0 7 good_request Default_checks = Some r"
  by (rule verify_total) (auto simp: keccak0_length good_context context_of_def good_state_def sample_state_def)

text \<open>The same request, and the checks in another order.\<close>

lemma good_given:
  assumes "set cs = set (CHECKS keccak0 recover0 7)"
  shows "\<exists>r. verify keccak0 recover0 7 good_request (Given_checks cs) = Some r"
proof -
  let ?ctx = "context_of keccak0 sample_mandate sample_envelope sample_candidate good_state 150 sample_domain"
  have "wf_context ?ctx"
    using sample_wf good_state_wf by (simp add: wf_context_def context_of_def)
  then have "run_checks cs ?ctx = []"
    using good_admissible assms by (simp add: run_checks_Nil CHECKS_ok)
  then have "short_report 65535 (run_checks cs ?ctx)" by simp
  then show ?thesis
    unfolding verify_parsed(2) [OF good_context] by (rule receipt_exists [OF keccak0_length good_context])
qed

text \<open>The same request after the mandate has expired.\<close>

definition late_request :: js where
  "late_request = js_request sample_mandate sample_envelope sample_candidate good_state 1000 sample_domain"

lemma late_context:
  "request_context keccak late_request =
     Some (context_of keccak sample_mandate sample_envelope sample_candidate good_state 1000 sample_domain)"
  unfolding late_request_def by (intro request_context_js sample_wf good_state_wf) (simp add: wf_time_def)

lemma late_verify: "\<exists>r. verify keccak0 recover0 7 late_request Default_checks = Some r"
  by (rule verify_total) (auto simp: keccak0_length late_context context_of_def good_state_def sample_state_def)

section \<open>Bytes without a byte-order mark\<close>

lemma no_bom_plain: "list_all (\<lambda>x. x \<noteq> 0xEF) b \<Longrightarrow> no_bom b"
proof -
  assume plain: "list_all (\<lambda>x. x \<noteq> 0xEF) b"
  have "take 3 (drop i b) \<noteq> utf8_bom" for i
  proof
    assume "take 3 (drop i b) = utf8_bom"
    then have "0xEF \<in> set (take 3 (drop i b))" by (simp add: utf8_bom_def)
    then have "0xEF \<in> set b" by (meson in_set_dropD in_set_takeD)
    with plain show False by (auto simp: list_all_iff)
  qed
  then show ?thesis by (simp add: no_bom_def)
qed

lemma sample_mandate_bytes: "\<exists>b. encodeMandate sample_mandate = Some b \<and> no_bom b"
proof -
  have "case encodeMandate sample_mandate of Some b \<Rightarrow> list_all (\<lambda>x. x \<noteq> 0xEF) b | None \<Rightarrow> False"
    by code_simp
  then show ?thesis by (cases "encodeMandate sample_mandate") (auto intro: no_bom_plain)
qed

lemma good_state_bytes: "\<exists>b. encodeTrustedState good_state = Some b \<and> no_bom b"
proof -
  have "case encodeTrustedState good_state of Some b \<Rightarrow> list_all (\<lambda>x. x \<noteq> 0xEF) b | None \<Rightarrow> False"
    by code_simp
  then show ?thesis by (cases "encodeTrustedState good_state") (auto intro: no_bom_plain)
qed

end
