(* ===== verification/Core_Base.thy ===== *)
theory Core_Base
  imports Digest
begin

unbundle bit_operations_syntax

text \<open>
  The foundations of the core package: its encoding primitives (\<open>packages/core/src/encoding.ts\<close>), its
  parties and resources (\<open>identifiers.ts\<close>) and its module and adapter references (\<open>module.ts\<close>). A
  writer that throws is \<^term>\<open>None\<close>. Branded strings (identifiers, digests) are strings.
\<close>

section \<open>JSON text\<close>

text \<open>\<open>JSON.stringify\<close> of strings, numbers and arrays, with which the code builds map keys.\<close>

datatype json = JsonNull | JsonStr string | JsonNat nat | JsonArr "json list"

definition json_char :: "char \<Rightarrow> string" where
  "json_char c = (let n = (of_char c :: nat) in
     if n = 34 then [CHR 0x5C, c]
     else if n = 92 then [c, c]
     else if n = 8 then CHR 0x5C # ''b''
     else if n = 9 then CHR 0x5C # ''t''
     else if n = 10 then CHR 0x5C # ''n''
     else if n = 12 then CHR 0x5C # ''f''
     else if n = 13 then CHR 0x5C # ''r''
     else if n < 32 then CHR 0x5C # ''u00'' @ [hex_digit (n div 16), hex_digit (n mod 16)]
     else [c])"

definition json_quote :: "string \<Rightarrow> string" where
  "json_quote s = [CHR 0x22] @ concat (map json_char s) @ [CHR 0x22]"

fun json_items :: "string list \<Rightarrow> string" where
  "json_items [] = ''''"
| "json_items [x] = x"
| "json_items (x # xs) = x @ '','' @ json_items xs"

fun json_text :: "json \<Rightarrow> string" where
  "json_text JsonNull = ''null''"
| "json_text (JsonStr s) = json_quote s"
| "json_text (JsonNat n) = nat_str n"
| "json_text (JsonArr xs) = ''['' @ json_items (map json_text xs) @ '']''"

text \<open>Two texts of one shape that agree come from the same value.\<close>

lemma json_char_Cons: "\<exists>a as. json_char c = a # as \<and> (of_char a :: nat) \<noteq> 34"
  by (auto simp: json_char_def Let_def)

text \<open>Reading one character back.\<close>

fun json_unchar :: "string \<Rightarrow> char \<times> string" where
  "json_unchar (a # b # r) =
     (if (of_char a :: nat) \<noteq> 92 then (a, b # r)
      else if b = CHR ''b'' then (CHR 0x08, r)
      else if b = CHR ''t'' then (CHR 0x09, r)
      else if b = CHR ''n'' then (CHR 0x0A, r)
      else if b = CHR ''f'' then (CHR 0x0C, r)
      else if b = CHR ''r'' then (CHR 0x0D, r)
      else if b = CHR ''u'' then (char_of (16 * hex_val (r ! 2) + hex_val (r ! 3)), drop 4 r)
      else (b, r))"
| "json_unchar [a] = (a, [])"
| "json_unchar [] = (CHR 0x00, [])"

lemma json_unchar_plain: "(of_char a :: nat) \<noteq> 92 \<Longrightarrow> json_unchar (a # r) = (a, r)"
  by (cases r) auto

lemma of_char_char_eq: "(of_char c :: nat) = n \<Longrightarrow> c = char_of n"
  by auto

lemma json_unchar_char: "json_unchar (json_char c @ r) = (c, r)"
proof -
  let ?n = "of_char c :: nat"
  have c: "c = char_of ?n" by simp
  consider "?n \<in> {34, 92, 8, 9, 10, 12, 13}" | "?n \<notin> {34, 92, 8, 9, 10, 12, 13}" "?n < 32"
    | "?n \<notin> {34, 92}" "32 \<le> ?n" by fastforce
  then show ?thesis
  proof cases
    case 1
    have "json_unchar (json_char d @ r) = (d, r)"
      if "d \<in> {CHR 0x22, CHR 0x5C, CHR 0x08, CHR 0x09, CHR 0x0A, CHR 0x0C, CHR 0x0D}" for d
      using that by (elim insertE emptyE) (simp_all add: json_char_def)
    moreover have "c \<in> {CHR 0x22, CHR 0x5C, CHR 0x08, CHR 0x09, CHR 0x0A, CHR 0x0C, CHR 0x0D}"
      using 1 by (simp flip: of_char_eq_iff [where ?'a = nat])
    ultimately show ?thesis by blast
  next
    case 2
    then have "?n div 16 < 16" "?n mod 16 < 16" by auto
    with 2 show ?thesis by (simp add: json_char_def Let_def)
  next
    case 3
    then show ?thesis by (auto simp: json_char_def Let_def json_unchar_plain)
  qed
qed

lemma json_char_eq: "json_char c @ r = json_char d @ s \<Longrightarrow> c = d \<and> r = s"
  by (metis json_unchar_char prod.inject)

lemma json_chars_eq:
  "concat (map json_char xs) @ CHR 0x22 # r = concat (map json_char ys) @ CHR 0x22 # s \<Longrightarrow> xs = ys \<and> r = s"
proof (induction xs arbitrary: ys)
  case Nil
  then show ?case using json_char_Cons [of "hd ys"] by (cases ys) auto
next
  case (Cons x xs)
  show ?case
  proof (cases ys)
    case Nil
    with Cons.prems show ?thesis using json_char_Cons [of x] by auto
  next
    case (Cons y ys')
    from json_char_eq [of x _ y] Cons.prems Cons
    have "x = y" "concat (map json_char xs) @ CHR 0x22 # r = concat (map json_char ys') @ CHR 0x22 # s"
      by (auto simp: append_assoc dest!: json_char_eq)
    with Cons.IH Cons show ?thesis by auto
  qed
qed

lemma json_quote_eq: "json_quote a @ r = json_quote b @ s \<longleftrightarrow> a = b \<and> r = s"
  using json_chars_eq [of a r b s] by (auto simp: json_quote_def)

lemma json_quote_inj [simp]: "json_quote a = json_quote b \<longleftrightarrow> a = b"
  using json_quote_eq [of a "[]" b "[]"] by simp

text \<open>The text determines the value: no text is a prefix of another, a number apart, which a non-digit ends.\<close>

definition no_digit :: "string \<Rightarrow> bool" where
  "no_digit r \<longleftrightarrow> (r \<noteq> [] \<longrightarrow> \<not> is_digit (hd r))"

lemma nat_str_eq: "nat_str m @ r = nat_str n @ s \<Longrightarrow> no_digit r \<Longrightarrow> no_digit s \<Longrightarrow> m = n \<and> r = s"
proof -
  assume eq: "nat_str m @ r = nat_str n @ s" and r: "no_digit r" and s: "no_digit s"
  have tw: "takeWhile is_digit (nat_str k @ t) = nat_str k" if "no_digit t" for k t
  proof -
    have "takeWhile is_digit t = []" using that by (cases t) (auto simp: no_digit_def)
    then show ?thesis using nat_str_digits [of k] by (simp add: takeWhile_append)
  qed
  from eq have "takeWhile is_digit (nat_str m @ r) = takeWhile is_digit (nat_str n @ s)" by simp
  then have "nat_str m = nat_str n" using tw r s by simp
  with eq show ?thesis by (simp add: nat_str_inj)
qed

lemma json_text_hd: "\<exists>a as. json_text j = a # as \<and>
    (case j of JsonNull \<Rightarrow> a = CHR ''n'' | JsonStr _ \<Rightarrow> a = CHR 0x22 | JsonNat _ \<Rightarrow> is_digit a | JsonArr _ \<Rightarrow> a = CHR ''['')"
proof (cases j)
  case (JsonNat n)
  then show ?thesis using nat_str_digits [of n] by (cases "nat_str n") auto
qed (auto simp: json_quote_def)

lemma json_text_kind:
  assumes "json_text a @ r = json_text b @ s"
  shows "case (a, b) of (JsonNull, JsonNull) \<Rightarrow> True | (JsonStr _, JsonStr _) \<Rightarrow> True
    | (JsonNat _, JsonNat _) \<Rightarrow> True | (JsonArr _, JsonArr _) \<Rightarrow> True | _ \<Rightarrow> False"
  using assms json_text_hd [of a] json_text_hd [of b] by (auto split: json.splits simp: is_digit_def)

lemma json_text_not_bracket: "json_text a @ x \<noteq> CHR '']'' # r"
proof (cases a)
  case (JsonNat n)
  then obtain c cs where "json_text a = c # cs" "is_digit c" using json_text_hd [of a] by auto
  then show ?thesis by (auto simp: is_digit_def)
qed (auto simp: json_quote_def)

definition json_rigid :: "json \<Rightarrow> bool" where
  "json_rigid a \<longleftrightarrow> (\<forall>b r s. json_text a @ r = json_text b @ s \<longrightarrow> no_digit r \<longrightarrow> no_digit s \<longrightarrow> a = b \<and> r = s)"

lemma json_items_Cons: "xs \<noteq> [] \<Longrightarrow> json_items (x # xs) = x @ CHR '','' # json_items xs"
  by (cases xs) auto

lemma no_digit_marks [simp]: "no_digit (CHR '','' # r)" "no_digit (CHR '']'' # r)" "no_digit []"
  by (simp_all add: no_digit_def is_digit_def)

lemma json_items_eq:
  "\<forall>a \<in> set as. json_rigid a \<Longrightarrow>
   json_items (map json_text as) @ CHR '']'' # r = json_items (map json_text bs) @ CHR '']'' # s \<Longrightarrow> as = bs \<and> r = s"
proof (induction as arbitrary: bs)
  case Nil
  show ?case
  proof (cases bs)
    case (Cons b bs')
    have "json_items (map json_text bs) @ CHR '']'' # s \<noteq> CHR '']'' # r"
      using json_text_not_bracket [of b] Cons by (cases bs') (auto simp: json_items_Cons)
    with Nil show ?thesis by simp
  qed (use Nil in auto)
next
  case (Cons a as)
  obtain b bs' where bs: "bs = b # bs'"
  proof (cases bs)
    case Nil
    have "json_items (map json_text (a # as)) @ CHR '']'' # r \<noteq> CHR '']'' # s"
      using json_text_not_bracket [of a] by (cases as) (auto simp: json_items_Cons)
    with Nil Cons.prems show ?thesis by simp
  qed
  let ?tail = "\<lambda>xs t. if xs = [] then CHR '']'' # t else CHR '','' # json_items (map json_text xs) @ CHR '']'' # t"
  have split: "json_items (map json_text (x # xs)) @ CHR '']'' # t = json_text x @ ?tail xs t" for x xs t
  proof (cases xs)
    case (Cons y ys)
    have "json_items (map json_text (x # xs)) = json_text x @ CHR '','' # json_items (map json_text xs)"
      using json_items_Cons [of "map json_text xs"] Cons by simp
    with Cons show ?thesis by simp
  qed simp
  have "json_text a @ ?tail as r = json_text b @ ?tail bs' s"
    using Cons.prems(2) unfolding bs split .
  moreover have "no_digit (?tail xs t)" for xs t by (cases xs) auto
  moreover have "json_rigid a" using Cons.prems(1) by simp
  ultimately have ab: "a = b" and tails: "?tail as r = ?tail bs' s"
    unfolding json_rigid_def by blast+
  have "as = bs' \<and> r = s"
  proof (cases "as = [] \<or> bs' = []")
    case True
    with tails show ?thesis by (auto split: if_splits)
  next
    case False
    with tails have "json_items (map json_text as) @ CHR '']'' # r = json_items (map json_text bs') @ CHR '']'' # s" by simp
    with Cons.IH [of bs'] Cons.prems(1) show ?thesis by simp
  qed
  with ab show ?case using bs by simp
qed

lemma json_rigid: "json_rigid a"
proof (induction a)
  case (JsonArr xs)
  show ?case
    unfolding json_rigid_def
  proof (intro allI impI)
    fix b r s
    assume eq: "json_text (JsonArr xs) @ r = json_text b @ s"
    then obtain ys where b: "b = JsonArr ys" using json_text_kind [OF eq] by (auto split: json.splits)
    with eq json_items_eq [of xs r ys s] JsonArr show "JsonArr xs = b \<and> r = s" by auto
  qed
next
  case (JsonStr x)
  show ?case
    unfolding json_rigid_def
  proof (intro allI impI)
    fix b r s
    assume eq: "json_text (JsonStr x) @ r = json_text b @ s"
    then obtain y where "b = JsonStr y" using json_text_kind [OF eq] by (auto split: json.splits)
    with eq json_quote_eq show "JsonStr x = b \<and> r = s" by simp
  qed
next
  case (JsonNat x)
  show ?case
    unfolding json_rigid_def
  proof (intro allI impI)
    fix b r s
    assume eq: "json_text (JsonNat x) @ r = json_text b @ s" and d: "no_digit r" "no_digit s"
    then obtain y where "b = JsonNat y" using json_text_kind [OF eq] by (auto split: json.splits)
    with eq d nat_str_eq [of x r y s] show "JsonNat x = b \<and> r = s" by simp
  qed
next
  case JsonNull
  show ?case
    unfolding json_rigid_def
  proof (intro allI impI)
    fix b r s
    assume eq: "json_text JsonNull @ r = json_text b @ s"
    then have "b = JsonNull" using json_text_kind [OF eq] by (auto split: json.splits)
    with eq show "JsonNull = b \<and> r = s" by simp
  qed
qed

lemma json_text_inj [simp]: "json_text a = json_text b \<longleftrightarrow> a = b"
proof
  assume "json_text a = json_text b"
  with json_rigid [of a, unfolded json_rigid_def, rule_format, of "[]" b "[]"] show "a = b" by simp
qed simp

declare json_text.simps [simp del]

section \<open>Encoding (encoding.ts)\<close>

definition CORE_SCHEMA_VERSION :: int where "CORE_SCHEMA_VERSION = 1"

text \<open>\<open>HEX_DIGITS.indexOf\<close>, and the bytes of a hexadecimal string after its \<open>0x\<close>.\<close>

definition hex_index :: "char \<Rightarrow> int" where
  "hex_index c = (if is_hex c then int (hex_val c) else - 1)"

fun hex_bytes :: "string \<Rightarrow> u8 list" where
  "hex_bytes (a # b # cs) = (push_bit 4 (word_of_int (hex_index a)) OR word_of_int (hex_index b)) # hex_bytes cs"
| "hex_bytes _ = []"

definition keccakDigest :: "(u8 list \<Rightarrow> u8 list) \<Rightarrow> u8 list \<Rightarrow> string" where
  "keccakDigest keccak bytes = bytesToHex (keccak bytes)"

definition taggedWriter :: "string \<Rightarrow> u8 list option list" where
  "taggedWriter tag = [wr_str tag, wr_u16 CORE_SCHEMA_VERSION]"

definition writeDigest :: "string \<Rightarrow> u8 list option" where
  "writeDigest digest = wr_bytes32 (hex_bytes (drop 2 digest))"

definition writeI256 :: "int \<Rightarrow> u8 list option" where
  "writeI256 v = (if v < - (2 ^ 255) \<or> v \<ge> 2 ^ 255 then None else wr_u256 (if v < 0 then v + 2 ^ 256 else v))"

definition writeFlag :: "bool \<Rightarrow> u8 list option" where
  "writeFlag present = wr_u8 (if present then 1 else 0)"

definition writeOpaqueBytes :: "string \<Rightarrow> u8 list option" where
  "writeOpaqueBytes hex = (let bytes = hex_bytes (drop 2 hex)
     in wcat [wr_u16 (int (length bytes)), Some bytes])"

definition writeList :: "('a \<Rightarrow> u8 list option) \<Rightarrow> 'a list \<Rightarrow> u8 list option" where
  "writeList write items = wcat (wr_u16 (int (length items)) # map write items)"

definition writeNullable :: "('a \<Rightarrow> u8 list option) \<Rightarrow> 'a option \<Rightarrow> u8 list option" where
  "writeNullable write value =
     (case value of None \<Rightarrow> writeFlag False | Some x \<Rightarrow> wcat [writeFlag True, write x])"

text \<open>A code of a closed vocabulary.\<close>

definition writeCode :: "('a \<Rightarrow> int) \<Rightarrow> 'a \<Rightarrow> u8 list option" where
  "writeCode codes value = wr_u8 (codes value)"

fun compareBytes :: "u8 list \<Rightarrow> u8 list \<Rightarrow> int" where
  "compareBytes [] [] = 0"
| "compareBytes [] (_ # _) = - 1"
| "compareBytes (_ # _) [] = 1"
| "compareBytes (a # as) (b # bs) = (if a < b then - 1 else if b < a then 1 else compareBytes as bs)"

lemma hex_nibbles: "m < 16 \<Longrightarrow> n < 16 \<Longrightarrow>
    (push_bit 4 (word_of_int (int m)) OR word_of_int (int n) :: u8) = word_of_nat (16 * m + n)"
proof -
  assume m: "m < 16" and n: "n < 16"
  have "\<forall>m \<in> set [0..<16]. \<forall>n \<in> set [0..<16].
      (push_bit 4 (word_of_int (int m)) OR word_of_int (int n) :: u8) = word_of_nat (16 * m + n)"
    by code_simp
  with m n show ?thesis by simp
qed

lemma hex_bytes_val: "list_all is_hex s \<Longrightarrow> hex_bytes s = hex_pairs s"
proof (induction s rule: hex_bytes.induct)
  case (1 a b cs)
  then have "hex_val a < 16" "hex_val b < 16" by (auto dest: is_hex_val)
  then have "push_bit 4 (word_of_int (hex_index a)) OR word_of_int (hex_index b) =
      (word_of_nat (16 * hex_val a + hex_val b) :: u8)"
    using 1(2) hex_nibbles [of "hex_val a" "hex_val b"] by (simp add: hex_index_def)
  with 1 show ?case by simp
qed auto

lemma writeDigest_hex32: "hex_literal 64 d \<Longrightarrow> writeDigest d = wr_hex32 d"
  by (simp add: writeDigest_def wr_hex32_def bytes32ToBytes_def hex_literal_def hex_bytes_val)

lemma writeDigest_Some: "hex_literal 64 d \<Longrightarrow> writeDigest d = Some (bytes32ToBytes d)"
  by (simp add: writeDigest_hex32 wr_hex32_def wr_bytes32_def length_bytes32ToBytes)

lemma compareBytes_refl [simp]: "compareBytes a a = 0"
  by (induction a) auto

lemma compareBytes_eq_0: "compareBytes a b = 0 \<longleftrightarrow> a = b"
  by (induction a b rule: compareBytes.induct) auto

lemma compareBytes_swap: "compareBytes b a = - compareBytes a b"
  by (induction a b rule: compareBytes.induct) auto

lemma compareBytes_trans: "compareBytes a b \<le> 0 \<Longrightarrow> compareBytes b c \<le> 0 \<Longrightarrow> compareBytes a c \<le> 0"
proof (induction a b arbitrary: c rule: compareBytes.induct)
  case (2 b bs)
  then show ?case by (cases c) auto
next
  case (4 a as b bs)
  then show ?case by (cases c) (auto split: if_splits)
next
  case 1
  then show ?case by (cases c) auto
qed auto

interpretation bytes_order: comparator compareBytes
proof
  show "compareBytes a b \<le> 0 \<or> compareBytes b a \<le> 0" for a b
    using compareBytes_swap [of a b] by linarith
  show "compareBytes a b \<le> 0 \<Longrightarrow> compareBytes b c \<le> 0 \<Longrightarrow> compareBytes a c \<le> 0" for a b c
    by (rule compareBytes_trans)
  show "compareBytes a b \<le> 0 \<Longrightarrow> compareBytes b a \<le> 0 \<Longrightarrow> a = b" for a b
    using compareBytes_swap [of a b] compareBytes_eq_0 [of a b] by linarith
qed

section \<open>Parties and resources (identifiers.ts)\<close>

text \<open>Parties are the kernel's; equality is by both fields.\<close>

definition partyIdsEqual :: "party \<Rightarrow> party \<Rightarrow> bool" where
  "partyIdsEqual a b \<longleftrightarrow> kind a = kind b \<and> party_value a = party_value b"

lemma partyIdsEqual_eq [simp]: "partyIdsEqual a b \<longleftrightarrow> a = b"
  by (cases a; cases b) (auto simp: partyIdsEqual_def)

datatype resource_kind =
  MARKET | CANONICAL_ASSET | REPRESENTATION_ASSET | ACCOUNT | VENUE | RECIPIENT | PROPOSAL

fun RESOURCE_KIND_CODE :: "resource_kind \<Rightarrow> int" where
  "RESOURCE_KIND_CODE MARKET = 1"
| "RESOURCE_KIND_CODE CANONICAL_ASSET = 2"
| "RESOURCE_KIND_CODE REPRESENTATION_ASSET = 3"
| "RESOURCE_KIND_CODE ACCOUNT = 4"
| "RESOURCE_KIND_CODE VENUE = 5"
| "RESOURCE_KIND_CODE RECIPIENT = 6"
| "RESOURCE_KIND_CODE PROPOSAL = 7"

fun resource_kind_name :: "resource_kind \<Rightarrow> string" where
  "resource_kind_name MARKET = ''MARKET''"
| "resource_kind_name CANONICAL_ASSET = ''CANONICAL_ASSET''"
| "resource_kind_name REPRESENTATION_ASSET = ''REPRESENTATION_ASSET''"
| "resource_kind_name ACCOUNT = ''ACCOUNT''"
| "resource_kind_name VENUE = ''VENUE''"
| "resource_kind_name RECIPIENT = ''RECIPIENT''"
| "resource_kind_name PROPOSAL = ''PROPOSAL''"

record resource_id =
  r_domain :: string
  r_kind :: resource_kind
  r_localId :: string

definition resourceIdsEqual :: "resource_id \<Rightarrow> resource_id \<Rightarrow> bool" where
  "resourceIdsEqual a b \<longleftrightarrow> r_domain a = r_domain b \<and> r_kind a = r_kind b \<and> r_localId a = r_localId b"

lemma resourceIdsEqual_eq [simp]: "resourceIdsEqual a b \<longleftrightarrow> a = b"
  by (cases a; cases b) (auto simp: resourceIdsEqual_def)

definition writeResourceId :: "resource_id \<Rightarrow> u8 list option" where
  "writeResourceId r = wcat [wr_str (r_domain r), writeCode RESOURCE_KIND_CODE (r_kind r), wr_str (r_localId r)]"

text \<open>\<open>[r.domain, r.kind, r.localId]\<close>, the part of a map key that names a resource.\<close>

definition resource_json :: "resource_id \<Rightarrow> json" where
  "resource_json r = JsonArr [JsonStr (r_domain r), JsonStr (resource_kind_name (r_kind r)), JsonStr (r_localId r)]"

section \<open>Modules and adapters (module.ts)\<close>

record module_ref =
  domainId :: string
  moduleId :: string
  moduleVersion :: nat
  moduleDigest :: string

definition writeModuleRef :: "module_ref \<Rightarrow> u8 list option" where
  "writeModuleRef m = wcat [wr_str (domainId m), wr_str (moduleId m), wr_u32 (int (moduleVersion m)),
     writeDigest (moduleDigest m)]"

definition moduleRefsEqual :: "module_ref \<Rightarrow> module_ref \<Rightarrow> bool" where
  "moduleRefsEqual a b \<longleftrightarrow> domainId a = domainId b \<and> moduleId a = moduleId b \<and>
     moduleVersion a = moduleVersion b \<and> moduleDigest a = moduleDigest b"

lemma moduleRefsEqual_eq [simp]: "moduleRefsEqual a b \<longleftrightarrow> a = b"
  by (cases a; cases b) (auto simp: moduleRefsEqual_def)

record adapter_ref =
  adapterId :: string
  adapterVersion :: nat
  adapterDigest :: string

definition writeAdapterRef :: "adapter_ref \<Rightarrow> u8 list option" where
  "writeAdapterRef a = wcat [wr_str (adapterId a), wr_u32 (int (adapterVersion a)), writeDigest (adapterDigest a)]"

definition adapterRefsEqual :: "adapter_ref \<Rightarrow> adapter_ref \<Rightarrow> bool" where
  "adapterRefsEqual a b \<longleftrightarrow> adapterId a = adapterId b \<and> adapterVersion a = adapterVersion b \<and>
     adapterDigest a = adapterDigest b"

lemma adapterRefsEqual_eq [simp]: "adapterRefsEqual a b \<longleftrightarrow> a = b"
  by (cases a; cases b) (auto simp: adapterRefsEqual_def)

end
