(* ===== verification/Core_Quantity.thy ===== *)
theory Core_Quantity
  imports Core_Base
begin

text \<open>
  Economic quantities (\<open>packages/core/src/quantity.ts\<close>): kinds with their rules, valuations, exact arithmetic
  on atoms, limits, ratios and fixed-point text. A number is an integer; \<open>decimals\<close> is a natural number.
\<close>

section \<open>Errors (errors.ts)\<close>

text \<open>\<open>CoreError\<close>: a code and the path of the offending field.\<close>

type_synonym core_error = "string \<times> string"

definition UINT256_MAX_core :: int where "UINT256_MAX_core = 2 ^ 256 - 1"
definition INT256_MIN :: int where "INT256_MIN = - (2 ^ 255)"
definition INT256_MAX :: int where "INT256_MAX = 2 ^ 255 - 1"
definition MAX_DECIMALS_core :: nat where "MAX_DECIMALS_core = 38"

section \<open>Kinds\<close>

datatype quantity_kind =
    TOKEN_AMOUNT | CAPITAL | POSITION_SIZE | NOTIONAL | GROSS_EXPOSURE | NET_EXPOSURE
  | MARGIN | COLLATERAL | DEBT | PNL | COUNT

datatype valuation_basis = EXECUTION | LIMIT | MARK

datatype asset_requirement =
  NeedsRepresentation | NeedsCanonical | MayBeCanonical | AnyAsset | NoAsset

record quantity_rule =
  signed_kind :: bool
  asset_rule :: asset_requirement
  valuationBases :: "valuation_basis list"
  valuationRequired :: bool
  ledgerTrackable :: bool

fun QUANTITY_KIND_RULES :: "quantity_kind \<Rightarrow> quantity_rule" where
  "QUANTITY_KIND_RULES TOKEN_AMOUNT = \<lparr>signed_kind = False, asset_rule = NeedsRepresentation, valuationBases = [], valuationRequired = False, ledgerTrackable = True\<rparr>"
| "QUANTITY_KIND_RULES CAPITAL = \<lparr>signed_kind = False, asset_rule = AnyAsset, valuationBases = [], valuationRequired = False, ledgerTrackable = True\<rparr>"
| "QUANTITY_KIND_RULES POSITION_SIZE = \<lparr>signed_kind = True, asset_rule = NeedsCanonical, valuationBases = [], valuationRequired = False, ledgerTrackable = True\<rparr>"
| "QUANTITY_KIND_RULES NOTIONAL = \<lparr>signed_kind = False, asset_rule = NeedsCanonical, valuationBases = [EXECUTION, LIMIT], valuationRequired = True, ledgerTrackable = True\<rparr>"
| "QUANTITY_KIND_RULES GROSS_EXPOSURE = \<lparr>signed_kind = False, asset_rule = MayBeCanonical, valuationBases = [MARK], valuationRequired = True, ledgerTrackable = False\<rparr>"
| "QUANTITY_KIND_RULES NET_EXPOSURE = \<lparr>signed_kind = True, asset_rule = NeedsCanonical, valuationBases = [MARK], valuationRequired = True, ledgerTrackable = False\<rparr>"
| "QUANTITY_KIND_RULES MARGIN = \<lparr>signed_kind = False, asset_rule = AnyAsset, valuationBases = [], valuationRequired = False, ledgerTrackable = True\<rparr>"
| "QUANTITY_KIND_RULES COLLATERAL = \<lparr>signed_kind = False, asset_rule = AnyAsset, valuationBases = [], valuationRequired = False, ledgerTrackable = True\<rparr>"
| "QUANTITY_KIND_RULES DEBT = \<lparr>signed_kind = False, asset_rule = AnyAsset, valuationBases = [], valuationRequired = False, ledgerTrackable = True\<rparr>"
| "QUANTITY_KIND_RULES PNL = \<lparr>signed_kind = True, asset_rule = NoAsset, valuationBases = [MARK], valuationRequired = False, ledgerTrackable = True\<rparr>"
| "QUANTITY_KIND_RULES COUNT = \<lparr>signed_kind = False, asset_rule = NoAsset, valuationBases = [], valuationRequired = False, ledgerTrackable = True\<rparr>"

fun QUANTITY_KIND_CODE :: "quantity_kind \<Rightarrow> int" where
  "QUANTITY_KIND_CODE TOKEN_AMOUNT = 1"
| "QUANTITY_KIND_CODE CAPITAL = 2"
| "QUANTITY_KIND_CODE POSITION_SIZE = 3"
| "QUANTITY_KIND_CODE NOTIONAL = 4"
| "QUANTITY_KIND_CODE GROSS_EXPOSURE = 5"
| "QUANTITY_KIND_CODE NET_EXPOSURE = 6"
| "QUANTITY_KIND_CODE MARGIN = 7"
| "QUANTITY_KIND_CODE COLLATERAL = 8"
| "QUANTITY_KIND_CODE DEBT = 9"
| "QUANTITY_KIND_CODE PNL = 10"
| "QUANTITY_KIND_CODE COUNT = 11"

fun quantity_kind_name :: "quantity_kind \<Rightarrow> string" where
  "quantity_kind_name TOKEN_AMOUNT = ''TOKEN_AMOUNT''"
| "quantity_kind_name CAPITAL = ''CAPITAL''"
| "quantity_kind_name POSITION_SIZE = ''POSITION_SIZE''"
| "quantity_kind_name NOTIONAL = ''NOTIONAL''"
| "quantity_kind_name GROSS_EXPOSURE = ''GROSS_EXPOSURE''"
| "quantity_kind_name NET_EXPOSURE = ''NET_EXPOSURE''"
| "quantity_kind_name MARGIN = ''MARGIN''"
| "quantity_kind_name COLLATERAL = ''COLLATERAL''"
| "quantity_kind_name DEBT = ''DEBT''"
| "quantity_kind_name PNL = ''PNL''"
| "quantity_kind_name COUNT = ''COUNT''"

fun VALUATION_BASIS_CODE :: "valuation_basis \<Rightarrow> int" where
  "VALUATION_BASIS_CODE EXECUTION = 1"
| "VALUATION_BASIS_CODE LIMIT = 2"
| "VALUATION_BASIS_CODE MARK = 3"

definition atomsInRange :: "bool \<Rightarrow> int \<Rightarrow> bool" where
  "atomsInRange is_signed n = (if is_signed then n \<ge> INT256_MIN \<and> n \<le> INT256_MAX else n \<ge> 0 \<and> n \<le> UINT256_MAX_core)"

section \<open>Prices and valuations\<close>

record core_price =
  cp_numeratorUnit :: string
  cp_denominatorUnit :: string
  cp_decimals :: nat
  cp_atoms :: int

datatype price_source = FromState string | FromObservation string | FromAction string

fun PRICE_SOURCE_CODE :: "price_source \<Rightarrow> int" where
  "PRICE_SOURCE_CODE (FromState _) = 1"
| "PRICE_SOURCE_CODE (FromObservation _) = 2"
| "PRICE_SOURCE_CODE (FromAction _) = 3"

fun source_digest :: "price_source \<Rightarrow> string" where
  "source_digest (FromState d) = d"
| "source_digest (FromObservation d) = d"
| "source_digest (FromAction d) = d"

record valuation_ref =
  v_price :: core_price
  v_basis :: valuation_basis
  v_source :: price_source
  v_observedAt :: int

definition write_core_price :: "core_price \<Rightarrow> u8 list option" where
  "write_core_price p = wcat [wr_str (cp_numeratorUnit p), wr_str (cp_denominatorUnit p),
     wr_u8 (int (cp_decimals p)), wr_u256 (cp_atoms p)]"

definition writeValuation :: "valuation_ref \<Rightarrow> u8 list option" where
  "writeValuation v = wcat [
     write_core_price (v_price v),
     writeCode VALUATION_BASIS_CODE (v_basis v),
     writeCode PRICE_SOURCE_CODE (v_source v),
     writeDigest (source_digest (v_source v)),
     wr_i64 (v_observedAt v)]"

section \<open>Quantities\<close>

record quantity =
  q_kind :: quantity_kind
  q_unit :: string
  q_decimals :: nat
  q_atoms :: int
  q_asset :: "resource_id option"
  q_valuation :: "valuation_ref option"

definition writeQuantityBody :: "quantity \<Rightarrow> u8 list option" where
  "writeQuantityBody q = wcat [
     writeCode QUANTITY_KIND_CODE (q_kind q),
     wr_str (q_unit q), wr_u8 (int (q_decimals q)),
     (if signed_kind (QUANTITY_KIND_RULES (q_kind q)) then writeI256 (q_atoms q) else wr_u256 (q_atoms q)),
     writeNullable writeResourceId (q_asset q),
     writeNullable writeValuation (q_valuation q)]"

definition QUANTITY_TAG :: string where "QUANTITY_TAG = ''mandate-core/v1/quantity''"

definition encodeQuantity :: "quantity \<Rightarrow> u8 list option" where
  "encodeQuantity q = wcat (taggedWriter QUANTITY_TAG @ [writeQuantityBody q])"

definition quantityDigest :: "(u8 list \<Rightarrow> u8 list) \<Rightarrow> quantity \<Rightarrow> string option" where
  "quantityDigest keccak q = map_option (keccakDigest keccak) (encodeQuantity q)"

section \<open>Compatibility and arithmetic\<close>

datatype quantity_mismatch = KIND | UNIT | ASSET | DECIMALS | VALUATION

definition assetsEqual :: "resource_id option \<Rightarrow> resource_id option \<Rightarrow> bool" where
  "assetsEqual a b = (case (a, b) of
     (Some x, Some y) \<Rightarrow> r_domain x = r_domain y \<and> r_kind x = r_kind y \<and> r_localId x = r_localId y
   | _ \<Rightarrow> a = b)"

text \<open>Valuations are compared by their encodings, which throw outside their ranges.\<close>

definition valuationsEqual :: "valuation_ref option \<Rightarrow> valuation_ref option \<Rightarrow> bool option" where
  "valuationsEqual a b = (case (a, b) of
     (Some x, Some y) \<Rightarrow> do { ex \<leftarrow> writeValuation x; ey \<leftarrow> writeValuation y; Some (compareBytes ex ey = 0) }
   | _ \<Rightarrow> Some (a = b))"

definition quantityMismatches :: "quantity \<Rightarrow> quantity \<Rightarrow> quantity_mismatch list option" where
  "quantityMismatches a b = do {
     same \<leftarrow> valuationsEqual (q_valuation a) (q_valuation b);
     Some ((if q_kind a \<noteq> q_kind b then [KIND] else []) @
       (if q_unit a \<noteq> q_unit b then [UNIT] else []) @
       (if \<not> assetsEqual (q_asset a) (q_asset b) then [ASSET] else []) @
       (if q_decimals a \<noteq> q_decimals b then [DECIMALS] else []) @
       (if \<not> same then [VALUATION] else [])) }"

fun MISMATCH_CODE :: "quantity_mismatch \<Rightarrow> string" where
  "MISMATCH_CODE KIND = ''QUANTITY_KIND_MISMATCH''"
| "MISMATCH_CODE UNIT = ''QUANTITY_UNIT_MISMATCH''"
| "MISMATCH_CODE ASSET = ''QUANTITY_ASSET_MISMATCH''"
| "MISMATCH_CODE DECIMALS = ''QUANTITY_DECIMALS_MISMATCH''"
| "MISMATCH_CODE VALUATION = ''QUANTITY_VALUATION_MISMATCH''"

definition requireCompatible :: "quantity \<Rightarrow> quantity \<Rightarrow> (core_error + unit) option" where
  "requireCompatible a b = map_option (\<lambda>ms.
       if ms = [] then Inr () else Inl (MISMATCH_CODE (hd ms), ''quantity'')) (quantityMismatches a b)"

definition withAtoms :: "quantity \<Rightarrow> int \<Rightarrow> nat \<Rightarrow> core_error + quantity" where
  "withAtoms q n dec =
     (let rule = QUANTITY_KIND_RULES (q_kind q)
      in if \<not> signed_kind rule \<and> n < 0 then Inl (''QUANTITY_NEGATIVE_UNSIGNED'', ''quantity.atoms'')
         else if \<not> atomsInRange (signed_kind rule) n then Inl (''QUANTITY_OUT_OF_RANGE'', ''quantity.atoms'')
         else Inr \<lparr>q_kind = q_kind q, q_unit = q_unit q, q_decimals = dec, q_atoms = n,
                    q_asset = q_asset q, q_valuation = q_valuation q\<rparr>)"

definition addQuantities :: "quantity \<Rightarrow> quantity \<Rightarrow> (core_error + quantity) option" where
  "addQuantities a b = map_option (\<lambda>c. rbind c (\<lambda>_. withAtoms a (q_atoms a + q_atoms b) (q_decimals a)))
     (requireCompatible a b)"

definition subtractQuantities :: "quantity \<Rightarrow> quantity \<Rightarrow> (core_error + quantity) option" where
  "subtractQuantities a b = map_option (\<lambda>c. rbind c (\<lambda>_. withAtoms a (q_atoms a - q_atoms b) (q_decimals a)))
     (requireCompatible a b)"

definition compareQuantities :: "quantity \<Rightarrow> quantity \<Rightarrow> (core_error + int) option" where
  "compareQuantities a b = map_option (\<lambda>c. rbind c (\<lambda>_.
       Inr (if q_atoms a < q_atoms b then - 1 else if q_atoms a > q_atoms b then 1 else 0)))
     (requireCompatible a b)"

text \<open>\<open>parseDecimals_core\<close> of a non-negative safe integer.\<close>

definition parseDecimals_core :: "nat \<Rightarrow> string \<Rightarrow> core_error + nat" where
  "parseDecimals_core raw path = (if raw > MAX_DECIMALS_core then Inl (''INVALID_DECIMALS'', path) else Inr raw)"

definition rescaleQuantity :: "quantity \<Rightarrow> nat \<Rightarrow> core_error + quantity" where
  "rescaleQuantity q dec = rbind (parseDecimals_core dec ''decimals'') (\<lambda>d.
     if d \<ge> q_decimals q then withAtoms q (q_atoms q * 10 ^ (d - q_decimals q)) d
     else let divisor = 10 ^ (q_decimals q - d)
       in if big_mod (q_atoms q) divisor \<noteq> 0 then Inl (''INEXACT_RESCALE'', ''decimals'')
          else withAtoms q (big_div (q_atoms q) divisor) d)"

section \<open>Bounds and ratios\<close>

record quantity_bound =
  b_kind :: quantity_kind
  b_unit :: string
  b_decimals :: nat
  b_atoms :: int

definition writeQuantityBound :: "quantity_bound \<Rightarrow> u8 list option" where
  "writeQuantityBound b = wcat [writeCode QUANTITY_KIND_CODE (b_kind b),
     wr_str (b_unit b), wr_u8 (int (b_decimals b)), wr_u256 (b_atoms b)]"

record ratio =
  numerator :: int
  ratio_scale :: nat

definition writeRatio :: "ratio \<Rightarrow> u8 list option" where
  "writeRatio r = wcat [wr_u256 (numerator r), wr_u8 (int (ratio_scale r))]"

definition compareRatios :: "ratio \<Rightarrow> ratio \<Rightarrow> int" where
  "compareRatios a b =
     (let left = numerator a * 10 ^ ratio_scale b; right = numerator b * 10 ^ ratio_scale a
      in if left < right then - 1 else if left > right then 1 else 0)"

section \<open>Fixed-point text\<close>

definition padStart :: "nat \<Rightarrow> char \<Rightarrow> string \<Rightarrow> string" where
  "padStart n c s = replicate (n - length s) c @ s"

definition formatFixedDecimal :: "int \<Rightarrow> nat \<Rightarrow> string" where
  "formatFixedDecimal n dec =
     (let digits = padStart (dec + 1) CHR ''0'' (nat_str (nat \<bar>n\<bar>));
          cut = length digits - dec;
          text = (if dec = 0 then digits else take cut digits @ ''.'' @ drop cut digits)
      in if n < 0 then ''-'' @ text else text)"

text \<open>\<open>/^-?(?:0|[1-9][0-9]*)\<close> and, with decimals, a point and as many digits\<open>$/\<close>.\<close>

definition whole_part :: "string \<Rightarrow> bool" where
  "whole_part s \<longleftrightarrow> s = ''0'' \<or> (s \<noteq> [] \<and> hd s \<noteq> CHR ''0'' \<and> list_all is_digit s)"

definition fixed_pattern :: "nat \<Rightarrow> string \<Rightarrow> bool" where
  "fixed_pattern d s \<longleftrightarrow>
     (let u = (if take 1 s = ''-'' then drop 1 s else s); cut = length u - (d + 1)
      in if d = 0 then whole_part u
         else d + 1 < length u \<and> whole_part (take cut u) \<and> u ! cut = CHR ''.'' \<and> list_all is_digit (drop (cut + 1) u))"

definition without_point :: "string \<Rightarrow> string" where
  "without_point s = takeWhile (\<lambda>c. c \<noteq> CHR ''.'') s @ drop 1 (dropWhile (\<lambda>c. c \<noteq> CHR ''.'') s)"

definition signed_val :: "string \<Rightarrow> int" where
  "signed_val s = (if take 1 s = ''-'' then - int (digits_val (drop 1 s)) else int (digits_val s))"

definition parseFixedDecimal :: "string \<Rightarrow> nat \<Rightarrow> string \<Rightarrow> core_error + int" where
  "parseFixedDecimal text dec path = rbind (parseDecimals_core dec path) (\<lambda>d.
     if js_length text > 120 then Inl (''NON_CANONICAL_DECIMAL'', path)
     else if \<not> fixed_pattern d text then Inl (''NON_CANONICAL_DECIMAL'', path)
     else let n = signed_val (without_point text)
       in if n = 0 \<and> take 1 text = ''-'' then Inl (''NON_CANONICAL_DECIMAL'', path)
          else Inr n)"

section \<open>What arithmetic preserves\<close>

text \<open>The value a quantity stands for: its atoms over \<open>10^dec\<close>.\<close>

definition quantity_value :: "quantity \<Rightarrow> rat" where
  "quantity_value q = of_int (q_atoms q) / 10 ^ q_decimals q"

lemma withAtoms_Inr: "withAtoms q n d = Inr r \<longleftrightarrow>
    atomsInRange (signed_kind (QUANTITY_KIND_RULES (q_kind q))) n \<and> r = q\<lparr>q_atoms := n, q_decimals := d\<rparr>"
  by (cases q) (auto simp: withAtoms_def Let_def atomsInRange_def)

lemma assetsEqual_eq [simp]: "assetsEqual a b \<longleftrightarrow> a = b"
  by (auto simp: assetsEqual_def split: option.splits)

lemma requireCompatible_ok: "requireCompatible a b = Some (Inr u) \<Longrightarrow>
    q_kind a = q_kind b \<and> q_unit a = q_unit b \<and> q_asset a = q_asset b \<and> q_decimals a = q_decimals b"
  by (auto simp: requireCompatible_def quantityMismatches_def bind_eq_Some_conv split: if_splits)

lemma requireCompatible_kind: "q_kind a \<noteq> q_kind b \<Longrightarrow> requireCompatible a b = Some r \<Longrightarrow>
    r = Inl (''QUANTITY_KIND_MISMATCH'', ''quantity'')"
  by (auto simp: requireCompatible_def quantityMismatches_def bind_eq_Some_conv)

lemma addQuantities_ok:
  assumes "addQuantities a b = Some (Inr r)"
  shows "quantity_value r = quantity_value a + quantity_value b"
    "q_kind r = q_kind b \<and> q_unit r = q_unit b \<and> q_asset r = q_asset b \<and> q_decimals r = q_decimals b"
  using assms requireCompatible_ok [of a b]
  by (auto simp: addQuantities_def rbind_eq_Inr withAtoms_Inr quantity_value_def add_divide_distrib)

lemma subtractQuantities_ok:
  assumes "subtractQuantities a b = Some (Inr r)"
  shows "quantity_value r = quantity_value a - quantity_value b"
    "q_kind r = q_kind b \<and> q_unit r = q_unit b \<and> q_asset r = q_asset b \<and> q_decimals r = q_decimals b"
  using assms requireCompatible_ok [of a b]
  by (auto simp: subtractQuantities_def rbind_eq_Inr withAtoms_Inr quantity_value_def diff_divide_distrib)

lemma compareQuantities_ok:
  assumes "compareQuantities a b = Some (Inr c)"
  shows "c = (if quantity_value a < quantity_value b then - 1 else if quantity_value b < quantity_value a then 1 else 0)"
  using assms requireCompatible_ok [of a b]
  by (auto simp: compareQuantities_def rbind_eq_Inr quantity_value_def divide_less_cancel split: if_splits)

lemma big_mod_0: "0 < m \<Longrightarrow> big_mod n m = 0 \<Longrightarrow> n = big_div n m * m"
  by (simp add: big_mod_def mult.commute)

lemma rescaleQuantity_ok:
  assumes "rescaleQuantity q d = Inr r"
  shows "quantity_value r = quantity_value q" "q_decimals r = d" "q_kind r = q_kind q"
proof -
  from assms show "q_decimals r = d" "q_kind r = q_kind q"
    by (auto simp: rescaleQuantity_def rbind_eq_Inr parseDecimals_core_def withAtoms_Inr Let_def split: if_splits)
  show "quantity_value r = quantity_value q"
  proof (cases "q_decimals q \<le> d")
    case True
    with assms have "r = q\<lparr>q_atoms := q_atoms q * 10 ^ (d - q_decimals q), q_decimals := d\<rparr>"
      by (auto simp: rescaleQuantity_def rbind_eq_Inr parseDecimals_core_def withAtoms_Inr split: if_splits)
    with True show ?thesis
      by (simp add: quantity_value_def frac_eq_eq power_add [symmetric] mult.assoc)
  next
    case False
    let ?m = "(10 :: int) ^ (q_decimals q - d)"
    from False assms have r: "r = q\<lparr>q_atoms := big_div (q_atoms q) ?m, q_decimals := d\<rparr>"
        and "big_mod (q_atoms q) ?m = 0"
      by (auto simp: rescaleQuantity_def rbind_eq_Inr parseDecimals_core_def withAtoms_Inr Let_def split: if_splits)
    then have "q_atoms q = big_div (q_atoms q) ?m * ?m" by (intro big_mod_0) simp_all
    then have eq: "(of_int (q_atoms q) :: rat) = of_int (big_div (q_atoms q) ?m) * 10 ^ (q_decimals q - d)"
      by (metis of_int_mult of_int_numeral of_int_power)
    from False show ?thesis
      by (simp add: r quantity_value_def frac_eq_eq) (simp add: eq mult.assoc flip: power_add)
  qed
qed

text \<open>Rescaling up and back gives the quantity again.\<close>

lemma big_div_mult: "0 < m \<Longrightarrow> big_div (n * m) m = n"
  by (simp add: big_div_def sgn_mult abs_mult sgn_mult_abs)

section \<open>Text round trip\<close>

lemma digit_char_0: "digit_char 0 = CHR ''0''"
  by (simp add: digit_char_def flip: of_char_eq_iff [where ?'a = nat])

lemma digits_val_zeros: "digits_val (replicate k CHR ''0'' @ s) = digits_val s"
proof -
  have "foldl (\<lambda>v c. 10 * v + digit_val c) 0 (replicate k CHR ''0'') = 0"
    by (induction k) (simp_all add: digit_val_def)
  then show ?thesis by (simp add: digits_val_def)
qed

lemma padStart_props:
  "length (padStart (Suc d) CHR ''0'' (nat_str m)) = max (Suc d) (length (nat_str m))"
  "list_all is_digit (padStart (Suc d) CHR ''0'' (nat_str m))"
  "digits_val (padStart (Suc d) CHR ''0'' (nat_str m)) = m"
proof -
  have "is_digit CHR ''0''" by (simp add: is_digit_def)
  then show "list_all is_digit (padStart (Suc d) CHR ''0'' (nat_str m))"
    using nat_str_digits [of m] by (auto simp: padStart_def list_all_iff)
qed (auto simp: padStart_def digits_val_zeros)

lemma padStart_whole:
  defines "ds m d \<equiv> padStart (Suc d) CHR ''0'' (nat_str m)"
  shows "whole_part (take (length (ds m d) - d) (ds m d))"
proof (cases "m = 0")
  case True
  have "nat_str 0 = ''0''" by (subst nat_str.simps) (simp add: digit_char_0)
  with True show ?thesis by (simp add: ds_def padStart_def whole_part_def replicate_append_same)
next
  case False
  note hd = nat_str_hd [of m] and digs = padStart_props(2) [of d m]
  show ?thesis
  proof (cases "length (nat_str m) \<le> d")
    case True
    then have "take (length (ds m d) - d) (ds m d) = ''0''"
      by (simp add: ds_def padStart_def Suc_diff_le)
    then show ?thesis by (simp add: whole_part_def)
  next
    case len: False
    then have ds: "ds m d = nat_str m" by (simp add: ds_def padStart_def)
    obtain c cs where c: "nat_str m = c # cs" by (cases "nat_str m") auto
    from len obtain j where j: "length (nat_str m) - d = Suc j" by (metis Suc_diff_Suc not_le)
    have "list_all is_digit (c # take j cs)"
      using nat_str_digits [of m] c by (auto simp: list_all_iff dest: in_set_takeD)
    moreover have "take (length (nat_str m) - d) (nat_str m) = c # take j cs" by (simp add: j) (simp add: c)
    ultimately show ?thesis using hd False by (simp add: ds whole_part_def c)
  qed
qed

lemma digits_no_point: "list_all is_digit s \<Longrightarrow> CHR ''.'' \<notin> set s \<and> CHR ''-'' \<notin> set s"
  by (auto simp: list_all_iff is_digit_def)

lemma without_point_none: "CHR ''.'' \<notin> set s \<Longrightarrow> without_point s = s"
  by (induction s) (auto simp: without_point_def)

lemma without_point_digits: "list_all is_digit a \<Longrightarrow> without_point (a @ CHR ''.'' # b) = a @ b"
proof -
  assume "list_all is_digit a"
  then have "takeWhile (\<lambda>c. c \<noteq> CHR ''.'') (a @ CHR ''.'' # b) = a"
    "dropWhile (\<lambda>c. c \<noteq> CHR ''.'') (a @ CHR ''.'' # b) = CHR ''.'' # b"
    using digits_no_point by (auto simp: takeWhile_append dropWhile_append)
  then show ?thesis by (simp add: without_point_def)
qed

lemma signed_val_plain: "list_all is_digit s \<Longrightarrow> signed_val s = int (digits_val s)"
  by (cases s) (auto simp: signed_val_def is_digit_def)

lemma formatFixedDecimal_ascii: "is_ascii (formatFixedDecimal n d)"
proof -
  have "list_all is_digit s \<Longrightarrow> is_ascii s" for s
    by (fastforce simp: is_ascii_def is_digit_def list_all_iff)
  then have ds: "is_ascii (padStart (Suc d) CHR ''0'' (nat_str m))" for m using padStart_props(2) by blast
  show ?thesis
    using ds [of "nat \<bar>n\<bar>"]
    by (auto simp: formatFixedDecimal_def is_ascii_def Let_def dest: in_set_takeD in_set_dropD)
qed

lemma fixed_pattern_neg: "fixed_pattern d s \<Longrightarrow> take 1 s \<noteq> ''-'' \<Longrightarrow> fixed_pattern d (CHR ''-'' # s)"
  by (simp add: fixed_pattern_def)

lemma without_point_neg: "without_point (CHR ''-'' # s) = CHR ''-'' # without_point s"
  by (simp add: without_point_def)

lemma parse_format_fixed:
  assumes "d \<le> MAX_DECIMALS_core" "length (formatFixedDecimal n d) \<le> 120"
  shows "parseFixedDecimal (formatFixedDecimal n d) d path = Inr n"
proof -
  let ?m = "nat \<bar>n\<bar>"
  define ds0 where "ds0 = padStart (Suc d) CHR ''0'' (nat_str ?m)"
  let ?ds = ds0
  let ?cut = "length ?ds - d"
  let ?body = "if d = 0 then ?ds else take ?cut ?ds @ ''.'' @ drop ?cut ?ds"
  note ds = padStart_props [of d ?m, folded ds0_def]
  have cut: "0 < ?cut" "?cut + d = length ?ds" using ds(1) by auto
  have digits: "list_all is_digit (take ?cut ?ds)" "list_all is_digit (drop ?cut ?ds)"
    using ds(2) by (metis append_take_drop_id list_all_append)+
  have whole: "whole_part (take ?cut ?ds)" unfolding ds0_def by (rule padStart_whole)
  have hd: "take 1 ?body \<noteq> ''-''"
    using digits_no_point [OF ds(2)] cut by (cases ?ds) (auto split: nat.splits simp: take_Cons')
  have body: "fixed_pattern d ?body" "without_point ?body = ?ds"
  proof -
    have "d \<noteq> 0 \<Longrightarrow> length ?body - (d + 1) = ?cut" using cut by simp
    then show "fixed_pattern d ?body"
      using hd whole cut digits by (auto simp: fixed_pattern_def Let_def nth_append)
    show "without_point ?body = ?ds"
    proof (cases "d = 0")
      case True
      then show ?thesis using digits_no_point [OF ds(2)] by (simp add: without_point_none)
    next
      case False
      then show ?thesis using without_point_digits [OF digits(1)] by simp
    qed
  qed
  have neg: "fixed_pattern d (CHR ''-'' # ?body)" "without_point (CHR ''-'' # ?body) = CHR ''-'' # ?ds"
    using fixed_pattern_neg [OF body(1) hd] body(2) by (simp_all add: without_point_neg)
  have val: "signed_val ?ds = int ?m" "signed_val (CHR ''-'' # ?ds) = - int ?m"
    using signed_val_plain [OF ds(2)] ds(3) by (simp, simp add: signed_val_def)
  have "\<not> js_length (formatFixedDecimal n d) > 120"
    using assms(2) by (simp add: js_length_ascii formatFixedDecimal_ascii)
  moreover have "formatFixedDecimal n d = (if n < 0 then CHR ''-'' # ?body else ?body)"
    by (simp add: formatFixedDecimal_def Let_def flip: ds0_def)
  ultimately have t: "formatFixedDecimal n d = (if n < 0 then CHR ''-'' # ?body else ?body)"
      "\<not> js_length (formatFixedDecimal n d) > 120" by blast+
  have parse: "parseFixedDecimal t d path = Inr n"
    if "fixed_pattern d t" "\<not> js_length t > 120" "signed_val (without_point t) = n" "n = 0 \<longrightarrow> take 1 t \<noteq> ''-''" for t
    using that assms(1) by (simp add: parseFixedDecimal_def parseDecimals_core_def Let_def)
  show ?thesis
  proof (cases "n < 0")
    case True
    then have eq: "formatFixedDecimal n d = CHR ''-'' # ?body" using t(1) by simp
    show ?thesis
      by (rule parse [OF _ t(2)]; subst eq) (use True neg val in simp_all)
  next
    case False
    then have eq: "formatFixedDecimal n d = ?body" using t(1) by simp
    show ?thesis
      by (rule parse [OF _ t(2)]; subst eq) (use False body val hd in simp_all)
  qed
qed

text \<open>Longer text is refused, and so the length limit decides.\<close>

lemma parse_format_fixed_iff:
  assumes "d \<le> MAX_DECIMALS_core"
  shows "parseFixedDecimal (formatFixedDecimal n d) d path =
    (if length (formatFixedDecimal n d) \<le> 120 then Inr n else Inl (''NON_CANONICAL_DECIMAL'', path))"
  using parse_format_fixed [OF assms, of n path] assms
  by (simp add: parseFixedDecimal_def parseDecimals_core_def js_length_ascii formatFixedDecimal_ascii)

text \<open>How long the text is: the digits, at least one more than the decimals, a sign and a point.\<close>

lemma length_formatFixedDecimal:
  "length (formatFixedDecimal n d) =
     max (Suc d) (length (nat_str (nat \<bar>n\<bar>))) + (if n < 0 then 1 else 0) + (if d = 0 then 0 else 1)"
  by (auto simp: formatFixedDecimal_def Let_def padStart_props(1))

lemma fixed_decimal_fits:
  assumes "d \<le> MAX_DECIMALS_core" "\<bar>n\<bar> < 10 ^ 118"
  shows "length (formatFixedDecimal n d) \<le> 120"
proof -
  have "length (nat_str (nat \<bar>n\<bar>)) \<le> 118" using assms(2) by (intro length_nat_str) (simp_all add: nat_less_iff)
  then have "max (Suc d) (length (nat_str (nat \<bar>n\<bar>))) \<le> 118" using assms(1) by (simp only: MAX_DECIMALS_core_def max.bounded_iff) simp
  moreover have "(if n < 0 then 1 else 0) + (if d = 0 then 0 else 1) \<le> (2 :: nat)" by simp
  ultimately show ?thesis unfolding length_formatFixedDecimal by linarith
qed

end
