(* ===== verification/Core_Terms.thy ===== *)
theory Core_Terms
  imports Core_Quantity
begin

text \<open>
  Authority terms (\<open>packages/core/src/terms.ts\<close>), the state requirements they carry (\<open>state.ts\<close>), and the
  grants and principal policies made of them (\<open>authority.ts\<close>), with their encodings and content identities.
\<close>

section \<open>State requirements (state.ts)\<close>

record finality_ref =
  ladder :: string
  level :: string

definition writeFinality :: "finality_ref \<Rightarrow> u8 list option" where
  "writeFinality f = wcat [wr_str (ladder f), wr_str (level f)]"

datatype freshness_policy =
    AGE (age_seconds: int)
  | BLOCKS (blocks_behind: int)
  | SEQUENCE
  | VERSION (pinned_digest: string) (version_seconds: int)

fun writeFreshness :: "freshness_policy \<Rightarrow> u8 list option" where
  "writeFreshness (AGE s) = wcat [wr_u8 1, wr_u32 s]"
| "writeFreshness (BLOCKS n) = wcat [wr_u8 2, wr_u64 n]"
| "writeFreshness SEQUENCE = wcat [wr_u8 3]"
| "writeFreshness (VERSION d s) = wcat [wr_u8 4, writeDigest d, wr_u32 s]"

datatype execution_dependence = NOT_REQUIRED | ENFORCED_BY_ARTIFACT string | BOUNDED_BY_FRESHNESS

fun writeDependence :: "execution_dependence \<Rightarrow> u8 list option" where
  "writeDependence NOT_REQUIRED = wr_u8 1"
| "writeDependence (ENFORCED_BY_ARTIFACT field) = wcat [wr_u8 2, wr_str field]"
| "writeDependence BOUNDED_BY_FRESHNESS = wr_u8 3"

datatype admissible_trust = MinAuthoritative | MinVerified

fun min_trust_code :: "admissible_trust \<Rightarrow> int" where
  "min_trust_code MinAuthoritative = 1"
| "min_trust_code MinVerified = 2"

datatype at_issue = WITHIN_POLICY | RECHECK

fun AT_ISSUE_CODE :: "at_issue \<Rightarrow> int" where
  "AT_ISSUE_CODE WITHIN_POLICY = 1"
| "AT_ISSUE_CODE RECHECK = 2"

record state_requirement =
  freshness :: freshness_policy
  minTrust :: admissible_trust
  minFinality :: finality_ref
  atIssue :: at_issue
  atExecution :: execution_dependence

definition writeStateRequirement :: "state_requirement \<Rightarrow> u8 list option" where
  "writeStateRequirement s = wcat [
     writeFreshness (freshness s),
     writeCode min_trust_code (minTrust s),
     writeFinality (minFinality s),
     writeCode AT_ISSUE_CODE (atIssue s),
     writeDependence (atExecution s)]"

section \<open>Terms (terms.ts)\<close>

record action_type_ref =
  at_domain :: string
  at_actionType :: string

definition writeActionTypeRef :: "action_type_ref \<Rightarrow> u8 list option" where
  "writeActionTypeRef a = wcat [wr_str (at_domain a), wr_str (at_actionType a)]"

datatype set_constraint =
    MODULES "module_ref list"
  | ADAPTERS "adapter_ref list"
  | MARKETS "resource_id list"
  | ASSETS "resource_id list"
  | VENUES "resource_id list"
  | RECIPIENTS "resource_id list"
  | ACTION_TYPES "action_type_ref list"

fun vocabulary_name :: "set_constraint \<Rightarrow> string" where
  "vocabulary_name (MODULES _) = ''MODULES''"
| "vocabulary_name (ADAPTERS _) = ''ADAPTERS''"
| "vocabulary_name (MARKETS _) = ''MARKETS''"
| "vocabulary_name (ASSETS _) = ''ASSETS''"
| "vocabulary_name (VENUES _) = ''VENUES''"
| "vocabulary_name (RECIPIENTS _) = ''RECIPIENTS''"
| "vocabulary_name (ACTION_TYPES _) = ''ACTION_TYPES''"

fun writeSetTerm :: "set_constraint \<Rightarrow> u8 list option" where
  "writeSetTerm (MODULES ms) = wcat [wr_u8 1, writeList writeModuleRef ms]"
| "writeSetTerm (ADAPTERS ms) = wcat [wr_u8 2, writeList writeAdapterRef ms]"
| "writeSetTerm (MARKETS ms) = wcat [wr_u8 3, writeList writeResourceId ms]"
| "writeSetTerm (ASSETS ms) = wcat [wr_u8 4, writeList writeResourceId ms]"
| "writeSetTerm (VENUES ms) = wcat [wr_u8 5, writeList writeResourceId ms]"
| "writeSetTerm (RECIPIENTS ms) = wcat [wr_u8 6, writeList writeResourceId ms]"
| "writeSetTerm (ACTION_TYPES ms) = wcat [wr_u8 7, writeList writeActionTypeRef ms]"

datatype right_term = OPEN_RISK | REDUCE_RISK | TRANSFER_OUT | DELEGATE nat

fun right_name :: "right_term \<Rightarrow> string" where
  "right_name OPEN_RISK = ''OPEN_RISK''"
| "right_name REDUCE_RISK = ''REDUCE_RISK''"
| "right_name TRANSFER_OUT = ''TRANSFER_OUT''"
| "right_name (DELEGATE _) = ''DELEGATE''"

fun writeRightTerm :: "right_term \<Rightarrow> u8 list option" where
  "writeRightTerm OPEN_RISK = wr_u8 1"
| "writeRightTerm REDUCE_RISK = wr_u8 2"
| "writeRightTerm TRANSFER_OUT = wr_u8 3"
| "writeRightTerm (DELEGATE maxDepth) = wcat [wr_u8 4, wr_u8 (int maxDepth)]"

datatype bound_polarity = UpperBound | LowerBound
datatype bound_value = QuantityValue quantity_bound | RatioValue ratio

record action_bound =
  boundId :: string
  polarity :: bound_polarity
  bound_value_of :: bound_value

fun polarity_name :: "bound_polarity \<Rightarrow> string" where
  "polarity_name UpperBound = ''MAX''"
| "polarity_name LowerBound = ''MIN''"

definition writeBoundTerm :: "action_bound \<Rightarrow> u8 list option" where
  "writeBoundTerm t = wcat ([
     wr_str (boundId t),
     wr_u8 (case polarity t of UpperBound \<Rightarrow> 1 | LowerBound \<Rightarrow> 2)] @
     (case bound_value_of t of
        QuantityValue q \<Rightarrow> [wr_u8 1, writeQuantityBound q]
      | RatioValue r \<Rightarrow> [wr_u8 2, writeRatio r]))"

record time_window =
  tw_domain :: string
  tw_notBefore :: int
  tw_expiresAt :: int

definition writeTimeWindowTerm :: "time_window \<Rightarrow> u8 list option" where
  "writeTimeWindowTerm t = wcat [wr_str (tw_domain t), wr_i64 (tw_notBefore t), wr_i64 (tw_expiresAt t)]"

datatype accounting_mode = BUDGET | CAPACITY
datatype restoration_mode = RestoreNone | RestoreEpoch | AS_CHARGED | UNITS
datatype sign_mode = UNSIGNED | NET

fun accounting_name :: "accounting_mode \<Rightarrow> string" where
  "accounting_name BUDGET = ''BUDGET''"
| "accounting_name CAPACITY = ''CAPACITY''"

fun restoration_name :: "restoration_mode \<Rightarrow> string" where
  "restoration_name RestoreNone = ''NONE''"
| "restoration_name RestoreEpoch = ''EPOCH''"
| "restoration_name AS_CHARGED = ''AS_CHARGED''"
| "restoration_name UNITS = ''UNITS''"

fun sign_name :: "sign_mode \<Rightarrow> string" where
  "sign_name UNSIGNED = ''UNSIGNED''"
| "sign_name NET = ''NET''"

fun ACCOUNTING_CODE :: "accounting_mode \<Rightarrow> int" where
  "ACCOUNTING_CODE BUDGET = 1"
| "ACCOUNTING_CODE CAPACITY = 2"

fun RESTORATION_CODE :: "restoration_mode \<Rightarrow> int" where
  "RESTORATION_CODE RestoreNone = 1"
| "RESTORATION_CODE RestoreEpoch = 2"
| "RESTORATION_CODE AS_CHARGED = 3"
| "RESTORATION_CODE UNITS = 4"

fun RESTORATION_FAMILY :: "restoration_mode \<Rightarrow> accounting_mode" where
  "RESTORATION_FAMILY RestoreNone = BUDGET"
| "RESTORATION_FAMILY RestoreEpoch = BUDGET"
| "RESTORATION_FAMILY AS_CHARGED = CAPACITY"
| "RESTORATION_FAMILY UNITS = CAPACITY"

fun SIGN_MODE_CODE :: "sign_mode \<Rightarrow> int" where
  "SIGN_MODE_CODE UNSIGNED = 1"
| "SIGN_MODE_CODE NET = 2"

record epoch_window =
  anchor :: int
  lengthSeconds :: int

definition writeEpoch :: "epoch_window \<Rightarrow> u8 list option" where
  "writeEpoch e = wcat [wr_i64 (anchor e), wr_u32 (lengthSeconds e)]"

record dimension_scope =
  scope_asset :: "resource_id option"
  scope_market :: "resource_id option"
  scope_domain :: "string option"
  scope_account :: "resource_id option"

record ledger_dimension =
  dimensionId :: string
  limit :: quantity_bound
  accounting :: accounting_mode
  restoration :: restoration_mode
  epoch :: "epoch_window option"
  sign :: sign_mode
  scope :: dimension_scope

definition writeDimensionTerm :: "ledger_dimension \<Rightarrow> u8 list option" where
  "writeDimensionTerm t = wcat [
     wr_str (dimensionId t),
     writeQuantityBound (limit t),
     writeCode ACCOUNTING_CODE (accounting t),
     writeCode RESTORATION_CODE (restoration t),
     writeNullable writeEpoch (epoch t),
     writeCode SIGN_MODE_CODE (sign t),
     writeNullable writeResourceId (scope_asset (scope t)),
     writeNullable writeResourceId (scope_market (scope t)),
     writeNullable wr_str (scope_domain (scope t)),
     writeNullable writeResourceId (scope_account (scope t))]"

record state_invariant =
  invariantId :: string
  inv_version :: nat
  inv_scope :: "resource_id list"
  params :: string

definition writeInvariantTerm :: "state_invariant \<Rightarrow> u8 list option" where
  "writeInvariantTerm t = wcat [wr_str (invariantId t), wr_u32 (int (inv_version t)),
     writeList writeResourceId (inv_scope t), writeOpaqueBytes (params t)]"

record state_policy =
  sp_domain :: string
  stateKind :: string
  admittedSources :: "string list"
  requirement :: state_requirement

definition writeStatePolicyTerm :: "state_policy \<Rightarrow> u8 list option" where
  "writeStatePolicyTerm t = wcat [wr_str (sp_domain t), wr_str (stateKind t),
     writeList wr_str (admittedSources t), writeStateRequirement (requirement t)]"

datatype authority_term =
    SET set_constraint
  | RIGHT right_term
  | BOUND action_bound
  | TIME_WINDOW time_window
  | LEDGER_DIMENSION ledger_dimension
  | STATE_INVARIANT state_invariant
  | STATE_POLICY state_policy

fun writeTerm :: "authority_term \<Rightarrow> u8 list option" where
  "writeTerm (SET t) = wcat [wr_u8 1, writeSetTerm t]"
| "writeTerm (RIGHT t) = wcat [wr_u8 2, writeRightTerm t]"
| "writeTerm (BOUND t) = wcat [wr_u8 3, writeBoundTerm t]"
| "writeTerm (TIME_WINDOW t) = wcat [wr_u8 4, writeTimeWindowTerm t]"
| "writeTerm (LEDGER_DIMENSION t) = wcat [wr_u8 5, writeDimensionTerm t]"
| "writeTerm (STATE_INVARIANT t) = wcat [wr_u8 6, writeInvariantTerm t]"
| "writeTerm (STATE_POLICY t) = wcat [wr_u8 7, writeStatePolicyTerm t]"

fun term_key_json :: "authority_term \<Rightarrow> json" where
  "term_key_json (SET t) = JsonArr [JsonStr ''SET'', JsonStr (vocabulary_name t)]"
| "term_key_json (RIGHT t) = JsonArr [JsonStr ''RIGHT'', JsonStr (right_name t)]"
| "term_key_json (BOUND t) = JsonArr [JsonStr ''BOUND'', JsonStr (boundId t), JsonStr (polarity_name (polarity t))]"
| "term_key_json (TIME_WINDOW t) = JsonArr [JsonStr ''TIME_WINDOW'', JsonStr (tw_domain t)]"
| "term_key_json (LEDGER_DIMENSION t) = JsonArr [JsonStr ''LEDGER_DIMENSION'', JsonStr (dimensionId t)]"
| "term_key_json (STATE_INVARIANT t) = JsonArr [JsonStr ''STATE_INVARIANT'', JsonStr (invariantId t),
     JsonNat (inv_version t), JsonArr (map resource_json (inv_scope t))]"
| "term_key_json (STATE_POLICY t) = JsonArr [JsonStr ''STATE_POLICY'', JsonStr (sp_domain t), JsonStr (stateKind t)]"

definition termKey :: "authority_term \<Rightarrow> string" where
  "termKey t = json_text (term_key_json t)"

section \<open>Grants and policies (authority.ts)\<close>

datatype grant_lineage = ROOT (issuer: party) | DELEGATION (parent: string) (issuer: party)

record grant =
  lineage :: grant_lineage
  g_principal :: party
  holder :: party
  notBefore :: int
  expiresAt :: int
  terms :: "authority_term list"
  g_nonce :: int

fun writeLineage :: "grant_lineage \<Rightarrow> u8 list option" where
  "writeLineage (ROOT i) = wcat [wr_u8 1, writeParty i]"
| "writeLineage (DELEGATION p i) = wcat [wr_u8 2, writeDigest p, writeParty i]"

definition AUTHORITY_TAG :: string where "AUTHORITY_TAG = ''mandate-core/v1/authority''"
definition POLICY_TAG :: string where "POLICY_TAG = ''mandate-core/v1/principal-policy''"

definition encodeAuthorityGrant :: "grant \<Rightarrow> u8 list option" where
  "encodeAuthorityGrant g = wcat (taggedWriter AUTHORITY_TAG @ [
     writeLineage (lineage g),
     writeParty (g_principal g),
     writeParty (holder g),
     wr_i64 (notBefore g), wr_i64 (expiresAt g),
     writeList writeTerm (terms g),
     wr_u64 (g_nonce g)])"

definition authorityId :: "(u8 list \<Rightarrow> u8 list) \<Rightarrow> grant \<Rightarrow> string option" where
  "authorityId keccak g = map_option (keccakDigest keccak) (encodeAuthorityGrant g)"

record principal_policy =
  pp_principal :: party
  pp_sequence :: int
  pp_terms :: "authority_term list"
  pp_nonce :: int

definition encodePrincipalPolicy :: "principal_policy \<Rightarrow> u8 list option" where
  "encodePrincipalPolicy p = wcat (taggedWriter POLICY_TAG @ [
     writeParty (pp_principal p),
     wr_u64 (pp_sequence p),
     writeList writeTerm (pp_terms p),
     wr_u64 (pp_nonce p)])"

definition principalPolicyId :: "(u8 list \<Rightarrow> u8 list) \<Rightarrow> principal_policy \<Rightarrow> string option" where
  "principalPolicyId keccak p = map_option (keccakDigest keccak) (encodePrincipalPolicy p)"

fun dimension_of :: "authority_term \<Rightarrow> ledger_dimension option" where
  "dimension_of (LEDGER_DIMENSION d) = Some d"
| "dimension_of _ = None"

fun invariant_of :: "authority_term \<Rightarrow> state_invariant option" where
  "invariant_of (STATE_INVARIANT t) = Some t"
| "invariant_of _ = None"

fun state_policy_of :: "authority_term \<Rightarrow> state_policy option" where
  "state_policy_of (STATE_POLICY t) = Some t"
| "state_policy_of _ = None"

definition policyDimensions :: "principal_policy \<Rightarrow> ledger_dimension list" where
  "policyDimensions p = List.map_filter dimension_of (pp_terms p)"

definition policyInvariants :: "principal_policy \<Rightarrow> state_invariant list" where
  "policyInvariants p = List.map_filter invariant_of (pp_terms p)"

definition policyStatePolicy :: "principal_policy \<Rightarrow> state_policy list" where
  "policyStatePolicy p = List.map_filter state_policy_of (pp_terms p)"

section \<open>Reservations (execution.ts)\<close>

definition RESERVATION_TAG :: string where "RESERVATION_TAG = ''mandate-core/v1/reservation''"

definition reservationIdFor :: "(u8 list \<Rightarrow> u8 list) \<Rightarrow> string \<Rightarrow> int \<Rightarrow> string option" where
  "reservationIdFor keccak action generation =
     map_option (keccakDigest keccak) (wcat (taggedWriter RESERVATION_TAG @ [writeDigest action, wr_u64 generation]))"

end
