(* ===== verification/Ledger_Base.thy ===== *)
theory Ledger_Base
  imports Core_Terms
begin

text \<open>
  What the ledger's modules share (\<open>packages/ledger/src\<close>): refusals (\<open>errors.ts\<close>), bounds (\<open>limits.ts\<close>), its
  writers and exact rescaling (\<open>encoding.ts\<close>), revocations (\<open>revocation.ts\<close>) and charge plans
  (\<open>charge-plan.ts\<close>). A refusal code is the string it is in the code.
\<close>

section \<open>Refusals (errors.ts)\<close>

datatype target_ref =
    NODE (target_digest: string) (target_dimension: string)
  | POLICY (target_digest: string) (target_dimension: string)

record limit_failure =
  lf_target :: target_ref
  lf_kind :: quantity_kind
  lf_unit :: string
  lf_decimals :: nat
  requested :: int
  available :: int
  lf_limit :: int

type_synonym delegation_violation = "string \<times> string"

text \<open>
  \<open>Thrown\<close> is no refusal of the ledger: it stands for an exception, which a writer raises on a value outside
  its range, and passes through every handler unchanged.
\<close>

datatype ledger_refusal =
    Malformed string core_error
  | LimitExceeded string "limit_failure list"
  | DelegationRefused string "delegation_violation list"
  | Refused (refusal_code: string) string "string option"
  | Thrown

type_synonym 'a ledger_result = "ledger_refusal + 'a"

definition refuse :: "string \<Rightarrow> string \<Rightarrow> string option \<Rightarrow> 'a ledger_result" where
  "refuse code path node = Inl (Refused code path node)"

definition path_under :: "string \<Rightarrow> string \<Rightarrow> string" where
  "path_under prefix path = (if path = '''' then prefix else prefix @ ''.'' @ path)"

fun withPath :: "ledger_refusal \<Rightarrow> string \<Rightarrow> ledger_refusal" where
  "withPath (Malformed path e) prefix = Malformed (path_under prefix path) e"
| "withPath (LimitExceeded path fs) prefix = LimitExceeded (path_under prefix path) fs"
| "withPath (DelegationRefused path vs) prefix = DelegationRefused (path_under prefix path) vs"
| "withPath (Refused code path node) prefix = Refused code (path_under prefix path) node"
| "withPath Thrown prefix = Thrown"

definition index_path :: "string \<Rightarrow> nat \<Rightarrow> string" where
  "index_path path i = path @ ''['' @ nat_str i @ '']''"

text \<open>\<open>if (c) return refuse(...)\<close>, and a call that may throw.\<close>

definition refuse_if :: "bool \<Rightarrow> string \<Rightarrow> string \<Rightarrow> string option \<Rightarrow> 'a ledger_result \<Rightarrow> 'a ledger_result" where
  "refuse_if c code path node r = (if c then refuse code path node else r)"

definition may_throw :: "'a option \<Rightarrow> 'a ledger_result" where
  "may_throw = need Thrown"

lemma refuse_if_Inr [simp, result_simps]: "refuse_if c code path node r = Inr x \<longleftrightarrow> \<not> c \<and> r = Inr x"
  by (auto simp: refuse_if_def refuse_def)

lemma refuse_not_Inr [simp, result_simps]: "refuse code path node \<noteq> Inr x" "Inr x \<noteq> refuse code path node"
  by (simp_all add: refuse_def)

lemma may_throw_Inr [simp, result_simps]: "may_throw x = Inr y \<longleftrightarrow> x = Some y"
  by (simp add: may_throw_def)

section \<open>Bounds (limits.ts)\<close>

definition MAX_DELEGATION_DEPTH :: nat where "MAX_DELEGATION_DEPTH = 7"
definition MAX_LINEAGE_LENGTH :: nat where "MAX_LINEAGE_LENGTH = MAX_DELEGATION_DEPTH + 1"
definition MAX_GRANT_TERMS :: nat where "MAX_GRANT_TERMS = 128"
definition MAX_PLAN_CONTRIBUTIONS :: nat where "MAX_PLAN_CONTRIBUTIONS = 64"
definition MAX_BATCH_EVENTS :: nat where "MAX_BATCH_EVENTS = 256"
definition MAX_COMMIT_ATTEMPTS :: nat where "MAX_COMMIT_ATTEMPTS = 32"

section \<open>Encoding (encoding.ts)\<close>

definition ledgerWriter :: "string \<Rightarrow> u8 list option list" where
  "ledgerWriter tag = [wr_str tag, wr_u16 CORE_SCHEMA_VERSION]"

definition ledgerDigest :: "(u8 list \<Rightarrow> u8 list) \<Rightarrow> u8 list option list \<Rightarrow> string option" where
  "ledgerDigest keccak w = map_option (keccakDigest keccak) (wcat w)"

definition writeSegment :: "u8 list option \<Rightarrow> u8 list option" where
  "writeSegment bytes = do { b \<leftarrow> bytes; wcat [wr_u32 (int (length b)), Some b] }"

definition rescaleExact :: "int \<Rightarrow> nat \<Rightarrow> nat \<Rightarrow> int option" where
  "rescaleExact n from_dec to_dec =
     (if to_dec \<ge> from_dec then Some (n * 10 ^ (to_dec - from_dec))
      else let divisor = 10 ^ (from_dec - to_dec)
        in if big_mod n divisor = 0 then Some (big_div n divisor) else None)"

definition compareScaled :: "int \<Rightarrow> nat \<Rightarrow> int \<Rightarrow> nat \<Rightarrow> int" where
  "compareScaled a aDecimals b bDecimals =
     (let left = a * 10 ^ bDecimals; right = b * 10 ^ aDecimals
      in if left < right then - 1 else if left > right then 1 else 0)"

text \<open>An exact rescale keeps the value, adds up, and moves monotonically.\<close>

lemma rescaleExact_Some: "rescaleExact n i j = Some m \<longleftrightarrow> m * 10 ^ i = n * 10 ^ j"
proof (cases "i \<le> j")
  case True
  then have "(10 :: int) ^ j = 10 ^ (j - i) * 10 ^ i" by (simp flip: power_add)
  then have "m * 10 ^ i = n * 10 ^ j \<longleftrightarrow> m = n * 10 ^ (j - i)" by (simp add: mult.assoc [symmetric])
  with True show ?thesis by (auto simp: rescaleExact_def)
next
  case False
  let ?d = "(10 :: int) ^ (i - j)"
  from False have "(10 :: int) ^ i = ?d * 10 ^ j" by (simp flip: power_add)
  then have eq: "m * 10 ^ i = n * 10 ^ j \<longleftrightarrow> n = m * ?d" by (auto simp: mult.assoc [symmetric])
  have "big_mod n ?d = 0 \<and> big_div n ?d = m \<longleftrightarrow> n = m * ?d"
  proof
    assume "big_mod n ?d = 0 \<and> big_div n ?d = m"
    then show "n = m * ?d" using big_mod_0 [of ?d n] by simp
  next
    assume "n = m * ?d"
    then show "big_mod n ?d = 0 \<and> big_div n ?d = m"
      using big_div_mult [of ?d m] by (simp add: big_mod_def mult.commute)
  qed
  with False eq show ?thesis by (auto simp: rescaleExact_def Let_def)
qed

lemma rescaleExact_add:
  "rescaleExact a i j = Some x \<Longrightarrow> rescaleExact b i j = Some y \<Longrightarrow> rescaleExact (a + b) i j = Some (x + y)"
  by (simp add: rescaleExact_Some distrib_right)

lemma rescaleExact_diff:
  "rescaleExact a i j = Some x \<Longrightarrow> rescaleExact b i j = Some y \<Longrightarrow> rescaleExact (a - b) i j = Some (x - y)"
  by (simp add: rescaleExact_Some left_diff_distrib)

lemma rescaleExact_0 [simp]: "rescaleExact 0 i j = Some x \<longleftrightarrow> x = 0"
  by (simp add: rescaleExact_Some)

lemma rescaleExact_mono: "rescaleExact a i j = Some x \<Longrightarrow> rescaleExact b i j = Some y \<Longrightarrow> a \<le> b \<Longrightarrow> x \<le> y"
proof -
  assume x: "rescaleExact a i j = Some x" and y: "rescaleExact b i j = Some y" and "a \<le> b"
  then have "x * 10 ^ i \<le> y * 10 ^ i" by (simp add: rescaleExact_Some)
  then show "x \<le> y" by simp
qed

lemma rescaleExact_nonneg: "rescaleExact a i j = Some x \<Longrightarrow> 0 \<le> a \<Longrightarrow> 0 \<le> x"
  using rescaleExact_mono [of 0 i j 0 a x] by simp

lemma compareScaled_value:
  "compareScaled a i b j = (let x = of_int a / 10 ^ i; y = of_int b / 10 ^ j :: rat
     in if x < y then - 1 else if y < x then 1 else 0)"
proof -
  have frac: "of_int p / 10 ^ k < (of_int q / 10 ^ l :: rat) \<longleftrightarrow> p * 10 ^ l < q * 10 ^ k" for p q :: int and k l
  proof -
    have "of_int p / 10 ^ k < (of_int q / 10 ^ l :: rat) \<longleftrightarrow> of_int (p * 10 ^ l) < (of_int (q * 10 ^ k) :: rat)"
      by (simp add: field_simps)
    then show ?thesis by (simp only: of_int_less_iff)
  qed
  show ?thesis unfolding compareScaled_def Let_def frac by simp
qed

section \<open>Revocations (revocation.ts)\<close>

record revocation =
  rv_target :: string
  rv_issuer :: party
  effectiveAt :: int
  rv_nonce :: int

definition REVOCATION_TAG :: string where "REVOCATION_TAG = ''mandate-core/v1/revocation''"

definition writeRevocationBody :: "revocation \<Rightarrow> u8 list option" where
  "writeRevocationBody r = wcat [writeDigest (rv_target r), writeParty (rv_issuer r),
     wr_i64 (effectiveAt r), wr_u64 (rv_nonce r)]"

definition encodeRevocation :: "revocation \<Rightarrow> u8 list option" where
  "encodeRevocation r = wcat (ledgerWriter REVOCATION_TAG @ [writeRevocationBody r])"

definition revocationId :: "(u8 list \<Rightarrow> u8 list) \<Rightarrow> revocation \<Rightarrow> string option" where
  "revocationId keccak r = ledgerDigest keccak (ledgerWriter REVOCATION_TAG @ [writeRevocationBody r])"

section \<open>Charge plans (charge-plan.ts)\<close>

record contribution =
  ct_quantity :: quantity
  ct_market :: "resource_id option"
  ct_account :: "resource_id option"
  required :: bool

record charge_plan =
  cpl_principal :: party
  cpl_authority :: string
  actor :: party
  cpl_action :: string
  cpl_generation :: int
  cpl_module :: module_ref
  cpl_implementation :: string
  contributions :: "contribution list"

definition writeContribution :: "contribution \<Rightarrow> u8 list option" where
  "writeContribution c = wcat [
     writeQuantityBody (ct_quantity c),
     writeNullable writeResourceId (ct_market c),
     writeNullable writeResourceId (ct_account c),
     writeFlag (required c)]"

definition writeChargePlan :: "charge_plan \<Rightarrow> u8 list option" where
  "writeChargePlan p = wcat ([
     writeParty (cpl_principal p),
     writeDigest (cpl_authority p),
     writeParty (actor p),
     writeDigest (cpl_action p),
     wr_u64 (cpl_generation p),
     writeModuleRef (cpl_module p),
     writeDigest (cpl_implementation p),
     wr_u16 (int (length (contributions p)))] @ map writeContribution (contributions p))"

definition planReservationId :: "(u8 list \<Rightarrow> u8 list) \<Rightarrow> charge_plan \<Rightarrow> string option" where
  "planReservationId keccak p = reservationIdFor keccak (cpl_action p) (cpl_generation p)"

end
