(* ===== verification/Ledger_Semantic.thy ===== *)
theory Ledger_Semantic
  imports Ledger_Base
begin

text \<open>
  The exact meaning of module-defined invariants (\<open>packages/ledger/src/semantic.ts\<close>): the definitions a
  registration binds its terms to and the proofs it commits, and the ordering of restated parameters under
  them (\<open>rules.ts\<close>). A module's own ordering is code outside the repository's ledger: a parameter, which may
  answer anything or throw.
\<close>

section \<open>Definitions, proofs and bindings\<close>

datatype definition_owner = CORE | MODULE module_ref

record semantic_ref =
  owner :: definition_owner
  sem_invariantId :: string
  sem_version :: nat

text \<open>A definition applied to one term: a proof and a binding have this one shape.\<close>

record scoped_definition =
  sd_definition :: semantic_ref
  sd_scope :: "resource_id list"

type_synonym semantic_proof = scoped_definition
type_synonym term_binding = scoped_definition

definition CORE_INVARIANT_PREFIX :: string where "CORE_INVARIANT_PREFIX = ''core.''"
definition MAX_SEMANTIC_PROOFS :: nat where "MAX_SEMANTIC_PROOFS = 64"
definition MAX_SEMANTIC_BINDINGS :: nat where "MAX_SEMANTIC_BINDINGS = MAX_GRANT_TERMS"

definition writeSemanticInvariantRef :: "semantic_ref \<Rightarrow> u8 list option" where
  "writeSemanticInvariantRef d = wcat ((case owner d of
       CORE \<Rightarrow> [wr_u8 1]
     | MODULE m \<Rightarrow> [wr_u8 2, writeModuleRef m]) @
     [wr_str (sem_invariantId d), wr_u32 (int (sem_version d))])"

definition writeScoped :: "scoped_definition \<Rightarrow> u8 list option" where
  "writeScoped p = wcat ([writeSemanticInvariantRef (sd_definition p), wr_u16 (int (length (sd_scope p)))] @
     map writeResourceId (sd_scope p))"

definition scopedKey :: "scoped_definition \<Rightarrow> string option" where
  "scopedKey p = map_option bytesToHex (writeScoped p)"

definition termKeyOf :: "scoped_definition \<Rightarrow> string" where
  "termKeyOf p = json_text (JsonArr [JsonStr (sem_invariantId (sd_definition p)),
     JsonNat (sem_version (sd_definition p)), JsonArr (map resource_json (sd_scope p))])"

text \<open>Sorting calls the comparator, which encodes both sides, on two elements or more.\<close>

definition canonicalScoped :: "scoped_definition list \<Rightarrow> scoped_definition list option" where
  "canonicalScoped xs =
     (if length xs < 2 then Some xs
      else do { es \<leftarrow> those (map writeScoped xs);
                Some (map fst (js_sort (\<lambda>a b. compareBytes (snd a) (snd b)) (zip xs es))) })"

definition sameDefinition :: "semantic_ref \<Rightarrow> semantic_ref \<Rightarrow> bool option" where
  "sameDefinition a b = do {
     ea \<leftarrow> writeSemanticInvariantRef a;
     eb \<leftarrow> writeSemanticInvariantRef b;
     Some (bytesToHex ea = bytesToHex eb) }"

section \<open>Rules\<close>

definition starts_with :: "string \<Rightarrow> string \<Rightarrow> bool" where
  "starts_with s p \<longleftrightarrow> take (length p) s = p"

definition ownerConsistent :: "semantic_ref \<Rightarrow> bool" where
  "ownerConsistent d \<longleftrightarrow>
     (let core = starts_with (sem_invariantId d) CORE_INVARIANT_PREFIX
      in case owner d of
           CORE \<Rightarrow> core
         | MODULE m \<Rightarrow> \<not> core \<and> starts_with (sem_invariantId d) (moduleId m @ ''.'') \<and> sem_version d = moduleVersion m)"

definition scopedMatches :: "scoped_definition \<Rightarrow> state_invariant \<Rightarrow> bool" where
  "scopedMatches p t \<longleftrightarrow> sem_invariantId (sd_definition p) = invariantId t \<and>
     sem_version (sd_definition p) = inv_version t \<and> length (sd_scope p) = length (inv_scope t) \<and>
     list_all2 resourceIdsEqual (sd_scope p) (inv_scope t)"

definition isModuleDefined :: "state_invariant \<Rightarrow> bool" where
  "isModuleDefined t \<longleftrightarrow> \<not> starts_with (invariantId t) CORE_INVARIANT_PREFIX"

definition bindingOf :: "term_binding list \<Rightarrow> state_invariant \<Rightarrow> term_binding option" where
  "bindingOf bindings t = find (\<lambda>b. scopedMatches b t) bindings"

definition sameBinding :: "term_binding option \<Rightarrow> term_binding option \<Rightarrow> bool option" where
  "sameBinding a b = (case (a, b) of
     (Some x, Some y) \<Rightarrow> sameDefinition (sd_definition x) (sd_definition y)
   | _ \<Rightarrow> Some (a = b))"

text \<open>One pass over a set that must be canonical, with one entry per term.\<close>

fun check_set :: "string \<Rightarrow> (semantic_ref \<Rightarrow> bool) \<Rightarrow> (scoped_definition \<Rightarrow> bool) \<Rightarrow> string \<Rightarrow> string \<Rightarrow>
    nat \<Rightarrow> string set \<Rightarrow> (scoped_definition \<times> scoped_definition) list \<Rightarrow> unit ledger_result" where
  "check_set invalid owner_ok expected unexpected path i seen [] = Inr ()"
| "check_set invalid owner_ok expected unexpected path i seen ((p, c) # ps) =
     rbind (may_throw (scopedKey p)) (\<lambda>kp.
     rbind (may_throw (scopedKey c)) (\<lambda>kc.
       refuse_if (kp \<noteq> kc) invalid (index_path path i) None (
       refuse_if (termKeyOf p \<in> seen) invalid (index_path path i) None (
       refuse_if (\<not> owner_ok (sd_definition p)) invalid (index_path path i @ ''.definition'') None (
       refuse_if (\<not> expected p) unexpected (index_path path i) None (
       check_set invalid owner_ok expected unexpected path (i + 1) (insert (termKeyOf p) seen) ps))))))"

definition checkProofSet :: "semantic_proof list \<Rightarrow> state_invariant list \<Rightarrow> string \<Rightarrow> unit ledger_result" where
  "checkProofSet proofs needed path =
     refuse_if (length proofs > MAX_SEMANTIC_PROOFS) ''SEMANTIC_PROOF_INVALID'' path None (
     rbind (may_throw (canonicalScoped proofs)) (\<lambda>canonical.
       check_set ''SEMANTIC_PROOF_INVALID'' ownerConsistent (\<lambda>p. list_ex (scopedMatches p) needed)
         ''SEMANTIC_PROOF_UNEXPECTED'' path 0 {} (zip proofs canonical)))"

fun check_bound :: "term_binding list \<Rightarrow> string \<Rightarrow> nat \<Rightarrow> state_invariant list \<Rightarrow> unit ledger_result" where
  "check_bound bindings path j [] = Inr ()"
| "check_bound bindings path j (t # ts) =
     refuse_if (isModuleDefined t \<and> bindingOf bindings t = None) ''SEMANTIC_BINDING_MISSING''
       (index_path (path @ ''.invariant'') j) None (check_bound bindings path (j + 1) ts)"

definition checkBindingSet :: "term_binding list \<Rightarrow> state_invariant list \<Rightarrow> string \<Rightarrow> string \<Rightarrow> unit ledger_result" where
  "checkBindingSet bindings invs path termsPath =
     refuse_if (length bindings > MAX_SEMANTIC_BINDINGS) ''SEMANTIC_BINDING_INVALID'' path None (
     rbind (may_throw (canonicalScoped bindings)) (\<lambda>canonical.
     rbind (check_set ''SEMANTIC_BINDING_INVALID'' (\<lambda>d. owner d \<noteq> CORE \<and> ownerConsistent d)
         (\<lambda>b. list_ex (\<lambda>t. isModuleDefined t \<and> scopedMatches b t) invs)
         ''SEMANTIC_BINDING_UNEXPECTED'' path 0 {} (zip bindings canonical)) (\<lambda>_.
     check_bound bindings termsPath 0 invs)))"

fun checkProofsBound_from :: "nat \<Rightarrow> semantic_proof list \<Rightarrow> term_binding list \<Rightarrow> string \<Rightarrow> unit ledger_result" where
  "checkProofsBound_from i [] bindings path = Inr ()"
| "checkProofsBound_from i (p # ps) bindings path =
     (if owner (sd_definition p) = CORE then checkProofsBound_from (i + 1) ps bindings path
      else rbind (case find (\<lambda>x. termKeyOf x = termKeyOf p) bindings of
             None \<Rightarrow> Inr False
           | Some b \<Rightarrow> may_throw (sameDefinition (sd_definition b) (sd_definition p))) (\<lambda>same.
        refuse_if (\<not> same) ''SEMANTIC_BINDING_MISMATCH'' (index_path path i @ ''.definition'') None
          (checkProofsBound_from (i + 1) ps bindings path)))"

definition checkProofsBound :: "semantic_proof list \<Rightarrow> term_binding list \<Rightarrow> string \<Rightarrow> unit ledger_result" where
  "checkProofsBound proofs bindings path = checkProofsBound_from 0 proofs bindings path"

text \<open>\<open>new Map(ts.map((t) => [termKey(t), t]))\<close>: of two terms with one key the last is kept.\<close>

definition invariants_by_key :: "state_invariant list \<Rightarrow> string \<Rightarrow> state_invariant option" where
  "invariants_by_key ts = map_of (rev (map (\<lambda>t. (termKey (STATE_INVARIANT t), t)) ts))"

definition keepsSemantics :: "state_invariant \<Rightarrow> term_binding list \<Rightarrow> state_invariant \<Rightarrow> term_binding list \<Rightarrow> bool option" where
  "keepsSemantics previous previousBindings next nextBindings =
     sameBinding (bindingOf previousBindings previous) (bindingOf nextBindings next)"

fun check_restated :: "(string \<Rightarrow> state_invariant option) \<Rightarrow> term_binding list \<Rightarrow> term_binding list \<Rightarrow> string \<Rightarrow>
    nat \<Rightarrow> state_invariant list \<Rightarrow> unit ledger_result" where
  "check_restated earlier parentBindings childBindings path j [] = Inr ()"
| "check_restated earlier parentBindings childBindings path j (t # ts) =
     rbind (case earlier (termKey (STATE_INVARIANT t)) of
         None \<Rightarrow> Inr True
       | Some p \<Rightarrow> may_throw (sameBinding (bindingOf parentBindings p) (bindingOf childBindings t))) (\<lambda>same.
     refuse_if (\<not> same) ''SEMANTIC_BINDING_MISMATCH'' (index_path (path @ ''.invariant'') j) None
       (check_restated earlier parentBindings childBindings path (j + 1) ts))"

definition checkRestatedBindings :: "state_invariant list \<Rightarrow> term_binding list \<Rightarrow> state_invariant list \<Rightarrow>
    term_binding list \<Rightarrow> string \<Rightarrow> unit ledger_result" where
  "checkRestatedBindings par parentBindings child childBindings termsPath =
     check_restated (invariants_by_key par) parentBindings childBindings termsPath 0 child"

definition restatedInvariants :: "state_invariant list \<Rightarrow> state_invariant list \<Rightarrow> state_invariant list" where
  "restatedInvariants previous next = filter (\<lambda>t. case invariants_by_key previous (termKey (STATE_INVARIANT t)) of
     None \<Rightarrow> False | Some p \<Rightarrow> params p \<noteq> params t) next"

definition grantInvariants :: "grant \<Rightarrow> state_invariant list" where
  "grantInvariants g = List.map_filter invariant_of (terms g)"

section \<open>Narrowing (rules.ts)\<close>

datatype narrowing = NO_WEAKER | WEAKER | UNPROVABLE

text \<open>The configured ordering, if any; \<^term>\<open>None\<close> is its exception.\<close>

type_synonym invariant_ordering = "(state_invariant \<Rightarrow> state_invariant \<Rightarrow> semantic_ref \<Rightarrow> narrowing option) option"
type_synonym narrowing_prover = "state_invariant \<Rightarrow> state_invariant \<Rightarrow> narrowing"

definition orderInvariants :: "invariant_ordering \<Rightarrow> state_invariant \<Rightarrow> state_invariant \<Rightarrow> semantic_ref \<Rightarrow> narrowing" where
  "orderInvariants order_fn par child d = (case order_fn of
     None \<Rightarrow> UNPROVABLE
   | Some noWeaker \<Rightarrow> (case noWeaker par child d of None \<Rightarrow> UNPROVABLE | Some v \<Rightarrow> v))"

definition committedProver :: "invariant_ordering \<Rightarrow> semantic_proof list \<Rightarrow> narrowing_prover" where
  "committedProver order_fn proofs par child = (case find (\<lambda>x. scopedMatches x child) proofs of
     None \<Rightarrow> UNPROVABLE
   | Some p \<Rightarrow> orderInvariants order_fn par child (sd_definition p))"

section \<open>What an accepted set says\<close>

lemma scopedMatches_iff: "scopedMatches p t \<longleftrightarrow> sem_invariantId (sd_definition p) = invariantId t \<and>
    sem_version (sd_definition p) = inv_version t \<and> sd_scope p = inv_scope t"
proof -
  have "resourceIdsEqual = (=)" by (intro ext) simp
  then show ?thesis by (auto simp: scopedMatches_def list.rel_eq)
qed

lemma resource_kind_name_inj: "resource_kind_name a = resource_kind_name b \<longleftrightarrow> a = b"
  by (cases a; cases b) simp_all

lemma resource_json_inj [simp]: "resource_json a = resource_json b \<longleftrightarrow> a = b"
  by (cases a; cases b) (auto simp: resource_json_def resource_kind_name_inj)

lemma map_resource_json_inj [simp]: "map resource_json xs = map resource_json ys \<longleftrightarrow> xs = ys"
  by (simp add: inj_map_eq_map inj_on_def)

lemma termKeyOf_matches: "scopedMatches p t \<Longrightarrow> termKeyOf p = termKeyOf q \<longleftrightarrow> scopedMatches q t"
  by (auto simp: scopedMatches_iff termKeyOf_def)

lemma check_set_ok:
  assumes "check_set invalid owner_ok expected unexpected path i seen ps = Inr ()"
  shows "\<forall>(p, c) \<in> set ps. owner_ok (sd_definition p) \<and> expected p \<and> termKeyOf p \<notin> seen \<and>
      writeScoped p \<noteq> None \<and> scopedKey p = scopedKey c"
    "distinct (map (termKeyOf \<circ> fst) ps)"
  using assms by (induction ps arbitrary: i seen) (force simp: rbind_eq_Inr scopedKey_def)+

lemma check_bound_ok: "check_bound bindings path j ts = Inr () \<longleftrightarrow>
    (\<forall>t \<in> set ts. isModuleDefined t \<longrightarrow> bindingOf bindings t \<noteq> None)"
  by (induction ts arbitrary: j) auto

lemma bindingOf_Some: "bindingOf bs t = Some b \<Longrightarrow> b \<in> set bs \<and> scopedMatches b t"
  by (auto simp: bindingOf_def find_Some_iff)

lemma bindingOf_None: "bindingOf bs t = None \<longleftrightarrow> (\<forall>b \<in> set bs. \<not> scopedMatches b t)"
  by (auto simp: bindingOf_def find_None_iff)

lemma bytesToHex_inj [simp]: "bytesToHex a = bytesToHex b \<longleftrightarrow> a = b"
  by (auto simp: bytesToHex_def dest: arg_cong [where f = hex_pairs])

lemma those_Some: "those xs = Some ys \<longleftrightarrow> xs = map Some ys"
proof (induction xs arbitrary: ys)
  case Nil
  then show ?case by auto
next
  case (Cons x xs)
  then show ?case by (cases x; cases ys) auto
qed

lemma canonicalScoped_length: "canonicalScoped xs = Some ys \<Longrightarrow> length ys = length xs \<and> set ys = set xs"
proof -
  assume c: "canonicalScoped xs = Some ys"
  show ?thesis
  proof (cases "length xs < 2")
    case False
    with c obtain es where es: "those (map writeScoped xs) = Some es"
        "ys = map fst (js_sort (\<lambda>a b. compareBytes (snd a) (snd b)) (zip xs es))"
      by (auto simp: canonicalScoped_def bind_eq_Some_conv)
    then have "length es = length xs" by (metis length_map those_Some)
    then have "fst ` set (zip xs es) = set xs" by (metis list.set_map map_fst_zip)
    with es show ?thesis using \<open>length es = length xs\<close> by simp
  qed (use c in \<open>simp add: canonicalScoped_def\<close>)
qed

text \<open>
  An accepted registration gives every module-defined invariant exactly one binding, which names a module that
  may define it, binds nothing else, and binds no term twice.
\<close>

lemma checkBindingSet_ok:
  assumes "checkBindingSet bindings invs path tp = Inr ()"
  shows "\<forall>t \<in> set invs. isModuleDefined t \<longrightarrow> (\<exists>!b. b \<in> set bindings \<and> scopedMatches b t)"
    "\<forall>b \<in> set bindings. owner (sd_definition b) \<noteq> CORE \<and> ownerConsistent (sd_definition b) \<and>
       (\<exists>t \<in> set invs. isModuleDefined t \<and> scopedMatches b t)"
    "distinct (map termKeyOf bindings)"
proof -
  from assms obtain canonical where c: "canonicalScoped bindings = Some canonical"
      and s: "check_set ''SEMANTIC_BINDING_INVALID'' (\<lambda>d. owner d \<noteq> CORE \<and> ownerConsistent d)
         (\<lambda>b. list_ex (\<lambda>t. isModuleDefined t \<and> scopedMatches b t) invs)
         ''SEMANTIC_BINDING_UNEXPECTED'' path 0 {} (zip bindings canonical) = Inr ()"
      and b: "check_bound bindings tp 0 invs = Inr ()"
    by (auto simp: checkBindingSet_def rbind_eq_Inr)
  have fst: "map fst (zip bindings canonical) = bindings"
    using canonicalScoped_length [OF c] by simp
  have "map (termKeyOf \<circ> fst) (zip bindings canonical) = map termKeyOf bindings"
    by (metis fst map_map)
  with check_set_ok(2) [OF s] show d: "distinct (map termKeyOf bindings)" by simp
  have "\<forall>b \<in> set (map fst (zip bindings canonical)). owner (sd_definition b) \<noteq> CORE \<and> ownerConsistent (sd_definition b) \<and>
       (\<exists>t \<in> set invs. isModuleDefined t \<and> scopedMatches b t)"
    using check_set_ok(1) [OF s] by (fastforce simp: list_ex_iff)
  then show "\<forall>b \<in> set bindings. owner (sd_definition b) \<noteq> CORE \<and> ownerConsistent (sd_definition b) \<and>
       (\<exists>t \<in> set invs. isModuleDefined t \<and> scopedMatches b t)"
    unfolding fst .
  show "\<forall>t \<in> set invs. isModuleDefined t \<longrightarrow> (\<exists>!b. b \<in> set bindings \<and> scopedMatches b t)"
  proof (intro ballI impI)
    fix t assume "t \<in> set invs" "isModuleDefined t"
    with b obtain b0 where "bindingOf bindings t = Some b0" by (auto simp: check_bound_ok)
    then have b0: "b0 \<in> set bindings" "scopedMatches b0 t" using bindingOf_Some by blast+
    have "b1 = b0" if "b1 \<in> set bindings" "scopedMatches b1 t" for b1
      using that b0 d termKeyOf_matches [OF b0(2), of b1] by (metis distinct_map inj_onD)
    with b0 show "\<exists>!b. b \<in> set bindings \<and> scopedMatches b t" by blast
  qed
qed

end
