(* ===== verification/Hash_Bits.thy ===== *)
theory Hash_Bits
  imports Prelude
begin

unbundle bit_operations_syntax

text \<open>
  The bit-level helpers of \<open>packages/ledger/src/pmap.ts\<close>: the FNV-1a hash over UTF-16 code units, the
  population count and the five-bit chunks of a hash, with JavaScript's 32-bit integer operations as
  operations on 32-bit words.
\<close>

type_synonym u32 = "32 word"

section \<open>Hashing\<close>

text \<open>The UTF-16 code units of a string, which is what \<open>charCodeAt\<close> reads.\<close>

definition byte_val :: "char \<Rightarrow> nat" where
  "byte_val c = of_char c"

definition units_of_point :: "nat \<Rightarrow> 16 word list" where
  "units_of_point p = (if p < 0x10000 then [of_nat p]
     else [of_nat (0xD800 + (p - 0x10000) div 0x400), of_nat (0xDC00 + (p - 0x10000) mod 0x400)])"

fun code_units :: "string \<Rightarrow> 16 word list" where
  "code_units [] = []"
| "code_units (a # s) =
     (if byte_val a < 0x80 then of_nat (byte_val a) # code_units s
      else if byte_val a < 0xE0 then (case s of
          b # s' \<Rightarrow> units_of_point ((byte_val a mod 32) * 64 + byte_val b mod 64) @ code_units s'
        | _ \<Rightarrow> [])
      else if byte_val a < 0xF0 then (case s of
          b # c # s' \<Rightarrow> units_of_point ((byte_val a mod 16) * 4096 + (byte_val b mod 64) * 64 + byte_val c mod 64) @ code_units s'
        | _ \<Rightarrow> [])
      else (case s of
          b # c # d # s' \<Rightarrow> units_of_point ((byte_val a mod 8) * 262144 + (byte_val b mod 64) * 4096
            + (byte_val c mod 64) * 64 + byte_val d mod 64) @ code_units s'
        | _ \<Rightarrow> []))"

definition hashKey :: "string \<Rightarrow> u32" where
  "hashKey key = foldl (\<lambda>h u. (h XOR ucast u) * 0x01000193) 0x811c9dc5 (code_units key)"

definition popcount :: "u32 \<Rightarrow> nat" where
  "popcount x =
    (let v = x - (drop_bit 1 x AND 0x55555555);
         w = (v AND 0x33333333) + (drop_bit 2 v AND 0x33333333)
     in unat (drop_bit 24 (((w + drop_bit 4 w) AND 0x0f0f0f0f) * 0x01010101)))"

text \<open>\<open>hash >>> shift\<close> takes the shift count modulo 32.\<close>

definition chunk :: "u32 \<Rightarrow> nat \<Rightarrow> nat" where
  "chunk hash shift = unat (drop_bit (shift mod 32) hash AND 31)"

definition bit_at :: "nat \<Rightarrow> u32" where
  "bit_at i = push_bit i 1"

section \<open>Population count\<close>

definition bits :: "u32 \<Rightarrow> nat list" where
  "bits x = filter (bit x) [0..<32]"

lemma bit_u32: "bit (h :: u32) j \<Longrightarrow> j < 32"
  using bit_imp_le_length [of h j] by simp

text \<open>
  The intermediate values of \<open>popcount\<close> are numbers in base 4, 16 and 256 whose digits are the sums of
  neighbouring digits of the value before.
\<close>

definition in_base :: "nat \<Rightarrow> nat list \<Rightarrow> nat" where
  "in_base B ds = foldr (\<lambda>d n. d + B * n) ds 0"

fun evens :: "'a list \<Rightarrow> 'a list" where
  "evens (x # y # zs) = x # evens zs"
| "evens _ = []"

fun pair_sums :: "nat list \<Rightarrow> nat list" where
  "pair_sums (x # y # zs) = (x + y) # pair_sums zs"
| "pair_sums _ = []"

lemma in_base_simps [simp]: "in_base B [] = 0" "in_base B (d # ds) = d + B * in_base B ds"
  by (simp_all add: in_base_def)

lemma bit_less: "(x :: nat) < 2 ^ k \<Longrightarrow> bit x n \<Longrightarrow> n < k"
  by (metis bit_take_bit_iff take_bit_nat_eq_self)

lemma bit_field:
  fixes x Y :: nat
  assumes "x < 2 ^ k"
  shows "bit (x + 2 ^ k * Y) n \<longleftrightarrow> (if n < k then bit x n else bit Y (n - k))"
proof -
  have "2 ^ k * Y = push_bit k Y" by (simp add: push_bit_eq_mult mult.commute)
  moreover have "bit (x + push_bit k Y) n \<longleftrightarrow> bit x n \<or> bit (push_bit k Y) n"
    by (intro bit_disjunctive_add_iff) (auto simp: bit_simps dest!: bit_less [OF assms])
  ultimately show ?thesis using bit_less [OF assms, of n] by (auto simp: bit_simps)
qed

lemma and_less: "(u :: nat) < 2 ^ k \<Longrightarrow> u AND m < 2 ^ k"
proof -
  assume "u < 2 ^ k"
  then have "take_bit k (u AND m) = u AND m" using bit_less [of u k] by (intro bit_eqI) (auto simp: bit_simps)
  then show ?thesis by (metis take_bit_nat_less_exp)
qed

lemma and_fields:
  fixes u m R S :: nat
  assumes "u < 2 ^ k" "m < 2 ^ k"
  shows "(u + 2 ^ k * R) AND (m + 2 ^ k * S) = (u AND m) + 2 ^ k * (R AND S)"
  using assms and_less [OF assms(1), of m] by (intro bit_eqI) (simp add: bit_and_iff bit_field)

lemma in_base_split:
  "even (length cs) \<Longrightarrow> in_base B cs = in_base (B * B) (evens cs) + B * in_base (B * B) (evens (tl cs @ [0]))"
proof (induction cs rule: evens.induct)
  case (1 x y zs)
  have "evens (tl (x # y # zs) @ [0]) = y # evens (tl zs @ [0])" by (cases zs) auto
  with 1 show ?case by (simp add: algebra_simps)
qed auto

text \<open>Masking the odd digits away.\<close>

lemma in_base_mask:
  assumes "even (length cs)" "\<forall>c \<in> set cs. c < 2 ^ j"
  shows "in_base (2 ^ j) cs AND in_base (2 ^ j * 2 ^ j) (replicate (length cs div 2) (2 ^ j - 1))
    = in_base (2 ^ j * 2 ^ j) (evens cs)"
  using assms
proof (induction cs rule: evens.induct)
  case (1 x y zs)
  define m :: nat where "m = 2 ^ j - 1"
  define M where "M = in_base (2 ^ j * 2 ^ j) (replicate (length zs div 2) m)"
  have "x + 2 ^ j * y < 2 ^ j + 2 ^ j * y" using 1 by simp
  also have "\<dots> = 2 ^ j * (y + 1)" by simp
  also have "\<dots> \<le> 2 ^ j * 2 ^ j" using 1 by (intro mult_le_mono) auto
  finally have u: "x + 2 ^ j * y < 2 ^ (j + j)" by (simp add: power_add)
  have "m < 2 ^ j" by (simp add: m_def)
  also have "(2 :: nat) ^ j \<le> 2 ^ (j + j)" by simp
  finally have "m < 2 ^ (j + j)" .
  from and_fields [OF u this, of "in_base (2 ^ j) zs" M]
  have "(x + 2 ^ j * y + 2 ^ (j + j) * in_base (2 ^ j) zs) AND (m + 2 ^ (j + j) * M)
      = ((x + 2 ^ j * y) AND m) + 2 ^ (j + j) * (in_base (2 ^ j) zs AND M)" .
  moreover have "(x + 2 ^ j * y) AND m = take_bit j (x + 2 ^ j * y)"
    by (simp only: m_def take_bit_eq_mask mask_eq_exp_minus_1)
  then have "(x + 2 ^ j * y) AND m = x" using 1 by (simp add: take_bit_eq_mod)
  moreover have "in_base (2 ^ j) zs AND M = in_base (2 ^ j * 2 ^ j) (evens zs)"
    using 1 by (simp add: M_def m_def)
  moreover have "in_base (2 ^ j) (x # y # zs) = x + 2 ^ j * y + 2 ^ (j + j) * in_base (2 ^ j) zs"
    by (simp add: power_add algebra_simps)
  moreover have "in_base (2 ^ j * 2 ^ j) (replicate (length (x # y # zs) div 2) (2 ^ j - 1)) = m + 2 ^ (j + j) * M"
    unfolding M_def m_def [symmetric] by (simp add: power_add)
  moreover have "in_base (2 ^ j * 2 ^ j) (evens (x # y # zs)) = x + 2 ^ (j + j) * in_base (2 ^ j * 2 ^ j) (evens zs)"
    by (simp add: power_add)
  ultimately show ?case by presburger
qed auto

text \<open>One round: the masked value plus the masked shifted value has the pair sums as digits.\<close>

lemma pair_sums_evens:
  "even (length cs) \<Longrightarrow> in_base B (pair_sums cs) = in_base B (evens cs) + in_base B (evens (tl cs @ [0]))"
proof (induction cs rule: evens.induct)
  case (1 x y zs)
  have "evens (tl (x # y # zs) @ [0]) = y # evens (tl zs @ [0])" by (cases zs) auto
  with 1 show ?case by (simp add: algebra_simps)
qed auto

lemma in_base_tl: "\<forall>c \<in> set cs. c < B \<Longrightarrow> in_base B cs div B = in_base B (tl cs)"
  by (cases cs) auto

lemma in_base_snoc_0 [simp]: "in_base B (cs @ [0]) = in_base B cs"
  by (induction cs) auto

lemma round_sum:
  assumes "even (length cs)" "cs \<noteq> []" "\<forall>c \<in> set cs. c < 2 ^ j"
    and M: "M = in_base (2 ^ j * 2 ^ j) (replicate (length cs div 2) (2 ^ j - 1))"
  shows "(in_base (2 ^ j) cs AND M) + (in_base (2 ^ j) cs div 2 ^ j AND M) = in_base (2 ^ j * 2 ^ j) (pair_sums cs)"
    and "in_base (2 ^ j) cs - (in_base (2 ^ j) cs div 2 ^ j AND M) = in_base (2 ^ j * 2 ^ j) (pair_sums cs) \<or> j \<noteq> 1"
    and "in_base (2 ^ j) cs div 2 ^ j AND M \<le> in_base (2 ^ j) cs"
proof -
  have tl: "length (tl cs @ [0]) = length cs" "\<forall>c \<in> set (tl cs @ [0]). c < 2 ^ j"
    using assms(2,3) by (auto dest: list.set_sel(2))
  have e: "in_base (2 ^ j) cs AND M = in_base (2 ^ j * 2 ^ j) (evens cs)"
    unfolding M using assms(1,3) by (rule in_base_mask)
  have "in_base (2 ^ j) cs div 2 ^ j = in_base (2 ^ j) (tl cs @ [0])"
    using assms(3) by (simp add: in_base_tl)
  then have o: "in_base (2 ^ j) cs div 2 ^ j AND M = in_base (2 ^ j * 2 ^ j) (evens (tl cs @ [0]))"
    using in_base_mask [of "tl cs @ [0]" j] assms(1) tl by (simp only: M)
  show "(in_base (2 ^ j) cs AND M) + (in_base (2 ^ j) cs div 2 ^ j AND M) = in_base (2 ^ j * 2 ^ j) (pair_sums cs)"
    unfolding e o using assms(1) by (simp add: pair_sums_evens)
  have s: "in_base (2 ^ j) cs = in_base (2 ^ j * 2 ^ j) (evens cs) + 2 ^ j * in_base (2 ^ j * 2 ^ j) (evens (tl cs @ [0]))"
    using assms(1) by (rule in_base_split)
  show "in_base (2 ^ j) cs - (in_base (2 ^ j) cs div 2 ^ j AND M) = in_base (2 ^ j * 2 ^ j) (pair_sums cs) \<or> j \<noteq> 1"
    unfolding o using s assms(1) by (auto simp: pair_sums_evens)
  show "in_base (2 ^ j) cs div 2 ^ j AND M \<le> in_base (2 ^ j) cs"
  proof -
    have "in_base (2 ^ j * 2 ^ j) (evens (tl cs @ [0])) \<le> 2 ^ j * in_base (2 ^ j * 2 ^ j) (evens (tl cs @ [0]))" by simp
    with s show ?thesis unfolding o by linarith
  qed
qed

lemma sum_pair_sums: "even (length cs) \<Longrightarrow> sum_list (pair_sums cs) = sum_list cs"
  by (induction cs rule: pair_sums.induct) auto

lemma length_pair_sums: "length (pair_sums cs) = length cs div 2"
  by (induction cs rule: pair_sums.induct) auto

lemma pair_sums_le: "\<forall>c \<in> set cs. c \<le> m \<Longrightarrow> c \<in> set (pair_sums cs) \<Longrightarrow> c \<le> m + m"
  by (induction cs rule: pair_sums.induct) (auto intro: add_mono)

lemma in_base_less: "\<forall>c \<in> set cs. c < B \<Longrightarrow> in_base B cs < B ^ length cs"
proof (induction cs)
  case (Cons c cs)
  then have "c < B" "in_base B cs + 1 \<le> B ^ length cs" by auto
  then have "c + B * in_base B cs < B + B * in_base B cs" "B * (in_base B cs + 1) \<le> B * B ^ length cs"
    by (simp, intro mult_le_mono) auto
  then show ?case by simp
qed simp

lemma unat_bits: "unat (x :: u32) = in_base 2 (map (\<lambda>i. of_bool (bit x i)) [0..<32])"
proof -
  have "unat x = take_bit 32 (unat x)" using unsigned_less [of x, where 'a = nat] by (simp add: take_bit_nat_eq_self)
  also have "\<dots> = horner_sum of_bool 2 (map (bit (unat x)) [0..<32])"
    by (simp add: horner_sum_bit_eq_take_bit)
  also have "\<dots> = in_base 2 (map (\<lambda>i. of_bool (bit x i)) [0..<32])"
    by (simp add: horner_sum_foldr in_base_def foldr_map o_def bit_unsigned_iff del: upt_Suc)
  finally show ?thesis .
qed

lemma unat_drop: "unat (drop_bit n (x :: u32)) = unat x div 2 ^ n"
proof -
  have "take_bit 32 (unat x) = unat x" using unsigned_less [of x, where 'a = nat] by (simp add: take_bit_nat_eq_self)
  then show ?thesis
    by (simp add: unsigned_drop_bit_eq drop_bit_eq_div [where 'a = nat] flip: drop_bit_eq_div [where 'a = u32])
qed

lemma unat_add: "unat (a :: u32) + unat b < 2 ^ 32 \<Longrightarrow> unat (a + b) = unat a + unat b"
  by (simp add: unat_word_ariths)

lemma in_base_add: "length cs = length ds \<Longrightarrow> in_base B (map2 (+) cs ds) = in_base B cs + in_base B ds"
  by (induction cs ds rule: list_induct2) (simp_all add: algebra_simps)

lemma evens_map2: "even (length cs) \<Longrightarrow> evens (map2 (+) cs (tl cs @ [0])) = pair_sums cs"
proof (induction cs rule: evens.induct)
  case (1 x y zs)
  then show ?case by (cases zs) auto
qed auto

text \<open>The byte sums, added up in the highest byte.\<close>

lemma byte_product:
  fixes a b c d :: nat
  assumes "a \<le> 8" "b \<le> 8" "c \<le> 8" "d \<le> 8"
  shows "in_base 256 [a, b, c, d] * 0x01010101 mod 2 ^ 32 div 2 ^ 24 = a + b + c + d"
proof -
  define low where "low = a + 256 * (a + b) + 65536 * (a + b + c)"
  define high where "high = (b + c + d) + 256 * (c + d) + 65536 * d"
  define total where "total = low + 2 ^ 24 * (a + b + c + d)"
  have "in_base 256 [a, b, c, d] * 0x01010101 = total + 2 ^ 32 * high"
    by (simp add: total_def low_def high_def algebra_simps)
  moreover have "total div 2 ^ 24 = a + b + c + d" "total < 2 ^ 32" using assms by (simp_all add: total_def low_def)
  ultimately show ?thesis by simp
qed

lemma length_filter_sum: "length (filter P xs) = sum_list (map (\<lambda>x. of_bool (P x)) xs)"
  by (induction xs) auto

lemma replicates:
  "replicate 16 (Suc 0) = [1, 1, 1, 1, 1, 1, 1, 1, 1, 1, 1, 1, 1, 1, 1, 1]"
  "replicate 8 (3 :: nat) = [3, 3, 3, 3, 3, 3, 3, 3]"
  "replicate 4 (15 :: nat) = [15, 15, 15, 15]"
  by (simp_all add: numeral_eq_Suc)

text \<open>The population count counts the bits that are set.\<close>

lemma popcount_bits: "popcount x = length (bits x)"
proof -
  define b0 :: "nat list" where "b0 = map (\<lambda>i. of_bool (bit x i)) [0..<32]"
  define b1 b2 b3 where "b1 = pair_sums b0" and "b2 = pair_sums b1" and "b3 = pair_sums b2"
  have len: "length b0 = 32" "length b1 = 16" "length b2 = 8" "length b3 = 4"
    by (simp_all add: b0_def b1_def b2_def b3_def length_pair_sums)
  have le: "\<forall>c \<in> set b0. c \<le> 1" "\<forall>c \<in> set b1. c \<le> 2" "\<forall>c \<in> set b2. c \<le> 4" "\<forall>c \<in> set b3. c \<le> 8"
  proof -
    show "\<forall>c \<in> set b0. c \<le> 1" by (auto simp: b0_def)
    then show b1: "\<forall>c \<in> set b1. c \<le> 2" using pair_sums_le [of b0 1] by (simp add: b1_def numeral_2_eq_2)
    then show b2: "\<forall>c \<in> set b2. c \<le> 4" using pair_sums_le [of b1 2] by (simp add: b2_def)
    then show "\<forall>c \<in> set b3. c \<le> 8" using pair_sums_le [of b2 4] by (simp add: b3_def)
  qed
  have lt: "\<forall>c \<in> set b0. c < 2 ^ 1" "\<forall>c \<in> set b1. c < 2 ^ 2" "\<forall>c \<in> set b2. c < 2 ^ 4"
    using le by (auto dest!: bspec)
  have sum: "sum_list b3 = length (bits x)"
    using len by (simp add: b1_def b2_def b3_def sum_pair_sums length_filter_sum bits_def b0_def)
  have masks: "0x55555555 = in_base (2 ^ 1 * 2 ^ 1) (replicate (length b0 div 2) (2 ^ 1 - 1))"
    "0x33333333 = in_base (2 ^ 2 * 2 ^ 2) (replicate (length b1 div 2) (2 ^ 2 - 1))"
    "0x0f0f0f0f = in_base (2 ^ 4 * 2 ^ 4) (replicate (length b2 div 2) (2 ^ 4 - 1))"
    unfolding len by (simp_all add: replicates)
  have ne: "b0 \<noteq> []" "b1 \<noteq> []" "b2 \<noteq> []" using len by auto
  have x: "unat x = in_base (2 ^ 1) b0" by (simp add: unat_bits b0_def)
  define v where "v = x - (drop_bit 1 x AND 0x55555555)"
  define w where "w = (v AND 0x33333333) + (drop_bit 2 v AND 0x33333333)"
  define u where "u = (w + drop_bit 4 w) AND 0x0f0f0f0f"
  have v: "unat v = in_base (2 ^ 2) b1"
  proof -
    have t: "unat (drop_bit 1 x AND 0x55555555) = (unat x div 2 ^ 1) AND 0x55555555"
      by (simp only: unsigned_and_eq unat_drop) simp
    have "unat (drop_bit 1 x AND 0x55555555) \<le> unat x"
      unfolding t x by (rule round_sum(3)) (use len ne lt masks in auto)
    then have "unat v = unat x - unat (drop_bit 1 x AND 0x55555555)"
      unfolding v_def by (intro unat_sub) (simp add: word_le_nat_alt)
    also have "\<dots> = in_base (2 ^ 1 * 2 ^ 1) b1"
      unfolding t x b1_def using round_sum(2) [OF _ ne(1) lt(1) masks(1)] len by auto
    finally show ?thesis by simp
  qed
  have w: "unat w = in_base (2 ^ 4) b2"
  proof -
    have "unat (v AND 0x33333333) + unat (drop_bit 2 v AND 0x33333333) = in_base (2 ^ 2 * 2 ^ 2) b2"
      unfolding b2_def using round_sum(1) [OF _ ne(2) lt(2) masks(2)] len
      by (simp add: unsigned_and_eq unat_drop v)
    moreover have "in_base 16 b2 < 16 ^ length b2"
      using le(3) by (intro in_base_less) auto
    ultimately show ?thesis
      unfolding w_def using len by (subst unat_add) simp_all
  qed
  define s where "s = map2 (+) b2 (tl b2 @ [0])"
  have s: "length s = 8" "\<forall>c \<in> set s. c \<le> 8" "in_base 16 b2 + in_base 16 b2 div 16 = in_base 16 s"
  proof -
    show "length s = 8" using len by (simp add: s_def)
    show "\<forall>c \<in> set s. c \<le> 8"
      using le(3) ne(3) by (auto simp: s_def set_zip list.set_sel(2) nth_append intro!: add_mono [of _ 4 _ 4, simplified])
    show "in_base 16 b2 + in_base 16 b2 div 16 = in_base 16 s"
    proof -
      have "\<forall>c \<in> set b2. c < 16" using le(3) by auto
      then show ?thesis using len in_base_add [of b2 "tl b2 @ [0]" 16] by (simp add: s_def in_base_tl)
    qed
  qed
  have u: "unat u = in_base 256 b3"
  proof -
    have "in_base 16 s < 16 ^ 8" using s(1,2) in_base_less [of s 16] by force
    then have "unat (w + drop_bit 4 w) = in_base (2 ^ 4) s"
      using s(3) w by (subst unat_add) (simp_all add: unat_drop)
    then have "unat u = in_base (2 ^ 4 * 2 ^ 4) (evens s)"
      unfolding u_def using masks(3) s(1,2) in_base_mask [of s 4] by (force simp: unsigned_and_eq len)
    then show ?thesis using len evens_map2 [of b2] by (simp add: s_def b3_def)
  qed
  obtain p q r t where b3: "b3 = [p, q, r, t]" using len(4) by (auto simp: length_Suc_conv numeral_eq_Suc)
  have "popcount x = unat (u * 0x01010101) div 2 ^ 24"
    by (simp add: popcount_def Let_def v_def w_def u_def unat_drop)
  also have "unat (u * 0x01010101) = in_base 256 b3 * 0x01010101 mod 2 ^ 32"
    by (simp add: unat_word_ariths u)
  also have "\<dots> div 2 ^ 24 = sum_list b3"
    using le(4) byte_product [of p q r t] unfolding b3 by simp
  finally show ?thesis using sum by simp
qed

section \<open>Chunks\<close>

lemma bit_bit_at [simp]: "bit (bit_at i) j \<longleftrightarrow> i = j \<and> j < 32"
  by (auto simp: bit_at_def bit_simps)

lemma and_bit_at: "i < 32 \<Longrightarrow> (x AND bit_at i = 0) \<longleftrightarrow> \<not> bit x i"
  by (auto simp: bit_eq_iff [of "x AND bit_at i"] bit_and_iff)

lemma chunk_take: "s < 32 \<Longrightarrow> chunk h s = unat (take_bit 5 (drop_bit s h))"
  by (simp add: chunk_def take_bit_eq_mask mask_eq_exp_minus_1)

lemma chunk_less: "chunk h s < 32"
proof -
  have "drop_bit (s mod 32) h AND 31 = take_bit 5 (drop_bit (s mod 32) h)"
    by (simp add: take_bit_eq_mask mask_eq_exp_minus_1)
  then have "chunk h s = take_bit 5 (unat (drop_bit (s mod 32) h))"
    by (simp add: chunk_def unsigned_take_bit_eq)
  also have "\<dots> < 2 ^ 5" by (rule take_bit_nat_less_exp)
  finally show ?thesis by simp
qed

lemma chunk_bit: "s < 32 \<Longrightarrow> bit (chunk h s) j \<longleftrightarrow> j < 5 \<and> bit h (s + j)"
  by (auto simp: chunk_take bit_simps dest: bit_u32)

text \<open>Two hashes that agree below a shift and in the chunk at it agree below the next shift.\<close>

lemma take_bit_eq_iff_bits: "take_bit s (h :: u32) = take_bit s h' \<longleftrightarrow> (\<forall>j < s. bit h j = bit h' j)"
  by (auto simp: bit_eq_iff [of "take_bit s h"] bit_take_bit_iff dest: bit_u32)

lemma chunk_eq_iff_bits: "s < 32 \<Longrightarrow> chunk h s = chunk h' s \<longleftrightarrow> (\<forall>j < 5. bit h (s + j) = bit h' (s + j))"
  by (auto simp: bit_eq_iff [of "chunk h s"] chunk_bit)

lemma take_bit_chunk:
  assumes "s < 32"
  shows "take_bit (s + 5) h = take_bit (s + 5) h' \<longleftrightarrow> take_bit s h = take_bit s h' \<and> chunk h s = chunk h' s"
proof -
  have "(\<forall>j < s + 5. P j) \<longleftrightarrow> (\<forall>j < s. P j) \<and> (\<forall>j < 5. P (s + j))" for P :: "nat \<Rightarrow> bool"
  proof (intro iffI conjI allI impI)
    fix j assume "(\<forall>j < s. P j) \<and> (\<forall>j < 5. P (s + j))" "j < s + 5"
    then show "P j" by (cases "j < s") (auto simp: not_less dest!: spec [of _ "j - s"])
  qed auto
  then show ?thesis
    unfolding take_bit_eq_iff_bits chunk_eq_iff_bits [OF assms] by simp
qed

end
