(* ===== verification/PMap.thy ===== *)
theory PMap
  imports Hash_Bits
begin

unbundle bit_operations_syntax

text \<open>
  The persistent map of \<open>packages/ledger/src/pmap.ts\<close>: a hash array mapped trie over string keys. A
  recursion that does not return (\<open>merge\<close> of two equal hashes) is \<^term>\<open>None\<close>; that it never happens on
  a well-formed trie is a lemma.
\<close>

section \<open>The trie\<close>

type_synonym 'v leaf = "u32 \<times> string \<times> 'v"

abbreviation leaf_hash :: "'v leaf \<Rightarrow> u32" where "leaf_hash \<equiv> fst"
abbreviation leaf_key :: "'v leaf \<Rightarrow> string" where "leaf_key l \<equiv> fst (snd l)"
abbreviation leaf_value :: "'v leaf \<Rightarrow> 'v" where "leaf_value l \<equiv> snd (snd l)"

datatype 'v node =
    Leaf "'v leaf"
  | Collision u32 "'v leaf list"
  | Branch u32 "'v node list"

fun node_hash :: "'v node \<Rightarrow> u32" where
  "node_hash (Leaf l) = leaf_hash l"
| "node_hash (Collision h ls) = h"
| "node_hash (Branch _ _) = 0"

partial_function (option) merge :: "nat \<Rightarrow> 'v node \<Rightarrow> 'v leaf \<Rightarrow> 'v node option" where
  "merge shift a b =
    (let ia = chunk (node_hash a) shift; ib = chunk (leaf_hash b) shift
     in if ia = ib then Option.bind (merge (shift + 5) a b) (\<lambda>m. Some (Branch (bit_at ia) [m]))
        else Some (Branch (bit_at ia OR bit_at ib) (if ia < ib then [a, Leaf b] else [Leaf b, a])))"

declare merge.simps [code]

fun find_index :: "('a \<Rightarrow> bool) \<Rightarrow> 'a list \<Rightarrow> nat option" where
  "find_index P [] = None"
| "find_index P (x # xs) = (if P x then Some 0 else map_option Suc (find_index P xs))"

definition insert_at :: "nat \<Rightarrow> 'a \<Rightarrow> 'a list \<Rightarrow> 'a list" where
  "insert_at i x xs = take i xs @ x # drop i xs"

definition child_pos :: "u32 \<Rightarrow> nat \<Rightarrow> nat" where
  "child_pos bitmap i = popcount (bitmap AND (bit_at i - 1))"

text \<open>
  \<open>children[pos]\<close> past the end is \<open>undefined\<close>, into which \<open>insert\<close> puts the leaf; the assignment then
  extends the array. With a well-formed bitmap the position is always inside.
\<close>

function insert_node :: "'v node option \<Rightarrow> nat \<Rightarrow> 'v leaf \<Rightarrow> ('v node \<times> bool) option" where
  "insert_node None shift leaf = Some (Leaf leaf, True)"
| "insert_node (Some (Leaf l)) shift leaf =
     (if leaf_key l = leaf_key leaf then Some (Leaf leaf, False)
      else if leaf_hash l = leaf_hash leaf then Some (Collision (leaf_hash leaf) [l, leaf], True)
      else map_option (\<lambda>m. (m, True)) (merge shift (Leaf l) leaf))"
| "insert_node (Some (Collision h ls)) shift leaf =
     (if h \<noteq> leaf_hash leaf then map_option (\<lambda>m. (m, True)) (merge shift (Collision h ls) leaf)
      else case find_index (\<lambda>l. leaf_key l = leaf_key leaf) ls of
             None \<Rightarrow> Some (Collision h (ls @ [leaf]), True)
           | Some i \<Rightarrow> Some (Collision h (ls[i := leaf]), False))"
| "insert_node (Some (Branch bitmap children)) shift leaf =
     (let i = chunk (leaf_hash leaf) shift; pos = child_pos bitmap i
      in if bitmap AND bit_at i = 0
         then Some (Branch (bitmap OR bit_at i) (insert_at pos (Leaf leaf) children), True)
         else if pos < length children
         then map_option (\<lambda>(c, added). (Branch bitmap (children[pos := c]), added))
                (insert_node (Some (children ! pos)) (shift + 5) leaf)
         else Some (Branch bitmap (children @ [Leaf leaf]), True))"
  by pat_completeness auto

termination
  by (relation "measure (\<lambda>(n, _, _). case n of None \<Rightarrow> 0 | Some x \<Rightarrow> size x)")
    (auto simp: less_Suc_eq_le intro!: order.trans [OF _ size_list_estimation'])

function lookup :: "'v node \<Rightarrow> nat \<Rightarrow> u32 \<Rightarrow> string \<Rightarrow> 'v option" where
  "lookup (Leaf l) shift hash key = (if leaf_key l = key then Some (leaf_value l) else None)"
| "lookup (Collision h ls) shift hash key =
     (if h = hash then map_option leaf_value (find (\<lambda>l. leaf_key l = key) ls) else None)"
| "lookup (Branch bitmap children) shift hash key =
     (let i = chunk hash shift; pos = child_pos bitmap i
      in if bitmap AND bit_at i = 0 then None
         else if pos < length children then lookup (children ! pos) (shift + 5) hash key
         else None)"
  by pat_completeness auto

termination
  by (relation "measure (\<lambda>(n, _, _, _). size n)")
    (auto simp: less_Suc_eq_le intro!: order.trans [OF _ size_list_estimation'])

fun walk :: "'v node \<Rightarrow> 'v leaf list" where
  "walk (Leaf l) = [l]"
| "walk (Collision h ls) = ls"
| "walk (Branch bitmap children) = concat (map walk children)"

section \<open>Positions\<close>

lemma upt_split: "i < 32 \<Longrightarrow> [0..<32] = [0..<i] @ i # [Suc i..<32]"
  using upt_add_eq_append [of 0 i "32 - i"] upt_conv_Cons [of i 32] by simp

lemma bits_split: "i < 32 \<Longrightarrow>
    bits x = filter (bit x) [0..<i] @ (if bit x i then [i] else []) @ filter (bit x) [Suc i..<32]"
  unfolding bits_def by (simp add: upt_split [of i])

lemma child_pos_filter: "i < 32 \<Longrightarrow> child_pos x i = length (filter (bit x) [0..<i])"
proof -
  assume i: "i < 32"
  have "bit_at i - 1 = mask i" by (simp add: bit_at_def mask_eq_exp_minus_1 push_bit_eq_mult)
  then have "bits (x AND (bit_at i - 1)) = filter (\<lambda>j. bit x j \<and> j < i) [0..<32]"
    using i by (auto simp: bits_def bit_simps intro!: filter_cong)
  also have "\<dots> = filter (bit x) [0..<i]"
    using i by (subst upt_split [OF i]) (auto intro!: filter_cong)
  finally show ?thesis by (simp add: child_pos_def popcount_bits)
qed

lemma bits_distinct [simp]: "distinct (bits x)" by (simp add: bits_def)

lemma set_bits: "i \<in> set (bits x) \<longleftrightarrow> bit x i"
  by (auto simp: bits_def dest: bit_u32)

lemma bits_bit_at: "i < 32 \<Longrightarrow> bits (bit_at i) = [i]"
proof -
  assume "i < 32"
  then have "bits (bit_at i) = filter (\<lambda>j. j = i) [0..<32]" by (auto simp: bits_def intro!: filter_cong)
  also have "\<dots> = [i]" using \<open>i < 32\<close> by (subst upt_split [of i]) (auto simp: filter_empty_conv)
  finally show ?thesis .
qed

lemma bits_or:
  assumes "i < 32" "\<not> bit x i"
  shows "bits (x OR bit_at i) = insert_at (child_pos x i) i (bits x)"
proof -
  have "filter (bit (x OR bit_at i)) [0..<i] = filter (bit x) [0..<i]"
    "filter (bit (x OR bit_at i)) [Suc i..<32] = filter (bit x) [Suc i..<32]"
    by (auto simp: bit_or_iff intro!: filter_cong)
  then show ?thesis
    using assms by (simp add: bits_split [OF assms(1)] child_pos_filter insert_at_def bit_or_iff)
qed

lemma child_pos_nth:
  assumes "i < 32" "bit x i"
  shows "child_pos x i < length (bits x)" "bits x ! child_pos x i = i"
  using assms by (simp_all add: child_pos_filter bits_split [OF assms(1)] nth_append)

section \<open>Well-formed tries\<close>

text \<open>
  A branch holds one child per set bit, in bit order, and every hash below the child has the bit's number as
  its chunk; every leaf carries the hash of its key; a collision holds two or more keys with one hash.
\<close>

definition wf_leaf :: "'v leaf \<Rightarrow> bool" where
  "wf_leaf l \<longleftrightarrow> leaf_hash l = hashKey (leaf_key l)"

inductive wf_node :: "nat \<Rightarrow> 'v node \<Rightarrow> bool" where
  leaf: "wf_leaf l \<Longrightarrow> wf_node s (Leaf l)"
| collision: "2 \<le> length ls \<Longrightarrow> distinct (map fst (map snd ls)) \<Longrightarrow> \<forall>l \<in> set ls. wf_leaf l \<and> leaf_hash l = h \<Longrightarrow>
    wf_node s (Collision h ls)"
| branch: "s < 32 \<Longrightarrow> length cs = length (bits bm) \<Longrightarrow> cs \<noteq> [] \<Longrightarrow>
    \<forall>j < length cs. wf_node (s + 5) (cs ! j) \<and> (\<forall>l \<in> set (walk (cs ! j)). chunk (leaf_hash l) s = bits bm ! j) \<Longrightarrow>
    wf_node s (Branch bm cs)"

inductive_simps wf_node_simps: "wf_node s (Leaf l)" "wf_node s (Collision h ls)" "wf_node s (Branch bm cs)"

lemma wf_node_leaves: "wf_node s n \<Longrightarrow> l \<in> set (walk n) \<Longrightarrow> wf_leaf l"
proof (induction rule: wf_node.induct)
  case (branch s cs bm)
  then obtain j where "j < length cs" "l \<in> set (walk (cs ! j))" by (auto simp: in_set_conv_nth [of _ cs])
  with branch show ?case by blast
qed auto

lemma in_walk_branch: "l \<in> set (walk (Branch bm cs)) \<longleftrightarrow> (\<exists>j < length cs. l \<in> set (walk (cs ! j)))"
  by simp (metis in_set_conv_nth)

lemma lookup_walk:
  "wf_node s n \<Longrightarrow> lookup n s (hashKey k) k = Some v \<longleftrightarrow> (hashKey k, k, v) \<in> set (walk n)"
proof (induction arbitrary: v rule: wf_node.induct)
  case (leaf l s)
  then show ?case by (cases l) (auto simp: wf_leaf_def)
next
  case (collision ls h s)
  have "map_option leaf_value (find (\<lambda>l. leaf_key l = k) ls) = Some v \<longleftrightarrow> (h, k, v) \<in> set ls"
    using collision(2,3)
  proof (induction ls)
    case (Cons l ls)
    then show ?case by (cases l) (force simp: find_None_iff)
  qed simp
  moreover have "(hashKey k, k, v) \<in> set ls \<Longrightarrow> h = hashKey k" using collision(3) by fastforce
  moreover have "(h, k, v) \<in> set ls \<Longrightarrow> h = hashKey k" using collision(3) by (fastforce simp: wf_leaf_def)
  ultimately show ?case by auto
next
  case (branch s cs bm)
  let ?i = "chunk (hashKey k) s" and ?p = "child_pos bm (chunk (hashKey k) s)"
  have i: "?i < 32" by (rule chunk_less)
  show ?case
  proof (cases "bit bm ?i")
    case False
    have "(hashKey k, k, v) \<notin> set (walk (cs ! j))" if "j < length cs" for j
    proof
      assume "(hashKey k, k, v) \<in> set (walk (cs ! j))"
      with branch.IH that have "?i = bits bm ! j" by fastforce
      then have "?i \<in> set (bits bm)" using that branch.hyps(2) by simp
      with False show False by (simp add: set_bits)
    qed
    with False i show ?thesis by (auto simp: Let_def and_bit_at in_set_conv_nth)
  next
    case True
    note p = child_pos_nth [OF i True]
    have "(hashKey k, k, v) \<in> set (walk (Branch bm cs)) \<longleftrightarrow> (hashKey k, k, v) \<in> set (walk (cs ! ?p))"
    proof
      assume "(hashKey k, k, v) \<in> set (walk (Branch bm cs))"
      then obtain j where j: "j < length cs" "(hashKey k, k, v) \<in> set (walk (cs ! j))"
        by (auto simp: in_set_conv_nth [of _ cs])
      with branch.IH have "bits bm ! j = ?i" by fastforce
      with p j branch.hyps(2) have "j = ?p" by (metis bits_distinct nth_eq_iff_index_eq)
      with j show "(hashKey k, k, v) \<in> set (walk (cs ! ?p))" by simp
    qed (use p branch.hyps(2) in \<open>auto intro: nth_mem\<close>)
    then show ?thesis
      using True i p branch.IH branch.hyps(2) by (simp add: Let_def and_bit_at)
  qed
qed

section \<open>Insertion\<close>

definition child_ok :: "nat \<Rightarrow> nat \<Rightarrow> 'v node \<Rightarrow> bool" where
  "child_ok s i c \<longleftrightarrow> wf_node (s + 5) c \<and> (\<forall>l \<in> set (walk c). chunk (leaf_hash l) s = i)"

lemma wf_branch: "wf_node s (Branch bm cs) \<longleftrightarrow> s < 32 \<and> cs \<noteq> [] \<and> list_all2 (child_ok s) (bits bm) cs"
  unfolding wf_node_simps list_all2_conv_all_nth child_ok_def by auto

lemma list_all2_insert_at:
  "list_all2 P xs ys \<Longrightarrow> P x y \<Longrightarrow> list_all2 P (insert_at p x xs) (insert_at p y ys)"
  by (simp add: insert_at_def list_all2_appendI list_all2_takeI list_all2_dropI)

lemma set_insert_at [simp]: "set (insert_at p x xs) = insert x (set xs)"
proof -
  have "set xs = set (take p xs) \<union> set (drop p xs)" by (simp flip: set_append)
  then show ?thesis by (simp add: insert_at_def)
qed

definition flat :: "'v node \<Rightarrow> bool" where
  "flat n \<longleftrightarrow> (\<forall>bm cs. n \<noteq> Branch bm cs)"

lemma wf_flat: "wf_node s n \<Longrightarrow> flat n \<Longrightarrow> wf_node t n"
  by (cases n) (auto simp: flat_def wf_node_simps)

lemma flat_hash: "wf_node s n \<Longrightarrow> flat n \<Longrightarrow> l \<in> set (walk n) \<Longrightarrow> leaf_hash l = node_hash n"
  by (cases n) (auto simp: flat_def wf_node_simps)

lemma bits_pair:
  assumes "i < 32" "j < 32" "i \<noteq> j"
  shows "bits (bit_at i OR bit_at j) = (if i < j then [i, j] else [j, i])"
proof -
  have "filter (bit (bit_at i)) [0..<j] = filter (\<lambda>k. k = i) [0..<j]"
    using assms by (intro filter_cong) auto
  moreover have "length (filter (\<lambda>k. k = i) [0..<m]) = (if i < m then 1 else 0)" for m
    by (induction m) auto
  ultimately have "child_pos (bit_at i) j = (if i < j then 1 else 0)"
    using assms by (simp add: child_pos_filter)
  then show ?thesis using assms by (simp add: bits_or bits_bit_at insert_at_def)
qed

text \<open>Merging ends: two hashes that differ are told apart by a chunk of theirs.\<close>

lemma merge_ok:
  assumes "wf_node s a" "flat a" "wf_leaf b" "node_hash a \<noteq> leaf_hash b"
    and "take_bit s (node_hash a) = take_bit s (leaf_hash b)"
  shows "\<exists>m. merge s a b = Some m \<and> wf_node s m \<and> set (walk m) = insert b (set (walk a))"
  using assms(1,5)
proof (induction "32 - s" arbitrary: s rule: less_induct)
  case less
  have s: "s < 32"
  proof (rule ccontr)
    assume "\<not> s < 32"
    then have "take_bit s h = h" for h :: u32 by (simp add: take_bit_word_eq_self)
    with less.prems(2) assms(4) show False by simp
  qed
  let ?i = "chunk (node_hash a) s" and ?j = "chunk (leaf_hash b) s"
  have hash: "leaf_hash l = node_hash a" if "l \<in> set (walk a)" for l
    using flat_hash [OF assms(1,2) that] .
  have wf: "wf_node t a" for t using wf_flat [OF assms(1,2)] .
  show ?case
  proof (cases "?i = ?j")
    case True
    with less.prems s have "take_bit (s + 5) (node_hash a) = take_bit (s + 5) (leaf_hash b)"
      by (simp add: take_bit_chunk)
    moreover have "32 - (s + 5) < 32 - s" using s by simp
    ultimately obtain m where m: "merge (s + 5) a b = Some m" "wf_node (s + 5) m"
        "set (walk m) = insert b (set (walk a))" using less.hyps [of "s + 5"] wf by blast
    then have "child_ok s ?i m" using True hash by (auto simp: child_ok_def)
    then have "wf_node s (Branch (bit_at ?i) [m])"
      using s by (simp add: wf_branch bits_bit_at chunk_less)
    moreover have "merge s a b = Some (Branch (bit_at ?i) [m])"
      using True m(1) by (subst merge.simps) (simp add: Let_def)
    ultimately show ?thesis using m(3) by auto
  next
    case False
    have "child_ok s ?i a" "child_ok s ?j (Leaf b)"
      using hash wf assms(3) by (auto simp: child_ok_def wf_node_simps)
    then have "wf_node s (Branch (bit_at ?i OR bit_at ?j) (if ?i < ?j then [a, Leaf b] else [Leaf b, a]))"
      using s False by (simp add: wf_branch bits_pair chunk_less)
    moreover have "merge s a b = Some (Branch (bit_at ?i OR bit_at ?j) (if ?i < ?j then [a, Leaf b] else [Leaf b, a]))"
      using False by (subst merge.simps) (simp add: Let_def)
    ultimately show ?thesis by auto
  qed
qed

text \<open>
  Inserting returns a well-formed trie with the leaf in place of the one with its key, and says whether the
  key is new.
\<close>

lemma find_index_Some: "find_index P xs = Some i \<Longrightarrow> i < length xs \<and> P (xs ! i)"
  by (induction xs arbitrary: i) (auto split: if_splits)

lemma find_index_None: "find_index P xs = None \<longleftrightarrow> (\<forall>x \<in> set xs. \<not> P x)"
  by (induction xs) auto

lemma set_update_key:
  "distinct (map f xs) \<Longrightarrow> i < length xs \<Longrightarrow> f (xs ! i) = f x \<Longrightarrow> set (xs[i := x]) = insert x {y \<in> set xs. f y \<noteq> f x}"
proof -
  assume d: "distinct (map f xs)" and i: "i < length xs" "f (xs ! i) = f x"
  have "y = xs ! i \<longleftrightarrow> f y = f x" if "y \<in> set xs" for y
    using d i that by (metis distinct_map inj_onD nth_mem)
  then show ?thesis
    using d i by (auto simp: set_update_distinct distinct_map)
qed

lemma insert_collision:
  assumes "wf_node s (Collision h ls)" "wf_leaf l" "h = leaf_hash l"
  shows "\<exists>ls'. insert_node (Some (Collision h ls)) s l = Some (Collision h ls', leaf_key l \<notin> leaf_key ` set ls)
    \<and> wf_node s (Collision h ls') \<and> set ls' = insert l {x \<in> set ls. leaf_key x \<noteq> leaf_key l}"
proof (cases "find_index (\<lambda>x. leaf_key x = leaf_key l) ls")
  case None
  then have "\<forall>x \<in> set ls. leaf_key x \<noteq> leaf_key l" by (simp add: find_index_None)
  with None assms show ?thesis
    by (intro exI [of _ "ls @ [l]"]) (auto simp: wf_node_simps)
next
  case (Some i)
  note i = find_index_Some [OF Some]
  have d: "distinct (map leaf_key ls)" using assms(1) by (simp add: wf_node_simps comp_def)
  have set: "set (ls[i := l]) = insert l {x \<in> set ls. leaf_key x \<noteq> leaf_key l}"
    using set_update_key [OF d] i by blast
  have "map leaf_key (ls[i := l]) = map leaf_key ls"
    using i by (simp add: map_update) (metis list_update_id map_update)
  then have "wf_node s (Collision h (ls[i := l]))"
    using assms set d by (auto simp: wf_node_simps comp_def)
  moreover have "leaf_key l \<in> leaf_key ` set ls" using i by (metis imageI nth_mem)
  ultimately show ?thesis using Some assms(3) set by auto
qed

lemma insert_ok:
  assumes "wf_node s n" "wf_leaf l" "\<forall>x \<in> set (walk n). take_bit s (leaf_hash x) = take_bit s (leaf_hash l)"
  shows "\<exists>n'. insert_node (Some n) s l = Some (n', leaf_key l \<notin> leaf_key ` set (walk n))
    \<and> wf_node s n' \<and> set (walk n') = insert l {x \<in> set (walk n). leaf_key x \<noteq> leaf_key l}"
  using assms(1,3)
proof (induction n arbitrary: s rule: measure_induct_rule [where f = size])
  case (less n)
  show ?case
  proof (cases n)
    case (Leaf x)
    have x: "wf_leaf x" using less.prems(1) by (simp add: Leaf wf_node_simps)
    show ?thesis
    proof (cases "leaf_hash x = leaf_hash l")
      case True
      with Leaf x assms(2) show ?thesis by (auto simp: wf_node_simps)
    next
      case False
      then have "leaf_key x \<noteq> leaf_key l" using x assms(2) by (auto simp: wf_leaf_def)
      moreover obtain m where "merge s (Leaf x) l = Some m" "wf_node s m" "set (walk m) = insert l {x}"
        using merge_ok [of s "Leaf x" l] less.prems Leaf False assms(2) by (auto simp: flat_def)
      ultimately show ?thesis using Leaf False by auto
    qed
  next
    case (Collision h ls)
    show ?thesis
    proof (cases "h = leaf_hash l")
      case True
      have "wf_node s (Collision h ls)" using less.prems(1) Collision by simp
      from insert_collision [OF this assms(2) True]
      obtain ls' where "insert_node (Some (Collision h ls)) s l = Some (Collision h ls', leaf_key l \<notin> leaf_key ` set ls)"
          "wf_node s (Collision h ls')" "set ls' = insert l {x \<in> set ls. leaf_key x \<noteq> leaf_key l}" by blast
      then show ?thesis unfolding Collision by (intro exI [of _ "Collision h ls'"]) simp
    next
      case False
      have h: "\<forall>x \<in> set ls. leaf_hash x = h \<and> wf_leaf x" and "ls \<noteq> []"
        using less.prems(1) Collision by (auto simp: wf_node_simps)
      then have "take_bit s h = take_bit s (leaf_hash l)"
        using less.prems(2) Collision by (cases ls) auto
      then obtain m where "merge s (Collision h ls) l = Some m" "wf_node s m" "set (walk m) = insert l (set ls)"
        using merge_ok [of s "Collision h ls" l] less.prems(1) Collision False assms(2) by (auto simp: flat_def)
      moreover have "\<forall>x \<in> set ls. leaf_key x \<noteq> leaf_key l"
        using h False assms(2) by (auto simp: wf_leaf_def)
      ultimately show ?thesis using Collision False by auto
    qed
  next
    case (Branch bm cs)
    let ?i = "chunk (leaf_hash l) s" and ?p = "child_pos bm (chunk (leaf_hash l) s)"
    have i: "?i < 32" by (rule chunk_less)
    have wf: "s < 32" "cs \<noteq> []" "list_all2 (child_ok s) (bits bm) cs"
      using less.prems(1) by (simp_all add: Branch wf_branch)
    have key_chunk: "chunk (leaf_hash x) s = ?i" if "wf_leaf x" "leaf_key x = leaf_key l" for x :: "'a leaf"
      using that assms(2) by (simp add: wf_leaf_def)
    show ?thesis
    proof (cases "bit bm ?i")
      case False
      let ?n = "Branch (bm OR bit_at ?i) (insert_at ?p (Leaf l) cs)"
      have none: "\<forall>x \<in> set (walk n). leaf_key x \<noteq> leaf_key l"
      proof
        fix x assume x: "x \<in> set (walk n)"
        then obtain j where "j < length cs" "x \<in> set (walk (cs ! j))"
          unfolding Branch in_walk_branch by blast
        with wf(3) have "chunk (leaf_hash x) s = bits bm ! j" "j < length (bits bm)"
          by (auto simp: list_all2_conv_all_nth child_ok_def)
        then have "bit bm (chunk (leaf_hash x) s)" by (metis nth_mem set_bits)
        with False key_chunk wf_node_leaves [OF less.prems(1) x] show "leaf_key x \<noteq> leaf_key l" by metis
      qed
      then have "leaf_key l \<notin> leaf_key ` set (walk n)" using none by (auto simp del: walk.simps)
      moreover have "{x \<in> set (walk n). leaf_key x \<noteq> leaf_key l} = set (walk n)" using none by blast
      moreover have "set (walk ?n) = insert l (set (walk n))" by (simp add: Branch)
      moreover have "wf_node s ?n"
      proof -
        have "child_ok s ?i (Leaf l)" using assms(2) by (simp add: child_ok_def wf_node_simps)
        from list_all2_insert_at [OF wf(3) this, of ?p] wf(1) show ?thesis
          unfolding wf_branch bits_or [OF i False] by (simp add: insert_at_def)
      qed
      moreover have "insert_node (Some n) s l = Some (?n, True)"
        using False i by (simp add: Branch Let_def and_bit_at)
      ultimately show ?thesis by simp
    next
      case True
      note p = child_pos_nth [OF i True]
      let ?c = "cs ! ?p"
      have len: "length cs = length (bits bm)" using wf(3) by (auto dest: list_all2_lengthD)
      have c: "wf_node (s + 5) ?c" "\<forall>x \<in> set (walk ?c). chunk (leaf_hash x) s = ?i"
        using wf(3) p by (auto simp: list_all2_conv_all_nth child_ok_def)
      have sub: "set (walk ?c) \<subseteq> set (walk n)" using p len unfolding Branch by (auto simp del: walk.simps simp: in_walk_branch)
      have "\<forall>x \<in> set (walk ?c). take_bit (s + 5) (leaf_hash x) = take_bit (s + 5) (leaf_hash l)"
        using less.prems(2) sub c(2) wf(1) by (auto simp: take_bit_chunk)
      moreover have "size ?c < size n"
        using p len unfolding Branch by (auto simp: less_Suc_eq_le intro!: size_list_estimation')
      ultimately obtain c' where c': "insert_node (Some ?c) (s + 5) l = Some (c', leaf_key l \<notin> leaf_key ` set (walk ?c))"
          "wf_node (s + 5) c'" "set (walk c') = insert l {x \<in> set (walk ?c). leaf_key x \<noteq> leaf_key l}"
        using less.IH [of ?c "s + 5"] c(1) by blast
      have other: "leaf_key x \<noteq> leaf_key l" if "j < length cs" "j \<noteq> ?p" "x \<in> set (walk (cs ! j))" for j x
      proof
        assume "leaf_key x = leaf_key l"
        moreover have "wf_leaf x"
          using wf(3) that by (auto simp: list_all2_conv_all_nth child_ok_def intro: wf_node_leaves)
        ultimately have "chunk (leaf_hash x) s = ?i" using key_chunk by blast
        moreover have "chunk (leaf_hash x) s = bits bm ! j"
          using wf(3) that by (auto simp: list_all2_conv_all_nth child_ok_def)
        ultimately show False using p that len by (metis bits_distinct nth_eq_iff_index_eq)
      qed
      have pl: "?p < length cs" using p len by simp
      have walk_n: "x \<in> set (walk n) \<longleftrightarrow> (\<exists>j < length cs. x \<in> set (walk (cs ! j)))" for x
        unfolding Branch by (rule in_walk_branch)
      have "leaf_key l \<in> leaf_key ` set (walk n) \<longleftrightarrow> leaf_key l \<in> leaf_key ` set (walk ?c)"
      proof
        assume "leaf_key l \<in> leaf_key ` set (walk n)"
        from this [unfolded image_iff] obtain x where x: "x \<in> set (walk n)" "leaf_key l = leaf_key x" by blast
        then obtain j where "j < length cs" "x \<in> set (walk (cs ! j))" using walk_n by blast
        moreover from other [OF this(1) _ this(2)] x(2) [symmetric] have "j = ?p" by blast
        ultimately show "leaf_key l \<in> leaf_key ` set (walk ?c)" using x(2) by (intro image_eqI [of _ _ x]) simp_all
      qed (use sub in blast)
      moreover have "x \<in> set (walk (Branch bm (cs[?p := c']))) \<longleftrightarrow> x = l \<or> x \<in> set (walk n) \<and> leaf_key x \<noteq> leaf_key l" for x
      proof -
        have "x \<in> set (walk (Branch bm (cs[?p := c']))) \<longleftrightarrow>
            x \<in> set (walk c') \<or> (\<exists>j < length cs. j \<noteq> ?p \<and> x \<in> set (walk (cs ! j)))"
          unfolding in_walk_branch length_list_update using pl by (metis nth_list_update_eq nth_list_update_neq)
        also have "\<dots> \<longleftrightarrow> x = l \<or> x \<in> set (walk n) \<and> leaf_key x \<noteq> leaf_key l"
          unfolding c'(3) walk_n using other pl by blast
        finally show ?thesis .
      qed
      then have "set (walk (Branch bm (cs[?p := c']))) = insert l {x \<in> set (walk n). leaf_key x \<noteq> leaf_key l}"
        by blast
      moreover have "child_ok s ?i c'" using c' c(2) by (auto simp: child_ok_def)
      then have "list_all2 (child_ok s) (bits bm) (cs[?p := c'])"
        using list_all2_update_cong [OF wf(3), of ?i c' ?p] p by (metis list_update_id)
      then have "wf_node s (Branch bm (cs[?p := c']))" using wf by (simp add: wf_branch)
      ultimately show ?thesis
        using True i p len c'(1) unfolding Branch by (simp add: Let_def and_bit_at)
    qed
  qed
qed

section \<open>The map\<close>

text \<open>\<open>PMap\<close>: the root and the number of keys. Only well-formed maps are ever built.\<close>

record 'v pmap_state =
  root :: "'v node option"
  pm_size :: nat

definition root_walk :: "'v pmap_state \<Rightarrow> 'v leaf list" where
  "root_walk m = (case root m of None \<Rightarrow> [] | Some n \<Rightarrow> walk n)"

definition state_empty :: "'v pmap_state" where
  "state_empty = \<lparr>root = None, pm_size = 0\<rparr>"

definition state_get :: "'v pmap_state \<Rightarrow> string \<Rightarrow> 'v option" where
  "state_get m key = (case root m of None \<Rightarrow> None | Some n \<Rightarrow> lookup n 0 (hashKey key) key)"

definition state_set :: "'v pmap_state \<Rightarrow> string \<Rightarrow> 'v \<Rightarrow> 'v pmap_state option" where
  "state_set m key v = map_option (\<lambda>(n, added). \<lparr>root = Some n, pm_size = (if added then pm_size m + 1 else pm_size m)\<rparr>)
     (insert_node (root m) 0 (hashKey key, key, v))"

definition wf_pmap :: "'v pmap_state \<Rightarrow> bool" where
  "wf_pmap m \<longleftrightarrow> pred_option (wf_node 0) (root m) \<and> pm_size m = card (leaf_key ` set (root_walk m))"

lemma state_get_walk: "wf_pmap m \<Longrightarrow> state_get m k = Some v \<longleftrightarrow> (hashKey k, k, v) \<in> set (root_walk m)"
  by (auto simp: wf_pmap_def state_get_def root_walk_def lookup_walk split: option.splits)

lemma root_walk_hash: "wf_pmap m \<Longrightarrow> l \<in> set (root_walk m) \<Longrightarrow> leaf_hash l = hashKey (leaf_key l)"
proof -
  assume "wf_pmap m" "l \<in> set (root_walk m)"
  then obtain n where "wf_node 0 n" "l \<in> set (walk n)"
    by (cases "root m") (auto simp: wf_pmap_def root_walk_def)
  then have "wf_leaf l" by (rule wf_node_leaves)
  then show ?thesis by (simp add: wf_leaf_def)
qed

lemma state_get_dom: "wf_pmap m \<Longrightarrow> dom (state_get m) = leaf_key ` set (root_walk m)"
proof -
  assume wf: "wf_pmap m"
  have "k \<in> dom (state_get m) \<longleftrightarrow> k \<in> leaf_key ` set (root_walk m)" for k
  proof
    assume "k \<in> leaf_key ` set (root_walk m)"
    then obtain h v where "(h, k, v) \<in> set (root_walk m)" by auto
    moreover from root_walk_hash [OF wf this] have "h = hashKey k" by simp
    ultimately show "k \<in> dom (state_get m)" using state_get_walk [OF wf, of k v] by auto
  qed (auto simp: state_get_walk [OF wf] image_iff, force)
  then show ?thesis by blast
qed

lemma wf_state_empty: "wf_pmap state_empty"
  by (simp add: wf_pmap_def state_empty_def root_walk_def)

text \<open>Setting a key never fails, keeps the map well-formed and changes the value of that key alone.\<close>

lemma state_set_ok:
  assumes wf: "wf_pmap m"
  shows "\<exists>m'. state_set m k v = Some m' \<and> wf_pmap m' \<and> state_get m' = (state_get m)(k \<mapsto> v)"
proof -
  let ?l = "(hashKey k, k, v)"
  obtain n where n: "insert_node (root m) 0 ?l = Some (n, k \<notin> leaf_key ` set (root_walk m))" "wf_node 0 n"
      "set (walk n) = insert ?l {x \<in> set (root_walk m). leaf_key x \<noteq> k}"
  proof (cases "root m")
    case None
    then show ?thesis using that [of "Leaf ?l"] by (simp add: root_walk_def wf_node_simps wf_leaf_def)
  next
    case (Some r)
    then have "wf_node 0 r" using wf by (simp add: wf_pmap_def)
    then show ?thesis
      using insert_ok [of 0 r ?l] that Some by (auto simp: wf_leaf_def root_walk_def)
  qed
  define m' where "m' = \<lparr>root = Some n, pm_size = (if k \<notin> leaf_key ` set (root_walk m) then pm_size m + 1 else pm_size m)\<rparr>"
  have set: "state_set m k v = Some m'" using n(1) by (simp add: state_set_def m'_def)
  have walk: "set (root_walk m') = insert ?l {x \<in> set (root_walk m). leaf_key x \<noteq> k}"
    using n(3) by (simp add: m'_def root_walk_def)
  then have keys: "leaf_key ` set (root_walk m') = insert k (leaf_key ` set (root_walk m))" by force
  have wf': "wf_pmap m'"
    unfolding wf_pmap_def keys using n(2) wf by (simp add: m'_def wf_pmap_def insert_absorb)
  have "state_get m' j = (if j = k then Some v else state_get m j)" for j
  proof -
    have "state_get m' j = Some w \<longleftrightarrow> (if j = k then Some v else state_get m j) = Some w" for w
      using state_get_walk [OF wf'] state_get_walk [OF wf] walk by auto
    then show ?thesis by (metis option.exhaust)
  qed
  with set wf' show ?thesis by auto
qed

lemma state_set_the:
  assumes "wf_pmap m"
  shows "wf_pmap (the (state_set m k v))" "state_get (the (state_set m k v)) = (state_get m)(k \<mapsto> v)"
proof -
  obtain m' where "state_set m k v = Some m'" "wf_pmap m'" "state_get m' = (state_get m)(k \<mapsto> v)"
    using state_set_ok [OF assms] by blast
  then show "wf_pmap (the (state_set m k v))" "state_get (the (state_set m k v)) = (state_get m)(k \<mapsto> v)"
    by simp_all
qed

text \<open>\<open>PMap<V>\<close>, its private constructor only reached through \<open>empty\<close> and \<open>set\<close>.\<close>

typedef 'v pmap = "{m :: 'v pmap_state. wf_pmap m}"
  using wf_state_empty by blast

setup_lifting type_definition_pmap

lift_definition pm_empty :: "'v pmap" is state_empty
  by (rule wf_state_empty)

lift_definition pm_get :: "'v pmap \<Rightarrow> string \<Rightarrow> 'v option" is state_get .

lift_definition pm_count :: "'v pmap \<Rightarrow> nat" is pm_size .

lift_definition pm_entries :: "'v pmap \<Rightarrow> (string \<times> 'v) list" is "\<lambda>m. map snd (root_walk m)" .

lift_definition pm_set :: "'v pmap \<Rightarrow> string \<Rightarrow> 'v \<Rightarrow> 'v pmap" is "\<lambda>m k v. the (state_set m k v)"
  by (rule state_set_the)

definition pm_has :: "'v pmap \<Rightarrow> string \<Rightarrow> bool" where
  "pm_has m key \<longleftrightarrow> pm_get m key \<noteq> None"

definition pm_values :: "'v pmap \<Rightarrow> 'v list" where
  "pm_values m = map snd (pm_entries m)"

text \<open>JavaScript's order of strings: by code units.\<close>

fun units_less :: "16 word list \<Rightarrow> 16 word list \<Rightarrow> bool" where
  "units_less _ [] = False"
| "units_less [] (_ # _) = True"
| "units_less (x # xs) (y # ys) = (x < y \<or> x = y \<and> units_less xs ys)"

definition compare_keys :: "string \<Rightarrow> string \<Rightarrow> int" where
  "compare_keys a b = (if units_less (code_units a) (code_units b) then - 1
     else if units_less (code_units b) (code_units a) then 1 else 0)"

definition pm_sortedKeys :: "'v pmap \<Rightarrow> string list" where
  "pm_sortedKeys m = js_sort compare_keys (map fst (pm_entries m))"

section \<open>The interface\<close>

text \<open>What a client of a persistent map relies on, and what follows from it.\<close>

locale persistent_map =
  fixes empty :: "'m"
    and get :: "'m \<Rightarrow> string \<Rightarrow> 'v option"
    and set_key :: "'m \<Rightarrow> string \<Rightarrow> 'v \<Rightarrow> 'm"
  assumes get_empty: "get empty k = None"
    and get_set: "get (set_key m k v) j = (if j = k then Some v else get m j)"
begin

lemma get_set_same: "get (set_key m k v) k = Some v"
  by (simp add: get_set)

lemma get_set_other: "j \<noteq> k \<Longrightarrow> get (set_key m k v) j = get m j"
  by (simp add: get_set)

lemma dom_set: "dom (get (set_key m k v)) = insert k (dom (get m))"
  by (auto simp: get_set split: if_splits)

text \<open>Any sequence of updates leaves the map a fold of map updates would.\<close>

lemma get_fold: "get (foldl (\<lambda>m (k, v). set_key m k v) m kvs) = get m ++ map_of (rev kvs)"
proof (induction kvs arbitrary: m)
  case (Cons kv kvs)
  obtain k v where kv: "kv = (k, v)" by fastforce
  have "get (set_key m k v) = (get m)(k \<mapsto> v)" by (rule ext) (simp add: get_set)
  with Cons kv show ?case by (simp add: map_add_def fun_eq_iff split: option.splits)
qed simp

end

lemma pm_get_set: "pm_get (pm_set m k v) = (pm_get m)(k \<mapsto> v)"
  by transfer (rule state_set_the)

interpretation pm: persistent_map pm_empty pm_get pm_set
proof
  show "pm_get (pm_empty :: 'v pmap) k = None" for k
    by transfer (simp add: state_get_def state_empty_def)
  show "pm_get (pm_set m k v) j = (if j = k then Some v else pm_get m j)" for m :: "'v pmap" and k v j
    by (simp add: pm_get_set)
qed

lemmas pm_simps [simp] = pm.get_empty pm.get_set

lemma pm_entries_get: "pm_get m k = Some v \<longleftrightarrow> (k, v) \<in> set (pm_entries m)"
proof transfer
  fix m :: "'v pmap_state" and k v
  assume wf: "wf_pmap m"
  show "state_get m k = Some v \<longleftrightarrow> (k, v) \<in> set (map snd (root_walk m))"
  proof
    assume "state_get m k = Some v"
    then have "(hashKey k, k, v) \<in> set (root_walk m)" by (simp add: state_get_walk [OF wf])
    then show "(k, v) \<in> set (map snd (root_walk m))" by (simp add: image_iff) (metis snd_conv)
  next
    assume "(k, v) \<in> set (map snd (root_walk m))"
    then obtain h where h: "(h, k, v) \<in> set (root_walk m)" by auto
    from root_walk_hash [OF wf this] have "h = hashKey k" by simp
    with h show "state_get m k = Some v" by (simp add: state_get_walk [OF wf])
  qed
qed

lemma pm_count_card: "pm_count m = card (dom (pm_get m))"
  by transfer (simp add: state_get_dom, simp add: wf_pmap_def)

text \<open>Every key is listed once, and the sorted keys are the domain in ascending order.\<close>

lemma distinct_concat_nth:
  "\<forall>j < length xss. distinct (xss ! j) \<Longrightarrow>
   \<forall>j < length xss. \<forall>i < j. set (xss ! i) \<inter> set (xss ! j) = {} \<Longrightarrow> distinct (concat xss)"
proof (induction xss)
  case (Cons xs xss)
  have "distinct (concat xss)"
  proof (rule Cons.IH)
    show "\<forall>j < length xss. distinct (xss ! j)" using Cons.prems(1) by (metis Suc_less_eq length_Cons nth_Cons_Suc)
    show "\<forall>j < length xss. \<forall>i < j. set (xss ! i) \<inter> set (xss ! j) = {}"
      using Cons.prems(2) by (metis Suc_less_eq length_Cons nth_Cons_Suc)
  qed
  moreover have "set xs \<inter> set (concat xss) = {}"
  proof -
    have "set xs \<inter> set (xss ! j) = {}" if "j < length xss" for j
      using Cons.prems(2) that by (metis length_Cons nth_Cons_0 nth_Cons_Suc not_less_eq zero_less_Suc)
    then show ?thesis by (simp add: set_concat disjoint_iff) (metis in_set_conv_nth)
  qed
  moreover have "distinct xs" using Cons.prems(1) by auto
  ultimately show ?case by simp
qed simp

lemma wf_node_distinct: "wf_node s n \<Longrightarrow> distinct (map leaf_key (walk n))"
proof (induction rule: wf_node.induct)
  case (branch s cs bm)
  have "distinct (concat (map (\<lambda>c. map leaf_key (walk c)) cs))"
  proof (rule distinct_concat_nth; intro allI impI)
    fix i j assume j: "j < length (map (\<lambda>c. map leaf_key (walk c)) cs)" "i < j"
    have "leaf_key x \<noteq> leaf_key y" if "x \<in> set (walk (cs ! i))" "y \<in> set (walk (cs ! j))" for x y
    proof
      assume "leaf_key x = leaf_key y"
      moreover have "wf_leaf x" "wf_leaf y"
      proof -
        have "wf_node (s + 5) (cs ! i)" "wf_node (s + 5) (cs ! j)" using branch.IH j by auto
        with that show "wf_leaf x" "wf_leaf y" by (blast intro: wf_node_leaves)+
      qed
      ultimately have "leaf_hash x = leaf_hash y" by (simp add: wf_leaf_def)
      moreover have "chunk (leaf_hash x) s = bits bm ! i" "chunk (leaf_hash y) s = bits bm ! j"
        using branch.IH j that by auto
      ultimately have "bits bm ! i = bits bm ! j" by simp
      then show False using j branch.hyps(2) by (simp add: nth_eq_iff_index_eq)
    qed
    then have "set (map leaf_key (walk (cs ! i))) \<inter> set (map leaf_key (walk (cs ! j))) = {}" by fastforce
    then show "set (map (\<lambda>c. map leaf_key (walk c)) cs ! i) \<inter> set (map (\<lambda>c. map leaf_key (walk c)) cs ! j) = {}"
      using j by simp
  qed (use branch.IH in simp)
  then show ?case by (simp add: map_concat o_def)
qed (simp_all add: comp_def)

lemma pm_entries_distinct: "distinct (map fst (pm_entries m))"
proof transfer
  fix m :: "'v pmap_state"
  assume "wf_pmap m"
  then show "distinct (map fst (map snd (root_walk m)))"
    using wf_node_distinct [of 0] by (cases "root m") (auto simp: wf_pmap_def root_walk_def comp_def)
qed

lemma pm_entries_dom: "set (map fst (pm_entries m)) = dom (pm_get m)"
  by (force simp: pm_entries_get dom_def)

lemma units_less_irrefl [simp]: "\<not> units_less xs xs"
  by (induction xs) auto

lemma units_less_trans: "units_less xs ys \<Longrightarrow> units_less ys zs \<Longrightarrow> units_less xs zs"
proof (induction xs ys arbitrary: zs rule: units_less.induct)
  case (2 y ys)
  then show ?case by (cases zs) auto
next
  case (3 x xs y ys)
  then show ?case by (cases zs) auto
qed auto

lemma units_less_total: "units_less xs ys \<or> xs = ys \<or> units_less ys xs"
proof (induction xs ys rule: units_less.induct)
  case (3 x xs y ys)
  then show ?case by (metis less_linear units_less.simps(3))
next
  case (1 xs)
  then show ?case by (cases xs) auto
qed auto

lemma compare_keys_le: "compare_keys a b \<le> 0 \<longleftrightarrow> \<not> units_less (code_units b) (code_units a)"
  using units_less_trans [of "code_units a" "code_units b" "code_units a"] by (auto simp: compare_keys_def)

interpretation key_cmp: cmp_preorder compare_keys
proof
  fix a b c
  show "compare_keys a b \<le> 0 \<or> compare_keys b a \<le> 0"
    unfolding compare_keys_le using units_less_trans [of "code_units a" "code_units b" "code_units a"] by auto
  assume ab: "compare_keys a b \<le> 0" and bc: "compare_keys b c \<le> 0"
  show "compare_keys a c \<le> 0"
    unfolding compare_keys_le
  proof
    assume ca: "units_less (code_units c) (code_units a)"
    have "code_units a = code_units b \<or> units_less (code_units a) (code_units b)"
      using units_less_total ab unfolding compare_keys_le by blast
    with ca have "units_less (code_units c) (code_units b)" using units_less_trans by auto
    with bc show False by (simp add: compare_keys_le)
  qed
qed

lemma pm_sortedKeys:
  "set (pm_sortedKeys m) = dom (pm_get m)" "distinct (pm_sortedKeys m)"
  "sorted_wrt (\<lambda>a b. \<not> units_less (code_units b) (code_units a)) (pm_sortedKeys m)"
proof -
  show "set (pm_sortedKeys m) = dom (pm_get m)" "distinct (pm_sortedKeys m)"
    using pm_entries_dom [of m] pm_entries_distinct [of m] by (simp_all add: pm_sortedKeys_def)
  have "sorted_wrt (\<lambda>a b. compare_keys a b \<le> 0) (pm_sortedKeys m)"
    unfolding pm_sortedKeys_def by (rule key_cmp.sorted_sort)
  then show "sorted_wrt (\<lambda>a b. \<not> units_less (code_units b) (code_units a)) (pm_sortedKeys m)"
    by (simp add: compare_keys_le)
qed

end
