(* ===== verification/Ledger_State.thy ===== *)
theory Ledger_State
  imports Ledger_Semantic PMap
begin

text \<open>
  The ledger's state (\<open>packages/ledger/src/state.ts\<close>): the authority graph, the balance of every charge
  target, reservations with their charge attribution, actions, and issuance attempts (the records of
  \<open>attempt.ts\<close>), in persistent maps; target keys, availability and the canonical state encoding.
\<close>

section \<open>Records\<close>

record node_record =
  n_id :: string
  n_grant :: grant
  n_depth :: nat
  n_bindings :: "term_binding list"
  n_registeredAt :: int
  revokedAt :: "int option"
  n_revocation :: "string option"

datatype capacity_source = GrantSource | PolicySource

record target_balance =
  tb_ref :: target_ref
  tb_source :: capacity_source
  dimension :: ledger_dimension
  current :: bool
  tb_reserved :: int
  tb_consumed :: int
  tb_restored :: int
  epochConsumed :: "(int \<times> int) option"

record leg_record =
  leg_key :: string
  leg_ref :: target_ref
  leg_decimals :: nat
  leg_capacity :: bool
  leg_epoch :: "int option"

record demand =
  dm_contribution :: contribution
  dm_legs :: "leg_record list"
  dm_reserved :: int
  dm_consumed :: int
  dm_released :: int
  dm_restored :: int

datatype reservation_status = IsActive | IsClosed

record reservation =
  rs_id :: string
  rs_action :: string
  rs_generation :: int
  rs_authority :: string
  rs_lineage :: "string list"
  rs_policy :: string
  rs_module :: module_ref
  rs_implementation :: string
  rs_committedAt :: int
  rs_reservedAt :: int
  rs_status :: reservation_status
  demands :: "demand list"

record action_record =
  lastGeneration :: int
  open_reservation :: "string option"

record policy_record =
  pr_id :: string
  pr_policy :: principal_policy
  pr_bindings :: "term_binding list"
  pr_registeredAt :: int

record artifact_identity =
  af_kind :: string
  af_id :: "u8 list"

record venue_slot =
  slot_scope :: string
  slot_sequence :: int

record attempt_admission =
  attempt :: string
  ordinal :: int
  at_reservation :: string
  at_generation :: int
  at_action :: string
  at_authorization :: string
  at_module :: module_ref
  at_adapter :: adapter_ref
  venueAccount :: resource_id
  artifact :: artifact_identity
  slot :: "venue_slot option"
  validUntil :: int
  at_requirements :: string
  at_revalidation :: string

datatype attempt_status = ADMITTED

record attempt_record = attempt_admission +
  admittedAt :: int
  admittedTime :: int
  attempt_status_of :: attempt_status

record ledger_state =
  ls_principal :: party
  version :: int
  head :: string
  lastAt :: "int option"
  policy :: "policy_record option"
  everReserved :: bool
  nodes :: "node_record pmap"
  targets :: "target_balance pmap"
  reservations :: "reservation pmap"
  actions :: "action_record pmap"
  attempts :: "attempt_record pmap"
  attemptArtifacts :: "string pmap"
  attemptSlots :: "string pmap"
  reservationAttempts :: "string list pmap"

section \<open>Genesis\<close>

definition GENESIS_TAG :: string where "GENESIS_TAG = ''mandate-core/v1/ledger-genesis''"

definition genesisHead :: "(u8 list \<Rightarrow> u8 list) \<Rightarrow> party \<Rightarrow> string option" where
  "genesisHead keccak p = ledgerDigest keccak (ledgerWriter GENESIS_TAG @ [writeParty p])"

definition empty_state :: "party \<Rightarrow> string \<Rightarrow> ledger_state" where
  "empty_state p h = \<lparr>ls_principal = p, version = 0, head = h, lastAt = None, policy = None,
     everReserved = False, nodes = pm_empty, targets = pm_empty, reservations = pm_empty, actions = pm_empty,
     attempts = pm_empty, attemptArtifacts = pm_empty, attemptSlots = pm_empty, reservationAttempts = pm_empty\<rparr>"

definition emptyLedgerState :: "(u8 list \<Rightarrow> u8 list) \<Rightarrow> party \<Rightarrow> ledger_state option" where
  "emptyLedgerState keccak p = map_option (empty_state p) (genesisHead keccak p)"

section \<open>Target keys\<close>

definition POLICY_DIMENSION_TAG :: string where "POLICY_DIMENSION_TAG = ''mandate-core/v1/policy-dimension''"

definition policyDimensionIdentity :: "(u8 list \<Rightarrow> u8 list) \<Rightarrow> ledger_dimension \<Rightarrow> string option" where
  "policyDimensionIdentity keccak d = ledgerDigest keccak (ledgerWriter POLICY_DIMENSION_TAG @ [
     wr_str (dimensionId d), wr_str (quantity_kind_name (b_kind (limit d))), wr_str (b_unit (limit d)),
     wr_u8 (int (b_decimals (limit d))), wr_str (accounting_name (accounting d)), wr_str (restoration_name (restoration d)),
     writeNullable (\<lambda>e. wcat [wr_i64 (anchor e), wr_u64 (lengthSeconds e)]) (epoch d),
     wr_str (sign_name (sign d)),
     writeNullable writeResourceId (scope_asset (scope d)),
     writeNullable writeResourceId (scope_market (scope d)),
     writeNullable wr_str (scope_domain (scope d)),
     writeNullable writeResourceId (scope_account (scope d))])"

definition nodeTargetKey :: "string \<Rightarrow> string \<Rightarrow> string" where
  "nodeTargetKey authority dimension_id = json_text (JsonArr [JsonStr ''N'', JsonStr authority, JsonStr dimension_id])"

definition policyTargetKey :: "string \<Rightarrow> string" where
  "policyTargetKey identity = json_text (JsonArr [JsonStr ''P'', JsonStr identity])"

lemma target_keys [simp]:
  "nodeTargetKey a d = nodeTargetKey a' d' \<longleftrightarrow> a = a' \<and> d = d'"
  "policyTargetKey i = policyTargetKey i' \<longleftrightarrow> i = i'"
  "nodeTargetKey a d \<noteq> policyTargetKey i" "policyTargetKey i \<noteq> nodeTargetKey a d"
  by (simp_all add: nodeTargetKey_def policyTargetKey_def)

section \<open>Available authority\<close>

text \<open>A validated epoch has a positive length, so the division is defined.\<close>

definition epochIndex :: "ledger_dimension \<Rightarrow> int \<Rightarrow> int option" where
  "epochIndex d t = (case epoch d of
     None \<Rightarrow> None
   | Some e \<Rightarrow> if t < anchor e then None else Some (big_div (t - anchor e) (lengthSeconds e)))"

definition availableOf :: "target_balance \<Rightarrow> int \<Rightarrow> int" where
  "availableOf b t =
     (let g = b_atoms (limit (dimension b)) in
      case restoration (dimension b) of
        RestoreNone \<Rightarrow> g - tb_consumed b - tb_reserved b
      | RestoreEpoch \<Rightarrow>
          (let ce = (case (epochIndex (dimension b) t, epochConsumed b) of
                (Some e, Some (e', n)) \<Rightarrow> if e' = e then n else 0
              | _ \<Rightarrow> 0)
           in g - ce - tb_reserved b)
      | AS_CHARGED \<Rightarrow> g - tb_consumed b - tb_reserved b + tb_restored b
      | UNITS \<Rightarrow> g - tb_consumed b - tb_reserved b + tb_restored b)"

lemma epochIndex_mono:
  assumes "epochIndex d t = Some e" "t \<le> t'" "epoch d = Some w" "0 < lengthSeconds w"
  shows "\<exists>e'. epochIndex d t' = Some e' \<and> e \<le> e'"
  using assms zdiv_mono1 [of "t - anchor w" "t' - anchor w" "lengthSeconds w"]
  by (auto simp: epochIndex_def split: if_splits)

section \<open>Attempts (attempt.ts)\<close>

definition writeAttemptAdmission :: "('z attempt_admission_scheme) \<Rightarrow> u8 list option" where
  "writeAttemptAdmission a = wcat [
     writeDigest (attempt a), wr_u16 (ordinal a), writeDigest (at_reservation a), wr_u64 (at_generation a),
     writeDigest (at_action a), writeDigest (at_authorization a),
     writeModuleRef (at_module a), writeAdapterRef (at_adapter a), writeResourceId (venueAccount a),
     wr_str (af_kind (artifact a)), wr_u8 (int (length (af_id (artifact a)))), Some (af_id (artifact a)),
     writeNullable (\<lambda>s. wcat [wr_str (slot_scope s), wr_u64 (slot_sequence s)]) (slot a),
     wr_i64 (validUntil a), writeDigest (at_requirements a), writeDigest (at_revalidation a)]"

section \<open>Canonical state encoding\<close>

fun writeTargetRef :: "target_ref \<Rightarrow> u8 list option" where
  "writeTargetRef (NODE a d) = wcat [wr_u8 1, writeDigest a, wr_str d]"
| "writeTargetRef (POLICY p d) = wcat [wr_u8 2, writeDigest p, wr_str d]"

definition writeBindings :: "term_binding list \<Rightarrow> u8 list option" where
  "writeBindings bs = wcat (wr_u16 (int (length bs)) # map writeScoped bs)"

definition source_name :: "capacity_source \<Rightarrow> string" where
  "source_name s = (case s of GrantSource \<Rightarrow> ''GRANT'' | PolicySource \<Rightarrow> ''POLICY'')"

definition status_name :: "reservation_status \<Rightarrow> string" where
  "status_name s = (case s of IsActive \<Rightarrow> ''ACTIVE'' | IsClosed \<Rightarrow> ''CLOSED'')"

definition write_map :: "('v pmap) \<Rightarrow> (string \<Rightarrow> 'v \<Rightarrow> u8 list option) \<Rightarrow> u8 list option" where
  "write_map m write = (let ks = pm_sortedKeys m
     in wcat (wr_u32 (int (length ks)) # map (\<lambda>k. do { v \<leftarrow> pm_get m k; write k v }) ks))"

definition write_node :: "string \<Rightarrow> node_record \<Rightarrow> u8 list option" where
  "write_node k n = wcat [writeSegment (encodeAuthorityGrant (n_grant n)), writeBindings (n_bindings n),
     wr_u8 (int (n_depth n)), wr_u64 (n_registeredAt n),
     writeNullable wr_u64 (revokedAt n), writeNullable writeDigest (n_revocation n)]"

definition write_target :: "string \<Rightarrow> target_balance \<Rightarrow> u8 list option" where
  "write_target k t = wcat [wr_str k, writeTargetRef (tb_ref t),
     wr_str (source_name (tb_source t)), wr_u8 (if current t then 1 else 0), wr_u256 (b_atoms (limit (dimension t))),
     wr_u256 (tb_reserved t), wr_u256 (tb_consumed t), wr_u256 (tb_restored t),
     writeNullable (\<lambda>(e, n). wcat [wr_u64 e, wr_u256 n]) (epochConsumed t)]"

definition write_demand :: "demand \<Rightarrow> u8 list option" where
  "write_demand d = wcat ([
     writeQuantityBody (ct_quantity (dm_contribution d)),
     writeNullable writeResourceId (ct_market (dm_contribution d)),
     writeNullable writeResourceId (ct_account (dm_contribution d)),
     wr_u8 (if required (dm_contribution d) then 1 else 0),
     wr_u256 (dm_reserved d), wr_u256 (dm_consumed d), wr_u256 (dm_released d), wr_u256 (dm_restored d),
     wr_u16 (int (length (dm_legs d)))] @
     map (\<lambda>l. wcat [wr_str (leg_key l), writeTargetRef (leg_ref l), wr_u8 (int (leg_decimals l)),
        wr_u8 (if leg_capacity l then 1 else 0), writeNullable wr_u64 (leg_epoch l)]) (dm_legs d))"

definition write_reservation :: "string \<Rightarrow> reservation \<Rightarrow> u8 list option" where
  "write_reservation k r = wcat ([
     writeDigest (rs_id r), writeDigest (rs_action r), wr_u64 (rs_generation r), writeDigest (rs_authority r),
     wr_u16 (int (length (rs_lineage r)))] @ map writeDigest (rs_lineage r) @ [
     writeDigest (rs_policy r), writeModuleRef (rs_module r), writeDigest (rs_implementation r),
     wr_u64 (rs_committedAt r), wr_i64 (rs_reservedAt r), wr_str (status_name (rs_status r)),
     wr_u16 (int (length (demands r)))] @ map write_demand (demands r))"

definition write_action :: "string \<Rightarrow> action_record \<Rightarrow> u8 list option" where
  "write_action k a = wcat [wr_str k, wr_u64 (lastGeneration a), writeNullable writeDigest (open_reservation a)]"

definition write_attempt :: "string \<Rightarrow> attempt_record \<Rightarrow> u8 list option" where
  "write_attempt k a = wcat [writeAttemptAdmission a, wr_u64 (admittedAt a), wr_i64 (admittedTime a), wr_str ''ADMITTED'']"

definition LEDGER_STATE_TAG :: string where "LEDGER_STATE_TAG = ''mandate-core/v1/ledger-state''"

definition encodeLedgerState :: "ledger_state \<Rightarrow> u8 list option" where
  "encodeLedgerState s = wcat (ledgerWriter LEDGER_STATE_TAG @ [
     writeParty (ls_principal s), wr_u64 (version s), writeDigest (head s),
     writeNullable wr_i64 (lastAt s),
     writeNullable (\<lambda>p. wcat [writeSegment (encodePrincipalPolicy (pr_policy p)), writeBindings (pr_bindings p),
        wr_u64 (pr_registeredAt p)]) (policy s),
     wr_u8 (if everReserved s then 1 else 0),
     write_map (nodes s) write_node,
     write_map (targets s) write_target,
     write_map (reservations s) write_reservation,
     write_map (actions s) write_action,
     (if pm_sortedKeys (attempts s) = [] then Some []
      else wcat [wr_str ''attempts'', write_map (attempts s) write_attempt])])"

definition ledgerStateDigest :: "(u8 list \<Rightarrow> u8 list) \<Rightarrow> ledger_state \<Rightarrow> string option" where
  "ledgerStateDigest keccak s = map_option (keccakDigest keccak) (encodeLedgerState s)"

end
