(* ===== verification/Ledger_Graph.thy ===== *)
theory Ledger_Graph
  imports Ledger_State
begin

text \<open>
  The authority graph: when a child grant is within its parent (\<open>packages/ledger/src/subset.ts\<close>), lineages,
  their validity, and the registration of grants and revocations (\<open>graph.ts\<close>).
\<close>

section \<open>Subset rules (subset.ts)\<close>

definition setMemberKeys :: "set_constraint \<Rightarrow> string list" where
  "setMemberKeys t = (case t of
     MODULES ms \<Rightarrow> map (\<lambda>m. json_text (JsonArr [JsonStr (domainId m), JsonStr (moduleId m),
       JsonNat (moduleVersion m), JsonStr (moduleDigest m)])) ms
   | ADAPTERS ms \<Rightarrow> map (\<lambda>a. json_text (JsonArr [JsonStr (adapterId a), JsonNat (adapterVersion a),
       JsonStr (adapterDigest a)])) ms
   | ACTION_TYPES ms \<Rightarrow> map (\<lambda>a. json_text (JsonArr [JsonStr (at_domain a), JsonStr (at_actionType a)])) ms
   | MARKETS ms \<Rightarrow> map (json_text \<circ> resource_json) ms
   | ASSETS ms \<Rightarrow> map (json_text \<circ> resource_json) ms
   | VENUES ms \<Rightarrow> map (json_text \<circ> resource_json) ms
   | RECIPIENTS ms \<Rightarrow> map (json_text \<circ> resource_json) ms)"

definition compareBoundValues :: "bound_value \<Rightarrow> bound_value \<Rightarrow> int option" where
  "compareBoundValues c p = (case (c, p) of
     (QuantityValue x, QuantityValue y) \<Rightarrow>
       if b_kind x \<noteq> b_kind y \<or> b_unit x \<noteq> b_unit y then None
       else Some (compareScaled (b_atoms x) (b_decimals x) (b_atoms y) (b_decimals y))
   | (RatioValue x, RatioValue y) \<Rightarrow> Some (compareRatios x y)
   | _ \<Rightarrow> None)"

definition same_resource :: "resource_id option \<Rightarrow> resource_id option \<Rightarrow> bool" where
  "same_resource a b = (case (a, b) of
     (Some x, Some y) \<Rightarrow> json_text (resource_json x) = json_text (resource_json y)
   | _ \<Rightarrow> a = b)"

definition same_epoch :: "epoch_window option \<Rightarrow> epoch_window option \<Rightarrow> bool" where
  "same_epoch a b = (case (a, b) of
     (Some x, Some y) \<Rightarrow> anchor x = anchor y \<and> lengthSeconds x = lengthSeconds y
   | _ \<Rightarrow> a = b)"

definition dimensionsComparable :: "ledger_dimension \<Rightarrow> ledger_dimension \<Rightarrow> bool" where
  "dimensionsComparable c p \<longleftrightarrow>
     b_kind (limit c) = b_kind (limit p) \<and> b_unit (limit c) = b_unit (limit p) \<and>
     accounting c = accounting p \<and> restoration c = restoration p \<and>
     same_epoch (epoch c) (epoch p) \<and> sign c = sign p \<and>
     same_resource (scope_asset (scope c)) (scope_asset (scope p)) \<and>
     same_resource (scope_market (scope c)) (scope_market (scope p)) \<and>
     scope_domain (scope c) = scope_domain (scope p) \<and>
     same_resource (scope_account (scope c)) (scope_account (scope p))"

fun TRUST_RANK :: "admissible_trust \<Rightarrow> nat" where
  "TRUST_RANK MinVerified = 1"
| "TRUST_RANK MinAuthoritative = 2"

fun AT_ISSUE_RANK :: "at_issue \<Rightarrow> nat" where
  "AT_ISSUE_RANK WITHIN_POLICY = 1"
| "AT_ISSUE_RANK RECHECK = 2"

definition weaker_if :: "bool \<Rightarrow> string" where
  "weaker_if b = (if b then ''DELEGATION_WEAKENS_STATE_POLICY'' else ''OK'')"

fun freshnessVerdict :: "freshness_policy \<Rightarrow> freshness_policy \<Rightarrow> string" where
  "freshnessVerdict (AGE c) (AGE p) = weaker_if (\<not> c \<le> p)"
| "freshnessVerdict (BLOCKS c) (BLOCKS p) = weaker_if (\<not> c \<le> p)"
| "freshnessVerdict SEQUENCE SEQUENCE = ''OK''"
| "freshnessVerdict (VERSION cd c) (VERSION pd p) =
     (if cd \<noteq> pd then ''DELEGATION_TERM_INCOMPARABLE'' else weaker_if (\<not> c \<le> p))"
| "freshnessVerdict _ _ = ''DELEGATION_TERM_INCOMPARABLE''"

definition executionVerdict :: "execution_dependence \<Rightarrow> execution_dependence \<Rightarrow> string" where
  "executionVerdict c p =
     (if c = p then ''OK''
      else if p = NOT_REQUIRED then ''OK''
      else if c = NOT_REQUIRED then ''DELEGATION_WEAKENS_STATE_POLICY''
      else ''DELEGATION_NARROWING_UNPROVEN'')"

definition statePolicyVerdicts :: "state_policy \<Rightarrow> state_policy \<Rightarrow> string list" where
  "statePolicyVerdicts c p = filter (\<lambda>v. v \<noteq> ''OK'') (
     (if \<not> list_all (\<lambda>s. s \<in> set (admittedSources p)) (admittedSources c) then [''DELEGATION_WEAKENS_STATE_POLICY''] else []) @
     [freshnessVerdict (freshness (requirement c)) (freshness (requirement p))] @
     (if TRUST_RANK (minTrust (requirement c)) < TRUST_RANK (minTrust (requirement p)) then [''DELEGATION_WEAKENS_STATE_POLICY''] else []) @
     (if ladder (minFinality (requirement c)) \<noteq> ladder (minFinality (requirement p)) \<or>
         level (minFinality (requirement c)) \<noteq> level (minFinality (requirement p)) then [''DELEGATION_NARROWING_UNPROVEN''] else []) @
     (if AT_ISSUE_RANK (atIssue (requirement c)) < AT_ISSUE_RANK (atIssue (requirement p)) then [''DELEGATION_WEAKENS_STATE_POLICY''] else []) @
     [executionVerdict (atExecution (requirement c)) (atExecution (requirement p))])"

fun delegate_depth :: "authority_term list \<Rightarrow> nat" where
  "delegate_depth [] = 0"
| "delegate_depth (RIGHT (DELEGATE d) # ts) = d"
| "delegate_depth (t # ts) = delegate_depth ts"

definition delegateDepth :: "grant \<Rightarrow> int" where
  "delegateDepth g = int (delegate_depth (terms g))"

definition DELEGATE_KEY :: string where
  "DELEGATE_KEY = json_text (JsonArr [JsonStr ''RIGHT'', JsonStr ''DELEGATE''])"

text \<open>A violation is reported once.\<close>

definition add_violations :: "delegation_violation list \<Rightarrow> delegation_violation list \<Rightarrow> delegation_violation list" where
  "add_violations found vs = fold (\<lambda>v found. if v \<in> set found then found else found @ [v]) vs found"

text \<open>The \<open>Map\<close> of terms by key: the last term of a key, at the place of the first.\<close>

definition terms_by_key :: "authority_term list \<Rightarrow> string \<Rightarrow> authority_term option" where
  "terms_by_key ts = map_of (rev (map (\<lambda>t. (termKey t, t)) ts))"

definition term_keys :: "authority_term list \<Rightarrow> string list" where
  "term_keys ts = rev (remdups (rev (map termKey ts)))"

text \<open>
  What one child term adds to the violations, given the parent's term of its key. The key names the kind, so a
  parent term of another kind does not occur.
\<close>

fun term_violations :: "narrowing_prover option \<Rightarrow> authority_term option \<Rightarrow> authority_term \<Rightarrow> delegation_violation list" where
  "term_violations prove p (SET c) = (case p of
     None \<Rightarrow> [(''DELEGATION_WIDENS_SET'', termKey (SET c))]
   | Some (SET q) \<Rightarrow>
       if \<not> list_all (\<lambda>m. m \<in> set (setMemberKeys q)) (setMemberKeys c) then [(''DELEGATION_WIDENS_SET'', termKey (SET c))] else []
   | _ \<Rightarrow> [])"
| "term_violations prove p (RIGHT c) =
     (if right_name c \<noteq> ''DELEGATE'' \<and> p = None then [(''DELEGATION_WIDENS_RIGHT'', termKey (RIGHT c))] else [])"
| "term_violations prove p (BOUND c) = (case p of
     Some (BOUND q) \<Rightarrow> (case compareBoundValues (bound_value_of c) (bound_value_of q) of
         None \<Rightarrow> [(''DELEGATION_TERM_INCOMPARABLE'', termKey (BOUND c))]
       | Some cmp \<Rightarrow>
           if (polarity c = UpperBound \<and> cmp > 0) \<or> (polarity c = LowerBound \<and> cmp < 0)
           then [(''DELEGATION_WIDENS_BOUND'', termKey (BOUND c))] else [])
   | _ \<Rightarrow> [])"
| "term_violations prove p (TIME_WINDOW c) = (case p of
     Some (TIME_WINDOW q) \<Rightarrow>
       if tw_notBefore c < tw_notBefore q \<or> tw_expiresAt c > tw_expiresAt q
       then [(''DELEGATION_WIDENS_WINDOW'', termKey (TIME_WINDOW c))] else []
   | _ \<Rightarrow> [])"
| "term_violations prove p (LEDGER_DIMENSION c) = (case p of
     Some (LEDGER_DIMENSION q) \<Rightarrow>
       if \<not> dimensionsComparable c q then [(''DELEGATION_TERM_INCOMPARABLE'', termKey (LEDGER_DIMENSION c))]
       else if compareScaled (b_atoms (limit c)) (b_decimals (limit c)) (b_atoms (limit q)) (b_decimals (limit q)) > 0
       then [(''DELEGATION_WIDENS_LIMIT'', termKey (LEDGER_DIMENSION c))] else []
   | _ \<Rightarrow> [])"
| "term_violations prove p (STATE_INVARIANT c) = (case p of
     Some (STATE_INVARIANT q) \<Rightarrow>
       if params q = params c then []
       else (case (case prove of None \<Rightarrow> UNPROVABLE | Some f \<Rightarrow> f q c) of
           WEAKER \<Rightarrow> [(''DELEGATION_WEAKENS_INVARIANT'', termKey (STATE_INVARIANT c))]
         | UNPROVABLE \<Rightarrow> [(''DELEGATION_NARROWING_UNPROVEN'', termKey (STATE_INVARIANT c))]
         | NO_WEAKER \<Rightarrow> [])
   | _ \<Rightarrow> [])"
| "term_violations prove p (STATE_POLICY c) = (case p of
     Some (STATE_POLICY q) \<Rightarrow> map (\<lambda>v. (v, termKey (STATE_POLICY c))) (statePolicyVerdicts c q)
   | _ \<Rightarrow> [])"

fun dropped_violations :: "string \<Rightarrow> authority_term \<Rightarrow> delegation_violation list" where
  "dropped_violations key (BOUND _) = [(''DELEGATION_DROPS_BOUND'', key)]"
| "dropped_violations key (STATE_INVARIANT _) = [(''DELEGATION_DROPS_INVARIANT'', key)]"
| "dropped_violations key (STATE_POLICY _) = [(''DELEGATION_DROPS_STATE_POLICY'', key)]"
| "dropped_violations key _ = []"

definition checkDelegationSubset :: "grant \<Rightarrow> grant \<Rightarrow> int \<Rightarrow> narrowing_prover option \<Rightarrow> delegation_violation list" where
  "checkDelegationSubset par child parentDepth prove =
     (let childDepth = delegateDepth child;
          parentTerms = terms_by_key (terms par);
          childKeys = map termKey (terms child)
      in add_violations [] (
        (if parentDepth < 1 then [(''DELEGATION_DEPTH_EXCEEDED'', DELEGATE_KEY)] else []) @
        (if childDepth > 0 \<and> childDepth > parentDepth - 1 then [(''DELEGATION_DEPTH_EXCEEDED'', DELEGATE_KEY)] else []) @
        (if notBefore child < notBefore par \<or> expiresAt child > expiresAt par then [(''DELEGATION_WIDENS_WINDOW'', ''validity'')] else []) @
        concat (map (\<lambda>c. term_violations prove (parentTerms (termKey c)) c) (terms child)) @
        concat (map (\<lambda>key. if key \<in> set childKeys then []
            else (case parentTerms key of None \<Rightarrow> [] | Some p \<Rightarrow> dropped_violations key p)) (term_keys (terms par)))))"

section \<open>Lineages (graph.ts)\<close>

text \<open>The loop that follows parents: it stops with a refusal when \<open>MAX_LINEAGE_LENGTH\<close> nodes are out.\<close>

fun resolve_from :: "nat \<Rightarrow> ledger_state \<Rightarrow> string \<Rightarrow> string \<Rightarrow> string \<Rightarrow> node_record list ledger_result" where
  "resolve_from 0 s i path leaf = refuse ''AUTHORITY_DEPTH_EXCEEDED'' path (Some leaf)"
| "resolve_from (Suc n) s i path leaf = (case pm_get (nodes s) i of
     None \<Rightarrow> refuse ''AUTHORITY_UNKNOWN'' path (Some i)
   | Some node \<Rightarrow> (case lineage (n_grant node) of
       ROOT _ \<Rightarrow> Inr [node]
     | DELEGATION p _ \<Rightarrow> rbind (resolve_from n s p path leaf) (\<lambda>rest. Inr (node # rest))))"

definition resolveLineage :: "ledger_state \<Rightarrow> string \<Rightarrow> string \<Rightarrow> node_record list ledger_result" where
  "resolveLineage s leaf path = resolve_from MAX_LINEAGE_LENGTH s leaf path leaf"

text \<open>Leaf to root; each depth from the one above it.\<close>

fun effectiveDepths :: "node_record list \<Rightarrow> int list" where
  "effectiveDepths [] = []"
| "effectiveDepths (n # ns) =
     (let ds = effectiveDepths ns; own = delegateDepth (n_grant n);
          inherited = (case ds of [] \<Rightarrow> own | d # _ \<Rightarrow> d - 1);
          eff = (if inherited < 0 then 0 else if own < inherited then own else inherited)
      in eff # ds)"

text \<open>Root first: the rest of the lineage is checked before its leaf.\<close>

fun check_lineage :: "ledger_state \<Rightarrow> int \<Rightarrow> string \<Rightarrow> node_record list \<Rightarrow> int list \<Rightarrow> unit ledger_result" where
  "check_lineage s t path (n # ns) (d # ds) =
     rbind (check_lineage s t path ns ds) (\<lambda>_.
       (let g = n_grant n in
        refuse_if (\<not> partyIdsEqual (g_principal g) (ls_principal s)) ''AUTHORITY_PRINCIPAL_MISMATCH'' path (Some (n_id n)) (
        rbind (case ns of
            p # _ \<Rightarrow>
              refuse_if (\<not> (case lineage g of ROOT _ \<Rightarrow> False | DELEGATION pid i \<Rightarrow> pid = n_id p \<and> partyIdsEqual i (holder (n_grant p))))
                ''AUTHORITY_ISSUER_MISMATCH'' path (Some (n_id n)) (
              refuse_if (hd ds < 1) ''AUTHORITY_DEPTH_EXCEEDED'' path (Some (n_id n)) (Inr ()))
          | [] \<Rightarrow>
              refuse_if (\<not> (case lineage g of ROOT i \<Rightarrow> partyIdsEqual i (ls_principal s) | DELEGATION _ _ \<Rightarrow> False))
                ''AUTHORITY_ISSUER_MISMATCH'' path (Some (n_id n)) (Inr ())) (\<lambda>_.
        refuse_if (revokedAt n \<noteq> None) ''AUTHORITY_REVOKED'' path (Some (n_id n)) (
        refuse_if (t < notBefore g) ''AUTHORITY_NOT_YET_VALID'' path (Some (n_id n)) (
        refuse_if (t \<ge> expiresAt g) ''AUTHORITY_EXPIRED'' path (Some (n_id n)) (Inr ())))))))"
| "check_lineage s t path _ _ = Inr ()"

definition checkLineageValid :: "ledger_state \<Rightarrow> node_record list \<Rightarrow> int \<Rightarrow> string \<Rightarrow> unit ledger_result" where
  "checkLineageValid s lin t path =
     refuse_if (policy s = None) ''PRINCIPAL_POLICY_MISSING'' path None
       (check_lineage s t path lin (effectiveDepths lin))"

definition checkGrantRegistration ::
    "ledger_state \<Rightarrow> string \<Rightarrow> grant \<Rightarrow> int \<Rightarrow> string \<Rightarrow> narrowing_prover option \<Rightarrow> nat ledger_result" where
  "checkGrantRegistration s i g t path prove =
     refuse_if (\<not> partyIdsEqual (g_principal g) (ls_principal s)) ''PRINCIPAL_MISMATCH'' (path @ ''.principal'') (Some i) (
     refuse_if (policy s = None) ''PRINCIPAL_POLICY_MISSING'' path (Some i) (
     refuse_if (pm_has (nodes s) i) ''AUTHORITY_ALREADY_REGISTERED'' path (Some i) (
     refuse_if (t \<ge> expiresAt g) ''AUTHORITY_EXPIRED'' (path @ ''.expiresAt'') (Some i) (
     case lineage g of
       ROOT _ \<Rightarrow> Inr 0
     | DELEGATION parentId iss \<Rightarrow>
         rbind (resolveLineage s parentId (path @ ''.lineage.parent'')) (\<lambda>lin.
         rbind (checkLineageValid s lin t (path @ ''.lineage.parent'')) (\<lambda>_.
         (let p = hd lin in
          refuse_if (\<not> partyIdsEqual (g_principal g) (g_principal (n_grant p))) ''AUTHORITY_PRINCIPAL_MISMATCH'' (path @ ''.principal'') (Some i) (
          refuse_if (\<not> partyIdsEqual iss (holder (n_grant p))) ''AUTHORITY_ISSUER_MISMATCH'' (path @ ''.lineage.issuer'') (Some i) (
          (let violations = checkDelegationSubset (n_grant p) g (hd (effectiveDepths lin)) prove in
           if violations \<noteq> [] then Inl (DelegationRefused path violations)
           else refuse_if (length lin \<ge> MAX_LINEAGE_LENGTH) ''AUTHORITY_DEPTH_EXCEEDED'' path (Some i) (
             Inr (n_depth p + 1))))))))))))"

definition checkRevocation :: "ledger_state \<Rightarrow> revocation \<Rightarrow> int \<Rightarrow> string \<Rightarrow> unit ledger_result" where
  "checkRevocation s r t path =
     rbind (resolveLineage s (rv_target r) (path @ ''.target'')) (\<lambda>lin.
     refuse_if (effectiveAt r > t) ''REVOCATION_NOT_EFFECTIVE'' (path @ ''.effectiveAt'') (Some (rv_target r)) (
     (case find (\<lambda>n. revokedAt n \<noteq> None) lin of
        Some n \<Rightarrow> refuse ''AUTHORITY_REVOKED'' (path @ ''.target'') (Some (n_id n))
      | None \<Rightarrow>
          refuse_if (\<not> list_ex (\<lambda>n. partyIdsEqual (issuer (lineage (n_grant n))) (rv_issuer r)) lin)
            ''REVOCATION_ISSUER_NOT_ELIGIBLE'' (path @ ''.issuer'') (Some (rv_target r)) (Inr ()))))"

end
