(* ===== verification/Ledger_Meet.thy ===== *)
theory Ledger_Meet
  imports Ledger_Graph
begin

text \<open>
  The action-time meet (\<open>packages/ledger/src/meet.ts\<close>): the authority a lineage and the principal's policy
  leave to its leaf, as the intersection over all its nodes. A \<open>Map\<close> is an association list in insertion order.
\<close>

section \<open>Maps in insertion order\<close>

fun put :: "string \<Rightarrow> 'v \<Rightarrow> (string \<times> 'v) list \<Rightarrow> (string \<times> 'v) list" where
  "put k v [] = [(k, v)]"
| "put k v ((j, w) # m) = (if j = k then (j, v) # m else (j, w) # put k v m)"

lemma map_of_put [simp]: "map_of (put k v m) = (map_of m)(k \<mapsto> v)"
  by (induction m) auto

lemma map_fst_put: "map fst (put k v m) = (if k \<in> fst ` set m then map fst m else map fst m @ [k])"
  by (induction k v m rule: put.induct) auto

lemma put_keys [simp]: "fst ` set (put k v m) = insert k (fst ` set m)"
  using arg_cong [OF map_fst_put [of k v m], of set] by (auto split: if_splits)

lemma distinct_put: "distinct (map fst m) \<Longrightarrow> distinct (map fst (put k v m))"
  by (simp add: map_fst_put)

section \<open>The effective authority\<close>

record effective_window =
  ew_notBefore :: int
  ew_expiresAt :: int
  ew_empty :: bool

record effective_time_window = effective_window +
  ew_domain :: string

record effective_state_policy =
  esp_domain :: string
  esp_stateKind :: string
  esp_sources :: "string list"
  esp_requirements :: "state_requirement list"

record bound_invariant =
  bi_term :: state_invariant
  bi_binding :: "term_binding option"

record effective_authority =
  ea_leaf :: string
  ea_lineage :: "string list"
  ea_holder :: party
  ea_validity :: effective_window
  ea_sets :: "set_constraint list"
  ea_rights :: "right_term list"
  ea_delegateDepth :: int
  ea_bounds :: "action_bound list"
  ea_timeWindows :: "effective_time_window list"
  ea_invariants :: "bound_invariant list"
  ea_principalInvariants :: "bound_invariant list"
  ea_statePolicies :: "effective_state_policy list"

section \<open>Sets and rights\<close>

definition filter_keyed :: "(string \<Rightarrow> bool) \<Rightarrow> string list \<Rightarrow> 'a list \<Rightarrow> 'a list" where
  "filter_keyed keep keys ms = map fst (filter (\<lambda>(m, k). keep k) (zip ms keys))"

definition filterMembers :: "set_constraint \<Rightarrow> (string \<Rightarrow> bool) \<Rightarrow> set_constraint" where
  "filterMembers t keep = (let keys = setMemberKeys t in case t of
     MODULES ms \<Rightarrow> MODULES (filter_keyed keep keys ms)
   | ADAPTERS ms \<Rightarrow> ADAPTERS (filter_keyed keep keys ms)
   | MARKETS ms \<Rightarrow> MARKETS (filter_keyed keep keys ms)
   | ASSETS ms \<Rightarrow> ASSETS (filter_keyed keep keys ms)
   | VENUES ms \<Rightarrow> VENUES (filter_keyed keep keys ms)
   | RECIPIENTS ms \<Rightarrow> RECIPIENTS (filter_keyed keep keys ms)
   | ACTION_TYPES ms \<Rightarrow> ACTION_TYPES (filter_keyed keep keys ms))"

fun set_of :: "authority_term \<Rightarrow> set_constraint option" where
  "set_of (SET t) = Some t"
| "set_of _ = None"

definition find_set :: "string \<Rightarrow> grant \<Rightarrow> set_constraint option" where
  "find_set vocabulary g = find (\<lambda>t. vocabulary_name t = vocabulary) (List.map_filter set_of (terms g))"

fun meet_set :: "set_constraint \<Rightarrow> grant list \<Rightarrow> set_constraint option" where
  "meet_set t [] = Some t"
| "meet_set t (g # gs) = (case find_set (vocabulary_name t) g of
     None \<Rightarrow> None
   | Some other \<Rightarrow> meet_set (filterMembers t (\<lambda>k. k \<in> set (setMemberKeys other))) gs)"

definition meet_sets :: "grant list \<Rightarrow> set_constraint list" where
  "meet_sets gs = List.map_filter (\<lambda>t. meet_set t (tl gs)) (List.map_filter set_of (terms (hd gs)))"

definition RIGHTS :: "right_term list" where
  "RIGHTS = [OPEN_RISK, REDUCE_RISK, TRANSFER_OUT]"

definition meet_rights :: "grant list \<Rightarrow> right_term list" where
  "meet_rights gs = filter (\<lambda>r. list_all (\<lambda>g. RIGHT r \<in> set (terms g)) gs) RIGHTS"

section \<open>Bounds, windows, invariants and state policies\<close>

fun meet_bound :: "string \<Rightarrow> string \<Rightarrow> authority_term \<Rightarrow> (string \<times> action_bound) list \<Rightarrow> (string \<times> action_bound) list ledger_result" where
  "meet_bound path leaf (BOUND t) bounds =
     (let key = termKey (BOUND t) in
      case map_of bounds key of
        None \<Rightarrow> Inr (put key t bounds)
      | Some prev \<Rightarrow> (case compareBoundValues (bound_value_of t) (bound_value_of prev) of
          None \<Rightarrow> refuse ''LINEAGE_TERMS_INCOMPARABLE'' path (Some leaf)
        | Some cmp \<Rightarrow>
            Inr (if (polarity t = UpperBound \<and> cmp < 0) \<or> (polarity t = LowerBound \<and> cmp > 0)
                 then put key t bounds else bounds)))"
| "meet_bound path leaf _ bounds = Inr bounds"

fun rfold :: "('a \<Rightarrow> 's \<Rightarrow> 'e + 's) \<Rightarrow> 'a list \<Rightarrow> 's \<Rightarrow> 'e + 's" where
  "rfold f [] s = Inr s"
| "rfold f (x # xs) s = rbind (f x s) (rfold f xs)"

fun meet_window :: "authority_term \<Rightarrow> (string \<times> time_window) list \<Rightarrow> (string \<times> time_window) list" where
  "meet_window (TIME_WINDOW w) ws = (case map_of ws (tw_domain w) of
     None \<Rightarrow> put (tw_domain w) w ws
   | Some prev \<Rightarrow> put (tw_domain w) \<lparr>tw_domain = tw_domain w,
        tw_notBefore = (if tw_notBefore w > tw_notBefore prev then tw_notBefore w else tw_notBefore prev),
        tw_expiresAt = (if tw_expiresAt w < tw_expiresAt prev then tw_expiresAt w else tw_expiresAt prev)\<rparr> ws)"
| "meet_window _ ws = ws"

definition ownerKey :: "term_binding \<Rightarrow> json" where
  "ownerKey b = (case owner (sd_definition b) of
     MODULE m \<Rightarrow> JsonArr [JsonStr (domainId m), JsonStr (moduleId m), JsonStr (nat_str (moduleVersion m)), JsonStr (moduleDigest m)]
   | CORE \<Rightarrow> JsonArr [JsonStr ''CORE''])"

definition invariant_key :: "bound_invariant \<Rightarrow> string" where
  "invariant_key b = json_text (JsonArr [JsonStr (termKey (STATE_INVARIANT (bi_term b))), JsonStr (params (bi_term b)),
     (case bi_binding b of None \<Rightarrow> JsonNull | Some x \<Rightarrow> ownerKey x)])"

definition node_invariants :: "node_record \<Rightarrow> bound_invariant list" where
  "node_invariants n = map (\<lambda>t. \<lparr>bi_term = t, bi_binding = bindingOf (n_bindings n) t\<rparr>) (grantInvariants (n_grant n))"

text \<open>The first of each key.\<close>

fun first_by_key :: "('a \<Rightarrow> string) \<Rightarrow> string set \<Rightarrow> 'a list \<Rightarrow> 'a list" where
  "first_by_key key seen [] = []"
| "first_by_key key seen (x # xs) =
     (if key x \<in> seen then first_by_key key seen xs else x # first_by_key key (insert (key x) seen) xs)"

record policy_meet =
  pm_domain :: string
  pm_kind :: string
  pm_sources :: "string list"
  pm_requirements :: "(string \<times> state_requirement) list"

definition add_policy :: "state_policy \<Rightarrow> (string \<times> policy_meet) list \<Rightarrow> (string \<times> policy_meet) list ledger_result" where
  "add_policy t ps = rbind (may_throw (writeStateRequirement (requirement t))) (\<lambda>bytes.
     (let key = termKey (STATE_POLICY t); reqKey = bytesToHex bytes in
      Inr (case map_of ps key of
          None \<Rightarrow> put key \<lparr>pm_domain = sp_domain t, pm_kind = stateKind t, pm_sources = admittedSources t,
            pm_requirements = [(reqKey, requirement t)]\<rparr> ps
        | Some prev \<Rightarrow> put key (prev\<lparr>
            pm_sources := filter (\<lambda>s. s \<in> set (admittedSources t)) (pm_sources prev),
            pm_requirements := put reqKey (requirement t) (pm_requirements prev)\<rparr>) ps)))"

section \<open>The meet\<close>

definition window_of :: "int \<Rightarrow> int \<Rightarrow> effective_window" where
  "window_of nb ea = \<lparr>ew_notBefore = nb, ew_expiresAt = ea, ew_empty = (nb \<ge> ea)\<rparr>"

definition effectiveAuthority :: "node_record list \<Rightarrow> principal_policy \<Rightarrow> string \<Rightarrow> term_binding list \<Rightarrow> effective_authority ledger_result" where
  "effectiveAuthority lin pol path policyBindings =
     (let leaf = hd lin; grants = map n_grant lin;
          nb = fold (\<lambda>g n. if notBefore g > n then notBefore g else n) grants (notBefore (n_grant leaf));
          ea = fold (\<lambda>g n. if expiresAt g < n then expiresAt g else n) grants (expiresAt (n_grant leaf));
          allTerms = concat (map terms grants)
      in rbind (rfold (meet_bound path (n_id leaf)) allTerms []) (\<lambda>bounds.
         rbind (rfold add_policy (List.map_filter state_policy_of allTerms @ policyStatePolicy pol) []) (\<lambda>statePolicies.
         Inr \<lparr>ea_leaf = n_id leaf, ea_lineage = map n_id lin, ea_holder = holder (n_grant leaf),
           ea_validity = window_of nb ea,
           ea_sets = meet_sets grants,
           ea_rights = meet_rights grants,
           ea_delegateDepth = hd (effectiveDepths lin),
           ea_bounds = map snd bounds,
           ea_timeWindows = map (\<lambda>w. \<lparr>ew_notBefore = tw_notBefore w, ew_expiresAt = tw_expiresAt w,
               ew_empty = (tw_notBefore w \<ge> tw_expiresAt w), ew_domain = tw_domain w\<rparr>)
             (map snd (fold meet_window allTerms [])),
           ea_invariants = first_by_key invariant_key {} (concat (map node_invariants lin)),
           ea_principalInvariants = map (\<lambda>t. \<lparr>bi_term = t, bi_binding = bindingOf policyBindings t\<rparr>) (policyInvariants pol),
           ea_statePolicies = map (\<lambda>p. \<lparr>esp_domain = pm_domain p, esp_stateKind = pm_kind p, esp_sources = pm_sources p,
               esp_requirements = map snd (pm_requirements p)\<rparr>) (map snd statePolicies)\<rparr>)))"

definition moduleAllowed :: "effective_authority \<Rightarrow> module_ref \<Rightarrow> bool" where
  "moduleAllowed e m = (case find (\<lambda>s. vocabulary_name s = ''MODULES'') (ea_sets e) of
     Some (MODULES ms) \<Rightarrow> list_ex (\<lambda>x. moduleRefsEqual x m) ms
   | _ \<Rightarrow> False)"

end
