(* ===== verification/Ledger_Charging.thy ===== *)
theory Ledger_Charging
  imports Ledger_Meet
begin

text \<open>
  Charging (\<open>packages/ledger/src/charging.ts\<close>): which dimensions a contribution is charged to, the amount of
  each leg, and whether every target has room for all it is asked at once.
\<close>

definition scopeMatches :: "resource_id option \<Rightarrow> resource_id option \<Rightarrow> bool" where
  "scopeMatches want have_res \<longleftrightarrow> (case want of None \<Rightarrow> True
     | Some w \<Rightarrow> (case have_res of None \<Rightarrow> False | Some h \<Rightarrow> resourceIdsEqual w h))"

definition contributionMatches :: "contribution \<Rightarrow> string \<Rightarrow> ledger_dimension \<Rightarrow> bool" where
  "contributionMatches c dmn d \<longleftrightarrow>
     (let q = ct_quantity c in
      q_kind q = b_kind (limit d) \<and> q_unit q = b_unit (limit d) \<and>
      scopeMatches (scope_asset (scope d)) (q_asset q) \<and>
      scopeMatches (scope_market (scope d)) (ct_market c) \<and>
      (scope_domain (scope d) = None \<or> scope_domain (scope d) = Some dmn) \<and>
      scopeMatches (scope_account (scope d)) (ct_account c))"

record leg_draft =
  ld_key :: string
  ld_ref :: target_ref
  ld_dimension :: ledger_dimension
  ld_amount :: int
  ld_epoch :: "int option"

definition legFor :: "string \<Rightarrow> target_ref \<Rightarrow> ledger_dimension \<Rightarrow> contribution \<Rightarrow> int \<Rightarrow> string \<Rightarrow> string option \<Rightarrow> leg_draft ledger_result" where
  "legFor key ref d c t path node =
     refuse_if (sign d = NET) ''NET_DIMENSION_UNSUPPORTED'' path node (
     rbind (need (Refused ''INEXACT_RESCALE'' path node)
       (rescaleExact (q_atoms (ct_quantity c)) (q_decimals (ct_quantity c)) (b_decimals (limit d)))) (\<lambda>n.
     rbind (if restoration d = RestoreEpoch
            then map_sum id Some (need (Refused ''EPOCH_NOT_STARTED'' path node) (epochIndex d t))
            else Inr None) (\<lambda>e.
     Inr \<lparr>ld_key = key, ld_ref = ref, ld_dimension = d, ld_amount = n, ld_epoch = e\<rparr>)))"

text \<open>The matching dimensions of one node, in the order of its terms.\<close>

definition node_legs :: "contribution \<Rightarrow> string \<Rightarrow> int \<Rightarrow> string \<Rightarrow> node_record \<Rightarrow> leg_draft list ledger_result" where
  "node_legs c dmn t path n = rmap (\<lambda>d. legFor (nodeTargetKey (n_id n) (dimensionId d)) (NODE (n_id n) (dimensionId d)) d c t path (Some (n_id n)))
     (filter (contributionMatches c dmn) (List.map_filter dimension_of (terms (n_grant n))))"

definition policy_leg :: "(u8 list \<Rightarrow> u8 list) \<Rightarrow> string \<Rightarrow> contribution \<Rightarrow> int \<Rightarrow> string \<Rightarrow> ledger_dimension \<Rightarrow> leg_draft ledger_result" where
  "policy_leg keccak policyId c t path d = rbind (may_throw (policyDimensionIdentity keccak d)) (\<lambda>i.
     legFor (policyTargetKey i) (POLICY policyId (dimensionId d)) d c t path None)"

definition contribution_legs :: "(u8 list \<Rightarrow> u8 list) \<Rightarrow> node_record list \<Rightarrow> string \<Rightarrow> ledger_dimension list \<Rightarrow> string \<Rightarrow> int \<Rightarrow>
    string \<Rightarrow> contribution \<Rightarrow> leg_draft list ledger_result" where
  "contribution_legs keccak lin policyId policyDims dmn t path c =
     rbind (map_sum id concat (rmap (node_legs c dmn t path) lin)) (\<lambda>legs.
     refuse_if (required c \<and> legs = []) ''UNBOUNDED_CONTRIBUTION'' path (Some (n_id (hd lin))) (
     rbind (rmap (policy_leg keccak policyId c t path) (filter (contributionMatches c dmn) policyDims)) (\<lambda>plegs.
     Inr (legs @ plegs))))"

definition deriveLegs :: "(u8 list \<Rightarrow> u8 list) \<Rightarrow> node_record list \<Rightarrow> string \<Rightarrow> ledger_dimension list \<Rightarrow> contribution list \<Rightarrow>
    string \<Rightarrow> int \<Rightarrow> string \<Rightarrow> leg_draft list list ledger_result" where
  "deriveLegs keccak lin policyId policyDims cs dmn t path =
     rmap (\<lambda>(i, c). contribution_legs keccak lin policyId policyDims dmn t (index_path path i) c) (enumerate 0 cs)"

definition policyDimsOf :: "ledger_state \<Rightarrow> ledger_dimension list" where
  "policyDimsOf s = (case policy s of None \<Rightarrow> [] | Some p \<Rightarrow> policyDimensions (pr_policy p))"

section \<open>Availability\<close>

text \<open>The demand on each target, and the first leg of each target, in the order they are met.\<close>

definition add_leg :: "leg_draft \<Rightarrow> (string \<times> int) list \<Rightarrow> (string \<times> int) list" where
  "add_leg l m = put (ld_key l) ((case map_of m (ld_key l) of None \<Rightarrow> 0 | Some n \<Rightarrow> n) + ld_amount l) m"

definition demand_of :: "leg_draft list \<Rightarrow> (string \<times> int) list" where
  "demand_of ls = fold add_leg ls []"

definition check_target :: "ledger_state \<Rightarrow> int \<Rightarrow> string \<Rightarrow> (string \<times> int) list \<Rightarrow> leg_draft \<Rightarrow> limit_failure list \<Rightarrow>
    limit_failure list ledger_result" where
  "check_target s t path dem l fs = rbind (may_throw (pm_get (targets s) (ld_key l))) (\<lambda>b.
     (let asked = the (map_of dem (ld_key l)) in
      refuse_if (tb_reserved b + asked > UINT256_MAX_core) ''AMOUNT_OVERFLOW'' path
        (case ld_ref l of NODE a _ \<Rightarrow> Some a | POLICY _ _ \<Rightarrow> None) (
      (let avail = availableOf b t in
       Inr (if asked > avail
            then fs @ [\<lparr>lf_target = ld_ref l, lf_kind = b_kind (limit (ld_dimension l)), lf_unit = b_unit (limit (ld_dimension l)),
               lf_decimals = b_decimals (limit (ld_dimension l)), requested = asked, available = avail,
               lf_limit = b_atoms (limit (ld_dimension l))\<rparr>]
            else fs)))))"

definition checkAvailability :: "ledger_state \<Rightarrow> leg_draft list list \<Rightarrow> int \<Rightarrow> string \<Rightarrow> (string \<times> int) list ledger_result" where
  "checkAvailability s legs t path =
     (let ls = concat legs; dem = demand_of ls in
      rbind (rfold (check_target s t path dem) (first_by_key ld_key {} ls) []) (\<lambda>fs.
      if fs \<noteq> [] then Inl (LimitExceeded path fs) else Inr dem))"

definition legRecordOf :: "leg_draft \<Rightarrow> leg_record" where
  "legRecordOf l = \<lparr>leg_key = ld_key l, leg_ref = ld_ref l, leg_decimals = b_decimals (limit (ld_dimension l)),
     leg_capacity = (accounting (ld_dimension l) = CAPACITY), leg_epoch = ld_epoch l\<rparr>"

end
