(* ===== verification/Ledger_Events.thy ===== *)
theory Ledger_Events
  imports Ledger_Charging
begin

text \<open>
  The events of a ledger and their encodings (\<open>packages/ledger/src/events.ts\<close>), and the identities and
  structural rules of issuance attempts (\<open>attempt.ts\<close>). Absent proofs or bindings are empty lists, as every
  reader of them has it.
\<close>

section \<open>Events\<close>

record event_leg =
  el_target :: target_ref
  el_amount :: int
  el_epoch :: "int option"

record accounting_event =
  ae_reservation :: string
  ae_generation :: int
  evidence :: string
  amounts :: "int list"

datatype ledger_event =
    REGISTER_POLICY (event_at: int) principal_policy "semantic_proof list" "term_binding list"
  | REGISTER_GRANT (event_at: int) grant "semantic_proof list" "term_binding list"
  | REVOKE (event_at: int) revocation
  | RESERVE (event_at: int) charge_plan "string list" string "event_leg list list"
  | CONSUME (event_at: int) accounting_event
  | CLOSE (event_at: int) accounting_event
  | RESTORE (event_at: int) accounting_event
  | ADMIT_ATTEMPT (event_at: int) attempt_admission

fun wireKind :: "ledger_event \<Rightarrow> int" where
  "wireKind (REGISTER_POLICY _ _ ps bs) = (if bs \<noteq> [] then 10 else if ps \<noteq> [] then 8 else 1)"
| "wireKind (REGISTER_GRANT _ _ ps bs) = (if bs \<noteq> [] then 11 else if ps \<noteq> [] then 9 else 2)"
| "wireKind (REVOKE _ _) = 3"
| "wireKind (RESERVE _ _ _ _ _) = 4"
| "wireKind (CONSUME _ _) = 5"
| "wireKind (CLOSE _ _) = 6"
| "wireKind (RESTORE _ _) = 7"
| "wireKind (ADMIT_ATTEMPT _ _) = 12"

definition writeSemantics :: "term_binding list \<Rightarrow> semantic_proof list \<Rightarrow> u8 list option" where
  "writeSemantics bs ps = wcat (
     (if bs \<noteq> [] then wr_u16 (int (length bs)) # map writeScoped bs @ [wr_u16 (int (length ps))]
      else if ps \<noteq> [] then [wr_u16 (int (length ps))] else []) @
     map writeScoped ps)"

definition writeLeg :: "event_leg \<Rightarrow> u8 list option" where
  "writeLeg l = wcat [writeTargetRef (el_target l), wr_u256 (el_amount l), writeNullable wr_u64 (el_epoch l)]"

definition write_accounting :: "accounting_event \<Rightarrow> u8 list option" where
  "write_accounting e = wcat ([writeDigest (ae_reservation e), wr_u64 (ae_generation e), writeDigest (evidence e),
     wr_u16 (int (length (amounts e)))] @ map wr_u256 (amounts e))"

fun write_event_fields :: "ledger_event \<Rightarrow> u8 list option" where
  "write_event_fields (REGISTER_POLICY _ p ps bs) = wcat [writeSegment (encodePrincipalPolicy p), writeSemantics bs ps]"
| "write_event_fields (REGISTER_GRANT _ g ps bs) = wcat [writeSegment (encodeAuthorityGrant g), writeSemantics bs ps]"
| "write_event_fields (REVOKE _ r) = writeSegment (encodeRevocation r)"
| "write_event_fields (RESERVE _ p lin pol legs) = wcat (
     [writeChargePlan p, wr_u16 (int (length lin))] @ map writeDigest lin @
     [writeDigest pol, wr_u16 (int (length legs))] @
     map (\<lambda>ls. wcat (wr_u16 (int (length ls)) # map writeLeg ls)) legs)"
| "write_event_fields (CONSUME _ e) = write_accounting e"
| "write_event_fields (CLOSE _ e) = write_accounting e"
| "write_event_fields (RESTORE _ e) = write_accounting e"
| "write_event_fields (ADMIT_ATTEMPT _ a) = writeAttemptAdmission a"

definition writeEventBody :: "ledger_event \<Rightarrow> u8 list option" where
  "writeEventBody e = wcat [wr_u8 (wireKind e), wr_i64 (event_at e), write_event_fields e]"

definition LEDGER_BATCH_TAG :: string where "LEDGER_BATCH_TAG = ''mandate-core/v1/ledger-batch''"
definition LEDGER_EVENT_TAG :: string where "LEDGER_EVENT_TAG = ''mandate-core/v1/ledger-event''"

definition encodeLedgerEvent :: "ledger_event \<Rightarrow> u8 list option" where
  "encodeLedgerEvent e = wcat (ledgerWriter LEDGER_EVENT_TAG @ [writeEventBody e])"

definition encodeBatch :: "party \<Rightarrow> int \<Rightarrow> string \<Rightarrow> ledger_event list \<Rightarrow> u8 list option" where
  "encodeBatch p v previousHead events = wcat (ledgerWriter LEDGER_BATCH_TAG @
     [writeParty p, wr_u64 v, writeDigest previousHead, wr_u16 (int (length events))] @
     map writeEventBody events)"

definition batchHead :: "(u8 list \<Rightarrow> u8 list) \<Rightarrow> u8 list \<Rightarrow> string" where
  "batchHead keccak encoded = keccakDigest keccak encoded"

section \<open>Attempts (attempt.ts)\<close>

definition MAX_ARTIFACT_ID_BYTES :: nat where "MAX_ARTIFACT_ID_BYTES = 64"
definition MAX_ATTEMPTS_PER_RESERVATION :: int where "MAX_ATTEMPTS_PER_RESERVATION = 16"
definition ATTEMPT_TAG :: string where "ATTEMPT_TAG = ''mandate-core/v1/attempt''"

definition attemptIdFor :: "(u8 list \<Rightarrow> u8 list) \<Rightarrow> attempt_admission \<Rightarrow> string option" where
  "attemptIdFor keccak a = ledgerDigest keccak (ledgerWriter ATTEMPT_TAG @ [
     writeDigest (at_reservation a), wr_u64 (at_generation a), writeDigest (at_action a),
     writeModuleRef (at_module a), writeAdapterRef (at_adapter a), writeDigest (at_authorization a),
     wr_u16 (ordinal a)])"

definition artifactKey :: "artifact_identity \<Rightarrow> string" where
  "artifactKey a = json_text (JsonArr [JsonStr (af_kind a), JsonStr (concat (map hex_byte (af_id a)))])"

definition slotKey :: "venue_slot \<Rightarrow> string" where
  "slotKey s = json_text (JsonArr [JsonStr (slot_scope s), JsonStr (int_str (slot_sequence s))])"

definition is_identifier :: "string \<Rightarrow> bool" where
  "is_identifier s \<longleftrightarrow> isOk (parseIdentifier (JStr s))"

definition checkAdmissionShape :: "attempt_admission \<Rightarrow> string \<Rightarrow> unit ledger_result" where
  "checkAdmissionShape a path =
     refuse_if (ordinal a < 1 \<or> ordinal a > MAX_ATTEMPTS_PER_RESERVATION) ''ATTEMPT_SHAPE_INVALID'' (path @ ''.ordinal'') None (
     refuse_if (af_id (artifact a) = [] \<or> length (af_id (artifact a)) > MAX_ARTIFACT_ID_BYTES)
       ''ATTEMPT_SHAPE_INVALID'' (path @ ''.artifact.id'') None (
     refuse_if (case slot a of None \<Rightarrow> False | Some sl \<Rightarrow> slot_sequence sl < 0 \<or> slot_sequence sl > 0xffffffffffffffff)
       ''ATTEMPT_SHAPE_INVALID'' (path @ ''.slot.sequence'') None (
     refuse_if (\<not> is_identifier (af_kind (artifact a))) ''ATTEMPT_SHAPE_INVALID'' (path @ ''.artifact.kind'') None (
     refuse_if (case slot a of None \<Rightarrow> False | Some sl \<Rightarrow> \<not> is_identifier (slot_scope sl))
       ''ATTEMPT_SHAPE_INVALID'' (path @ ''.slot.scope'') None (
     refuse_if (\<not> (is_identifier (r_domain (venueAccount a)) \<and> r_kind (venueAccount a) = ACCOUNT \<and>
         is_identifier (r_localId (venueAccount a)))) ''ATTEMPT_SHAPE_INVALID'' (path @ ''.venueAccount'') None (
     refuse_if (validUntil a < - (2 ^ 63) \<or> validUntil a > 2 ^ 63 - 1) ''ATTEMPT_SHAPE_INVALID'' (path @ ''.validUntil'') None (
     Inr ())))))))"

definition attemptsOf :: "ledger_state \<Rightarrow> string \<Rightarrow> attempt_record option list" where
  "attemptsOf s r = map (pm_get (attempts s)) (case pm_get (reservationAttempts s) r of None \<Rightarrow> [] | Some xs \<Rightarrow> xs)"

definition anyAttemptAdmitted :: "ledger_state \<Rightarrow> string \<Rightarrow> bool" where
  "anyAttemptAdmitted s r \<longleftrightarrow> length (case pm_get (reservationAttempts s) r of None \<Rightarrow> [] | Some xs \<Rightarrow> xs) > 0"

text \<open>Keys are injective: two artifacts or slots share a key only when they are the same.\<close>

lemma hex_bytes_inj [simp]: "concat (map hex_byte xs) = concat (map hex_byte ys) \<longleftrightarrow> xs = ys"
  by (metis hex_pairs_bytes)

lemma artifactKey_inj [simp]: "artifactKey a = artifactKey b \<longleftrightarrow> a = b"
  by (cases a; cases b) (auto simp: artifactKey_def)

lemma int_str_inj: "int_str i = int_str j \<longleftrightarrow> i = j"
proof -
  have minus: "CHR ''-'' \<notin> set (nat_str n)" for n
    using nat_str_digits [of n] by (auto simp: is_digit_def)
  have "nat_str m \<noteq> CHR ''-'' # cs" for m cs using minus [of m] by auto
  then show ?thesis by (auto simp: int_str_def nat_str_inj) (metis)+
qed

lemma slotKey_inj [simp]: "slotKey a = slotKey b \<longleftrightarrow> a = b"
  by (cases a; cases b) (auto simp: slotKey_def int_str_inj)

end
