(* ===== verification/Ledger_Reducer.thy ===== *)
theory Ledger_Reducer
  imports Ledger_Events
begin

text \<open>
  The transition rules of the ledger (\<open>packages/ledger/src/reducer.ts\<close> and the transition of
  \<open>attempt.ts\<close>): one function per event, the fold of a batch and the replay from genesis. Keccak-256 and the
  configured invariant ordering are parameters. A balance the code reads without looking whether it is there is
  an exception when it is not; theory \<open>Ledger_Invariant\<close> shows that it always is.
\<close>

section \<open>Registration\<close>

definition zeroBalance :: "target_ref \<Rightarrow> capacity_source \<Rightarrow> ledger_dimension \<Rightarrow> target_balance" where
  "zeroBalance ref src d = \<lparr>tb_ref = ref, tb_source = src, dimension = d, current = True,
     tb_reserved = 0, tb_consumed = 0, tb_restored = 0, epochConsumed = None\<rparr>"

definition policy_key :: "(u8 list \<Rightarrow> u8 list) \<Rightarrow> ledger_dimension \<Rightarrow> string ledger_result" where
  "policy_key keccak d = map_sum id policyTargetKey (may_throw (policyDimensionIdentity keccak d))"

fun check_dims_kept :: "(u8 list \<Rightarrow> u8 list) \<Rightarrow> string list \<Rightarrow> nat \<Rightarrow> ledger_dimension list \<Rightarrow> unit ledger_result" where
  "check_dims_kept keccak kept i [] = Inr ()"
| "check_dims_kept keccak kept i (d # ds) = rbind (policy_key keccak d) (\<lambda>key.
     refuse_if (key \<notin> set kept) ''POLICY_UPDATE_REQUIRES_BASELINE'' (index_path ''policy.terms.dimension'' i) None
       (check_dims_kept keccak kept (i + 1) ds))"

fun check_invariants_kept :: "narrowing_prover \<Rightarrow> (string \<Rightarrow> state_invariant option) \<Rightarrow> term_binding list \<Rightarrow> term_binding list \<Rightarrow>
    nat \<Rightarrow> state_invariant list \<Rightarrow> unit ledger_result" where
  "check_invariants_kept prove earlier previousBindings bindings i [] = Inr ()"
| "check_invariants_kept prove earlier previousBindings bindings i (t # ts) =
     rbind (case earlier (termKey (STATE_INVARIANT t)) of
         None \<Rightarrow> Inr False
       | Some p \<Rightarrow> rbind (may_throw (keepsSemantics p previousBindings t bindings)) (\<lambda>same.
           Inr (same \<and> (params p = params t \<or> prove t p = NO_WEAKER)))) (\<lambda>kept.
     refuse_if (\<not> kept) ''POLICY_UPDATE_REQUIRES_BASELINE'' (index_path ''policy.terms.invariant'' i) None
       (check_invariants_kept prove earlier previousBindings bindings (i + 1) ts))"

definition checkPolicyBaseline :: "(u8 list \<Rightarrow> u8 list) \<Rightarrow> invariant_ordering \<Rightarrow> ledger_state \<Rightarrow> principal_policy \<Rightarrow>
    semantic_proof list \<Rightarrow> term_binding list \<Rightarrow> unit ledger_result" where
  "checkPolicyBaseline keccak order_fn s pol proofs bindings =
     (let needed = (case policy s of
            Some p \<Rightarrow> if everReserved s then restatedInvariants (policyInvariants (pr_policy p)) (policyInvariants pol) else []
          | None \<Rightarrow> [])
      in rbind (checkProofSet proofs needed ''proofs'') (\<lambda>_.
         rbind (checkProofsBound proofs bindings ''proofs'') (\<lambda>_.
         case policy s of
           None \<Rightarrow> Inr ()
         | Some p \<Rightarrow>
             if \<not> everReserved s then Inr ()
             else rbind (rmap (policy_key keccak) (policyDimensions (pr_policy p))) (\<lambda>kept.
               rbind (check_dims_kept keccak kept 0 (policyDimensions pol)) (\<lambda>_.
               check_invariants_kept (committedProver order_fn proofs) (invariants_by_key (policyInvariants (pr_policy p)))
                 (pr_bindings p) bindings 0 (policyInvariants pol))))))"

definition retire_dimension :: "(u8 list \<Rightarrow> u8 list) \<Rightarrow> ledger_dimension \<Rightarrow> target_balance pmap \<Rightarrow> target_balance pmap ledger_result" where
  "retire_dimension keccak d ts = rbind (policy_key keccak d) (\<lambda>key.
     rbind (may_throw (pm_get ts key)) (\<lambda>b. Inr (pm_set ts key (b\<lparr>current := False\<rparr>))))"

definition install_dimension :: "(u8 list \<Rightarrow> u8 list) \<Rightarrow> string \<Rightarrow> ledger_dimension \<Rightarrow> target_balance pmap \<Rightarrow> target_balance pmap ledger_result" where
  "install_dimension keccak i d ts = rbind (policy_key keccak d) (\<lambda>key.
     (let ref = POLICY i (dimensionId d) in
      Inr (pm_set ts key (case pm_get ts key of
          None \<Rightarrow> zeroBalance ref PolicySource d
        | Some prev \<Rightarrow> prev\<lparr>tb_ref := ref, dimension := d, current := True\<rparr>))))"

definition applyRegisterPolicy :: "(u8 list \<Rightarrow> u8 list) \<Rightarrow> invariant_ordering \<Rightarrow> ledger_state \<Rightarrow> principal_policy \<Rightarrow>
    semantic_proof list \<Rightarrow> term_binding list \<Rightarrow> int \<Rightarrow> ledger_state ledger_result" where
  "applyRegisterPolicy keccak order_fn s pol proofs bindings v =
     refuse_if (\<not> partyIdsEqual (pp_principal pol) (ls_principal s)) ''PRINCIPAL_MISMATCH'' ''policy.principal'' None (
     rbind (may_throw (principalPolicyId keccak pol)) (\<lambda>i.
     refuse_if (case policy s of None \<Rightarrow> False | Some p \<Rightarrow> pp_sequence pol \<le> pp_sequence (pr_policy p))
       ''POLICY_SEQUENCE_NOT_INCREASING'' ''policy.sequence'' None (
     rbind (checkBindingSet bindings (policyInvariants pol) ''bindings'' ''policy.terms'') (\<lambda>_.
     rbind (checkPolicyBaseline keccak order_fn s pol proofs bindings) (\<lambda>_.
     rbind (rfold (retire_dimension keccak) (policyDimsOf s) (targets s)) (\<lambda>ts.
     rbind (rfold (install_dimension keccak i) (policyDimensions pol) ts) (\<lambda>ts'.
     rbind (may_throw (canonicalScoped bindings)) (\<lambda>canonical.
     Inr (s\<lparr>policy := Some \<lparr>pr_id = i, pr_policy = pol, pr_bindings = canonical, pr_registeredAt = v\<rparr>,
            targets := ts'\<rparr>)))))))))"

definition install_node_dimension :: "string \<Rightarrow> ledger_dimension \<Rightarrow> target_balance pmap \<Rightarrow> target_balance pmap" where
  "install_node_dimension i d ts =
     pm_set ts (nodeTargetKey i (dimensionId d)) (zeroBalance (NODE i (dimensionId d)) GrantSource d)"

definition grantDimensions :: "grant \<Rightarrow> ledger_dimension list" where
  "grantDimensions g = List.map_filter dimension_of (terms g)"

definition applyRegisterGrant :: "(u8 list \<Rightarrow> u8 list) \<Rightarrow> invariant_ordering \<Rightarrow> ledger_state \<Rightarrow> grant \<Rightarrow>
    semantic_proof list \<Rightarrow> term_binding list \<Rightarrow> int \<Rightarrow> int \<Rightarrow> ledger_state ledger_result" where
  "applyRegisterGrant keccak order_fn s g proofs bindings t v =
     rbind (may_throw (authorityId keccak g)) (\<lambda>i.
     (let invs = grantInvariants g;
          par = (case lineage g of DELEGATION p _ \<Rightarrow> pm_get (nodes s) p | ROOT _ \<Rightarrow> None);
          needed = (case par of None \<Rightarrow> [] | Some p \<Rightarrow> restatedInvariants (grantInvariants (n_grant p)) invs)
      in rbind (checkBindingSet bindings invs ''bindings'' ''grant.terms'') (\<lambda>_.
         rbind (checkProofSet proofs needed ''proofs'') (\<lambda>_.
         rbind (checkProofsBound proofs bindings ''proofs'') (\<lambda>_.
         rbind (case par of None \<Rightarrow> Inr ()
            | Some p \<Rightarrow> checkRestatedBindings (grantInvariants (n_grant p)) (n_bindings p) invs bindings ''grant.terms'') (\<lambda>_.
         rbind (checkGrantRegistration s i g t ''grant'' (Some (committedProver order_fn proofs))) (\<lambda>depth.
         rbind (may_throw (canonicalScoped bindings)) (\<lambda>canonical.
         Inr (s\<lparr>nodes := pm_set (nodes s) i \<lparr>n_id = i, n_grant = g, n_depth = depth, n_bindings = canonical,
                  n_registeredAt = v, revokedAt = None, n_revocation = None\<rparr>,
                targets := fold (install_node_dimension i) (grantDimensions g) (targets s)\<rparr>))))))))) "

definition applyRevoke :: "(u8 list \<Rightarrow> u8 list) \<Rightarrow> ledger_state \<Rightarrow> revocation \<Rightarrow> int \<Rightarrow> int \<Rightarrow> ledger_state ledger_result" where
  "applyRevoke keccak s r t v =
     rbind (checkRevocation s r t ''revocation'') (\<lambda>_.
     rbind (may_throw (pm_get (nodes s) (rv_target r))) (\<lambda>n.
     rbind (may_throw (revocationId keccak r)) (\<lambda>i.
     Inr (s\<lparr>nodes := pm_set (nodes s) (n_id n) (n\<lparr>revokedAt := Some v, n_revocation := Some i\<rparr>)\<rparr>))))"

section \<open>Reservation\<close>

record derived_reservation =
  dr_reservation :: string
  dr_lineage :: "node_record list"
  dr_effective :: effective_authority
  dr_legs :: "leg_draft list list"

definition deriveReservation :: "(u8 list \<Rightarrow> u8 list) \<Rightarrow> ledger_state \<Rightarrow> charge_plan \<Rightarrow> int \<Rightarrow> derived_reservation ledger_result" where
  "deriveReservation keccak s plan t =
     refuse_if (\<not> partyIdsEqual (cpl_principal plan) (ls_principal s)) ''PRINCIPAL_MISMATCH'' ''plan.principal'' None (
     rbind (need (Refused ''PRINCIPAL_POLICY_MISSING'' ''plan'' None) (policy s)) (\<lambda>pol.
     rbind (resolveLineage s (cpl_authority plan) ''plan.authority'') (\<lambda>lin.
     rbind (checkLineageValid s lin t ''plan.authority'') (\<lambda>_.
     (let leaf = hd lin in
      refuse_if (\<not> partyIdsEqual (actor plan) (holder (n_grant leaf))) ''ACTOR_NOT_HOLDER'' ''plan.actor'' (Some (n_id leaf)) (
      rbind (effectiveAuthority lin (pr_policy pol) ''plan.authority'' (pr_bindings pol)) (\<lambda>eff.
      refuse_if (\<not> moduleAllowed eff (cpl_module plan)) ''MODULE_NOT_PERMITTED'' ''plan.module'' (Some (n_id leaf)) (
      rbind (may_throw (planReservationId keccak plan)) (\<lambda>i.
      refuse_if (pm_has (reservations s) i) ''RESERVATION_EXISTS'' ''plan.generation'' None (
      (let act = pm_get (actions s) (cpl_action plan) in
       refuse_if (case act of None \<Rightarrow> False | Some a \<Rightarrow> open_reservation a \<noteq> None)
         ''PREVIOUS_GENERATION_OPEN'' ''plan.generation'' None (
       refuse_if (cpl_generation plan \<noteq> (case act of None \<Rightarrow> 1 | Some a \<Rightarrow> lastGeneration a + 1))
         ''GENERATION_OUT_OF_SEQUENCE'' ''plan.generation'' None (
       rbind (deriveLegs keccak lin (pr_id pol) (policyDimsOf s) (contributions plan) (domainId (cpl_module plan)) t
          ''plan.contributions'') (\<lambda>legs.
       Inr \<lparr>dr_reservation = i, dr_lineage = lin, dr_effective = eff, dr_legs = legs\<rparr>))))))))))))))"

definition eventLegsOf :: "leg_draft list list \<Rightarrow> event_leg list list" where
  "eventLegsOf = map (map (\<lambda>l. \<lparr>el_target = ld_ref l, el_amount = ld_amount l, el_epoch = ld_epoch l\<rparr>))"

definition deriveReserveEvent :: "(u8 list \<Rightarrow> u8 list) \<Rightarrow> ledger_state \<Rightarrow> charge_plan \<Rightarrow> int \<Rightarrow> ledger_event ledger_result" where
  "deriveReserveEvent keccak s plan t =
     rbind (deriveReservation keccak s plan t) (\<lambda>d.
     rbind (may_throw (policy s)) (\<lambda>pol.
     Inr (RESERVE t plan (map n_id (dr_lineage d)) (pr_id pol) (eventLegsOf (dr_legs d)))))"

definition sameTarget :: "target_ref \<Rightarrow> target_ref \<Rightarrow> bool" where
  "sameTarget a b \<longleftrightarrow> target_dimension a = target_dimension b \<and>
     (case (a, b) of (NODE x _, NODE y _) \<Rightarrow> x = y | (POLICY x _, POLICY y _) \<Rightarrow> x = y | _ \<Rightarrow> False)"

definition same_leg :: "event_leg \<Rightarrow> leg_draft \<Rightarrow> bool" where
  "same_leg x y \<longleftrightarrow> sameTarget (el_target x) (ld_ref y) \<and> el_amount x = ld_amount y \<and> el_epoch x = ld_epoch y"

definition sameLegs :: "event_leg list list \<Rightarrow> leg_draft list list \<Rightarrow> bool" where
  "sameLegs recorded derived = list_all2 (list_all2 same_leg) recorded derived"

definition reserve_target :: "string \<times> int \<Rightarrow> target_balance pmap \<Rightarrow> target_balance pmap ledger_result" where
  "reserve_target ka ts = rbind (may_throw (pm_get ts (fst ka))) (\<lambda>b.
     Inr (pm_set ts (fst ka) (b\<lparr>tb_reserved := tb_reserved b + snd ka\<rparr>)))"

definition demand_record :: "contribution \<Rightarrow> leg_draft list \<Rightarrow> demand" where
  "demand_record c legs = \<lparr>dm_contribution = c, dm_legs = map legRecordOf legs, dm_reserved = q_atoms (ct_quantity c),
     dm_consumed = 0, dm_released = 0, dm_restored = 0\<rparr>"

definition applyReserve :: "(u8 list \<Rightarrow> u8 list) \<Rightarrow> ledger_state \<Rightarrow> int \<Rightarrow> charge_plan \<Rightarrow> string list \<Rightarrow> string \<Rightarrow>
    event_leg list list \<Rightarrow> int \<Rightarrow> ledger_state ledger_result" where
  "applyReserve keccak s t plan lin pol legs v =
     rbind (deriveReservation keccak s plan t) (\<lambda>d.
     rbind (may_throw (policy s)) (\<lambda>p.
     (let ids = map n_id (dr_lineage d) in
      refuse_if (pol \<noteq> pr_id p) ''CHARGE_PATH_MISMATCH'' ''policy'' None (
      refuse_if (lin \<noteq> ids) ''CHARGE_PATH_MISMATCH'' ''lineage'' None (
      refuse_if (\<not> sameLegs legs (dr_legs d)) ''CHARGE_PATH_MISMATCH'' ''legs'' None (
      rbind (checkAvailability s (dr_legs d) t ''plan'') (\<lambda>dem.
      rbind (rfold reserve_target dem (targets s)) (\<lambda>ts.
      (let rec = \<lparr>rs_id = dr_reservation d, rs_action = cpl_action plan, rs_generation = cpl_generation plan,
             rs_authority = cpl_authority plan, rs_lineage = ids, rs_policy = pr_id p, rs_module = cpl_module plan,
             rs_implementation = cpl_implementation plan, rs_committedAt = v, rs_reservedAt = t, rs_status = IsActive,
             demands = map2 demand_record (contributions plan) (dr_legs d)\<rparr>
       in Inr (s\<lparr>everReserved := True, targets := ts,
                reservations := pm_set (reservations s) (rs_id rec) rec,
                actions := pm_set (actions s) (cpl_action plan)
                  \<lparr>lastGeneration = cpl_generation plan, open_reservation = Some (rs_id rec)\<rparr>\<rparr>))))))))))"

section \<open>Accounting\<close>

definition reservationFor :: "ledger_state \<Rightarrow> accounting_event \<Rightarrow> reservation ledger_result" where
  "reservationFor s e =
     rbind (need (Refused ''RESERVATION_UNKNOWN'' ''reservation'' None) (pm_get (reservations s) (ae_reservation e))) (\<lambda>r.
     refuse_if (rs_generation r \<noteq> ae_generation e) ''RESERVATION_ID_MISMATCH'' ''generation'' None (
     refuse_if (length (amounts e) \<noteq> length (demands r) \<or> list_ex (\<lambda>a. a < 0) (amounts e))
       ''ACCOUNTING_SHAPE_INVALID'' ''amounts'' None (
     Inr r)))"

definition leg_update :: "demand \<Rightarrow> int \<Rightarrow> string \<Rightarrow> (bool \<Rightarrow> bool) \<Rightarrow>
    (target_balance \<Rightarrow> int \<Rightarrow> int option \<Rightarrow> target_balance option) \<Rightarrow> leg_record \<Rightarrow> target_balance pmap \<Rightarrow> target_balance pmap ledger_result" where
  "leg_update d n path only upd l ts =
     (if \<not> only (leg_capacity l) then Inr ts
      else rbind (need (Refused ''INEXACT_RESCALE'' path None)
          (rescaleExact n (q_decimals (ct_quantity (dm_contribution d))) (leg_decimals l))) (\<lambda>x.
        rbind (may_throw (pm_get ts (leg_key l))) (\<lambda>b.
        rbind (need (Refused ''AMOUNT_OVERFLOW'' path None) (upd b x (leg_epoch l))) (\<lambda>b'.
        Inr (pm_set ts (leg_key l) b')))))"

definition forEachLeg :: "target_balance pmap \<Rightarrow> demand \<Rightarrow> int \<Rightarrow> string \<Rightarrow> (bool \<Rightarrow> bool) \<Rightarrow>
    (target_balance \<Rightarrow> int \<Rightarrow> int option \<Rightarrow> target_balance option) \<Rightarrow> target_balance pmap ledger_result" where
  "forEachLeg ts d n path only upd = rfold (leg_update d n path only upd) (dm_legs d) ts"

text \<open>The loop over the demands of a reservation and the amounts of an event.\<close>

fun each_demand :: "(string \<Rightarrow> demand \<Rightarrow> int \<Rightarrow> target_balance pmap \<Rightarrow> (target_balance pmap \<times> demand) ledger_result) \<Rightarrow>
    nat \<Rightarrow> (demand \<times> int) list \<Rightarrow> target_balance pmap \<Rightarrow> (target_balance pmap \<times> demand list) ledger_result" where
  "each_demand step i [] ts = Inr (ts, [])"
| "each_demand step i ((d, n) # ds) ts =
     rbind (step (index_path ''amounts'' i) d n ts) (\<lambda>(ts', d').
     rbind (each_demand step (i + 1) ds ts') (\<lambda>(ts'', ds').
     Inr (ts'', d' # ds')))"

definition consume_epoch :: "(int \<times> int) option \<Rightarrow> int \<Rightarrow> int option \<Rightarrow> (int \<times> int) option" where
  "consume_epoch ec x e = (case e of None \<Rightarrow> ec | Some e' \<Rightarrow> (case ec of
     None \<Rightarrow> Some (e', x)
   | Some (e0, n) \<Rightarrow> if e0 < e' then Some (e', x) else if e0 = e' then Some (e', n + x) else ec))"

definition consume_balance :: "target_balance \<Rightarrow> int \<Rightarrow> int option \<Rightarrow> target_balance option" where
  "consume_balance b x e =
     (if tb_consumed b + x > UINT256_MAX_core then None
      else Some (b\<lparr>tb_reserved := tb_reserved b - x, tb_consumed := tb_consumed b + x,
                   epochConsumed := consume_epoch (epochConsumed b) x e\<rparr>))"

definition release_balance :: "target_balance \<Rightarrow> int \<Rightarrow> int option \<Rightarrow> target_balance option" where
  "release_balance b x e = Some (b\<lparr>tb_reserved := tb_reserved b - x\<rparr>)"

definition restore_balance :: "target_balance \<Rightarrow> int \<Rightarrow> int option \<Rightarrow> target_balance option" where
  "restore_balance b x e = Some (b\<lparr>tb_restored := tb_restored b + x\<rparr>)"

definition consume_demand :: "string \<Rightarrow> demand \<Rightarrow> int \<Rightarrow> target_balance pmap \<Rightarrow> (target_balance pmap \<times> demand) ledger_result" where
  "consume_demand path d n ts =
     refuse_if (n > dm_reserved d - dm_consumed d) ''CONSUME_EXCEEDS_RESERVED'' path None (
     rbind (forEachLeg ts d n path (\<lambda>_. True) consume_balance) (\<lambda>ts'.
     Inr (ts', d\<lparr>dm_consumed := dm_consumed d + n\<rparr>)))"

definition close_demand :: "string \<Rightarrow> demand \<Rightarrow> int \<Rightarrow> target_balance pmap \<Rightarrow> (target_balance pmap \<times> demand) ledger_result" where
  "close_demand path d n ts =
     (let remaining = dm_reserved d - dm_consumed d in
      refuse_if (n \<noteq> remaining) ''RELEASE_MISMATCH'' path None (
      rbind (forEachLeg ts d remaining path (\<lambda>_. True) release_balance) (\<lambda>ts'.
      Inr (ts', d\<lparr>dm_released := remaining\<rparr>))))"

definition restore_demand :: "string \<Rightarrow> demand \<Rightarrow> int \<Rightarrow> target_balance pmap \<Rightarrow> (target_balance pmap \<times> demand) ledger_result" where
  "restore_demand path d n ts =
     refuse_if (n > dm_consumed d - dm_restored d) ''RESTORE_EXCEEDS_CONSUMED'' path None (
     refuse_if (n > 0 \<and> \<not> list_ex leg_capacity (dm_legs d)) ''RESTORE_NOT_PERMITTED'' path None (
     rbind (forEachLeg ts d n path (\<lambda>capacity. capacity) restore_balance) (\<lambda>ts'.
     Inr (ts', d\<lparr>dm_restored := dm_restored d + n\<rparr>))))"

definition set_reservation :: "ledger_state \<Rightarrow> target_balance pmap \<Rightarrow> reservation \<Rightarrow> ledger_state" where
  "set_reservation s ts r = s\<lparr>targets := ts, reservations := pm_set (reservations s) (rs_id r) r\<rparr>"

definition applyConsume :: "ledger_state \<Rightarrow> accounting_event \<Rightarrow> ledger_state ledger_result" where
  "applyConsume s e =
     rbind (reservationFor s e) (\<lambda>r.
     refuse_if (rs_status r \<noteq> IsActive) ''RESERVATION_CLOSED'' ''reservation'' None (
     refuse_if (\<not> list_ex (\<lambda>a. a > 0) (amounts e)) ''ACCOUNTING_SHAPE_INVALID'' ''amounts'' None (
     rbind (each_demand consume_demand 0 (zip (demands r) (amounts e)) (targets s)) (\<lambda>(ts, ds).
     Inr (set_reservation s ts (r\<lparr>demands := ds\<rparr>))))))"

definition applyClose :: "ledger_state \<Rightarrow> accounting_event \<Rightarrow> ledger_state ledger_result" where
  "applyClose s e =
     rbind (reservationFor s e) (\<lambda>r.
     refuse_if (rs_status r \<noteq> IsActive) ''RESERVATION_CLOSED'' ''reservation'' None (
     rbind (each_demand close_demand 0 (zip (demands r) (amounts e)) (targets s)) (\<lambda>(ts, ds).
     (let acts = (case pm_get (actions s) (rs_action r) of
            Some a \<Rightarrow> if open_reservation a = Some (rs_id r)
              then pm_set (actions s) (rs_action r) (a\<lparr>open_reservation := None\<rparr>) else actions s
          | None \<Rightarrow> actions s)
      in Inr ((set_reservation s ts (r\<lparr>rs_status := IsClosed, demands := ds\<rparr>))\<lparr>actions := acts\<rparr>)))))"

definition applyRestore :: "ledger_state \<Rightarrow> accounting_event \<Rightarrow> ledger_state ledger_result" where
  "applyRestore s e =
     rbind (reservationFor s e) (\<lambda>r.
     refuse_if (\<not> list_ex (\<lambda>a. a > 0) (amounts e)) ''ACCOUNTING_SHAPE_INVALID'' ''amounts'' None (
     rbind (each_demand restore_demand 0 (zip (demands r) (amounts e)) (targets s)) (\<lambda>(ts, ds).
     Inr (set_reservation s ts (r\<lparr>demands := ds\<rparr>)))))"

section \<open>Attempts (attempt.ts)\<close>

definition attempt_live :: "ledger_state \<Rightarrow> string \<Rightarrow> bool ledger_result" where
  "attempt_live s i = rbind (may_throw (pm_get (attempts s) i)) (\<lambda>a. Inr (attempt_status_of a = ADMITTED))"

fun any_live :: "ledger_state \<Rightarrow> string list \<Rightarrow> bool ledger_result" where
  "any_live s [] = Inr False"
| "any_live s (i # js) = rbind (attempt_live s i) (\<lambda>live. if live then Inr True else any_live s js)"

definition admitted :: "attempt_admission \<Rightarrow> int \<Rightarrow> int \<Rightarrow> attempt_record" where
  "admitted a v t = attempt_admission.extend a (attempt_record.fields v t ADMITTED)"

definition applyAdmitAttempt :: "(u8 list \<Rightarrow> u8 list) \<Rightarrow> ledger_state \<Rightarrow> attempt_admission \<Rightarrow> int \<Rightarrow> int \<Rightarrow> ledger_state ledger_result" where
  "applyAdmitAttempt keccak s a t v =
     rbind (checkAdmissionShape a ''admission'') (\<lambda>_.
     rbind (need (Refused ''RESERVATION_UNKNOWN'' ''admission.reservation'' None) (pm_get (reservations s) (at_reservation a))) (\<lambda>r.
     refuse_if (rs_generation r \<noteq> at_generation a) ''RESERVATION_ID_MISMATCH'' ''admission.generation'' None (
     refuse_if (rs_action r \<noteq> at_action a) ''ATTEMPT_BINDING_MISMATCH'' ''admission.action'' None (
     refuse_if (\<not> moduleRefsEqual (rs_module r) (at_module a)) ''ATTEMPT_BINDING_MISMATCH'' ''admission.module'' None (
     refuse_if (rs_status r \<noteq> IsActive) ''RESERVATION_CLOSED'' ''admission.reservation'' None (
     (let prior = (case pm_get (reservationAttempts s) (at_reservation a) of None \<Rightarrow> [] | Some xs \<Rightarrow> xs) in
      rbind (any_live s prior) (\<lambda>live.
      refuse_if live ''ATTEMPT_UNRESOLVED'' ''admission.reservation'' None (
      refuse_if (ordinal a \<noteq> int (length prior) + 1) ''ATTEMPT_ID_MISMATCH'' ''admission.ordinal'' None (
      rbind (may_throw (attemptIdFor keccak a)) (\<lambda>derived.
      refuse_if (derived \<noteq> attempt a) ''ATTEMPT_ID_MISMATCH'' ''admission.attempt'' None (
      refuse_if (pm_has (attempts s) (attempt a)) ''ATTEMPT_ID_MISMATCH'' ''admission.attempt'' None (
      refuse_if (pm_has (attemptArtifacts s) (artifactKey (artifact a))) ''ARTIFACT_REUSED'' ''admission.artifact'' None (
      refuse_if (case slot a of None \<Rightarrow> False | Some sl \<Rightarrow> pm_has (attemptSlots s) (slotKey sl))
        ''VENUE_SLOT_REUSED'' ''admission.slot'' None (
      refuse_if (validUntil a \<le> t) ''ATTEMPT_EXPIRED'' ''admission.validUntil'' None (
      rbind (resolveLineage s (rs_authority r) ''admission.lineage'') (\<lambda>lin.
      rbind (checkLineageValid s lin t ''admission.lineage'') (\<lambda>_.
      Inr (s\<lparr>attempts := pm_set (attempts s) (attempt a) (admitted a v t),
             attemptArtifacts := pm_set (attemptArtifacts s) (artifactKey (artifact a)) (attempt a),
             attemptSlots := (case slot a of None \<Rightarrow> attemptSlots s | Some sl \<Rightarrow> pm_set (attemptSlots s) (slotKey sl) (attempt a)),
             reservationAttempts := pm_set (reservationAttempts s) (at_reservation a) (prior @ [attempt a])\<rparr>)))))))))))))))))))"

section \<open>Folding\<close>

fun apply_body :: "(u8 list \<Rightarrow> u8 list) \<Rightarrow> invariant_ordering \<Rightarrow> ledger_state \<Rightarrow> ledger_event \<Rightarrow> int \<Rightarrow> ledger_state ledger_result" where
  "apply_body keccak order_fn s (REGISTER_POLICY t p ps bs) v = applyRegisterPolicy keccak order_fn s p ps bs v"
| "apply_body keccak order_fn s (REGISTER_GRANT t g ps bs) v = applyRegisterGrant keccak order_fn s g ps bs t v"
| "apply_body keccak order_fn s (REVOKE t r) v = applyRevoke keccak s r t v"
| "apply_body keccak order_fn s (RESERVE t p lin pol legs) v = applyReserve keccak s t p lin pol legs v"
| "apply_body keccak order_fn s (CONSUME t e) v = applyConsume s e"
| "apply_body keccak order_fn s (CLOSE t e) v = applyClose s e"
| "apply_body keccak order_fn s (RESTORE t e) v = applyRestore s e"
| "apply_body keccak order_fn s (ADMIT_ATTEMPT t a) v = applyAdmitAttempt keccak s a t v"

definition applyEvent :: "(u8 list \<Rightarrow> u8 list) \<Rightarrow> invariant_ordering \<Rightarrow> ledger_state \<Rightarrow> ledger_event \<Rightarrow> int \<Rightarrow> ledger_state ledger_result" where
  "applyEvent keccak order_fn s e v =
     refuse_if (case lastAt s of None \<Rightarrow> False | Some t \<Rightarrow> event_at e < t) ''EVALUATION_TIME_REGRESSED'' ''at'' None (
     rbind (apply_body keccak order_fn s e v) (\<lambda>s'. Inr (s'\<lparr>lastAt := Some (event_at e)\<rparr>)))"

fun apply_events :: "(u8 list \<Rightarrow> u8 list) \<Rightarrow> invariant_ordering \<Rightarrow> int \<Rightarrow> nat \<Rightarrow> ledger_event list \<Rightarrow> ledger_state \<Rightarrow> ledger_state ledger_result" where
  "apply_events keccak order_fn v i [] s = Inr s"
| "apply_events keccak order_fn v i (e # es) s =
     rbind (map_sum (\<lambda>r. withPath r (index_path ''events'' i)) id (applyEvent keccak order_fn s e v))
       (apply_events keccak order_fn v (i + 1) es)"

definition applyBatch :: "(u8 list \<Rightarrow> u8 list) \<Rightarrow> invariant_ordering \<Rightarrow> ledger_state \<Rightarrow> ledger_event list \<Rightarrow>
    (ledger_state \<times> u8 list) ledger_result" where
  "applyBatch keccak order_fn s events =
     refuse_if (events = []) ''BATCH_EMPTY'' ''events'' None (
     refuse_if (length events > MAX_BATCH_EVENTS) ''BATCH_TOO_LARGE'' ''events'' None (
     (let v = version s + 1 in
      rbind (apply_events keccak order_fn v 0 events s) (\<lambda>cur.
      rbind (may_throw (encodeBatch (ls_principal s) v (head s) events)) (\<lambda>encoded.
      Inr (cur\<lparr>version := v, head := batchHead keccak encoded\<rparr>, encoded))))))"

definition historical :: "ledger_refusal \<Rightarrow> string \<Rightarrow> ledger_refusal" where
  "historical r path = (case withPath r path of
     Refused code p node \<Rightarrow> Refused (if code = ''SEMANTIC_BINDING_MISSING'' then ''HISTORICAL_SEMANTICS_UNBOUND'' else code) p node
   | e \<Rightarrow> e)"

fun replay_from :: "(u8 list \<Rightarrow> u8 list) \<Rightarrow> invariant_ordering \<Rightarrow> nat \<Rightarrow> ledger_event list list \<Rightarrow> ledger_state \<Rightarrow> ledger_state ledger_result" where
  "replay_from keccak order_fn i [] s = Inr s"
| "replay_from keccak order_fn i (b # bs) s =
     rbind (map_sum (\<lambda>r. historical r (index_path ''batches'' i)) fst (applyBatch keccak order_fn s b))
       (replay_from keccak order_fn (i + 1) bs)"

definition replay_ledger :: "(u8 list \<Rightarrow> u8 list) \<Rightarrow> invariant_ordering \<Rightarrow> party \<Rightarrow> ledger_event list list \<Rightarrow> ledger_state ledger_result" where
  "replay_ledger keccak order_fn p batches =
     rbind (may_throw (emptyLedgerState keccak p)) (replay_from keccak order_fn 0 batches)"

section \<open>Views\<close>

record leg_preview =
  lp_target :: target_ref
  lp_source :: capacity_source
  lp_amount :: int
  lp_available :: int
  lp_limit :: int
  lp_decimals :: nat

definition preview_leg :: "ledger_state \<Rightarrow> int \<Rightarrow> leg_draft \<Rightarrow> leg_preview ledger_result" where
  "preview_leg s t l = rbind (may_throw (pm_get (targets s) (ld_key l))) (\<lambda>b.
     Inr \<lparr>lp_target = ld_ref l, lp_source = tb_source b, lp_amount = ld_amount l, lp_available = availableOf b t,
          lp_limit = b_atoms (limit (ld_dimension l)), lp_decimals = b_decimals (limit (ld_dimension l))\<rparr>)"

definition previewCharge :: "(u8 list \<Rightarrow> u8 list) \<Rightarrow> ledger_state \<Rightarrow> charge_plan \<Rightarrow> int \<Rightarrow> leg_preview list list ledger_result" where
  "previewCharge keccak s plan t = rbind (deriveReservation keccak s plan t) (\<lambda>d. rmap (rmap (preview_leg s t)) (dr_legs d))"

end
