(* ===== verification/Ledger_Accounting.thy ===== *)
theory Ledger_Accounting
  imports Ledger_Reducer
begin

text \<open>
  What every event does to the balances. \<open>moved\<close> says how far each figure of each target has moved; every
  accounting operation moves the balances by what it adds to the demands it is charged to, in exact rationals,
  so the balances stay the sums of the demands' figures (\<open>conserved\<close>).
\<close>

section \<open>Generic lemmas\<close>

lemma rfold_invariant:
  assumes "rfold f xs s = Inr s'" "P s" "\<And>x s s'. x \<in> set xs \<Longrightarrow> P s \<Longrightarrow> f x s = Inr s' \<Longrightarrow> P s'"
  shows "P s'"
  using assms by (induction xs arbitrary: s) (auto simp: rbind_eq_Inr)

lemma map_sum_eq_Inr: "map_sum f g x = Inr y \<longleftrightarrow> (\<exists>z. x = Inr z \<and> y = g z)"
  by (cases x) auto

lemma finite_dom_pm [simp]: "finite (dom (pm_get m))"
  by (metis List.finite_set pm_entries_dom)

text \<open>A sum over the values of a finite map.\<close>

definition total :: "('v \<Rightarrow> rat) \<Rightarrow> ('k \<Rightarrow> 'v option) \<Rightarrow> rat" where
  "total f m = (\<Sum>k \<in> dom m. f (the (m k)))"

lemma total_update:
  assumes "finite (dom m)"
  shows "total f (m(k \<mapsto> v)) = total f m - (case m k of None \<Rightarrow> 0 | Some w \<Rightarrow> f w) + f v"
proof (cases "m k")
  case None
  then have "k \<notin> dom m" by blast
  then show ?thesis using assms None by (simp add: total_def) (auto intro!: sum.cong)
next
  case (Some w)
  then have k: "k \<in> dom m" by blast
  have "total f (m(k \<mapsto> v)) = f v + (\<Sum>j \<in> dom m - {k}. f (the (m j)))"
    using assms k by (simp add: total_def sum.remove [of "insert k (dom m)" k] insert_absorb)
      (simp add: sum.remove [of _ k] cong: sum.cong_simp)
  moreover have "total f m = f w + (\<Sum>j \<in> dom m - {k}. f (the (m j)))"
    using assms k Some by (simp add: total_def sum.remove [of _ k])
  ultimately show ?thesis using Some by simp
qed

lemma total_nonneg: "(\<And>k v. m k = Some v \<Longrightarrow> 0 \<le> f v) \<Longrightarrow> 0 \<le> total f m"
  by (auto simp: total_def intro!: sum_nonneg)

lemma total_mono: "(\<And>k v. m k = Some v \<Longrightarrow> f v \<le> g v) \<Longrightarrow> total f m \<le> total g m"
  by (auto simp: total_def intro!: sum_mono)

lemma total_empty [simp]: "total f (\<lambda>_. None) = 0"
  by (simp add: total_def)

lemma total_0: "(\<And>k v. m k = Some v \<Longrightarrow> f v = 0) \<Longrightarrow> total f m = 0"
  by (auto simp: total_def intro!: sum.neutral)

section \<open>Movements of balances\<close>

definition same_target :: "target_balance \<Rightarrow> target_balance \<Rightarrow> bool" where
  "same_target b b' \<longleftrightarrow> tb_ref b' = tb_ref b \<and> tb_source b' = tb_source b \<and> dimension b' = dimension b \<and> current b' = current b"

definition moved_by :: "rat \<Rightarrow> rat \<Rightarrow> rat \<Rightarrow> target_balance \<Rightarrow> target_balance \<Rightarrow> bool" where
  "moved_by dr dc ds b b' \<longleftrightarrow> same_target b b' \<and>
     of_int (tb_reserved b') = of_int (tb_reserved b) + dr \<and>
     of_int (tb_consumed b') = of_int (tb_consumed b) + dc \<and>
     of_int (tb_restored b') = of_int (tb_restored b) + ds"

definition moved :: "(string \<Rightarrow> rat) \<Rightarrow> (string \<Rightarrow> rat) \<Rightarrow> (string \<Rightarrow> rat) \<Rightarrow> target_balance pmap \<Rightarrow> target_balance pmap \<Rightarrow> bool" where
  "moved dr dc ds ts ts' \<longleftrightarrow> (\<forall>k. rel_option (moved_by (dr k) (dc k) (ds k)) (pm_get ts k) (pm_get ts' k))"

lemma moved_by_refl [simp]: "moved_by 0 0 0 b b"
  by (simp add: moved_by_def same_target_def)

lemma moved_refl: "moved (\<lambda>_. 0) (\<lambda>_. 0) (\<lambda>_. 0) ts ts"
  by (auto simp: moved_def intro!: option.rel_refl)

lemma moved_trans:
  assumes "moved dr dc ds ts ts'" "moved dr' dc' ds' ts' ts''"
  shows "moved (\<lambda>k. dr k + dr' k) (\<lambda>k. dc k + dc' k) (\<lambda>k. ds k + ds' k) ts ts''"
  unfolding moved_def
proof
  fix k
  have "rel_option (moved_by (dr k) (dc k) (ds k)) (pm_get ts k) (pm_get ts' k)"
    "rel_option (moved_by (dr' k) (dc' k) (ds' k)) (pm_get ts' k) (pm_get ts'' k)"
    using assms by (auto simp: moved_def)
  then show "rel_option (moved_by (dr k + dr' k) (dc k + dc' k) (ds k + ds' k)) (pm_get ts k) (pm_get ts'' k)"
    by (cases "pm_get ts k"; cases "pm_get ts' k"; cases "pm_get ts'' k") (auto simp: moved_by_def same_target_def)
qed

definition at_key :: "string \<Rightarrow> rat \<Rightarrow> string \<Rightarrow> rat" where
  "at_key j x k = (if k = j then x else 0)"

lemma moved_set:
  assumes "pm_get ts j = Some b" "moved_by x y z b b'"
  shows "moved (at_key j x) (at_key j y) (at_key j z) ts (pm_set ts j b')"
  using assms by (auto simp: moved_def at_key_def intro!: option.rel_refl)

lemma moved_cong: "moved dr dc ds ts ts' \<Longrightarrow> (\<And>k. dr k = dr' k) \<Longrightarrow> (\<And>k. dc k = dc' k) \<Longrightarrow> (\<And>k. ds k = ds' k) \<Longrightarrow>
    moved dr' dc' ds' ts ts'"
  by (simp add: moved_def)

lemma moved_get: "moved dr dc ds ts ts' \<Longrightarrow> pm_get ts k = Some b \<Longrightarrow> \<exists>b'. pm_get ts' k = Some b' \<and> moved_by (dr k) (dc k) (ds k) b b'"
  unfolding moved_def by (drule spec [where x = k]) (auto simp: option_rel_Some1)

lemma moved_get': "moved dr dc ds ts ts' \<Longrightarrow> pm_get ts' k = Some b' \<Longrightarrow> \<exists>b. pm_get ts k = Some b \<and> moved_by (dr k) (dc k) (ds k) b b'"
  unfolding moved_def by (drule spec [where x = k]) (auto simp: option_rel_Some2)

lemma moved_dom: "moved dr dc ds ts ts' \<Longrightarrow> pm_get ts' k = None \<longleftrightarrow> pm_get ts k = None"
  using moved_get [of dr dc ds ts ts' k] moved_get' [of dr dc ds ts ts' k] by (cases "pm_get ts k"; cases "pm_get ts' k") auto

section \<open>The charge of a demand\<close>

text \<open>What one atom of the contribution is on a leg; the sum of an amount over the legs on a target.\<close>

definition scale :: "demand \<Rightarrow> leg_record \<Rightarrow> rat" where
  "scale d l = 10 ^ leg_decimals l / 10 ^ q_decimals (ct_quantity (dm_contribution d))"

definition charge :: "string \<Rightarrow> (leg_record \<Rightarrow> bool) \<Rightarrow> demand \<Rightarrow> int \<Rightarrow> rat" where
  "charge k sel d n = (\<Sum>l\<leftarrow>dm_legs d. if leg_key l = k \<and> sel l then of_int n * scale d l else 0)"

lemma scale_pos: "0 < scale d l"
  by (simp add: scale_def)

lemma rescale_scale:
  "rescaleExact n (q_decimals (ct_quantity (dm_contribution d))) (leg_decimals l) = Some x \<longleftrightarrow> of_int x = of_int n * scale d l"
proof -
  have "(of_int x :: rat) * 10 ^ i = of_int n * 10 ^ j \<longleftrightarrow> x * 10 ^ i = n * 10 ^ j" for i j
    by (metis (no_types, lifting) of_int_eq_iff of_int_mult of_int_numeral of_int_power)
  then show ?thesis by (simp add: rescaleExact_Some scale_def field_simps)
qed

lemma charge_add: "charge k sel d (m + n) = charge k sel d m + charge k sel d n"
  unfolding charge_def by (subst sum_list_addf [symmetric]) (rule arg_cong [where f = sum_list], auto simp: distrib_right)

lemma charge_0 [simp]: "charge k sel d 0 = 0"
  using charge_add [of k sel d 0 0] by simp

lemma charge_minus: "charge k sel d (- n) = - charge k sel d n"
  using charge_add [of k sel d n "- n"] by simp

lemma charge_diff: "charge k sel d (m - n) = charge k sel d m - charge k sel d n"
  using charge_add [of k sel d m "- n"] by (simp add: charge_minus)

lemma charge_nonneg: "0 \<le> n \<Longrightarrow> 0 \<le> charge k sel d n"
  unfolding charge_def by (rule sum_list_nonneg) (auto simp: scale_def)

lemma charge_mono: "m \<le> n \<Longrightarrow> charge k sel d m \<le> charge k sel d n"
  using charge_nonneg [of "n - m" k sel d] by (simp add: charge_diff)

lemma charge_sel: "(\<And>l. sel l \<Longrightarrow> sel' l) \<Longrightarrow> 0 \<le> n \<Longrightarrow> charge k sel d n \<le> charge k sel' d n"
  unfolding charge_def by (rule sum_list_mono) (auto simp: scale_def)

text \<open>An operation on the legs moves their targets by the charge.\<close>

locale leg_operation =
  fixes upd :: "target_balance \<Rightarrow> int \<Rightarrow> int option \<Rightarrow> target_balance option" and r c s :: rat
  assumes upd_moved: "upd b x e = Some b' \<Longrightarrow> moved_by (r * of_int x) (c * of_int x) (s * of_int x) b b'"
begin

lemma leg_update_moved:
  assumes "leg_update d n path only upd l ts = Inr ts'"
  defines "x \<equiv> (if only (leg_capacity l) then of_int n * scale d l else 0)"
  shows "moved (at_key (leg_key l) (r * x)) (at_key (leg_key l) (c * x)) (at_key (leg_key l) (s * x)) ts ts'"
proof (cases "only (leg_capacity l)")
  case False
  then have "ts' = ts" using assms(1) by (simp add: leg_update_def)
  then show ?thesis using False moved_refl by (simp add: x_def) (rule moved_cong, auto simp: at_key_def)
next
  case True
  with assms(1) obtain y b b' where y: "rescaleExact n (q_decimals (ct_quantity (dm_contribution d))) (leg_decimals l) = Some y"
      and b: "pm_get ts (leg_key l) = Some b" "upd b y (leg_epoch l) = Some b'" "ts' = pm_set ts (leg_key l) b'"
    by (auto simp: leg_update_def rbind_eq_Inr)
  from y have "of_int y = x" using True by (simp add: x_def rescale_scale)
  with upd_moved [OF b(2)] show ?thesis using moved_set [OF b(1)] b(3) by simp
qed

lemma legs_moved:
  "rfold (leg_update d n path only upd) ls ts = Inr ts' \<Longrightarrow>
   (let x = (\<lambda>k. \<Sum>l\<leftarrow>ls. if leg_key l = k \<and> only (leg_capacity l) then of_int n * scale d l else 0)
    in moved (\<lambda>k. r * x k) (\<lambda>k. c * x k) (\<lambda>k. s * x k) ts ts')"
proof (induction ls arbitrary: ts)
  case Nil
  then show ?case using moved_refl by simp
next
  case (Cons l ls)
  then obtain ts1 where ts1: "leg_update d n path only upd l ts = Inr ts1" "rfold (leg_update d n path only upd) ls ts1 = Inr ts'"
    by (auto simp: rbind_eq_Inr)
  show ?case
    unfolding Let_def
    by (rule moved_cong [OF moved_trans [OF leg_update_moved [OF ts1(1)] Cons.IH [OF ts1(2), unfolded Let_def]]])
      (auto simp: at_key_def distrib_left)
qed

lemma forEachLeg_moved:
  "forEachLeg ts d n path only upd = Inr ts' \<Longrightarrow>
   moved (\<lambda>k. r * charge k (only \<circ> leg_capacity) d n) (\<lambda>k. c * charge k (only \<circ> leg_capacity) d n)
     (\<lambda>k. s * charge k (only \<circ> leg_capacity) d n) ts ts'"
  using legs_moved [of d n path only "dm_legs d" ts ts'] by (simp add: forEachLeg_def charge_def Let_def)

end

interpretation consume_op: leg_operation consume_balance "- 1" 1 0
  by unfold_locales (auto simp: consume_balance_def moved_by_def same_target_def split: if_splits)

interpretation release_op: leg_operation release_balance "- 1" 0 0
  by unfold_locales (auto simp: release_balance_def moved_by_def same_target_def)

interpretation restore_op: leg_operation restore_balance 0 0 1
  by unfold_locales (auto simp: restore_balance_def moved_by_def same_target_def)

section \<open>The loop over demands\<close>

lemma each_demand_moved:
  assumes "each_demand step i ps ts = Inr (ts', ds')"
    and "\<And>path d n ts ts' d'. step path d n ts = Inr (ts', d') \<Longrightarrow>
      moved (\<lambda>k. fr k d n) (\<lambda>k. fc k d n) (\<lambda>k. fs k d n) ts ts' \<and> Q d n d'"
  shows "moved (\<lambda>k. \<Sum>(d, n)\<leftarrow>ps. fr k d n) (\<lambda>k. \<Sum>(d, n)\<leftarrow>ps. fc k d n) (\<lambda>k. \<Sum>(d, n)\<leftarrow>ps. fs k d n) ts ts' \<and>
    list_all2 (\<lambda>(d, n) d'. Q d n d') ps ds'"
  using assms(1)
proof (induction ps arbitrary: i ts ds')
  case Nil
  then show ?case using moved_refl by simp
next
  case (Cons p ps)
  obtain d n where p: "p = (d, n)" by fastforce
  from Cons.prems obtain ts1 d1 ds1 where step: "step (index_path ''amounts'' i) d n ts = Inr (ts1, d1)"
      and rest: "each_demand step (i + 1) ps ts1 = Inr (ts', ds1)" and ds': "ds' = d1 # ds1"
    unfolding p by (auto simp: rbind_eq_Inr)
  note IH = Cons.IH [OF rest]
  have "moved (\<lambda>k. fr k d n + (\<Sum>(d, n)\<leftarrow>ps. fr k d n)) (\<lambda>k. fc k d n + (\<Sum>(d, n)\<leftarrow>ps. fc k d n))
      (\<lambda>k. fs k d n + (\<Sum>(d, n)\<leftarrow>ps. fs k d n)) ts ts'"
    using moved_trans [OF conjunct1 [OF assms(2) [OF step]] conjunct1 [OF IH]] .
  with IH assms(2) [OF step] show ?case by (simp add: p ds')
qed

lemma sum_list_all2:
  "list_all2 (\<lambda>(d, n) d'. g' d' = g d + h d n) ps ds' \<Longrightarrow>
   (\<Sum>d'\<leftarrow>ds'. g' d') = (\<Sum>(d, n)\<leftarrow>ps. g d) + (\<Sum>(d, n)\<leftarrow>ps. h d n :: rat)"
  by (induction ps ds' rule: list_all2_induct) auto

lemma sum_zip_fst: "length xs = length ys \<Longrightarrow> (\<Sum>(x, y)\<leftarrow>zip xs ys. g x) = (\<Sum>x\<leftarrow>xs. g x)"
  by (induction xs ys rule: list_induct2) auto

lemma scale_figures:
  "scale (d\<lparr>dm_consumed := x\<rparr>) l = scale d l"
  "scale (d\<lparr>dm_released := x\<rparr>) l = scale d l"
  "scale (d\<lparr>dm_restored := x\<rparr>) l = scale d l"
  unfolding scale_def by simp_all

lemma charge_figures [simp]:
  "charge k sel (d\<lparr>dm_consumed := x\<rparr>) n = charge k sel d n"
  "charge k sel (d\<lparr>dm_released := x\<rparr>) n = charge k sel d n"
  "charge k sel (d\<lparr>dm_restored := x\<rparr>) n = charge k sel d n"
  unfolding charge_def scale_figures by simp_all

lemma consume_demand_moved:
  "consume_demand path d n ts = Inr (ts', d') \<Longrightarrow>
   moved (\<lambda>k. - charge k (\<lambda>_. True) d n) (\<lambda>k. charge k (\<lambda>_. True) d n) (\<lambda>k. 0) ts ts' \<and>
   (n \<le> dm_reserved d - dm_consumed d \<and> d' = d\<lparr>dm_consumed := dm_consumed d + n\<rparr>)"
  by (auto simp: consume_demand_def rbind_eq_Inr dest!: consume_op.forEachLeg_moved [unfolded comp_def])

lemma close_demand_moved:
  "close_demand path d n ts = Inr (ts', d') \<Longrightarrow>
   moved (\<lambda>k. - charge k (\<lambda>_. True) d (dm_reserved d - dm_consumed d)) (\<lambda>k. 0) (\<lambda>k. 0) ts ts' \<and>
   (n = dm_reserved d - dm_consumed d \<and> d' = d\<lparr>dm_released := n\<rparr>)"
  by (auto simp: close_demand_def Let_def rbind_eq_Inr dest!: release_op.forEachLeg_moved [unfolded comp_def])

lemma restore_demand_moved:
  "restore_demand path d n ts = Inr (ts', d') \<Longrightarrow>
   moved (\<lambda>k. 0) (\<lambda>k. 0) (\<lambda>k. charge k leg_capacity d n) ts ts' \<and>
   (n \<le> dm_consumed d - dm_restored d \<and> d' = d\<lparr>dm_restored := dm_restored d + n\<rparr>)"
  by (auto simp: restore_demand_def rbind_eq_Inr dest!: restore_op.forEachLeg_moved [unfolded comp_def])

section \<open>Conservation\<close>

definition demand_ok :: "demand \<Rightarrow> bool" where
  "demand_ok d \<longleftrightarrow> 0 \<le> dm_restored d \<and> dm_restored d \<le> dm_consumed d \<and> (dm_consumed d = 0 \<or> dm_consumed d \<le> dm_reserved d)"

text \<open>What an open reservation still holds of a target, and what has been consumed of it and restored to it.\<close>

definition open_charge :: "string \<Rightarrow> reservation_status \<Rightarrow> demand \<Rightarrow> rat" where
  "open_charge k st d = (if st = IsActive then charge k (\<lambda>_. True) d (dm_reserved d - dm_consumed d) else 0)"

definition reserved_at :: "string \<Rightarrow> reservation \<Rightarrow> rat" where
  "reserved_at k r = (\<Sum>d\<leftarrow>demands r. open_charge k (rs_status r) d)"

definition consumed_at :: "string \<Rightarrow> reservation \<Rightarrow> rat" where
  "consumed_at k r = (\<Sum>d\<leftarrow>demands r. charge k (\<lambda>_. True) d (dm_consumed d))"

definition restored_at :: "string \<Rightarrow> reservation \<Rightarrow> rat" where
  "restored_at k r = (\<Sum>d\<leftarrow>demands r. charge k leg_capacity d (dm_restored d))"

definition reservation_ok :: "target_balance pmap \<Rightarrow> string \<Rightarrow> reservation \<Rightarrow> bool" where
  "reservation_ok ts i r \<longleftrightarrow> rs_id r = i \<and>
     (\<forall>d \<in> set (demands r). demand_ok d \<and> (\<forall>l \<in> set (dm_legs d). pm_get ts (leg_key l) \<noteq> None))"

definition balance_ok :: "reservation pmap \<Rightarrow> string \<Rightarrow> target_balance \<Rightarrow> bool" where
  "balance_ok rs k b \<longleftrightarrow>
     of_int (tb_reserved b) = total (reserved_at k) (pm_get rs) \<and>
     of_int (tb_consumed b) = total (consumed_at k) (pm_get rs) \<and>
     of_int (tb_restored b) = total (restored_at k) (pm_get rs)"

definition accounts :: "ledger_state \<Rightarrow> bool" where
  "accounts s \<longleftrightarrow>
     (\<forall>i r. pm_get (reservations s) i = Some r \<longrightarrow> reservation_ok (targets s) i r) \<and>
     (\<forall>k b. pm_get (targets s) k = Some b \<longrightarrow> balance_ok (reservations s) k b)"

lemma reservation_ok_moved: "moved dr dc ds ts ts' \<Longrightarrow> reservation_ok ts' i r \<longleftrightarrow> reservation_ok ts i r"
  unfolding reservation_ok_def by (simp add: moved_dom)

text \<open>Writing one reservation, and moving the balances by the difference, keeps the accounts.\<close>

definition figure :: "(reservation \<Rightarrow> rat) \<Rightarrow> reservation option \<Rightarrow> rat" where
  "figure f r = (case r of None \<Rightarrow> 0 | Some r \<Rightarrow> f r)"

lemma figure_simps [simp]: "figure f None = 0" "figure f (Some r) = f r"
  by (simp_all add: figure_def)

lemma accounts_write:
  assumes acc: "accounts s" and new: "reservation_ok (targets s) i r'"
    and mv: "moved (\<lambda>k. reserved_at k r' - figure (reserved_at k) (pm_get (reservations s) i))
      (\<lambda>k. consumed_at k r' - figure (consumed_at k) (pm_get (reservations s) i))
      (\<lambda>k. restored_at k r' - figure (restored_at k) (pm_get (reservations s) i)) (targets s) ts"
    and s': "targets s' = ts" "reservations s' = pm_set (reservations s) i r'"
  shows "accounts s'"
proof -
  have upd: "pm_get (pm_set (reservations s) i r') = (pm_get (reservations s))(i \<mapsto> r')" by (rule pm_get_set)
  show ?thesis
    unfolding accounts_def s'
  proof (intro conjI allI impI)
    fix j q assume "pm_get (pm_set (reservations s) i r') j = Some q"
    with acc new show "reservation_ok ts j q"
      by (auto simp: accounts_def reservation_ok_moved [OF mv] split: if_splits)
  next
    fix k b' assume "pm_get ts k = Some b'"
    then obtain b where b: "pm_get (targets s) k = Some b"
        and m: "moved_by (reserved_at k r' - figure (reserved_at k) (pm_get (reservations s) i))
          (consumed_at k r' - figure (consumed_at k) (pm_get (reservations s) i))
          (restored_at k r' - figure (restored_at k) (pm_get (reservations s) i)) b b'"
      using moved_get' [OF mv] by blast
    from acc b have "balance_ok (reservations s) k b" by (simp add: accounts_def)
    with m show "balance_ok (pm_set (reservations s) i r') k b'"
      by (auto simp: balance_ok_def moved_by_def upd total_update figure_def split: option.splits)
  qed
qed

section \<open>Accounting events\<close>

lemma reservationFor_Inr:
  "reservationFor s e = Inr r \<longleftrightarrow> pm_get (reservations s) (ae_reservation e) = Some r \<and> rs_generation r = ae_generation e \<and>
    length (amounts e) = length (demands r) \<and> (\<forall>a \<in> set (amounts e). 0 \<le> a)"
  by (auto simp: reservationFor_def rbind_eq_Inr list_ex_iff not_less)

lemma accounts_id: "accounts s \<Longrightarrow> pm_get (reservations s) i = Some r \<Longrightarrow> reservation_ok (targets s) i r \<and> rs_id r = i"
  by (auto simp: accounts_def reservation_ok_def)

lemma list_all2_set2: "list_all2 P xs ys \<Longrightarrow> y \<in> set ys \<Longrightarrow> \<exists>x \<in> set xs. P x y"
  by (induction rule: list_all2_induct) auto

text \<open>
  An accounting event replaces the demands of one reservation. A step on a demand that moves the balances by
  what it changes the demand's figures by keeps the accounts.
\<close>

lemma accounts_step:
  assumes acc: "accounts s" and r: "reservationFor s e = Inr r"
    and each: "each_demand step 0 (zip (demands r) (amounts e)) (targets s) = Inr (ts, ds)"
    and step: "\<And>path d n ts ts' d'. step path d n ts = Inr (ts', d') \<Longrightarrow>
      moved (\<lambda>k. fr k d n) (\<lambda>k. fc k d n) (\<lambda>k. fs k d n) ts ts' \<and> Q d n d'"
    and law: "\<And>d n d'. Q d n d' \<Longrightarrow> 0 \<le> n \<Longrightarrow> demand_ok d \<Longrightarrow> demand_ok d' \<and> dm_legs d' = dm_legs d"
    and fig: "\<And>k d n d'. Q d n d' \<Longrightarrow> open_charge k st d' = open_charge k (rs_status r) d + fr k d n"
      "\<And>k d n d'. Q d n d' \<Longrightarrow> charge k (\<lambda>_. True) d' (dm_consumed d') = charge k (\<lambda>_. True) d (dm_consumed d) + fc k d n"
      "\<And>k d n d'. Q d n d' \<Longrightarrow> charge k leg_capacity d' (dm_restored d') = charge k leg_capacity d (dm_restored d) + fs k d n"
    and s': "targets s' = ts" "reservations s' = pm_set (reservations s) (rs_id r) (r\<lparr>rs_status := st, demands := ds\<rparr>)"
  shows "accounts s'"
proof -
  let ?ps = "zip (demands r) (amounts e)"
  from r have get: "pm_get (reservations s) (ae_reservation e) = Some r" and len: "length (demands r) = length (amounts e)"
      and nn: "\<forall>a \<in> set (amounts e). 0 \<le> a" by (auto simp: reservationFor_Inr)
  note ok = accounts_id [OF acc get]
  from each_demand_moved [OF each step]
  have mv: "moved (\<lambda>k. \<Sum>(d, n)\<leftarrow>?ps. fr k d n) (\<lambda>k. \<Sum>(d, n)\<leftarrow>?ps. fc k d n) (\<lambda>k. \<Sum>(d, n)\<leftarrow>?ps. fs k d n) (targets s) ts"
    and la: "list_all2 (\<lambda>(d, n) d'. Q d n d') ?ps ds" by auto
  have sums: "(\<Sum>d'\<leftarrow>ds. g' d') = (\<Sum>d\<leftarrow>demands r. g d) + (\<Sum>(d, n)\<leftarrow>?ps. h d n)"
    if "\<And>d n d'. Q d n d' \<Longrightarrow> g' d' = g d + h d n" for g g' :: "demand \<Rightarrow> rat" and h
  proof -
    have "list_all2 (\<lambda>(d, n) d'. g' d' = g d + h d n) ?ps ds"
      using la by (rule list_all2_mono) (auto simp: that)
    then show ?thesis using sum_list_all2 [of g' g h ?ps ds] sum_zip_fst [OF len, of g] by simp
  qed
  have "demand_ok d' \<and> (\<forall>l \<in> set (dm_legs d'). pm_get (targets s) (leg_key l) \<noteq> None)" if d': "d' \<in> set ds" for d'
  proof -
    from list_all2_set2 [OF la d'] obtain d n where dn: "(d, n) \<in> set ?ps" "Q d n d'" by auto
    from dn(1) have "d \<in> set (demands r)" "n \<in> set (amounts e)" by (auto dest: set_zip_leftD set_zip_rightD)
    then have "0 \<le> n" "demand_ok d" "\<forall>l \<in> set (dm_legs d). pm_get (targets s) (leg_key l) \<noteq> None"
      using nn ok by (auto simp: reservation_ok_def)
    with law [OF dn(2)] show ?thesis by auto
  qed
  then have "reservation_ok (targets s) (ae_reservation e) (r\<lparr>rs_status := st, demands := ds\<rparr>)"
    using ok by (simp add: reservation_ok_def)
  moreover have "moved (\<lambda>k. reserved_at k (r\<lparr>rs_status := st, demands := ds\<rparr>) - reserved_at k r)
      (\<lambda>k. consumed_at k (r\<lparr>rs_status := st, demands := ds\<rparr>) - consumed_at k r)
      (\<lambda>k. restored_at k (r\<lparr>rs_status := st, demands := ds\<rparr>) - restored_at k r) (targets s) ts"
    using mv by (rule moved_cong)
      (simp_all add: reserved_at_def consumed_at_def restored_at_def sums [OF fig(1)] sums [OF fig(2)] sums [OF fig(3)])
  ultimately show ?thesis
    using accounts_write [OF acc, of "ae_reservation e" "r\<lparr>rs_status := st, demands := ds\<rparr>" ts s'] ok get by (simp add: s')
qed

lemma status_same [simp]: "rs_status r = st \<Longrightarrow> r\<lparr>rs_status := st, demands := ds\<rparr> = r\<lparr>demands := ds\<rparr>"
  by (cases r) simp

lemma applyConsume_accounts:
  assumes acc: "accounts s" and ap: "applyConsume s e = Inr s'"
  shows "accounts s'"
proof -
  from ap obtain r ts ds where r: "reservationFor s e = Inr r" and act: "rs_status r = IsActive"
      and each: "each_demand consume_demand 0 (zip (demands r) (amounts e)) (targets s) = Inr (ts, ds)"
      and s': "s' = set_reservation s ts (r\<lparr>demands := ds\<rparr>)"
    by (auto simp: applyConsume_def rbind_eq_Inr)
  show ?thesis
    by (rule accounts_step [OF acc r each consume_demand_moved, where st = "rs_status r"])
      (auto simp: s' act set_reservation_def demand_ok_def open_charge_def charge_add charge_diff algebra_simps)
qed

lemma applyClose_accounts:
  assumes acc: "accounts s" and ap: "applyClose s e = Inr s'"
  shows "accounts s'"
proof -
  from ap obtain r ts ds where r: "reservationFor s e = Inr r" and act: "rs_status r = IsActive"
      and each: "each_demand close_demand 0 (zip (demands r) (amounts e)) (targets s) = Inr (ts, ds)"
      and s': "targets s' = ts" "reservations s' = pm_set (reservations s) (rs_id r) (r\<lparr>rs_status := IsClosed, demands := ds\<rparr>)"
    by (auto simp: applyClose_def rbind_eq_Inr set_reservation_def)
  show ?thesis
    by (rule accounts_step [OF acc r each close_demand_moved, where st = IsClosed])
      (auto simp: s' act set_reservation_def demand_ok_def open_charge_def)
qed

lemma applyRestore_accounts:
  assumes acc: "accounts s" and ap: "applyRestore s e = Inr s'"
  shows "accounts s'"
proof -
  from ap obtain r ts ds where r: "reservationFor s e = Inr r"
      and each: "each_demand restore_demand 0 (zip (demands r) (amounts e)) (targets s) = Inr (ts, ds)"
      and s': "s' = set_reservation s ts (r\<lparr>demands := ds\<rparr>)"
    by (auto simp: applyRestore_def rbind_eq_Inr)
  show ?thesis
    by (rule accounts_step [OF acc r each restore_demand_moved, where st = "rs_status r"])
      (auto simp: s' set_reservation_def demand_ok_def open_charge_def charge_add)
qed

end
