(* ===== verification/Ledger_Conservation.thy ===== *)
theory Ledger_Conservation
  imports Ledger_Accounting
begin

text \<open>
  Conservation across every event: the balances of all targets are the sums, in exact rationals, of what the
  reservations hold, have consumed and have had restored. Registrations add targets with zero balances under
  keys no reservation refers to, a reservation adds its demands to the targets, the accounting events move what
  they change.
\<close>

section \<open>Registrations\<close>

lemma sum_list_0: "(\<And>x. x \<in> set xs \<Longrightarrow> f x = (0 :: rat)) \<Longrightarrow> (\<Sum>x\<leftarrow>xs. f x) = 0"
  by (induction xs) auto

definition no_figures :: "target_balance \<Rightarrow> bool" where
  "no_figures b \<longleftrightarrow> tb_reserved b = 0 \<and> tb_consumed b = 0 \<and> tb_restored b = 0 \<and> epochConsumed b = None"

definition same_figures :: "target_balance \<Rightarrow> target_balance \<Rightarrow> bool" where
  "same_figures b b' \<longleftrightarrow> tb_reserved b' = tb_reserved b \<and> tb_consumed b' = tb_consumed b \<and>
     tb_restored b' = tb_restored b \<and> epochConsumed b' = epochConsumed b"

definition grown :: "target_balance pmap \<Rightarrow> target_balance pmap \<Rightarrow> bool" where
  "grown ts ts' \<longleftrightarrow> (\<forall>k. case pm_get ts k of
     None \<Rightarrow> pred_option no_figures (pm_get ts' k)
   | Some b \<Rightarrow> (\<exists>b'. pm_get ts' k = Some b' \<and> same_figures b b'))"

lemma grown_refl [simp]: "grown ts ts"
  by (auto simp: grown_def same_figures_def split: option.splits)

lemma grown_trans: "grown ts ts' \<Longrightarrow> grown ts' ts'' \<Longrightarrow> grown ts ts''"
  unfolding grown_def
proof
  fix k
  assume "\<forall>k. case pm_get ts k of None \<Rightarrow> pred_option no_figures (pm_get ts' k)
      | Some b \<Rightarrow> \<exists>b'. pm_get ts' k = Some b' \<and> same_figures b b'"
    "\<forall>k. case pm_get ts' k of None \<Rightarrow> pred_option no_figures (pm_get ts'' k)
      | Some b \<Rightarrow> \<exists>b'. pm_get ts'' k = Some b' \<and> same_figures b b'"
  from spec [OF this(1), of k] spec [OF this(2), of k]
  show "case pm_get ts k of None \<Rightarrow> pred_option no_figures (pm_get ts'' k)
      | Some b \<Rightarrow> \<exists>b'. pm_get ts'' k = Some b' \<and> same_figures b b'"
    by (auto simp: same_figures_def no_figures_def split: option.splits)
qed

lemma grown_set: "(case pm_get ts k of None \<Rightarrow> no_figures b' | Some b \<Rightarrow> same_figures b b') \<Longrightarrow> grown ts (pm_set ts k b')"
  by (auto simp: grown_def same_figures_def split: option.splits)

lemma rfold_grown: "rfold f xs ts = Inr ts' \<Longrightarrow> (\<And>x ts ts'. f x ts = Inr ts' \<Longrightarrow> grown ts ts') \<Longrightarrow> grown ts ts'"
  by (erule rfold_invariant [where P = "grown ts"]) (auto intro: grown_trans)

lemma retire_grown: "retire_dimension keccak d ts = Inr ts' \<Longrightarrow> grown ts ts'"
  by (auto simp: retire_dimension_def rbind_eq_Inr same_figures_def intro!: grown_set)

lemma install_grown:
  assumes "install_dimension keccak i d ts = Inr ts'"
  shows "grown ts ts'"
proof -
  from assms obtain key where "ts' = pm_set ts key (case pm_get ts key of
      None \<Rightarrow> zeroBalance (POLICY i (dimensionId d)) PolicySource d
    | Some prev \<Rightarrow> prev\<lparr>tb_ref := POLICY i (dimensionId d), dimension := d, current := True\<rparr>)"
    by (auto simp: install_dimension_def rbind_eq_Inr Let_def)
  then show ?thesis
    by (simp only:, intro grown_set) (simp add: same_figures_def no_figures_def zeroBalance_def split: option.split)
qed

lemma figures_unknown:
  assumes "reservation_ok ts i r" "pm_get ts k = None"
  shows "reserved_at k r = 0" "consumed_at k r = 0" "restored_at k r = 0"
proof -
  have "leg_key l \<noteq> k" if "d \<in> set (demands r)" "l \<in> set (dm_legs d)" for d l
    using assms that unfolding reservation_ok_def by metis
  then have "charge k sel d n = 0" if "d \<in> set (demands r)" for d sel n
    using that unfolding charge_def by (intro sum_list_0) auto
  then show "reserved_at k r = 0" "consumed_at k r = 0" "restored_at k r = 0"
    unfolding reserved_at_def consumed_at_def restored_at_def open_charge_def
    by (auto intro!: sum_list_0)
qed

lemma accounts_grown:
  assumes acc: "accounts s" and g: "grown (targets s) (targets s')" and rs: "reservations s' = reservations s"
  shows "accounts s'"
  unfolding accounts_def rs
proof (intro conjI allI impI)
  fix i r assume r: "pm_get (reservations s) i = Some r"
  have "pm_get (targets s') k \<noteq> None" if "pm_get (targets s) k \<noteq> None" for k
    using g that unfolding grown_def by (auto dest!: spec [where x = k] split: option.splits)
  with acc r show "reservation_ok (targets s') i r" by (auto simp: accounts_def reservation_ok_def)
next
  fix k b' assume b': "pm_get (targets s') k = Some b'"
  show "balance_ok (reservations s) k b'"
  proof (cases "pm_get (targets s) k")
    case None
    then have "total (reserved_at k) (pm_get (reservations s)) = 0" "total (consumed_at k) (pm_get (reservations s)) = 0"
        "total (restored_at k) (pm_get (reservations s)) = 0"
      using acc by (auto simp: accounts_def intro!: total_0 dest: figures_unknown)
    moreover have "no_figures b'"
      using g None b' unfolding grown_def by (auto dest!: spec [where x = k])
    ultimately show ?thesis by (simp add: balance_ok_def no_figures_def)
  next
    case (Some b)
    then have "same_figures b b'" "balance_ok (reservations s) k b"
      using g b' acc unfolding grown_def accounts_def by (auto dest!: spec [where x = k])
    then show ?thesis by (simp add: balance_ok_def same_figures_def)
  qed
qed

lemma applyRegisterPolicy_grown:
  assumes "applyRegisterPolicy keccak order_fn s pol proofs bindings v = Inr s'"
  shows "grown (targets s) (targets s') \<and> reservations s' = reservations s \<and> nodes s' = nodes s"
proof -
  from assms obtain ts ts' i where fold: "rfold (retire_dimension keccak) (policyDimsOf s) (targets s) = Inr ts"
      "rfold (install_dimension keccak i) (policyDimensions pol) ts = Inr ts'"
      and s': "targets s' = ts'" "reservations s' = reservations s" "nodes s' = nodes s"
    by (auto simp: applyRegisterPolicy_def rbind_eq_Inr)
  have "grown (targets s) ts" by (rule rfold_grown [OF fold(1)]) (rule retire_grown)
  moreover have "grown ts ts'" by (rule rfold_grown [OF fold(2)]) (rule install_grown)
  ultimately show ?thesis using s' by (auto intro: grown_trans)
qed

section \<open>The authority graph and its targets\<close>

text \<open>Nodes are stored under their ids; every target of a grant comes from a registered node.\<close>

definition rooted :: "ledger_state \<Rightarrow> bool" where
  "rooted s \<longleftrightarrow>
     (\<forall>i n. pm_get (nodes s) i = Some n \<longrightarrow> n_id n = i) \<and>
     (\<forall>k. pm_get (targets s) k \<noteq> None \<longrightarrow>
        (\<exists>i d. k = nodeTargetKey i d \<and> pm_get (nodes s) i \<noteq> None) \<or> (\<exists>x. k = policyTargetKey x))"

lemma install_nodes:
  "pm_get (fold (install_node_dimension i) ds ts) k =
     (case find (\<lambda>d. k = nodeTargetKey i (dimensionId d)) (rev ds) of
        None \<Rightarrow> pm_get ts k | Some d \<Rightarrow> Some (zeroBalance (NODE i (dimensionId d)) GrantSource d))"
proof (induction ds rule: rev_induct)
  case (snoc d ds)
  then show ?case by (auto simp: install_node_dimension_def)
qed simp

lemma find_Some_set: "find P xs = Some x \<Longrightarrow> x \<in> set xs \<and> P x"
  by (auto simp: find_Some_iff)

lemma applyRegisterGrant_nodes:
  assumes "applyRegisterGrant keccak order_fn s g proofs bindings t v = Inr s'"
  shows "\<exists>i n. authorityId keccak g = Some i \<and> n_id n = i \<and> n_grant n = g \<and> revokedAt n = None \<and>
    pm_get (nodes s) i = None \<and> nodes s' = pm_set (nodes s) i n \<and>
    targets s' = fold (install_node_dimension i) (grantDimensions g) (targets s) \<and>
    s' = s\<lparr>nodes := nodes s', targets := targets s'\<rparr> \<and>
    checkGrantRegistration s i g t ''grant'' (Some (committedProver order_fn proofs)) = Inr (n_depth n)"
proof -
  from assms obtain i depth canonical where i: "authorityId keccak g = Some i"
      and reg: "checkGrantRegistration s i g t ''grant'' (Some (committedProver order_fn proofs)) = Inr depth"
      and s': "s' = s\<lparr>nodes := pm_set (nodes s) i \<lparr>n_id = i, n_grant = g, n_depth = depth, n_bindings = canonical,
                  n_registeredAt = v, revokedAt = None, n_revocation = None\<rparr>,
                targets := fold (install_node_dimension i) (grantDimensions g) (targets s)\<rparr>"
    unfolding applyRegisterGrant_def rbind_eq_Inr Let_def by auto
  from reg have "pm_get (nodes s) i = None"
    by (auto simp: checkGrantRegistration_def pm_has_def)
  then show ?thesis using i reg
    by (intro exI [of _ i] exI [of _ "\<lparr>n_id = i, n_grant = g, n_depth = depth, n_bindings = canonical,
      n_registeredAt = v, revokedAt = None, n_revocation = None\<rparr>"]) (simp add: s')
qed

lemma applyRevoke_nodes:
  assumes "applyRevoke keccak s r t v = Inr s'"
  shows "\<exists>n i. pm_get (nodes s) (rv_target r) = Some n \<and> s' = s\<lparr>nodes := nodes s'\<rparr> \<and>
    nodes s' = pm_set (nodes s) (n_id n) (n\<lparr>revokedAt := Some v, n_revocation := Some i\<rparr>) \<and>
    checkRevocation s r t ''revocation'' = Inr ()"
  using assms by (auto simp: applyRevoke_def rbind_eq_Inr)

lemma applyRegisterGrant_grown:
  assumes "rooted s" "applyRegisterGrant keccak order_fn s g proofs bindings t v = Inr s'"
  shows "grown (targets s) (targets s') \<and> reservations s' = reservations s"
proof -
  from applyRegisterGrant_nodes [OF assms(2)] obtain i where new: "pm_get (nodes s) i = None"
      and s': "targets s' = fold (install_node_dimension i) (grantDimensions g) (targets s)"
        "s' = s\<lparr>nodes := nodes s', targets := targets s'\<rparr>" by blast
  have "pm_get (targets s) (nodeTargetKey i d) = None" for d
    using assms(1) new by (auto simp: rooted_def) 
  then have "grown (targets s) (targets s')"
    by (auto simp: grown_def s'(1) install_nodes same_figures_def no_figures_def zeroBalance_def
        split: option.splits dest!: find_Some_set)
  then show ?thesis by (subst s'(2)) simp
qed

section \<open>Reservations\<close>

text \<open>The leg of a dimension: its amount is the contribution's, exactly, and its epoch that of the time.\<close>

definition leg_of :: "contribution \<Rightarrow> int \<Rightarrow> leg_draft \<Rightarrow> bool" where
  "leg_of c t l \<longleftrightarrow>
     rescaleExact (q_atoms (ct_quantity c)) (q_decimals (ct_quantity c)) (b_decimals (limit (ld_dimension l))) = Some (ld_amount l) \<and>
     (if restoration (ld_dimension l) = RestoreEpoch
      then ld_epoch l \<noteq> None \<and> ld_epoch l = epochIndex (ld_dimension l) t else ld_epoch l = None)"

definition leg_source :: "node_record list \<Rightarrow> leg_draft \<Rightarrow> bool" where
  "leg_source lin l \<longleftrightarrow>
     (\<exists>n \<in> set lin. ld_dimension l \<in> set (grantDimensions (n_grant n)) \<and>
        ld_key l = nodeTargetKey (n_id n) (dimensionId (ld_dimension l)) \<and>
        ld_ref l = NODE (n_id n) (dimensionId (ld_dimension l))) \<or>
     (\<exists>x i. ld_key l = policyTargetKey x \<and> ld_ref l = POLICY i (dimensionId (ld_dimension l)))"

lemma legFor_of:
  "legFor key ref d c t path node = Inr l \<Longrightarrow> leg_of c t l \<and> ld_key l = key \<and> ld_ref l = ref \<and> ld_dimension l = d"
  by (auto simp: legFor_def leg_of_def rbind_eq_Inr map_sum_eq_Inr split: if_splits)

lemma contribution_legs_of:
  assumes "contribution_legs keccak lin policyId policyDims dmn t path c = Inr ls" "l \<in> set ls"
  shows "leg_of c t l \<and> leg_source lin l"
proof -
  from assms(1) obtain lss plegs where ls: "ls = concat lss @ plegs"
      and lss: "list_all2 (\<lambda>n ns. node_legs c dmn t path n = Inr ns) lin lss"
      and plegs: "list_all2 (\<lambda>d pl. policy_leg keccak policyId c t path d = Inr pl) (filter (contributionMatches c dmn) policyDims) plegs"
    by (auto simp: contribution_legs_def rbind_eq_Inr map_sum_eq_Inr rmap_eq_Inr)
  from assms(2) ls consider (node) ns where "ns \<in> set lss" "l \<in> set ns" | (policy) "l \<in> set plegs" by auto
  then show ?thesis
  proof cases
    case node
    then obtain n where n: "n \<in> set lin" "node_legs c dmn t path n = Inr ns" using list_all2_set2 [OF lss] by blast
    then obtain d where "d \<in> set (grantDimensions (n_grant n))"
        "legFor (nodeTargetKey (n_id n) (dimensionId d)) (NODE (n_id n) (dimensionId d)) d c t path (Some (n_id n)) = Inr l"
      using list_all2_set2 [of _ _ ns l] node(2) by (fastforce simp: node_legs_def rmap_eq_Inr grantDimensions_def)
    with n(1) show ?thesis by (auto dest!: legFor_of simp: leg_source_def)
  next
    case policy
    then obtain d where "policy_leg keccak policyId c t path d = Inr l" using list_all2_set2 [OF plegs] by blast
    then show ?thesis by (auto simp: policy_leg_def rbind_eq_Inr leg_source_def dest!: legFor_of)
  qed
qed

lemma deriveLegs_of:
  assumes "deriveLegs keccak lin policyId policyDims cs dmn t path = Inr legs"
  shows "list_all2 (\<lambda>c ls. \<forall>l \<in> set ls. leg_of c t l \<and> leg_source lin l) cs legs"
proof -
  from assms have "list_all2 (\<lambda>ic ls. \<forall>l \<in> set ls. leg_of (snd ic) t l \<and> leg_source lin l) (enumerate 0 cs) legs"
    unfolding deriveLegs_def rmap_eq_Inr by (rule list_all2_mono) (auto dest: contribution_legs_of)
  then show ?thesis
    by (simp add: list_all2_conv_all_nth nth_enumerate_eq)
qed

text \<open>The demand on a key is the sum of the amounts of its legs.\<close>

definition asked :: "leg_draft list \<Rightarrow> string \<Rightarrow> int" where
  "asked ls k = (\<Sum>l\<leftarrow>ls. if ld_key l = k then ld_amount l else 0)"

lemma asked_0: "k \<notin> ld_key ` set ls \<Longrightarrow> asked ls k = 0"
  unfolding asked_def by (induction ls) auto

lemma demand_of_fold:
  "map_of (fold add_leg ls m) k =
    (if k \<in> ld_key ` set ls \<or> map_of m k \<noteq> None then Some ((case map_of m k of None \<Rightarrow> 0 | Some n \<Rightarrow> n) + asked ls k) else None) \<and>
   (distinct (map fst m) \<longrightarrow> distinct (map fst (fold add_leg ls m)))"
proof (induction ls arbitrary: m)
  case Nil
  then show ?case by (simp add: asked_def split: option.split)
next
  case (Cons l ls)
  then show ?case by (auto simp: asked_def add_leg_def distinct_put split: option.splits)
qed

lemma demand_of_asked: "map_of (demand_of ls) k = (if k \<in> ld_key ` set ls then Some (asked ls k) else None)"
  and demand_of_distinct: "distinct (map fst (demand_of ls))"
  using demand_of_fold [of ls "[]"] by (auto simp: demand_of_def)

lemma reserve_target_moved:
  "reserve_target ka ts = Inr ts' \<Longrightarrow>
   moved (at_key (fst ka) (of_int (snd ka))) (\<lambda>_. 0) (\<lambda>_. 0) ts ts' \<and> pm_get ts (fst ka) \<noteq> None"
  by (auto simp: reserve_target_def rbind_eq_Inr intro!: moved_cong [OF moved_set [where y = 0 and z = 0]])
    (auto simp: moved_by_def same_target_def at_key_def)

lemma reserve_targets_moved:
  "rfold reserve_target m ts = Inr ts' \<Longrightarrow>
   moved (\<lambda>k. \<Sum>(j, n)\<leftarrow>m. at_key j (of_int n) k) (\<lambda>_. 0) (\<lambda>_. 0) ts ts' \<and> (\<forall>k \<in> fst ` set m. pm_get ts k \<noteq> None)"
proof (induction m arbitrary: ts)
  case Nil
  then show ?case using moved_refl by simp
next
  case (Cons p m)
  then obtain ts1 where ts1: "reserve_target p ts = Inr ts1" "rfold reserve_target m ts1 = Inr ts'"
    by (auto simp: rbind_eq_Inr)
  note here = reserve_target_moved [OF ts1(1)] and rest = Cons.IH [OF ts1(2)]
  have "moved (\<lambda>k. \<Sum>(j, n)\<leftarrow>p # m. at_key j (of_int n) k) (\<lambda>_. 0) (\<lambda>_. 0) ts ts'"
    by (rule moved_cong [OF moved_trans [OF conjunct1 [OF here] conjunct1 [OF rest]]]) (auto simp: case_prod_unfold)
  then show ?case using here rest moved_dom [OF conjunct1 [OF here]] by auto
qed

lemma sum_at_key: "distinct (map fst m) \<Longrightarrow>
   (\<Sum>(j, n)\<leftarrow>m. at_key j (of_int n) k) = of_int (case map_of m k of None \<Rightarrow> 0 | Some n \<Rightarrow> n)"
proof (induction m)
  case (Cons p m)
  have "map_of m (fst p) = None" using Cons.prems by (auto simp: map_of_eq_None_iff)
  then show ?case using Cons by (cases p) (auto simp: at_key_def split: option.splits)
qed simp

lemma charge_demand_record:
  assumes "\<forall>l \<in> set ls. leg_of c t l"
  shows "charge k (\<lambda>_. True) (demand_record c ls) (q_atoms (ct_quantity c)) = of_int (asked ls k)"
proof -
  have "of_int (ld_amount l) = of_int (q_atoms (ct_quantity c)) * scale (demand_record c ls) (legRecordOf l)" if "l \<in> set ls" for l
    using assms that rescale_scale [of "q_atoms (ct_quantity c)" "demand_record c ls" "legRecordOf l" "ld_amount l"]
    by (simp add: leg_of_def demand_record_def legRecordOf_def)
  then have "map (\<lambda>l. if ld_key l = k then of_int (q_atoms (ct_quantity c)) * scale (demand_record c ls) (legRecordOf l) else 0) ls =
      map (\<lambda>l. if ld_key l = k then of_int (ld_amount l) else 0) ls"
    by simp
  moreover have "of_int (asked ls k) = (\<Sum>l\<leftarrow>ls. if ld_key l = k then of_int (ld_amount l) else (0 :: rat))"
    unfolding asked_def by (induction ls) auto
  moreover have "dm_legs (demand_record c ls) = map legRecordOf ls" "leg_key (legRecordOf l) = ld_key l" for l
    by (simp_all add: demand_record_def legRecordOf_def)
  ultimately show ?thesis by (simp add: charge_def o_def cong: map_cong)
qed

lemma demand_record_simps [simp]:
  "dm_reserved (demand_record c ls) = q_atoms (ct_quantity c)" "dm_consumed (demand_record c ls) = 0"
  "dm_restored (demand_record c ls) = 0" "dm_legs (demand_record c ls) = map legRecordOf ls"
  "dm_contribution (demand_record c ls) = c"
  by (simp_all add: demand_record_def)

lemma asked_append: "asked (ls @ ls') k = asked ls k + asked ls' k"
  by (simp add: asked_def)

lemma reserved_new:
  "list_all2 (\<lambda>c ls. \<forall>l \<in> set ls. leg_of c t l \<and> leg_source lin l) cs legs \<Longrightarrow>
   (\<Sum>(c, ls)\<leftarrow>zip cs legs. charge k (\<lambda>_. True) (demand_record c ls) (q_atoms (ct_quantity c))) = of_int (asked (concat legs) k)"
proof (induction rule: list_all2_induct)
  case Nil
  then show ?case by (simp add: asked_def)
next
  case (Cons c cs ls legs)
  then show ?case using charge_demand_record [of ls c t k] by (simp add: asked_append)
qed

lemma applyReserve_effect:
  assumes "applyReserve keccak s t plan lin pol legs v = Inr s'"
  shows "\<exists>d dem r. deriveReservation keccak s plan t = Inr d \<and>
    checkAvailability s (dr_legs d) t ''plan'' = Inr dem \<and> rfold reserve_target dem (targets s) = Inr (targets s') \<and>
    rs_id r = dr_reservation d \<and> rs_status r = IsActive \<and> rs_action r = cpl_action plan \<and>
    rs_generation r = cpl_generation plan \<and> rs_authority r = cpl_authority plan \<and> rs_lineage r = map n_id (dr_lineage d) \<and>
    rs_reservedAt r = t \<and>
    demands r = map2 demand_record (contributions plan) (dr_legs d) \<and>
    s' = s\<lparr>everReserved := True, targets := targets s', reservations := pm_set (reservations s) (rs_id r) r,
       actions := pm_set (actions s) (cpl_action plan)
         \<lparr>lastGeneration = cpl_generation plan, open_reservation = Some (rs_id r)\<rparr>\<rparr> \<and>
    sameLegs legs (dr_legs d) \<and> lin = map n_id (dr_lineage d)"
proof -
  from assms show ?thesis
    unfolding applyReserve_def rbind_eq_Inr Let_def refuse_if_Inr may_throw_Inr
  proof (elim exE conjE, goal_cases)
    case (1 d p dem ts)
    then show ?case
      by (intro exI [of _ d] exI [of _ dem] exI [of _ "\<lparr>rs_id = dr_reservation d, rs_action = cpl_action plan,
          rs_generation = cpl_generation plan, rs_authority = cpl_authority plan, rs_lineage = map n_id (dr_lineage d),
          rs_policy = pr_id p, rs_module = cpl_module plan, rs_implementation = cpl_implementation plan, rs_committedAt = v,
          rs_reservedAt = t, rs_status = IsActive,
          demands = map2 demand_record (contributions plan) (dr_legs d)\<rparr>"]) auto
  qed
qed

lemma deriveReservation_facts:
  assumes "deriveReservation keccak s plan t = Inr d"
  shows "pm_get (reservations s) (dr_reservation d) = None"
    "planReservationId keccak plan = Some (dr_reservation d)"
    "resolveLineage s (cpl_authority plan) ''plan.authority'' = Inr (dr_lineage d)"
    "checkLineageValid s (dr_lineage d) t ''plan.authority'' = Inr ()"
    "case pm_get (actions s) (cpl_action plan) of
       None \<Rightarrow> cpl_generation plan = 1
     | Some a \<Rightarrow> open_reservation a = None \<and> cpl_generation plan = lastGeneration a + 1"
    "list_all2 (\<lambda>c ls. \<forall>l \<in> set ls. leg_of c t l \<and> leg_source (dr_lineage d) l) (contributions plan) (dr_legs d)"
    "actor plan = holder (n_grant (hd (dr_lineage d)))"
    "effectiveAuthority (dr_lineage d) (pr_policy (the (policy s))) ''plan.authority'' (pr_bindings (the (policy s))) = Inr (dr_effective d)"
    "moduleAllowed (dr_effective d) (cpl_module plan)"
  using assms
  by (auto simp: deriveReservation_def rbind_eq_Inr Let_def pm_has_def dest!: deriveLegs_of split: option.splits)

lemma applyReserve_accounts:
  assumes acc: "accounts s" and ap: "applyReserve keccak s t plan lin pol legs v = Inr s'"
  shows "accounts s'"
proof -
  from applyReserve_effect [OF ap] obtain d dem r where d: "deriveReservation keccak s plan t = Inr d"
      and avail: "checkAvailability s (dr_legs d) t ''plan'' = Inr dem"
      and fold: "rfold reserve_target dem (targets s) = Inr (targets s')"
      and r: "rs_id r = dr_reservation d" "rs_status r = IsActive" "demands r = map2 demand_record (contributions plan) (dr_legs d)"
      and s': "s' = s\<lparr>everReserved := True, targets := targets s', reservations := pm_set (reservations s) (rs_id r) r,
       actions := pm_set (actions s) (cpl_action plan)
         \<lparr>lastGeneration = cpl_generation plan, open_reservation = Some (rs_id r)\<rparr>\<rparr>" by blast
  note facts = deriveReservation_facts [OF d]
  have dem: "dem = demand_of (concat (dr_legs d))"
    using avail by (auto simp: checkAvailability_def rbind_eq_Inr Let_def split: if_splits)
  from reserve_targets_moved [OF fold]
  have mv: "moved (\<lambda>k. of_int (asked (concat (dr_legs d)) k)) (\<lambda>_. 0) (\<lambda>_. 0) (targets s) (targets s')"
    and keys: "\<forall>k \<in> fst ` set dem. pm_get (targets s) k \<noteq> None"
    by (auto simp: sum_at_key demand_of_distinct dem demand_of_asked asked_0 elim!: moved_cong)
  have keys: "pm_get (targets s) (ld_key l) \<noteq> None" if "ls \<in> set (dr_legs d)" "l \<in> set ls" for ls l
  proof -
    have "map_of dem (ld_key l) \<noteq> None" using that by (auto simp: dem demand_of_asked)
    then have "ld_key l \<in> fst ` set dem" by (simp add: map_of_eq_None_iff del: not_None_eq)
    then show ?thesis using keys by blast
  qed
  have ok: "demand_ok (demand_record c ls) \<and> (\<forall>l \<in> set (dm_legs (demand_record c ls)). pm_get (targets s) (leg_key l) \<noteq> None)"
    if "(c, ls) \<in> set (zip (contributions plan) (dr_legs d))" for c ls
    using keys [of ls] set_zip_rightD [OF that] by (auto simp: demand_ok_def demand_record_def legRecordOf_def)
  have "reservation_ok (targets s) (rs_id r) r"
    using ok by (auto simp: reservation_ok_def r)
  moreover have "reserved_at k r = of_int (asked (concat (dr_legs d)) k)" "consumed_at k r = 0" "restored_at k r = 0" for k
    using reserved_new [OF facts(6), of k] r by (simp_all add: reserved_at_def consumed_at_def restored_at_def open_charge_def case_prod_unfold o_def)
  moreover have "reservations s' = pm_set (reservations s) (rs_id r) r" by (subst s') simp
  ultimately show ?thesis
    using mv facts(1) accounts_write [OF acc, of "rs_id r" r "targets s'" s'] by (simp add: r(1))
qed

section \<open>Every event\<close>

lemma grown_moved: "moved dr dc ds ts ts' \<Longrightarrow> pm_get ts k = None \<longleftrightarrow> pm_get ts' k = None"
  by (simp add: moved_dom)

lemma each_demand_moves:
  assumes "each_demand step i ps ts = Inr (ts', ds')"
    and "\<And>path d n ts ts' d'. step path d n ts = Inr (ts', d') \<Longrightarrow> \<exists>dr dc ds. moved dr dc ds ts ts'"
  shows "\<exists>dr dc ds. moved dr dc ds ts ts'"
  using assms(1)
proof (induction ps arbitrary: i ts ds')
  case Nil
  then show ?case using moved_refl by auto
next
  case (Cons p ps)
  obtain d n where p: "p = (d, n)" by fastforce
  from Cons.prems obtain ts1 d1 ds1 where "step (index_path ''amounts'' i) d n ts = Inr (ts1, d1)"
      and "each_demand step (i + 1) ps ts1 = Inr (ts', ds1)"
    unfolding p by (auto simp: rbind_eq_Inr)
  then show ?case using assms(2) Cons.IH moved_trans by meson
qed

lemma consume_demands_moved: "each_demand consume_demand i ps ts = Inr (ts', ds') \<Longrightarrow> \<exists>dr dc ds. moved dr dc ds ts ts'"
  by (erule each_demand_moves) (blast dest: consume_demand_moved)

lemma close_demands_moved: "each_demand close_demand i ps ts = Inr (ts', ds') \<Longrightarrow> \<exists>dr dc ds. moved dr dc ds ts ts'"
  by (erule each_demand_moves) (blast dest: close_demand_moved)

lemma restore_demands_moved: "each_demand restore_demand i ps ts = Inr (ts', ds') \<Longrightarrow> \<exists>dr dc ds. moved dr dc ds ts ts'"
  by (erule each_demand_moves) (blast dest: restore_demand_moved)

lemma accounting_targets:
  assumes "applyConsume s e = Inr s' \<or> applyClose s e = Inr s' \<or> applyRestore s e = Inr s'"
  shows "(\<exists>dr dc ds. moved dr dc ds (targets s) (targets s')) \<and> nodes s' = nodes s \<and> policy s' = policy s"
  using assms
  by (auto simp: applyConsume_def applyClose_def applyRestore_def rbind_eq_Inr set_reservation_def Let_def
      dest: consume_demands_moved close_demands_moved restore_demands_moved)

lemma applyReserve_targets:
  assumes "applyReserve keccak s t plan lin pol legs v = Inr s'"
  shows "(\<exists>dr dc ds. moved dr dc ds (targets s) (targets s')) \<and> nodes s' = nodes s \<and> policy s' = policy s"
proof -
  from applyReserve_effect [OF assms] obtain dem r where fold: "rfold reserve_target dem (targets s) = Inr (targets s')"
      and s': "s' = s\<lparr>everReserved := True, targets := targets s', reservations := pm_set (reservations s) (rs_id r) r,
       actions := pm_set (actions s) (cpl_action plan)
         \<lparr>lastGeneration = cpl_generation plan, open_reservation = Some (rs_id r)\<rparr>\<rparr>" by blast
  have "nodes s' = nodes s" "policy s' = policy s" by (subst s', simp)+
  then show ?thesis using reserve_targets_moved [OF fold] by blast
qed

lemma applyAdmit_same:
  assumes "applyAdmitAttempt keccak s a t v = Inr s'"
  shows "targets s' = targets s \<and> nodes s' = nodes s \<and> reservations s' = reservations s \<and> policy s' = policy s \<and> actions s' = actions s"
  using assms by (auto simp: applyAdmitAttempt_def rbind_eq_Inr Let_def)

lemma rooted_moved: "rooted s \<Longrightarrow> moved dr dc ds (targets s) (targets s') \<Longrightarrow> nodes s' = nodes s \<Longrightarrow> rooted s'"
  unfolding rooted_def by (metis moved_dom)

lemma policy_fold_keys:
  assumes "rfold f ds ts = Inr ts'" "\<And>d ts ts'. f d ts = Inr ts' \<Longrightarrow> \<exists>x b. ts' = pm_set ts (policyTargetKey x) b"
  shows "pm_get ts' k \<noteq> None \<Longrightarrow> pm_get ts k \<noteq> None \<or> (\<exists>x. k = policyTargetKey x)"
  using assms(1)
proof (rule rfold_invariant [where P = "\<lambda>ts'. pm_get ts' k \<noteq> None \<longrightarrow> pm_get ts k \<noteq> None \<or> (\<exists>x. k = policyTargetKey x)", THEN mp])
  fix d ts1 ts2 assume "f d ts1 = Inr ts2" "pm_get ts1 k \<noteq> None \<longrightarrow> pm_get ts k \<noteq> None \<or> (\<exists>x. k = policyTargetKey x)"
  with assms(2) [of d ts1 ts2] show "pm_get ts2 k \<noteq> None \<longrightarrow> pm_get ts k \<noteq> None \<or> (\<exists>x. k = policyTargetKey x)"
    by (auto split: if_splits)
qed auto

lemma policy_key_Inr: "policy_key keccak d = Inr key \<Longrightarrow> \<exists>x. key = policyTargetKey x"
  by (auto simp: policy_key_def map_sum_eq_Inr)

lemma applyRegisterPolicy_keys:
  assumes "applyRegisterPolicy keccak order_fn s pol proofs bindings v = Inr s'" "pm_get (targets s') k \<noteq> None"
  shows "pm_get (targets s) k \<noteq> None \<or> (\<exists>x. k = policyTargetKey x)"
proof -
  from assms(1) obtain ts i where fold: "rfold (retire_dimension keccak) (policyDimsOf s) (targets s) = Inr ts"
      "rfold (install_dimension keccak i) (policyDimensions pol) ts = Inr (targets s')"
    by (auto simp: applyRegisterPolicy_def rbind_eq_Inr)
  have "pm_get ts k \<noteq> None \<or> (\<exists>x. k = policyTargetKey x)"
    by (rule policy_fold_keys [OF fold(2) _ assms(2)])
      (auto simp: install_dimension_def rbind_eq_Inr Let_def dest!: policy_key_Inr)
  moreover have "pm_get ts k \<noteq> None \<Longrightarrow> pm_get (targets s) k \<noteq> None \<or> (\<exists>x. k = policyTargetKey x)"
    by (rule policy_fold_keys [OF fold(1)])
      (auto simp: retire_dimension_def rbind_eq_Inr dest!: policy_key_Inr)
  ultimately show ?thesis by blast
qed

lemma apply_body_rooted:
  assumes ro: "rooted s" and ap: "apply_body keccak order_fn s e v = Inr s'"
  shows "rooted s'"
proof (cases e)
  case (REGISTER_POLICY t p ps bs)
  with ap have reg: "applyRegisterPolicy keccak order_fn s p ps bs v = Inr s'" by simp
  have "nodes s' = nodes s" using applyRegisterPolicy_grown [OF reg] by blast
  then show ?thesis using ro applyRegisterPolicy_keys [OF reg] unfolding rooted_def by metis
next
  case (REGISTER_GRANT t g ps bs)
  with ap have "applyRegisterGrant keccak order_fn s g ps bs t v = Inr s'" by simp
  from applyRegisterGrant_nodes [OF this] obtain i n where n: "n_id n = i" "nodes s' = pm_set (nodes s) i n"
      and ts: "targets s' = fold (install_node_dimension i) (grantDimensions g) (targets s)" by blast
  have "pm_get (targets s) k \<noteq> None \<or> (\<exists>d. k = nodeTargetKey i d)" if "pm_get (targets s') k \<noteq> None" for k
    using that by (auto simp: ts install_nodes split: option.splits dest!: find_Some_set)
  moreover have "pm_get (nodes s) j \<noteq> None \<Longrightarrow> pm_get (nodes s') j \<noteq> None" "pm_get (nodes s') i \<noteq> None" for j
    by (simp_all add: n(2))
  moreover have "\<forall>j m. pm_get (nodes s') j = Some m \<longrightarrow> n_id m = j"
    using ro n(1) by (simp add: n(2) rooted_def)
  ultimately show ?thesis using ro unfolding rooted_def by metis
next
  case (REVOKE t r)
  with ap have "applyRevoke keccak s r t v = Inr s'" by simp
  from applyRevoke_nodes [OF this] obtain n i where n: "pm_get (nodes s) (rv_target r) = Some n" "s' = s\<lparr>nodes := nodes s'\<rparr>"
      "nodes s' = pm_set (nodes s) (n_id n) (n\<lparr>revokedAt := Some v, n_revocation := Some i\<rparr>)" by blast
  have "targets s' = targets s" by (subst n(2)) simp
  moreover have "pm_get (nodes s) j \<noteq> None \<Longrightarrow> pm_get (nodes s') j \<noteq> None" for j
    by (simp add: n(3))
  moreover have "\<forall>j m. pm_get (nodes s') j = Some m \<longrightarrow> n_id m = j"
    using ro n(1) by (simp add: n(3) rooted_def)
  ultimately show ?thesis using ro unfolding rooted_def by metis
next
  case (RESERVE t p lin pol legs)
  then show ?thesis using ro ap applyReserve_targets [of keccak s t p lin pol legs v s'] by (auto intro: rooted_moved)
next
  case (CONSUME t a)
  then show ?thesis using ro ap accounting_targets [of s a s'] by (auto intro: rooted_moved)
next
  case (CLOSE t a)
  then show ?thesis using ro ap accounting_targets [of s a s'] by (auto intro: rooted_moved)
next
  case (RESTORE t a)
  then show ?thesis using ro ap accounting_targets [of s a s'] by (auto intro: rooted_moved)
next
  case (ADMIT_ATTEMPT t a)
  then show ?thesis using ro ap applyAdmit_same [of keccak s a t v s'] by (simp add: rooted_def)
qed

lemma apply_body_accounts:
  assumes acc: "accounts s" and ro: "rooted s" and ap: "apply_body keccak order_fn s e v = Inr s'"
  shows "accounts s'"
proof (cases e)
  case (REGISTER_POLICY t p ps bs)
  then show ?thesis using acc ap applyRegisterPolicy_grown [of keccak order_fn s p ps bs v s'] by (auto intro: accounts_grown)
next
  case (REGISTER_GRANT t g ps bs)
  then show ?thesis using acc ap applyRegisterGrant_grown [OF ro, of keccak order_fn g ps bs t v s'] by (auto intro: accounts_grown)
next
  case (REVOKE t r)
  with ap have "applyRevoke keccak s r t v = Inr s'" by simp
  from applyRevoke_nodes [OF this] have s': "s' = s\<lparr>nodes := nodes s'\<rparr>" by blast
  have "targets s' = targets s" "reservations s' = reservations s" by (subst s', simp)+
  then show ?thesis using acc by (simp add: accounts_def)
next
  case (RESERVE t p lin pol legs)
  then show ?thesis using acc ap by (auto intro: applyReserve_accounts)
next
  case (CONSUME t a)
  then show ?thesis using acc ap by (auto intro: applyConsume_accounts)
next
  case (CLOSE t a)
  then show ?thesis using acc ap by (auto intro: applyClose_accounts)
next
  case (RESTORE t a)
  then show ?thesis using acc ap by (auto intro: applyRestore_accounts)
next
  case (ADMIT_ATTEMPT t a)
  then show ?thesis using acc ap applyAdmit_same [of keccak s a t v s'] by (simp add: accounts_def)
qed

end
