(* ===== verification/Ledger_Invariant.thy ===== *)
theory Ledger_Invariant
  imports Ledger_Conservation
begin

text \<open>
  Invariants of the ledger: what every event keeps holds after every replay. The locale is the contract between
  the transition rules of the reducer and an invariant; each invariant of the ledger is an interpretation.
\<close>

locale ledger_invariant =
  fixes keccak :: "u8 list \<Rightarrow> u8 list" and order_fn :: invariant_ordering
    and ok :: "ledger_event \<Rightarrow> bool" and inv :: "ledger_state \<Rightarrow> bool"
  assumes genesis: "inv (empty_state p h)"
    and body: "inv s \<Longrightarrow> ok e \<Longrightarrow> (\<And>t. lastAt s = Some t \<Longrightarrow> t \<le> event_at e) \<Longrightarrow>
      apply_body keccak order_fn s e v = Inr s' \<Longrightarrow> inv (s'\<lparr>lastAt := Some (event_at e)\<rparr>)"
    and stamp: "inv s \<Longrightarrow> inv (s\<lparr>version := v, head := h\<rparr>)"
begin

lemma applyEvent_inv:
  assumes "inv s" "ok e" "applyEvent keccak order_fn s e v = Inr s'"
  shows "inv s'"
proof -
  from assms(3) obtain s1 where s1: "apply_body keccak order_fn s e v = Inr s1" and s': "s' = s1\<lparr>lastAt := Some (event_at e)\<rparr>"
      and late: "case lastAt s of None \<Rightarrow> True | Some t \<Rightarrow> t \<le> event_at e"
    by (auto simp: applyEvent_def rbind_eq_Inr not_less split: option.splits)
  from late have "\<And>t. lastAt s = Some t \<Longrightarrow> t \<le> event_at e" by simp
  then show ?thesis using body [OF assms(1,2) _ s1] s' by simp
qed

lemma apply_events_inv: "inv s \<Longrightarrow> list_all ok es \<Longrightarrow> apply_events keccak order_fn v i es s = Inr s' \<Longrightarrow> inv s'"
  by (induction es arbitrary: i s) (auto simp: rbind_eq_Inr map_sum_eq_Inr intro: applyEvent_inv)

lemma applyBatch_inv: "inv s \<Longrightarrow> list_all ok es \<Longrightarrow> applyBatch keccak order_fn s es = Inr (s', b) \<Longrightarrow> inv s'"
  by (auto simp: applyBatch_def rbind_eq_Inr Let_def intro!: stamp elim: apply_events_inv)

lemma replay_from_inv: "inv s \<Longrightarrow> list_all (list_all ok) bs \<Longrightarrow> replay_from keccak order_fn i bs s = Inr s' \<Longrightarrow> inv s'"
  by (induction bs arbitrary: i s) (auto simp: rbind_eq_Inr map_sum_eq_Inr intro: applyBatch_inv)

lemma replay_inv: "list_all (list_all ok) bs \<Longrightarrow> replay_ledger keccak order_fn p bs = Inr s \<Longrightarrow> inv s"
  by (auto simp: replay_ledger_def rbind_eq_Inr emptyLedgerState_def intro: replay_from_inv genesis)

end

lemma accounts_cong: "targets s' = targets s \<Longrightarrow> reservations s' = reservations s \<Longrightarrow> accounts s' = accounts s"
  by (simp add: accounts_def)

lemma rooted_cong: "targets s' = targets s \<Longrightarrow> nodes s' = nodes s \<Longrightarrow> rooted s' = rooted s"
  by (simp add: rooted_def)

definition books :: "ledger_state \<Rightarrow> bool" where
  "books s \<longleftrightarrow> accounts s \<and> rooted s"

interpretation conservation: ledger_invariant keccak order_fn "\<lambda>_. True" books for keccak order_fn
proof
  fix p h show "books (empty_state p h)"
    by (simp add: books_def accounts_def rooted_def empty_state_def)
next
  fix s e v s' assume "books s" "apply_body keccak order_fn s e v = Inr s'"
  then have "books s'" by (auto simp: books_def intro: apply_body_accounts apply_body_rooted)
  then show "books (s'\<lparr>lastAt := Some (event_at e)\<rparr>)"
    by (simp add: books_def accounts_cong [of "s'\<lparr>lastAt := Some (event_at e)\<rparr>" s'] rooted_cong [of "s'\<lparr>lastAt := Some (event_at e)\<rparr>" s'])
next
  fix s v h assume "books s"
  then show "books (s\<lparr>version := v, head := h\<rparr>)"
    by (simp add: books_def accounts_cong [of "s\<lparr>version := v, head := h\<rparr>" s] rooted_cong [of "s\<lparr>version := v, head := h\<rparr>" s])
qed

section \<open>What the books say of a balance\<close>

lemma books_balance:
  assumes "books s" "pm_get (targets s) k = Some b"
  shows "of_int (tb_reserved b) = total (reserved_at k) (pm_get (reservations s))"
    "of_int (tb_consumed b) = total (consumed_at k) (pm_get (reservations s))"
    "of_int (tb_restored b) = total (restored_at k) (pm_get (reservations s))"
  using assms by (auto simp: books_def accounts_def balance_ok_def)

lemma books_demand: "books s \<Longrightarrow> pm_get (reservations s) i = Some r \<Longrightarrow> d \<in> set (demands r) \<Longrightarrow> demand_ok d"
  by (auto simp: books_def accounts_def reservation_ok_def)

lemma restored_le_consumed: "demand_ok d \<Longrightarrow> charge k leg_capacity d (dm_restored d) \<le> charge k (\<lambda>_. True) d (dm_consumed d)"
  by (rule order_trans [OF charge_sel charge_mono]) (auto simp: demand_ok_def)

text \<open>Nothing is restored that was not consumed.\<close>

lemma books_restored:
  assumes "books s" "pm_get (targets s) k = Some b"
  shows "0 \<le> tb_restored b \<and> tb_restored b \<le> tb_consumed b"
proof -
  have "0 \<le> restored_at k r \<and> restored_at k r \<le> consumed_at k r" if "pm_get (reservations s) i = Some r" for i r
    unfolding restored_at_def consumed_at_def
    using books_demand [OF assms(1) that]
    by (auto intro!: sum_list_nonneg sum_list_mono charge_nonneg restored_le_consumed simp: demand_ok_def)
  then have "0 \<le> total (restored_at k) (pm_get (reservations s))"
      "total (restored_at k) (pm_get (reservations s)) \<le> total (consumed_at k) (pm_get (reservations s))"
    by (auto intro: total_nonneg total_mono)
  then show ?thesis using books_balance [OF assms] by (metis of_int_0_le_iff of_int_le_iff)
qed

end
