(* ===== verification/Ledger_Budget.thy ===== *)
theory Ledger_Budget
  imports Ledger_Invariant
begin

text \<open>
  Budgets: the available authority of a grant's dimension is never negative, at the time of the last event and at
  any later time. \<open>room\<close> is what a target has to satisfy for that: in a budget restored by epochs the consumption
  recorded is that of an epoch that has begun. Events are those a reader admits: grants with distinct dimensions
  and epochs of positive length, plans with positive amounts.
\<close>

section \<open>Room\<close>

definition begun :: "ledger_dimension \<Rightarrow> int option \<Rightarrow> int \<Rightarrow> bool" where
  "begun d la e \<longleftrightarrow> (\<exists>t i. la = Some t \<and> epochIndex d t = Some i \<and> e \<le> i)"

definition wf_dimension :: "ledger_dimension \<Rightarrow> bool" where
  "wf_dimension d \<longleftrightarrow> 0 \<le> b_atoms (limit d) \<and> (\<forall>w. epoch d = Some w \<longrightarrow> 0 < lengthSeconds w)"

definition room :: "int option \<Rightarrow> target_balance \<Rightarrow> bool" where
  "room la b \<longleftrightarrow> wf_dimension (dimension b) \<and>
     (\<forall>e n. epochConsumed b = Some (e, n) \<longrightarrow> 0 \<le> n \<and> begun (dimension b) la e) \<and>
     (\<forall>t. (\<forall>t0. la = Some t0 \<longrightarrow> t0 \<le> t) \<longrightarrow> 0 \<le> availableOf b t)"

lemma begun_mono:
  assumes "wf_dimension d" "begun d la e" "\<And>t0. la = Some t0 \<Longrightarrow> t0 \<le> t"
  shows "begun d (Some t) e"
proof -
  from assms(2) obtain t0 i where t0: "la = Some t0" "epochIndex d t0 = Some i" "e \<le> i" by (auto simp: begun_def)
  then obtain w where "epoch d = Some w" by (auto simp: epochIndex_def split: option.splits)
  then show ?thesis using epochIndex_mono [OF t0(2) assms(3) [OF t0(1)]] assms(1) t0(3)
    by (auto simp: wf_dimension_def begun_def)
qed

lemma room_later: "room la b \<Longrightarrow> (\<And>t0. la = Some t0 \<Longrightarrow> t0 \<le> t) \<Longrightarrow> room (Some t) b"
  unfolding room_def using begun_mono by (metis order_trans)

lemma begun_index: "wf_dimension d \<Longrightarrow> begun d la e \<Longrightarrow> (\<And>t0. la = Some t0 \<Longrightarrow> t0 \<le> t) \<Longrightarrow> \<exists>i. epochIndex d t = Some i \<and> e \<le> i"
  using begun_mono [of d la e t] by (auto simp: begun_def)

text \<open>Availability does not fall as time goes by.\<close>

lemma available_mono:
  assumes "room la b" "\<And>t0. la = Some t0 \<Longrightarrow> t0 \<le> t" "t \<le> t'"
  shows "availableOf b t \<le> availableOf b t'"
proof (cases "restoration (dimension b) = RestoreEpoch")
  case False
  then show ?thesis by (cases "restoration (dimension b)") (simp_all add: availableOf_def)
next
  case True
  have wf: "wf_dimension (dimension b)" using assms(1) by (simp add: room_def)
  show ?thesis
  proof (cases "epochConsumed b")
    case None
    then show ?thesis using True by (auto simp: availableOf_def split: option.splits)
  next
    case (Some p)
    obtain e n where p: "p = (e, n)" by fastforce
    with assms(1) Some have n: "0 \<le> n" "begun (dimension b) la e" by (auto simp: room_def)
    from begun_index [OF wf n(2) assms(2)] obtain i where i: "epochIndex (dimension b) t = Some i" "e \<le> i" by blast
    then obtain w where w: "epoch (dimension b) = Some w" by (auto simp: epochIndex_def split: option.splits)
    then have "0 < lengthSeconds w" using wf by (simp add: wf_dimension_def)
    from epochIndex_mono [OF i(1) assms(3) w this] obtain i' where i': "epochIndex (dimension b) t' = Some i'" "i \<le> i'" by blast
    then show ?thesis using True Some p i n(1) by (simp add: availableOf_def Let_def)
  qed
qed

section \<open>Operations on a balance\<close>

text \<open>All targets of grants have room; the legs of a demand are charged to epochs that have begun.\<close>

definition rooms :: "int option \<Rightarrow> target_balance pmap \<Rightarrow> bool" where
  "rooms la ts \<longleftrightarrow> (\<forall>i k b. pm_get ts (nodeTargetKey i k) = Some b \<longrightarrow> room la b)"

definition legs_begun :: "int option \<Rightarrow> target_balance pmap \<Rightarrow> demand \<Rightarrow> bool" where
  "legs_begun la ts d \<longleftrightarrow> (\<forall>l \<in> set (dm_legs d). \<forall>i k b e.
     leg_key l = nodeTargetKey i k \<longrightarrow> pm_get ts (leg_key l) = Some b \<longrightarrow> leg_epoch l = Some e \<longrightarrow> begun (dimension b) la e)"

definition same_dimensions :: "target_balance pmap \<Rightarrow> target_balance pmap \<Rightarrow> bool" where
  "same_dimensions ts ts' \<longleftrightarrow> (\<forall>k. map_option dimension (pm_get ts' k) = map_option dimension (pm_get ts k))"

lemma same_dimensions_get:
  "same_dimensions ts ts' \<Longrightarrow> pm_get ts' k = Some b' \<Longrightarrow> \<exists>b. pm_get ts k = Some b \<and> dimension b = dimension b'"
  unfolding same_dimensions_def by (drule spec [of _ k]) (auto simp: map_option_eq_Some dest: sym)

lemma legs_begun_same:
  assumes "same_dimensions ts ts'" "legs_begun la ts d"
  shows "legs_begun la ts' d"
  unfolding legs_begun_def
proof (intro ballI allI impI)
  fix l i k b' e assume l: "l \<in> set (dm_legs d)" "leg_key l = nodeTargetKey i k" "pm_get ts' (leg_key l) = Some b'" "leg_epoch l = Some e"
  from same_dimensions_get [OF assms(1) l(3)] obtain b where b: "pm_get ts (leg_key l) = Some b" "dimension b = dimension b'" by blast
  from assms(2) l(1,2,4) b(1) have "begun (dimension b) la e" unfolding legs_begun_def by blast
  then show "begun (dimension b') la e" by (simp add: b(2))
qed

lemma same_dimensions_trans: "same_dimensions ts ts' \<Longrightarrow> same_dimensions ts' ts'' \<Longrightarrow> same_dimensions ts ts''"
  by (simp add: same_dimensions_def)

locale room_operation =
  fixes upd :: "target_balance \<Rightarrow> int \<Rightarrow> int option \<Rightarrow> target_balance option"
  assumes upd_dimension: "upd b x e = Some b' \<Longrightarrow> dimension b' = dimension b"
    and upd_room: "room la b \<Longrightarrow> 0 \<le> x \<Longrightarrow> (\<And>e'. e = Some e' \<Longrightarrow> begun (dimension b) la e') \<Longrightarrow> upd b x e = Some b' \<Longrightarrow>
      room la b' \<and> dimension b' = dimension b"
begin

lemma forEachLeg_room:
  assumes r: "rooms la ts" and n: "0 \<le> n" and e: "legs_begun la ts d" and f: "forEachLeg ts d n path only upd = Inr ts'"
  shows "rooms la ts' \<and> same_dimensions ts ts'"
  using f unfolding forEachLeg_def
proof (rule rfold_invariant)
  show "rooms la ts \<and> same_dimensions ts ts" using r by (simp add: same_dimensions_def)
next
  fix l ts1 ts2 assume l: "l \<in> set (dm_legs d)" and inv: "rooms la ts1 \<and> same_dimensions ts ts1"
    and step: "leg_update d n path only upd l ts1 = Inr ts2"
  show "rooms la ts2 \<and> same_dimensions ts ts2"
  proof (cases "only (leg_capacity l)")
    case False
    then show ?thesis using inv step by (simp add: leg_update_def)
  next
    case True
    with step obtain x b b' where x: "rescaleExact n (q_decimals (ct_quantity (dm_contribution d))) (leg_decimals l) = Some x"
        and b: "pm_get ts1 (leg_key l) = Some b" "upd b x (leg_epoch l) = Some b'" "ts2 = pm_set ts1 (leg_key l) b'"
      by (auto simp: leg_update_def rbind_eq_Inr)
    have "0 \<le> x" using rescaleExact_nonneg [OF x n] .
    from inv b(1) obtain b0 where b0: "pm_get ts (leg_key l) = Some b0" "dimension b0 = dimension b"
      by (blast dest: same_dimensions_get)
    have "room la b' \<and> dimension b' = dimension b" if "leg_key l = nodeTargetKey i k" for i k
    proof (rule upd_room [OF _ \<open>0 \<le> x\<close> _ b(2)])
      show "room la b" using inv b(1) that by (auto simp: rooms_def)
      show "begun (dimension b) la e'" if "leg_epoch l = Some e'" for e'
        using e l b0 \<open>leg_key l = nodeTargetKey i k\<close> that unfolding legs_begun_def by metis
    qed
    moreover have "dimension b' = dimension b" using upd_dimension [OF b(2)] .
    ultimately show ?thesis
      using inv b0 b(1) unfolding b(3) rooms_def same_dimensions_def by simp metis
  qed
qed

end

lemma room_consume:
  assumes "room la b" "0 \<le> x" "\<And>e'. e = Some e' \<Longrightarrow> begun (dimension b) la e'" "consume_balance b x e = Some b'"
  shows "room la b' \<and> dimension b' = dimension b"
proof -
  from assms(4) have b': "b' = b\<lparr>tb_reserved := tb_reserved b - x, tb_consumed := tb_consumed b + x,
      epochConsumed := consume_epoch (epochConsumed b) x e\<rparr>" by (auto simp: consume_balance_def split: if_splits)
  have wf: "wf_dimension (dimension b)" using assms(1) by (simp add: room_def)
  have ec: "0 \<le> n \<and> begun (dimension b) la e'" if "consume_epoch (epochConsumed b) x e = Some (e', n)" for e' n
    using assms(1,2,3) that unfolding room_def
    by (cases e; cases "epochConsumed b") (auto simp: consume_epoch_def split: if_splits prod.splits)
  have "0 \<le> availableOf b' t" if t: "\<forall>t0. la = Some t0 \<longrightarrow> t0 \<le> t" for t
  proof -
    have old: "0 \<le> availableOf b t" using assms(1) t by (simp add: room_def)
    show ?thesis
    proof (cases "restoration (dimension b) = RestoreEpoch")
      case False
      then show ?thesis using old by (cases "restoration (dimension b)") (simp_all add: b' availableOf_def)
    next
      case True
      have index: "\<exists>i. epochIndex (dimension b) t = Some i \<and> e' \<le> i" if "e = Some e'" for e'
        using begun_index [OF wf assms(3) [OF that]] t by simp
      show ?thesis
        using old True assms(2) index
        by (cases e; cases "epochConsumed b"; cases "epochIndex (dimension b) t")
          (auto simp: b' availableOf_def consume_epoch_def Let_def split: if_splits prod.splits)
    qed
  qed
  then show ?thesis using ec wf unfolding room_def by (simp add: b')
qed

interpretation consume_room: room_operation consume_balance
proof
  show "dimension b' = dimension b" if "consume_balance b x e = Some b'" for b x e b'
    using that by (auto simp: consume_balance_def split: if_splits)
qed (rule room_consume)

lemma room_release:
  assumes "room la b" "0 \<le> x"
  shows "room la (b\<lparr>tb_reserved := tb_reserved b - x\<rparr>)"
proof -
  have "availableOf (b\<lparr>tb_reserved := tb_reserved b - x\<rparr>) t = availableOf b t + x" for t
    by (cases "restoration (dimension b)") (simp_all add: availableOf_def Let_def)
  then show ?thesis using assms unfolding room_def by simp
qed

lemma room_restore:
  assumes "room la b" "0 \<le> x"
  shows "room la (b\<lparr>tb_restored := tb_restored b + x\<rparr>)"
proof -
  have "availableOf b t \<le> availableOf (b\<lparr>tb_restored := tb_restored b + x\<rparr>) t" for t
    using assms(2) by (cases "restoration (dimension b)") (simp_all add: availableOf_def Let_def)
  then have "0 \<le> availableOf b t \<Longrightarrow> 0 \<le> availableOf (b\<lparr>tb_restored := tb_restored b + x\<rparr>) t" for t
    by (rule order_trans [rotated])
  then show ?thesis using assms(1) unfolding room_def by simp
qed

interpretation release_room: room_operation release_balance
  by unfold_locales (auto simp: release_balance_def room_release)

interpretation restore_room: room_operation restore_balance
  by unfold_locales (auto simp: restore_balance_def room_restore)

section \<open>The loop over demands\<close>

lemma each_demand_rooms:
  assumes "each_demand step i ps ts = Inr (ts', ds')" "rooms la ts"
    and "\<And>d n. (d, n) \<in> set ps \<Longrightarrow> good d n \<and> legs_begun la ts d"
    and "\<And>path d n ts ts' d'. rooms la ts \<Longrightarrow> good d n \<Longrightarrow> legs_begun la ts d \<Longrightarrow> step path d n ts = Inr (ts', d') \<Longrightarrow>
      rooms la ts' \<and> same_dimensions ts ts'"
  shows "rooms la ts' \<and> same_dimensions ts ts'"
  using assms(1-3)
proof (induction ps arbitrary: i ts ds')
  case Nil
  then show ?case by (simp add: same_dimensions_def)
next
  case (Cons p ps)
  obtain d n where p: "p = (d, n)" by fastforce
  from Cons.prems(1) obtain ts1 d1 ds1 where step: "step (index_path ''amounts'' i) d n ts = Inr (ts1, d1)"
      and rest: "each_demand step (i + 1) ps ts1 = Inr (ts', ds1)"
    unfolding p by (auto simp: rbind_eq_Inr)
  have "rooms la ts1 \<and> same_dimensions ts ts1"
    using assms(4) [OF Cons.prems(2) _ _ step] Cons.prems(3) [of d n] p by simp
  moreover from this Cons.prems(3) have "\<And>d n. (d, n) \<in> set ps \<Longrightarrow> good d n \<and> legs_begun la ts1 d"
    using legs_begun_same by fastforce
  ultimately show ?case using Cons.IH [OF rest] same_dimensions_trans by blast
qed

lemma consume_demand_rooms:
  "rooms la ts \<Longrightarrow> 0 \<le> n \<Longrightarrow> legs_begun la ts d \<Longrightarrow> consume_demand path d n ts = Inr (ts', d') \<Longrightarrow>
   rooms la ts' \<and> same_dimensions ts ts'"
  using consume_room.forEachLeg_room [of la ts n d path "\<lambda>_. True" ts'] by (auto simp: consume_demand_def rbind_eq_Inr)

lemma close_demand_rooms:
  "rooms la ts \<Longrightarrow> 0 \<le> dm_reserved d - dm_consumed d \<Longrightarrow> legs_begun la ts d \<Longrightarrow> close_demand path d n ts = Inr (ts', d') \<Longrightarrow>
   rooms la ts' \<and> same_dimensions ts ts'"
  using release_room.forEachLeg_room [of la ts "dm_reserved d - dm_consumed d" d path "\<lambda>_. True" ts']
  by (auto simp: close_demand_def Let_def rbind_eq_Inr)

lemma restore_demand_rooms:
  "rooms la ts \<Longrightarrow> 0 \<le> n \<Longrightarrow> legs_begun la ts d \<Longrightarrow> restore_demand path d n ts = Inr (ts', d') \<Longrightarrow>
   rooms la ts' \<and> same_dimensions ts ts'"
  using restore_room.forEachLeg_room [of la ts n d path "\<lambda>c. c" ts'] by (auto simp: restore_demand_def rbind_eq_Inr)

section \<open>The state\<close>

definition wf_grant :: "grant \<Rightarrow> bool" where
  "wf_grant g \<longleftrightarrow> distinct (map dimensionId (grantDimensions g)) \<and> list_all wf_dimension (grantDimensions g)"

definition positive_plan :: "charge_plan \<Rightarrow> bool" where
  "positive_plan p \<longleftrightarrow> list_all (\<lambda>c. 0 < q_atoms (ct_quantity c)) (contributions p)"

fun admissible_event :: "ledger_event \<Rightarrow> bool" where
  "admissible_event (REGISTER_GRANT t g ps bs) = wf_grant g"
| "admissible_event (RESERVE t p lin pol legs) = positive_plan p"
| "admissible_event _ = True"

definition grants_ok :: "ledger_state \<Rightarrow> bool" where
  "grants_ok s \<longleftrightarrow> (\<forall>i n. pm_get (nodes s) i = Some n \<longrightarrow> wf_grant (n_grant n) \<and>
     (\<forall>d \<in> set (grantDimensions (n_grant n)). \<exists>b. pm_get (targets s) (nodeTargetKey i (dimensionId d)) = Some b \<and> dimension b = d))"

definition demands_ok :: "int option \<Rightarrow> ledger_state \<Rightarrow> bool" where
  "demands_ok la s \<longleftrightarrow> (\<forall>i r. pm_get (reservations s) i = Some r \<longrightarrow>
     (\<forall>d \<in> set (demands r). 0 \<le> dm_reserved d \<and> legs_begun la (targets s) d))"

definition budgets_at :: "int option \<Rightarrow> ledger_state \<Rightarrow> bool" where
  "budgets_at la s \<longleftrightarrow> books s \<and> grants_ok s \<and> rooms la (targets s) \<and> demands_ok la s"

lemma legs_begun_later:
  assumes "rooms la ts" "legs_begun la ts d" "\<And>t0. la = Some t0 \<Longrightarrow> t0 \<le> t"
  shows "legs_begun (Some t) ts d"
  unfolding legs_begun_def
proof (intro ballI allI impI)
  fix l i k b e assume l: "l \<in> set (dm_legs d)" "leg_key l = nodeTargetKey i k" "pm_get ts (leg_key l) = Some b" "leg_epoch l = Some e"
  with assms(2) have "begun (dimension b) la e" unfolding legs_begun_def by blast
  moreover have "wf_dimension (dimension b)" using assms(1) l(2,3) by (simp add: rooms_def room_def)
  ultimately show "begun (dimension b) (Some t) e" using begun_mono assms(3) by blast
qed

lemma budgets_later:
  assumes "budgets_at la s" "\<And>t0. la = Some t0 \<Longrightarrow> t0 \<le> t"
  shows "budgets_at (Some t) s"
proof -
  have "rooms (Some t) (targets s)" using assms room_later unfolding budgets_at_def rooms_def by blast
  then show ?thesis using assms legs_begun_later unfolding budgets_at_def demands_ok_def by blast
qed

lemma same_dimensions_get':
  "same_dimensions ts ts' \<Longrightarrow> pm_get ts k = Some b \<Longrightarrow> \<exists>b'. pm_get ts' k = Some b' \<and> dimension b' = dimension b"
  unfolding same_dimensions_def by (drule spec [of _ k]) (auto simp: map_option_eq_Some)

lemma grants_ok_same:
  assumes "grants_ok s" "same_dimensions (targets s) (targets s')" "nodes s' = nodes s"
  shows "grants_ok s'"
  using assms(1) same_dimensions_get' [OF assms(2)] unfolding grants_ok_def assms(3) by fastforce

text \<open>An accounting event: the demands keep what they reserve and their legs.\<close>

lemma budgets_accounting:
  assumes "budgets_at la s" "rooms la (targets s')" "same_dimensions (targets s) (targets s')" "books s'" "nodes s' = nodes s"
    and res: "\<And>i r'. pm_get (reservations s') i = Some r' \<Longrightarrow> \<exists>r. pm_get (reservations s) i = Some r \<and>
      list_all2 (\<lambda>d d'. dm_reserved d' = dm_reserved d \<and> dm_legs d' = dm_legs d) (demands r) (demands r')"
  shows "budgets_at la s'"
proof -
  have "0 \<le> dm_reserved d' \<and> legs_begun la (targets s') d'" if r': "pm_get (reservations s') i = Some r'" "d' \<in> set (demands r')" for i r' d'
  proof -
    from res [OF r'(1)] obtain r where r: "pm_get (reservations s) i = Some r"
        and all: "list_all2 (\<lambda>d d'. dm_reserved d' = dm_reserved d \<and> dm_legs d' = dm_legs d) (demands r) (demands r')" by blast
    from list_all2_set2 [OF all r'(2)] obtain d where "d \<in> set (demands r)"
        "dm_reserved d' = dm_reserved d" "dm_legs d' = dm_legs d" by blast
    note r = r this
    with assms(1) have "0 \<le> dm_reserved d'" "legs_begun la (targets s) d'"
      by (auto simp: budgets_at_def demands_ok_def legs_begun_def)
    then show ?thesis using legs_begun_same [OF assms(3)] by simp
  qed
  then show ?thesis
    using assms grants_ok_same by (auto simp: budgets_at_def demands_ok_def)
qed

lemma list_all2_zip1: "list_all2 P (zip xs ys) zs \<Longrightarrow> length xs = length ys \<Longrightarrow> (\<And>x y z. P (x, y) z \<Longrightarrow> R x z) \<Longrightarrow> list_all2 R xs zs"
  by (auto simp: list_all2_conv_all_nth)

lemma budgets_each:
  assumes bud: "budgets_at la s" and r: "reservationFor s e = Inr r"
    and each: "each_demand step 0 (zip (demands r) (amounts e)) (targets s) = Inr (ts, ds)"
    and good: "\<And>d n. demand_ok d \<Longrightarrow> 0 \<le> dm_reserved d \<Longrightarrow> 0 \<le> n \<Longrightarrow> good d n"
    and keep: "\<And>path d n ts ts' d'. rooms la ts \<Longrightarrow> good d n \<Longrightarrow> legs_begun la ts d \<Longrightarrow> step path d n ts = Inr (ts', d') \<Longrightarrow>
      rooms la ts' \<and> same_dimensions ts ts'"
    and same: "list_all2 (\<lambda>(d, n) d'. Q d n d') (zip (demands r) (amounts e)) ds"
      "\<And>d n d'. Q d n d' \<Longrightarrow> dm_reserved d' = dm_reserved d \<and> dm_legs d' = dm_legs d"
    and s': "targets s' = ts" "nodes s' = nodes s" "reservations s' = pm_set (reservations s) (rs_id r) (r\<lparr>rs_status := st, demands := ds\<rparr>)"
    and books': "books s'"
  shows "budgets_at la s'"
proof -
  from r have get: "pm_get (reservations s) (ae_reservation e) = Some r" and len: "length (demands r) = length (amounts e)"
      and nn: "\<forall>a \<in> set (amounts e). 0 \<le> a" by (auto simp: reservationFor_Inr)
  have id: "rs_id r = ae_reservation e" and bk: "books s" and rm: "rooms la (targets s)"
    using bud get accounts_id by (auto simp: budgets_at_def books_def)
  have "good d n \<and> legs_begun la (targets s) d" if "(d, n) \<in> set (zip (demands r) (amounts e))" for d n
  proof -
    have d: "d \<in> set (demands r)" "n \<in> set (amounts e)" using that by (auto dest: set_zip_leftD set_zip_rightD)
    then show ?thesis using good books_demand [OF bk get d(1)] nn bud get by (auto simp: budgets_at_def demands_ok_def)
  qed
  from each_demand_rooms [OF each rm this keep]
  have ts: "rooms la (targets s') \<and> same_dimensions (targets s) (targets s')" by (simp add: s'(1))
  have "list_all2 (\<lambda>d d'. dm_reserved d' = dm_reserved d \<and> dm_legs d' = dm_legs d) (demands r) ds"
    using same(1) len by (rule list_all2_zip1) (auto dest: same(2))
  moreover have "list_all2 (\<lambda>d d'. dm_reserved d' = dm_reserved d \<and> dm_legs d' = dm_legs d) xs xs" for xs
    by (simp add: list_all2_same)
  ultimately have "\<exists>q. pm_get (reservations s) i = Some q \<and>
      list_all2 (\<lambda>d d'. dm_reserved d' = dm_reserved d \<and> dm_legs d' = dm_legs d) (demands q) (demands q')"
    if "pm_get (reservations s') i = Some q'" for i q'
    using that get by (cases "i = rs_id r") (auto simp: s'(3) id)
  then show ?thesis
    using budgets_accounting [OF bud _ _ books' s'(2)] ts by blast
qed

lemma applyConsume_budgets:
  assumes bud: "budgets_at la s" and ap: "applyConsume s e = Inr s'" and bk: "books s'"
  shows "budgets_at la s'"
proof -
  from ap obtain r ts ds where r: "reservationFor s e = Inr r"
      and each: "each_demand consume_demand 0 (zip (demands r) (amounts e)) (targets s) = Inr (ts, ds)"
      and s': "targets s' = ts" "nodes s' = nodes s"
        "reservations s' = pm_set (reservations s) (rs_id r) (r\<lparr>demands := ds\<rparr>)"
    by (auto simp: applyConsume_def rbind_eq_Inr set_reservation_def)
  note la = conjunct2 [OF each_demand_moved [OF each consume_demand_moved]]
  show ?thesis
    by (rule budgets_each [OF bud r each _ _ la, where good = "\<lambda>d n. 0 \<le> n" and st = "rs_status r"])
      (auto simp: s' bk dest: consume_demand_rooms)
qed

lemma applyRestore_budgets:
  assumes bud: "budgets_at la s" and ap: "applyRestore s e = Inr s'" and bk: "books s'"
  shows "budgets_at la s'"
proof -
  from ap obtain r ts ds where r: "reservationFor s e = Inr r"
      and each: "each_demand restore_demand 0 (zip (demands r) (amounts e)) (targets s) = Inr (ts, ds)"
      and s': "targets s' = ts" "nodes s' = nodes s"
        "reservations s' = pm_set (reservations s) (rs_id r) (r\<lparr>demands := ds\<rparr>)"
    by (auto simp: applyRestore_def rbind_eq_Inr set_reservation_def)
  note la = conjunct2 [OF each_demand_moved [OF each restore_demand_moved]]
  show ?thesis
    by (rule budgets_each [OF bud r each _ _ la, where good = "\<lambda>d n. 0 \<le> n" and st = "rs_status r"])
      (auto simp: s' bk dest: restore_demand_rooms)
qed

lemma applyClose_budgets:
  assumes bud: "budgets_at la s" and ap: "applyClose s e = Inr s'" and bk: "books s'"
  shows "budgets_at la s'"
proof -
  from ap obtain r ts ds where r: "reservationFor s e = Inr r"
      and each: "each_demand close_demand 0 (zip (demands r) (amounts e)) (targets s) = Inr (ts, ds)"
      and s': "targets s' = ts" "nodes s' = nodes s"
        "reservations s' = pm_set (reservations s) (rs_id r) (r\<lparr>rs_status := IsClosed, demands := ds\<rparr>)"
    by (auto simp: applyClose_def rbind_eq_Inr set_reservation_def)
  note la = conjunct2 [OF each_demand_moved [OF each close_demand_moved]]
  show ?thesis
    by (rule budgets_each [OF bud r each _ _ la, where good = "\<lambda>d n. 0 \<le> dm_reserved d - dm_consumed d" and st = IsClosed])
      (auto simp: s' bk demand_ok_def dest: close_demand_rooms)
qed

section \<open>Registrations\<close>

definition same_node_targets :: "target_balance pmap \<Rightarrow> target_balance pmap \<Rightarrow> bool" where
  "same_node_targets ts ts' \<longleftrightarrow> (\<forall>i k. pm_get ts' (nodeTargetKey i k) = pm_get ts (nodeTargetKey i k))"

lemma budgets_same:
  assumes "budgets_at la s" "same_node_targets (targets s) (targets s')" "books s'" "reservations s' = reservations s"
    and "\<And>i n'. pm_get (nodes s') i = Some n' \<Longrightarrow> \<exists>n. pm_get (nodes s) i = Some n \<and> n_grant n' = n_grant n"
  shows "budgets_at la s'"
proof -
  have same: "pm_get (targets s') (nodeTargetKey i k) = pm_get (targets s) (nodeTargetKey i k)" for i k
    using assms(2) by (simp add: same_node_targets_def)
  have "grants_ok s'"
    unfolding grants_ok_def same
  proof (intro allI impI)
    fix i n' assume "pm_get (nodes s') i = Some n'"
    from assms(5) [OF this] obtain n where "pm_get (nodes s) i = Some n" "n_grant n' = n_grant n" by blast
    then show "wf_grant (n_grant n') \<and> (\<forall>d \<in> set (grantDimensions (n_grant n')).
        \<exists>b. pm_get (targets s) (nodeTargetKey i (dimensionId d)) = Some b \<and> dimension b = d)"
      using assms(1) by (simp add: budgets_at_def grants_ok_def)
  qed
  moreover have "legs_begun la (targets s') d \<longleftrightarrow> legs_begun la (targets s) d" for d
    unfolding legs_begun_def by (metis same)
  moreover have "rooms la (targets s') \<longleftrightarrow> rooms la (targets s)" by (simp add: rooms_def same)
  ultimately show ?thesis using assms(1,3,4) by (simp add: budgets_at_def demands_ok_def)
qed

lemma same_node_targets_fold:
  assumes "rfold f ds ts = Inr ts'" "\<And>d ts ts'. f d ts = Inr ts' \<Longrightarrow> \<exists>x b. ts' = pm_set ts (policyTargetKey x) b"
  shows "same_node_targets ts ts'"
  using assms(1)
proof (rule rfold_invariant)
  fix d ts1 ts2 assume "f d ts1 = Inr ts2" "same_node_targets ts ts1"
  with assms(2) [of d ts1 ts2] show "same_node_targets ts ts2" by (auto simp: same_node_targets_def)
qed (simp add: same_node_targets_def)

lemma applyRegisterPolicy_same:
  assumes "applyRegisterPolicy keccak order_fn s pol proofs bindings v = Inr s'"
  shows "same_node_targets (targets s) (targets s')"
proof -
  from assms(1) obtain ts i where fold: "rfold (retire_dimension keccak) (policyDimsOf s) (targets s) = Inr ts"
      "rfold (install_dimension keccak i) (policyDimensions pol) ts = Inr (targets s')"
    by (auto simp: applyRegisterPolicy_def rbind_eq_Inr)
  have "same_node_targets (targets s) ts"
    by (rule same_node_targets_fold [OF fold(1)]) (auto simp: retire_dimension_def rbind_eq_Inr dest!: policy_key_Inr)
  moreover have "same_node_targets ts (targets s')"
    by (rule same_node_targets_fold [OF fold(2)]) (auto simp: install_dimension_def rbind_eq_Inr Let_def dest!: policy_key_Inr)
  ultimately show ?thesis by (simp add: same_node_targets_def)
qed

lemma find_False [simp]: "find (\<lambda>_. False) xs = None"
  by (induction xs) auto

lemma find_dimension:
  assumes "distinct (map dimensionId ds)" "d \<in> set ds"
  shows "find (\<lambda>x. nodeTargetKey i (dimensionId d) = nodeTargetKey i (dimensionId x)) (rev ds) = Some d"
proof -
  have "find (\<lambda>x. nodeTargetKey i (dimensionId d) = nodeTargetKey i (dimensionId x)) (rev ds) \<noteq> None"
    using assms(2) by (auto simp: find_None_iff)
  then obtain x where x: "find (\<lambda>x. nodeTargetKey i (dimensionId d) = nodeTargetKey i (dimensionId x)) (rev ds) = Some x" by blast
  from find_Some_set [OF this] have "x \<in> set ds" "dimensionId d = dimensionId x" by auto
  then have "x = d" using assms by (auto simp: distinct_map inj_on_def)
  then show ?thesis using x by simp
qed

lemma room_zero: "wf_dimension d \<Longrightarrow> room la (zeroBalance ref src d)"
proof -
  assume wf: "wf_dimension d"
  have "availableOf (zeroBalance ref src d) t = b_atoms (limit d)" for t
    by (cases "restoration d") (simp_all add: availableOf_def zeroBalance_def Let_def split: option.split)
  then show ?thesis using wf by (simp add: room_def) (simp add: zeroBalance_def wf_dimension_def)
qed

lemma applyRegisterGrant_budgets:
  assumes bud: "budgets_at la s" and wf: "wf_grant g" and ap: "applyRegisterGrant keccak order_fn s g proofs bindings t v = Inr s'"
    and bk: "books s'"
  shows "budgets_at la s'"
proof -
  from applyRegisterGrant_nodes [OF ap] obtain i n where new: "pm_get (nodes s) i = None" and n: "n_grant n = g"
      and ns: "nodes s' = pm_set (nodes s) i n"
      and ts: "targets s' = fold (install_node_dimension i) (grantDimensions g) (targets s)"
      and s': "s' = s\<lparr>nodes := nodes s', targets := targets s'\<rparr>" by blast
  have rs: "reservations s' = reservations s" by (subst s') simp
  have bk0: "books s" using bud by (simp add: budgets_at_def)
  have fresh: "pm_get (targets s) (nodeTargetKey i k) = None" for k
    using bk0 new by (auto simp: books_def rooted_def)
  have get: "pm_get (targets s') (nodeTargetKey j k) = (if j = i then
      map_option (\<lambda>d. zeroBalance (NODE i (dimensionId d)) GrantSource d)
        (find (\<lambda>d. nodeTargetKey i k = nodeTargetKey i (dimensionId d)) (rev (grantDimensions g)))
      else pm_get (targets s) (nodeTargetKey j k))" for j k
    by (cases "j = i") (auto simp: ts install_nodes fresh split: option.split)
  have "rooms la (targets s')"
    unfolding rooms_def get
  proof (intro allI impI)
    fix j k b assume b: "(if j = i then map_option (\<lambda>d. zeroBalance (NODE i (dimensionId d)) GrantSource d)
        (find (\<lambda>d. nodeTargetKey i k = nodeTargetKey i (dimensionId d)) (rev (grantDimensions g)))
      else pm_get (targets s) (nodeTargetKey j k)) = Some b"
    show "room la b"
    proof (cases "j = i")
      case True
      with b obtain d where "d \<in> set (grantDimensions g)" "b = zeroBalance (NODE i (dimensionId d)) GrantSource d"
        by (auto dest!: find_Some_set)
      then show ?thesis using wf room_zero by (auto simp: wf_grant_def list_all_iff)
    next
      case False
      then show ?thesis using b bud by (auto simp: budgets_at_def rooms_def)
    qed
  qed
  moreover have "grants_ok s'"
    unfolding grants_ok_def get ns
  proof (intro allI impI)
    fix j m assume m: "pm_get (pm_set (nodes s) i n) j = Some m"
    have "wf_grant (n_grant m) \<and> (\<forall>d \<in> set (grantDimensions (n_grant m)).
        \<exists>b. pm_get (targets s) (nodeTargetKey j (dimensionId d)) = Some b \<and> dimension b = d)" if "j \<noteq> i"
      using m that bud by (auto simp: budgets_at_def grants_ok_def)
    moreover have "wf_grant (n_grant m) \<and> (\<forall>d \<in> set (grantDimensions (n_grant m)).
        find (\<lambda>x. nodeTargetKey i (dimensionId d) = nodeTargetKey i (dimensionId x)) (rev (grantDimensions g)) = Some d)" if "j = i"
      using m that wf n find_dimension [of "grantDimensions g"] by (auto simp: wf_grant_def)
    ultimately show "wf_grant (n_grant m) \<and> (\<forall>d \<in> set (grantDimensions (n_grant m)). \<exists>b. (if j = i then
        map_option (\<lambda>d. zeroBalance (NODE i (dimensionId d)) GrantSource d)
          (find (\<lambda>da. nodeTargetKey i (dimensionId d) = nodeTargetKey i (dimensionId da)) (rev (grantDimensions g)))
        else pm_get (targets s) (nodeTargetKey j (dimensionId d))) = Some b \<and> dimension b = d)"
      by (cases "j = i") (auto simp: zeroBalance_def)
  qed
  moreover have "demands_ok la s'"
    unfolding demands_ok_def rs
  proof (intro allI impI ballI conjI)
    fix j r d assume r: "pm_get (reservations s) j = Some r" and d: "d \<in> set (demands r)"
    then show "0 \<le> dm_reserved d" using bud by (auto simp: budgets_at_def demands_ok_def)
    show "legs_begun la (targets s') d"
      unfolding legs_begun_def
    proof (intro ballI allI impI)
      fix l m k b e assume l: "l \<in> set (dm_legs d)" "leg_key l = nodeTargetKey m k" "pm_get (targets s') (leg_key l) = Some b" "leg_epoch l = Some e"
      have "pm_get (targets s) (leg_key l) \<noteq> None"
        using bk0 r d l(1) by (auto simp: books_def accounts_def reservation_ok_def)
      then have "m \<noteq> i" using fresh l(2) by auto
      then have "pm_get (targets s) (leg_key l) = Some b" using l(2,3) by (simp add: get)
      then show "begun (dimension b) la e"
        using bud r d l unfolding budgets_at_def demands_ok_def legs_begun_def by blast
    qed
  qed
  ultimately show ?thesis using bk by (simp add: budgets_at_def)
qed

section \<open>Reservations\<close>

lemma first_by_key_keys: "l \<in> set ls \<Longrightarrow> key l \<in> seen \<or> (\<exists>l' \<in> set (first_by_key key seen ls). key l' = key l)"
  by (induction key seen ls rule: first_by_key.induct) auto

lemma check_targets_room:
  "rfold (check_target s t path dem) ls fs = Inr [] \<Longrightarrow> fs = [] \<and> (\<forall>l \<in> set ls. \<exists>b. pm_get (targets s) (ld_key l) = Some b \<and>
     the (map_of dem (ld_key l)) \<le> availableOf b t)"
proof (induction ls arbitrary: fs)
  case (Cons l ls)
  then obtain fs1 where fs1: "check_target s t path dem l fs = Inr fs1" "rfold (check_target s t path dem) ls fs1 = Inr []"
    by (auto simp: rbind_eq_Inr)
  from Cons.IH [OF fs1(2)] fs1(1) show ?case
    by (auto simp: check_target_def rbind_eq_Inr Let_def not_less split: if_splits)
qed simp

lemma checkAvailability_room:
  assumes "checkAvailability s legs t path = Inr dem" "l \<in> set (concat legs)"
  shows "\<exists>b. pm_get (targets s) (ld_key l) = Some b \<and> asked (concat legs) (ld_key l) \<le> availableOf b t"
proof -
  from assms(1) have "rfold (check_target s t path (demand_of (concat legs))) (first_by_key ld_key {} (concat legs)) [] = Inr []"
    by (auto simp: checkAvailability_def rbind_eq_Inr Let_def split: if_splits)
  note room = check_targets_room [OF this]
  from first_by_key_keys [OF assms(2), of ld_key "{}"] obtain l' where l': "l' \<in> set (first_by_key ld_key {} (concat legs))" "ld_key l' = ld_key l"
    by blast
  have "ld_key l \<in> ld_key ` set (concat legs)" using assms(2) by blast
  then have "the (map_of (demand_of (concat legs)) (ld_key l)) = asked (concat legs) (ld_key l)"
    by (simp only: demand_of_asked if_True option.sel)
  then show ?thesis using room l' by metis
qed

lemma resolve_from_nodes: "resolve_from k s i path leaf = Inr lin \<Longrightarrow> n \<in> set lin \<Longrightarrow> \<exists>j. pm_get (nodes s) j = Some n"
  by (induction k s i path leaf arbitrary: lin rule: resolve_from.induct)
    (auto simp: rbind_eq_Inr refuse_def split: option.splits grant_lineage.splits)

lemma asked_nonneg: "(\<And>l. l \<in> set ls \<Longrightarrow> 0 \<le> ld_amount l) \<Longrightarrow> 0 \<le> asked ls k"
  unfolding asked_def by (intro sum_list_nonneg) auto

lemma room_reserve:
  assumes "room la b" "la = Some t" "a \<le> availableOf b t"
  shows "room la (b\<lparr>tb_reserved := tb_reserved b + a\<rparr>)"
proof -
  have "availableOf (b\<lparr>tb_reserved := tb_reserved b + a\<rparr>) t' = availableOf b t' - a" for t'
    by (cases "restoration (dimension b)") (simp_all add: availableOf_def Let_def)
  moreover have "availableOf b t \<le> availableOf b t'" if "t \<le> t'" for t'
    using available_mono [OF assms(1) _ that] assms(2) by simp
  ultimately show ?thesis using assms unfolding room_def by (auto intro: order_trans)
qed

lemma reserve_targets_get:
  "rfold reserve_target m ts = Inr ts' \<Longrightarrow> distinct (map fst m) \<Longrightarrow>
   pm_get ts' k = map_option (\<lambda>b. case map_of m k of None \<Rightarrow> b | Some n \<Rightarrow> b\<lparr>tb_reserved := tb_reserved b + n\<rparr>) (pm_get ts k)"
proof (induction m arbitrary: ts)
  case (Cons p m)
  then obtain ts1 where ts1: "reserve_target p ts = Inr ts1" "rfold reserve_target m ts1 = Inr ts'"
    by (auto simp: rbind_eq_Inr)
  have "map_of m (fst p) = None" using Cons.prems(2) by (simp add: map_of_eq_None_iff)
  then show ?case
    using Cons.IH [OF ts1(2)] Cons.prems(2) ts1(1)
    by (cases p) (auto simp: reserve_target_def rbind_eq_Inr)
qed (simp add: option.map_ident)

lemma applyReserve_budgets:
  assumes bud: "budgets_at (Some t) s" and pos: "positive_plan plan"
    and ap: "applyReserve keccak s t plan lin pol legs v = Inr s'" and bk: "books s'"
  shows "budgets_at (Some t) s'"
proof -
  from applyReserve_effect [OF ap] obtain d dem r where d: "deriveReservation keccak s plan t = Inr d"
      and avail: "checkAvailability s (dr_legs d) t ''plan'' = Inr dem"
      and fold: "rfold reserve_target dem (targets s) = Inr (targets s')"
      and r: "rs_id r = dr_reservation d" "demands r = map2 demand_record (contributions plan) (dr_legs d)"
      and s': "s' = s\<lparr>everReserved := True, targets := targets s', reservations := pm_set (reservations s) (rs_id r) r,
       actions := pm_set (actions s) (cpl_action plan)
         \<lparr>lastGeneration = cpl_generation plan, open_reservation = Some (rs_id r)\<rparr>\<rparr>" by blast
  note facts = deriveReservation_facts [OF d]
  have ns: "nodes s' = nodes s" and rs: "reservations s' = pm_set (reservations s) (rs_id r) r" by (subst s', simp)+
  have dem: "dem = demand_of (concat (dr_legs d))"
    using avail by (auto simp: checkAvailability_def rbind_eq_Inr Let_def split: if_splits)
  have get: "pm_get (targets s') k = map_option (\<lambda>b. if k \<in> ld_key ` set (concat (dr_legs d))
      then b\<lparr>tb_reserved := tb_reserved b + asked (concat (dr_legs d)) k\<rparr> else b) (pm_get (targets s) k)" for k
    using reserve_targets_get [OF fold, of k] by (simp add: dem demand_of_distinct demand_of_asked del: set_concat)
  have same: "same_dimensions (targets s) (targets s')"
    by (auto simp: same_dimensions_def get option.map_comp comp_def intro!: option.map_cong)
  have "rooms (Some t) (targets s')"
    unfolding rooms_def
  proof (intro allI impI)
    fix i k b' assume "pm_get (targets s') (nodeTargetKey i k) = Some b'"
    then obtain b where b: "pm_get (targets s) (nodeTargetKey i k) = Some b"
        "b' = (if nodeTargetKey i k \<in> ld_key ` set (concat (dr_legs d))
          then b\<lparr>tb_reserved := tb_reserved b + asked (concat (dr_legs d)) (nodeTargetKey i k)\<rparr> else b)"
      by (auto simp: get simp del: set_concat)
    have rm: "room (Some t) b" using bud b(1) by (auto simp: budgets_at_def rooms_def)
    show "room (Some t) b'"
    proof (cases "nodeTargetKey i k \<in> ld_key ` set (concat (dr_legs d))")
      case True
      then have "asked (concat (dr_legs d)) (nodeTargetKey i k) \<le> availableOf b t"
        using checkAvailability_room [OF avail] b(1) by fastforce
      then show ?thesis using room_reserve [OF rm refl] True by (simp add: b(2) del: set_concat)
    next
      case False
      then show ?thesis using rm by (simp add: b(2) del: set_concat)
    qed
  qed
  moreover have "demands_ok (Some t) s'"
    unfolding demands_ok_def rs
  proof (intro allI impI ballI)
    fix i q x assume q: "pm_get (pm_set (reservations s) (rs_id r) r) i = Some q" and x: "x \<in> set (demands q)"
    show "0 \<le> dm_reserved x \<and> legs_begun (Some t) (targets s') x"
    proof (cases "i = rs_id r")
      case False
      then have "0 \<le> dm_reserved x \<and> legs_begun (Some t) (targets s) x"
        using q x bud by (auto simp: budgets_at_def demands_ok_def)
      then show ?thesis using legs_begun_same [OF same] by blast
    next
      case True
      with q x r obtain c ls where cl: "(c, ls) \<in> set (zip (contributions plan) (dr_legs d))" "x = demand_record c ls" by auto
      then have legs: "\<forall>l \<in> set ls. leg_of c t l \<and> leg_source (dr_lineage d) l" and c: "c \<in> set (contributions plan)"
        using facts(6) by (auto simp: list_all2_iff dest: set_zip_leftD)
      have "legs_begun (Some t) (targets s) x"
        unfolding legs_begun_def
      proof (intro ballI allI impI)
        fix lr i' k b e assume lr: "lr \<in> set (dm_legs x)" "leg_key lr = nodeTargetKey i' k" "pm_get (targets s) (leg_key lr) = Some b"
          "leg_epoch lr = Some e"
        from lr(1) cl(2) obtain l where l: "l \<in> set ls" "lr = legRecordOf l" by auto
        from legs l(1) have leg: "leg_of c t l" "leg_source (dr_lineage d) l" by auto
        from leg(2) l(2) lr(2) obtain n where n: "n \<in> set (dr_lineage d)" "ld_dimension l \<in> set (grantDimensions (n_grant n))"
            "ld_key l = nodeTargetKey (n_id n) (dimensionId (ld_dimension l))"
          by (auto simp: leg_source_def legRecordOf_def)
        from resolve_from_nodes [OF facts(3) [unfolded resolveLineage_def] n(1)] obtain j where "pm_get (nodes s) j = Some n" by blast
        moreover from this bud have "n_id n = j" by (auto simp: budgets_at_def books_def rooted_def)
        ultimately obtain b' where "pm_get (targets s) (ld_key l) = Some b'" "dimension b' = ld_dimension l"
          using bud n(2,3) unfolding budgets_at_def grants_ok_def by metis
        then have "dimension b = ld_dimension l" using lr(3) l(2) by (simp add: legRecordOf_def)
        then show "begun (dimension b) (Some t) e"
          using leg(1) lr(4) l(2) by (auto simp: leg_of_def begun_def legRecordOf_def split: if_splits)
      qed
      moreover have "0 \<le> dm_reserved x" using pos c by (auto simp: cl(2) positive_plan_def list_all_iff)
      ultimately show ?thesis using legs_begun_same [OF same] by blast
    qed
  qed
  moreover have "grants_ok s'" using grants_ok_same [OF _ same ns] bud by (simp add: budgets_at_def)
  ultimately show ?thesis using bk by (simp add: budgets_at_def)
qed

section \<open>Every event\<close>

lemma apply_body_budgets:
  assumes bud: "budgets_at (Some (event_at e)) s" and ok: "admissible_event e" and ap: "apply_body keccak order_fn s e v = Inr s'"
  shows "budgets_at (Some (event_at e)) s'"
proof -
  have bk: "books s'" using bud ap by (auto simp: budgets_at_def books_def intro: apply_body_accounts apply_body_rooted)
  show ?thesis
  proof (cases e)
    case (REGISTER_POLICY t p ps bs)
    with ap have reg: "applyRegisterPolicy keccak order_fn s p ps bs v = Inr s'" by simp
    show ?thesis
      using budgets_same [OF bud applyRegisterPolicy_same [OF reg] bk] applyRegisterPolicy_grown [OF reg] by simp
  next
    case (REGISTER_GRANT t g ps bs)
    then show ?thesis using applyRegisterGrant_budgets [OF bud _ _ bk] ok ap by simp
  next
    case (REVOKE t r)
    with ap have "applyRevoke keccak s r t v = Inr s'" by simp
    from applyRevoke_nodes [OF this] obtain n i where n: "pm_get (nodes s) (rv_target r) = Some n" "s' = s\<lparr>nodes := nodes s'\<rparr>"
        "nodes s' = pm_set (nodes s) (n_id n) (n\<lparr>revokedAt := Some v, n_revocation := Some i\<rparr>)" by blast
    have "n_id n = rv_target r" using bud n(1) by (simp add: budgets_at_def books_def rooted_def)
    then have "\<exists>m. pm_get (nodes s) j = Some m \<and> n_grant m' = n_grant m" if "pm_get (nodes s') j = Some m'" for j m'
      using that n(1) by (auto simp: n(3) split: if_splits)
    moreover have "targets s' = targets s" "reservations s' = reservations s" by (subst n(2), simp)+
    ultimately show ?thesis using budgets_same [OF bud _ bk] by (simp add: same_node_targets_def)
  next
    case (RESERVE t p lin pol legs)
    then show ?thesis using applyReserve_budgets [OF _ _ _ bk] bud ok ap by simp
  next
    case (CONSUME t a)
    then show ?thesis using applyConsume_budgets [OF bud _ bk] ap by simp
  next
    case (CLOSE t a)
    then show ?thesis using applyClose_budgets [OF bud _ bk] ap by simp
  next
    case (RESTORE t a)
    then show ?thesis using applyRestore_budgets [OF bud _ bk] ap by simp
  next
    case (ADMIT_ATTEMPT t a)
    then show ?thesis using applyAdmit_same [of keccak s a t v s'] bud ap bk
      by (simp add: budgets_at_def grants_ok_def demands_ok_def)
  qed
qed

lemma budgets_cong:
  "targets s' = targets s \<Longrightarrow> reservations s' = reservations s \<Longrightarrow> nodes s' = nodes s \<Longrightarrow> budgets_at la s' = budgets_at la s"
  by (simp add: budgets_at_def books_def grants_ok_def demands_ok_def accounts_cong [of s' s] rooted_cong [of s' s])

definition budgets :: "ledger_state \<Rightarrow> bool" where
  "budgets s \<longleftrightarrow> budgets_at (lastAt s) s"

interpretation budget: ledger_invariant keccak order_fn admissible_event budgets for keccak order_fn
proof
  fix p h show "budgets (empty_state p h)"
    using conservation.genesis [of p h]
    by (simp add: budgets_def budgets_at_def grants_ok_def demands_ok_def rooms_def empty_state_def)
next
  fix s e v s' assume bud: "budgets s" and ok: "admissible_event e" and late: "\<And>t. lastAt s = Some t \<Longrightarrow> t \<le> event_at e"
    and ap: "apply_body keccak order_fn s e v = Inr s'"
  from bud late have "budgets_at (Some (event_at e)) s" by (auto simp: budgets_def intro: budgets_later)
  from apply_body_budgets [OF this ok ap]
  show "budgets (s'\<lparr>lastAt := Some (event_at e)\<rparr>)"
    by (simp add: budgets_def budgets_cong [of "s'\<lparr>lastAt := Some (event_at e)\<rparr>" s'])
next
  fix s v h assume "budgets s"
  then show "budgets (s\<lparr>version := v, head := h\<rparr>)"
    by (simp add: budgets_def budgets_cong [of "s\<lparr>version := v, head := h\<rparr>" s])
qed

text \<open>What holds of a grant's balance: nothing is overspent, and what is reserved is not negative.\<close>

lemma budgets_reserved:
  assumes "budgets s" "pm_get (targets s) k = Some b"
  shows "0 \<le> tb_reserved b"
proof -
  have bk: "books s" and dm: "demands_ok (lastAt s) s" using assms(1) by (simp_all add: budgets_def budgets_at_def)
  have "0 \<le> reserved_at k r" if r: "pm_get (reservations s) i = Some r" for i r
  proof -
    have "0 \<le> open_charge k (rs_status r) d" if d: "d \<in> set (demands r)" for d
      using books_demand [OF bk r d] dm r d
      by (auto simp: open_charge_def demand_ok_def demands_ok_def intro!: charge_nonneg)
    then show ?thesis by (auto simp: reserved_at_def intro!: sum_list_nonneg)
  qed
  then have "0 \<le> total (reserved_at k) (pm_get (reservations s))" by (auto intro: total_nonneg)
  then show ?thesis using books_balance(1) [OF bk assms(2)] by (metis of_int_0_le_iff)
qed

lemma budgets_available:
  assumes "budgets s" "pm_get (targets s) (nodeTargetKey i x) = Some b" "\<And>t0. lastAt s = Some t0 \<Longrightarrow> t0 \<le> t"
  shows "0 \<le> availableOf b t"
  using assms by (auto simp: budgets_def budgets_at_def rooms_def room_def)

end
