(* ===== verification/Ledger_Lifecycle.thy ===== *)
theory Ledger_Lifecycle
  imports Ledger_Budget
begin

text \<open>
  The life of actions, reservations and attempts: an action has one open reservation at most, and its
  reservations are the generations one to the last, each once; a reservation has one attempt at most, and no
  two attempts share an artifact or a venue slot.
\<close>

section \<open>Actions and reservations\<close>

definition reservation_of :: "ledger_state \<Rightarrow> string \<Rightarrow> int \<Rightarrow> string \<Rightarrow> bool" where
  "reservation_of s a g i \<longleftrightarrow> (\<exists>r. pm_get (reservations s) i = Some r \<and> rs_action r = a \<and> rs_generation r = g)"

definition generations_ok :: "ledger_state \<Rightarrow> bool" where
  "generations_ok s \<longleftrightarrow>
     (\<forall>i r. pm_get (reservations s) i = Some r \<longrightarrow> rs_id r = i \<and> (\<exists>a. pm_get (actions s) (rs_action r) = Some a \<and>
        1 \<le> rs_generation r \<and> rs_generation r \<le> lastGeneration a \<and>
        (rs_status r = IsActive \<longleftrightarrow> open_reservation a = Some i))) \<and>
     (\<forall>a x i. pm_get (actions s) a = Some x \<longrightarrow> open_reservation x = Some i \<longrightarrow> reservation_of s a (lastGeneration x) i) \<and>
     (\<forall>a x g. pm_get (actions s) a = Some x \<longrightarrow> 1 \<le> g \<longrightarrow> g \<le> lastGeneration x \<longrightarrow> (\<exists>!i. reservation_of s a g i)) \<and>
     (\<forall>a x. pm_get (actions s) a = Some x \<longrightarrow> 1 \<le> lastGeneration x)"

lemma generations_reservation:
  "generations_ok s \<Longrightarrow> pm_get (reservations s) i = Some r \<Longrightarrow> rs_id r = i \<and> (\<exists>a. pm_get (actions s) (rs_action r) = Some a \<and>
     1 \<le> rs_generation r \<and> rs_generation r \<le> lastGeneration a \<and> (rs_status r = IsActive \<longleftrightarrow> open_reservation a = Some i))"
  by (simp add: generations_ok_def)

lemma generations_last: "generations_ok s \<Longrightarrow> pm_get (actions s) a = Some x \<Longrightarrow> 1 \<le> lastGeneration x"
  by (simp add: generations_ok_def)

lemma generations_unique:
  "generations_ok s \<Longrightarrow> pm_get (actions s) a = Some x \<Longrightarrow> 1 \<le> g \<Longrightarrow> g \<le> lastGeneration x \<Longrightarrow> \<exists>!i. reservation_of s a g i"
  by (simp add: generations_ok_def)

text \<open>A change of one reservation that keeps its id, action and generation.\<close>

lemma reservation_of_set:
  assumes "pm_get (reservations s) i = Some r" "reservations s' = pm_set (reservations s) i r'"
    "rs_action r' = rs_action r" "rs_generation r' = rs_generation r"
  shows "reservation_of s' = reservation_of s"
  using assms by (intro ext) (auto simp: reservation_of_def)

lemma generations_keep:
  assumes "generations_ok s" "pm_get (reservations s) i = Some r" "reservations s' = pm_set (reservations s) i r'"
    "rs_action r' = rs_action r" "rs_generation r' = rs_generation r" "rs_id r' = rs_id r" "rs_status r' = rs_status r"
    "actions s' = actions s"
  shows "generations_ok s'"
  using assms(1) unfolding generations_ok_def reservation_of_set [OF assms(2-5)] assms(8)
  using assms(2-7) by (auto split: if_splits)

lemma generations_same:
  "generations_ok s \<Longrightarrow> reservations s' = reservations s \<Longrightarrow> actions s' = actions s \<Longrightarrow> generations_ok s'"
  by (simp add: generations_ok_def reservation_of_def)

text \<open>Closing a reservation closes its action.\<close>

lemma generations_close:
  assumes ok: "generations_ok s" and i: "pm_get (reservations s) i = Some r" and act: "rs_status r = IsActive"
    and rs: "reservations s' = pm_set (reservations s) i r'" "rs_action r' = rs_action r"
      "rs_generation r' = rs_generation r" "rs_id r' = rs_id r" "rs_status r' = IsClosed"
    and a: "pm_get (actions s) (rs_action r) = Some a" "actions s' = pm_set (actions s) (rs_action r) (a\<lparr>open_reservation := None\<rparr>)"
  shows "generations_ok s'"
proof -
  have other: "rs_status q \<noteq> IsActive" if "pm_get (reservations s) j = Some q" "rs_action q = rs_action r" "j \<noteq> i" for j q
    using ok i act that a(1) unfolding generations_ok_def by (metis option.inject)
  show ?thesis
    using ok unfolding generations_ok_def reservation_of_set [OF i rs(1-3)] rs(1) a(2)
  proof (intro conjI, goal_cases)
    case 1
    show ?case
    proof (intro allI impI)
      fix j q assume q: "pm_get (pm_set (reservations s) i r') j = Some q"
      show "rs_id q = j \<and> (\<exists>x. pm_get (pm_set (actions s) (rs_action r) (a\<lparr>open_reservation := None\<rparr>)) (rs_action q) = Some x \<and>
        1 \<le> rs_generation q \<and> rs_generation q \<le> lastGeneration x \<and> (rs_status q = IsActive \<longleftrightarrow> open_reservation x = Some j))"
      proof (cases "j = i")
        case True
        then show ?thesis using q generations_reservation [OF ok i] rs a(1) by auto
      next
        case False
        then have q': "pm_get (reservations s) j = Some q" using q by simp
        show ?thesis using generations_reservation [OF ok q'] other [OF q' _ False] a(1) by (cases "rs_action q = rs_action r") auto
      qed
    qed
  next
    case 2
    then show ?case by (auto split: if_splits)
  next
    case 3
    then show ?case using a(1) by (auto split: if_splits)
  next
    case 4
    then show ?case using a(1) by (auto split: if_splits)
  qed
qed

text \<open>A reservation opens the next generation of its action.\<close>

lemma generations_open:
  assumes ok: "generations_ok s" and new: "pm_get (reservations s) i = None"
    and prev: "case pm_get (actions s) (rs_action r) of None \<Rightarrow> rs_generation r = 1
      | Some a \<Rightarrow> open_reservation a = None \<and> rs_generation r = lastGeneration a + 1"
    and r: "rs_id r = i" "rs_status r = IsActive"
    and s': "reservations s' = pm_set (reservations s) i r"
      "actions s' = pm_set (actions s) (rs_action r) \<lparr>lastGeneration = rs_generation r, open_reservation = Some i\<rparr>"
  shows "generations_ok s'"
proof -
  define n where "n = rs_generation r - 1"
  have n: "case pm_get (actions s) (rs_action r) of None \<Rightarrow> n = 0 | Some a \<Rightarrow> open_reservation a = None \<and> n = lastGeneration a \<and> 1 \<le> n"
    using prev generations_last [OF ok, of "rs_action r"] by (auto simp: n_def split: option.splits)
  then have n0: "0 \<le> n" by (auto split: option.splits)
  have old: "rs_generation q \<le> n \<and> rs_status q \<noteq> IsActive" if "pm_get (reservations s) j = Some q" "rs_action q = rs_action r" for j q
    using ok that n unfolding generations_ok_def by (auto split: option.splits) (metis option.distinct(1) option.inject)+
  have of: "reservation_of s' a g j \<longleftrightarrow> reservation_of s a g j \<or> (j = i \<and> a = rs_action r \<and> g = n + 1)" for a g j
    using new by (auto simp: reservation_of_def s' n_def)
  have low: "g \<le> n" if "reservation_of s (rs_action r) g j" for g j using that old by (auto simp: reservation_of_def)
  have "\<exists>!j. reservation_of s' (rs_action r) g j" if g: "1 \<le> g" "g \<le> n + 1" for g
  proof (cases "g = n + 1")
    case True
    have "\<not> reservation_of s (rs_action r) (n + 1) j" for j using low [of "n + 1" j] by auto
    then show ?thesis using True by (simp add: of)
  next
    case False
    then have gn: "g \<le> n" using g by simp
    then obtain a where "pm_get (actions s) (rs_action r) = Some a" "lastGeneration a = n" using n g(1) by (auto split: option.splits)
    then have "\<exists>!j. reservation_of s (rs_action r) g j" using ok g(1) gn unfolding generations_ok_def by blast
    then show ?thesis using False by (simp add: of)
  qed
  moreover have "reservation_of s' a g = reservation_of s a g" if "a \<noteq> rs_action r" for a g using that of by (intro ext) simp
  ultimately show ?thesis
    using ok n0 unfolding generations_ok_def s'
  proof (intro conjI, goal_cases)
    case 1
    show ?case
    proof (intro allI impI)
      fix j q assume q: "pm_get (pm_set (reservations s) i r) j = Some q"
      show "rs_id q = j \<and> (\<exists>x. pm_get (pm_set (actions s) (rs_action r) \<lparr>lastGeneration = rs_generation r, open_reservation = Some i\<rparr>)
        (rs_action q) = Some x \<and>
        1 \<le> rs_generation q \<and> rs_generation q \<le> lastGeneration x \<and> (rs_status q = IsActive \<longleftrightarrow> open_reservation x = Some j))"
      proof (cases "j = i")
        case True
        then show ?thesis using q r n0 by (auto simp: n_def)
      next
        case False
        then have q': "pm_get (reservations s) j = Some q" using q by simp
        show ?thesis using generations_reservation [OF ok q'] old [OF q'] False by (cases "rs_action q = rs_action r") (auto simp: n_def)
      qed
    qed
  next
    case 2
    then show ?case by (auto simp: of n_def split: if_splits)
  next
    case 3
    then show ?case by (auto simp: n_def split: if_splits)
  next
    case 4
    then show ?case by (auto simp: n_def split: if_splits)
  qed
qed

section \<open>Attempts\<close>

definition attempts_ok :: "ledger_state \<Rightarrow> bool" where
  "attempts_ok s \<longleftrightarrow>
     (\<forall>i a. pm_get (attempts s) i = Some a \<longrightarrow> attempt a = i \<and> ordinal a = 1 \<and>
        pm_get (reservationAttempts s) (at_reservation a) = Some [i] \<and>
        pm_get (attemptArtifacts s) (artifactKey (artifact a)) = Some i \<and>
        (\<forall>sl. slot a = Some sl \<longrightarrow> pm_get (attemptSlots s) (slotKey sl) = Some i) \<and>
        reservation_of s (at_action a) (at_generation a) (at_reservation a)) \<and>
     (\<forall>r is. pm_get (reservationAttempts s) r = Some is \<longrightarrow> (\<exists>i a. is = [i] \<and> pm_get (attempts s) i = Some a))"

lemma attempts_mono:
  assumes "attempts_ok s" "attempts s' = attempts s" "attemptArtifacts s' = attemptArtifacts s" "attemptSlots s' = attemptSlots s"
    "reservationAttempts s' = reservationAttempts s" "\<And>a g i. reservation_of s a g i \<Longrightarrow> reservation_of s' a g i"
  shows "attempts_ok s'"
  using assms unfolding attempts_ok_def by simp

lemma admitted_simps [simp]:
  "attempt (admitted a v t) = attempt a" "ordinal (admitted a v t) = ordinal a" "at_reservation (admitted a v t) = at_reservation a"
  "artifact (admitted a v t) = artifact a" "slot (admitted a v t) = slot a" "at_action (admitted a v t) = at_action a"
  "at_generation (admitted a v t) = at_generation a" "attempt_status_of (admitted a v t) = ADMITTED"
  by (simp_all add: admitted_def attempt_admission.defs attempt_record.defs)

lemma applyAdmit_effect:
  assumes "applyAdmitAttempt keccak s a t v = Inr s'"
  shows "\<exists>r lin. pm_get (reservations s) (at_reservation a) = Some r \<and> rs_generation r = at_generation a \<and> rs_action r = at_action a \<and>
    rs_module r = at_module a \<and> rs_status r = IsActive \<and>
    (let prior = (case pm_get (reservationAttempts s) (at_reservation a) of None \<Rightarrow> [] | Some xs \<Rightarrow> xs) in
     any_live s prior = Inr False \<and> ordinal a = int (length prior) + 1 \<and> attemptIdFor keccak a = Some (attempt a) \<and>
     pm_get (attempts s) (attempt a) = None \<and> pm_get (attemptArtifacts s) (artifactKey (artifact a)) = None \<and>
     (\<forall>sl. slot a = Some sl \<longrightarrow> pm_get (attemptSlots s) (slotKey sl) = None) \<and> t < validUntil a \<and>
     resolveLineage s (rs_authority r) ''admission.lineage'' = Inr lin \<and> checkLineageValid s lin t ''admission.lineage'' = Inr () \<and>
     s' = s\<lparr>attempts := pm_set (attempts s) (attempt a) (admitted a v t),
       attemptArtifacts := pm_set (attemptArtifacts s) (artifactKey (artifact a)) (attempt a),
       attemptSlots := (case slot a of None \<Rightarrow> attemptSlots s | Some sl \<Rightarrow> pm_set (attemptSlots s) (slotKey sl) (attempt a)),
       reservationAttempts := pm_set (reservationAttempts s) (at_reservation a) (prior @ [attempt a])\<rparr>)"
  using assms
  unfolding applyAdmitAttempt_def Let_def rbind_eq_Inr refuse_if_Inr may_throw_Inr pm_has_def moduleRefsEqual_eq
proof (elim exE conjE, goal_cases)
  case (1 u r live derived lin)
  then show ?case
    by (intro exI [of _ r] exI [of _ lin]) (auto simp: need_eq_Inr not_le split: option.splits)
qed

text \<open>Every attempt is live, so a reservation with an attempt admits no other.\<close>

lemma any_live_single: "pm_get (attempts s) i = Some x \<Longrightarrow> any_live s [i] = Inr True"
  by (cases "attempt_status_of x") (simp add: attempt_live_def may_throw_def)

lemma applyAdmit_attempts:
  assumes ok: "attempts_ok s" and ap: "applyAdmitAttempt keccak s a t v = Inr s'"
  shows "attempts_ok s'"
proof -
  from applyAdmit_effect [OF ap] obtain r where r: "pm_get (reservations s) (at_reservation a) = Some r"
      "rs_generation r = at_generation a" "rs_action r = at_action a"
    and live: "any_live s (case pm_get (reservationAttempts s) (at_reservation a) of None \<Rightarrow> [] | Some xs \<Rightarrow> xs) = Inr False"
    and ord: "ordinal a = int (length (case pm_get (reservationAttempts s) (at_reservation a) of None \<Rightarrow> [] | Some xs \<Rightarrow> xs)) + 1"
    and new: "pm_get (attempts s) (attempt a) = None" "pm_get (attemptArtifacts s) (artifactKey (artifact a)) = None"
      "\<And>sl. slot a = Some sl \<Longrightarrow> pm_get (attemptSlots s) (slotKey sl) = None"
    and s': "s' = s\<lparr>attempts := pm_set (attempts s) (attempt a) (admitted a v t),
       attemptArtifacts := pm_set (attemptArtifacts s) (artifactKey (artifact a)) (attempt a),
       attemptSlots := (case slot a of None \<Rightarrow> attemptSlots s | Some sl \<Rightarrow> pm_set (attemptSlots s) (slotKey sl) (attempt a)),
       reservationAttempts := pm_set (reservationAttempts s) (at_reservation a)
         ((case pm_get (reservationAttempts s) (at_reservation a) of None \<Rightarrow> [] | Some xs \<Rightarrow> xs) @ [attempt a])\<rparr>"
    unfolding Let_def by blast
  have none: "pm_get (reservationAttempts s) (at_reservation a) = None"
  proof (rule ccontr)
    assume "pm_get (reservationAttempts s) (at_reservation a) \<noteq> None"
    then obtain i x where "pm_get (reservationAttempts s) (at_reservation a) = Some [i]" "pm_get (attempts s) i = Some x"
      using ok unfolding attempts_ok_def by blast
    with live any_live_single [of s i x] show False by simp
  qed
  have slots: "pm_get (attemptSlots s') (slotKey sl) = Some i"
    if "pm_get (attemptSlots s) (slotKey sl) = Some i" for sl i
    using that new(3) by (auto simp: s' split: option.splits)
  have of: "reservation_of s' = reservation_of s" by (simp add: s' reservation_of_def fun_eq_iff)
  have "attempt x = i \<and> ordinal x = 1 \<and> pm_get (reservationAttempts s') (at_reservation x) = Some [i] \<and>
      pm_get (attemptArtifacts s') (artifactKey (artifact x)) = Some i \<and>
      (\<forall>sl. slot x = Some sl \<longrightarrow> pm_get (attemptSlots s') (slotKey sl) = Some i) \<and>
      reservation_of s' (at_action x) (at_generation x) (at_reservation x)" if x: "pm_get (attempts s') i = Some x" for i x
  proof (cases "i = attempt a")
    case True
    then have "x = admitted a v t" using x by (simp add: s')
    then show ?thesis using True ord r none by (simp add: of) (simp add: s' reservation_of_def)
  next
    case False
    then have "pm_get (attempts s) i = Some x" using x by (simp add: s')
    then have "attempt x = i \<and> ordinal x = 1 \<and> pm_get (reservationAttempts s) (at_reservation x) = Some [i] \<and>
      pm_get (attemptArtifacts s) (artifactKey (artifact x)) = Some i \<and>
      (\<forall>sl. slot x = Some sl \<longrightarrow> pm_get (attemptSlots s) (slotKey sl) = Some i) \<and>
      reservation_of s (at_action x) (at_generation x) (at_reservation x)"
      using ok unfolding attempts_ok_def by blast
    then show ?thesis using none new(2) slots by (auto simp: of) (auto simp: s')
  qed
  moreover have "\<exists>i x. is = [i] \<and> pm_get (attempts s') i = Some x" if "pm_get (reservationAttempts s') q = Some is" for q "is"
  proof (cases "q = at_reservation a")
    case True
    then have "is = [attempt a]" "pm_get (attempts s') (attempt a) = Some (admitted a v t)" using that none by (simp_all add: s')
    then show ?thesis by blast
  next
    case False
    then have "pm_get (reservationAttempts s) q = Some is" using that by (simp add: s')
    then obtain i x where "is = [i]" "pm_get (attempts s) i = Some x" using ok unfolding attempts_ok_def by blast
    then show ?thesis by (simp add: s')
  qed
  ultimately show ?thesis unfolding attempts_ok_def by blast
qed

section \<open>Every event\<close>

definition life :: "ledger_state \<Rightarrow> bool" where
  "life s \<longleftrightarrow> generations_ok s \<and> attempts_ok s"

lemma reservation_of_cong: "reservations s' = reservations s \<Longrightarrow> reservation_of s' = reservation_of s"
  by (simp add: reservation_of_def fun_eq_iff)

definition same_attempts :: "ledger_state \<Rightarrow> ledger_state \<Rightarrow> bool" where
  "same_attempts s s' \<longleftrightarrow> attempts s' = attempts s \<and> attemptArtifacts s' = attemptArtifacts s \<and>
     attemptSlots s' = attemptSlots s \<and> reservationAttempts s' = reservationAttempts s"

lemma life_cong:
  "reservations s' = reservations s \<Longrightarrow> actions s' = actions s \<Longrightarrow> same_attempts s s' \<Longrightarrow> life s \<Longrightarrow> life s'"
  using attempts_mono [of s s'] generations_same [of s s'] reservation_of_cong [of s' s] by (simp add: life_def same_attempts_def)

lemma life_reservation:
  assumes "life s" "pm_get (reservations s) i = Some r" "reservations s' = pm_set (reservations s) i r'"
    "rs_action r' = rs_action r" "rs_generation r' = rs_generation r" "same_attempts s s'" "generations_ok s'"
  shows "life s'"
  using assms attempts_mono [of s s'] reservation_of_set [OF assms(2-5)] by (simp add: life_def same_attempts_def)

lemma apply_body_life:
  assumes li: "life s" and ap: "apply_body keccak order_fn s e v = Inr s'"
  shows "life s'"
proof -
  have gen: "generations_ok s" using li by (simp add: life_def)
  show ?thesis
  proof (cases e)
    case (REGISTER_POLICY t p ps bs)
    with ap have "reservations s' = reservations s" "actions s' = actions s" "same_attempts s s'"
      by (auto simp: applyRegisterPolicy_def rbind_eq_Inr same_attempts_def)
    then show ?thesis using life_cong li by blast
  next
    case (REGISTER_GRANT t g ps bs)
    with ap have "applyRegisterGrant keccak order_fn s g ps bs t v = Inr s'" by simp
    from applyRegisterGrant_nodes [OF this] have s': "s' = s\<lparr>nodes := nodes s', targets := targets s'\<rparr>" by blast
    have "reservations s' = reservations s" "actions s' = actions s" "same_attempts s s'"
      unfolding same_attempts_def by (subst s', simp)+
    then show ?thesis using life_cong li by blast
  next
    case (REVOKE t r)
    with ap have "applyRevoke keccak s r t v = Inr s'" by simp
    from applyRevoke_nodes [OF this] have s': "s' = s\<lparr>nodes := nodes s'\<rparr>" by blast
    have "reservations s' = reservations s" "actions s' = actions s" "same_attempts s s'"
      unfolding same_attempts_def by (subst s', simp)+
    then show ?thesis using life_cong li by blast
  next
    case (RESERVE t p lin pol legs)
    with ap have "applyReserve keccak s t p lin pol legs v = Inr s'" by simp
    from applyReserve_effect [OF this] obtain d r where d: "deriveReservation keccak s p t = Inr d"
        and r: "rs_id r = dr_reservation d" "rs_status r = IsActive" "rs_action r = cpl_action p" "rs_generation r = cpl_generation p"
        and s': "s' = s\<lparr>everReserved := True, targets := targets s', reservations := pm_set (reservations s) (rs_id r) r,
         actions := pm_set (actions s) (cpl_action p)
           \<lparr>lastGeneration = cpl_generation p, open_reservation = Some (rs_id r)\<rparr>\<rparr>" by blast
    have eq: "reservations s' = pm_set (reservations s) (rs_id r) r"
        "actions s' = pm_set (actions s) (rs_action r) \<lparr>lastGeneration = rs_generation r, open_reservation = Some (rs_id r)\<rparr>"
        "same_attempts s s'" unfolding same_attempts_def r(3,4) by (subst s', simp)+
    note facts = deriveReservation_facts [OF d]
    have "generations_ok s'"
      by (rule generations_open [OF gen _ _ refl r(2) eq(1,2)]) (use facts(1,5) r in \<open>auto split: option.splits\<close>)
    moreover have "attempts_ok s'"
    proof (rule attempts_mono)
      show "attempts_ok s" using li by (simp add: life_def)
      show "reservation_of s' a g i" if "reservation_of s a g i" for a g i
        using that facts(1) r(1) by (auto simp: reservation_of_def eq(1))
    qed (use eq(3) in \<open>simp_all add: same_attempts_def\<close>)
    ultimately show ?thesis by (simp add: life_def)
  next
    case (CONSUME t a)
    with ap obtain r ts ds where r: "reservationFor s a = Inr r" and s': "s' = set_reservation s ts (r\<lparr>demands := ds\<rparr>)"
      by (auto simp: applyConsume_def rbind_eq_Inr)
    then have get: "pm_get (reservations s) (rs_id r) = Some r"
      using generations_reservation [OF gen] by (auto simp: reservationFor_Inr)
    have "generations_ok s'"
      by (rule generations_keep [OF gen get, where r' = "r\<lparr>demands := ds\<rparr>"]) (simp_all add: s' set_reservation_def)
    then show ?thesis
      by (intro life_reservation [OF li get, where r' = "r\<lparr>demands := ds\<rparr>"]) (simp_all add: s' set_reservation_def same_attempts_def)
  next
    case (RESTORE t a)
    with ap obtain r ts ds where r: "reservationFor s a = Inr r" and s': "s' = set_reservation s ts (r\<lparr>demands := ds\<rparr>)"
      by (auto simp: applyRestore_def rbind_eq_Inr)
    then have get: "pm_get (reservations s) (rs_id r) = Some r"
      using generations_reservation [OF gen] by (auto simp: reservationFor_Inr)
    have "generations_ok s'"
      by (rule generations_keep [OF gen get, where r' = "r\<lparr>demands := ds\<rparr>"]) (simp_all add: s' set_reservation_def)
    then show ?thesis
      by (intro life_reservation [OF li get, where r' = "r\<lparr>demands := ds\<rparr>"]) (simp_all add: s' set_reservation_def same_attempts_def)
  next
    case (CLOSE t a)
    with ap obtain r ts ds where r: "reservationFor s a = Inr r" "rs_status r = IsActive"
      and s': "s' = (set_reservation s ts (r\<lparr>rs_status := IsClosed, demands := ds\<rparr>))\<lparr>actions := (case pm_get (actions s) (rs_action r) of
            Some x \<Rightarrow> if open_reservation x = Some (rs_id r)
              then pm_set (actions s) (rs_action r) (x\<lparr>open_reservation := None\<rparr>) else actions s
          | None \<Rightarrow> actions s)\<rparr>"
      by (auto simp: applyClose_def rbind_eq_Inr Let_def)
    then have get: "pm_get (reservations s) (rs_id r) = Some r"
      using generations_reservation [OF gen] by (auto simp: reservationFor_Inr)
    from generations_reservation [OF gen get] r(2) obtain x where x: "pm_get (actions s) (rs_action r) = Some x"
        "open_reservation x = Some (rs_id r)" by auto
    have "generations_ok s'"
      by (rule generations_close [OF gen get r(2), where r' = "r\<lparr>rs_status := IsClosed, demands := ds\<rparr>", OF _ _ _ _ _ x(1)])
        (simp_all add: s' x set_reservation_def)
    then show ?thesis
      by (intro life_reservation [OF li get, where r' = "r\<lparr>rs_status := IsClosed, demands := ds\<rparr>"])
        (simp_all add: s' set_reservation_def same_attempts_def)
  next
    case (ADMIT_ATTEMPT t a)
    with ap have "applyAdmitAttempt keccak s a t v = Inr s'" by simp
    with applyAdmit_attempts [OF _ this] applyAdmit_same [OF this] li show ?thesis
      using generations_same [of s s'] by (simp add: life_def)
  qed
qed

interpretation lifecycle: ledger_invariant keccak order_fn "\<lambda>_. True" life for keccak order_fn
proof
  fix p h show "life (empty_state p h)"
    by (simp add: life_def generations_ok_def attempts_ok_def empty_state_def)
next
  fix s e v s' assume "life s" "apply_body keccak order_fn s e v = Inr s'"
  from apply_body_life [OF this] show "life (s'\<lparr>lastAt := Some (event_at e)\<rparr>)"
    by (rule life_cong [rotated 3]) (simp_all add: same_attempts_def)
next
  fix s v h assume "life s"
  then show "life (s\<lparr>version := v, head := h\<rparr>)"
    by (rule life_cong [rotated 3]) (simp_all add: same_attempts_def)
qed

end
