(* ===== verification/Ledger_Authority.thy ===== *)
theory Ledger_Authority
  imports Ledger_Lifecycle
begin

text \<open>
  What delegation means: the subset check of a child grant against its parent accepts exactly the children that
  are within the parent, said of values instead of keys and scaled integers (\<open>grant_within\<close>); and the authority graph
  the ledger keeps: a forest of bounded depth in which every delegated grant is within its parent, so that every
  registered node has a lineage.
\<close>

section \<open>Terms and their keys\<close>

lemma term_key_eq: "termKey a = termKey b \<longleftrightarrow> term_key_json a = term_key_json b"
  by (simp add: termKey_def)

text \<open>The key of a term names its kind.\<close>

lemma termKey_kind:
  "termKey p = termKey (SET c) \<Longrightarrow> \<exists>q. p = SET q \<and> vocabulary_name q = vocabulary_name c"
  "termKey p = termKey (RIGHT r) \<Longrightarrow> \<exists>q. p = RIGHT q"
  "termKey p = termKey (BOUND b) \<Longrightarrow> \<exists>q. p = BOUND q \<and> boundId q = boundId b \<and> polarity q = polarity b"
  "termKey p = termKey (TIME_WINDOW w) \<Longrightarrow> \<exists>q. p = TIME_WINDOW q \<and> tw_domain q = tw_domain w"
  "termKey p = termKey (LEDGER_DIMENSION d) \<Longrightarrow> \<exists>q. p = LEDGER_DIMENSION q \<and> dimensionId q = dimensionId d"
  "termKey p = termKey (STATE_INVARIANT i) \<Longrightarrow> \<exists>q. p = STATE_INVARIANT q"
  "termKey p = termKey (STATE_POLICY s) \<Longrightarrow> \<exists>q. p = STATE_POLICY q"
proof -
  have pol: "polarity_name x = polarity_name y \<longleftrightarrow> x = y" for x y by (cases x; cases y) simp_all
  show "termKey p = termKey (SET c) \<Longrightarrow> \<exists>q. p = SET q \<and> vocabulary_name q = vocabulary_name c"
    "termKey p = termKey (RIGHT r) \<Longrightarrow> \<exists>q. p = RIGHT q"
    "termKey p = termKey (BOUND b) \<Longrightarrow> \<exists>q. p = BOUND q \<and> boundId q = boundId b \<and> polarity q = polarity b"
    "termKey p = termKey (TIME_WINDOW w) \<Longrightarrow> \<exists>q. p = TIME_WINDOW q \<and> tw_domain q = tw_domain w"
    "termKey p = termKey (LEDGER_DIMENSION d) \<Longrightarrow> \<exists>q. p = LEDGER_DIMENSION q \<and> dimensionId q = dimensionId d"
    "termKey p = termKey (STATE_INVARIANT i) \<Longrightarrow> \<exists>q. p = STATE_INVARIANT q"
    "termKey p = termKey (STATE_POLICY s) \<Longrightarrow> \<exists>q. p = STATE_POLICY q"
    by (cases p; simp add: term_key_eq pol)+
qed

lemma terms_by_key_Some: "terms_by_key ts k = Some p \<Longrightarrow> p \<in> set ts \<and> termKey p = k"
  unfolding terms_by_key_def by (drule map_of_SomeD) auto

lemma terms_by_key_None: "terms_by_key ts k = None \<longleftrightarrow> k \<notin> termKey ` set ts"
  unfolding terms_by_key_def by (auto simp: map_of_eq_None_iff image_iff)

lemma set_term_keys [simp]: "set (term_keys ts) = termKey ` set ts"
  by (simp add: term_keys_def)

section \<open>Being within a parent\<close>

definition bound_rat :: "bound_value \<Rightarrow> rat" where
  "bound_rat v = (case v of QuantityValue q \<Rightarrow> of_int (b_atoms q) / 10 ^ b_decimals q
     | RatioValue r \<Rightarrow> of_int (numerator r) / 10 ^ ratio_scale r)"

definition comparable_bounds :: "bound_value \<Rightarrow> bound_value \<Rightarrow> bool" where
  "comparable_bounds v w = (case (v, w) of
     (QuantityValue x, QuantityValue y) \<Rightarrow> b_kind x = b_kind y \<and> b_unit x = b_unit y
   | (RatioValue _, RatioValue _) \<Rightarrow> True
   | _ \<Rightarrow> False)"

fun sets_within :: "set_constraint \<Rightarrow> set_constraint \<Rightarrow> bool" where
  "sets_within (MODULES q) (MODULES c) = (set c \<subseteq> set q)"
| "sets_within (ADAPTERS q) (ADAPTERS c) = (set c \<subseteq> set q)"
| "sets_within (MARKETS q) (MARKETS c) = (set c \<subseteq> set q)"
| "sets_within (ASSETS q) (ASSETS c) = (set c \<subseteq> set q)"
| "sets_within (VENUES q) (VENUES c) = (set c \<subseteq> set q)"
| "sets_within (RECIPIENTS q) (RECIPIENTS c) = (set c \<subseteq> set q)"
| "sets_within (ACTION_TYPES q) (ACTION_TYPES c) = (set c \<subseteq> set q)"
| "sets_within _ _ = False"

fun fresher :: "freshness_policy \<Rightarrow> freshness_policy \<Rightarrow> bool" where
  "fresher (AGE p) (AGE c) = (c \<le> p)"
| "fresher (BLOCKS p) (BLOCKS c) = (c \<le> p)"
| "fresher SEQUENCE SEQUENCE = True"
| "fresher (VERSION pd p) (VERSION cd c) = (cd = pd \<and> c \<le> p)"
| "fresher _ _ = False"

definition policy_within :: "state_policy \<Rightarrow> state_policy \<Rightarrow> bool" where
  "policy_within p c \<longleftrightarrow>
     set (admittedSources c) \<subseteq> set (admittedSources p) \<and>
     fresher (freshness (requirement p)) (freshness (requirement c)) \<and>
     (minTrust (requirement p) = MinAuthoritative \<longrightarrow> minTrust (requirement c) = MinAuthoritative) \<and>
     ladder (minFinality (requirement c)) = ladder (minFinality (requirement p)) \<and>
     level (minFinality (requirement c)) = level (minFinality (requirement p)) \<and>
     (atIssue (requirement p) = RECHECK \<longrightarrow> atIssue (requirement c) = RECHECK) \<and>
     (atExecution (requirement c) = atExecution (requirement p) \<or> atExecution (requirement p) = NOT_REQUIRED)"

definition same_account :: "ledger_dimension \<Rightarrow> ledger_dimension \<Rightarrow> bool" where
  "same_account p c \<longleftrightarrow> b_kind (limit c) = b_kind (limit p) \<and> b_unit (limit c) = b_unit (limit p) \<and>
     accounting c = accounting p \<and> restoration c = restoration p \<and> epoch c = epoch p \<and> sign c = sign p \<and> scope c = scope p"

definition term_within :: "narrowing_prover option \<Rightarrow> authority_term \<Rightarrow> authority_term \<Rightarrow> bool" where
  "term_within prove p c = (case (p, c) of
     (SET q, SET x) \<Rightarrow> sets_within q x
   | (RIGHT _, RIGHT _) \<Rightarrow> True
   | (BOUND q, BOUND x) \<Rightarrow> comparable_bounds (bound_value_of x) (bound_value_of q) \<and>
       (case polarity x of UpperBound \<Rightarrow> bound_rat (bound_value_of x) \<le> bound_rat (bound_value_of q)
         | LowerBound \<Rightarrow> bound_rat (bound_value_of q) \<le> bound_rat (bound_value_of x))
   | (TIME_WINDOW q, TIME_WINDOW x) \<Rightarrow> tw_notBefore q \<le> tw_notBefore x \<and> tw_expiresAt x \<le> tw_expiresAt q
   | (LEDGER_DIMENSION q, LEDGER_DIMENSION x) \<Rightarrow> same_account q x \<and>
       (of_int (b_atoms (limit x)) / 10 ^ b_decimals (limit x) :: rat) \<le> of_int (b_atoms (limit q)) / 10 ^ b_decimals (limit q)
   | (STATE_INVARIANT q, STATE_INVARIANT x) \<Rightarrow> params q = params x \<or> (\<exists>f. prove = Some f \<and> f q x = NO_WEAKER)
   | (STATE_POLICY q, STATE_POLICY x) \<Rightarrow> policy_within q x
   | _ \<Rightarrow> False)"

text \<open>Terms a child may have on its own: only sets and rights widen authority when the parent lacks them.\<close>

definition free_term :: "authority_term \<Rightarrow> bool" where
  "free_term c = (case c of SET _ \<Rightarrow> False | RIGHT (DELEGATE _) \<Rightarrow> True | RIGHT _ \<Rightarrow> False | _ \<Rightarrow> True)"

text \<open>Terms of the parent a child may not drop.\<close>

definition binding_term :: "authority_term \<Rightarrow> bool" where
  "binding_term p = (case p of BOUND _ \<Rightarrow> True | STATE_INVARIANT _ \<Rightarrow> True | STATE_POLICY _ \<Rightarrow> True | _ \<Rightarrow> False)"

definition grant_within :: "narrowing_prover option \<Rightarrow> int \<Rightarrow> grant \<Rightarrow> grant \<Rightarrow> bool" where
  "grant_within prove depth par child \<longleftrightarrow>
     1 \<le> depth \<and> (delegateDepth child = 0 \<or> delegateDepth child < depth) \<and>
     notBefore par \<le> notBefore child \<and> expiresAt child \<le> expiresAt par \<and>
     (\<forall>c \<in> set (terms child). (case terms_by_key (terms par) (termKey c) of
        None \<Rightarrow> free_term c
      | Some p \<Rightarrow> term_within prove p c)) \<and>
     (\<forall>p \<in> set (terms par). binding_term p \<longrightarrow> termKey p \<in> termKey ` set (terms child))"

section \<open>The check decides it\<close>

lemma add_violations_Nil: "add_violations found vs = [] \<longleftrightarrow> found = [] \<and> vs = []"
proof -
  have keep: "found \<noteq> [] \<Longrightarrow> add_violations found vs \<noteq> []" for found vs
    by (induction vs arbitrary: found) (auto simp: add_violations_def)
  show ?thesis
  proof (cases vs)
    case Nil
    then show ?thesis by (simp add: add_violations_def)
  next
    case (Cons v ws)
    then have "add_violations found vs = add_violations (if v \<in> set found then found else found @ [v]) ws"
      by (simp add: add_violations_def)
    moreover have "(if v \<in> set found then found else found @ [v]) \<noteq> []" by auto
    ultimately show ?thesis using keep Cons by simp
  qed
qed

lemma compareRatios_value: "compareRatios a b = (let x = bound_rat (RatioValue a); y = bound_rat (RatioValue b)
     in if x < y then - 1 else if y < x then 1 else 0)"
proof -
  have "of_int m / 10 ^ i < (of_int n / 10 ^ j :: rat) \<longleftrightarrow> m * 10 ^ j < n * 10 ^ i" for m n :: int and i j
  proof -
    have "of_int m / 10 ^ i < (of_int n / 10 ^ j :: rat) \<longleftrightarrow> of_int m < of_int n / 10 ^ j * (10 ^ i :: rat)"
      by (simp add: pos_divide_less_eq)
    also have "\<dots> \<longleftrightarrow> of_int (m * 10 ^ j) < (of_int (n * 10 ^ i) :: rat)"
      by (simp add: pos_less_divide_eq)
    finally show ?thesis by (simp only: of_int_less_iff)
  qed
  then show ?thesis by (simp add: compareRatios_def bound_rat_def Let_def)
qed

lemma compareBoundValues_value:
  "compareBoundValues v w = (if comparable_bounds v w
     then Some (if bound_rat v < bound_rat w then - 1 else if bound_rat w < bound_rat v then 1 else 0) else None)"
  by (cases v; cases w) (auto simp: compareBoundValues_def comparable_bounds_def compareScaled_value compareRatios_value bound_rat_def Let_def)

lemma inj_keys: "inj f \<Longrightarrow> list_all (\<lambda>m. m \<in> f ` set q) (map f c) \<longleftrightarrow> set c \<subseteq> set q"
  by (auto simp: list_all_iff inj_image_mem_iff)

lemma sets_within_keys:
  assumes "vocabulary_name q = vocabulary_name c"
  shows "list_all (\<lambda>m. m \<in> set (setMemberKeys q)) (setMemberKeys c) \<longleftrightarrow> sets_within q c"
proof -
  have "inj (\<lambda>m :: module_ref. json_text (JsonArr [JsonStr (domainId m), JsonStr (moduleId m), JsonNat (moduleVersion m), JsonStr (moduleDigest m)]))"
    by (rule injI, rule module_ref.equality) auto
  moreover have "inj (\<lambda>a :: adapter_ref. json_text (JsonArr [JsonStr (adapterId a), JsonNat (adapterVersion a), JsonStr (adapterDigest a)]))"
    by (rule injI, rule adapter_ref.equality) auto
  moreover have "inj (\<lambda>a :: action_type_ref. json_text (JsonArr [JsonStr (at_domain a), JsonStr (at_actionType a)]))"
    by (rule injI, rule action_type_ref.equality) auto
  moreover have "inj (\<lambda>x. json_text (resource_json x))"
    by (rule injI) simp
  ultimately show ?thesis
    using assms by (cases q; cases c) (simp_all add: setMemberKeys_def comp_def inj_keys)
qed

lemma statePolicyVerdicts_Nil: "statePolicyVerdicts c p = [] \<longleftrightarrow> policy_within p c"
proof -
  have fresh: "freshnessVerdict a b = ''OK'' \<longleftrightarrow> fresher b a" for a b
    by (cases a; cases b) (auto simp: weaker_if_def)
  have trust: "TRUST_RANK a < TRUST_RANK b \<longleftrightarrow> b = MinAuthoritative \<and> a \<noteq> MinAuthoritative" for a b
    by (cases a; cases b) auto
  have issue: "AT_ISSUE_RANK a < AT_ISSUE_RANK b \<longleftrightarrow> b = RECHECK \<and> a \<noteq> RECHECK" for a b
    by (cases a; cases b) auto
  have exec: "executionVerdict a b = ''OK'' \<longleftrightarrow> a = b \<or> b = NOT_REQUIRED" for a b
    by (auto simp: executionVerdict_def)
  show ?thesis
    unfolding statePolicyVerdicts_def policy_within_def
    by (simp add: fresh trust issue exec filter_empty_conv list_all_iff subset_eq) auto
qed

lemma dimensionsComparable_eq: "dimensionsComparable c p \<longleftrightarrow> same_account p c"
proof -
  have "same_resource a b \<longleftrightarrow> a = b" for a b
    by (cases a; cases b) (simp_all add: same_resource_def resource_json_inj)
  moreover have "same_epoch a b \<longleftrightarrow> a = b" for a b
    by (cases a; cases b) (auto simp: same_epoch_def intro: epoch_window.equality)
  moreover have "scope c = scope p \<longleftrightarrow> scope_asset (scope c) = scope_asset (scope p) \<and> scope_market (scope c) = scope_market (scope p) \<and>
      scope_domain (scope c) = scope_domain (scope p) \<and> scope_account (scope c) = scope_account (scope p)"
    by (auto intro: dimension_scope.equality)
  ultimately show ?thesis unfolding dimensionsComparable_def same_account_def by auto
qed

lemma term_violations_Nil:
  assumes "termKey p = termKey c"
  shows "term_violations prove (Some p) c = [] \<longleftrightarrow> term_within prove p c"
proof (cases c)
  case (SET x)
  with assms obtain q where "p = SET q" "vocabulary_name q = vocabulary_name x" using termKey_kind(1) by blast
  then show ?thesis by (simp add: SET term_within_def sets_within_keys)
next
  case (RIGHT x)
  with assms obtain q where "p = RIGHT q" using termKey_kind(2) by blast
  then show ?thesis by (simp add: RIGHT term_within_def)
next
  case (BOUND x)
  with assms obtain q where "p = BOUND q" using termKey_kind(3) by blast
  then show ?thesis
    by (cases "polarity x") (simp_all add: BOUND term_within_def compareBoundValues_value not_less split: option.splits)
next
  case (TIME_WINDOW x)
  with assms obtain q where "p = TIME_WINDOW q" using termKey_kind(4) by blast
  then show ?thesis by (simp add: TIME_WINDOW term_within_def not_less)
next
  case (LEDGER_DIMENSION x)
  with assms obtain q where "p = LEDGER_DIMENSION q" using termKey_kind(5) by blast
  then show ?thesis by (simp add: LEDGER_DIMENSION term_within_def dimensionsComparable_eq compareScaled_value not_less Let_def)
next
  case (STATE_INVARIANT x)
  with assms obtain q where "p = STATE_INVARIANT q" using termKey_kind(6) by blast
  then show ?thesis by (auto simp: STATE_INVARIANT term_within_def split: option.splits narrowing.splits)
next
  case (STATE_POLICY x)
  with assms obtain q where "p = STATE_POLICY q" using termKey_kind(7) by blast
  then show ?thesis by (simp add: STATE_POLICY term_within_def statePolicyVerdicts_Nil)
qed

lemma term_violations_None: "term_violations prove None c = [] \<longleftrightarrow> free_term c"
proof (cases c)
  case (RIGHT x)
  then show ?thesis by (cases x) (simp_all add: free_term_def)
qed (simp_all add: free_term_def)

lemma dropped_violations_Nil: "dropped_violations k p = [] \<longleftrightarrow> \<not> binding_term p"
  by (cases p) (simp_all add: binding_term_def)

lemma binding_key: "termKey p = termKey q \<Longrightarrow> binding_term p = binding_term q"
  by (cases q) (auto simp: binding_term_def dest: termKey_kind)

lemma checkDelegationSubset_within: "checkDelegationSubset par child depth prove = [] \<longleftrightarrow> grant_within prove depth par child"
proof -
  have terms: "term_violations prove (terms_by_key (terms par) (termKey c)) c = [] \<longleftrightarrow>
      (case terms_by_key (terms par) (termKey c) of None \<Rightarrow> free_term c | Some p \<Rightarrow> term_within prove p c)" for c
    by (auto simp: term_violations_None term_violations_Nil dest!: terms_by_key_Some split: option.splits)
  have drop: "(if k \<in> set (map termKey (terms child)) then []
      else (case terms_by_key (terms par) k of None \<Rightarrow> [] | Some p \<Rightarrow> dropped_violations k p)) = [] \<longleftrightarrow>
    (\<forall>p \<in> set (terms par). termKey p = k \<longrightarrow> binding_term p \<longrightarrow> k \<in> termKey ` set (terms child))" for k
  proof (cases "terms_by_key (terms par) k")
    case None
    then have "k \<notin> termKey ` set (terms par)" by (simp add: terms_by_key_None)
    then show ?thesis using None by auto
  next
    case (Some p)
    note p = terms_by_key_Some [OF Some]
    then have "(\<forall>q \<in> set (terms par). termKey q = k \<longrightarrow> \<not> binding_term q) \<longleftrightarrow> \<not> binding_term p" using binding_key by metis
    then show ?thesis by (cases "k \<in> termKey ` set (terms child)") (simp_all add: Some dropped_violations_Nil)
  qed
  have depth: "0 \<le> delegateDepth child" by (simp add: delegateDepth_def)
  have all: "concat (map f xs) = [] \<longleftrightarrow> (\<forall>x \<in> set xs. f x = [])" for f :: "'x \<Rightarrow> delegation_violation list" and xs
    by (induction xs) auto
  have kept: "(\<forall>k \<in> termKey ` set (terms par). \<forall>p \<in> set (terms par). termKey p = k \<longrightarrow> binding_term p \<longrightarrow> k \<in> termKey ` set (terms child)) \<longleftrightarrow>
      (\<forall>p \<in> set (terms par). binding_term p \<longrightarrow> termKey p \<in> termKey ` set (terms child))" by blast
  have nil: "(if b then [x] else []) = [] \<longleftrightarrow> \<not> b" for b and x :: delegation_violation by simp
  have own: "\<not> (0 < delegateDepth child \<and> depth - 1 < delegateDepth child) \<longleftrightarrow> delegateDepth child = 0 \<or> delegateDepth child < depth"
    using depth by linarith
  show ?thesis
    unfolding checkDelegationSubset_def grant_within_def Let_def add_violations_Nil append_is_Nil_conv all terms drop kept nil set_term_keys own
    by (simp only: not_less de_Morgan_disj simp_thms conj_assoc)
qed

section \<open>The authority graph\<close>

text \<open>Every grant names the ledger's principal; a root has depth zero; a delegated grant is within its registered parent.\<close>

definition node_ok :: "ledger_state \<Rightarrow> node_record \<Rightarrow> bool" where
  "node_ok s n \<longleftrightarrow> g_principal (n_grant n) = ls_principal s \<and> n_depth n < MAX_LINEAGE_LENGTH \<and>
     (case lineage (n_grant n) of
        ROOT _ \<Rightarrow> n_depth n = 0
      | DELEGATION p iss \<Rightarrow> (\<exists>m. pm_get (nodes s) p = Some m \<and> n_depth n = n_depth m + 1 \<and> iss = holder (n_grant m) \<and>
          (\<exists>prove depth. grant_within prove depth (n_grant m) (n_grant n))))"

definition forest :: "ledger_state \<Rightarrow> bool" where
  "forest s \<longleftrightarrow> (\<forall>i n. pm_get (nodes s) i = Some n \<longrightarrow> n_id n = i \<and> node_ok s n)"

text \<open>A lineage resolves, and its length is the depth of its leaf.\<close>

lemma forest_lineage:
  "forest s \<Longrightarrow> pm_get (nodes s) i = Some n \<Longrightarrow> n_depth n < k \<Longrightarrow>
   \<exists>rest. resolve_from k s i path leaf = Inr (n # rest) \<and> length rest = n_depth n"
proof (induction k arbitrary: i n)
  case (Suc k)
  then have n: "node_ok s n" by (simp add: forest_def)
  show ?case
  proof (cases "lineage (n_grant n)")
    case (ROOT x)
    then show ?thesis using Suc.prems n by (simp add: node_ok_def)
  next
    case (DELEGATION p iss)
    with n obtain m where m: "pm_get (nodes s) p = Some m" "n_depth n = n_depth m + 1" by (auto simp: node_ok_def)
    then obtain rest where "resolve_from k s p path leaf = Inr (m # rest)" "length rest = n_depth m"
      using Suc.IH [OF Suc.prems(1) m(1)] Suc.prems(3) by auto
    then show ?thesis using Suc.prems(2) DELEGATION m(2) by simp
  qed
qed simp

lemma resolveLineage_total:
  assumes "forest s" "pm_get (nodes s) i = Some n"
  shows "\<exists>rest. resolveLineage s i path = Inr (n # rest) \<and> length rest = n_depth n"
  unfolding resolveLineage_def using assms by (intro forest_lineage) (simp_all add: forest_def node_ok_def)

text \<open>Consecutive nodes of a lineage are a child and its parent.\<close>

fun linked :: "node_record list \<Rightarrow> bool" where
  "linked [] = False"
| "linked [n] = (\<exists>i. lineage (n_grant n) = ROOT i)"
| "linked (n # m # ns) = ((\<exists>i. lineage (n_grant n) = DELEGATION (n_id m) i) \<and> linked (m # ns))"

lemma resolve_from_hd: "resolve_from k s i path leaf = Inr lin \<Longrightarrow> \<exists>n rest. lin = n # rest \<and> pm_get (nodes s) i = Some n"
  by (cases k) (auto simp: rbind_eq_Inr refuse_def split: option.splits grant_lineage.splits)

lemma resolve_from_linked:
  assumes "\<forall>i n. pm_get (nodes s) i = Some n \<longrightarrow> n_id n = i"
  shows "resolve_from k s i path leaf = Inr lin \<Longrightarrow> linked lin"
proof (induction k arbitrary: i lin)
  case (Suc k)
  from Suc.prems obtain n where n: "pm_get (nodes s) i = Some n" by (auto simp: refuse_def split: option.splits)
  show ?case
  proof (cases "lineage (n_grant n)")
    case (ROOT x)
    then show ?thesis using Suc.prems n by auto
  next
    case (DELEGATION p iss)
    with Suc.prems n obtain rest where rest: "resolve_from k s p path leaf = Inr rest" "lin = n # rest"
      by (auto simp: rbind_eq_Inr)
    from resolve_from_hd [OF rest(1)] obtain m ms where "rest = m # ms" "pm_get (nodes s) p = Some m" by blast
    then show ?thesis using Suc.IH [OF rest(1)] rest(2) DELEGATION assms by simp
  qed
qed (simp add: refuse_def)

lemma checkGrantRegistration_ok:
  assumes "checkGrantRegistration s i g t path prove = Inr depth"
  shows "g_principal g = ls_principal s \<and> policy s \<noteq> None \<and> pm_get (nodes s) i = None \<and> t < expiresAt g \<and>
    (case lineage g of ROOT _ \<Rightarrow> depth = 0
     | DELEGATION p iss \<Rightarrow> (\<exists>m rest path'. resolveLineage s p path' = Inr (m # rest) \<and> checkLineageValid s (m # rest) t path' = Inr () \<and>
         iss = holder (n_grant m) \<and> grant_within prove (hd (effectiveDepths (m # rest))) (n_grant m) g \<and>
         length (m # rest) < MAX_LINEAGE_LENGTH \<and> depth = n_depth m + 1))"
proof (cases "lineage g")
  case (ROOT x)
  then show ?thesis using assms by (auto simp: checkGrantRegistration_def pm_has_def not_le)
next
  case (DELEGATION p iss)
  with assms obtain lin where lin: "resolveLineage s p (path @ ''.lineage.parent'') = Inr lin"
      "checkLineageValid s lin t (path @ ''.lineage.parent'') = Inr ()"
      "iss = holder (n_grant (hd lin))" "checkDelegationSubset (n_grant (hd lin)) g (hd (effectiveDepths lin)) prove = []"
      "length lin < MAX_LINEAGE_LENGTH" "depth = n_depth (hd lin) + 1"
    and here: "g_principal g = ls_principal s" "policy s \<noteq> None" "pm_get (nodes s) i = None" "t < expiresAt g"
    by (auto simp: checkGrantRegistration_def pm_has_def not_le rbind_eq_Inr Let_def split: if_splits)
  from resolve_from_hd [OF lin(1) [unfolded resolveLineage_def]] obtain m rest where "lin = m # rest" by blast
  then show ?thesis using lin here DELEGATION by (auto simp: checkDelegationSubset_within)
qed

lemma node_ok_mono:
  assumes "node_ok s n" "ls_principal s' = ls_principal s"
    "\<And>i m. pm_get (nodes s) i = Some m \<Longrightarrow> \<exists>m'. pm_get (nodes s') i = Some m' \<and> n_grant m' = n_grant m \<and> n_depth m' = n_depth m"
  shows "node_ok s' n"
proof (cases "lineage (n_grant n)")
  case (ROOT x)
  then show ?thesis using assms(1,2) by (simp add: node_ok_def)
next
  case (DELEGATION p iss)
  with assms(1) obtain m prove depth where m: "pm_get (nodes s) p = Some m" "n_depth n = n_depth m + 1" "iss = holder (n_grant m)"
      "grant_within prove depth (n_grant m) (n_grant n)" by (auto simp: node_ok_def)
  from assms(3) [OF m(1)] obtain m' where "pm_get (nodes s') p = Some m'" "n_grant m' = n_grant m" "n_depth m' = n_depth m" by blast
  then show ?thesis using assms(1,2) m DELEGATION by (auto simp: node_ok_def)
qed

lemma forest_same: "forest s \<Longrightarrow> nodes s' = nodes s \<Longrightarrow> ls_principal s' = ls_principal s \<Longrightarrow> forest s'"
  using node_ok_mono [of s _ s'] by (simp add: forest_def)

lemma apply_body_principal: "apply_body keccak order_fn s e v = Inr s' \<Longrightarrow> ls_principal s' = ls_principal s"
  by (cases e)
    (auto simp: applyRegisterPolicy_def applyRegisterGrant_def applyRevoke_def applyReserve_def applyConsume_def applyClose_def
      applyRestore_def applyAdmitAttempt_def set_reservation_def rbind_eq_Inr Let_def)

lemma apply_body_forest:
  assumes fo: "forest s" and ap: "apply_body keccak order_fn s e v = Inr s'"
  shows "forest s'"
proof -
  note pr = apply_body_principal [OF ap]
  show ?thesis
  proof (cases e)
    case (REGISTER_GRANT t g ps bs)
    with ap have "applyRegisterGrant keccak order_fn s g ps bs t v = Inr s'" by simp
    from applyRegisterGrant_nodes [OF this] obtain i n where n: "n_id n = i" "n_grant n = g" "pm_get (nodes s) i = None"
        "nodes s' = pm_set (nodes s) i n"
        and reg: "checkGrantRegistration s i g t ''grant'' (Some (committedProver order_fn ps)) = Inr (n_depth n)" by blast
    have keep: "\<exists>m'. pm_get (nodes s') j = Some m' \<and> n_grant m' = n_grant m \<and> n_depth m' = n_depth m"
      if "pm_get (nodes s) j = Some m" for j m using that n(3) by (auto simp: n(4))
    note ok = checkGrantRegistration_ok [OF reg]
    have "node_ok s n"
    proof (cases "lineage g")
      case (ROOT x)
      then show ?thesis using ok n(2) by (simp add: node_ok_def MAX_LINEAGE_LENGTH_def)
    next
      case (DELEGATION p iss)
      with ok obtain m rest path' where m: "resolveLineage s p path' = Inr (m # rest)" "iss = holder (n_grant m)"
          "grant_within (Some (committedProver order_fn ps)) (hd (effectiveDepths (m # rest))) (n_grant m) g"
          "length (m # rest) < MAX_LINEAGE_LENGTH" "n_depth n = n_depth m + 1" by auto
      from resolve_from_hd [OF m(1) [unfolded resolveLineage_def]] have get: "pm_get (nodes s) p = Some m" by simp
      from resolveLineage_total [OF fo get, of path'] m(1) have "length rest = n_depth m" by simp
      then show ?thesis using ok m get DELEGATION n(2) by (auto simp: node_ok_def)
    qed
    then have "node_ok s' n" using node_ok_mono pr keep by blast
    moreover have "node_ok s' m" if "pm_get (nodes s) j = Some m" for j m
      using node_ok_mono [of s m s'] fo that pr keep by (auto simp: forest_def)
    ultimately show ?thesis using fo n(1) by (auto simp: forest_def n(4) split: if_splits)
  next
    case (REVOKE t r)
    with ap have "applyRevoke keccak s r t v = Inr s'" by simp
    from applyRevoke_nodes [OF this] obtain n i where n: "pm_get (nodes s) (rv_target r) = Some n"
        "nodes s' = pm_set (nodes s) (n_id n) (n\<lparr>revokedAt := Some v, n_revocation := Some i\<rparr>)" by blast
    have id: "n_id n = rv_target r" using fo n(1) by (simp add: forest_def)
    have keep: "\<exists>m'. pm_get (nodes s') j = Some m' \<and> n_grant m' = n_grant m \<and> n_depth m' = n_depth m"
      if "pm_get (nodes s) j = Some m" for j m using that n(1) by (auto simp: n(2) id)
    have "node_ok s' m" if "node_ok s m" for m using node_ok_mono [OF that pr keep] .
    moreover have "node_ok s' (m\<lparr>revokedAt := x, n_revocation := y\<rparr>) = node_ok s' m" for m x y
      by (simp add: node_ok_def split: grant_lineage.split)
    ultimately show ?thesis using fo n(1) by (auto simp: forest_def n(2) id split: if_splits)
  next
    case (REGISTER_POLICY t p ps bs)
    then show ?thesis using ap pr fo applyRegisterPolicy_grown [of keccak order_fn s p ps bs v s'] by (auto intro: forest_same)
  next
    case (RESERVE t p lin pol legs)
    then show ?thesis using ap pr fo applyReserve_targets [of keccak s t p lin pol legs v s'] by (auto intro: forest_same)
  next
    case (CONSUME t a)
    then show ?thesis using ap pr fo accounting_targets [of s a s'] by (auto intro: forest_same)
  next
    case (CLOSE t a)
    then show ?thesis using ap pr fo accounting_targets [of s a s'] by (auto intro: forest_same)
  next
    case (RESTORE t a)
    then show ?thesis using ap pr fo accounting_targets [of s a s'] by (auto intro: forest_same)
  next
    case (ADMIT_ATTEMPT t a)
    then show ?thesis using ap pr fo applyAdmit_same [of keccak s a t v s'] by (auto intro: forest_same)
  qed
qed

interpretation authority: ledger_invariant keccak order_fn "\<lambda>_. True" forest for keccak order_fn
proof
  fix p h show "forest (empty_state p h)" by (simp add: forest_def empty_state_def)
next
  fix s e v s' assume "forest s" "apply_body keccak order_fn s e v = Inr s'"
  from apply_body_forest [OF this] show "forest (s'\<lparr>lastAt := Some (event_at e)\<rparr>)"
    by (rule forest_same) simp_all
next
  fix s v h assume "forest s"
  then show "forest (s\<lparr>version := v, head := h\<rparr>)" by (rule forest_same) simp_all
qed

section \<open>Valid lineages\<close>

definition live_node :: "ledger_state \<Rightarrow> int \<Rightarrow> node_record \<Rightarrow> bool" where
  "live_node s t n \<longleftrightarrow> g_principal (n_grant n) = ls_principal s \<and> revokedAt n = None \<and>
     notBefore (n_grant n) \<le> t \<and> t < expiresAt (n_grant n)"

text \<open>Leaf to root: every node is live, issued by the holder of the next, whose remaining depth allows it, up to a root of the principal's own.\<close>

fun valid_lineage :: "ledger_state \<Rightarrow> int \<Rightarrow> node_record list \<Rightarrow> bool" where
  "valid_lineage s t [] = True"
| "valid_lineage s t [n] = (live_node s t n \<and> lineage (n_grant n) = ROOT (ls_principal s))"
| "valid_lineage s t (n # p # ns) = (live_node s t n \<and> lineage (n_grant n) = DELEGATION (n_id p) (holder (n_grant p)) \<and>
     1 \<le> hd (effectiveDepths (p # ns)) \<and> valid_lineage s t (p # ns))"

lemma length_effectiveDepths [simp]: "length (effectiveDepths ns) = length ns"
  by (induction ns) (auto simp: Let_def)

lemma effectiveDepths_Cons: "\<exists>d. effectiveDepths (n # ns) = d # effectiveDepths ns"
  by (simp add: Let_def)

lemma check_lineage_valid: "check_lineage s t path lin (effectiveDepths lin) = Inr () \<longleftrightarrow> valid_lineage s t lin"
proof (induction lin rule: linked.induct)
  case (2 n)
  show ?case by (cases "lineage (n_grant n)") (auto simp: live_node_def rbind_eq_Inr Let_def not_less not_le)
next
  case (3 n p ns)
  obtain d where d: "effectiveDepths (n # p # ns) = d # effectiveDepths (p # ns)" using effectiveDepths_Cons by blast
  show ?case
    using 3 unfolding d
    by (cases "lineage (n_grant n)")
      (auto simp: live_node_def rbind_eq_Inr Let_def not_less not_le simp del: effectiveDepths.simps)
qed simp

lemma checkLineageValid_ok: "checkLineageValid s lin t path = Inr () \<longleftrightarrow> policy s \<noteq> None \<and> valid_lineage s t lin"
  by (auto simp: checkLineageValid_def check_lineage_valid)

end
