(* ===== verification/Ledger_Confinement.thy ===== *)
theory Ledger_Confinement
  imports Ledger_Authority
begin

text \<open>
  Authority along a lineage: a grant is confined by every grant above it, not only by its parent; and a revocation
  is final: a revoked node stays revoked, and nothing is reserved or admitted under it any more.
\<close>

section \<open>Confinement\<close>

text \<open>
  The window of the child is inside the parent's, its sets are subsets of the parent's sets, its rights are the
  parent's, and every bound of the parent is a bound of the child that is at least as tight.
\<close>

definition bound_within :: "action_bound \<Rightarrow> action_bound \<Rightarrow> bool" where
  "bound_within q x \<longleftrightarrow> polarity x = polarity q \<and> comparable_bounds (bound_value_of x) (bound_value_of q) \<and>
     (case polarity x of UpperBound \<Rightarrow> bound_rat (bound_value_of x) \<le> bound_rat (bound_value_of q)
       | LowerBound \<Rightarrow> bound_rat (bound_value_of q) \<le> bound_rat (bound_value_of x))"

definition confined :: "grant \<Rightarrow> grant \<Rightarrow> bool" where
  "confined par child \<longleftrightarrow>
     notBefore par \<le> notBefore child \<and> expiresAt child \<le> expiresAt par \<and>
     (\<forall>k x. terms_by_key (terms child) k = Some (SET x) \<longrightarrow> (\<exists>q. terms_by_key (terms par) k = Some (SET q) \<and> sets_within q x)) \<and>
     (\<forall>k r. terms_by_key (terms child) k = Some (RIGHT r) \<longrightarrow> (\<exists>d. r = DELEGATE d) \<or> (\<exists>q. terms_by_key (terms par) k = Some (RIGHT q))) \<and>
     (\<forall>k q. terms_by_key (terms par) k = Some (BOUND q) \<longrightarrow> (\<exists>x. terms_by_key (terms child) k = Some (BOUND x) \<and> bound_within q x))"

lemma sets_within_refl: "sets_within c c"
  by (cases c) simp_all

lemma sets_within_trans: "sets_within a b \<Longrightarrow> sets_within b c \<Longrightarrow> sets_within a c"
  by (cases a; cases b; cases c) auto

lemma comparable_trans: "comparable_bounds a b \<Longrightarrow> comparable_bounds b c \<Longrightarrow> comparable_bounds a c"
  by (cases a; cases b; cases c) (simp_all add: comparable_bounds_def)

lemma bound_within_refl: "bound_within q q"
  by (cases "bound_value_of q") (auto simp: bound_within_def comparable_bounds_def split: bound_polarity.splits)

lemma bound_within_trans: "bound_within a b \<Longrightarrow> bound_within b c \<Longrightarrow> bound_within a c"
  unfolding bound_within_def by (auto intro: comparable_trans split: bound_polarity.splits)

lemma confined_refl: "confined g g"
  by (auto simp: confined_def intro: sets_within_refl bound_within_refl)

lemma right_key: "termKey (RIGHT (DELEGATE d)) = termKey (RIGHT q) \<Longrightarrow> \<exists>e. q = DELEGATE e"
  by (cases q) (simp_all add: term_key_eq)

lemma confinedD:
  assumes "confined par child"
  shows "terms_by_key (terms child) k = Some (SET x) \<Longrightarrow> \<exists>q. terms_by_key (terms par) k = Some (SET q) \<and> sets_within q x"
    "terms_by_key (terms child) k = Some (RIGHT r) \<Longrightarrow> (\<exists>d. r = DELEGATE d) \<or> (\<exists>q. terms_by_key (terms par) k = Some (RIGHT q))"
    "terms_by_key (terms par) k = Some (BOUND q) \<Longrightarrow> \<exists>x. terms_by_key (terms child) k = Some (BOUND x) \<and> bound_within q x"
  using assms unfolding confined_def by blast+

lemma confined_trans:
  assumes "confined a b" "confined b c"
  shows "confined a c"
  unfolding confined_def
proof (intro conjI allI impI)
  fix k x assume "terms_by_key (terms c) k = Some (SET x)"
  then obtain y where y: "terms_by_key (terms b) k = Some (SET y)" "sets_within y x" using confinedD(1) [OF assms(2)] by blast
  then obtain z where "terms_by_key (terms a) k = Some (SET z)" "sets_within z y" using confinedD(1) [OF assms(1)] by blast
  then show "\<exists>q. terms_by_key (terms a) k = Some (SET q) \<and> sets_within q x" using y(2) by (blast intro: sets_within_trans)
next
  fix k r assume r: "terms_by_key (terms c) k = Some (RIGHT r)"
  consider (free) d where "r = DELEGATE d" | (held) q where "terms_by_key (terms b) k = Some (RIGHT q)"
    using confinedD(2) [OF assms(2) r] by blast
  then show "(\<exists>d. r = DELEGATE d) \<or> (\<exists>q. terms_by_key (terms a) k = Some (RIGHT q))"
  proof cases
    case held
    then consider d where "q = DELEGATE d" | z where "terms_by_key (terms a) k = Some (RIGHT z)"
      using confinedD(2) [OF assms(1) held] by blast
    then show ?thesis
    proof cases
      case 1
      have "termKey (RIGHT (DELEGATE d)) = termKey (RIGHT r)"
        using terms_by_key_Some [OF r] terms_by_key_Some [OF held] 1 by simp
      then show ?thesis using right_key by blast
    qed blast
  qed blast
next
  fix k q assume "terms_by_key (terms a) k = Some (BOUND q)"
  then obtain y where y: "terms_by_key (terms b) k = Some (BOUND y)" "bound_within q y" using confinedD(3) [OF assms(1)] by blast
  then obtain x where "terms_by_key (terms c) k = Some (BOUND x)" "bound_within y x" using confinedD(3) [OF assms(2)] by blast
  then show "\<exists>x. terms_by_key (terms c) k = Some (BOUND x) \<and> bound_within q x" using y(2) by (blast intro: bound_within_trans)
qed (use assms in \<open>auto simp: confined_def\<close>)

text \<open>A grant within its parent is confined by it.\<close>

lemma grant_within_confined:
  assumes w: "grant_within prove depth par child"
  shows "confined par child"
  unfolding confined_def
proof (intro conjI allI impI)
  have child: "case terms_by_key (terms par) k of None \<Rightarrow> free_term c | Some p \<Rightarrow> term_within prove p c"
    if "terms_by_key (terms child) k = Some c" for k c
    using w terms_by_key_Some [OF that] by (auto simp: grant_within_def)
  { fix k x assume x: "terms_by_key (terms child) k = Some (SET x)"
    from child [OF x] obtain p where p: "terms_by_key (terms par) k = Some p" "term_within prove p (SET x)"
      by (auto simp: free_term_def split: option.splits)
    then show "\<exists>q. terms_by_key (terms par) k = Some (SET q) \<and> sets_within q x"
      by (cases p) (auto simp: term_within_def) }
  { fix k r assume r: "terms_by_key (terms child) k = Some (RIGHT r)"
    show "(\<exists>d. r = DELEGATE d) \<or> (\<exists>q. terms_by_key (terms par) k = Some (RIGHT q))"
    proof (cases "terms_by_key (terms par) k")
      case None
      then show ?thesis using child [OF r] by (auto simp: free_term_def split: right_term.splits)
    next
      case (Some p)
      then show ?thesis using child [OF r] by (cases p) (auto simp: term_within_def)
    qed }
  { fix k q assume q: "terms_by_key (terms par) k = Some (BOUND q)"
    note q' = terms_by_key_Some [OF q]
    from w q' have "k \<in> termKey ` set (terms child)" by (auto simp: grant_within_def binding_term_def)
    then obtain c where c: "terms_by_key (terms child) k = Some c" using terms_by_key_None [of "terms child" k] by auto
    have within_q: "term_within prove (BOUND q) c" using child [OF c] q by simp
    then obtain x where x: "c = BOUND x" by (cases c) (auto simp: term_within_def)
    have "polarity x = polarity q" using terms_by_key_Some [OF c] q' x termKey_kind(3) [of "BOUND q" x] by auto
    then have "bound_within q x" using within_q x by (simp add: term_within_def bound_within_def)
    then show "\<exists>x. terms_by_key (terms child) k = Some (BOUND x) \<and> bound_within q x" using c x by blast }
qed (use w in \<open>auto simp: grant_within_def\<close>)

text \<open>Along a lineage the leaf is confined by every node.\<close>

lemma lineage_confined:
  assumes fo: "forest s"
  shows "resolve_from k s i path leaf = Inr lin \<Longrightarrow> m \<in> set lin \<Longrightarrow> confined (n_grant m) (n_grant (hd lin))"
proof (induction k arbitrary: i lin)
  case (Suc k)
  from resolve_from_hd [OF Suc.prems(1)] obtain n rest where lin: "lin = n # rest" and n: "pm_get (nodes s) i = Some n" by blast
  show ?case
  proof (cases "lineage (n_grant n)")
    case (ROOT x)
    then show ?thesis using Suc.prems n lin by (auto intro: confined_refl)
  next
    case (DELEGATION p iss)
    with Suc.prems(1) n lin have rest: "resolve_from k s p path leaf = Inr rest" by (auto simp: rbind_eq_Inr)
    from resolve_from_hd [OF rest] obtain pn ps where pn: "rest = pn # ps" "pm_get (nodes s) p = Some pn" by blast
    have "node_ok s n" using fo n by (auto simp: forest_def)
    then have "confined (n_grant pn) (n_grant n)" using DELEGATION pn(2) by (auto simp: node_ok_def intro: grant_within_confined)
    then show ?thesis
      using Suc.IH [OF rest] Suc.prems(2) lin pn(1) by (auto intro: confined_refl confined_trans)
  qed
qed (simp add: refuse_def)

section \<open>Revocation is final\<close>

definition revoked_in :: "string \<Rightarrow> ledger_state \<Rightarrow> bool" where
  "revoked_in i s \<longleftrightarrow> forest s \<and> (\<exists>n. pm_get (nodes s) i = Some n \<and> revokedAt n \<noteq> None)"

lemma apply_body_revoked:
  assumes rev: "revoked_in i s" and ap: "apply_body keccak order_fn s e v = Inr s'"
  shows "revoked_in i s'"
proof -
  from rev have fo: "forest s" and n: "\<exists>n. pm_get (nodes s) i = Some n \<and> revokedAt n \<noteq> None" by (simp_all add: revoked_in_def)
  have "\<exists>n. pm_get (nodes s') i = Some n \<and> revokedAt n \<noteq> None"
  proof (cases e)
    case (REGISTER_GRANT t g ps bs)
    with ap have "applyRegisterGrant keccak order_fn s g ps bs t v = Inr s'" by simp
    from applyRegisterGrant_nodes [OF this] obtain j m where "pm_get (nodes s) j = None" "nodes s' = pm_set (nodes s) j m" by blast
    then show ?thesis using n by auto
  next
    case (REVOKE t r)
    with ap have "applyRevoke keccak s r t v = Inr s'" by simp
    from applyRevoke_nodes [OF this] obtain m j where
      "nodes s' = pm_set (nodes s) (n_id m) (m\<lparr>revokedAt := Some v, n_revocation := Some j\<rparr>)" by blast
    then show ?thesis using n by auto
  next
    case (REGISTER_POLICY t p ps bs)
    then show ?thesis using n ap applyRegisterPolicy_grown [of keccak order_fn s p ps bs v s'] by auto
  next
    case (RESERVE t p lin pol legs)
    then show ?thesis using n ap applyReserve_targets [of keccak s t p lin pol legs v s'] by auto
  next
    case (CONSUME t a)
    then show ?thesis using n ap accounting_targets [of s a s'] by auto
  next
    case (CLOSE t a)
    then show ?thesis using n ap accounting_targets [of s a s'] by auto
  next
    case (RESTORE t a)
    then show ?thesis using n ap accounting_targets [of s a s'] by auto
  next
    case (ADMIT_ATTEMPT t a)
    then show ?thesis using n ap applyAdmit_same [of keccak s a t v s'] by auto
  qed
  then show ?thesis using apply_body_forest [OF fo ap] by (simp add: revoked_in_def)
qed

lemma revoked_cong: "nodes s' = nodes s \<Longrightarrow> ls_principal s' = ls_principal s \<Longrightarrow> revoked_in i s \<Longrightarrow> revoked_in i s'"
  by (auto simp: revoked_in_def intro: forest_same)

lemma apply_events_revoked:
  "revoked_in i s \<Longrightarrow> apply_events keccak order_fn v j es s = Inr s' \<Longrightarrow> revoked_in i s'"
proof (induction es arbitrary: j s)
  case (Cons e es)
  from Cons.prems(2) obtain s1 where "applyEvent keccak order_fn s e v = Inr s1"
      and rest: "apply_events keccak order_fn v (j + 1) es s1 = Inr s'" by (auto simp: rbind_eq_Inr map_sum_eq_Inr)
  then obtain s0 where "apply_body keccak order_fn s e v = Inr s0" "s1 = s0\<lparr>lastAt := Some (event_at e)\<rparr>"
    by (auto simp: applyEvent_def rbind_eq_Inr)
  moreover from this have "revoked_in i s0" using apply_body_revoked [OF Cons.prems(1)] by blast
  ultimately have "revoked_in i s1" by (intro revoked_cong [of s1 s0]) simp_all
  then show ?case using Cons.IH rest by blast
qed simp

lemma replay_from_revoked:
  "revoked_in i s \<Longrightarrow> replay_from keccak order_fn j bs s = Inr s' \<Longrightarrow> revoked_in i s'"
proof (induction bs arbitrary: j s)
  case (Cons b bs)
  from Cons.prems(2) obtain s1 x where ap: "applyBatch keccak order_fn s b = Inr (s1, x)"
      and rest: "replay_from keccak order_fn (j + 1) bs s1 = Inr s'" by (auto simp: rbind_eq_Inr map_sum_eq_Inr)
  from ap obtain s0 where "apply_events keccak order_fn (version s + 1) 0 b s = Inr s0"
      "nodes s1 = nodes s0" "ls_principal s1 = ls_principal s0"
    by (auto simp: applyBatch_def rbind_eq_Inr Let_def)
  then have "revoked_in i s1" using apply_events_revoked [OF Cons.prems(1)] by (blast intro: revoked_cong)
  then show ?case using Cons.IH rest by blast
qed simp

lemma valid_lineage_live: "valid_lineage s t lin \<Longrightarrow> n \<in> set lin \<Longrightarrow> live_node s t n"
  by (induction s t lin rule: valid_lineage.induct) auto

text \<open>Nothing is reserved or admitted through a lineage that holds a revoked node.\<close>

lemma reserve_live:
  assumes "applyReserve keccak s t plan lin pol legs v = Inr s'" "resolveLineage s (cpl_authority plan) path = Inr ns" "n \<in> set ns"
  shows "live_node s t n"
proof -
  obtain d where d: "deriveReservation keccak s plan t = Inr d" using applyReserve_effect [OF assms(1)] by blast
  have "resolve_from k s i p leaf = Inr xs \<Longrightarrow> resolve_from k s i p' leaf = Inr ys \<Longrightarrow> xs = ys" for k i p p' leaf xs ys
    by (induction k s i p leaf arbitrary: xs ys rule: resolve_from.induct)
      (fastforce simp: rbind_eq_Inr refuse_def split: option.splits grant_lineage.splits)+
  then have "dr_lineage d = ns"
    using deriveReservation_facts(3) [OF d] assms(2) unfolding resolveLineage_def by blast
  then show ?thesis using deriveReservation_facts(4) [OF d] assms(3) by (auto simp: checkLineageValid_ok intro: valid_lineage_live)
qed

end
