(* ===== verification/Ledger_Samples.thy ===== *)
theory Ledger_Samples
  imports Samples Ledger_Confinement
begin

text \<open>
  A ledger evaluated from genesis: a policy and a root grant are registered, six dollars are reserved under them,
  an attempt is admitted and four dollars are consumed. The witnesses of the ledger's properties are about it.
\<close>

definition usd_dimension :: "string \<Rightarrow> int \<Rightarrow> ledger_dimension" where
  "usd_dimension i n = \<lparr>dimensionId = i, limit = \<lparr>b_kind = CAPITAL, b_unit = ''USD'', b_decimals = 2, b_atoms = n\<rparr>,
     accounting = CAPACITY, restoration = AS_CHARGED, epoch = None, sign = UNSIGNED,
     scope = \<lparr>scope_asset = None, scope_market = None, scope_domain = None, scope_account = None\<rparr>\<rparr>"

definition sample_module :: module_ref where
  "sample_module = \<lparr>domainId = ''spot'', moduleId = ''spot-v1'', moduleVersion = 1, moduleDigest = zero_digest\<rparr>"

definition sample_policy :: principal_policy where
  "sample_policy = \<lparr>pp_principal = sample_party, pp_sequence = 1,
     pp_terms = [LEDGER_DIMENSION (usd_dimension ''all'' 5000)], pp_nonce = 1\<rparr>"

definition sample_grant :: grant where
  "sample_grant = \<lparr>lineage = ROOT sample_party, g_principal = sample_party, holder = sample_party, notBefore = 0, expiresAt = 1000,
     terms = [SET (MODULES [sample_module]), LEDGER_DIMENSION (usd_dimension ''trading'' 1000)], g_nonce = 1\<rparr>"

definition sample_contribution :: contribution where
  "sample_contribution = \<lparr>ct_quantity = \<lparr>q_kind = CAPITAL, q_unit = ''USD'', q_decimals = 0, q_atoms = 6, q_asset = None, q_valuation = None\<rparr>,
     ct_market = None, ct_account = None, required = True\<rparr>"

definition sample_plan :: charge_plan where
  "sample_plan = \<lparr>cpl_principal = sample_party, cpl_authority = zero_digest, actor = sample_party, cpl_action = zero_digest,
     cpl_generation = 1, cpl_module = sample_module, cpl_implementation = zero_digest, contributions = [sample_contribution]\<rparr>"

definition sample_attempt :: attempt_admission where
  "sample_attempt = \<lparr>attempt = zero_digest, ordinal = 1, at_reservation = zero_digest, at_generation = 1, at_action = zero_digest,
     at_authorization = zero_digest, at_module = sample_module,
     at_adapter = \<lparr>adapterId = ''adapter'', adapterVersion = 1, adapterDigest = zero_digest\<rparr>,
     venueAccount = \<lparr>r_domain = ''spot'', r_kind = ACCOUNT, r_localId = ''a1''\<rparr>,
     artifact = \<lparr>af_kind = ''order'', af_id = [1]\<rparr>, slot = None, validUntil = 100,
     at_requirements = zero_digest, at_revalidation = zero_digest\<rparr>"

definition sample_legs :: "event_leg list list" where
  "sample_legs = [[\<lparr>el_target = NODE zero_digest ''trading'', el_amount = 600, el_epoch = None\<rparr>,
     \<lparr>el_target = POLICY zero_digest ''all'', el_amount = 600, el_epoch = None\<rparr>]]"

definition sample_consumption :: accounting_event where
  "sample_consumption = \<lparr>ae_reservation = zero_digest, ae_generation = 1, evidence = zero_digest, amounts = [4]\<rparr>"

definition registrations :: "ledger_event list" where
  "registrations = [REGISTER_POLICY 10 sample_policy [] [], REGISTER_GRANT 10 sample_grant [] []]"

definition charges :: "ledger_event list" where
  "charges = [RESERVE 20 sample_plan [zero_digest] zero_digest sample_legs, ADMIT_ATTEMPT 25 sample_attempt,
     CONSUME 30 sample_consumption]"

section \<open>Identities and encodings\<close>

lemma batchHead_keccak0: "batchHead keccak0 bs = zero_digest"
proof -
  have "bytesToHex (replicate 32 0) = zero_digest" by code_simp
  then show ?thesis by (simp add: batchHead_def keccakDigest_def keccak0_def)
qed

lemma sample_genesis: "genesisHead keccak0 sample_party = Some zero_digest"
  by code_simp

lemma sample_policy_id: "principalPolicyId keccak0 sample_policy = Some zero_digest"
  by code_simp

lemma sample_grant_id: "authorityId keccak0 sample_grant = Some zero_digest"
  by code_simp

lemma sample_reservation_id: "planReservationId keccak0 sample_plan = Some zero_digest"
  by code_simp

lemma sample_attempt_id: "attemptIdFor keccak0 sample_attempt = Some zero_digest"
  by code_simp

lemma sample_dimension_id: "policyDimensionIdentity keccak0 (usd_dimension ''all'' 5000) = Some zero_digest"
  by code_simp

lemmas sample_ids = sample_genesis sample_policy_id sample_grant_id sample_reservation_id sample_attempt_id sample_dimension_id

lemma encode_registrations: "encodeBatch sample_party 1 zero_digest registrations \<noteq> None"
  by code_simp

lemma encode_charges: "encodeBatch sample_party 2 zero_digest charges \<noteq> None"
  by code_simp

section \<open>The events\<close>

definition after_policy :: ledger_state where
  "after_policy = (empty_state sample_party zero_digest)\<lparr>
     policy := Some \<lparr>pr_id = zero_digest, pr_policy = sample_policy, pr_bindings = [], pr_registeredAt = 1\<rparr>,
     targets := pm_set pm_empty (policyTargetKey zero_digest)
       (zeroBalance (POLICY zero_digest ''all'') PolicySource (usd_dimension ''all'' 5000))\<rparr>"

lemma sample_terms:
  "policyDimensions sample_policy = [usd_dimension ''all'' 5000]" "policyInvariants sample_policy = []"
  "grantDimensions sample_grant = [usd_dimension ''trading'' 1000]" "grantInvariants sample_grant = []"
  "dimensionId (usd_dimension i n) = i" "contributions sample_plan = [sample_contribution]"
  by (simp_all add: policyDimensions_def policyInvariants_def sample_policy_def sample_grant_def grantDimensions_def
      grantInvariants_def usd_dimension_def sample_plan_def map_filter_simps)

lemma empty_semantics:
  "checkBindingSet [] [] p q = Inr ()" "checkProofSet [] [] p = Inr ()" "checkProofsBound [] [] p = Inr ()" "canonicalScoped [] = Some []"
  by code_simp+

lemma register_policy: "applyRegisterPolicy keccak0 None (empty_state sample_party zero_digest) sample_policy [] [] 1 = Inr after_policy"
  by (simp add: applyRegisterPolicy_def sample_ids sample_terms empty_semantics checkPolicyBaseline_def policyDimsOf_def
      install_dimension_def policy_key_def after_policy_def empty_state_def partyIdsEqual_eq may_throw_def)
    (simp add: sample_policy_def)

definition sample_node :: node_record where
  "sample_node = \<lparr>n_id = zero_digest, n_grant = sample_grant, n_depth = 0, n_bindings = [], n_registeredAt = 1,
     revokedAt = None, n_revocation = None\<rparr>"

definition after_grant :: "ledger_state \<Rightarrow> ledger_state" where
  "after_grant s = s\<lparr>nodes := pm_set (nodes s) zero_digest sample_node,
     targets := pm_set (targets s) (nodeTargetKey zero_digest ''trading'')
       (zeroBalance (NODE zero_digest ''trading'') GrantSource (usd_dimension ''trading'' 1000))\<rparr>"

lemma register_grant:
  assumes "policy s \<noteq> None" "nodes s = pm_empty" "ls_principal s = sample_party"
  shows "applyRegisterGrant keccak0 None s sample_grant [] [] 10 1 = Inr (after_grant s)"
proof -
  have g: "lineage sample_grant = ROOT sample_party" "g_principal sample_grant = sample_party" "expiresAt sample_grant = 1000"
    by (simp_all add: sample_grant_def)
  have "checkGrantRegistration s zero_digest sample_grant 10 p prove = Inr 0" for p prove
    using assms by (simp add: checkGrantRegistration_def g partyIdsEqual_eq pm_has_def)
  then show ?thesis
    by (simp add: applyRegisterGrant_def sample_ids sample_terms empty_semantics may_throw_def g Let_def
      after_grant_def sample_node_def install_node_dimension_def)
qed

lemma sample_resolve: "pm_get (nodes s) zero_digest = Some sample_node \<Longrightarrow> resolveLineage s zero_digest p = Inr [sample_node]"
  by (simp add: resolveLineage_def MAX_LINEAGE_LENGTH_def sample_node_def sample_grant_def)

lemma sample_valid: "policy s \<noteq> None \<Longrightarrow> ls_principal s = sample_party \<Longrightarrow> 0 \<le> t \<Longrightarrow> t < 1000 \<Longrightarrow> checkLineageValid s [sample_node] t p = Inr ()"
  by (simp add: checkLineageValid_ok live_node_def sample_node_def sample_grant_def)

lemma sample_effective:
  "case effectiveAuthority [sample_node] sample_policy p [] of Inr eff \<Rightarrow> moduleAllowed eff sample_module | Inl _ \<Rightarrow> False"
  by code_simp

definition sample_leg :: "string \<Rightarrow> target_ref \<Rightarrow> ledger_dimension \<Rightarrow> leg_draft" where
  "sample_leg key ref d = \<lparr>ld_key = key, ld_ref = ref, ld_dimension = d, ld_amount = 600, ld_epoch = None\<rparr>"

definition trading :: leg_draft where
  "trading = sample_leg (nodeTargetKey zero_digest ''trading'') (NODE zero_digest ''trading'') (usd_dimension ''trading'' 1000)"

definition all_charges :: leg_draft where
  "all_charges = sample_leg (policyTargetKey zero_digest) (POLICY zero_digest ''all'') (usd_dimension ''all'' 5000)"

lemma sample_rescale: "rescaleExact 6 0 2 = Some 600" "rescaleExact 4 0 2 = Some 400"
  by (simp_all add: rescaleExact_Some)

lemma sample_legFor: "legFor key ref (usd_dimension i n) sample_contribution t p m = Inr (sample_leg key ref (usd_dimension i n))"
  by (simp add: legFor_def usd_dimension_def sample_contribution_def sample_rescale sample_leg_def need_def)

lemma sample_matches: "contributionMatches sample_contribution dmn (usd_dimension i n)"
  by (simp add: contributionMatches_def sample_contribution_def usd_dimension_def scopeMatches_def)

lemma sample_deriveLegs:
  "deriveLegs keccak0 [sample_node] zero_digest [usd_dimension ''all'' 5000] [sample_contribution] dmn t p = Inr [[trading, all_charges]]"
proof -
  have "List.map_filter dimension_of (terms (n_grant sample_node)) = [usd_dimension ''trading'' 1000]" "n_id sample_node = zero_digest"
    using sample_terms(3) by (simp_all add: sample_node_def grantDimensions_def)
  moreover have "dimensionId (usd_dimension i n) = i" for i n by (simp add: usd_dimension_def)
  ultimately show ?thesis
    by (simp add: deriveLegs_def contribution_legs_def node_legs_def policy_leg_def sample_matches sample_legFor sample_ids
        may_throw_def refuse_if_def trading_def all_charges_def)
qed

definition sample_record :: reservation where
  "sample_record = \<lparr>rs_id = zero_digest, rs_action = zero_digest, rs_generation = 1, rs_authority = zero_digest,
     rs_lineage = [zero_digest], rs_policy = zero_digest, rs_module = sample_module, rs_implementation = zero_digest,
     rs_committedAt = 2, rs_reservedAt = 20, rs_status = IsActive,
     demands = [demand_record sample_contribution [trading, all_charges]]\<rparr>"

definition balance_of :: "leg_draft \<Rightarrow> capacity_source \<Rightarrow> int \<Rightarrow> int \<Rightarrow> target_balance" where
  "balance_of l src r c = (zeroBalance (ld_ref l) src (ld_dimension l))\<lparr>tb_reserved := r, tb_consumed := c\<rparr>"

definition registered :: ledger_state where
  "registered = (after_grant (after_policy\<lparr>lastAt := Some 10\<rparr>))\<lparr>lastAt := Some 10, version := 1, head := zero_digest\<rparr>"

lemma registered_get:
  "pm_get (nodes registered) zero_digest = Some sample_node" "ls_principal registered = sample_party"
  "policy registered = Some \<lparr>pr_id = zero_digest, pr_policy = sample_policy, pr_bindings = [], pr_registeredAt = 1\<rparr>"
  "pm_get (targets registered) (nodeTargetKey zero_digest ''trading'') = Some (balance_of trading GrantSource 0 0)"
  "pm_get (targets registered) (policyTargetKey zero_digest) = Some (balance_of all_charges PolicySource 0 0)"
  "pm_get (reservations registered) k = None" "pm_get (actions registered) k = None" "pm_get (attempts registered) k = None"
  "pm_get (attemptArtifacts registered) k = None" "pm_get (reservationAttempts registered) k = None"
  "lastAt registered = Some 10" "version registered = 1" "head registered = zero_digest"
  by (simp_all add: registered_def after_grant_def after_policy_def empty_state_def balance_of_def trading_def all_charges_def
      sample_leg_def zeroBalance_def)

definition reserved_state :: ledger_state where
  "reserved_state = registered\<lparr>everReserved := True,
     targets := pm_set (pm_set (targets registered) (nodeTargetKey zero_digest ''trading'') (balance_of trading GrantSource 600 0))
       (policyTargetKey zero_digest) (balance_of all_charges PolicySource 600 0),
     reservations := pm_set (reservations registered) zero_digest sample_record,
     actions := pm_set (actions registered) zero_digest \<lparr>lastGeneration = 1, open_reservation = Some zero_digest\<rparr>,
     lastAt := Some 20\<rparr>"

lemma reserve_event: "applyEvent keccak0 None registered (RESERVE 20 sample_plan [zero_digest] zero_digest sample_legs) 2 = Inr reserved_state"
proof -
  obtain eff where eff: "effectiveAuthority [sample_node] sample_policy ''plan.authority'' [] = Inr eff" "moduleAllowed eff sample_module"
    using sample_effective [of "''plan.authority''"] by (auto split: sum.splits)
  have node: "n_id sample_node = zero_digest" "holder (n_grant sample_node) = sample_party" by (simp_all add: sample_node_def sample_grant_def)
  have plan: "cpl_principal sample_plan = sample_party" "cpl_authority sample_plan = zero_digest" "actor sample_plan = sample_party"
    "cpl_module sample_plan = sample_module" "cpl_action sample_plan = zero_digest" "cpl_generation sample_plan = 1"
    "cpl_implementation sample_plan = zero_digest"
    by (simp_all add: sample_plan_def)
  have derived: "deriveReservation keccak0 registered sample_plan 20 = Inr \<lparr>dr_reservation = zero_digest, dr_lineage = [sample_node],
      dr_effective = eff, dr_legs = [[trading, all_charges]]\<rparr>"
    by (simp add: deriveReservation_def plan partyIdsEqual_eq registered_get sample_resolve sample_valid eff sample_ids refuse_if_def pm_has_def may_throw_def
        policyDimsOf_def sample_terms sample_deriveLegs need_def node Let_def)
  have same: "sameLegs sample_legs [[trading, all_charges]]"
    by (simp add: sameLegs_def sample_legs_def same_leg_def sameTarget_def trading_def all_charges_def sample_leg_def)
  have avail: "checkAvailability registered [[trading, all_charges]] 20 p =
      Inr [(nodeTargetKey zero_digest ''trading'', 600), (policyTargetKey zero_digest, 600)]" for p
    by (simp add: checkAvailability_def demand_of_def add_leg_def trading_def all_charges_def sample_leg_def)
      (simp add: check_target_def refuse_if_def registered_get may_throw_def balance_of_def trading_def all_charges_def sample_leg_def
        zeroBalance_def UINT256_MAX_core_def availableOf_def usd_dimension_def)
  show ?thesis
    by (simp add: applyEvent_def refuse_if_def applyReserve_def derived registered_get may_throw_def same avail node plan sample_terms
        reserve_target_def balance_of_def zeroBalance_def reserved_state_def sample_record_def)
qed

definition admitted_state :: ledger_state where
  "admitted_state = reserved_state\<lparr>
     attempts := pm_set (attempts registered) zero_digest (admitted sample_attempt 2 25),
     attemptArtifacts := pm_set (attemptArtifacts registered) (artifactKey (artifact sample_attempt)) zero_digest,
     reservationAttempts := pm_set (reservationAttempts registered) zero_digest [zero_digest], lastAt := Some 25\<rparr>"

lemma sample_shape: "checkAdmissionShape sample_attempt ''admission'' = Inr ()"
  by code_simp

lemma admit_event: "applyEvent keccak0 None reserved_state (ADMIT_ATTEMPT 25 sample_attempt) 2 = Inr admitted_state"
proof -
  have a: "at_reservation sample_attempt = zero_digest" "at_generation sample_attempt = 1" "at_action sample_attempt = zero_digest"
    "at_module sample_attempt = sample_module" "ordinal sample_attempt = 1" "attempt sample_attempt = zero_digest"
    "slot sample_attempt = None" "validUntil sample_attempt = 100"
    by (simp_all add: sample_attempt_def)
  have r: "pm_get (reservations reserved_state) zero_digest = Some sample_record" "lastAt reserved_state = Some 20"
    "pm_get (nodes reserved_state) zero_digest = Some sample_node" "policy reserved_state \<noteq> None" "ls_principal reserved_state = sample_party"
    "pm_get (attempts reserved_state) k = None" "pm_get (attemptArtifacts reserved_state) k = None"
    "pm_get (reservationAttempts reserved_state) k = None"
    "attempts reserved_state = attempts registered" "attemptArtifacts reserved_state = attemptArtifacts registered"
    "attemptSlots reserved_state = attemptSlots registered" "reservationAttempts reserved_state = reservationAttempts registered" for k
    by (simp_all add: reserved_state_def registered_get)
  show ?thesis
    by (simp add: applyEvent_def applyAdmitAttempt_def refuse_if_def sample_shape a r need_def sample_record_def moduleRefsEqual_eq
        pm_has_def sample_ids may_throw_def sample_resolve sample_valid admitted_state_def registered_get Let_def)
qed

definition consumed_state :: ledger_state where
  "consumed_state = admitted_state\<lparr>
     targets := pm_set (pm_set (targets admitted_state) (nodeTargetKey zero_digest ''trading'') (balance_of trading GrantSource 200 400))
       (policyTargetKey zero_digest) (balance_of all_charges PolicySource 200 400),
     reservations := pm_set (reservations admitted_state) zero_digest
       (sample_record\<lparr>demands := [(demand_record sample_contribution [trading, all_charges])\<lparr>dm_consumed := 4\<rparr>]\<rparr>),
     lastAt := Some 30\<rparr>"

lemma consume_event: "applyEvent keccak0 None admitted_state (CONSUME 30 sample_consumption) 2 = Inr consumed_state"
proof -
  have r: "pm_get (reservations admitted_state) zero_digest = Some sample_record" "lastAt admitted_state = Some 25"
    "pm_get (targets admitted_state) (nodeTargetKey zero_digest ''trading'') = Some (balance_of trading GrantSource 600 0)"
    "pm_get (targets admitted_state) (policyTargetKey zero_digest) = Some (balance_of all_charges PolicySource 600 0)"
    by (simp_all add: admitted_state_def reserved_state_def)
  have c: "amounts sample_consumption = [4]" "ae_reservation sample_consumption = zero_digest" "ae_generation sample_consumption = 1"
    by (simp_all add: sample_consumption_def)
  have q: "q_atoms (ct_quantity sample_contribution) = 6" "q_decimals (ct_quantity sample_contribution) = 0"
    by (simp_all add: sample_contribution_def)
  have l: "legRecordOf trading = \<lparr>leg_key = nodeTargetKey zero_digest ''trading'', leg_ref = NODE zero_digest ''trading'', leg_decimals = 2,
      leg_capacity = True, leg_epoch = None\<rparr>"
    "legRecordOf all_charges = \<lparr>leg_key = policyTargetKey zero_digest, leg_ref = POLICY zero_digest ''all'', leg_decimals = 2,
      leg_capacity = True, leg_epoch = None\<rparr>"
    by (simp_all add: legRecordOf_def trading_def all_charges_def sample_leg_def usd_dimension_def)
  have rec: "rs_generation sample_record = 1" "rs_status sample_record = IsActive" "rs_id sample_record = zero_digest"
    "demands sample_record = [demand_record sample_contribution [trading, all_charges]]"
    by (simp_all add: sample_record_def)
  have "reservationFor admitted_state sample_consumption = Inr sample_record"
    by (simp add: reservationFor_Inr r c rec)
  then show ?thesis
    by (simp add: applyEvent_def applyConsume_def refuse_if_def r c rec consume_demand_def q forEachLeg_def leg_update_def l
        sample_rescale need_def may_throw_def consume_balance_def balance_of_def zeroBalance_def UINT256_MAX_core_def consume_epoch_def
        consumed_state_def set_reservation_def)
qed

text \<open>The other ending: the grant is revoked.\<close>

definition sample_revocation :: revocation where
  "sample_revocation = \<lparr>rv_target = zero_digest, rv_issuer = sample_party, effectiveAt = 12, rv_nonce = 1\<rparr>"

definition revoked_ledger :: ledger_state where
  "revoked_ledger = registered\<lparr>nodes := pm_set (nodes registered) zero_digest
     (sample_node\<lparr>revokedAt := Some 2, n_revocation := Some zero_digest\<rparr>), lastAt := Some 15, version := 2, head := zero_digest\<rparr>"

lemma sample_revocation_id: "revocationId keccak0 sample_revocation = Some zero_digest"
  by code_simp

lemma encode_revocation: "encodeBatch sample_party 2 zero_digest [REVOKE 15 sample_revocation] \<noteq> None"
  by code_simp

lemma revoke_event: "applyRevoke keccak0 registered sample_revocation 15 2 =
    Inr (registered\<lparr>nodes := pm_set (nodes registered) zero_digest (sample_node\<lparr>revokedAt := Some 2, n_revocation := Some zero_digest\<rparr>)\<rparr>)"
proof -
  have rv: "rv_target sample_revocation = zero_digest" "effectiveAt sample_revocation = 12" "rv_issuer sample_revocation = sample_party"
    by (simp_all add: sample_revocation_def)
  have n: "revokedAt sample_node = None" "lineage (n_grant sample_node) = ROOT sample_party" "n_id sample_node = zero_digest"
    by (simp_all add: sample_node_def sample_grant_def)
  have "checkRevocation registered sample_revocation 15 p = Inr ()" for p
    by (simp add: checkRevocation_def rv sample_resolve registered_get n partyIdsEqual_eq)
  then show ?thesis
    by (simp add: applyRevoke_def rv registered_get may_throw_def sample_revocation_id n)
qed

section \<open>The batches\<close>

definition sample_ledger :: ledger_state where
  "sample_ledger = consumed_state\<lparr>version := 2, head := zero_digest\<rparr>"

lemma first_batch: "\<exists>b. applyBatch keccak0 None (empty_state sample_party zero_digest) registrations = Inr (registered, b)"
proof -
  obtain b where b: "encodeBatch sample_party 1 zero_digest registrations = Some b" using encode_registrations by blast
  have "lastAt (empty_state sample_party zero_digest) = None" by (simp add: empty_state_def)
  moreover have "applyRegisterGrant keccak0 None (after_policy\<lparr>lastAt := Some 10\<rparr>) sample_grant [] [] 10 1 =
      Inr (after_grant (after_policy\<lparr>lastAt := Some 10\<rparr>))"
    by (rule register_grant) (simp_all add: after_policy_def empty_state_def)
  ultimately have "apply_events keccak0 None 1 0 registrations (empty_state sample_party zero_digest) = Inr (registered\<lparr>version := 0\<rparr>)"
    by (simp add: registrations_def applyEvent_def refuse_if_def register_policy)
      (simp add: registered_def after_grant_def after_policy_def empty_state_def)
  then show ?thesis
    using b by (simp add: applyBatch_def refuse_if_def MAX_BATCH_EVENTS_def may_throw_def batchHead_keccak0 empty_state_def registered_get)
      (simp add: registered_def registrations_def)
qed

lemma second_batch: "\<exists>b. applyBatch keccak0 None registered charges = Inr (sample_ledger, b)"
proof -
  obtain b where b: "encodeBatch sample_party 2 zero_digest charges = Some b" using encode_charges by blast
  have "apply_events keccak0 None 2 0 charges registered = Inr consumed_state"
    by (simp add: charges_def reserve_event admit_event consume_event)
  then show ?thesis
    using b by (simp add: applyBatch_def refuse_if_def MAX_BATCH_EVENTS_def may_throw_def batchHead_keccak0 registered_get sample_ledger_def)
      (simp add: charges_def)
qed

lemma revoking_batch: "\<exists>b. applyBatch keccak0 None registered [REVOKE 15 sample_revocation] = Inr (revoked_ledger, b)"
proof -
  obtain b where b: "encodeBatch sample_party 2 zero_digest [REVOKE 15 sample_revocation] = Some b" using encode_revocation by blast
  have "applyEvent keccak0 None registered (REVOKE 15 sample_revocation) 2 = Inr (revoked_ledger\<lparr>version := 1\<rparr>)"
    by (simp add: applyEvent_def refuse_if_def registered_get revoke_event revoked_ledger_def)
  then show ?thesis
    using b by (simp add: applyBatch_def refuse_if_def MAX_BATCH_EVENTS_def may_throw_def batchHead_keccak0 registered_get)
      (simp add: revoked_ledger_def)
qed

lemma replay_two:
  "applyBatch keccak0 None registered es = Inr (s, b) \<Longrightarrow> replay_ledger keccak0 None sample_party [registrations, es] = Inr s"
  using first_batch by (auto simp: replay_ledger_def emptyLedgerState_def sample_ids may_throw_def)

lemma sample_replay: "replay_ledger keccak0 None sample_party [registrations, charges] = Inr sample_ledger"
  using second_batch replay_two by blast

lemma revoked_replay: "replay_ledger keccak0 None sample_party [registrations, [REVOKE 15 sample_revocation]] = Inr revoked_ledger"
  using revoking_batch replay_two by blast

lemma sample_ledger_get:
  "pm_get (targets sample_ledger) (nodeTargetKey zero_digest ''trading'') = Some (balance_of trading GrantSource 200 400)"
  "pm_get (reservations sample_ledger) zero_digest =
     Some (sample_record\<lparr>demands := [(demand_record sample_contribution [trading, all_charges])\<lparr>dm_consumed := 4\<rparr>]\<rparr>)"
  "pm_get (attempts sample_ledger) zero_digest = Some (admitted sample_attempt 2 25)"
  "pm_get (nodes sample_ledger) zero_digest = Some sample_node" "lastAt sample_ledger = Some 30" "version sample_ledger = 2"
  "pm_get (actions sample_ledger) zero_digest = Some \<lparr>lastGeneration = 1, open_reservation = Some zero_digest\<rparr>"
  by (simp_all add: sample_ledger_def consumed_state_def admitted_state_def reserved_state_def registered_get)

end
