(* ===== verification/Gate.thy ===== *)
theory Gate
  imports Authorization
begin

text \<open>
  The reference model of the execution gate (\<open>packages/execution-gate/src\<close>): the structs it is called with and their
  encodings (\<open>wire.ts\<close>), its refusals (\<open>errors.ts\<close>), scales (\<open>scale.ts\<close>), the execution commitment
  (\<open>commitment.ts\<close>) and its decisions before and after the venue is called (\<open>model.ts\<close>). It asks the kernel's decoders
  and signature rule; Keccak-256 and key recovery are the kernel's parameters.
\<close>

section \<open>Refusals (errors.ts)\<close>

datatype (plugins only: code) gate_error =
    WrongChain | ExecutionProfileExceeded | UnsupportedMandateVersion | MalformedMandate | PrincipalSignatureInvalid
  | MalformedCandidate | UnsupportedRepresentation | AgentSignatureInvalid | MandateNotYetActive | MandateExpired
  | ExecutionDeadlinePassed | MandateAlreadyConsumed | AgentMismatch | SideMismatch | CanonicalAssetMismatch
  | RepresentationAssetMismatch | ChainMismatch | ChainNotAllowed | VenueMismatch | VenueNotAllowed | IssuerMismatch
  | IssuerNotAllowed | SyntheticNotAllowed | QuantityUnitMismatch | ZeroQuantity | SettlementUnitMismatch
  | EconomicUnitMismatch | FixturePriceMismatch | NotionalOutOfRange | NotionalInconsistent | MaxNotionalExceeded
  | DeclaredEconomicValueOutOfRange | DeclaredTotalDebitExceeded | DeclaredFeesExceedNotional
  | DeclaredTotalCreditBelowMinimum | RecipientNotPrincipal | FundingLimitExceedsMandate | FundingLimitBelowMandate
  | TokenDecimalsChanged | DebitExceedsLimit | CreditBelowMinimum | DebitNotExact | CreditNotExact
  | InvalidMarket | RealMarketStateSourceRequired | FixturePriceNotRepresentable

definition GATE_ERRORS :: "(gate_error \<times> string \<times> string list) list" where
  "GATE_ERRORS = [
     (WrongChain, ''WrongChain'', []), (ExecutionProfileExceeded, ''ExecutionProfileExceeded'', []),
     (UnsupportedMandateVersion, ''UnsupportedMandateVersion'', []), (MalformedMandate, ''MalformedMandate'', []),
     (PrincipalSignatureInvalid, ''PrincipalSignatureInvalid'', []), (MalformedCandidate, ''MalformedCandidate'', []),
     (UnsupportedRepresentation, ''UnsupportedRepresentation'', []), (AgentSignatureInvalid, ''AgentSignatureInvalid'', []),
     (MandateNotYetActive, ''MandateNotYetActive'', []), (MandateExpired, ''MandateExpired'', []),
     (ExecutionDeadlinePassed, ''ExecutionDeadlinePassed'', []), (MandateAlreadyConsumed, ''MandateAlreadyConsumed'', []),
     (AgentMismatch, ''AgentMismatch'', []), (SideMismatch, ''SideMismatch'', []),
     (CanonicalAssetMismatch, ''CanonicalAssetMismatch'', []),
     (RepresentationAssetMismatch, ''RepresentationAssetMismatch'', []), (ChainMismatch, ''ChainMismatch'', []),
     (ChainNotAllowed, ''ChainNotAllowed'', []), (VenueMismatch, ''VenueMismatch'', []),
     (VenueNotAllowed, ''VenueNotAllowed'', []), (IssuerMismatch, ''IssuerMismatch'', []),
     (IssuerNotAllowed, ''IssuerNotAllowed'', []), (SyntheticNotAllowed, ''SyntheticNotAllowed'', []),
     (QuantityUnitMismatch, ''QuantityUnitMismatch'', []), (ZeroQuantity, ''ZeroQuantity'', []),
     (SettlementUnitMismatch, ''SettlementUnitMismatch'', []), (EconomicUnitMismatch, ''EconomicUnitMismatch'', []),
     (FixturePriceMismatch, ''FixturePriceMismatch'', []), (NotionalOutOfRange, ''NotionalOutOfRange'', []),
     (NotionalInconsistent, ''NotionalInconsistent'', [''uint256'', ''uint256'', ''uint256'']),
     (MaxNotionalExceeded, ''MaxNotionalExceeded'', []),
     (DeclaredEconomicValueOutOfRange, ''DeclaredEconomicValueOutOfRange'', []),
     (DeclaredTotalDebitExceeded, ''DeclaredTotalDebitExceeded'', []),
     (DeclaredFeesExceedNotional, ''DeclaredFeesExceedNotional'', []),
     (DeclaredTotalCreditBelowMinimum, ''DeclaredTotalCreditBelowMinimum'', []),
     (RecipientNotPrincipal, ''RecipientNotPrincipal'', []),
     (FundingLimitExceedsMandate, ''FundingLimitExceedsMandate'', [''uint256'', ''uint256'']),
     (FundingLimitBelowMandate, ''FundingLimitBelowMandate'', [''uint256'', ''uint256'']),
     (TokenDecimalsChanged, ''TokenDecimalsChanged'', [''address'']),
     (DebitExceedsLimit, ''DebitExceedsLimit'', [''uint256'', ''uint256'']),
     (CreditBelowMinimum, ''CreditBelowMinimum'', [''uint256'', ''uint256'']),
     (DebitNotExact, ''DebitNotExact'', [''uint256'', ''uint256'']),
     (CreditNotExact, ''CreditNotExact'', [''uint256'', ''uint256'']),
     (InvalidMarket, ''InvalidMarket'', []), (RealMarketStateSourceRequired, ''RealMarketStateSourceRequired'', []),
     (FixturePriceNotRepresentable, ''FixturePriceNotRepresentable'', [])]"

text \<open>A refusal of the gate with its arguments, or an exception of the model.\<close>

datatype gate_failure = Rejected gate_error "int list" | Thrown

type_synonym 'a gate_result = "gate_failure + 'a"

definition reject :: "gate_error \<Rightarrow> int list \<Rightarrow> 'a gate_result" where
  "reject e args = Inl (Rejected e args)"

definition reject_if :: "bool \<Rightarrow> gate_error \<Rightarrow> 'a gate_result \<Rightarrow> 'a gate_result" where
  "reject_if b e x = (if b then reject e [] else x)"

definition unless_thrown :: "'a option \<Rightarrow> 'a gate_result" where
  "unless_thrown x = (case x of None \<Rightarrow> Inl Thrown | Some y \<Rightarrow> Inr y)"

fun comma_list :: "string list \<Rightarrow> string" where
  "comma_list [] = []"
| "comma_list [t] = t"
| "comma_list (t # u # ts) = t @ '','' @ comma_list (u # ts)"

definition errorSignature :: "string \<Rightarrow> string list \<Rightarrow> string" where
  "errorSignature name argTypes = name @ ''('' @ comma_list argTypes @ '')''"

definition selectorOf :: "(u8 list \<Rightarrow> u8 list) \<Rightarrow> string \<Rightarrow> string" where
  "selectorOf keccak sig = bytesToHex (take 4 (keccak (text_encode sig)))"

text \<open>The digits of \<open>toString(16)\<close>, padded to a word of 64.\<close>

fun hex_str :: "nat \<Rightarrow> string" where
  "hex_str n = (if n < 16 then [hex_digit n] else hex_str (n div 16) @ [hex_digit (n mod 16)])"

declare hex_str.simps [simp del]

definition revert_word :: "int \<Rightarrow> string option" where
  "revert_word v = (if v < 0 \<or> v \<ge> 2 ^ 256 then None
     else let s = hex_str (nat v) in Some (replicate (64 - length s) CHR ''0'' @ s))"

definition encodeRevert :: "(u8 list \<Rightarrow> u8 list) \<Rightarrow> string \<Rightarrow> int list \<Rightarrow> string option" where
  "encodeRevert keccak sig args = map_option (\<lambda>ws. selectorOf keccak sig @ concat ws) (those (map revert_word args))"

definition gateRevertData :: "(u8 list \<Rightarrow> u8 list) \<Rightarrow> gate_error \<Rightarrow> int list \<Rightarrow> string option" where
  "gateRevertData keccak e args = (case map_of GATE_ERRORS e of
     None \<Rightarrow> None
   | Some (name, types) \<Rightarrow>
       if length types \<noteq> length args then None else encodeRevert keccak (errorSignature name types) args)"

section \<open>Structs and their bytes (wire.ts)\<close>

record gate_mandate =
  gm_version :: int
  gm_mandateId :: string
  gm_nonce :: int
  gm_principal :: string
  gm_agent :: string
  gm_canonicalAsset :: asset_id
  gm_side :: int
  gm_maxNotional :: amount
  gm_economicLimit :: amount
  gm_maxDeviationBps :: int
  gm_syntheticPolicy :: int
  gm_allowedIssuers :: "string list"
  gm_allowedChains :: "string list"
  gm_allowedVenues :: "string list"
  gm_requiredCorporateActionEpoch :: int
  gm_maxPriceAgeSeconds :: int
  gm_maxCorporateActionAgeSeconds :: int
  gm_haltPolicy :: int
  gm_createdAt :: int
  gm_notBefore :: int
  gm_expiresAt :: int

record gate_candidate =
  gc_version :: int
  gc_representationId :: string
  gc_canonicalAsset :: asset_id
  gc_issuer :: string
  gc_chain :: string
  gc_venue :: string
  gc_side :: int
  gc_agent :: string
  gc_quantity :: amount
  gc_executionPrice :: price
  gc_notional :: amount
  gc_feeTotal :: amount
  gc_evaluationStateId :: string
  gc_evaluationStateDigest :: string
  gc_registrySnapshotDigest :: string
  gc_corporateActionEpoch :: int

record gate_terms =
  gt_recipient :: string
  gt_fundingLimit :: int
  gt_deadline :: int
  gt_executionData :: string

definition write_address :: "string \<Rightarrow> u8 list option" where
  "write_address a = wcat [wr_str PARTY_KIND_EIP155_ADDRESS, wr_str a]"

definition writeSetAsGiven :: "string list \<Rightarrow> u8 list option" where
  "writeSetAsGiven values = wcat (wr_u16 (int (length values)) # map wr_str values)"

text \<open>On the hexadecimal text of 32 bytes, which is what the fields of the structs hold.\<close>

definition hexToBytes32 :: "string \<Rightarrow> u8 list" where
  "hexToBytes32 h = hex_pairs (take 64 (drop 2 h))"

definition encodeGateMandate :: "gate_mandate \<Rightarrow> u8 list option" where
  "encodeGateMandate m = wcat [
     wr_tag MANDATE_TAG, wr_u16 (gm_version m),
     wr_bytes32 (hexToBytes32 (gm_mandateId m)),
     wr_u64 (gm_nonce m),
     write_address (gm_principal m),
     write_address (gm_agent m),
     writeAsset (gm_canonicalAsset m),
     wr_u8 (gm_side m),
     writeAmount (gm_maxNotional m),
     writeAmount (gm_economicLimit m),
     wr_u16 (gm_maxDeviationBps m),
     wr_u8 (gm_syntheticPolicy m),
     writeSetAsGiven (gm_allowedIssuers m),
     writeSetAsGiven (gm_allowedChains m),
     writeSetAsGiven (gm_allowedVenues m),
     wr_u64 (gm_requiredCorporateActionEpoch m),
     wr_u32 (gm_maxPriceAgeSeconds m),
     wr_u32 (gm_maxCorporateActionAgeSeconds m),
     wr_u8 (gm_haltPolicy m),
     wr_i64 (gm_createdAt m),
     wr_i64 (gm_notBefore m),
     wr_i64 (gm_expiresAt m)]"

definition encodeGateCandidate :: "gate_candidate \<Rightarrow> u8 list option" where
  "encodeGateCandidate c = wcat [
     wr_tag CANDIDATE_TAG, wr_u16 (gc_version c),
     wr_str (gc_representationId c),
     writeAsset (gc_canonicalAsset c),
     wr_str (gc_issuer c), wr_str (gc_chain c), wr_str (gc_venue c),
     wr_u8 (gc_side c),
     write_address (gc_agent c),
     writeAmount (gc_quantity c),
     writePrice (gc_executionPrice c),
     writeAmount (gc_notional c),
     writeAmount (gc_feeTotal c),
     wr_str (gc_evaluationStateId c),
     wr_bytes32 (hexToBytes32 (gc_evaluationStateDigest c)),
     wr_bytes32 (hexToBytes32 (gc_registrySnapshotDigest c)),
     wr_u64 (gc_corporateActionEpoch c)]"

fun gate_side_code :: "side \<Rightarrow> int" where "gate_side_code BUY = 1" | "gate_side_code SELL = 2"
fun gate_synthetic_code :: "synthetic_policy \<Rightarrow> int" where "gate_synthetic_code FORBIDDEN = 1" | "gate_synthetic_code ALLOWED = 2"
fun gate_halt_code :: "halt_policy \<Rightarrow> int" where "gate_halt_code FORBID_WHEN_HALTED = 1" | "gate_halt_code ALLOW_WHEN_HALTED = 2"

definition toGateMandate :: "mandate \<Rightarrow> gate_mandate option" where
  "toGateMandate m =
     (if kind (m_principal m) \<noteq> PARTY_KIND_EIP155_ADDRESS \<or> kind (m_agent m) \<noteq> PARTY_KIND_EIP155_ADDRESS then None
      else Some \<lparr>gm_version = m_version m, gm_mandateId = m_mandateId m, gm_nonce = m_nonce m,
        gm_principal = party_value (m_principal m), gm_agent = party_value (m_agent m),
        gm_canonicalAsset = m_canonicalAsset m, gm_side = gate_side_code (m_side m), gm_maxNotional = m_maxNotional m,
        gm_economicLimit = m_economicLimit m, gm_maxDeviationBps = m_maxDeviationBps m,
        gm_syntheticPolicy = gate_synthetic_code (m_syntheticPolicy m), gm_allowedIssuers = m_allowedIssuers m,
        gm_allowedChains = m_allowedChains m, gm_allowedVenues = m_allowedVenues m,
        gm_requiredCorporateActionEpoch = m_requiredCorporateActionEpoch m,
        gm_maxPriceAgeSeconds = m_maxPriceAgeSeconds m, gm_maxCorporateActionAgeSeconds = m_maxCorporateActionAgeSeconds m,
        gm_haltPolicy = gate_halt_code (m_haltPolicy m), gm_createdAt = m_createdAtUnixSeconds m,
        gm_notBefore = m_notBeforeUnixSeconds m, gm_expiresAt = m_expiresAtUnixSeconds m\<rparr>)"

definition toGateCandidate :: "candidate \<Rightarrow> gate_candidate option" where
  "toGateCandidate c =
     (if kind (c_agent c) \<noteq> PARTY_KIND_EIP155_ADDRESS then None
      else Some \<lparr>gc_version = c_version c, gc_representationId = c_representationId c,
        gc_canonicalAsset = c_canonicalAsset c, gc_issuer = c_issuer c, gc_chain = c_chain c, gc_venue = c_venue c,
        gc_side = gate_side_code (c_side c), gc_agent = party_value (c_agent c), gc_quantity = c_quantity c,
        gc_executionPrice = c_executionPrice c, gc_notional = c_notional c, gc_feeTotal = c_feeTotal c,
        gc_evaluationStateId = c_evaluationStateId c, gc_evaluationStateDigest = c_evaluationStateDigest c,
        gc_registrySnapshotDigest = c_registrySnapshotDigest c, gc_corporateActionEpoch = c_corporateActionEpoch c\<rparr>)"

section \<open>Scales (scale.ts)\<close>

definition floorToScale :: "int \<Rightarrow> int \<Rightarrow> int \<Rightarrow> int" where
  "floorToScale n fromDecimals toDecimals =
     (if toDecimals \<ge> fromDecimals then
        (let scaled = n * pow10 (toDecimals - fromDecimals) in if scaled > UINT256_MAX then UINT256_MAX else scaled)
      else big_div n (pow10 (fromDecimals - toDecimals)))"

definition ceilToScale :: "int \<Rightarrow> int \<Rightarrow> int \<Rightarrow> int option" where
  "ceilToScale n fromDecimals toDecimals =
     (if toDecimals \<ge> fromDecimals then
        (let scaled = n * pow10 (toDecimals - fromDecimals) in if scaled > UINT256_MAX then None else Some scaled)
      else let divisor = pow10 (fromDecimals - toDecimals); q = big_div n divisor
        in Some (if big_mod n divisor = 0 then q else q + 1))"

section \<open>The commitment (commitment.ts)\<close>

definition EXECUTION_AUTHORIZATION_TYPE :: string where
  "EXECUTION_AUTHORIZATION_TYPE = ''ExecutionAuthorization(bytes32 mandateDigest,bytes32 candidateDigest,address recipient,uint256 fundingLimit,uint64 deadline,bytes executionData)''"

definition gateDomain :: "int \<Rightarrow> string \<Rightarrow> eip712_domain" where
  "gateDomain cid gate = \<lparr>d_name = ''Mandate'', d_version = ''1'', chainId = cid, verifyingContract = gate\<rparr>"

definition caip2 :: "int \<Rightarrow> string" where
  "caip2 cid = ''eip155:'' @ int_str cid"

definition representationIdFor :: "int \<Rightarrow> string \<Rightarrow> string" where
  "representationIdFor cid token = caip2 cid @ ''/erc20:'' @ token"

definition executionCommitment :: "(u8 list \<Rightarrow> u8 list) \<Rightarrow> string \<Rightarrow> string \<Rightarrow> gate_terms \<Rightarrow> string option" where
  "executionCommitment keccak md cd t = (case (hexToBytes md, hexToBytes cd, hexToBytes (gt_executionData t)) of
     (Some m, Some c, Some d) \<Rightarrow> Some (bytesToHex (keccak (concat [
        keccak (text_encode EXECUTION_AUTHORIZATION_TYPE), m, c, abi_word (BigInt_hex (gt_recipient t)),
        abi_word (gt_fundingLimit t), abi_word (gt_deadline t), keccak d])))
   | _ \<Rightarrow> None)"

definition eip712Hash :: "(u8 list \<Rightarrow> u8 list) \<Rightarrow> eip712_domain \<Rightarrow> string \<Rightarrow> u8 list option" where
  "eip712Hash keccak dm structHash = map_option (\<lambda>h. keccak (concat [[0x19, 0x01], domainSeparator keccak dm, h])) (hexToBytes structHash)"

section \<open>Decisions (model.ts)\<close>

definition IDENTIFIER_BYTES :: nat where "IDENTIFIER_BYTES = 128"
definition MAX_PROFILE_SET_SIZE :: nat where "MAX_PROFILE_SET_SIZE = 16"
definition MAX_EXECUTION_DATA_BYTES :: nat where "MAX_EXECUTION_DATA_BYTES = 4096"

record gate_market =
  gk_representation :: string
  gk_fundingToken :: string
  gk_adapter :: string
  gk_representationDecimals :: int
  gk_fundingDecimals :: int
  gk_canonicalAsset :: asset_id
  gk_issuer :: string
  gk_venue :: string
  gk_quantityUnit :: string
  gk_settlementUnit :: string
  gk_synthetic :: bool
  gk_fixturePrice :: price

record gate_deployment =
  gd_chainId :: int
  gd_gate :: string
  gd_markets :: "gate_market list"

record gate_attempt =
  ga_mandate :: gate_mandate
  ga_principalSignature :: string
  ga_candidate :: gate_candidate
  ga_terms :: gate_terms
  ga_agentSignature :: string

record chain_context =
  cc_chainId :: int
  cc_timestamp :: int
  cc_consumed :: "string set"
  cc_tokenDecimals :: "string \<Rightarrow> int option"

record execution_plan =
  xp_mandateDigest :: string
  xp_candidateDigest :: string
  xp_commitment :: string
  xp_market :: gate_market
  xp_side :: side
  xp_principal :: string
  xp_agent :: string
  xp_recipient :: string
  xp_inputToken :: string
  xp_outputToken :: string
  xp_inputAmount :: int
  xp_minOutput :: int
  xp_exactQuantity :: int

text \<open>\<open>(length - 2) / 2 > MAX_EXECUTION_DATA_BYTES\<close>.\<close>

definition data_exceeds :: "gate_terms \<Rightarrow> bool" where
  "data_exceeds t \<longleftrightarrow> int (js_length (gt_executionData t)) - 2 > 2 * int MAX_EXECUTION_DATA_BYTES"

definition validateExecutionProfile :: "gate_mandate \<Rightarrow> gate_terms \<Rightarrow> unit gate_result" where
  "validateExecutionProfile m t =
     reject_if (length (gm_allowedIssuers m) > MAX_PROFILE_SET_SIZE \<or> length (gm_allowedChains m) > MAX_PROFILE_SET_SIZE \<or>
       length (gm_allowedVenues m) > MAX_PROFILE_SET_SIZE \<or> data_exceeds t) ExecutionProfileExceeded (Inr ())"

definition recoverSigner :: "(u8 list \<Rightarrow> u8 list) \<Rightarrow> recovery \<Rightarrow> int \<Rightarrow> u8 list \<Rightarrow> string \<Rightarrow> string option" where
  "recoverSigner keccak recover n hash raw = (case hexToBytes raw of
     None \<Rightarrow> None
   | Some sig \<Rightarrow>
       if length sig \<noteq> 65 then None
       else let v = uint (sig ! 64); r = be_val (take 32 sig); s = be_val (take 32 (drop 32 sig))
         in if v \<noteq> 27 \<and> v \<noteq> 28 then None
            else if r = 0 \<or> r \<ge> n \<or> s = 0 \<or> s \<ge> n \<or> s > n div 2 then None
            else map_option (addressFromPublicKey keccak) (recover (take 64 sig) (v - 27) hash))"

definition fits :: "string \<Rightarrow> bool" where
  "fits s \<longleftrightarrow> length (text_encode s) \<le> IDENTIFIER_BYTES"

definition assetFits :: "asset_id \<Rightarrow> bool" where
  "assetFits a \<longleftrightarrow> fits (assetClass a) \<and> fits (idScheme a) \<and> fits (assetValue a)"

definition setFits :: "string list \<Rightarrow> bool" where
  "setFits vs \<longleftrightarrow> length vs \<le> MAX_SET_SIZE \<and> list_all fits vs"

definition decodeGateMandate :: "(u8 list \<Rightarrow> u8 list) \<Rightarrow> gate_mandate \<Rightarrow> (mandate \<times> string) gate_result" where
  "decodeGateMandate keccak m =
     reject_if (gm_version m \<noteq> 2) UnsupportedMandateVersion (
     reject_if (\<not> (assetFits (gm_canonicalAsset m) \<and> fits (unit (gm_maxNotional m)) \<and> fits (unit (gm_economicLimit m)) \<and>
         setFits (gm_allowedIssuers m) \<and> setFits (gm_allowedChains m) \<and> setFits (gm_allowedVenues m))) MalformedMandate (
     rbind (unless_thrown (encodeGateMandate m)) (\<lambda>bytes.
     case decodeMandate bytes of
       Inl e \<Rightarrow> reject (if e = UNSUPPORTED_MANDATE_VERSION then UnsupportedMandateVersion else MalformedMandate) []
     | Inr d \<Rightarrow> Inr (d, keccak256 keccak bytes))))"

definition decodeGateCandidate :: "(u8 list \<Rightarrow> u8 list) \<Rightarrow> gate_candidate \<Rightarrow> (candidate \<times> string) gate_result" where
  "decodeGateCandidate keccak c =
     reject_if (gc_version c \<noteq> 3 \<or> \<not> (fits (gc_representationId c) \<and> assetFits (gc_canonicalAsset c) \<and> fits (gc_issuer c) \<and>
         fits (gc_chain c) \<and> fits (gc_venue c) \<and> fits (unit (gc_quantity c)) \<and> fits (numeratorUnit (gc_executionPrice c)) \<and>
         fits (denominatorUnit (gc_executionPrice c)) \<and> fits (unit (gc_notional c)) \<and> fits (unit (gc_feeTotal c)) \<and>
         fits (gc_evaluationStateId c))) MalformedCandidate (
     rbind (unless_thrown (encodeGateCandidate c)) (\<lambda>bytes.
     case decodeCandidate bytes of
       Inl e \<Rightarrow> reject MalformedCandidate []
     | Inr d \<Rightarrow> Inr (d, keccak256 keccak bytes)))"

definition checkBinding :: "gate_deployment \<Rightarrow> mandate \<Rightarrow> candidate \<Rightarrow> gate_market \<Rightarrow> unit gate_result" where
  "checkBinding dep m c k =
     reject_if (kind (c_agent c) \<noteq> PARTY_KIND_EIP155_ADDRESS \<or> party_value (c_agent c) \<noteq> party_value (m_agent m)) AgentMismatch (
     reject_if (c_side c \<noteq> m_side m) SideMismatch (
     reject_if (\<not> canonicalAssetIdEquals (c_canonicalAsset c) (m_canonicalAsset m)) CanonicalAssetMismatch (
     reject_if (\<not> (assetClass (gk_canonicalAsset k) = assetClass (m_canonicalAsset m) \<and>
         idScheme (gk_canonicalAsset k) = idScheme (m_canonicalAsset m) \<and>
         assetValue (gk_canonicalAsset k) = assetValue (m_canonicalAsset m))) RepresentationAssetMismatch (
     reject_if (c_chain c \<noteq> caip2 (gd_chainId dep)) ChainMismatch (
     reject_if (caip2 (gd_chainId dep) \<notin> set (m_allowedChains m)) ChainNotAllowed (
     reject_if (c_venue c \<noteq> gk_venue k) VenueMismatch (
     reject_if (gk_venue k \<notin> set (m_allowedVenues m)) VenueNotAllowed (
     reject_if (c_issuer c \<noteq> gk_issuer k) IssuerMismatch (
     reject_if (gk_issuer k \<notin> set (m_allowedIssuers m)) IssuerNotAllowed (
     reject_if (gk_synthetic k \<and> m_syntheticPolicy m = FORBIDDEN) SyntheticNotAllowed (
     reject_if (unit (c_quantity c) \<noteq> gk_quantityUnit k \<or> decimals (c_quantity c) \<noteq> gk_representationDecimals k) QuantityUnitMismatch (
     reject_if (atoms (c_quantity c) = 0) ZeroQuantity (
     reject_if (unit (m_economicLimit m) \<noteq> gk_settlementUnit k) SettlementUnitMismatch (
     Inr ()))))))))))))))"

text \<open>The debit or the credit the candidate declares, against the mandate's economic limit.\<close>

definition declared_debit :: "mandate \<Rightarrow> candidate \<Rightarrow> unit gate_result" where
  "declared_debit m c = (case addAmounts (c_notional c) (c_feeTotal c) of
     Inl e \<Rightarrow> reject (if e = VALUE_OUT_OF_RANGE then DeclaredEconomicValueOutOfRange else EconomicUnitMismatch) []
   | Inr debit \<Rightarrow> (case compareAmounts debit (m_economicLimit m) of
       Inl _ \<Rightarrow> reject EconomicUnitMismatch []
     | Inr i \<Rightarrow> reject_if (i > 0) DeclaredTotalDebitExceeded (Inr ())))"

definition declared_credit :: "mandate \<Rightarrow> candidate \<Rightarrow> unit gate_result" where
  "declared_credit m c = (case compareAmounts (c_feeTotal c) (c_notional c) of
     Inl _ \<Rightarrow> reject EconomicUnitMismatch []
   | Inr fees \<Rightarrow> reject_if (fees \<ge> 0) DeclaredFeesExceedNotional (
      case subtractAmounts (c_notional c) (c_feeTotal c) of
        Inl e \<Rightarrow> reject (if e = VALUE_OUT_OF_RANGE then DeclaredEconomicValueOutOfRange else EconomicUnitMismatch) []
      | Inr credit \<Rightarrow> (case compareAmounts credit (m_economicLimit m) of
          Inl _ \<Rightarrow> reject EconomicUnitMismatch []
        | Inr i \<Rightarrow> reject_if (i < 0) DeclaredTotalCreditBelowMinimum (Inr ()))))"

definition checkEconomics :: "mandate \<Rightarrow> candidate \<Rightarrow> gate_market \<Rightarrow> unit gate_result" where
  "checkEconomics m c k =
     reject_if (unit (c_notional c) \<noteq> gk_settlementUnit k \<or> unit (c_feeTotal c) \<noteq> gk_settlementUnit k \<or>
       numeratorUnit (c_executionPrice c) \<noteq> gk_settlementUnit k \<or> denominatorUnit (c_executionPrice c) \<noteq> gk_quantityUnit k)
       EconomicUnitMismatch (
     let priceScale = max (p_decimals (c_executionPrice c)) (p_decimals (gk_fixturePrice k));
         candidatePrice = p_atoms (c_executionPrice c) * pow10 (priceScale - p_decimals (c_executionPrice c));
         pinnedPrice = p_atoms (gk_fixturePrice k) * pow10 (priceScale - p_decimals (gk_fixturePrice k))
     in reject_if (candidatePrice \<noteq> pinnedPrice) FixturePriceMismatch (
     case notionalBounds (c_quantity c) (c_executionPrice c) (unit (c_notional c)) (decimals (c_notional c)) of
       Inl _ \<Rightarrow> reject NotionalOutOfRange []
     | Inr nb \<Rightarrow>
     if atoms (c_notional c) < floorAtoms nb \<or> atoms (c_notional c) > ceilAtoms nb
     then reject NotionalInconsistent [atoms (c_notional c), floorAtoms nb, ceilAtoms nb]
     else (case compareAmounts (c_notional c) (m_maxNotional m) of
       Inl _ \<Rightarrow> reject EconomicUnitMismatch []
     | Inr mx \<Rightarrow> reject_if (mx > 0) MaxNotionalExceeded (
     case notionalBounds (c_quantity c) (gk_fixturePrice k) (unit (m_maxNotional m)) (decimals (m_maxNotional m)) of
       Inl e \<Rightarrow> reject (if e = VALUE_OUT_OF_RANGE then MaxNotionalExceeded else EconomicUnitMismatch) []
     | Inr product \<Rightarrow> reject_if (ceilAtoms product > atoms (m_maxNotional m)) MaxNotionalExceeded (
         if m_side m = BUY then declared_debit m c else declared_credit m c)))))"

definition decimals_now :: "chain_context \<Rightarrow> string \<Rightarrow> int \<Rightarrow> int" where
  "decimals_now ch token pinned = (case cc_tokenDecimals ch token of None \<Rightarrow> pinned | Some d \<Rightarrow> d)"

definition execution_plan_of :: "mandate \<Rightarrow> candidate \<Rightarrow> gate_market \<Rightarrow> gate_terms \<Rightarrow> string \<Rightarrow> string \<Rightarrow> string \<Rightarrow>
    string \<Rightarrow> string \<Rightarrow> int \<Rightarrow> int \<Rightarrow> execution_plan" where
  "execution_plan_of m c k t md cd commitment inputToken outputToken inputAmount minOutput =
     \<lparr>xp_mandateDigest = md, xp_candidateDigest = cd, xp_commitment = commitment, xp_market = k, xp_side = m_side m,
      xp_principal = party_value (m_principal m), xp_agent = party_value (m_agent m), xp_recipient = gt_recipient t,
      xp_inputToken = inputToken, xp_outputToken = outputToken, xp_inputAmount = inputAmount, xp_minOutput = minOutput,
      xp_exactQuantity = atoms (c_quantity c)\<rparr>"

definition plan_gate :: "mandate \<Rightarrow> candidate \<Rightarrow> gate_market \<Rightarrow> gate_terms \<Rightarrow> chain_context \<Rightarrow> string \<Rightarrow> string \<Rightarrow> string \<Rightarrow>
    execution_plan gate_result" where
  "plan_gate m c k t ch md cd commitment =
     reject_if (gt_recipient t \<noteq> party_value (m_principal m)) RecipientNotPrincipal (
     let quantity = atoms (c_quantity c); lim = m_economicLimit m;
         make = execution_plan_of m c k t md cd commitment
     in rbind (if m_side m = BUY then
          (let bound = floorToScale (atoms lim) (decimals lim) (gk_fundingDecimals k)
           in if gt_fundingLimit t > bound then reject FundingLimitExceedsMandate [gt_fundingLimit t, bound]
              else Inr (make (gk_fundingToken k) (gk_representation k) (gt_fundingLimit t) quantity))
        else (case ceilToScale (atoms lim) (decimals lim) (gk_fundingDecimals k) of
            None \<Rightarrow> reject FundingLimitBelowMandate [gt_fundingLimit t, UINT256_MAX]
          | Some bound \<Rightarrow>
              if gt_fundingLimit t < bound then reject FundingLimitBelowMandate [gt_fundingLimit t, bound]
              else Inr (make (gk_representation k) (gk_fundingToken k) quantity (gt_fundingLimit t)))) (\<lambda>p.
     if decimals_now ch (gk_representation k) (gk_representationDecimals k) \<noteq> gk_representationDecimals k
     then reject TokenDecimalsChanged [BigInt_hex (gk_representation k)]
     else if decimals_now ch (gk_fundingToken k) (gk_fundingDecimals k) \<noteq> gk_fundingDecimals k
     then reject TokenDecimalsChanged [BigInt_hex (gk_fundingToken k)]
     else Inr p))"

definition authorizeExecution :: "(u8 list \<Rightarrow> u8 list) \<Rightarrow> recovery \<Rightarrow> int \<Rightarrow> gate_deployment \<Rightarrow> gate_attempt \<Rightarrow> chain_context \<Rightarrow>
    execution_plan gate_result" where
  "authorizeExecution keccak recover n dep att ch =
     reject_if (cc_chainId ch \<noteq> gd_chainId dep) WrongChain (
     let dm = gateDomain (gd_chainId dep) (gd_gate dep)
     in rbind (decodeGateMandate keccak (ga_mandate att)) (\<lambda>(m, md).
        reject_if (length (m_allowedIssuers m) > MAX_PROFILE_SET_SIZE \<or> length (m_allowedChains m) > MAX_PROFILE_SET_SIZE \<or>
          length (m_allowedVenues m) > MAX_PROFILE_SET_SIZE) ExecutionProfileExceeded (
        rbind (unless_thrown (verifyAuthorization keccak recover n
          \<lparr>scheme = EIP712_SECP256K1, signer = m_principal m, signature = ga_principalSignature att, domain = dm\<rparr> md dm)) (\<lambda>who.
        reject_if (case who of Inl _ \<Rightarrow> True | Inr _ \<Rightarrow> False) PrincipalSignatureInvalid (
        rbind (decodeGateCandidate keccak (ga_candidate att)) (\<lambda>(c, cd).
        reject_if (data_exceeds (ga_terms att)) ExecutionProfileExceeded (
        case find (\<lambda>k. representationIdFor (gd_chainId dep) (gk_representation k) = c_representationId c) (gd_markets dep) of
          None \<Rightarrow> reject UnsupportedRepresentation []
        | Some k \<Rightarrow>
        rbind (unless_thrown (executionCommitment keccak md cd (ga_terms att))) (\<lambda>commitment.
        rbind (unless_thrown (eip712Hash keccak dm commitment)) (\<lambda>hash.
        reject_if (recoverSigner keccak recover n hash (ga_agentSignature att) \<noteq> Some (party_value (m_agent m))) AgentSignatureInvalid (
        reject_if (cc_timestamp ch < m_notBeforeUnixSeconds m) MandateNotYetActive (
        reject_if (cc_timestamp ch \<ge> m_expiresAtUnixSeconds m) MandateExpired (
        reject_if (cc_timestamp ch > gt_deadline (ga_terms att)) ExecutionDeadlinePassed (
        reject_if (md \<in> cc_consumed ch) MandateAlreadyConsumed (
        rbind (checkBinding dep m c k) (\<lambda>_.
        rbind (checkEconomics m c k) (\<lambda>_.
        plan_gate m c k (ga_terms att) ch md cd commitment))))))))))))))))"

record measured_balances =
  mb_inputBefore :: int
  mb_inputAfter :: int
  mb_outputBefore :: int
  mb_outputAfter :: int

record settlement_amounts =
  st_actualDebit :: int
  st_actualCredit :: int

definition settleExecution :: "execution_plan \<Rightarrow> measured_balances \<Rightarrow> settlement_amounts gate_result" where
  "settleExecution p mb =
     (let debit = (if mb_inputBefore mb > mb_inputAfter mb then mb_inputBefore mb - mb_inputAfter mb else 0);
          credit = (if mb_outputAfter mb > mb_outputBefore mb then mb_outputAfter mb - mb_outputBefore mb else 0);
          done_with = Inr \<lparr>st_actualDebit = debit, st_actualCredit = credit\<rparr>
      in if xp_side p = BUY then
           (if debit > xp_inputAmount p then reject DebitExceedsLimit [debit, xp_inputAmount p]
            else if credit \<noteq> xp_exactQuantity p then reject CreditNotExact [credit, xp_exactQuantity p]
            else done_with)
         else
           (if debit \<noteq> xp_exactQuantity p then reject DebitNotExact [debit, xp_exactQuantity p]
            else if credit < xp_minOutput p then reject CreditBelowMinimum [credit, xp_minOutput p]
            else done_with))"

end
