(* ===== verification/Gate_Correct.thy ===== *)
theory Gate_Correct
  imports Gate
begin

text \<open>
  What the gate's decisions guarantee. Its structs are the kernel's objects and their bytes the kernel's bytes; an
  accepted plan is for a mandate and a candidate the kernel decodes, signed by both parties, inside the window and the
  allowlists; and what settles under a plan is inside the economic limit of the mandate, in real units.
\<close>

section \<open>The gate's bytes are the kernel's\<close>

lemma wcat_flat: "wcat (ws @ [wcat xs]) = wcat (ws @ xs)"
proof (induction ws)
  case Nil
  show ?case by (cases "wcat xs") simp_all
next
  case (Cons w ws)
  then show ?case by (cases w) simp_all
qed

lemma writeSetAsGiven_wf: "wf_id_set xs \<Longrightarrow> writeSetAsGiven xs = writeIdentifierSet xs"
  by (simp add: writeSetAsGiven_def writeIdentifierSet_def wf_id_set_def js_sort_sorted)

lemma gate_codes [simp]:
  "wr_u8 (gate_side_code s) = wr_code SIDE_CODE s"
  "wr_u8 (gate_synthetic_code y) = wr_code SYNTHETIC_POLICY_CODE y"
  "wr_u8 (gate_halt_code h) = wr_code HALT_POLICY_CODE h"
  by (cases s; cases y; cases h; simp add: wr_code_def SIDE_CODE_def SYNTHETIC_POLICY_CODE_def HALT_POLICY_CODE_def)+

lemma gate_hex32 [simp]: "wr_bytes32 (hexToBytes32 h) = wr_hex32 h"
  by (simp add: hexToBytes32_def wr_hex32_def bytes32ToBytes_def)

lemma write_address_party: "kind p = PARTY_KIND_EIP155_ADDRESS \<Longrightarrow> write_address (party_value p) = writeParty p"
  by (simp add: write_address_def writeParty_def)

lemma encodeGateMandate_to:
  assumes "wf_mandate m" "toGateMandate m = Some g"
  shows "encodeGateMandate g = encodeMandate m"
proof -
  have k: "kind (m_principal m) = PARTY_KIND_EIP155_ADDRESS" "kind (m_agent m) = PARTY_KIND_EIP155_ADDRESS"
    using assms(2) by (auto simp: toGateMandate_def split: if_splits)
  have s: "wf_id_set (m_allowedIssuers m)" "wf_id_set (m_allowedChains m)" "wf_id_set (m_allowedVenues m)"
    using assms(1) by (simp_all add: wf_mandate_def)
  show ?thesis
    using assms(2) wcat_flat [of "[wr_tag MANDATE_TAG, wr_u16 (m_version m)]"] k s
    by (auto simp: toGateMandate_def encodeGateMandate_def encodeMandate_def write_mandate_fields_def writeSetAsGiven_wf
        write_address_party)
qed

lemma encodeGateCandidate_to:
  assumes "toGateCandidate c = Some g"
  shows "encodeGateCandidate g = encodeCandidate c"
  using assms wcat_flat [of "[wr_tag CANDIDATE_TAG, wr_u16 (c_version c)]"]
  by (auto simp: toGateCandidate_def encodeGateCandidate_def encodeCandidate_def write_candidate_fields_def write_address_party
      split: if_splits)

lemma length_text_encode_ident: "valid_ident s \<Longrightarrow> fits s"
  using valid_ident_length [of s] by (simp add: fits_def IDENTIFIER_BYTES_def text_encode_def)

lemma setFits_wf: "wf_id_set xs \<Longrightarrow> setFits xs"
  by (auto simp: setFits_def wf_id_set_def list_all_iff length_text_encode_ident)

lemma decodeGateMandate_to:
  assumes "wf_mandate m" "toGateMandate m = Some g"
  shows "\<exists>b. encodeMandate m = Some b \<and> decodeGateMandate keccak g = Inr (m, keccak256 keccak b)"
proof -
  obtain b where b: "encodeMandate m = Some b" using encodeMandate_total [OF assms(1)] by blast
  have "decodeMandate b = Inr m" by (rule decode_encodeMandate [OF assms(1) b])
  moreover have "encodeGateMandate g = Some b" using encodeGateMandate_to [OF assms] b by simp
  moreover have "gm_version g = 2" "gm_canonicalAsset g = m_canonicalAsset m" "gm_maxNotional g = m_maxNotional m"
    "gm_economicLimit g = m_economicLimit m" "gm_allowedIssuers g = m_allowedIssuers m" "gm_allowedChains g = m_allowedChains m"
    "gm_allowedVenues g = m_allowedVenues m"
    using assms by (auto simp: toGateMandate_def wf_mandate_def MANDATE_SCHEMA_VERSION_def split: if_splits)
  ultimately show ?thesis
    using assms(1) b by (simp add: decodeGateMandate_def reject_if_def unless_thrown_def assetFits_def wf_mandate_def wf_asset_def
        wf_amount_def length_text_encode_ident setFits_wf)
qed

lemma decodeGateCandidate_to:
  assumes "wf_candidate c" "toGateCandidate c = Some g"
  shows "\<exists>b. encodeCandidate c = Some b \<and> decodeGateCandidate keccak g = Inr (c, keccak256 keccak b)"
proof -
  obtain b where b: "encodeCandidate c = Some b" using encodeCandidate_total [OF assms(1)] by blast
  have "decodeCandidate b = Inr c" by (rule decode_encodeCandidate [OF assms(1) b])
  moreover have "encodeGateCandidate g = Some b" using encodeGateCandidate_to [OF assms(2)] b by simp
  moreover have "gc_version g = 3" "gc_representationId g = c_representationId c" "gc_canonicalAsset g = c_canonicalAsset c"
    "gc_issuer g = c_issuer c" "gc_chain g = c_chain c" "gc_venue g = c_venue c" "gc_quantity g = c_quantity c"
    "gc_executionPrice g = c_executionPrice c" "gc_notional g = c_notional c" "gc_feeTotal g = c_feeTotal c"
    "gc_evaluationStateId g = c_evaluationStateId c"
    using assms by (auto simp: toGateCandidate_def wf_candidate_def CANDIDATE_SCHEMA_VERSION_def split: if_splits)
  ultimately show ?thesis
    using assms(1) b by (simp add: decodeGateCandidate_def reject_if_def unless_thrown_def assetFits_def wf_candidate_def wf_asset_def
        wf_amount_def wf_price_def length_text_encode_ident)
qed

section \<open>Accepted plans\<close>

lemma reject_if_Inr [simp]: "reject_if b e x = Inr y \<longleftrightarrow> \<not> b \<and> x = Inr y"
  by (simp add: reject_if_def reject_def)

lemma reject_neq [simp]: "reject e args \<noteq> Inr y"
  by (simp add: reject_def)

lemma case_reject_Inr [simp]:
  "(case x of Inl e \<Rightarrow> reject (f e) (g e) | Inr d \<Rightarrow> Q d) = Inr y \<longleftrightarrow> (\<exists>d. x = Inr d \<and> Q d = Inr y)"
  by (cases x) simp_all

lemma unless_thrown_Inr [simp]: "unless_thrown x = Inr y \<longleftrightarrow> x = Some y"
  by (simp add: unless_thrown_def split: option.splits)

lemma decodeGateMandate_Inr:
  "decodeGateMandate keccak g = Inr (m, md) \<Longrightarrow>
   \<exists>b. encodeGateMandate g = Some b \<and> decodeMandate b = Inr m \<and> md = keccak256 keccak b"
  by (auto simp: decodeGateMandate_def rbind_eq_Inr)

lemma decodeGateCandidate_Inr:
  "decodeGateCandidate keccak g = Inr (c, cd) \<Longrightarrow>
   \<exists>b. encodeGateCandidate g = Some b \<and> decodeCandidate b = Inr c \<and> cd = keccak256 keccak b"
  by (auto simp: decodeGateCandidate_def rbind_eq_Inr)

lemma authorizeExecution_Inr:
  assumes "authorizeExecution keccak recover n dep att ch = Inr p"
  shows "\<exists>m md c cd k commitment hash who dm. dm = gateDomain (gd_chainId dep) (gd_gate dep) \<and>
    cc_chainId ch = gd_chainId dep \<and> decodeGateMandate keccak (ga_mandate att) = Inr (m, md) \<and>
    decodeGateCandidate keccak (ga_candidate att) = Inr (c, cd) \<and>
    verifyAuthorization keccak recover n \<lparr>scheme = EIP712_SECP256K1, signer = m_principal m,
      signature = ga_principalSignature att, domain = dm\<rparr> md dm = Some (Inr who) \<and>
    k \<in> set (gd_markets dep) \<and> representationIdFor (gd_chainId dep) (gk_representation k) = c_representationId c \<and>
    executionCommitment keccak md cd (ga_terms att) = Some commitment \<and> eip712Hash keccak dm commitment = Some hash \<and>
    recoverSigner keccak recover n hash (ga_agentSignature att) = Some (party_value (m_agent m)) \<and>
    m_notBeforeUnixSeconds m \<le> cc_timestamp ch \<and> cc_timestamp ch < m_expiresAtUnixSeconds m \<and>
    cc_timestamp ch \<le> gt_deadline (ga_terms att) \<and> md \<notin> cc_consumed ch \<and>
    checkBinding dep m c k = Inr () \<and> checkEconomics m c k = Inr () \<and>
    plan_gate m c k (ga_terms att) ch md cd commitment = Inr p"
  using assms unfolding authorizeExecution_def Let_def reject_if_Inr rbind_eq_Inr
proof (elim exE conjE, goal_cases)
  case (1 mm)
  obtain m md where mm: "mm = (m, md)" by force
  show ?case using 1 unfolding mm prod.case reject_if_Inr rbind_eq_Inr unless_thrown_Inr
  proof (elim exE conjE, goal_cases)
    case (1 who cc)
    obtain c cd where cc: "cc = (c, cd)" by force
    show ?case using 1 unfolding cc prod.case reject_if_Inr
    proof (elim exE conjE, goal_cases)
      case 1
      then obtain k where k: "find (\<lambda>k. representationIdFor (gd_chainId dep) (gk_representation k) = c_representationId c) (gd_markets dep) = Some k"
        by (auto split: option.splits)
      note rest = 1(8) [unfolded k option.case rbind_eq_Inr unless_thrown_Inr reject_if_Inr]
      from rest obtain commitment hash where rest: "executionCommitment keccak md cd (ga_terms att) = Some commitment"
        "eip712Hash keccak (gateDomain (gd_chainId dep) (gd_gate dep)) commitment = Some hash"
        "recoverSigner keccak recover n hash (ga_agentSignature att) = Some (party_value (m_agent m))"
        "m_notBeforeUnixSeconds m \<le> cc_timestamp ch" "cc_timestamp ch < m_expiresAtUnixSeconds m"
        "cc_timestamp ch \<le> gt_deadline (ga_terms att)" "md \<notin> cc_consumed ch" "checkBinding dep m c k = Inr ()"
        "checkEconomics m c k = Inr ()" "plan_gate m c k (ga_terms att) ch md cd commitment = Inr p"
        by (auto simp: not_less)
      have "k \<in> set (gd_markets dep) \<and> representationIdFor (gd_chainId dep) (gk_representation k) = c_representationId c"
        using k by (auto simp: find_Some_iff)
      moreover have "\<not> (case who of Inl _ \<Rightarrow> True | Inr _ \<Rightarrow> False)" using 1 by blast
      then obtain w where "who = Inr w" by (cases who) simp_all
      ultimately show ?thesis using 1 rest by blast
    qed
  qed
qed

section \<open>Scales are exact\<close>

text \<open>The value in units of \<open>10^-toDecimals\<close>, as a rational.\<close>

definition rescaled :: "int \<Rightarrow> int \<Rightarrow> int \<Rightarrow> rat" where
  "rescaled n fromDecimals toDecimals = of_int n * of_int (pow10 toDecimals) / of_int (pow10 fromDecimals)"

lemma rescaled_up:
  assumes "0 \<le> f" "f \<le> t"
  shows "rescaled n f t = of_int (n * pow10 (t - f))"
  using assms pow10_diff [of f t] by (simp add: rescaled_def)

lemma rescaled_down:
  assumes "0 \<le> t" "t \<le> f"
  shows "rescaled n f t = of_int n / of_int (pow10 (f - t))"
  using assms pow10_diff [of t f] by (simp add: rescaled_def)

lemma floorToScale_exact:
  assumes "0 \<le> n" "n \<le> UINT256_MAX" "0 \<le> f" "0 \<le> t"
  shows "floorToScale n f t = min UINT256_MAX \<lfloor>rescaled n f t\<rfloor>"
proof (cases "f \<le> t")
  case True
  have "\<lfloor>rescaled n f t\<rfloor> = n * pow10 (t - f)" by (simp only: rescaled_up [OF assms(3) True] floor_of_int)
  then show ?thesis using True by (simp add: floorToScale_def Let_def min_def)
next
  case False
  have "n div pow10 (f - t) \<le> n div 1" using assms(1) int_one_le_iff_zero_less [of "pow10 (f - t)"] by (intro zdiv_mono2) simp_all
  then show ?thesis using False assms by (simp add: floorToScale_def rescaled_down floor_rat_div)
qed

lemma ceilToScale_exact:
  assumes "0 \<le> n" "n \<le> UINT256_MAX" "0 \<le> f" "0 \<le> t"
  shows "ceilToScale n f t = (if \<lceil>rescaled n f t\<rceil> > UINT256_MAX then None else Some \<lceil>rescaled n f t\<rceil>)"
proof (cases "f \<le> t")
  case True
  have "\<lceil>rescaled n f t\<rceil> = n * pow10 (t - f)" by (simp only: rescaled_up [OF assms(3) True] ceiling_of_int)
  then show ?thesis using True by (simp add: ceilToScale_def Let_def)
next
  case False
  have "of_int n / of_int (pow10 (f - t)) \<le> (of_int n :: rat)"
    using assms(1) pow10_pos [of "f - t"] int_one_le_iff_zero_less [of "pow10 (f - t)"] by (simp add: divide_le_eq mult_le_cancel_left1)
  then have "\<lceil>rescaled n f t\<rceil> \<le> n" using False assms(4) by (simp add: rescaled_down ceiling_le_iff)
  then show ?thesis using False assms by (simp add: ceilToScale_def rescaled_down ceiling_rat_div Let_def)
qed

text \<open>A figure in funding atoms, as a value.\<close>

lemma within_floor:
  assumes "x \<le> floorToScale n f t" "0 \<le> n" "n \<le> UINT256_MAX" "0 \<le> f" "0 \<le> t"
  shows "of_int x / of_int (pow10 t) \<le> (of_int n / of_int (pow10 f) :: rat)"
proof -
  have "x \<le> \<lfloor>rescaled n f t\<rfloor>" using assms floorToScale_exact [of n f t] by simp
  then have "of_int x \<le> rescaled n f t" by (simp add: le_floor_iff)
  then show ?thesis by (simp add: rescaled_def field_simps)
qed

lemma above_ceil:
  assumes "ceilToScale n f t = Some b" "b \<le> x" "0 \<le> n" "n \<le> UINT256_MAX" "0 \<le> f" "0 \<le> t"
  shows "(of_int n / of_int (pow10 f) :: rat) \<le> of_int x / of_int (pow10 t)"
proof -
  have "\<lceil>rescaled n f t\<rceil> \<le> x" using assms ceilToScale_exact [of n f t] by (simp split: if_splits)
  then have "rescaled n f t \<le> of_int x" by (simp add: ceiling_le_iff)
  then show ?thesis by (simp add: rescaled_def field_simps)
qed

section \<open>Economics\<close>

lemma same_price:
  assumes "p_atoms p * pow10 (max (p_decimals p) (p_decimals q) - p_decimals p) =
    p_atoms q * pow10 (max (p_decimals p) (p_decimals q) - p_decimals q)" "0 \<le> p_decimals p" "0 \<le> p_decimals q"
  shows "price_val p = price_val q"
proof -
  let ?m = "max (p_decimals p) (p_decimals q)"
  have v: "price_val r = of_int (p_atoms r * pow10 (?m - p_decimals r)) / of_int (pow10 ?m)"
    if "0 \<le> p_decimals r" "p_decimals r \<le> ?m" for r
    using pow10_diff [OF that] by (simp add: price_val_def)
  show ?thesis using v [of p] v [of q] assms by simp
qed

lemma checkEconomics_Inr:
  assumes ok: "checkEconomics m c k = Inr ()" and wf: "wf_mandate m" "wf_candidate c" "wf_price (gk_fixturePrice k)"
  shows "price_val (c_executionPrice c) = price_val (gk_fixturePrice k)"
    "amount_val (c_notional c) \<le> amount_val (m_maxNotional m)"
    "amount_val (c_quantity c) * price_val (gk_fixturePrice k) \<le> amount_val (m_maxNotional m)"
    "m_side m = BUY \<Longrightarrow> amount_val (c_notional c) + amount_val (c_feeTotal c) \<le> amount_val (m_economicLimit m)"
    "m_side m = SELL \<Longrightarrow> amount_val (m_economicLimit m) \<le> amount_val (c_notional c) - amount_val (c_feeTotal c)"
proof -
  have w: "wf_amount (c_quantity c)" "wf_price (c_executionPrice c)" "wf_amount (c_notional c)" "wf_amount (c_feeTotal c)"
      "wf_amount (m_maxNotional m)" "wf_amount (m_economicLimit m)"
    using wf by (simp_all add: wf_candidate_def wf_mandate_def)
  then have d: "0 \<le> decimals (c_notional c)" "0 \<le> decimals (c_feeTotal c)" by (simp_all add: wf_amount_def)
  from ok obtain product mx where
      price: "p_atoms (c_executionPrice c) * pow10 (max (p_decimals (c_executionPrice c)) (p_decimals (gk_fixturePrice k)) - p_decimals (c_executionPrice c)) =
        p_atoms (gk_fixturePrice k) * pow10 (max (p_decimals (c_executionPrice c)) (p_decimals (gk_fixturePrice k)) - p_decimals (gk_fixturePrice k))"
      and mx: "compareAmounts (c_notional c) (m_maxNotional m) = Inr mx" "\<not> mx > 0"
      and product: "notionalBounds (c_quantity c) (gk_fixturePrice k) (unit (m_maxNotional m)) (decimals (m_maxNotional m)) = Inr product"
        "\<not> ceilAtoms product > atoms (m_maxNotional m)"
      and side: "(if m_side m = BUY then declared_debit m c else declared_credit m c) = Inr ()"
    by (auto simp: checkEconomics_def Let_def split: if_splits)
  show "price_val (c_executionPrice c) = price_val (gk_fixturePrice k)"
    using same_price [OF price] w(2) wf(3) by (simp add: wf_price_def)
  show "amount_val (c_notional c) \<le> amount_val (m_maxNotional m)"
    using compareAmounts_val [OF mx(1)] mx(2) by auto
  have "\<lceil>amount_val (c_quantity c) * price_val (gk_fixturePrice k) * of_int (pow10 (decimals (m_maxNotional m)))\<rceil> \<le> atoms (m_maxNotional m)"
    using notionalBounds_val [OF product(1) w(1) wf(3)] product(2) by simp
  then have "amount_val (c_quantity c) * price_val (gk_fixturePrice k) * of_int (pow10 (decimals (m_maxNotional m))) \<le> of_int (atoms (m_maxNotional m))"
    by (simp add: ceiling_le_iff)
  then show "amount_val (c_quantity c) * price_val (gk_fixturePrice k) \<le> amount_val (m_maxNotional m)"
    by (simp add: amount_val_def pos_le_divide_eq)
  show "amount_val (c_notional c) + amount_val (c_feeTotal c) \<le> amount_val (m_economicLimit m)" if "m_side m = BUY"
  proof -
    from side that obtain debit i where "addAmounts (c_notional c) (c_feeTotal c) = Inr debit"
        "compareAmounts debit (m_economicLimit m) = Inr i" "\<not> i > 0"
      by (auto simp: declared_debit_def)
    then show ?thesis using addAmounts_val [of _ _ debit, OF _ d] compareAmounts_val [of debit "m_economicLimit m" i] by auto
  qed
  show "amount_val (m_economicLimit m) \<le> amount_val (c_notional c) - amount_val (c_feeTotal c)" if "m_side m = SELL"
  proof -
    from side that obtain credit i where "subtractAmounts (c_notional c) (c_feeTotal c) = Inr credit"
        "compareAmounts credit (m_economicLimit m) = Inr i" "\<not> i < 0"
      by (auto simp: declared_credit_def)
    then show ?thesis using subtractAmounts_val [of _ _ credit, OF _ d] compareAmounts_val [of credit "m_economicLimit m" i] by auto
  qed
qed

section \<open>Plans and settlements\<close>

definition wf_market_data :: "gate_market \<Rightarrow> bool" where
  "wf_market_data k \<longleftrightarrow> wf_price (gk_fixturePrice k) \<and> 0 \<le> gk_fundingDecimals k \<and> 0 \<le> gk_representationDecimals k"

lemma plan_gate_Inr:
  assumes "plan_gate m c k t ch md cd commitment = Inr p" "wf_mandate m" "wf_market_data k"
  shows "xp_mandateDigest p = md \<and> xp_candidateDigest p = cd \<and> xp_commitment p = commitment \<and> xp_market p = k \<and>
    xp_side p = m_side m \<and> xp_principal p = party_value (m_principal m) \<and> xp_agent p = party_value (m_agent m) \<and>
    xp_recipient p = party_value (m_principal m) \<and> xp_exactQuantity p = atoms (c_quantity c) \<and>
    (if m_side m = BUY
     then xp_inputToken p = gk_fundingToken k \<and> xp_outputToken p = gk_representation k \<and>
       of_int (xp_inputAmount p) / of_int (pow10 (gk_fundingDecimals k)) \<le> amount_val (m_economicLimit m) \<and>
       xp_minOutput p = atoms (c_quantity c)
     else xp_inputToken p = gk_representation k \<and> xp_outputToken p = gk_fundingToken k \<and>
       xp_inputAmount p = atoms (c_quantity c) \<and>
       amount_val (m_economicLimit m) \<le> of_int (xp_minOutput p) / of_int (pow10 (gk_fundingDecimals k)))"
proof -
  have lim: "0 \<le> atoms (m_economicLimit m)" "atoms (m_economicLimit m) \<le> UINT256_MAX" "0 \<le> decimals (m_economicLimit m)"
    using assms(2) by (simp_all add: wf_mandate_def wf_amount_def)
  have fd: "0 \<le> gk_fundingDecimals k" using assms(3) by (simp add: wf_market_data_def)
  note floor = within_floor [OF _ lim fd] and ceil = above_ceil [OF _ _ lim fd]
  show ?thesis
  proof (cases "m_side m = BUY")
    case True
    with assms(1) show ?thesis
      by (auto simp: plan_gate_def Let_def rbind_eq_Inr execution_plan_of_def amount_val_def not_less intro: floor split: if_splits)
  next
    case False
    with assms(1) show ?thesis
      by (auto simp: plan_gate_def Let_def rbind_eq_Inr execution_plan_of_def amount_val_def not_less intro: ceil
          split: if_splits option.splits)
  qed
qed

lemma settleExecution_Inr:
  assumes "settleExecution p mb = Inr st"
  shows "st_actualDebit st = max 0 (mb_inputBefore mb - mb_inputAfter mb) \<and>
    st_actualCredit st = max 0 (mb_outputAfter mb - mb_outputBefore mb) \<and>
    (if xp_side p = BUY then st_actualDebit st \<le> xp_inputAmount p \<and> st_actualCredit st = xp_exactQuantity p
     else st_actualDebit st = xp_exactQuantity p \<and> xp_minOutput p \<le> st_actualCredit st)"
  using assms by (auto simp: settleExecution_def Let_def split: if_splits)

end
