(* ===== verification/Replay.thy ===== *)
theory Replay
  imports Digest
begin

text \<open>
  The consumption state machine (\<open>packages/kernel/src/replay.ts\<close>): parsers of transitions, observations
  and stored records, and the transition function over a caller's plain request. The step relation and
  its reachable records follow; a step is any request whose \<open>current\<close> member is the stored record.
\<close>

datatype reconciled_outcome = SETTLED | FAILED

definition ReconciledOutcome :: "(string \<times> reconciled_outcome) list" where
  "ReconciledOutcome = [(''SETTLED'', SETTLED), (''FAILED'', FAILED)]"

record observation =
  o_outcome :: reconciled_outcome
  o_observedAt :: int
  o_sourceId :: string
  o_reference :: string
  o_generation :: int

abbreviation MAX_RESERVATION_GENERATION :: int where "MAX_RESERVATION_GENERATION \<equiv> 2 ^ 64 - 1"

datatype replay_transition = RESERVE | QUARANTINE | RECONCILE

definition ReplayTransition :: "(string \<times> replay_transition) list" where
  "ReplayTransition = [(''RESERVE'', RESERVE), (''QUARANTINE'', QUARANTINE), (''RECONCILE'', RECONCILE)]"

datatype replay_error =
    MALFORMED_RECORD | UNKNOWN_TRANSITION | UNKNOWN_STATE | NOT_RESERVABLE | NOT_RESERVED
  | NOT_RESOLVABLE | ALREADY_CONSUMED | RESERVATION_NOT_EXPIRED | OBSERVATION_REQUIRED
  | OBSERVATION_INVALID | STALE_RESERVATION_OBSERVATION

record replay_record =
  rr_key :: string
  rr_status :: replay_status
  rr_updatedAt :: int
  rr_expiresAt :: "int option"
  rr_resolution :: "observation option"
  rr_generation :: int

definition replayKey :: "(u8 list \<Rightarrow> u8 list) \<Rightarrow> mandate \<Rightarrow> string option" where
  "replayKey keccak m = mandateDigest keccak m"

definition unusedRecord :: "string \<Rightarrow> int \<Rightarrow> replay_record" where
  "unusedRecord key t = \<lparr>rr_key = key, rr_status = UNUSED, rr_updatedAt = t, rr_expiresAt = None,
     rr_resolution = None, rr_generation = 0\<rparr>"

definition parseGeneration :: "js \<Rightarrow> int option" where
  "parseGeneration raw = (case raw of
     JBig g \<Rightarrow> if 0 \<le> g \<and> g \<le> MAX_RESERVATION_GENERATION then Some g else None
   | _ \<Rightarrow> None)"

section \<open>Parsers\<close>

definition parse_member :: "js \<Rightarrow> (string \<times> 'a) list \<Rightarrow> replay_error \<Rightarrow> replay_error + 'a" where
  "parse_member raw table e = (case raw of
     JStr s \<Rightarrow> (case map_of table s of None \<Rightarrow> Inl e | Some x \<Rightarrow> Inr x)
   | _ \<Rightarrow> Inl e)"

definition parseReplayTransition :: "js \<Rightarrow> replay_error + replay_transition" where
  "parseReplayTransition raw = parse_member raw ReplayTransition UNKNOWN_TRANSITION"

definition parseReconciledOutcome :: "js \<Rightarrow> replay_error + reconciled_outcome" where
  "parseReconciledOutcome raw = parse_member raw ReconciledOutcome OBSERVATION_INVALID"

definition parseExecutionObservation :: "js \<Rightarrow> replay_error + observation" where
  "parseExecutionObservation raw =
    (if \<not> is_plain_object raw then Inl OBSERVATION_INVALID
     else if \<not> only_keys [''outcome'', ''observedAtUnixSeconds'', ''sourceId'', ''reference'', ''reservationGeneration''] raw
     then Inl OBSERVATION_INVALID else
     rbind (parseReconciledOutcome (jget raw ''outcome'')) (\<lambda>outcome.
     rbind (relabel OBSERVATION_INVALID (parseUnixSeconds (jget raw ''observedAtUnixSeconds'') MALFORMED_TRUSTED_STATE)) (\<lambda>t.
     rbind (relabel OBSERVATION_INVALID (parseIdentifier (jget raw ''sourceId''))) (\<lambda>src.
     rbind (relabel OBSERVATION_INVALID (parseBytes32 (jget raw ''reference'') MALFORMED_TRUSTED_STATE)) (\<lambda>ref.
     rbind (need OBSERVATION_INVALID (parseGeneration (jget raw ''reservationGeneration''))) (\<lambda>g.
     if g = 0 then Inl OBSERVATION_INVALID
     else Inr \<lparr>o_outcome = outcome, o_observedAt = t, o_sourceId = src, o_reference = ref, o_generation = g\<rparr>))))))"

definition valid_shape :: "replay_record \<Rightarrow> bool" where
  "valid_shape r \<longleftrightarrow>
    (let hasReservation = (case rr_expiresAt r of None \<Rightarrow> False | Some e \<Rightarrow> e > rr_updatedAt r);
         hasNoReservation = (rr_expiresAt r = None);
         notAfterState = (case rr_resolution r of None \<Rightarrow> True | Some q \<Rightarrow> o_observedAt q \<le> rr_updatedAt r);
         ofThisGeneration = (case rr_resolution r of None \<Rightarrow> True | Some q \<Rightarrow> o_generation q = rr_generation r);
         everReserved = (rr_generation r > 0)
     in ofThisGeneration \<and>
        ((rr_status r = UNUSED \<and> hasNoReservation \<and> notAfterState
            \<and> (case rr_resolution r of None \<Rightarrow> True | Some q \<Rightarrow> o_outcome q = FAILED))
         \<or> (rr_status r = RESERVED \<and> hasReservation \<and> rr_resolution r = None \<and> everReserved)
         \<or> (rr_status r = QUARANTINED \<and> hasReservation \<and> rr_resolution r = None \<and> everReserved)
         \<or> (rr_status r = CONSUMED \<and> hasNoReservation
            \<and> (case rr_resolution r of None \<Rightarrow> False | Some q \<Rightarrow> o_outcome q = SETTLED) \<and> notAfterState)
         \<or> (rr_status r = REPLAY_UNKNOWN \<and> hasNoReservation \<and> rr_resolution r = None)))"

text \<open>A nullable field of a stored record: \<open>null\<close> is absence, \<open>undefined\<close> is not.\<close>

definition parse_null :: "(js \<Rightarrow> replay_error + 'a) \<Rightarrow> js \<Rightarrow> replay_error + 'a option" where
  "parse_null f v = (if v = JNull then Inr None else rbind (f v) (\<lambda>x. Inr (Some x)))"

definition record_seconds :: "js \<Rightarrow> replay_error + int" where
  "record_seconds v = relabel MALFORMED_RECORD (parseUnixSeconds v MALFORMED_TRUSTED_STATE)"

definition parseReplayRecord :: "js \<Rightarrow> replay_error + replay_record" where
  "parseReplayRecord raw =
    (if \<not> is_plain_object raw then Inl MALFORMED_RECORD
     else if \<not> only_keys [''key'', ''status'', ''updatedAtUnixSeconds'', ''reservationExpiresAtUnixSeconds'',
       ''resolution'', ''reservationGeneration''] raw
     then Inl MALFORMED_RECORD else
     rbind (relabel MALFORMED_RECORD (parseBytes32 (jget raw ''key'') MALFORMED_TRUSTED_STATE)) (\<lambda>key.
     rbind (parse_member (jget raw ''status'') ReplayStatus MALFORMED_RECORD) (\<lambda>status.
     rbind (record_seconds (jget raw ''updatedAtUnixSeconds'')) (\<lambda>updatedAt.
     rbind (parse_null record_seconds (jget raw ''reservationExpiresAtUnixSeconds'')) (\<lambda>expiry.
     rbind (parse_null (\<lambda>v. relabel MALFORMED_RECORD (parseExecutionObservation v)) (jget raw ''resolution'')) (\<lambda>resolution.
     rbind (need MALFORMED_RECORD (parseGeneration (jget raw ''reservationGeneration''))) (\<lambda>g.
         let r = \<lparr>rr_key = key, rr_status = status, rr_updatedAt = updatedAt, rr_expiresAt = expiry,
                  rr_resolution = resolution, rr_generation = g\<rparr>
         in if \<not> valid_shape r then Inl MALFORMED_RECORD else Inr r)))))))"

section \<open>The transition function\<close>

definition apply_reserve :: "js \<Rightarrow> replay_record \<Rightarrow> int \<Rightarrow> replay_error + replay_record" where
  "apply_reserve r current now =
    (if rr_status current \<noteq> UNUSED then Inl NOT_RESERVABLE
     else if now < rr_updatedAt current then Inl MALFORMED_RECORD
     else case jget r ''reservationSeconds'' of
       JBig hold \<Rightarrow>
        (if hold \<le> 0 then Inl NOT_RESERVABLE else
         rbind (if jget r ''mandateExpiresAtUnixSeconds'' = JUndef then Inr None
                else rbind (record_seconds (jget r ''mandateExpiresAtUnixSeconds'')) (\<lambda>e. Inr (Some e))) (\<lambda>mandateExpiry.
         let expiresAt = (case mandateExpiry of None \<Rightarrow> now + hold | Some e \<Rightarrow> if now + hold > e then e else now + hold)
         in rbind (relabel NOT_RESERVABLE (parseUnixSeconds (JBig expiresAt) MALFORMED_TRUSTED_STATE)) (\<lambda>e.
                if e \<le> now then Inl NOT_RESERVABLE
                else if rr_generation current \<ge> MAX_RESERVATION_GENERATION then Inl NOT_RESERVABLE
                else Inr \<lparr>rr_key = rr_key current, rr_status = RESERVED, rr_updatedAt = now, rr_expiresAt = Some e,
                  rr_resolution = None, rr_generation = rr_generation current + 1\<rparr>)))
     | _ \<Rightarrow> Inl NOT_RESERVABLE)"

definition apply_quarantine :: "replay_record \<Rightarrow> int \<Rightarrow> replay_error + replay_record" where
  "apply_quarantine current now =
    (if rr_status current \<noteq> RESERVED then Inl NOT_RESERVED
     else case rr_expiresAt current of
       None \<Rightarrow> Inl RESERVATION_NOT_EXPIRED
     | Some e \<Rightarrow>
         if now < e then Inl RESERVATION_NOT_EXPIRED
         else Inr \<lparr>rr_key = rr_key current, rr_status = QUARANTINED, rr_updatedAt = rr_updatedAt current,
           rr_expiresAt = rr_expiresAt current, rr_resolution = None, rr_generation = rr_generation current\<rparr>)"

definition apply_reconcile :: "js \<Rightarrow> replay_record \<Rightarrow> int \<Rightarrow> replay_error + replay_record" where
  "apply_reconcile r current now =
    (if rr_status current \<noteq> RESERVED \<and> rr_status current \<noteq> QUARANTINED then Inl NOT_RESOLVABLE
     else if is_nullish (jget r ''observation'') then Inl OBSERVATION_REQUIRED
     else rbind (parseExecutionObservation (jget r ''observation'')) (\<lambda>resolved.
       if o_generation resolved \<noteq> rr_generation current then Inl STALE_RESERVATION_OBSERVATION
       else if now < rr_updatedAt current \<or> o_observedAt resolved < rr_updatedAt current \<or> o_observedAt resolved > now
       then Inl OBSERVATION_INVALID
       else if o_outcome resolved = SETTLED
       then Inr \<lparr>rr_key = rr_key current, rr_status = CONSUMED, rr_updatedAt = now, rr_expiresAt = None,
         rr_resolution = Some resolved, rr_generation = rr_generation current\<rparr>
       else Inr \<lparr>rr_key = rr_key current, rr_status = UNUSED, rr_updatedAt = now, rr_expiresAt = None,
         rr_resolution = Some resolved, rr_generation = rr_generation current\<rparr>))"

definition applyTransition :: "js \<Rightarrow> replay_error + replay_record" where
  "applyTransition request =
    (if \<not> is_plain_object request then Inl MALFORMED_RECORD else
     rbind (parseReplayTransition (jget request ''transition'')) (\<lambda>transition.
     rbind (parseReplayRecord (jget request ''current'')) (\<lambda>current.
     rbind (record_seconds (jget request ''nowUnixSeconds'')) (\<lambda>now.
     if rr_status current = REPLAY_UNKNOWN then Inl UNKNOWN_STATE
     else if rr_status current = CONSUMED then Inl ALREADY_CONSUMED
     else case transition of
       RESERVE \<Rightarrow> apply_reserve request current now
     | QUARANTINE \<Rightarrow> apply_quarantine current now
     | RECONCILE \<Rightarrow> apply_reconcile request current now))))"

definition isAvailable :: "js \<Rightarrow> bool" where
  "isAvailable raw = (case parseReplayRecord raw of Inl _ \<Rightarrow> False | Inr r \<Rightarrow> rr_status r = UNUSED)"

section \<open>Well-formed records\<close>

definition wf_observation :: "observation \<Rightarrow> bool" where
  "wf_observation q \<longleftrightarrow> wf_time (o_observedAt q) \<and> valid_ident (o_sourceId q) \<and> hex_literal 64 (o_reference q)
     \<and> 0 < o_generation q \<and> o_generation q \<le> MAX_RESERVATION_GENERATION"

definition wf_record :: "replay_record \<Rightarrow> bool" where
  "wf_record r \<longleftrightarrow> hex_literal 64 (rr_key r) \<and> wf_time (rr_updatedAt r) \<and> pred_option wf_time (rr_expiresAt r)
     \<and> pred_option wf_observation (rr_resolution r)
     \<and> 0 \<le> rr_generation r \<and> rr_generation r \<le> MAX_RESERVATION_GENERATION \<and> valid_shape r"

fun outcome_name :: "reconciled_outcome \<Rightarrow> string" where
  "outcome_name SETTLED = ''SETTLED''"
| "outcome_name FAILED = ''FAILED''"

fun transition_name :: "replay_transition \<Rightarrow> string" where
  "transition_name RESERVE = ''RESERVE''"
| "transition_name QUARANTINE = ''QUARANTINE''"
| "transition_name RECONCILE = ''RECONCILE''"

definition js_observation :: "observation \<Rightarrow> js" where
  "js_observation q = JObj [(''outcome'', JStr (outcome_name (o_outcome q))),
     (''observedAtUnixSeconds'', JBig (o_observedAt q)), (''sourceId'', JStr (o_sourceId q)),
     (''reference'', JStr (o_reference q)), (''reservationGeneration'', JBig (o_generation q))]"

definition js_record :: "replay_record \<Rightarrow> js" where
  "js_record r = JObj [(''key'', JStr (rr_key r)), (''status'', JStr (replay_status_name (rr_status r))),
     (''updatedAtUnixSeconds'', JBig (rr_updatedAt r)),
     (''reservationExpiresAtUnixSeconds'', js_nullable JBig (rr_expiresAt r)),
     (''resolution'', js_nullable js_observation (rr_resolution r)),
     (''reservationGeneration'', JBig (rr_generation r))]"

lemma parseGeneration_Some [simp]:
  "parseGeneration v = Some g \<longleftrightarrow> v = JBig g \<and> 0 \<le> g \<and> g \<le> MAX_RESERVATION_GENERATION"
  by (auto simp: parseGeneration_def split: js.splits)

lemma parse_member_Inr: "parse_member v t e = Inr x \<longleftrightarrow> (\<exists>s. v = JStr s \<and> map_of t s = Some x)"
  by (auto simp: parse_member_def split: js.splits option.splits)

lemma parse_member_names [simp]:
  "parse_member (JStr (outcome_name q)) ReconciledOutcome e = Inr q"
  "parse_member (JStr (transition_name t)) ReplayTransition e = Inr t"
  "parse_member (JStr (replay_status_name s)) ReplayStatus e = Inr s"
  subgoal by (cases q) (simp_all add: parse_member_def ReconciledOutcome_def)
  subgoal by (cases t) (simp_all add: parse_member_def ReplayTransition_def)
  subgoal by (cases s) (simp_all add: parse_member_def ReplayStatus_def)
  done

lemma record_seconds_Inr [simp]: "record_seconds v = Inr i \<longleftrightarrow> parseBigInt v = Some i \<and> wf_time i"
  by (simp add: record_seconds_def parseUnixSeconds_Inr)

lemma parseExecutionObservation_wf: "parseExecutionObservation v = Inr q \<Longrightarrow> wf_observation q"
  unfolding parseExecutionObservation_def
  by (auto simp: rbind_eq_Inr parseUnixSeconds_Inr parseIdentifier_Inr parseBytes32_Inr wf_observation_def
      split: if_split_asm)

lemma parse_null_pred:
  "parse_null f v = Inr x \<Longrightarrow> (\<And>w y. f w = Inr y \<Longrightarrow> P y) \<Longrightarrow> pred_option P x"
  by (auto simp: parse_null_def rbind_eq_Inr split: if_splits)

lemma parseReplayRecord_wf: "parseReplayRecord v = Inr r \<Longrightarrow> wf_record r"
proof -
  assume "parseReplayRecord v = Inr r"
  then have "hex_literal 64 (rr_key r)" "wf_time (rr_updatedAt r)" "valid_shape r"
      "0 \<le> rr_generation r" "rr_generation r \<le> MAX_RESERVATION_GENERATION"
    and e: "parse_null record_seconds (jget v ''reservationExpiresAtUnixSeconds'') = Inr (rr_expiresAt r)"
    and q: "parse_null (\<lambda>v. relabel MALFORMED_RECORD (parseExecutionObservation v)) (jget v ''resolution'') = Inr (rr_resolution r)"
    unfolding parseReplayRecord_def Let_def
    by (auto simp: rbind_eq_Inr parseBytes32_Inr split: if_split_asm)
  moreover have "pred_option wf_time (rr_expiresAt r)" using e by (rule parse_null_pred) simp
  moreover have "pred_option wf_observation (rr_resolution r)"
    using q by (rule parse_null_pred) (simp add: parseExecutionObservation_wf)
  ultimately show ?thesis by (simp add: wf_record_def)
qed

lemma parseExecutionObservation_js:
  "wf_observation q \<Longrightarrow> parseExecutionObservation (js_observation q) = Inr q"
  by (auto simp: parseExecutionObservation_def js_observation_def wf_observation_def only_keys_def rbind_eq_Inr
      parseUnixSeconds_Inr parseIdentifier_Inr parseBytes32_Inr parseReconciledOutcome_def)

lemma parse_null_js:
  "pred_option P x \<Longrightarrow> (\<And>y. P y \<Longrightarrow> f (g y) = Inr y) \<Longrightarrow> (\<And>y. g y \<noteq> JNull) \<Longrightarrow>
     parse_null f (js_nullable g x) = Inr x"
  by (cases x) (auto simp: parse_null_def js_nullable_def)

lemma parseReplayRecord_js: "wf_record r \<Longrightarrow> parseReplayRecord (js_record r) = Inr r"
proof -
  assume wf: "wf_record r"
  have "parse_null record_seconds (js_nullable JBig (rr_expiresAt r)) = Inr (rr_expiresAt r)"
    by (rule parse_null_js [where P = wf_time]) (use wf in \<open>simp_all add: wf_record_def\<close>)
  moreover have "parse_null (\<lambda>v. relabel MALFORMED_RECORD (parseExecutionObservation v))
      (js_nullable js_observation (rr_resolution r)) = Inr (rr_resolution r)"
  proof (rule parse_null_js [where P = wf_observation])
    show "pred_option wf_observation (rr_resolution r)" using wf by (simp add: wf_record_def)
    show "js_observation y \<noteq> JNull" for y by (simp add: js_observation_def)
  qed (simp add: parseExecutionObservation_js)
  ultimately show ?thesis
    using wf by (cases r) (auto simp: parseReplayRecord_def js_record_def wf_record_def only_keys_def rbind_eq_Inr
        parseBytes32_Inr Let_def)
qed

section \<open>The machine\<close>

text \<open>
  What the transition function promises: four moves between well-formed records, labelled by the
  transition and, where one resolved the record, by the observation.
\<close>

datatype replay_move = Reserved | Quarantined | Resolved observation

inductive replay_step :: "replay_record \<Rightarrow> replay_move \<Rightarrow> replay_record \<Rightarrow> bool" where
  reserve: "rr_status r = UNUSED \<Longrightarrow> wf_time now \<Longrightarrow> wf_time e \<Longrightarrow> rr_updatedAt r \<le> now \<Longrightarrow> now < e \<Longrightarrow>
    rr_generation r < MAX_RESERVATION_GENERATION \<Longrightarrow>
    replay_step r Reserved \<lparr>rr_key = rr_key r, rr_status = RESERVED, rr_updatedAt = now, rr_expiresAt = Some e,
      rr_resolution = None, rr_generation = rr_generation r + 1\<rparr>"
| quarantine: "rr_status r = RESERVED \<Longrightarrow> rr_expiresAt r = Some e \<Longrightarrow> wf_time now \<Longrightarrow> e \<le> now \<Longrightarrow>
    replay_step r Quarantined (r\<lparr>rr_status := QUARANTINED\<rparr>)"
| resolve: "rr_status r \<in> {RESERVED, QUARANTINED} \<Longrightarrow> wf_observation q \<Longrightarrow> wf_time now \<Longrightarrow>
    o_generation q = rr_generation r \<Longrightarrow> rr_updatedAt r \<le> o_observedAt q \<Longrightarrow> o_observedAt q \<le> now \<Longrightarrow>
    replay_step r (Resolved q) \<lparr>rr_key = rr_key r,
      rr_status = (if o_outcome q = SETTLED then CONSUMED else UNUSED), rr_updatedAt = now, rr_expiresAt = None,
      rr_resolution = Some q, rr_generation = rr_generation r\<rparr>"

inductive_cases replay_stepE: "replay_step r l r'"
inductive_simps replay_step_simps: "replay_step r Reserved r'" "replay_step r Quarantined r'" "replay_step r (Resolved q) r'"

text \<open>A run of the machine, with the labels of its steps.\<close>

inductive replay_run :: "replay_record \<Rightarrow> replay_move list \<Rightarrow> replay_record \<Rightarrow> bool" where
  stop: "replay_run r [] r"
| move: "replay_run r ls r' \<Longrightarrow> replay_step r' l r'' \<Longrightarrow> replay_run r (ls @ [l]) r''"

inductive_simps replay_run_Nil: "replay_run r [] r'"

lemma wf_record_status:
  "wf_record r \<Longrightarrow> rr_status r \<in> {RESERVED, QUARANTINED} \<Longrightarrow>
     0 < rr_generation r \<and> rr_resolution r = None \<and> (\<exists>e. rr_expiresAt r = Some e \<and> rr_updatedAt r < e)"
  by (auto simp: wf_record_def valid_shape_def Let_def split: option.splits)

lemma wf_unusedRecord: "hex_literal 64 k \<Longrightarrow> wf_time t \<Longrightarrow> wf_record (unusedRecord k t)"
  by (simp add: wf_record_def unusedRecord_def valid_shape_def)

lemma not_SETTLED: "q \<noteq> SETTLED \<longleftrightarrow> q = FAILED"
  by (cases q) auto

lemma replay_step_wf: "replay_step r l r' \<Longrightarrow> wf_record r \<Longrightarrow> wf_record r'"
  by (induction rule: replay_step.induct)
    (auto simp: wf_record_def valid_shape_def Let_def wf_observation_def not_SETTLED split: option.splits)

lemma replay_step_key: "replay_step r l r' \<Longrightarrow> rr_key r' = rr_key r"
  by (induction rule: replay_step.induct) auto

lemma replay_step_live: "replay_step r l r' \<Longrightarrow> rr_status r \<noteq> CONSUMED \<and> rr_status r \<noteq> REPLAY_UNKNOWN"
  by (induction rule: replay_step.induct) auto

lemma apply_reserve_Inr:
  "apply_reserve req r now = Inr r' \<Longrightarrow> wf_time now \<Longrightarrow> replay_step r Reserved r'"
  unfolding apply_reserve_def replay_step_simps
  by (auto simp: rbind_eq_Inr Let_def parseUnixSeconds_Inr split: if_split_asm js.split_asm)

lemma apply_quarantine_Inr:
  "apply_quarantine r now = Inr r' \<Longrightarrow> wf_time now \<Longrightarrow> wf_record r \<Longrightarrow> replay_step r Quarantined r'"
  unfolding apply_quarantine_def replay_step_simps using wf_record_status [of r]
  by (cases r) (auto split: if_split_asm option.split_asm)

lemma apply_reconcile_Inr:
  "apply_reconcile req r now = Inr r' \<Longrightarrow> wf_time now \<Longrightarrow>
     replay_step r (Resolved (the (rr_resolution r'))) r'"
  unfolding apply_reconcile_def replay_step_simps
  by (auto simp: rbind_eq_Inr not_SETTLED dest: parseExecutionObservation_wf split: if_split_asm)

text \<open>The transition function makes only these moves; every move is made by some request.\<close>

lemma applyTransition_step:
  assumes "applyTransition req = Inr r'"
  obtains r l where "parseReplayRecord (jget req ''current'') = Inr r" "wf_record r" "replay_step r l r'"
  using assms unfolding applyTransition_def
  by (auto simp: rbind_eq_Inr dest: apply_reserve_Inr apply_quarantine_Inr apply_reconcile_Inr parseReplayRecord_wf
      split: if_split_asm replay_transition.split_asm)

definition js_transition :: "replay_record \<Rightarrow> replay_move \<Rightarrow> replay_record \<Rightarrow> js" where
  "js_transition r l r' = JObj (case l of
     Reserved \<Rightarrow> [(''transition'', JStr ''RESERVE''), (''current'', js_record r), (''nowUnixSeconds'', JBig (rr_updatedAt r')),
       (''reservationSeconds'', JBig (the (rr_expiresAt r') - rr_updatedAt r'))]
   | Quarantined \<Rightarrow> [(''transition'', JStr ''QUARANTINE''), (''current'', js_record r),
       (''nowUnixSeconds'', JBig (the (rr_expiresAt r)))]
   | Resolved q \<Rightarrow> [(''transition'', JStr ''RECONCILE''), (''current'', js_record r),
       (''nowUnixSeconds'', JBig (rr_updatedAt r')), (''observation'', js_observation q)])"

lemma parseReplayTransition_names [simp]:
  "parseReplayTransition (JStr ''RESERVE'') = Inr RESERVE"
  "parseReplayTransition (JStr ''QUARANTINE'') = Inr QUARANTINE"
  "parseReplayTransition (JStr ''RECONCILE'') = Inr RECONCILE"
  by (simp_all add: parseReplayTransition_def parse_member_def ReplayTransition_def)

lemma record_seconds_big [simp]: "wf_time i \<Longrightarrow> record_seconds (JBig i) = Inr i"
  by simp

lemma js_observation_not_nullish [simp]: "\<not> is_nullish (js_observation q)"
  by (simp add: js_observation_def is_nullish_def)

lemma quarantined_record:
  "rr_expiresAt r = x \<Longrightarrow> rr_resolution r = None \<Longrightarrow>
   \<lparr>rr_key = rr_key r, rr_status = s, rr_updatedAt = rr_updatedAt r, rr_expiresAt = x, rr_resolution = None,
     rr_generation = rr_generation r\<rparr> = r\<lparr>rr_status := s\<rparr>"
  by (cases r) simp

lemma wf_record_expiry: "wf_record r \<Longrightarrow> rr_expiresAt r = Some e \<Longrightarrow> wf_time e"
  by (simp add: wf_record_def)

lemma applyTransition_js:
  "wf_record r \<Longrightarrow> replay_step r l r' \<Longrightarrow> applyTransition (js_transition r l r') = Inr r'"
  apply (erule replay_stepE)
  by (auto simp add: applyTransition_def js_transition_def parseReplayRecord_js apply_reserve_def
      apply_quarantine_def apply_reconcile_def parseExecutionObservation_js Let_def rbind_eq_Inr parseUnixSeconds_Inr
      quarantined_record dest: wf_record_expiry wf_record_status)

section \<open>Runs\<close>

text \<open>The generations a run resolved, in order.\<close>

fun resolved_generations :: "replay_move list \<Rightarrow> int list" where
  "resolved_generations [] = []"
| "resolved_generations (Resolved q # ls) = o_generation q # resolved_generations ls"
| "resolved_generations (_ # ls) = resolved_generations ls"

lemma resolved_generations_append [simp]:
  "resolved_generations (ls @ ms) = resolved_generations ls @ resolved_generations ms"
  by (induction ls rule: resolved_generations.induct) auto

lemma resolved_generations_set: "Resolved q \<in> set ls \<Longrightarrow> o_generation q \<in> set (resolved_generations ls)"
  by (induction ls rule: resolved_generations.induct) auto

lemma replay_run_wf: "replay_run r ls r' \<Longrightarrow> wf_record r \<Longrightarrow> wf_record r'"
  by (induction rule: replay_run.induct) (auto dest: replay_step_wf)

lemma replay_run_key: "replay_run r ls r' \<Longrightarrow> rr_key r' = rr_key r"
  by (induction rule: replay_run.induct) (auto dest: replay_step_key)

lemma replay_step_generation:
  "replay_step r l r' \<Longrightarrow> rr_generation r' = rr_generation r + (if l = Reserved then 1 else 0)"
  by (induction rule: replay_step.induct) auto

lemma replay_run_generation:
  "replay_run r ls r' \<Longrightarrow> rr_generation r' = rr_generation r + int (count_list ls Reserved)"
  by (induction rule: replay_run.induct) (auto dest: replay_step_generation)

lemma replay_step_time: "replay_step r l r' \<Longrightarrow> rr_updatedAt r \<le> rr_updatedAt r'"
  by (induction rule: replay_step.induct) auto

lemma replay_run_time: "replay_run r ls r' \<Longrightarrow> rr_updatedAt r \<le> rr_updatedAt r'"
  by (induction rule: replay_run.induct) (auto dest: replay_step_time)

text \<open>Every observation resolves a generation of its own, later than all the ones before it.\<close>

lemma replay_run_resolved_aux:
  "replay_run r ls r' \<Longrightarrow> wf_record r \<Longrightarrow> sorted_wrt (<) (resolved_generations ls) \<and>
     (\<forall>g \<in> set (resolved_generations ls). g \<le> rr_generation r' \<and>
        (rr_status r' \<in> {RESERVED, QUARANTINED} \<longrightarrow> g < rr_generation r'))"
proof (induction rule: replay_run.induct)
  case (move r ls r' l r'')
  from move.hyps(2) move.IH move.prems show ?case
    by (cases rule: replay_step.cases) (auto simp: sorted_wrt_append split: if_split_asm)
qed simp

lemma replay_run_resolved:
  "replay_run r ls r' \<Longrightarrow> wf_record r \<Longrightarrow> sorted_wrt (<) (resolved_generations ls)"
  by (blast dest: replay_run_resolved_aux)

lemma replay_run_split:
  "replay_run r (ls @ ms) r' \<Longrightarrow> \<exists>s. replay_run r ls s \<and> replay_run s ms r'"
proof (induction ms arbitrary: r' rule: rev_induct)
  case Nil
  then show ?case by (auto intro: replay_run.stop)
next
  case (snoc m ms)
  then obtain t where "replay_run r (ls @ ms) t" "replay_step t m r'"
    by (auto elim: replay_run.cases)
  with snoc.IH show ?case by (blast intro: replay_run.move)
qed

lemma replay_run_dead: "replay_run r ls r' \<Longrightarrow> rr_status r \<in> {CONSUMED, REPLAY_UNKNOWN} \<Longrightarrow> ls = [] \<and> r' = r"
  by (induction rule: replay_run.induct) (auto dest: replay_step_live)

text \<open>A settlement is the last move of a run.\<close>

lemma replay_run_settled:
  assumes "replay_run r (ls @ Resolved q # ms) r'" and "o_outcome q = SETTLED"
  shows "ms = [] \<and> rr_status r' = CONSUMED"
proof -
  from assms obtain s where "replay_run r (ls @ [Resolved q]) s" and s: "replay_run s ms r'"
    using replay_run_split [of r "ls @ [Resolved q]" ms r'] by auto
  then obtain t where "replay_step t (Resolved q) s" by (auto elim: replay_run.cases)
  with assms have "rr_status s = CONSUMED" by (auto simp: replay_step_simps)
  with s show ?thesis using replay_run_dead [OF s] by auto
qed

text \<open>A held record comes free only by an observation that its own reservation failed.\<close>

lemma replay_run_released:
  "replay_run r ls r' \<Longrightarrow> rr_status r \<in> {RESERVED, QUARANTINED} \<Longrightarrow>
     (rr_status r' \<in> {RESERVED, QUARANTINED} \<and> rr_generation r' = rr_generation r \<and> Reserved \<notin> set ls)
     \<or> (\<exists>q. Resolved q \<in> set ls \<and> o_generation q = rr_generation r)"
proof (induction rule: replay_run.induct)
  case (move r ls r' l r'')
  from move.hyps(2) move.IH move.prems show ?case
    by (cases rule: replay_step.cases) auto
qed simp

lemma replay_run_failed:
  assumes "replay_run r ls r'" "rr_status r \<in> {RESERVED, QUARANTINED}" "Reserved \<in> set ls"
  shows "\<exists>q. Resolved q \<in> set ls \<and> o_generation q = rr_generation r \<and> o_outcome q = FAILED"
proof -
  from replay_run_released [OF assms(1,2)] assms(3)
  obtain q where q: "Resolved q \<in> set ls" "o_generation q = rr_generation r" by auto
  then obtain xs ys where ls: "ls = xs @ Resolved q # ys" by (auto simp: in_set_conv_decomp)
  have "o_outcome q = FAILED"
  proof (rule ccontr)
    assume "o_outcome q \<noteq> FAILED"
    then have s: "o_outcome q = SETTLED" by (cases "o_outcome q") auto
    with assms(1) ls have "ys = []" by (blast dest: replay_run_settled)
    with assms(3) ls have res: "Reserved \<in> set xs" by auto
    from assms(1) ls obtain t where "replay_run r xs t" "replay_run t [Resolved q] r'"
      using \<open>ys = []\<close> by (auto dest: replay_run_split)
    then have "o_generation q = rr_generation t" "rr_generation t > rr_generation r"
      using res replay_run_generation [of r xs t]
      by (auto elim!: replay_run.cases [of t "[Resolved q]"] simp: replay_run_Nil replay_step_simps
          count_list_0_iff intro: gr0I)
    with q show False by simp
  qed
  with q show ?thesis by blast
qed

section \<open>A store over the transition function\<close>

text \<open>
  The function is pure and its caller persists the result. A store holds one record and serves any requests in sequence: a request
  made on the record it holds is given to the transition function, whose result replaces the record; a refused request,
  or one made on another record, leaves it.
\<close>

definition served :: "replay_record \<Rightarrow> js \<Rightarrow> bool" where
  "served r q \<longleftrightarrow> parseReplayRecord (jget q ''current'') = Inr r \<and> isOk (applyTransition q)"

definition serve :: "replay_record \<Rightarrow> js \<Rightarrow> replay_record" where
  "serve r q = (if parseReplayRecord (jget q ''current'') = Inr r
     then (case applyTransition q of Inl _ \<Rightarrow> r | Inr r' \<Rightarrow> r') else r)"

fun serve_all :: "replay_record \<Rightarrow> js list \<Rightarrow> replay_record" where
  "serve_all r [] = r"
| "serve_all r (q # qs) = serve_all (serve r q) qs"

fun accepted :: "replay_record \<Rightarrow> js list \<Rightarrow> js list" where
  "accepted r [] = []"
| "accepted r (q # qs) = (if served r q then q # accepted (serve r q) qs else accepted r qs)"

text \<open>What a request asks for, and the observation it carries.\<close>

definition asks :: "replay_transition \<Rightarrow> js \<Rightarrow> bool" where
  "asks t q \<longleftrightarrow> parseReplayTransition (jget q ''transition'') = Inr t"

definition observation_of :: "js \<Rightarrow> observation option" where
  "observation_of q = (if asks RECONCILE q
     then (case parseExecutionObservation (jget q ''observation'') of Inl _ \<Rightarrow> None | Inr x \<Rightarrow> Some x) else None)"

definition move_of :: "js \<Rightarrow> replay_move" where
  "move_of q = (case observation_of q of Some x \<Rightarrow> Resolved x | None \<Rightarrow> if asks RESERVE q then Reserved else Quarantined)"

lemma reconcile_step:
  assumes "apply_reconcile q r now = Inr r'" "wf_time now" "asks RECONCILE q"
  shows "replay_step r (move_of q) r'"
proof -
  have "parseExecutionObservation (jget q ''observation'') = Inr (the (rr_resolution r'))"
    using assms(1) unfolding apply_reconcile_def by (auto simp: rbind_eq_Inr split: if_split_asm)
  then show ?thesis
    using apply_reconcile_Inr [OF assms(1,2)] assms(3) by (simp add: move_of_def observation_of_def)
qed

lemma served_step: "served r q \<Longrightarrow> replay_step r (move_of q) (serve r q)"
proof -
  assume s: "served r q"
  then obtain r' where r': "applyTransition q = Inr r'" by (cases "applyTransition q") (simp_all add: served_def)
  have move: "move_of q = Reserved" if "asks RESERVE q"
    using that by (simp add: move_of_def observation_of_def asks_def)
  have "move_of q = Quarantined" if "asks QUARANTINE q"
    using that by (simp add: move_of_def observation_of_def asks_def)
  then have "replay_step r (move_of q) r'"
    using s r' move unfolding served_def applyTransition_def
    by (auto simp: rbind_eq_Inr asks_def intro: reconcile_step
        dest!: apply_reserve_Inr apply_quarantine_Inr parseReplayRecord_wf
        split: if_split_asm replay_transition.split_asm)
  then show ?thesis using s r' by (simp add: serve_def served_def)
qed

lemma not_served: "\<not> served r q \<Longrightarrow> serve r q = r"
  by (auto simp: served_def serve_def split: sum.splits)

lemma replay_run_Cons: "replay_run s ls r' \<Longrightarrow> replay_step r l s \<Longrightarrow> replay_run r (l # ls) r'"
proof (induction rule: replay_run.induct)
  case (stop s)
  from replay_run.move [OF replay_run.stop stop] show ?case by simp
next
  case (move s ls r' m r'')
  from replay_run.move [OF move.IH [OF move.prems] move.hyps(2)] show ?case by simp
qed

text \<open>The accepted requests of a store, read as moves, are a run of the machine.\<close>

lemma store_run: "replay_run r (map move_of (accepted r qs)) (serve_all r qs)"
proof (induction qs arbitrary: r)
  case Nil
  then show ?case by (simp add: replay_run.stop)
next
  case (Cons q qs)
  then show ?case using replay_run_Cons [OF Cons.IH served_step] by (cases "served r q") (simp_all add: not_served)
qed

lemma accepted_moves: "q \<in> set (accepted r qs) \<Longrightarrow> \<exists>s. served s q"
  by (induction r qs rule: accepted.induct) (auto split: if_splits)

lemma moves_resolved: "resolved_generations (map move_of qs) = map o_generation (List.map_filter observation_of qs)"
  by (induction qs) (auto simp: move_of_def List.map_filter_simps split: option.splits)

lemma move_Reserved: "move_of q = Reserved \<longleftrightarrow> asks RESERVE q"
  by (auto simp: move_of_def observation_of_def asks_def split: option.splits sum.splits)

lemma move_Resolved: "move_of q = Resolved x \<longleftrightarrow> observation_of q = Some x"
  by (auto simp: move_of_def split: option.splits)

lemma moves_reserved: "count_list (map move_of qs) Reserved = length (filter (asks RESERVE) qs)"
  by (induction qs) (auto simp: move_Reserved)

text \<open>A reservation accepted on a held record comes after a report that the reservation held then had failed.\<close>

lemma store_failed:
  assumes "rr_status r \<in> {RESERVED, QUARANTINED}" "accepted r qs = ps @ q # ms" "asks RESERVE q"
  shows "\<exists>p \<in> set ps. \<exists>x. observation_of p = Some x \<and> o_generation x = rr_generation r \<and> o_outcome x = FAILED"
proof -
  have "replay_run r ((map move_of ps @ [Reserved]) @ map move_of ms) (serve_all r qs)"
    using store_run [of r qs] assms(2,3) move_Reserved [of q] by simp
  then obtain s where "replay_run r (map move_of ps @ [Reserved]) s" using replay_run_split by blast
  from replay_run_failed [OF this assms(1)]
  obtain x where x: "Resolved x \<in> set (map move_of ps @ [Reserved])" "o_generation x = rr_generation r" "o_outcome x = FAILED"
    by auto
  then obtain p where "p \<in> set ps" "move_of p = Resolved x" by auto
  then show ?thesis using x(2,3) unfolding move_Resolved by blast
qed

text \<open>The requests that make given moves.\<close>

lemma move_of_js: "replay_step r l r' \<Longrightarrow> move_of (js_transition r l r') = l"
  by (auto simp: replay_step.simps move_of_def observation_of_def asks_def js_transition_def parseExecutionObservation_js)

lemma serve_js:
  assumes "wf_record r" "replay_step r l r'"
  shows "serve r (js_transition r l r') = r'" "served r (js_transition r l r')"
proof -
  have "jget (js_transition r l r') ''current'' = js_record r"
    by (simp add: js_transition_def split: replay_move.split)
  then show "serve r (js_transition r l r') = r'" "served r (js_transition r l r')"
    using applyTransition_js [OF assms] parseReplayRecord_js [OF assms(1)] by (simp_all add: serve_def served_def)
qed

end
