(* ===== verification/Gate_Reconciliation.thy ===== *)
theory Gate_Reconciliation
  imports Gate Replay
begin

text \<open>
  Reservations of gate attempts and their reconciliation with what the chain shows
  (\<open>packages/execution-gate/src/reconciliation.ts\<close>): the strict parsers of the two boundaries, the admission of an
  attempt under an open reservation, and the observation derived from a reading of the gate. Keccak-256 is a parameter.
\<close>

definition ZERO_BYTES32 :: string where
  "ZERO_BYTES32 = ''0x'' @ replicate 64 CHR ''0''"

definition MAX_ATTEMPTS :: nat where "MAX_ATTEMPTS = 8"

datatype confirmation_level = SUBMITTED | MINED | CONFIRMED | FINALIZED

definition ConfirmationLevel :: "(string \<times> confirmation_level) list" where
  "ConfirmationLevel = [(''SUBMITTED'', SUBMITTED), (''MINED'', MINED), (''CONFIRMED'', CONFIRMED), (''FINALIZED'', FINALIZED)]"

fun RANK :: "confirmation_level \<Rightarrow> nat" where
  "RANK SUBMITTED = 0" | "RANK MINED = 1" | "RANK CONFIRMED = 2" | "RANK FINALIZED = 3"

record reconciliation_policy =
  rp_requiredLevel :: confirmation_level
  rp_sourceId :: string

record signed_attempt =
  sa_candidateDigest :: string
  sa_terms :: gate_terms
  sa_commitment :: string

record gate_reservation =
  gr_chainId :: int
  gr_gate :: string
  gr_mandateEncoding :: string
  gr_reservation :: replay_record
  gr_attempts :: "signed_attempt list"

record chain_settlement =
  cs_transactionHash :: string
  cs_commitment :: string

record chain_evidence =
  ev_level :: confirmation_level
  ev_chainId :: int
  ev_gate :: string
  ev_mandateDigest :: string
  ev_consumedCommitment :: string
  ev_blockTimestamp :: int
  ev_settlement :: "chain_settlement option"
  ev_observedAt :: int

datatype reconciliation_refusal =
    EVIDENCE_MALFORMED | NOT_FINAL | EVIDENCE_MISMATCH | EVIDENCE_INCONSISTENT | RESERVATION_MISMATCH | NOT_RESOLVABLE_RECORD
  | ATTEMPT_OUTSIDE_RESERVATION | OUTCOME_UNESTABLISHED | OBSERVATION_REFUSED | RECONCILIATION_THROWN

datatype failure_basis = ATTEMPTS_EXPIRED | MANDATE_EXPIRED_BASIS

record reconciliation =
  rn_observation :: observation
  rn_settledCommitment :: "string option"
  rn_settledByRecordedAttempt :: "bool option"
  rn_failureBasis :: "failure_basis option"

datatype attempt_refusal =
    ATTEMPT_MALFORMED | ATTEMPT_RESERVATION_MISMATCH | ATTEMPT_NOT_RESERVED | RESERVATION_LAPSED | DEADLINE_BEYOND_RESERVATION
  | ATTEMPT_LIMIT_REACHED | ATTEMPT_INCONSISTENT | ATTEMPT_THROWN

section \<open>Strict parsing\<close>

text \<open>\<open>record(raw)?.[k]\<close>: the field of an object that is not an array, undefined for anything else.\<close>

definition object_field :: "js \<Rightarrow> string \<Rightarrow> js" where
  "object_field raw k = (if is_plain_object raw then jget raw k else JUndef)"

definition parse_level :: "js \<Rightarrow> confirmation_level option" where
  "parse_level raw = (case raw of JStr s \<Rightarrow> map_of ConfirmationLevel s | _ \<Rightarrow> None)"

definition parse_address :: "js \<Rightarrow> string option" where
  "parse_address raw = (case raw of JStr s \<Rightarrow> if hex_literal 40 s then Some s else None | _ \<Rightarrow> None)"

definition unsignedBelow :: "js \<Rightarrow> int \<Rightarrow> int option" where
  "unsignedBelow raw cap = (case parseBigInt raw of
     None \<Rightarrow> None | Some v \<Rightarrow> if v \<ge> 0 \<and> v < cap then Some v else None)"

definition opt_of :: "'e + 'a \<Rightarrow> 'a option" where
  "opt_of r = (case r of Inl _ \<Rightarrow> None | Inr x \<Rightarrow> Some x)"

definition parse_bytes32 :: "js \<Rightarrow> string option" where
  "parse_bytes32 raw = opt_of (parseBytes32 raw MALFORMED_AUTHORIZATION)"

definition parse_seconds :: "js \<Rightarrow> int option" where
  "parse_seconds raw = opt_of (parseUnixSeconds raw MALFORMED_TRUSTED_STATE)"

definition parse_terms :: "js \<Rightarrow> gate_terms option" where
  "parse_terms raw = do {
     recipient \<leftarrow> parse_address (object_field raw ''recipient'');
     fundingLimit \<leftarrow> unsignedBelow (object_field raw ''fundingLimit'') (2 ^ 256);
     deadline \<leftarrow> unsignedBelow (object_field raw ''deadline'') (2 ^ 64);
     case object_field raw ''executionData'' of
       JStr d \<Rightarrow> (case hexToBytes d of
           None \<Rightarrow> None
         | Some bytes \<Rightarrow> if length bytes > MAX_EXECUTION_DATA_BYTES then None
             else Some \<lparr>gt_recipient = recipient, gt_fundingLimit = fundingLimit, gt_deadline = deadline, gt_executionData = d\<rparr>)
     | _ \<Rightarrow> None }"

definition parse_signed_attempt :: "js \<Rightarrow> signed_attempt option" where
  "parse_signed_attempt raw = do {
     cd \<leftarrow> parse_bytes32 (object_field raw ''candidateDigest'');
     t \<leftarrow> parse_terms (object_field raw ''terms'');
     commitment \<leftarrow> parse_bytes32 (object_field raw ''executionCommitment'');
     Some \<lparr>sa_candidateDigest = cd, sa_terms = t, sa_commitment = commitment\<rparr> }"

record signed_mandate =
  sm_encoding :: string
  sm_digest :: string
  sm_expiresAt :: int

definition parse_signed_mandate :: "(u8 list \<Rightarrow> u8 list) \<Rightarrow> js \<Rightarrow> signed_mandate option" where
  "parse_signed_mandate keccak raw = (case raw of
     JStr s \<Rightarrow> do {
       bytes \<leftarrow> hexToBytes s;
       m \<leftarrow> opt_of (decodeMandate bytes);
       Some \<lparr>sm_encoding = s, sm_digest = keccak256 keccak bytes, sm_expiresAt = m_expiresAtUnixSeconds m\<rparr> }
   | _ \<Rightarrow> None)"

record parsed_reservation =
  pv_value :: gate_reservation
  pv_digest :: string
  pv_expiresAt :: int

definition parse_reservation :: "(u8 list \<Rightarrow> u8 list) \<Rightarrow> js \<Rightarrow> parsed_reservation option" where
  "parse_reservation keccak raw =
     (if \<not> is_plain_object raw then None else do {
        cid \<leftarrow> unsignedBelow (jget raw ''chainId'') (2 ^ 256);
        gate \<leftarrow> parse_address (jget raw ''gate'');
        m \<leftarrow> parse_signed_mandate keccak (jget raw ''mandateEncoding'');
        r \<leftarrow> opt_of (parseReplayRecord (jget raw ''reservation''));
        case jget raw ''attempts'' of
          JArr xs \<Rightarrow> if length xs > MAX_ATTEMPTS then None else do {
            as \<leftarrow> those (map parse_signed_attempt xs);
            Some \<lparr>pv_value = \<lparr>gr_chainId = cid, gr_gate = gate, gr_mandateEncoding = sm_encoding m, gr_reservation = r,
                gr_attempts = as\<rparr>, pv_digest = sm_digest m, pv_expiresAt = sm_expiresAt m\<rparr> }
        | _ \<Rightarrow> None })"

definition parse_settlement :: "js \<Rightarrow> chain_settlement option option" where
  "parse_settlement raw = (if raw = JNull then Some None else do {
     h \<leftarrow> parse_bytes32 (object_field raw ''transactionHash'');
     c \<leftarrow> parse_bytes32 (object_field raw ''executionCommitment'');
     Some (Some \<lparr>cs_transactionHash = h, cs_commitment = c\<rparr>) })"

definition parse_evidence :: "js \<Rightarrow> chain_evidence option" where
  "parse_evidence raw =
     (if \<not> is_plain_object raw then None else do {
        lvl \<leftarrow> parse_level (jget raw ''level'');
        cid \<leftarrow> unsignedBelow (jget raw ''chainId'') (2 ^ 256);
        gate \<leftarrow> parse_address (jget raw ''gate'');
        md \<leftarrow> parse_bytes32 (jget raw ''mandateDigest'');
        consumed \<leftarrow> parse_bytes32 (jget raw ''consumedCommitment'');
        t \<leftarrow> parse_seconds (jget raw ''blockTimestamp'');
        observed \<leftarrow> parse_seconds (jget raw ''observedAtUnixSeconds'');
        st \<leftarrow> parse_settlement (jget raw ''settlement'');
        Some \<lparr>ev_level = lvl, ev_chainId = cid, ev_gate = gate, ev_mandateDigest = md, ev_consumedCommitment = consumed,
          ev_blockTimestamp = t, ev_settlement = st, ev_observedAt = observed\<rparr> })"

definition parse_policy :: "js \<Rightarrow> reconciliation_policy option" where
  "parse_policy raw = do {
     lvl \<leftarrow> parse_level (object_field raw ''requiredLevel'');
     src \<leftarrow> opt_of (parseIdentifier (object_field raw ''sourceId''));
     Some \<lparr>rp_requiredLevel = lvl, rp_sourceId = src\<rparr> }"

definition commitmentOf :: "(u8 list \<Rightarrow> u8 list) \<Rightarrow> string \<Rightarrow> signed_attempt \<Rightarrow> string option" where
  "commitmentOf keccak md a = executionCommitment keccak md (sa_candidateDigest a) (sa_terms a)"

text \<open>Every recorded commitment is that of its own fields; the loop stops with an exception where the commitment does.\<close>

fun attempts_consistent :: "(u8 list \<Rightarrow> u8 list) \<Rightarrow> string \<Rightarrow> signed_attempt list \<Rightarrow> bool option" where
  "attempts_consistent keccak md [] = Some True"
| "attempts_consistent keccak md (a # as) = (case commitmentOf keccak md a of
     None \<Rightarrow> None
   | Some c \<Rightarrow> if c \<noteq> sa_commitment a then Some False else attempts_consistent keccak md as)"

section \<open>Pre-signing\<close>

record attempt_admitted =
  aa_commitment :: string
  aa_record :: gate_reservation

definition admitAttemptUnderReservation :: "(u8 list \<Rightarrow> u8 list) \<Rightarrow> js \<Rightarrow> js \<Rightarrow> js \<Rightarrow> attempt_refusal + attempt_admitted" where
  "admitAttemptUnderReservation keccak rawRecord rawAttempt rawNow =
     (case (parse_reservation keccak rawRecord, parse_bytes32 (object_field rawAttempt ''candidateDigest''),
            parse_terms (object_field rawAttempt ''terms''), parse_seconds rawNow) of
        (Some parsed, Some cd, Some t, Some now) \<Rightarrow>
          (let v = pv_value parsed; md = pv_digest parsed; r = gr_reservation v
           in if rr_key r \<noteq> md then Inl ATTEMPT_RESERVATION_MISMATCH
              else if rr_status r \<noteq> RESERVED then Inl ATTEMPT_NOT_RESERVED
              else case rr_expiresAt r of
                None \<Rightarrow> Inl RESERVATION_LAPSED
              | Some ceiling_at \<Rightarrow>
                  if now \<ge> ceiling_at then Inl RESERVATION_LAPSED
                  else if gt_deadline t > ceiling_at then Inl DEADLINE_BEYOND_RESERVATION
                  else case attempts_consistent keccak md (gr_attempts v) of
                    None \<Rightarrow> Inl ATTEMPT_THROWN
                  | Some False \<Rightarrow> Inl ATTEMPT_INCONSISTENT
                  | Some True \<Rightarrow> (case executionCommitment keccak md cd t of
                      None \<Rightarrow> Inl ATTEMPT_THROWN
                    | Some commitment \<Rightarrow>
                        if list_ex (\<lambda>a. sa_commitment a = commitment) (gr_attempts v)
                        then Inr \<lparr>aa_commitment = commitment, aa_record = v\<rparr>
                        else if length (gr_attempts v) \<ge> MAX_ATTEMPTS then Inl ATTEMPT_LIMIT_REACHED
                        else Inr \<lparr>aa_commitment = commitment, aa_record = v\<lparr>gr_attempts := gr_attempts v @
                          [\<lparr>sa_candidateDigest = cd, sa_terms = t, sa_commitment = commitment\<rparr>]\<rparr>\<rparr>))
      | _ \<Rightarrow> Inl ATTEMPT_MALFORMED)"

section \<open>Reconciliation\<close>

record verdict =
  vd_outcome :: reconciled_outcome
  vd_reference :: string
  vd_settled :: "string option"
  vd_recorded :: "bool option"
  vd_basis :: "failure_basis option"

definition failure_of :: "parsed_reservation \<Rightarrow> int \<Rightarrow> chain_evidence \<Rightarrow> reconciliation_refusal + failure_basis" where
  "failure_of parsed ceiling_at ev =
     (if ev_blockTimestamp ev \<ge> pv_expiresAt parsed then Inr MANDATE_EXPIRED_BASIS
      else if list_ex (\<lambda>a. gt_deadline (sa_terms a) > ceiling_at) (gr_attempts (pv_value parsed)) then Inl ATTEMPT_OUTSIDE_RESERVATION
      else if ev_blockTimestamp ev \<le> ceiling_at then Inl OUTCOME_UNESTABLISHED
      else Inr ATTEMPTS_EXPIRED)"

definition verdict_of :: "parsed_reservation \<Rightarrow> int \<Rightarrow> chain_evidence \<Rightarrow> reconciliation_refusal + verdict" where
  "verdict_of parsed ceiling_at ev =
     (let attempts = gr_attempts (pv_value parsed)
      in if ev_consumedCommitment ev \<noteq> ZERO_BYTES32 then
           (case ev_settlement ev of
              None \<Rightarrow> Inl EVIDENCE_INCONSISTENT
            | Some st \<Rightarrow>
                if cs_commitment st \<noteq> ev_consumedCommitment ev then Inl EVIDENCE_INCONSISTENT
                else Inr \<lparr>vd_outcome = SETTLED, vd_reference = cs_transactionHash st, vd_settled = Some (ev_consumedCommitment ev),
                  vd_recorded = Some (list_ex (\<lambda>a. sa_commitment a = ev_consumedCommitment ev) attempts), vd_basis = None\<rparr>)
         else if ev_settlement ev \<noteq> None then Inl EVIDENCE_INCONSISTENT
         else rbind (failure_of parsed ceiling_at ev) (\<lambda>basis.
           Inr \<lparr>vd_outcome = FAILED,
             vd_reference = (if attempts = [] then pv_digest parsed else sa_commitment (last attempts)),
             vd_settled = None, vd_recorded = None, vd_basis = Some basis\<rparr>))"

fun outcome_text :: "reconciled_outcome \<Rightarrow> string" where
  "outcome_text SETTLED = ''SETTLED''" | "outcome_text FAILED = ''FAILED''"

definition observationFromGateEvidence :: "(u8 list \<Rightarrow> u8 list) \<Rightarrow> js \<Rightarrow> js \<Rightarrow> js \<Rightarrow> reconciliation_refusal + reconciliation" where
  "observationFromGateEvidence keccak rawRecord rawEvidence rawPolicy =
     (case (parse_reservation keccak rawRecord, parse_evidence rawEvidence, parse_policy rawPolicy) of
        (Some parsed, Some ev, Some pol) \<Rightarrow>
          (let v = pv_value parsed; md = pv_digest parsed; r = gr_reservation v
           in if RANK (ev_level ev) < RANK (rp_requiredLevel pol) then Inl NOT_FINAL
              else if ev_chainId ev \<noteq> gr_chainId v \<or> ev_gate ev \<noteq> gr_gate v \<or> ev_mandateDigest ev \<noteq> md then Inl EVIDENCE_MISMATCH
              else if rr_key r \<noteq> md then Inl RESERVATION_MISMATCH
              else case rr_expiresAt r of
                None \<Rightarrow> Inl NOT_RESOLVABLE_RECORD
              | Some ceiling_at \<Rightarrow>
                  if rr_status r \<noteq> RESERVED \<and> rr_status r \<noteq> QUARANTINED then Inl NOT_RESOLVABLE_RECORD
                  else case attempts_consistent keccak md (gr_attempts v) of
                    None \<Rightarrow> Inl RECONCILIATION_THROWN
                  | Some False \<Rightarrow> Inl EVIDENCE_INCONSISTENT
                  | Some True \<Rightarrow> rbind (verdict_of parsed ceiling_at ev) (\<lambda>vd.
                      case parseExecutionObservation (JObj [(''outcome'', JStr (outcome_text (vd_outcome vd))),
                          (''observedAtUnixSeconds'', JBig (ev_observedAt ev)), (''sourceId'', JStr (rp_sourceId pol)),
                          (''reference'', JStr (vd_reference vd)), (''reservationGeneration'', JBig (rr_generation r))]) of
                        Inl _ \<Rightarrow> Inl OBSERVATION_REFUSED
                      | Inr obs \<Rightarrow> Inr \<lparr>rn_observation = obs, rn_settledCommitment = vd_settled vd,
                          rn_settledByRecordedAttempt = vd_recorded vd, rn_failureBasis = vd_basis vd\<rparr>))
      | _ \<Rightarrow> Inl EVIDENCE_MALFORMED)"

end
