(* ===== verification/Gate_Protocol.thy ===== *)
theory Gate_Protocol
  imports Gate_Correct Gate_Reconciliation
begin

text \<open>
  Gate and reconciliation together. A reservation built by admissions bounds the deadlines of its attempts; an
  observation that the mandate failed is only derived from a reading after which none of them can settle.
\<close>

section \<open>Parsed records\<close>

lemma opt_of_Some [simp]: "opt_of r = Some x \<longleftrightarrow> r = Inr x"
  by (simp add: opt_of_def split: sum.splits)

lemma case_js_Some:
  "(case v of JArr xs \<Rightarrow> P xs | _ \<Rightarrow> None) = Some y \<longleftrightarrow> (\<exists>xs. v = JArr xs \<and> P xs = Some y)"
  "(case v of JStr s \<Rightarrow> Q s | _ \<Rightarrow> None) = Some z \<longleftrightarrow> (\<exists>s. v = JStr s \<and> Q s = Some z)"
  by (cases v; simp)+

lemma case_sum_Inr: "(case x of Inl e \<Rightarrow> Inl (f e) | Inr d \<Rightarrow> Inr (g d)) = Inr y \<longleftrightarrow> (\<exists>d. x = Inr d \<and> y = g d)"
  by (cases x) auto

lemma those_length: "those xs = Some ys \<Longrightarrow> length ys = length xs"
  by (induction xs arbitrary: ys) (auto split: option.splits)

text \<open>A record whose attempts are those of its own commitments and end with its reservation.\<close>

definition bounded_attempts :: "(u8 list \<Rightarrow> u8 list) \<Rightarrow> string \<Rightarrow> gate_reservation \<Rightarrow> bool" where
  "bounded_attempts keccak md v \<longleftrightarrow> length (gr_attempts v) \<le> MAX_ATTEMPTS \<and> distinct (map sa_commitment (gr_attempts v)) \<and>
     (\<forall>a \<in> set (gr_attempts v). commitmentOf keccak md a = Some (sa_commitment a) \<and>
        (\<exists>t. rr_expiresAt (gr_reservation v) = Some t \<and> gt_deadline (sa_terms a) \<le> t))"

lemma attempts_consistent_True:
  "attempts_consistent keccak md as = Some True \<longleftrightarrow> (\<forall>a \<in> set as. commitmentOf keccak md a = Some (sa_commitment a))"
  by (induction as) (auto split: option.splits)

lemma parse_reservation_facts:
  assumes "parse_reservation keccak raw = Some pv"
  shows "(\<exists>b m. hexToBytes (gr_mandateEncoding (pv_value pv)) = Some b \<and> decodeMandate b = Inr m \<and>
      pv_digest pv = keccak256 keccak b \<and> pv_expiresAt pv = m_expiresAtUnixSeconds m) \<and>
    length (gr_attempts (pv_value pv)) \<le> MAX_ATTEMPTS"
proof -
  from assms obtain xs as mm where xs: "length xs \<le> MAX_ATTEMPTS" "those (map parse_signed_attempt xs) = Some as"
      and mm: "parse_signed_mandate keccak (jget raw ''mandateEncoding'') = Some mm"
      and pv: "gr_attempts (pv_value pv) = as" "gr_mandateEncoding (pv_value pv) = sm_encoding mm" "pv_digest pv = sm_digest mm"
        "pv_expiresAt pv = sm_expiresAt mm"
    by (auto simp: parse_reservation_def bind_eq_Some_conv case_js_Some not_less split: if_splits)
  have "length as = length xs" using those_length [OF xs(2)] by simp
  then show ?thesis using xs mm pv
    by (auto simp: parse_signed_mandate_def bind_eq_Some_conv case_js_Some)
qed

section \<open>Admissions\<close>

lemma admit_Inr:
  assumes "admitAttemptUnderReservation keccak rawRecord rawAttempt rawNow = Inr adm"
  shows "\<exists>pv t cd now ceil. parse_reservation keccak rawRecord = Some pv \<and> parse_terms (object_field rawAttempt ''terms'') = Some t \<and>
    parse_bytes32 (object_field rawAttempt ''candidateDigest'') = Some cd \<and> parse_seconds rawNow = Some now \<and>
    rr_key (gr_reservation (pv_value pv)) = pv_digest pv \<and> rr_status (gr_reservation (pv_value pv)) = RESERVED \<and>
    rr_expiresAt (gr_reservation (pv_value pv)) = Some ceil \<and> now < ceil \<and> gt_deadline t \<le> ceil \<and>
    (\<forall>a \<in> set (gr_attempts (pv_value pv)). commitmentOf keccak (pv_digest pv) a = Some (sa_commitment a)) \<and>
    executionCommitment keccak (pv_digest pv) cd t = Some (aa_commitment adm) \<and>
    (if aa_commitment adm \<in> sa_commitment ` set (gr_attempts (pv_value pv)) then aa_record adm = pv_value pv
     else length (gr_attempts (pv_value pv)) < MAX_ATTEMPTS \<and>
       aa_record adm = (pv_value pv)\<lparr>gr_attempts := gr_attempts (pv_value pv) @
         [\<lparr>sa_candidateDigest = cd, sa_terms = t, sa_commitment = aa_commitment adm\<rparr>]\<rparr>)"
proof -
  from assms obtain pv cd t now where p: "parse_reservation keccak rawRecord = Some pv"
      "parse_bytes32 (object_field rawAttempt ''candidateDigest'') = Some cd"
      "parse_terms (object_field rawAttempt ''terms'') = Some t" "parse_seconds rawNow = Some now"
    by (auto simp: admitAttemptUnderReservation_def split: option.splits)
  from assms p obtain ceil where c: "rr_expiresAt (gr_reservation (pv_value pv)) = Some ceil"
    by (auto simp: admitAttemptUnderReservation_def Let_def split: option.splits if_splits)
  show ?thesis
    using assms by (intro exI [of _ pv] exI [of _ t] exI [of _ cd] exI [of _ now] exI [of _ ceil])
      (auto simp: admitAttemptUnderReservation_def p c Let_def not_less not_le list_ex_iff attempts_consistent_True [symmetric]
        split: option.splits if_splits bool.splits)
qed

lemma admit_bounded:
  assumes "admitAttemptUnderReservation keccak rawRecord rawAttempt rawNow = Inr adm"
    "parse_reservation keccak rawRecord = Some pv" "bounded_attempts keccak (pv_digest pv) (pv_value pv)"
  shows "bounded_attempts keccak (pv_digest pv) (aa_record adm) \<and> gr_reservation (aa_record adm) = gr_reservation (pv_value pv) \<and>
    aa_commitment adm \<in> sa_commitment ` set (gr_attempts (aa_record adm))"
proof -
  from admit_Inr [OF assms(1)] assms(2) obtain t cd ceil where
      e: "rr_expiresAt (gr_reservation (pv_value pv)) = Some ceil" "gt_deadline t \<le> ceil"
      "executionCommitment keccak (pv_digest pv) cd t = Some (aa_commitment adm)"
      "if aa_commitment adm \<in> sa_commitment ` set (gr_attempts (pv_value pv)) then aa_record adm = pv_value pv
       else length (gr_attempts (pv_value pv)) < MAX_ATTEMPTS \<and>
         aa_record adm = (pv_value pv)\<lparr>gr_attempts := gr_attempts (pv_value pv) @
           [\<lparr>sa_candidateDigest = cd, sa_terms = t, sa_commitment = aa_commitment adm\<rparr>]\<rparr>" by auto
  show ?thesis
  proof (cases "aa_commitment adm \<in> sa_commitment ` set (gr_attempts (pv_value pv))")
    case True
    then show ?thesis using e(4) assms(3) by simp
  next
    case False
    then show ?thesis using e assms(3) by (auto simp: bounded_attempts_def commitmentOf_def)
  qed
qed

section \<open>A failed reservation cannot settle\<close>

lemma observation_outcome:
  "parseExecutionObservation (JObj [(''outcome'', JStr (outcome_text out)), (''observedAtUnixSeconds'', a), (''sourceId'', b),
     (''reference'', c), (''reservationGeneration'', d)]) = Inr obs \<Longrightarrow> o_outcome obs = out"
  by (cases out)
    (auto simp: parseExecutionObservation_def rbind_eq_Inr parseReconciledOutcome_def parse_member_def ReconciledOutcome_def
      split: if_splits)

lemma observation_failed:
  assumes "observationFromGateEvidence keccak rawRecord rawEvidence rawPolicy = Inr rn" "o_outcome (rn_observation rn) = FAILED"
  shows "\<exists>pv ev ceil. parse_reservation keccak rawRecord = Some pv \<and> parse_evidence rawEvidence = Some ev \<and>
    rr_key (gr_reservation (pv_value pv)) = pv_digest pv \<and> ev_mandateDigest ev = pv_digest pv \<and>
    ev_consumedCommitment ev = ZERO_BYTES32 \<and> rr_expiresAt (gr_reservation (pv_value pv)) = Some ceil \<and>
    (pv_expiresAt pv \<le> ev_blockTimestamp ev \<or>
      (ceil < ev_blockTimestamp ev \<and> (\<forall>a \<in> set (gr_attempts (pv_value pv)). gt_deadline (sa_terms a) \<le> ceil)))"
proof -
  from assms(1) obtain pv ev pol where p: "parse_reservation keccak rawRecord = Some pv" "parse_evidence rawEvidence = Some ev"
      "parse_policy rawPolicy = Some pol"
    by (auto simp: observationFromGateEvidence_def split: option.splits)
  from assms(1) p obtain ceil vd where v: "rr_expiresAt (gr_reservation (pv_value pv)) = Some ceil"
      "rr_key (gr_reservation (pv_value pv)) = pv_digest pv" "ev_mandateDigest ev = pv_digest pv"
      "verdict_of pv ceil ev = Inr vd"
      and obs: "parseExecutionObservation (JObj [(''outcome'', JStr (outcome_text (vd_outcome vd))),
          (''observedAtUnixSeconds'', JBig (ev_observedAt ev)), (''sourceId'', JStr (rp_sourceId pol)),
          (''reference'', JStr (vd_reference vd)),
          (''reservationGeneration'', JBig (rr_generation (gr_reservation (pv_value pv))))]) = Inr (rn_observation rn)"
    by (auto simp: observationFromGateEvidence_def Let_def rbind_eq_Inr case_sum_Inr split: option.splits if_splits bool.splits)
  have "vd_outcome vd = FAILED" using observation_outcome [OF obs] assms(2) by simp
  then obtain basis where "failure_of pv ceil ev = Inr basis" "ev_consumedCommitment ev = ZERO_BYTES32"
    using v(4) by (auto simp: verdict_of_def Let_def rbind_eq_Inr split: if_splits option.splits)
  then show ?thesis
    using p v by (auto simp: failure_of_def list_ex_iff not_less not_le split: if_splits)
qed

end
