(* ===== verification/Gate_Samples.thy ===== *)
theory Gate_Samples
  imports Samples Gate_Protocol
begin

text \<open>A gate with one market that accepts the sample mandate and candidate, and the record and the reading of a failed reservation.\<close>

definition sample_market :: gate_market where
  "sample_market = \<lparr>gk_representation = ''1'', gk_fundingToken = zero_address, gk_adapter = zero_address,
     gk_representationDecimals = 0, gk_fundingDecimals = 2, gk_canonicalAsset = sample_asset, gk_issuer = ''issuer'',
     gk_venue = ''venue'', gk_quantityUnit = ''share'', gk_settlementUnit = ''USD'', gk_synthetic = False,
     gk_fixturePrice = sample_price 10010\<rparr>"

definition sample_gate :: gate_deployment where
  "sample_gate = \<lparr>gd_chainId = 1, gd_gate = zero_address, gd_markets = [sample_market]\<rparr>"

definition sample_gate_terms :: gate_terms where
  "sample_gate_terms = \<lparr>gt_recipient = zero_address, gt_fundingLimit = 60000, gt_deadline = 160, gt_executionData = ''0x''\<rparr>"

definition sample_gate_attempt :: gate_attempt where
  "sample_gate_attempt = \<lparr>ga_mandate = the (toGateMandate sample_mandate), ga_principalSignature = bytesToHex sample_signature,
     ga_candidate = the (toGateCandidate sample_candidate), ga_terms = sample_gate_terms,
     ga_agentSignature = bytesToHex sample_signature\<rparr>"

definition sample_chain :: "int \<Rightarrow> chain_context" where
  "sample_chain t = \<lparr>cc_chainId = 1, cc_timestamp = t, cc_consumed = {}, cc_tokenDecimals = (\<lambda>_. None)\<rparr>"

definition sample_plan_of_gate :: execution_plan where
  "sample_plan_of_gate = execution_plan_of sample_mandate sample_candidate sample_market sample_gate_terms zero_digest zero_digest zero_digest
     zero_address ''1'' 60000 5"

lemma keccak256_0: "keccak256 keccak0 bs = zero_digest"
proof -
  have "bytesToHex (replicate 32 0) = zero_digest" by code_simp
  then show ?thesis by (simp add: keccak256_def keccak0_def)
qed

lemma sample_gate_objects:
  "\<exists>g. toGateMandate sample_mandate = Some g" "\<exists>g. toGateCandidate sample_candidate = Some g"
  by (simp_all add: toGateMandate_def toGateCandidate_def sample_mandate_def sample_candidate_def sample_party_def)

lemma sample_gate_mandate: "decodeGateMandate keccak0 (the (toGateMandate sample_mandate)) = Inr (sample_mandate, zero_digest)"
proof -
  obtain g where g: "toGateMandate sample_mandate = Some g" using sample_gate_objects by blast
  show ?thesis using decodeGateMandate_to [OF sample_wf(1) g, of keccak0] g by (auto simp: keccak256_0)
qed

lemma sample_gate_candidate: "decodeGateCandidate keccak0 (the (toGateCandidate sample_candidate)) = Inr (sample_candidate, zero_digest)"
proof -
  obtain g where g: "toGateCandidate sample_candidate = Some g" using sample_gate_objects by blast
  show ?thesis using decodeGateCandidate_to [OF sample_wf(2) g, of keccak0] g by (auto simp: keccak256_0)
qed

lemma sample_gate_signatures:
  "verifyAuthorization keccak0 recover0 100 \<lparr>scheme = EIP712_SECP256K1, signer = sample_party,
     signature = bytesToHex sample_signature, domain = gateDomain 1 zero_address\<rparr> zero_digest (gateDomain 1 zero_address) = Some (Inr sample_party)"
  "recoverSigner keccak0 recover0 100 h (bytesToHex sample_signature) = Some zero_address"
  "executionCommitment keccak0 zero_digest zero_digest sample_gate_terms = Some zero_digest"
  "eip712Hash keccak0 (gateDomain 1 zero_address) zero_digest = Some (replicate 32 0)"
  by code_simp+

lemma sample_gate_checks:
  "checkBinding sample_gate sample_mandate sample_candidate sample_market = Inr ()"
  "checkEconomics sample_mandate sample_candidate sample_market = Inr ()"
  "plan_gate sample_mandate sample_candidate sample_market sample_gate_terms (sample_chain t) zero_digest zero_digest zero_digest = Inr sample_plan_of_gate"
  "representationIdFor 1 ''1'' = ''eip155:1/erc20:1''"
  by code_simp+

lemma sample_authorized: "authorizeExecution keccak0 recover0 100 sample_gate sample_gate_attempt (sample_chain 150) = Inr sample_plan_of_gate"
proof -
  have a: "ga_mandate sample_gate_attempt = the (toGateMandate sample_mandate)" "ga_candidate sample_gate_attempt = the (toGateCandidate sample_candidate)"
    "ga_terms sample_gate_attempt = sample_gate_terms" "ga_principalSignature sample_gate_attempt = bytesToHex sample_signature"
    "ga_agentSignature sample_gate_attempt = bytesToHex sample_signature"
    by (simp_all add: sample_gate_attempt_def)
  have m: "m_principal sample_mandate = sample_party" "m_agent sample_mandate = sample_party" "party_value sample_party = zero_address"
    "m_notBeforeUnixSeconds sample_mandate = 100" "m_expiresAtUnixSeconds sample_mandate = 200" "m_allowedIssuers sample_mandate = [''issuer'']"
    "m_allowedChains sample_mandate = [''eip155:1'']" "m_allowedVenues sample_mandate = [''venue'']"
    "c_representationId sample_candidate = ''eip155:1/erc20:1''"
    by (simp_all add: sample_mandate_def sample_party_def sample_candidate_def)
  have g: "gd_chainId sample_gate = 1" "gd_gate sample_gate = zero_address" "gd_markets sample_gate = [sample_market]"
    "gk_representation sample_market = ''1''" "cc_chainId (sample_chain t) = 1" "cc_timestamp (sample_chain t) = t"
    "cc_consumed (sample_chain t) = {}" "gt_deadline sample_gate_terms = 160" for t
    by (simp_all add: sample_gate_def sample_market_def sample_chain_def sample_gate_terms_def)
  have "\<not> data_exceeds sample_gate_terms" by code_simp
  then show ?thesis
    by (simp add: authorizeExecution_def reject_if_def unless_thrown_def a g m sample_gate_mandate sample_gate_candidate
        sample_gate_signatures sample_gate_checks MAX_PROFILE_SET_SIZE_def)
qed

lemma sample_market_wf: "\<forall>k \<in> set (gd_markets sample_gate). wf_market_data k"
proof -
  have "wf_price (sample_price 10010)" by code_simp
  then show ?thesis by (simp add: sample_gate_def sample_market_def wf_market_data_def)
qed

section \<open>A reservation and its failure\<close>

definition sample_gate_record :: replay_record where
  "sample_gate_record = \<lparr>rr_key = zero_digest, rr_status = RESERVED, rr_updatedAt = 150, rr_expiresAt = Some 170, rr_resolution = None,
     rr_generation = 1\<rparr>"

definition js_terms :: "gate_terms \<Rightarrow> js" where
  "js_terms t = JObj [(''recipient'', JStr (gt_recipient t)), (''fundingLimit'', JBig (gt_fundingLimit t)),
     (''deadline'', JBig (gt_deadline t)), (''executionData'', JStr (gt_executionData t))]"

definition js_signed :: "signed_attempt \<Rightarrow> js" where
  "js_signed a = JObj [(''candidateDigest'', JStr (sa_candidateDigest a)), (''terms'', js_terms (sa_terms a)),
     (''executionCommitment'', JStr (sa_commitment a))]"

definition sample_signed :: signed_attempt where
  "sample_signed = \<lparr>sa_candidateDigest = zero_digest, sa_terms = sample_gate_terms, sa_commitment = zero_digest\<rparr>"

definition sample_reservation :: "signed_attempt list \<Rightarrow> js" where
  "sample_reservation as = JObj [(''chainId'', JBig 1), (''gate'', JStr zero_address),
     (''mandateEncoding'', JStr (bytesToHex (the (encodeMandate sample_mandate)))), (''reservation'', js_record sample_gate_record),
     (''attempts'', JArr (map js_signed as))]"

definition sample_parsed :: "signed_attempt list \<Rightarrow> parsed_reservation" where
  "sample_parsed as = \<lparr>pv_value = \<lparr>gr_chainId = 1, gr_gate = zero_address,
     gr_mandateEncoding = bytesToHex (the (encodeMandate sample_mandate)), gr_reservation = sample_gate_record, gr_attempts = as\<rparr>,
     pv_digest = zero_digest, pv_expiresAt = 200\<rparr>"

definition sample_reading :: js where
  "sample_reading = JObj [(''level'', JStr ''FINALIZED''), (''chainId'', JBig 1), (''gate'', JStr zero_address),
     (''mandateDigest'', JStr zero_digest), (''consumedCommitment'', JStr ZERO_BYTES32), (''blockTimestamp'', JBig 171),
     (''settlement'', JNull), (''observedAtUnixSeconds'', JBig 180)]"

definition sample_reading_policy :: js where
  "sample_reading_policy = JObj [(''requiredLevel'', JStr ''FINALIZED''), (''sourceId'', JStr ''feed'')]"

lemma sample_terms_parse: "parse_signed_attempt (js_signed sample_signed) = Some sample_signed"
  "parse_bytes32 (object_field (js_signed sample_signed) ''candidateDigest'') = Some zero_digest"
  "parse_terms (object_field (js_signed sample_signed) ''terms'') = Some sample_gate_terms"
  by code_simp+

lemma sample_reservation_parse:
  assumes "as = [] \<or> as = [sample_signed]"
  shows "parse_reservation keccak0 (sample_reservation as) = Some (sample_parsed as)"
proof -
  obtain b where b: "encodeMandate sample_mandate = Some b" using encodeMandate_total [OF sample_wf(1)] by blast
  have d: "decodeMandate b = Inr sample_mandate" by (rule decode_encodeMandate [OF sample_wf(1) b])
  have r: "wf_record sample_gate_record"
    using sample_idents(3) by (simp add: wf_record_def sample_gate_record_def valid_shape_def wf_time_def)
  have a: "hex_literal 40 zero_address" by code_simp
  have "m_expiresAtUnixSeconds sample_mandate = 200" by (simp add: sample_mandate_def)
  then show ?thesis
    using assms by (auto simp: parse_reservation_def sample_reservation_def parse_signed_mandate_def b d unsignedBelow_def parse_address_def a
        keccak256_0 parseReplayRecord_js [OF r] MAX_ATTEMPTS_def sample_terms_parse sample_parsed_def opt_of_def)
qed

lemma sample_failure:
  "\<exists>rn. observationFromGateEvidence keccak0 (sample_reservation [sample_signed]) sample_reading sample_reading_policy = Inr rn \<and>
     o_outcome (rn_observation rn) = FAILED"
  "\<exists>ev. parse_evidence sample_reading = Some ev \<and> ev_blockTimestamp ev = 171"
proof -
  have ev: "parse_evidence sample_reading = Some \<lparr>ev_level = FINALIZED, ev_chainId = 1, ev_gate = zero_address, ev_mandateDigest = zero_digest,
      ev_consumedCommitment = ZERO_BYTES32, ev_blockTimestamp = 171, ev_settlement = None, ev_observedAt = 180\<rparr>"
    by code_simp
  then show "\<exists>ev. parse_evidence sample_reading = Some ev \<and> ev_blockTimestamp ev = 171" by simp
  have pol: "parse_policy sample_reading_policy = Some \<lparr>rp_requiredLevel = FINALIZED, rp_sourceId = ''feed''\<rparr>" by code_simp
  have cons: "attempts_consistent keccak0 zero_digest [sample_signed] = Some True" by code_simp
  have obs: "parseExecutionObservation (JObj [(''outcome'', JStr ''FAILED''), (''observedAtUnixSeconds'', JBig 180), (''sourceId'', JStr ''feed''),
      (''reference'', JStr zero_digest), (''reservationGeneration'', JBig 1)]) =
      Inr \<lparr>o_outcome = FAILED, o_observedAt = 180, o_sourceId = ''feed'', o_reference = zero_digest, o_generation = 1\<rparr>" by code_simp
  have sa: "sa_commitment sample_signed = zero_digest" "gt_deadline (sa_terms sample_signed) = 160"
    by (simp_all add: sample_signed_def sample_gate_terms_def)
  show "\<exists>rn. observationFromGateEvidence keccak0 (sample_reservation [sample_signed]) sample_reading sample_reading_policy = Inr rn \<and>
     o_outcome (rn_observation rn) = FAILED"
    by (simp add: observationFromGateEvidence_def ev pol sample_reservation_parse sample_parsed_def sample_gate_record_def cons Let_def
        verdict_of_def failure_of_def sa obs del: attempts_consistent.simps)
qed

end
