(* ===== verification/Reg_Base.thy ===== *)
theory Reg_Base
  imports Digest
begin

text \<open>
  The registry's vocabulary (\<open>packages/registry/src\<close>): its reason codes (\<open>reason-codes.ts\<close>), its bounds
  (\<open>limits.ts\<close>), what is said of a representation (\<open>semantics.ts\<close>), the check digits of canonical asset identifiers
  (\<open>asset-id.ts\<close>) and the identity of a representation (\<open>representation-id.ts\<close>). Keccak-256 is the parameter
  \<open>keccak\<close>. An enumeration is a datatype with the table the parsers read and the name that is its value in the code.
\<close>

section \<open>Reason codes (reason-codes.ts)\<close>

datatype registry_code =
    REFERENCE_MALFORMED | REFERENCE_AMBIGUOUS | REFERENCE_UNKNOWN | ASSET_IDENTIFIER_INVALID
  | ASSET_IDENTIFIER_SCHEME_UNSUPPORTED | ASSET_CLASS_UNSUPPORTED | SNAPSHOT_MALFORMED
  | SNAPSHOT_RESOURCE_LIMIT_EXCEEDED | REPRESENTATION_ID_MALFORMED | CANONICAL_ASSET_UNKNOWN
  | CANONICAL_ASSET_INACTIVE | REPRESENTATION_METADATA_CONFLICT | TRUST_REQUIREMENT_NOT_MET
  | REPRESENTATION_METADATA_STALE | BACKING_REQUIREMENT_NOT_MET | INSTRUMENT_TYPE_NOT_ALLOWED
  | RIGHTS_REQUIREMENT_NOT_MET | REDEMPTION_REQUIREMENT_NOT_MET | SETTLEMENT_MODEL_NOT_ALLOWED
  | CORPORATE_ACTION_MODEL_NOT_ALLOWED | JURISDICTION_NOT_ELIGIBLE

type_synonym 'a reg_result = "registry_code + 'a"

text \<open>\<open>DEFINITIONS\<close>: the permanent id and the name of every code.\<close>

definition REGISTRY_REASON_CODES :: "(registry_code \<times> string \<times> string) list" where
  "REGISTRY_REASON_CODES = [
    (REFERENCE_MALFORMED, ''MND-REF-001'', ''REFERENCE_MALFORMED''),
    (REFERENCE_AMBIGUOUS, ''MND-REF-002'', ''REFERENCE_AMBIGUOUS''),
    (REFERENCE_UNKNOWN, ''MND-REF-003'', ''REFERENCE_UNKNOWN''),
    (ASSET_IDENTIFIER_INVALID, ''MND-REF-004'', ''ASSET_IDENTIFIER_INVALID''),
    (ASSET_IDENTIFIER_SCHEME_UNSUPPORTED, ''MND-REF-005'', ''ASSET_IDENTIFIER_SCHEME_UNSUPPORTED''),
    (ASSET_CLASS_UNSUPPORTED, ''MND-REF-006'', ''ASSET_CLASS_UNSUPPORTED''),
    (SNAPSHOT_MALFORMED, ''MND-REG-001'', ''SNAPSHOT_MALFORMED''),
    (SNAPSHOT_RESOURCE_LIMIT_EXCEEDED, ''MND-REG-015'', ''SNAPSHOT_RESOURCE_LIMIT_EXCEEDED''),
    (REPRESENTATION_ID_MALFORMED, ''MND-REG-002'', ''REPRESENTATION_ID_MALFORMED''),
    (CANONICAL_ASSET_UNKNOWN, ''MND-REG-003'', ''CANONICAL_ASSET_UNKNOWN''),
    (CANONICAL_ASSET_INACTIVE, ''MND-REG-004'', ''CANONICAL_ASSET_INACTIVE''),
    (REPRESENTATION_METADATA_CONFLICT, ''MND-REG-005'', ''REPRESENTATION_METADATA_CONFLICT''),
    (TRUST_REQUIREMENT_NOT_MET, ''MND-REG-006'', ''TRUST_REQUIREMENT_NOT_MET''),
    (REPRESENTATION_METADATA_STALE, ''MND-REG-007'', ''REPRESENTATION_METADATA_STALE''),
    (BACKING_REQUIREMENT_NOT_MET, ''MND-REG-008'', ''BACKING_REQUIREMENT_NOT_MET''),
    (INSTRUMENT_TYPE_NOT_ALLOWED, ''MND-REG-009'', ''INSTRUMENT_TYPE_NOT_ALLOWED''),
    (RIGHTS_REQUIREMENT_NOT_MET, ''MND-REG-010'', ''RIGHTS_REQUIREMENT_NOT_MET''),
    (REDEMPTION_REQUIREMENT_NOT_MET, ''MND-REG-011'', ''REDEMPTION_REQUIREMENT_NOT_MET''),
    (SETTLEMENT_MODEL_NOT_ALLOWED, ''MND-REG-012'', ''SETTLEMENT_MODEL_NOT_ALLOWED''),
    (CORPORATE_ACTION_MODEL_NOT_ALLOWED, ''MND-REG-013'', ''CORPORATE_ACTION_MODEL_NOT_ALLOWED''),
    (JURISDICTION_NOT_ELIGIBLE, ''MND-REG-014'', ''JURISDICTION_NOT_ELIGIBLE'')]"

definition registryReasonCode :: "registry_code \<Rightarrow> string \<times> string" where
  "registryReasonCode c = the (map_of REGISTRY_REASON_CODES c)"

text \<open>\<open>RegistryReasonCode\<close>: a code of the kernel's registry or of this one; \<open>anyReasonCode\<close> looks in both.\<close>

datatype any_code = KernelCode reason_code | RegistryCode registry_code

fun any_reason_id :: "any_code \<Rightarrow> string" where
  "any_reason_id (KernelCode c) = reason_id c"
| "any_reason_id (RegistryCode c) = fst (registryReasonCode c)"

fun any_reason_name :: "any_code \<Rightarrow> string" where
  "any_reason_name (KernelCode c) = reason_name c"
| "any_reason_name (RegistryCode c) = snd (registryReasonCode c)"

section \<open>Bounds (limits.ts)\<close>

definition MAX_SNAPSHOT_ENTRIES :: int where
  "MAX_SNAPSHOT_ENTRIES = 65535"

definition MAX_CLAIMS_PER_PROPERTY :: int where
  "MAX_CLAIMS_PER_PROPERTY = 65535"

section \<open>What a representation is (semantics.ts)\<close>

datatype instrument_type = BACKED_NOTE | DEPOSITARY_RECEIPT | FUND_SHARE | SYNTHETIC_EXPOSURE | DEBT_INSTRUMENT

datatype backing_model = FULLY_BACKED | PARTIALLY_BACKED | COLLATERALIZED | DEBT_LINKED | SYNTHETIC | UNBACKED

datatype redemption_model = NO_REDEMPTION | QUALIFIED_HOLDERS_ONLY | OPEN_REDEMPTION | ISSUER_DISCRETION

datatype right_kind =
    ECONOMIC_EXPOSURE | DIVIDEND_TREATMENT | VOTING_RIGHTS | REDEMPTION_RIGHTS | BENEFICIAL_OWNERSHIP | TRANSFERABILITY

datatype right_state = RIGHT_PRESENT | PRICE_ADJUSTED | RIGHT_RESTRICTED | RIGHT_ABSENT

datatype corporate_action_model =
    SUPPLY_REBASE | ON_CHAIN_MULTIPLIER | ISSUER_ACCOUNTING_ADJUSTMENT | CASH_DISTRIBUTION | NOT_APPLIED

datatype settlement_model = ATOMIC_ON_CHAIN | DEFERRED_SETTLEMENT | ISSUER_CONFIRMED

datatype representation_status = STATUS_ACTIVE | STATUS_PAUSED | STATUS_TRANSITION | STATUS_DEPRECATED

definition InstrumentType :: "(string \<times> instrument_type) list" where
  "InstrumentType = [(''BACKED_NOTE'', BACKED_NOTE), (''DEPOSITARY_RECEIPT'', DEPOSITARY_RECEIPT),
     (''FUND_SHARE'', FUND_SHARE), (''SYNTHETIC_EXPOSURE'', SYNTHETIC_EXPOSURE), (''DEBT_INSTRUMENT'', DEBT_INSTRUMENT)]"

definition BackingModel :: "(string \<times> backing_model) list" where
  "BackingModel = [(''FULLY_BACKED'', FULLY_BACKED), (''PARTIALLY_BACKED'', PARTIALLY_BACKED),
     (''COLLATERALIZED'', COLLATERALIZED), (''DEBT_LINKED'', DEBT_LINKED), (''SYNTHETIC'', SYNTHETIC),
     (''UNBACKED'', UNBACKED)]"

definition RedemptionModel :: "(string \<times> redemption_model) list" where
  "RedemptionModel = [(''NONE'', NO_REDEMPTION), (''QUALIFIED_HOLDERS_ONLY'', QUALIFIED_HOLDERS_ONLY),
     (''OPEN_REDEMPTION'', OPEN_REDEMPTION), (''ISSUER_DISCRETION'', ISSUER_DISCRETION)]"

definition RightKind :: "(string \<times> right_kind) list" where
  "RightKind = [(''ECONOMIC_EXPOSURE'', ECONOMIC_EXPOSURE), (''DIVIDEND_TREATMENT'', DIVIDEND_TREATMENT),
     (''VOTING_RIGHTS'', VOTING_RIGHTS), (''REDEMPTION_RIGHTS'', REDEMPTION_RIGHTS),
     (''BENEFICIAL_OWNERSHIP'', BENEFICIAL_OWNERSHIP), (''TRANSFERABILITY'', TRANSFERABILITY)]"

definition RightState :: "(string \<times> right_state) list" where
  "RightState = [(''PRESENT'', RIGHT_PRESENT), (''PRICE_ADJUSTED'', PRICE_ADJUSTED),
     (''RESTRICTED'', RIGHT_RESTRICTED), (''ABSENT'', RIGHT_ABSENT)]"

definition CorporateActionModel :: "(string \<times> corporate_action_model) list" where
  "CorporateActionModel = [(''SUPPLY_REBASE'', SUPPLY_REBASE), (''ON_CHAIN_MULTIPLIER'', ON_CHAIN_MULTIPLIER),
     (''ISSUER_ACCOUNTING_ADJUSTMENT'', ISSUER_ACCOUNTING_ADJUSTMENT), (''CASH_DISTRIBUTION'', CASH_DISTRIBUTION),
     (''NOT_APPLIED'', NOT_APPLIED)]"

definition SettlementModel :: "(string \<times> settlement_model) list" where
  "SettlementModel = [(''ATOMIC_ON_CHAIN'', ATOMIC_ON_CHAIN), (''DEFERRED'', DEFERRED_SETTLEMENT),
     (''ISSUER_CONFIRMED'', ISSUER_CONFIRMED)]"

definition RepresentationOperationalStatus :: "(string \<times> representation_status) list" where
  "RepresentationOperationalStatus = [(''ACTIVE'', STATUS_ACTIVE), (''PAUSED'', STATUS_PAUSED),
     (''TRANSITION'', STATUS_TRANSITION), (''DEPRECATED'', STATUS_DEPRECATED)]"

text \<open>The string that is the value of an enumeration member in the code: its key in the table.\<close>

definition name_in :: "(string \<times> 'a) list \<Rightarrow> 'a \<Rightarrow> string" where
  "name_in table x = the (map_of (map (\<lambda>(s, y). (y, s)) table) x)"

definition isSyntheticBacking :: "backing_model \<Rightarrow> bool" where
  "isSyntheticBacking b \<longleftrightarrow> b \<in> {SYNTHETIC, UNBACKED}"

text \<open>\<open>hasOwnProperty.call(values, raw)\<close>, then the value of that member.\<close>

definition parseEnumFromVocabulary :: "js \<Rightarrow> (string \<times> 'a) list \<Rightarrow> 'a reg_result" where
  "parseEnumFromVocabulary raw values = (case raw of
     JStr s \<Rightarrow> (case map_of values s of None \<Rightarrow> Inl SNAPSHOT_MALFORMED | Some x \<Rightarrow> Inr x)
   | _ \<Rightarrow> Inl SNAPSHOT_MALFORMED)"

definition is_upper :: "char \<Rightarrow> bool" where
  "is_upper c \<longleftrightarrow> 65 \<le> (of_char c :: nat) \<and> (of_char c :: nat) \<le> 90"

definition is_lower :: "char \<Rightarrow> bool" where
  "is_lower c \<longleftrightarrow> 97 \<le> (of_char c :: nat) \<and> (of_char c :: nat) \<le> 122"

definition upper_alnum :: "char \<Rightarrow> bool" where
  "upper_alnum c \<longleftrightarrow> is_upper c \<or> is_digit c"

definition parseJurisdiction :: "js \<Rightarrow> string reg_result" where
  "parseJurisdiction raw = (case raw of
     JStr s \<Rightarrow> if length s = 2 \<and> list_all is_upper s then Inr s else Inl SNAPSHOT_MALFORMED
   | _ \<Rightarrow> Inl SNAPSHOT_MALFORMED)"

record eligibility_profile =
  permitted :: "string list"
  prohibited :: "string list"

definition identityKey :: "string \<Rightarrow> string" where
  "identityKey value = value"

section \<open>Canonical asset identifiers (asset-id.ts)\<close>

datatype asset_scheme = FIGI | ISIN | CUSIP

definition AssetIdScheme :: "(string \<times> asset_scheme) list" where
  "AssetIdScheme = [(''figi'', FIGI), (''isin'', ISIN), (''cusip'', CUSIP)]"

definition AssetClasses :: "string list" where
  "AssetClasses = [''equity'', ''fund'', ''treasury'', ''bond'', ''commodity'']"

definition ordinal_of :: "char \<Rightarrow> int" where
  "ordinal_of c = (let code = (of_char c :: int)
     in if 48 \<le> code \<and> code \<le> 57 then code - 48 else if 65 \<le> code \<and> code \<le> 90 then code - 55 else -1)"

text \<open>The sum of the decimal digits of a number below 100: \<open>(v - units) / 10\<close> is exact.\<close>

definition digitSum :: "int \<Rightarrow> int" where
  "digitSum v = (let units = v mod 10 in units + (v - units) div 10)"

definition FIGI_CONSONANTS :: string where
  "FIGI_CONSONANTS = ''BCDFGHJKLMNPQRSTVWXYZ0123456789''"

definition FIGI_RESERVED_PREFIXES :: "string list" where
  "FIGI_RESERVED_PREFIXES = [''BS'', ''BM'', ''GG'', ''GB'', ''GH'', ''KY'', ''VG'']"

definition figiCheckDigit :: "string \<Rightarrow> int" where
  "figiCheckDigit body =
     (let total = sum_list (map (\<lambda>i. let v = ordinal_of (body ! i)
                                      in digitSum (if (i + 1) mod 2 = 0 then v * 2 else v)) [0..<11])
      in (10 - total mod 10) mod 10)"

definition validateFigi :: "string \<Rightarrow> bool" where
  "validateFigi value \<longleftrightarrow>
     length value = 12 \<and> list_all upper_alnum value
   \<and> value ! 2 = CHR ''G''
   \<and> take 2 value \<notin> set FIGI_RESERVED_PREFIXES
   \<and> list_all (\<lambda>i. i = 2 \<or> value ! i \<in> set FIGI_CONSONANTS) [0..<11]
   \<and> ordinal_of (value ! 11) = figiCheckDigit (take 11 value)"

text \<open>The Luhn pass walks the digits from the right, doubling the first and then every other one.\<close>

fun luhn_sum :: "bool \<Rightarrow> string \<Rightarrow> int" where
  "luhn_sum dbl [] = 0"
| "luhn_sum dbl (c # cs) =
     (let v = of_char c - 48; w = (if dbl then v * 2 else v)
      in (if dbl \<and> w > 9 then w - 9 else w) + luhn_sum (\<not> dbl) cs)"

definition luhnCheckDigit :: "string \<Rightarrow> int" where
  "luhnCheckDigit digits = (10 - luhn_sum True (rev digits) mod 10) mod 10"

definition expand_letters :: "string \<Rightarrow> string" where
  "expand_letters s = concat (map (\<lambda>c. int_str (ordinal_of c)) s)"

definition validateIsin :: "string \<Rightarrow> bool" where
  "validateIsin value \<longleftrightarrow>
     length value = 12 \<and> list_all upper_alnum value
   \<and> list_all is_upper (take 2 value)
   \<and> list_all (\<lambda>c. 0 \<le> ordinal_of c) (take 11 value)
   \<and> ordinal_of (value ! 11) = luhnCheckDigit (expand_letters (take 11 value))"

definition cusipOrdinal :: "char \<Rightarrow> int" where
  "cusipOrdinal c = (if c = CHR ''*'' then 36 else if c = CHR ''@'' then 37 else if c = CHR ''#'' then 38
     else ordinal_of c)"

definition cusipCheckDigit :: "string \<Rightarrow> int" where
  "cusipCheckDigit body =
     (if list_ex (\<lambda>i. cusipOrdinal (body ! i) < 0) [0..<8] then -1
      else let total = sum_list (map (\<lambda>i. let base = cusipOrdinal (body ! i)
                                            in digitSum (if i mod 2 = 1 then base * 2 else base)) [0..<8])
           in (10 - total mod 10) mod 10)"

definition validateCusip :: "string \<Rightarrow> bool" where
  "validateCusip value \<longleftrightarrow>
     length value = 9
   \<and> list_all (\<lambda>c. upper_alnum c \<or> c \<in> set ''*@#'') (take 8 value) \<and> is_digit (value ! 8)
   \<and> 0 \<le> cusipCheckDigit (take 8 value)
   \<and> of_char (value ! 8) - 48 = cusipCheckDigit (take 8 value)"

fun isValidSchemeValue :: "asset_scheme \<Rightarrow> string \<Rightarrow> bool" where
  "isValidSchemeValue FIGI value = validateFigi value"
| "isValidSchemeValue ISIN value = validateIsin value"
| "isValidSchemeValue CUSIP value = validateCusip value"

definition validateCanonicalAssetId :: "js \<Rightarrow> asset_id reg_result" where
  "validateCanonicalAssetId raw =
     rbind (relabel ASSET_IDENTIFIER_INVALID (parseCanonicalAssetId raw)) (\<lambda>a.
     if assetClass a \<notin> set AssetClasses then Inl ASSET_CLASS_UNSUPPORTED else
     case map_of AssetIdScheme (idScheme a) of
       None \<Rightarrow> Inl ASSET_IDENTIFIER_SCHEME_UNSUPPORTED
     | Some s \<Rightarrow> if \<not> isValidSchemeValue s (assetValue a) then Inl ASSET_IDENTIFIER_INVALID else Inr a)"

definition canonicalAssetKey :: "asset_id \<Rightarrow> string" where
  "canonicalAssetKey a = assetClass a @ [CHR 0x00] @ idScheme a @ [CHR 0x00] @ assetValue a"

section \<open>Representation identity (representation-id.ts)\<close>

definition any_hex :: "char \<Rightarrow> bool" where
  "any_hex c \<longleftrightarrow> is_hex c \<or> (65 \<le> (of_char c :: nat) \<and> (of_char c :: nat) \<le> 70)"

definition lower_char :: "char \<Rightarrow> char" where
  "lower_char c = (if is_upper c then char_of ((of_char c :: nat) + 32) else c)"

text \<open>\<open>toLowerCase\<close> on ASCII text.\<close>

definition toLowerCase :: "string \<Rightarrow> string" where
  "toLowerCase s = map lower_char s"

definition LOWER_ADDRESS :: "string \<Rightarrow> bool" where
  "LOWER_ADDRESS s \<longleftrightarrow> take 2 s = ''0x'' \<and> length s = 42 \<and> list_all is_hex (drop 2 s)"

definition ANY_ADDRESS :: "string \<Rightarrow> bool" where
  "ANY_ADDRESS s \<longleftrightarrow> take 2 s = ''0x'' \<and> length s = 42 \<and> list_all any_hex (drop 2 s)"

definition CHAIN_REFERENCE :: "string \<Rightarrow> bool" where
  "CHAIN_REFERENCE s \<longleftrightarrow> s \<noteq> [] \<and> length s \<le> 32 \<and> list_all is_digit s \<and> hd s \<noteq> CHR ''0''"

definition hasValidEip55Checksum :: "(u8 list \<Rightarrow> u8 list) \<Rightarrow> string \<Rightarrow> bool" where
  "hasValidEip55Checksum keccak address =
     (let body = drop 2 address;
          hash = drop 2 (keccak256 keccak (text_encode (toLowerCase body)))
      in list_all (\<lambda>i. let c = body ! i in is_digit c \<or> (8 \<le> hex_val (hash ! i) \<longleftrightarrow> is_upper c)) [0..<40])"

definition parseContractAddress :: "(u8 list \<Rightarrow> u8 list) \<Rightarrow> js \<Rightarrow> string reg_result" where
  "parseContractAddress keccak raw = (case raw of
     JStr s \<Rightarrow>
       if \<not> ANY_ADDRESS s then Inl REPRESENTATION_ID_MALFORMED
       else if LOWER_ADDRESS s then Inr s
       else if \<not> hasValidEip55Checksum keccak s then Inl REPRESENTATION_ID_MALFORMED
       else Inr (toLowerCase s)
   | _ \<Rightarrow> Inl REPRESENTATION_ID_MALFORMED)"

text \<open>The namespaces have one value each, \<open>eip155\<close> and \<open>erc20\<close>, and are kept as strings.\<close>

record representation_id =
  chainNamespace :: string
  chainReference :: string
  ri_chain :: string
  assetNamespace :: string
  contractAddress :: string
  ri_value :: string

definition buildId :: "string \<Rightarrow> string \<Rightarrow> string \<Rightarrow> string \<Rightarrow> representation_id reg_result" where
  "buildId ns ref ans addr =
     (let chain_string = ns @ '':'' @ ref;
          value = chain_string @ ''/'' @ ans @ '':'' @ addr
      in rbind (relabel REPRESENTATION_ID_MALFORMED (parseIdentifier (JStr chain_string))) (\<lambda>chain.
         rbind (relabel REPRESENTATION_ID_MALFORMED (parseIdentifier (JStr value))) (\<lambda>ident.
         Inr \<lparr>chainNamespace = ns, chainReference = ref, ri_chain = chain, assetNamespace = ans,
              contractAddress = addr, ri_value = ident\<rparr>)))"

text \<open>\<open>raw.split(sep)\<close> for a separator of one character.\<close>

fun split_on :: "char \<Rightarrow> string \<Rightarrow> string list" where
  "split_on sep [] = [[]]"
| "split_on sep (c # cs) =
     (if c = sep then [] # split_on sep cs
      else case split_on sep cs of [] \<Rightarrow> [[c]] | p # ps \<Rightarrow> (c # p) # ps)"

text \<open>An optional derived field that the caller may repeat but not contradict.\<close>

definition contradicts :: "js \<Rightarrow> string \<Rightarrow> bool" where
  "contradicts v s \<longleftrightarrow> v \<noteq> JUndef \<and> v \<noteq> JStr s"

definition parse_structured_id :: "(u8 list \<Rightarrow> u8 list) \<Rightarrow> js \<Rightarrow> representation_id reg_result" where
  "parse_structured_id keccak r =
     (if \<not> only_keys [''chainNamespace'', ''chainReference'', ''chain'', ''assetNamespace'', ''contractAddress'', ''value''] r
      then Inl REPRESENTATION_ID_MALFORMED
      else if jget r ''chainNamespace'' \<noteq> JStr ''eip155'' then Inl REPRESENTATION_ID_MALFORMED
      else if jget r ''assetNamespace'' \<noteq> JStr ''erc20'' then Inl REPRESENTATION_ID_MALFORMED
      else case jget r ''chainReference'' of
        JStr ref \<Rightarrow>
          if \<not> CHAIN_REFERENCE ref then Inl REPRESENTATION_ID_MALFORMED
          else rbind (parseContractAddress keccak (jget r ''contractAddress'')) (\<lambda>addr.
               rbind (buildId ''eip155'' ref ''erc20'' addr) (\<lambda>built.
               if contradicts (jget r ''chain'') (ri_chain built) then Inl REPRESENTATION_ID_MALFORMED
               else if contradicts (jget r ''value'') (ri_value built) then Inl REPRESENTATION_ID_MALFORMED
               else Inr built))
      | _ \<Rightarrow> Inl REPRESENTATION_ID_MALFORMED)"

definition parse_string_id :: "(u8 list \<Rightarrow> u8 list) \<Rightarrow> string \<Rightarrow> representation_id reg_result" where
  "parse_string_id keccak raw =
     (case map (split_on CHR '':'') (split_on CHR ''/'' raw) of
        [[ns, ref], [ans, addr]] \<Rightarrow>
          if ns \<noteq> ''eip155'' then Inl REPRESENTATION_ID_MALFORMED
          else if ans \<noteq> ''erc20'' then Inl REPRESENTATION_ID_MALFORMED
          else if \<not> CHAIN_REFERENCE ref then Inl REPRESENTATION_ID_MALFORMED
          else rbind (parseContractAddress keccak (JStr addr)) (\<lambda>a. buildId ''eip155'' ref ''erc20'' a)
      | _ \<Rightarrow> Inl REPRESENTATION_ID_MALFORMED)"

definition parseRepresentationId :: "(u8 list \<Rightarrow> u8 list) \<Rightarrow> js \<Rightarrow> representation_id reg_result" where
  "parseRepresentationId keccak raw =
     (if is_object raw then parse_structured_id keccak raw
      else case raw of JStr s \<Rightarrow> parse_string_id keccak s | _ \<Rightarrow> Inl REPRESENTATION_ID_MALFORMED)"

definition representationIdEquals :: "representation_id \<Rightarrow> representation_id \<Rightarrow> bool" where
  "representationIdEquals a b \<longleftrightarrow> ri_value a = ri_value b"

definition compareRepresentationIds :: "representation_id \<Rightarrow> representation_id \<Rightarrow> int" where
  "compareRepresentationIds a b = compareIdentifierBytes (ri_value a) (ri_value b)"

end
