(* ===== verification/Reg_Claims.thy ===== *)
theory Reg_Claims
  imports Reg_Base Verify
begin

text \<open>
  Claims (\<open>packages/registry/src/claims.ts\<close>): what sources say of a property, the trust floor, freshness, and the
  resolution of a set of claims to an established value, an unknown or a conflict. The key of a value is a
  parameter of the operations, as in the code. For a trust class that is no key of the ranking (\<open>INHERITED\<close>)
  the code compares with a function object: every comparison is false and the sorting order is left to the engine.
\<close>

record 'a claim =
  claim_value :: 'a
  claim_prov :: provenance

record claim_policy =
  minimumTrust :: trust_class
  policy_now :: int
  maxClaimAge :: "int option"

datatype unknown_reason = NO_CLAIMS | BELOW_TRUST_FLOOR | STALE

datatype 'a claim_resolution =
    ESTABLISHED 'a provenance
  | UNESTABLISHED unknown_reason
  | CONFLICT "'a claim list"

fun trust_rank :: "trust_class \<Rightarrow> int option" where
  "trust_rank UNTRUSTED = Some 0"
| "trust_rank ADVISORY = Some 1"
| "trust_rank VERIFIED = Some 2"
| "trust_rank AUTHORITATIVE = Some 3"
| "trust_rank (INHERITED _) = None"

text \<open>
  An inherited name has no rank: the code then compares a function with a number, which is false. (Two inherited names
  would be compared as texts; no policy has such a floor, since \<open>deriveRequirements\<close> and \<open>narrowRequirements\<close> refuse it.)
\<close>

definition meetsTrustFloor :: "trust_class \<Rightarrow> trust_class \<Rightarrow> bool" where
  "meetsTrustFloor actual floor_class = (case trust_rank actual of
     None \<Rightarrow> False
   | Some a \<Rightarrow> (case trust_rank floor_class of None \<Rightarrow> False | Some f \<Rightarrow> a \<ge> f))"

definition EXECUTION_TRUST_FLOOR :: trust_class where
  "EXECUTION_TRUST_FLOOR = VERIFIED"

text \<open>The comparator of \<open>sortClaims\<close>: trust rank, observation time, source, value. A difference that is NaN counts as 0.\<close>

definition claim_order :: "('a \<Rightarrow> string) \<Rightarrow> 'a claim \<Rightarrow> 'a claim \<Rightarrow> int" where
  "claim_order keyOf a b =
     (let p = claim_prov a; q = claim_prov b in
      if trustClass p \<noteq> trustClass q
      then (case trust_rank (trustClass p) of
              None \<Rightarrow> 0
            | Some ra \<Rightarrow> (case trust_rank (trustClass q) of None \<Rightarrow> 0 | Some rb \<Rightarrow> ra - rb))
      else if observedAt p \<noteq> observedAt q then (if observedAt p < observedAt q then -1 else 1)
      else if sourceId p \<noteq> sourceId q then (if str_less (sourceId p) (sourceId q) then -1 else 1)
      else compareStrings (keyOf (claim_value a)) (keyOf (claim_value b)))"

definition sortClaims :: "'a claim list \<Rightarrow> ('a \<Rightarrow> string) \<Rightarrow> 'a claim list" where
  "sortClaims claims keyOf = js_sort (claim_order keyOf) claims"

definition at_floor :: "claim_policy \<Rightarrow> 'a claim \<Rightarrow> bool" where
  "at_floor policy c \<longleftrightarrow> meetsTrustFloor (trustClass (claim_prov c)) (minimumTrust policy)"

definition fresh_claim :: "claim_policy \<Rightarrow> 'a claim \<Rightarrow> bool" where
  "fresh_claim policy c \<longleftrightarrow>
     (let age = policy_now policy - observedAt (claim_prov c)
      in if age < 0 then False else case maxClaimAge policy of None \<Rightarrow> True | Some m \<Rightarrow> age \<le> m)"

definition resolveClaimSet :: "'a claim list \<Rightarrow> claim_policy \<Rightarrow> ('a \<Rightarrow> string) \<Rightarrow> 'a claim_resolution" where
  "resolveClaimSet claims policy keyOf =
     (if claims = [] then UNESTABLISHED NO_CLAIMS else
      let atFloor = filter (at_floor policy) claims in
      if atFloor = [] then UNESTABLISHED BELOW_TRUST_FLOOR else
      let fresh = filter (fresh_claim policy) atFloor in
      if fresh = [] then UNESTABLISHED STALE else
      let distinct_keys = remdups (map (keyOf \<circ> claim_value) fresh) in
      if length distinct_keys > 1 then CONFLICT (sortClaims fresh keyOf) else
      let best = sortClaims fresh keyOf ! (length fresh - 1)
      in ESTABLISHED (claim_value best) (claim_prov best))"

section \<open>Parsing claims\<close>

definition claim_key :: "('a \<Rightarrow> string) \<Rightarrow> 'a claim \<Rightarrow> string" where
  "claim_key keyOf c = trust_class_text (trustClass (claim_prov c)) @ [CHR 0x00] @ sourceId (claim_prov c) @ [CHR 0x00]
     @ int_str (observedAt (claim_prov c)) @ [CHR 0x00] @ keyOf (claim_value c)"

definition parse_claim :: "(js \<Rightarrow> 'a reg_result) \<Rightarrow> js \<Rightarrow> 'a claim reg_result" where
  "parse_claim parseValue entry =
     (if \<not> is_object entry then Inl SNAPSHOT_MALFORMED
      else if \<not> only_keys [''value'', ''provenance''] entry then Inl SNAPSHOT_MALFORMED
      else rbind (relabel SNAPSHOT_MALFORMED (parseProvenance (jget entry ''provenance''))) (\<lambda>p.
           rbind (parseValue (jget entry ''value'')) (\<lambda>v.
           Inr \<lparr>claim_value = v, claim_prov = p\<rparr>)))"

text \<open>A loop that parses entries, refuses a key it has seen and collects the rest.\<close>

fun parse_distinct :: "(js \<Rightarrow> 'a reg_result) \<Rightarrow> ('a \<Rightarrow> string) \<Rightarrow> string list \<Rightarrow> js list \<Rightarrow> 'a list reg_result" where
  "parse_distinct f key seen [] = Inr []"
| "parse_distinct f key seen (e # es) =
     rbind (f e) (\<lambda>x.
     if key x \<in> set seen then Inl SNAPSHOT_MALFORMED
     else rbind (parse_distinct f key (key x # seen) es) (\<lambda>xs. Inr (x # xs)))"

definition parseClaimSet :: "js \<Rightarrow> (js \<Rightarrow> 'a reg_result) \<Rightarrow> ('a \<Rightarrow> string) \<Rightarrow> 'a claim list reg_result" where
  "parseClaimSet raw parseValue keyOf = (case raw of
     JArr entries \<Rightarrow>
       if int (length entries) > MAX_CLAIMS_PER_PROPERTY then Inl SNAPSHOT_RESOURCE_LIMIT_EXCEEDED
       else rbind (parse_distinct (parse_claim parseValue) (claim_key keyOf) [] entries) (\<lambda>out.
            Inr (sortClaims out keyOf))
   | _ \<Rightarrow> Inl SNAPSHOT_MALFORMED)"

end
