(* ===== verification/Reg_Records.thy ===== *)
theory Reg_Records
  imports Reg_Claims
begin

text \<open>
  The records of a snapshot and their parsers: assets (\<open>packages/registry/src/asset.ts\<close>), representations
  (\<open>representation.ts\<close>) and the snapshot itself (\<open>snapshot.ts\<close>). An enumeration-valued claim is compared by the
  member's name, as \<open>identityKey\<close> does on the strings of the code.
\<close>

section \<open>Assets (asset.ts)\<close>

datatype asset_status = ASSET_ACTIVE | DELISTED | SUPERSEDED | ASSET_UNKNOWN

datatype alias_kind = NAME | SYMBOL | LEGACY_TICKER | EXCHANGE_QUALIFIED

definition AssetStatus :: "(string \<times> asset_status) list" where
  "AssetStatus = [(''ACTIVE'', ASSET_ACTIVE), (''DELISTED'', DELISTED), (''SUPERSEDED'', SUPERSEDED),
     (''UNKNOWN'', ASSET_UNKNOWN)]"

definition AliasKind :: "(string \<times> alias_kind) list" where
  "AliasKind = [(''NAME'', NAME), (''SYMBOL'', SYMBOL), (''LEGACY_TICKER'', LEGACY_TICKER),
     (''EXCHANGE_QUALIFIED'', EXCHANGE_QUALIFIED)]"

definition DISPLAY_TEXT_MAX_LENGTH :: nat where
  "DISPLAY_TEXT_MAX_LENGTH = 128"

definition printable_ascii :: "char \<Rightarrow> bool" where
  "printable_ascii c \<longleftrightarrow> 32 \<le> (of_char c :: nat) \<and> (of_char c :: nat) \<le> 126"

text \<open>\<open>raw !== raw.trim()\<close> is looked at for printable ASCII only, where the space is the one character \<open>trim\<close> removes.\<close>

definition parseDisplayText :: "js \<Rightarrow> string reg_result" where
  "parseDisplayText raw = (case raw of
     JStr s \<Rightarrow>
       if js_length s = 0 \<or> js_length s > DISPLAY_TEXT_MAX_LENGTH then Inl SNAPSHOT_MALFORMED
       else if \<not> list_all printable_ascii s then Inl SNAPSHOT_MALFORMED
       else if hd s = CHR '' '' \<or> last s = CHR '' '' then Inl SNAPSHOT_MALFORMED
       else Inr s
   | _ \<Rightarrow> Inl SNAPSHOT_MALFORMED)"

definition parseMic :: "js \<Rightarrow> string reg_result" where
  "parseMic raw = (case raw of
     JStr s \<Rightarrow> if length s = 4 \<and> list_all upper_alnum s then Inr s else Inl SNAPSHOT_MALFORMED
   | _ \<Rightarrow> Inl SNAPSHOT_MALFORMED)"

definition parseTicker :: "js \<Rightarrow> string reg_result" where
  "parseTicker raw = (case raw of
     JStr s \<Rightarrow>
       if s \<noteq> [] \<and> length s \<le> 12 \<and> upper_alnum (hd s)
          \<and> list_all (\<lambda>c. upper_alnum c \<or> c \<in> set ''.-'') (tl s)
       then Inr s else Inl SNAPSHOT_MALFORMED
   | _ \<Rightarrow> Inl SNAPSHOT_MALFORMED)"

record market_listing =
  mic :: string
  ticker :: string

record asset_alias =
  alias_kind_of :: alias_kind
  alias_value :: string

record asset_display =
  primaryName :: string
  displayTicker :: "string option"
  primaryMarketIdentifier :: "string option"
  listings :: "market_listing list"
  aliases :: "asset_alias list"

record asset_record =
  identity :: asset_id
  asset_status_of :: asset_status
  asset_display_of :: asset_display

definition parse_listing :: "js \<Rightarrow> market_listing reg_result" where
  "parse_listing e =
     (if \<not> is_object e then Inl SNAPSHOT_MALFORMED
      else if \<not> only_keys [''mic'', ''ticker''] e then Inl SNAPSHOT_MALFORMED
      else rbind (parseMic (jget e ''mic'')) (\<lambda>m.
           rbind (parseTicker (jget e ''ticker'')) (\<lambda>t. Inr \<lparr>mic = m, ticker = t\<rparr>)))"

definition listing_key :: "market_listing \<Rightarrow> string" where
  "listing_key l = mic l @ '':'' @ ticker l"

definition parseListings :: "js \<Rightarrow> market_listing list reg_result" where
  "parseListings raw = (case raw of
     JArr entries \<Rightarrow>
       if int (length entries) > MAX_SNAPSHOT_ENTRIES then Inl SNAPSHOT_RESOURCE_LIMIT_EXCEEDED
       else parse_distinct parse_listing listing_key [] entries
   | _ \<Rightarrow> Inl SNAPSHOT_MALFORMED)"

definition colons_fit :: "alias_kind \<Rightarrow> string \<Rightarrow> bool" where
  "colons_fit k value =
     (let parts = split_on CHR '':'' value in
      if k = EXCHANGE_QUALIFIED then length parts = 2 \<and> parts ! 0 \<noteq> [] \<and> parts ! 1 \<noteq> []
      else length parts = 1)"

definition parse_alias :: "js \<Rightarrow> asset_alias reg_result" where
  "parse_alias e =
     (if \<not> is_object e then Inl SNAPSHOT_MALFORMED
      else if \<not> only_keys [''kind'', ''value''] e then Inl SNAPSHOT_MALFORMED
      else rbind (parseEnumFromVocabulary (jget e ''kind'') AliasKind) (\<lambda>k.
           rbind (parseDisplayText (jget e ''value'')) (\<lambda>v.
           if colons_fit k v then Inr \<lparr>alias_kind_of = k, alias_value = v\<rparr> else Inl SNAPSHOT_MALFORMED)))"

definition alias_key :: "asset_alias \<Rightarrow> string" where
  "alias_key a = name_in AliasKind (alias_kind_of a) @ [CHR 0x00] @ alias_value a"

definition parseAliases :: "js \<Rightarrow> asset_alias list reg_result" where
  "parseAliases raw = (case raw of
     JArr entries \<Rightarrow>
       if int (length entries) > MAX_SNAPSHOT_ENTRIES then Inl SNAPSHOT_RESOURCE_LIMIT_EXCEEDED
       else parse_distinct parse_alias alias_key [] entries
   | _ \<Rightarrow> Inl SNAPSHOT_MALFORMED)"

text \<open>A field that is absent, null or parsed.\<close>

definition parse_optional :: "(js \<Rightarrow> 'a reg_result) \<Rightarrow> js \<Rightarrow> 'a option reg_result" where
  "parse_optional f v = (if is_nullish v then Inr None else rbind (f v) (\<lambda>x. Inr (Some x)))"

definition ASSET_FIELDS :: "string list" where
  "ASSET_FIELDS = [''identity'', ''status'', ''display'']"

definition DISPLAY_FIELDS :: "string list" where
  "DISPLAY_FIELDS = [''primaryName'', ''displayTicker'', ''primaryMarketIdentifier'', ''listings'', ''aliases'']"

definition parseCanonicalAssetRecord :: "js \<Rightarrow> asset_record reg_result" where
  "parseCanonicalAssetRecord r =
     (if \<not> is_object r then Inl SNAPSHOT_MALFORMED
      else if \<not> only_keys ASSET_FIELDS r then Inl SNAPSHOT_MALFORMED
      else rbind (validateCanonicalAssetId (jget r ''identity'')) (\<lambda>ident.
           rbind (parseEnumFromVocabulary (jget r ''status'') AssetStatus) (\<lambda>status.
           let d = jget r ''display'' in
           if \<not> is_object d then Inl SNAPSHOT_MALFORMED
           else if \<not> only_keys DISPLAY_FIELDS d then Inl SNAPSHOT_MALFORMED
           else rbind (parseDisplayText (jget d ''primaryName'')) (\<lambda>name.
                rbind (parse_optional parseTicker (jget d ''displayTicker'')) (\<lambda>tick.
                rbind (parse_optional parseMic (jget d ''primaryMarketIdentifier'')) (\<lambda>market.
                rbind (parseListings (jget d ''listings'')) (\<lambda>ls.
                rbind (parseAliases (jget d ''aliases'')) (\<lambda>as.
                Inr \<lparr>identity = ident, asset_status_of = status,
                     asset_display_of = \<lparr>primaryName = name, displayTicker = tick,
                       primaryMarketIdentifier = market, listings = ls, aliases = as\<rparr>\<rparr>)))))))) "

section \<open>Representations (representation.ts)\<close>

record representation_display =
  tokenSymbol :: "string option"
  tokenName :: "string option"

type_synonym rights_claims = "(right_kind \<times> right_state claim list) list"

record representation_record =
  representationId :: representation_id
  rr_display :: representation_display
  rr_underlying :: "asset_id claim list"
  rr_issuer :: "string claim list"
  rr_instrumentType :: "instrument_type claim list"
  rr_backing :: "backing_model claim list"
  rr_redemption :: "redemption_model claim list"
  rr_rights :: rights_claims
  rr_corporateActionHandling :: "corporate_action_model claim list"
  rr_settlement :: "settlement_model claim list"
  rr_operationalStatus :: "representation_status claim list"
  rr_eligibility :: "eligibility_profile claim list"

definition RECORD_FIELDS :: "string list" where
  "RECORD_FIELDS = [''representationId'', ''display'', ''underlying'', ''issuer'', ''instrumentType'', ''backing'',
     ''redemption'', ''rights'', ''corporateActionHandling'', ''settlement'', ''operationalStatus'', ''eligibility'']"

definition parseIssuerId :: "js \<Rightarrow> string reg_result" where
  "parseIssuerId raw = relabel SNAPSHOT_MALFORMED (parseIdentifier raw)"

definition parseUnderlying :: "js \<Rightarrow> asset_id reg_result" where
  "parseUnderlying raw = validateCanonicalAssetId raw"

definition eligibilityKey :: "eligibility_profile \<Rightarrow> string" where
  "eligibilityKey p = ''P:'' @ join '','' (js_sort compareStrings (permitted p))
     @ ''|X:'' @ join '','' (js_sort compareStrings (prohibited p))"

text \<open>One of the two lists of a profile; the second is not looked at when the first is refused.\<close>

definition parse_jurisdictions :: "js \<Rightarrow> string list reg_result" where
  "parse_jurisdictions v = (case v of
     JArr entries \<Rightarrow>
       if int (length entries) > MAX_SNAPSHOT_ENTRIES then Inl SNAPSHOT_RESOURCE_LIMIT_EXCEEDED
       else parse_distinct parseJurisdiction identityKey [] entries
   | _ \<Rightarrow> Inl SNAPSHOT_MALFORMED)"

definition parseEligibilityProfile :: "js \<Rightarrow> eligibility_profile reg_result" where
  "parseEligibilityProfile r =
     (if \<not> is_object r then Inl SNAPSHOT_MALFORMED
      else if \<not> only_keys [''permitted'', ''prohibited''] r then Inl SNAPSHOT_MALFORMED
      else rbind (parse_jurisdictions (jget r ''permitted'')) (\<lambda>ps.
           rbind (parse_jurisdictions (jget r ''prohibited'')) (\<lambda>xs.
           if list_ex (\<lambda>j. j \<in> set xs) ps then Inl SNAPSHOT_MALFORMED
           else Inr \<lparr>permitted = ps, prohibited = xs\<rparr>)))"

definition enum_claims :: "js \<Rightarrow> (string \<times> 'a) list \<Rightarrow> 'a claim list reg_result" where
  "enum_claims raw table = parseClaimSet raw (\<lambda>v. parseEnumFromVocabulary v table) (name_in table)"

definition parse_right :: "string \<times> js \<Rightarrow> (right_kind \<times> right_state claim list) reg_result" where
  "parse_right kv = (case map_of RightKind (fst kv) of
     None \<Rightarrow> Inl SNAPSHOT_MALFORMED
   | Some k \<Rightarrow> rbind (enum_claims (snd kv) RightState) (\<lambda>cs. Inr (k, cs)))"

definition parseRights :: "js \<Rightarrow> rights_claims reg_result" where
  "parseRights raw = (case raw of
     JUndef \<Rightarrow> Inr []
   | JNull \<Rightarrow> Inr []
   | JObj kvs \<Rightarrow> rmap parse_right kvs
   | _ \<Rightarrow> Inl SNAPSHOT_MALFORMED)"

definition parseRepresentationRecord :: "(u8 list \<Rightarrow> u8 list) \<Rightarrow> js \<Rightarrow> representation_record reg_result" where
  "parseRepresentationRecord keccak r =
     (if \<not> is_object r then Inl SNAPSHOT_MALFORMED
      else if \<not> only_keys RECORD_FIELDS r then Inl SNAPSHOT_MALFORMED
      else rbind (parseRepresentationId keccak (jget r ''representationId'')) (\<lambda>rid.
           let d = jget r ''display'' in
           if \<not> is_object d then Inl SNAPSHOT_MALFORMED
           else if \<not> only_keys [''tokenSymbol'', ''tokenName''] d then Inl SNAPSHOT_MALFORMED
           else rbind (parse_optional parseTicker (jget d ''tokenSymbol'')) (\<lambda>sym.
                rbind (parse_optional parseDisplayText (jget d ''tokenName'')) (\<lambda>name.
                rbind (parseClaimSet (jget r ''underlying'') parseUnderlying canonicalAssetKey) (\<lambda>under.
                rbind (parseClaimSet (jget r ''issuer'') parseIssuerId identityKey) (\<lambda>iss.
                rbind (enum_claims (jget r ''instrumentType'') InstrumentType) (\<lambda>instr.
                rbind (enum_claims (jget r ''backing'') BackingModel) (\<lambda>back.
                rbind (enum_claims (jget r ''redemption'') RedemptionModel) (\<lambda>red.
                rbind (parseRights (jget r ''rights'')) (\<lambda>rights.
                rbind (enum_claims (jget r ''corporateActionHandling'') CorporateActionModel) (\<lambda>ca.
                rbind (enum_claims (jget r ''settlement'') SettlementModel) (\<lambda>settle.
                rbind (enum_claims (jget r ''operationalStatus'') RepresentationOperationalStatus) (\<lambda>op.
                rbind (parseClaimSet (jget r ''eligibility'') parseEligibilityProfile eligibilityKey) (\<lambda>elig.
                Inr \<lparr>representationId = rid, rr_display = \<lparr>tokenSymbol = sym, tokenName = name\<rparr>,
                     rr_underlying = under, rr_issuer = iss, rr_instrumentType = instr, rr_backing = back,
                     rr_redemption = red, rr_rights = rights, rr_corporateActionHandling = ca,
                     rr_settlement = settle, rr_operationalStatus = op, rr_eligibility = elig\<rparr>)))))))))))))) "

section \<open>Snapshots (snapshot.ts)\<close>

definition REGISTRY_SCHEMA_VERSION :: int where
  "REGISTRY_SCHEMA_VERSION = 1"

datatype data_class = SYNTHETIC_FIXTURE | OBSERVED

definition DataClass :: "(string \<times> data_class) list" where
  "DataClass = [(''SYNTHETIC_FIXTURE'', SYNTHETIC_FIXTURE), (''OBSERVED'', OBSERVED)]"

record source_version =
  sv_sourceId :: string
  sv_version :: string

record registry_snapshot =
  registrySchemaVersion :: int
  snapshotId :: string
  createdAt :: int
  dataClass :: data_class
  sourceVersions :: "source_version list"
  assets :: "asset_record list"
  representations :: "representation_record list"

definition SNAPSHOT_FIELDS :: "string list" where
  "SNAPSHOT_FIELDS = [''registrySchemaVersion'', ''snapshotId'', ''createdAtUnixSeconds'', ''dataClass'',
     ''sourceVersions'', ''assets'', ''representations'']"

definition parseUnix :: "js \<Rightarrow> int reg_result" where
  "parseUnix raw = (case parseBigInt raw of
     None \<Rightarrow> Inl SNAPSHOT_MALFORMED
   | Some v \<Rightarrow> if v < INT64_MIN \<or> v > INT64_MAX then Inl SNAPSHOT_MALFORMED else Inr v)"

definition parse_source_version :: "js \<Rightarrow> source_version reg_result" where
  "parse_source_version e =
     (if \<not> is_object e then Inl SNAPSHOT_MALFORMED
      else if \<not> only_keys [''sourceId'', ''version''] e then Inl SNAPSHOT_MALFORMED
      else rbind (relabel SNAPSHOT_MALFORMED (parseIdentifier (jget e ''sourceId''))) (\<lambda>s.
           rbind (relabel SNAPSHOT_MALFORMED (parseIdentifier (jget e ''version''))) (\<lambda>v.
           Inr \<lparr>sv_sourceId = s, sv_version = v\<rparr>)))"

definition parseSourceVersions :: "js \<Rightarrow> source_version list reg_result" where
  "parseSourceVersions raw = (case raw of
     JArr entries \<Rightarrow>
       if int (length entries) > MAX_SNAPSHOT_ENTRIES then Inl SNAPSHOT_RESOURCE_LIMIT_EXCEEDED
       else rbind (parse_distinct parse_source_version sv_sourceId [] entries) (\<lambda>out.
            Inr (js_sort (\<lambda>a b. compareStrings (sv_sourceId a) (sv_sourceId b)) out))
   | _ \<Rightarrow> Inl SNAPSHOT_MALFORMED)"

text \<open>An array of at most \<open>MAX_SNAPSHOT_ENTRIES\<close> records, each parsed, the first refusal returned.\<close>

definition parse_entries :: "(js \<Rightarrow> 'a reg_result) \<Rightarrow> js \<Rightarrow> 'a list reg_result" where
  "parse_entries f raw = (case raw of
     JArr entries \<Rightarrow>
       if int (length entries) > MAX_SNAPSHOT_ENTRIES then Inl SNAPSHOT_RESOURCE_LIMIT_EXCEEDED else rmap f entries
   | _ \<Rightarrow> Inl SNAPSHOT_MALFORMED)"

definition parseRegistrySnapshot :: "(u8 list \<Rightarrow> u8 list) \<Rightarrow> js \<Rightarrow> registry_snapshot reg_result" where
  "parseRegistrySnapshot keccak r =
     (if \<not> is_object r then Inl SNAPSHOT_MALFORMED
      else if \<not> only_keys SNAPSHOT_FIELDS r then Inl SNAPSHOT_MALFORMED
      else if jget r ''registrySchemaVersion'' \<noteq> JNum (IntNum REGISTRY_SCHEMA_VERSION) then Inl SNAPSHOT_MALFORMED
      else rbind (relabel SNAPSHOT_MALFORMED (parseIdentifier (jget r ''snapshotId''))) (\<lambda>sid.
           rbind (parseUnix (jget r ''createdAtUnixSeconds'')) (\<lambda>created.
           rbind (parseEnumFromVocabulary (jget r ''dataClass'') DataClass) (\<lambda>dc.
           rbind (parseSourceVersions (jget r ''sourceVersions'')) (\<lambda>sources.
           rbind (parse_entries parseCanonicalAssetRecord (jget r ''assets'')) (\<lambda>as.
           rbind (parse_entries (parseRepresentationRecord keccak) (jget r ''representations'')) (\<lambda>reps.
           Inr \<lparr>registrySchemaVersion = REGISTRY_SCHEMA_VERSION, snapshotId = sid, createdAt = created,
                dataClass = dc, sourceVersions = sources, assets = as, representations = reps\<rparr>)))))))"

end
