(* ===== verification/Reg_Index.thy ===== *)
theory Reg_Index
  imports Reg_Records
begin

text \<open>
  Looking things up: human references (\<open>packages/registry/src/reference.ts\<close>), the indexes over assets and the resolver
  (\<open>asset-index.ts\<close>), and the registry opened from a snapshot (\<open>registry.ts\<close>). A \<open>Map\<close> is a function to option; no
  operation reads the order of its entries. Two assets of one index never have equal contents, since their
  canonical keys differ, so the code's comparison of records by reference is equality here.
\<close>

section \<open>References (reference.ts)\<close>

definition REFERENCE_MAX_LENGTH :: nat where
  "REFERENCE_MAX_LENGTH = 128"

definition CANONICAL_ID_PREFIX :: string where
  "CANONICAL_ID_PREFIX = ''mandate:asset:''"

datatype parsed_reference =
    CANONICAL_ID asset_id
  | SCHEME_VALUE string string
  | QUALIFIED string string string
  | PLAIN string

datatype reference_kind = CANONICAL_ID_KIND | SCHEME_VALUE_KIND | QUALIFIED_KIND | PLAIN_KIND

fun reference_kind_of :: "parsed_reference \<Rightarrow> reference_kind" where
  "reference_kind_of (CANONICAL_ID _) = CANONICAL_ID_KIND"
| "reference_kind_of (SCHEME_VALUE _ _) = SCHEME_VALUE_KIND"
| "reference_kind_of (QUALIFIED _ _ _) = QUALIFIED_KIND"
| "reference_kind_of (PLAIN _) = PLAIN_KIND"

text \<open>White space of ASCII text.\<close>

definition is_space :: "char \<Rightarrow> bool" where
  "is_space c \<longleftrightarrow> (of_char c :: nat) = 32 \<or> (9 \<le> (of_char c :: nat) \<and> (of_char c :: nat) \<le> 13)"

definition trim :: "string \<Rightarrow> string" where
  "trim s = rev (dropWhile is_space (rev (dropWhile is_space s)))"

fun collapse_spaces :: "string \<Rightarrow> string" where
  "collapse_spaces [] = []"
| "collapse_spaces (c # cs) =
     (if is_space c
      then (case cs of [] \<Rightarrow> [CHR '' ''] | d # ds \<Rightarrow> if is_space d then collapse_spaces cs else CHR '' '' # collapse_spaces cs)
      else c # collapse_spaces cs)"

definition upper_char :: "char \<Rightarrow> char" where
  "upper_char c = (if is_lower c then char_of ((of_char c :: nat) - 32) else c)"

definition toUpperCase :: "string \<Rightarrow> string" where
  "toUpperCase s = map upper_char s"

definition normalizeLookupKey :: "string \<Rightarrow> string" where
  "normalizeLookupKey raw = toUpperCase (collapse_spaces (trim raw))"

definition has_prefix :: "string \<Rightarrow> string \<Rightarrow> bool" where
  "has_prefix s p \<longleftrightarrow> take (length p) s = p"

definition parse_canonical_string :: "string \<Rightarrow> parsed_reference reg_result" where
  "parse_canonical_string trimmed = (case split_on CHR '':'' trimmed of
     [_, _, assetClass', idScheme', value] \<Rightarrow>
       if assetClass' = [] \<or> idScheme' = [] \<or> value = [] then Inl REFERENCE_MALFORMED
       else rbind (validateCanonicalAssetId (JObj [(''assetClass'', JStr assetClass'), (''idScheme'', JStr idScheme'),
              (''value'', JStr value)])) (\<lambda>a. Inr (CANONICAL_ID a))
   | _ \<Rightarrow> Inl REFERENCE_MALFORMED)"

definition parse_colon_reference :: "string \<Rightarrow> string \<Rightarrow> parsed_reference reg_result" where
  "parse_colon_reference l r =
     (let left = trim l; right = trim r in
      if left = [] \<or> right = [] then Inl REFERENCE_MALFORMED else
      case map_of AssetIdScheme (toLowerCase left) of
        Some s \<Rightarrow> if \<not> isValidSchemeValue s right then Inl ASSET_IDENTIFIER_INVALID
                   else Inr (SCHEME_VALUE (toLowerCase left) right)
      | None \<Rightarrow> Inr (QUALIFIED (normalizeLookupKey left) (normalizeLookupKey right)
                   (normalizeLookupKey left @ '':'' @ normalizeLookupKey right)))"

definition parseReference :: "js \<Rightarrow> parsed_reference reg_result" where
  "parseReference raw =
     (if is_object raw then rbind (validateCanonicalAssetId raw) (\<lambda>a. Inr (CANONICAL_ID a)) else
      case raw of
        JStr s \<Rightarrow>
          if js_length s = 0 \<or> js_length s > REFERENCE_MAX_LENGTH then Inl REFERENCE_MALFORMED
          else if \<not> list_all printable_ascii s then Inl REFERENCE_MALFORMED
          else let trimmed = trim s in
          if trimmed = [] then Inl REFERENCE_MALFORMED
          else if has_prefix (toLowerCase trimmed) CANONICAL_ID_PREFIX then parse_canonical_string trimmed
          else (case split_on CHR '':'' trimmed of
                  [_] \<Rightarrow> Inr (PLAIN (normalizeLookupKey trimmed))
                | [l, r] \<Rightarrow> parse_colon_reference l r
                | _ \<Rightarrow> Inl REFERENCE_MALFORMED)
      | _ \<Rightarrow> Inl REFERENCE_MALFORMED)"

section \<open>The asset index (asset-index.ts)\<close>

datatype reference_resolution =
    RESOLVED reference_kind asset_record
  | AMBIGUOUS reference_kind "asset_record list"
  | UNRESOLVED
  | INVALID registry_code

record asset_index =
  indexed_assets :: "asset_record list"
  byCanonicalKey :: "string \<Rightarrow> asset_record option"
  bySchemeValue :: "string \<Rightarrow> asset_record list option"
  byQualified :: "string \<Rightarrow> asset_record list option"
  byPlain :: "string \<Rightarrow> asset_record list option"

definition push :: "(string \<Rightarrow> asset_record list option) \<Rightarrow> string \<Rightarrow> asset_record \<Rightarrow> (string \<Rightarrow> asset_record list option)" where
  "push m key a = (case m key of
     None \<Rightarrow> m(key \<mapsto> [a])
   | Some existing \<Rightarrow> if a \<in> set existing then m else m(key \<mapsto> existing @ [a]))"

definition sortCandidates :: "asset_record list \<Rightarrow> asset_record list" where
  "sortCandidates xs = js_sort (\<lambda>a b. compareStrings (canonicalAssetKey (identity a)) (canonicalAssetKey (identity b))) xs"

text \<open>The lookup keys of an asset, in the order the loops push them.\<close>

definition scheme_value_key :: "asset_id \<Rightarrow> string" where
  "scheme_value_key a = idScheme a @ [CHR 0x00] @ assetValue a"

definition qualified_alias :: "string \<Rightarrow> string" where
  "qualified_alias v = (let parts = split_on CHR '':'' v;
         part = (\<lambda>k. if k < length parts then parts ! k else [])
     in normalizeLookupKey (part 0) @ '':'' @ normalizeLookupKey (part 1))"

definition qualified_keys :: "asset_display \<Rightarrow> string list" where
  "qualified_keys d = map listing_key (listings d)
     @ map (\<lambda>a. qualified_alias (alias_value a)) (filter (\<lambda>a. alias_kind_of a = EXCHANGE_QUALIFIED) (aliases d))"

definition plain_keys :: "asset_display \<Rightarrow> string list" where
  "plain_keys d = map (\<lambda>l. normalizeLookupKey (ticker l)) (listings d)
     @ (case displayTicker d of None \<Rightarrow> [] | Some t \<Rightarrow> [normalizeLookupKey t])
     @ [normalizeLookupKey (primaryName d)]
     @ map (\<lambda>a. normalizeLookupKey (alias_value a)) (filter (\<lambda>a. alias_kind_of a \<noteq> EXCHANGE_QUALIFIED) (aliases d))"

definition push_all :: "(string \<Rightarrow> asset_record list option) \<Rightarrow> string list \<Rightarrow> asset_record \<Rightarrow> (string \<Rightarrow> asset_record list option)" where
  "push_all m keys a = foldl (\<lambda>m k. push m k a) m keys"

fun index_assets :: "asset_index \<Rightarrow> asset_record list \<Rightarrow> asset_index reg_result" where
  "index_assets ix [] = Inr ix"
| "index_assets ix (a # as) =
     (let key = canonicalAssetKey (identity a) in
      if byCanonicalKey ix key \<noteq> None then Inl SNAPSHOT_MALFORMED
      else index_assets (ix\<lparr>byCanonicalKey := (byCanonicalKey ix)(key \<mapsto> a),
             bySchemeValue := push (bySchemeValue ix) (scheme_value_key (identity a)) a,
             byQualified := push_all (byQualified ix) (qualified_keys (asset_display_of a)) a,
             byPlain := push_all (byPlain ix) (plain_keys (asset_display_of a)) a\<rparr>) as)"

definition empty_index :: asset_index where
  "empty_index = \<lparr>indexed_assets = [], byCanonicalKey = Map.empty, bySchemeValue = Map.empty,
     byQualified = Map.empty, byPlain = Map.empty\<rparr>"

definition buildAssetIndex :: "asset_record list \<Rightarrow> asset_index reg_result" where
  "buildAssetIndex as = rbind (index_assets empty_index as) (\<lambda>ix.
     Inr \<lparr>indexed_assets = sortCandidates as, byCanonicalKey = byCanonicalKey ix,
          bySchemeValue = (\<lambda>k. map_option sortCandidates (bySchemeValue ix k)),
          byQualified = (\<lambda>k. map_option sortCandidates (byQualified ix k)),
          byPlain = (\<lambda>k. map_option sortCandidates (byPlain ix k))\<rparr>)"

definition found_list :: "asset_record list option \<Rightarrow> asset_record list" where
  "found_list o' = (case o' of None \<Rightarrow> [] | Some xs \<Rightarrow> xs)"

fun candidatesFor :: "asset_index \<Rightarrow> parsed_reference \<Rightarrow> asset_record list" where
  "candidatesFor ix (CANONICAL_ID a) = (case byCanonicalKey ix (canonicalAssetKey a) of None \<Rightarrow> [] | Some x \<Rightarrow> [x])"
| "candidatesFor ix (SCHEME_VALUE sch v) = found_list (bySchemeValue ix (sch @ [CHR 0x00] @ v))"
| "candidatesFor ix (QUALIFIED _ _ key) = found_list (byQualified ix key)"
| "candidatesFor ix (PLAIN key) = found_list (byPlain ix key)"

definition resolveReference :: "asset_index \<Rightarrow> js \<Rightarrow> reference_resolution" where
  "resolveReference ix raw = (case parseReference raw of
     Inl e \<Rightarrow> INVALID e
   | Inr ref \<Rightarrow>
       let candidates = candidatesFor ix ref in
       if length candidates = 0 then UNRESOLVED
       else if length candidates > 1 then AMBIGUOUS (reference_kind_of ref) (sortCandidates candidates)
       else RESOLVED (reference_kind_of ref) (hd candidates))"

definition getCanonicalAsset :: "asset_index \<Rightarrow> asset_id \<Rightarrow> asset_record option" where
  "getCanonicalAsset ix a = byCanonicalKey ix (canonicalAssetKey a)"

section \<open>The registry (registry.ts)\<close>

record registry =
  snapshot :: registry_snapshot
  assetIndex :: asset_index
  byRepresentationId :: "string \<Rightarrow> representation_record option"
  byUnderlying :: "string \<Rightarrow> representation_record list option"

definition indexPolicy :: "registry_snapshot \<Rightarrow> claim_policy" where
  "indexPolicy s = \<lparr>minimumTrust = EXECUTION_TRUST_FLOOR, policy_now = createdAt s, maxClaimAge = None\<rparr>"

fun index_representations ::
    "(string \<Rightarrow> representation_record option) \<Rightarrow> representation_record list \<Rightarrow>
     (string \<Rightarrow> representation_record option) reg_result" where
  "index_representations m [] = Inr m"
| "index_representations m (r # rs) =
     (let key = ri_value (representationId r)
      in if m key \<noteq> None then Inl SNAPSHOT_MALFORMED else index_representations (m(key \<mapsto> r)) rs)"

definition group_by_underlying ::
    "claim_policy \<Rightarrow> (string \<Rightarrow> representation_record list option) \<Rightarrow> representation_record \<Rightarrow>
     (string \<Rightarrow> representation_record list option)" where
  "group_by_underlying policy m r = (case resolveClaimSet (rr_underlying r) policy canonicalAssetKey of
     ESTABLISHED a _ \<Rightarrow>
       let key = canonicalAssetKey a
       in m(key \<mapsto> (case m key of None \<Rightarrow> [r] | Some rs \<Rightarrow> rs @ [r]))
   | _ \<Rightarrow> m)"

definition sort_records :: "representation_record list \<Rightarrow> representation_record list" where
  "sort_records = js_sort (\<lambda>a b. compareRepresentationIds (representationId a) (representationId b))"

text \<open>What \<open>openRegistry\<close> builds from a parsed snapshot.\<close>

definition index_snapshot :: "registry_snapshot \<Rightarrow> registry reg_result" where
  "index_snapshot s =
     rbind (buildAssetIndex (assets s)) (\<lambda>ix.
     rbind (index_representations Map.empty (representations s)) (\<lambda>byId.
     let grouped = foldl (group_by_underlying (indexPolicy s)) Map.empty (representations s) in
     Inr \<lparr>snapshot = s, assetIndex = ix, byRepresentationId = byId,
          byUnderlying = (\<lambda>k. map_option sort_records (grouped k))\<rparr>))"

definition openRegistry :: "(u8 list \<Rightarrow> u8 list) \<Rightarrow> js \<Rightarrow> registry reg_result" where
  "openRegistry keccak raw = rbind (parseRegistrySnapshot keccak raw) index_snapshot"

definition resolve :: "registry \<Rightarrow> js \<Rightarrow> reference_resolution" where
  "resolve reg reference = resolveReference (assetIndex reg) reference"

definition getAsset :: "registry \<Rightarrow> asset_id \<Rightarrow> asset_record option" where
  "getAsset reg a = getCanonicalAsset (assetIndex reg) a"

definition getRepresentation :: "(u8 list \<Rightarrow> u8 list) \<Rightarrow> registry \<Rightarrow> js \<Rightarrow> representation_record option" where
  "getRepresentation keccak reg rid = (case parseRepresentationId keccak rid of
     Inl _ \<Rightarrow> None
   | Inr p \<Rightarrow> byRepresentationId reg (ri_value p))"

definition listRepresentations :: "registry \<Rightarrow> asset_id \<Rightarrow> representation_record list" where
  "listRepresentations reg a = (case byUnderlying reg (canonicalAssetKey a) of None \<Rightarrow> [] | Some rs \<Rightarrow> rs)"

definition hasRepresentation :: "registry \<Rightarrow> representation_id \<Rightarrow> bool" where
  "hasRepresentation reg rid \<longleftrightarrow> byRepresentationId reg (ri_value rid) \<noteq> None"

end
