(* ===== verification/Reg_Requirements.thy ===== *)
theory Reg_Requirements
  imports Reg_Index
begin

text \<open>
  What a representation is evaluated against (\<open>packages/registry/src/requirements.ts\<close>): the constraints of a signed
  mandate, narrowed by institutional policy. \<^term>\<open>None\<close> in an optional field constrains nothing, an empty list
  permits nothing.
\<close>

record required_right =
  right_kind_of :: right_kind
  acceptable :: "right_state list"

record requirements =
  q_canonicalAsset :: asset_id
  q_allowedIssuers :: "string list"
  q_allowedChains :: "string list"
  q_syntheticPolicy :: synthetic_policy
  q_instrumentTypes :: "instrument_type list option"
  q_backingModels :: "backing_model list option"
  q_redemptionModels :: "redemption_model list option"
  q_requiredRights :: "required_right list"
  q_corporateActionModels :: "corporate_action_model list option"
  q_settlementModels :: "settlement_model list option"
  q_holderJurisdiction :: "string option"
  q_minimumTrust :: trust_class
  q_maxClaimAge :: "int option"
  q_now :: int

record evaluation_context =
  ctx_now :: int
  ctx_maxClaimAge :: "int option"
  ctx_minimumTrust :: "trust_class option"

definition deriveRequirements :: "mandate \<Rightarrow> evaluation_context \<Rightarrow> requirements reg_result" where
  "deriveRequirements m ctx =
     rbind (validateCanonicalAssetId (js_asset (m_canonicalAsset m))) (\<lambda>asset.
     let trust = (case ctx_minimumTrust ctx of None \<Rightarrow> EXECUTION_TRUST_FLOOR | Some t \<Rightarrow> t) in
     if \<not> meetsTrustFloor trust EXECUTION_TRUST_FLOOR then Inl TRUST_REQUIREMENT_NOT_MET else
     if (case ctx_maxClaimAge ctx of None \<Rightarrow> False | Some a \<Rightarrow> a < 0) then Inl SNAPSHOT_MALFORMED else
     Inr \<lparr>q_canonicalAsset = asset, q_allowedIssuers = m_allowedIssuers m, q_allowedChains = m_allowedChains m,
          q_syntheticPolicy = m_syntheticPolicy m, q_instrumentTypes = None, q_backingModels = None,
          q_redemptionModels = None, q_requiredRights = [], q_corporateActionModels = None,
          q_settlementModels = None, q_holderJurisdiction = None, q_minimumTrust = trust,
          q_maxClaimAge = ctx_maxClaimAge ctx, q_now = ctx_now ctx\<rparr>)"

text \<open>\<open>AdditionalRequirements\<close>: every field may be absent; identifiers and the jurisdiction are still raw text.\<close>

record additional_requirements =
  ar_allowedIssuers :: "string list option"
  ar_allowedChains :: "string list option"
  ar_forbidSynthetic :: "bool option"
  ar_instrumentTypes :: "instrument_type list option"
  ar_backingModels :: "backing_model list option"
  ar_redemptionModels :: "redemption_model list option"
  ar_requiredRights :: "required_right list option"
  ar_corporateActionModels :: "corporate_action_model list option"
  ar_settlementModels :: "settlement_model list option"
  ar_holderJurisdiction :: "string option"
  ar_minimumTrust :: "trust_class option"
  ar_maxClaimAge :: "int option"

definition intersectOrAdopt :: "'a list option \<Rightarrow> 'a list option \<Rightarrow> 'a list option" where
  "intersectOrAdopt base extra = (case extra of
     None \<Rightarrow> base
   | Some ys \<Rightarrow> (case base of None \<Rightarrow> Some ys | Some xs \<Rightarrow> Some (filter (\<lambda>v. v \<in> set ys) xs)))"

definition narrow_identifiers :: "string list \<Rightarrow> string list option \<Rightarrow> string list reg_result" where
  "narrow_identifiers base extra = (case extra of
     None \<Rightarrow> Inr base
   | Some raws \<Rightarrow>
       rbind (rmap (\<lambda>raw. relabel SNAPSHOT_MALFORMED (parseIdentifier (JStr raw))) raws) (\<lambda>parsed.
       Inr (filter (\<lambda>i. i \<in> set parsed) base)))"

definition narrow_trust :: "trust_class \<Rightarrow> trust_class option \<Rightarrow> trust_class reg_result" where
  "narrow_trust base extra = (case extra of
     None \<Rightarrow> Inr base
   | Some t \<Rightarrow> if \<not> meetsTrustFloor t base then Inl TRUST_REQUIREMENT_NOT_MET else Inr t)"

definition narrow_age :: "int option \<Rightarrow> int option \<Rightarrow> int option reg_result" where
  "narrow_age base extra = (case extra of
     None \<Rightarrow> Inr base
   | Some a \<Rightarrow>
       if a < 0 then Inl SNAPSHOT_MALFORMED
       else Inr (case base of None \<Rightarrow> Some a | Some b \<Rightarrow> if a < b then Some a else Some b))"

definition narrow_jurisdiction :: "string option \<Rightarrow> string option \<Rightarrow> string option reg_result" where
  "narrow_jurisdiction base extra = (case extra of
     None \<Rightarrow> Inr base
   | Some raw \<Rightarrow>
       rbind (parseJurisdiction (JStr raw)) (\<lambda>j.
       if (case base of None \<Rightarrow> False | Some h \<Rightarrow> h \<noteq> j) then Inl JURISDICTION_NOT_ELIGIBLE else Inr (Some j)))"

text \<open>A demand for a right already demanded intersects the states that satisfy it; a new one is appended.\<close>

fun add_right :: "required_right list \<Rightarrow> required_right \<Rightarrow> required_right list" where
  "add_right [] r = [r]"
| "add_right (p # ps) r =
     (if right_kind_of p = right_kind_of r
      then \<lparr>right_kind_of = right_kind_of r, acceptable = filter (\<lambda>s. s \<in> set (acceptable r)) (acceptable p)\<rparr> # ps
      else p # add_right ps r)"

definition narrow_rights :: "required_right list \<Rightarrow> required_right list option \<Rightarrow> required_right list" where
  "narrow_rights base extra =
     js_sort (\<lambda>a b. compareStrings (name_in RightKind (right_kind_of a)) (name_in RightKind (right_kind_of b)))
       (foldl add_right base (case extra of None \<Rightarrow> [] | Some rs \<Rightarrow> rs))"

definition narrowRequirements :: "requirements \<Rightarrow> additional_requirements \<Rightarrow> requirements reg_result" where
  "narrowRequirements base extra =
     rbind (narrow_identifiers (q_allowedIssuers base) (ar_allowedIssuers extra)) (\<lambda>issuers.
     rbind (narrow_identifiers (q_allowedChains base) (ar_allowedChains extra)) (\<lambda>chains.
     rbind (narrow_trust (q_minimumTrust base) (ar_minimumTrust extra)) (\<lambda>trust.
     rbind (narrow_age (q_maxClaimAge base) (ar_maxClaimAge extra)) (\<lambda>age.
     rbind (narrow_jurisdiction (q_holderJurisdiction base) (ar_holderJurisdiction extra)) (\<lambda>holder'.
     Inr \<lparr>q_canonicalAsset = q_canonicalAsset base, q_allowedIssuers = issuers, q_allowedChains = chains,
          q_syntheticPolicy = (if ar_forbidSynthetic extra = Some True then FORBIDDEN else q_syntheticPolicy base),
          q_instrumentTypes = intersectOrAdopt (q_instrumentTypes base) (ar_instrumentTypes extra),
          q_backingModels = intersectOrAdopt (q_backingModels base) (ar_backingModels extra),
          q_redemptionModels = intersectOrAdopt (q_redemptionModels base) (ar_redemptionModels extra),
          q_requiredRights = narrow_rights (q_requiredRights base) (ar_requiredRights extra),
          q_corporateActionModels = intersectOrAdopt (q_corporateActionModels base) (ar_corporateActionModels extra),
          q_settlementModels = intersectOrAdopt (q_settlementModels base) (ar_settlementModels extra),
          q_holderJurisdiction = holder', q_minimumTrust = trust, q_maxClaimAge = age, q_now = q_now base\<rparr>)))))"

definition claimPolicyOf :: "requirements \<Rightarrow> claim_policy" where
  "claimPolicyOf q = \<lparr>minimumTrust = q_minimumTrust q, policy_now = q_now q, maxClaimAge = q_maxClaimAge q\<rparr>"

section \<open>Institutional policy as data\<close>

text \<open>A field that may be absent: \<open>undefined\<close> only, so \<open>null\<close> is parsed and refused.\<close>

definition parse_defined :: "(js \<Rightarrow> 'a reg_result) \<Rightarrow> js \<Rightarrow> 'a option reg_result" where
  "parse_defined f v = (if v = JUndef then Inr None else rbind (f v) (\<lambda>x. Inr (Some x)))"

definition parse_strings :: "js \<Rightarrow> string list reg_result" where
  "parse_strings v = (case v of
     JArr xs \<Rightarrow> rmap (\<lambda>x. case x of JStr s \<Rightarrow> Inr s | _ \<Rightarrow> Inl SNAPSHOT_MALFORMED) xs
   | _ \<Rightarrow> Inl SNAPSHOT_MALFORMED)"

definition parse_bool :: "js \<Rightarrow> bool reg_result" where
  "parse_bool v = (case v of JBool b \<Rightarrow> Inr b | _ \<Rightarrow> Inl SNAPSHOT_MALFORMED)"

definition parse_enums :: "(string \<times> 'a) list \<Rightarrow> js \<Rightarrow> 'a list reg_result" where
  "parse_enums table v = (case v of
     JArr xs \<Rightarrow> rmap (\<lambda>x. parseEnumFromVocabulary x table) xs
   | _ \<Rightarrow> Inl SNAPSHOT_MALFORMED)"

definition parse_required_right :: "js \<Rightarrow> required_right reg_result" where
  "parse_required_right e =
     (if \<not> is_object e then Inl SNAPSHOT_MALFORMED
      else if \<not> only_keys [''kind'', ''acceptable''] e then Inl SNAPSHOT_MALFORMED
      else rbind (parseEnumFromVocabulary (jget e ''kind'') RightKind) (\<lambda>k.
           rbind (parse_enums RightState (jget e ''acceptable'')) (\<lambda>ss.
           Inr \<lparr>right_kind_of = k, acceptable = ss\<rparr>)))"

definition parse_required_rights :: "js \<Rightarrow> required_right list reg_result" where
  "parse_required_rights v = (case v of JArr xs \<Rightarrow> rmap parse_required_right xs | _ \<Rightarrow> Inl SNAPSHOT_MALFORMED)"

definition parse_trust_name :: "js \<Rightarrow> trust_class reg_result" where
  "parse_trust_name v = parseEnumFromVocabulary v TrustClass"

definition parse_claim_age :: "js \<Rightarrow> int reg_result" where
  "parse_claim_age v = (case v of
     JBig i \<Rightarrow> Inr i
   | JStr s \<Rightarrow> if canonical_nat s then Inr (BigInt s) else Inl SNAPSHOT_MALFORMED
   | _ \<Rightarrow> Inl SNAPSHOT_MALFORMED)"

definition ADDITIONAL_FIELDS :: "string list" where
  "ADDITIONAL_FIELDS = [''allowedIssuers'', ''allowedChains'', ''forbidSynthetic'', ''allowedInstrumentTypes'',
     ''allowedBackingModels'', ''allowedRedemptionModels'', ''requiredRights'', ''allowedCorporateActionModels'',
     ''allowedSettlementModels'', ''holderJurisdiction'', ''minimumTrust'', ''maxClaimAgeSeconds'']"

definition no_additional :: additional_requirements where
  "no_additional = \<lparr>ar_allowedIssuers = None, ar_allowedChains = None, ar_forbidSynthetic = None,
     ar_instrumentTypes = None, ar_backingModels = None, ar_redemptionModels = None, ar_requiredRights = None,
     ar_corporateActionModels = None, ar_settlementModels = None, ar_holderJurisdiction = None,
     ar_minimumTrust = None, ar_maxClaimAge = None\<rparr>"

definition parseAdditionalRequirements :: "js \<Rightarrow> additional_requirements reg_result" where
  "parseAdditionalRequirements r =
     (if is_nullish r then Inr no_additional
      else if \<not> is_plain_object r then Inl SNAPSHOT_MALFORMED
      else if \<not> only_keys ADDITIONAL_FIELDS r then Inl SNAPSHOT_MALFORMED
      else rbind (parse_defined parse_strings (jget r ''allowedIssuers'')) (\<lambda>issuers.
           rbind (parse_defined parse_strings (jget r ''allowedChains'')) (\<lambda>chains.
           rbind (parse_defined parse_bool (jget r ''forbidSynthetic'')) (\<lambda>forbid.
           rbind (parse_defined (parse_enums InstrumentType) (jget r ''allowedInstrumentTypes'')) (\<lambda>instr.
           rbind (parse_defined (parse_enums BackingModel) (jget r ''allowedBackingModels'')) (\<lambda>back.
           rbind (parse_defined (parse_enums RedemptionModel) (jget r ''allowedRedemptionModels'')) (\<lambda>red.
           rbind (parse_defined (parse_enums CorporateActionModel) (jget r ''allowedCorporateActionModels'')) (\<lambda>ca.
           rbind (parse_defined (parse_enums SettlementModel) (jget r ''allowedSettlementModels'')) (\<lambda>settle.
           rbind (parse_defined parse_required_rights (jget r ''requiredRights'')) (\<lambda>rights.
           rbind (parse_defined parseJurisdiction (jget r ''holderJurisdiction'')) (\<lambda>holder'.
           rbind (parse_defined parse_trust_name (jget r ''minimumTrust'')) (\<lambda>trust.
           rbind (parse_defined parse_claim_age (jget r ''maxClaimAgeSeconds'')) (\<lambda>age.
           Inr \<lparr>ar_allowedIssuers = issuers, ar_allowedChains = chains, ar_forbidSynthetic = forbid,
                ar_instrumentTypes = instr, ar_backingModels = back, ar_redemptionModels = red,
                ar_requiredRights = rights, ar_corporateActionModels = ca, ar_settlementModels = settle,
                ar_holderJurisdiction = holder', ar_minimumTrust = trust, ar_maxClaimAge = age\<rparr>)))))))))))))"

end
