(* ===== verification/Reg_Evaluate.thy ===== *)
theory Reg_Evaluate
  imports Reg_Requirements
begin

text \<open>
  Admissibility of a representation (\<open>packages/registry/src/evaluate.ts\<close>), and the translation of a record into the
  kernel's trusted state (\<open>bridge.ts\<close>).
\<close>

record exclusion =
  ex_code :: any_code
  ex_detail :: "(string \<times> string) list"

datatype representation_decision =
    ADMISSIBLE representation_id
  | EXCLUDED "representation_id option" "any_code list" "exclusion list"

definition exclusion_of :: "any_code \<Rightarrow> (string \<times> string) list \<Rightarrow> exclusion" where
  "exclusion_of c d = \<lparr>ex_code = c, ex_detail = d\<rparr>"

abbreviation reg_exclusion :: "registry_code \<Rightarrow> (string \<times> string) list \<Rightarrow> exclusion" where
  "reg_exclusion c d \<equiv> exclusion_of (RegistryCode c) d"

abbreviation kernel_exclusion :: "reason_code \<Rightarrow> (string \<times> string) list \<Rightarrow> exclusion" where
  "kernel_exclusion c d \<equiv> exclusion_of (KernelCode c) d"

fun unknownCode :: "unknown_reason \<Rightarrow> any_code" where
  "unknownCode NO_CLAIMS = KernelCode REPRESENTATION_METADATA_UNKNOWN"
| "unknownCode BELOW_TRUST_FLOOR = RegistryCode TRUST_REQUIREMENT_NOT_MET"
| "unknownCode STALE = RegistryCode REPRESENTATION_METADATA_STALE"

text \<open>\<open>establish\<close>: the exclusion it pushes, if any, and the value when it is established.\<close>

definition establish ::
    "'a claim list \<Rightarrow> requirements \<Rightarrow> ('a \<Rightarrow> string) \<Rightarrow> string \<Rightarrow> exclusion list \<times> 'a option" where
  "establish claims q keyOf property = (case resolveClaimSet claims (claimPolicyOf q) keyOf of
     ESTABLISHED v _ \<Rightarrow> ([], Some v)
   | CONFLICT cs \<Rightarrow>
       ([reg_exclusion REPRESENTATION_METADATA_CONFLICT [(''property'', property),
          (''values'', join '','' (js_sort compareStrings (dedupe (map (keyOf \<circ> claim_value) cs))))]], None)
   | UNESTABLISHED why \<Rightarrow> ([exclusion_of (unknownCode why) [(''property'', property)]], None))"

text \<open>A property that has to be established, and what is excluded once it is.\<close>

definition require ::
    "'a claim list \<Rightarrow> requirements \<Rightarrow> ('a \<Rightarrow> string) \<Rightarrow> string \<Rightarrow> ('a \<Rightarrow> exclusion list) \<Rightarrow> exclusion list" where
  "require claims q keyOf property check =
     (let (pushed, v) = establish claims q keyOf property
      in pushed @ (case v of None \<Rightarrow> [] | Some x \<Rightarrow> check x))"

definition detail_key :: "(string \<times> string) list \<Rightarrow> string" where
  "detail_key d = join [CHR 0x00] (map (\<lambda>k. k @ ''='' @ detail_get d k) (sorted_keys d))"

definition exclusion_key :: "exclusion \<Rightarrow> string" where
  "exclusion_key e = any_reason_id (ex_code e) @ [CHR 0x00] @ detail_key (ex_detail e)"

text \<open>The \<open>Map\<close> of \<open>canonicalize\<close>: its entries in insertion order, the first of each key kept.\<close>

fun first_exclusions :: "(string \<times> exclusion) list \<Rightarrow> exclusion list \<Rightarrow> (string \<times> exclusion) list" where
  "first_exclusions seen [] = seen"
| "first_exclusions seen (e # es) =
     first_exclusions (if exclusion_key e \<in> set (map fst seen) then seen else seen @ [(exclusion_key e, e)]) es"

definition canonical_exclusions :: "exclusion list \<Rightarrow> exclusion list" where
  "canonical_exclusions es = map snd (js_sort (\<lambda>a b. compareStrings (fst a) (fst b)) (first_exclusions [] es))"

section \<open>The checks of evaluateRepresentation\<close>

definition check_underlying :: "registry \<Rightarrow> requirements \<Rightarrow> asset_id \<Rightarrow> exclusion list" where
  "check_underlying reg q a =
     (if canonicalAssetKey a \<noteq> canonicalAssetKey (q_canonicalAsset q)
      then [kernel_exclusion REPRESENTATION_ASSET_MISMATCH
             [(''expected'', assetValue (q_canonicalAsset q)), (''observed'', assetValue a)]]
      else case getAsset reg (q_canonicalAsset q) of
        None \<Rightarrow> [reg_exclusion CANONICAL_ASSET_UNKNOWN [(''canonicalAsset'', assetValue (q_canonicalAsset q))]]
      | Some r \<Rightarrow>
          if asset_status_of r \<noteq> ASSET_ACTIVE
          then [reg_exclusion CANONICAL_ASSET_INACTIVE [(''observed'', name_in AssetStatus (asset_status_of r))]]
          else [])"

definition check_issuer :: "requirements \<Rightarrow> string \<Rightarrow> exclusion list" where
  "check_issuer q i =
     (if i \<notin> set (q_allowedIssuers q) then [kernel_exclusion ISSUER_NOT_ALLOWED [(''observed'', i)]] else [])"

definition check_chain :: "requirements \<Rightarrow> representation_id \<Rightarrow> exclusion list" where
  "check_chain q rid =
     (if ri_chain rid \<notin> set (q_allowedChains q)
      then [kernel_exclusion CHAIN_NOT_ALLOWED [(''observed'', ri_chain rid)]] else [])"

definition check_backing :: "requirements \<Rightarrow> backing_model \<Rightarrow> exclusion list" where
  "check_backing q b =
     (if isSyntheticBacking b \<and> q_syntheticPolicy q = FORBIDDEN
      then [kernel_exclusion SYNTHETIC_NOT_ALLOWED [(''observed'', name_in BackingModel b)]] else []) @
     (case q_backingModels q of
        None \<Rightarrow> []
      | Some bs \<Rightarrow> if b \<notin> set bs
                   then [reg_exclusion BACKING_REQUIREMENT_NOT_MET [(''observed'', name_in BackingModel b)]] else [])"

definition check_operational :: "representation_status \<Rightarrow> exclusion list" where
  "check_operational s =
     (if s \<noteq> STATUS_ACTIVE
      then [kernel_exclusion REPRESENTATION_INACTIVE [(''observed'', name_in RepresentationOperationalStatus s)]] else [])"

text \<open>A property looked at only when the requirements constrain it.\<close>

definition constrained ::
    "'a list option \<Rightarrow> 'a claim list \<Rightarrow> requirements \<Rightarrow> (string \<times> 'a) list \<Rightarrow> string \<Rightarrow> registry_code \<Rightarrow> exclusion list" where
  "constrained allowed claims q table property refusal = (case allowed of
     None \<Rightarrow> []
   | Some xs \<Rightarrow> require claims q (name_in table) property
       (\<lambda>x. if x \<notin> set xs then [reg_exclusion refusal [(''observed'', name_in table x)]] else []))"

definition right_claims :: "rights_claims \<Rightarrow> right_kind \<Rightarrow> right_state claim list" where
  "right_claims rights k = (case map_of rights k of None \<Rightarrow> [] | Some cs \<Rightarrow> cs)"

definition check_right :: "requirements \<Rightarrow> rights_claims \<Rightarrow> required_right \<Rightarrow> exclusion list" where
  "check_right q rights r =
     (let kind_name = name_in RightKind (right_kind_of r) in
      require (right_claims rights (right_kind_of r)) q (name_in RightState) (''rights.'' @ kind_name)
        (\<lambda>s. if s \<notin> set (acceptable r)
             then [reg_exclusion RIGHTS_REQUIREMENT_NOT_MET
                    [(''right'', kind_name), (''observed'', name_in RightState s)]] else []))"

definition check_holder :: "string \<Rightarrow> eligibility_profile \<Rightarrow> exclusion list" where
  "check_holder h p =
     (if h \<in> set (prohibited p)
      then [reg_exclusion JURISDICTION_NOT_ELIGIBLE [(''holder'', h), (''reason'', ''prohibited'')]]
      else if h \<notin> set (permitted p)
      then [reg_exclusion JURISDICTION_NOT_ELIGIBLE [(''holder'', h), (''reason'', ''not-permitted'')]]
      else [])"

definition exclusions_of ::
    "registry \<Rightarrow> requirements \<Rightarrow> representation_id \<Rightarrow> representation_record \<Rightarrow> exclusion list" where
  "exclusions_of reg q rid r =
     require (rr_underlying r) q canonicalAssetKey ''underlying'' (check_underlying reg q) @
     require (rr_issuer r) q identityKey ''issuer'' (check_issuer q) @
     check_chain q rid @
     require (rr_backing r) q (name_in BackingModel) ''backing'' (check_backing q) @
     require (rr_operationalStatus r) q (name_in RepresentationOperationalStatus) ''operationalStatus'' check_operational @
     constrained (q_instrumentTypes q) (rr_instrumentType r) q InstrumentType ''instrumentType'' INSTRUMENT_TYPE_NOT_ALLOWED @
     constrained (q_redemptionModels q) (rr_redemption r) q RedemptionModel ''redemption'' REDEMPTION_REQUIREMENT_NOT_MET @
     constrained (q_corporateActionModels q) (rr_corporateActionHandling r) q CorporateActionModel
       ''corporateActionHandling'' CORPORATE_ACTION_MODEL_NOT_ALLOWED @
     constrained (q_settlementModels q) (rr_settlement r) q SettlementModel ''settlement'' SETTLEMENT_MODEL_NOT_ALLOWED @
     concat (map (check_right q (rr_rights r)) (q_requiredRights q)) @
     (case q_holderJurisdiction q of
        None \<Rightarrow> []
      | Some h \<Rightarrow> require (rr_eligibility r) q eligibilityKey ''eligibility'' (check_holder h))"

definition decide ::
    "registry \<Rightarrow> requirements \<Rightarrow> representation_id \<Rightarrow> representation_record \<Rightarrow> representation_decision" where
  "decide reg q rid r =
     (let found = exclusions_of reg q rid r in
      if length found = 0 then ADMISSIBLE rid
      else let canonical = canonical_exclusions found
           in EXCLUDED (Some rid) (dedupe (map ex_code canonical)) canonical)"

definition evaluateRepresentation ::
    "(u8 list \<Rightarrow> u8 list) \<Rightarrow> registry \<Rightarrow> requirements \<Rightarrow> js \<Rightarrow> representation_decision" where
  "evaluateRepresentation keccak reg q raw = (case parseRepresentationId keccak raw of
     Inl e \<Rightarrow> EXCLUDED None [RegistryCode e] [reg_exclusion e []]
   | Inr rid \<Rightarrow> (case byRepresentationId reg (ri_value rid) of
       None \<Rightarrow> EXCLUDED (Some rid) [KernelCode REPRESENTATION_UNKNOWN]
                 [kernel_exclusion REPRESENTATION_UNKNOWN [(''representationId'', ri_value rid)]]
     | Some r \<Rightarrow> decide reg q rid r))"

section \<open>filterForMandate\<close>

record filter_result =
  fr_admissible :: "representation_id list"
  fr_excluded :: "representation_decision list"
  fr_decisions :: "representation_decision list"

fun decision_id :: "representation_decision \<Rightarrow> string" where
  "decision_id (ADMISSIBLE rid) = ri_value rid"
| "decision_id (EXCLUDED (Some rid) _ _) = ri_value rid"
| "decision_id (EXCLUDED None _ _) = []"

fun is_excluded :: "representation_decision \<Rightarrow> bool" where
  "is_excluded (EXCLUDED _ _ _) = True"
| "is_excluded (ADMISSIBLE _) = False"

fun admitted_ids :: "representation_decision \<Rightarrow> representation_id list" where
  "admitted_ids (ADMISSIBLE rid) = [rid]"
| "admitted_ids (EXCLUDED _ _ _) = []"

text \<open>The identifiers to evaluate: an extra that does not parse is kept, one already seen is not.\<close>

fun add_extras :: "(u8 list \<Rightarrow> u8 list) \<Rightarrow> string list \<Rightarrow> js list \<Rightarrow> js list" where
  "add_extras keccak seen [] = []"
| "add_extras keccak seen (x # xs) = (case parseRepresentationId keccak x of
     Inl _ \<Rightarrow> x # add_extras keccak seen xs
   | Inr rid \<Rightarrow> if ri_value rid \<in> set seen then add_extras keccak seen xs
                 else JStr (ri_value rid) # add_extras keccak (ri_value rid # seen) xs)"

definition filterForMandate ::
    "(u8 list \<Rightarrow> u8 list) \<Rightarrow> registry \<Rightarrow> requirements \<Rightarrow> js list \<Rightarrow> filter_result" where
  "filterForMandate keccak reg q extras =
     (let listed = map (ri_value \<circ> representationId)
            (case byUnderlying reg (canonicalAssetKey (q_canonicalAsset q)) of None \<Rightarrow> [] | Some rs \<Rightarrow> rs);
          ids = map JStr listed @ add_extras keccak listed extras;
          ds = js_sort (\<lambda>a b. compareIdentifierBytes (decision_id a) (decision_id b))
                 (map (evaluateRepresentation keccak reg q) ids)
      in \<lparr>fr_admissible = concat (map admitted_ids ds), fr_excluded = filter is_excluded ds, fr_decisions = ds\<rparr>)"

section \<open>The bridge to the kernel (bridge.ts)\<close>

definition establishOrFail :: "'a claim list \<Rightarrow> requirements \<Rightarrow> ('a \<Rightarrow> string) \<Rightarrow> any_code + 'a claim" where
  "establishOrFail claims q keyOf = (case resolveClaimSet claims (claimPolicyOf q) keyOf of
     ESTABLISHED v p \<Rightarrow> Inr \<lparr>claim_value = v, claim_prov = p\<rparr>
   | CONFLICT _ \<Rightarrow> Inl (RegistryCode REPRESENTATION_METADATA_CONFLICT)
   | UNESTABLISHED why \<Rightarrow> Inl (unknownCode why))"

definition oldest :: "int list \<Rightarrow> int" where
  "oldest ts = foldl (\<lambda>o' t. if t < o' then t else o') (hd ts) (tl ts)"

definition weaker_trust :: "trust_class \<Rightarrow> trust_class \<Rightarrow> bool" where
  "weaker_trust t worst = (case trust_rank t of
     None \<Rightarrow> False
   | Some a \<Rightarrow> (case trust_rank worst of None \<Rightarrow> False | Some b \<Rightarrow> a < b))"

definition weakestTrust :: "trust_class list \<Rightarrow> trust_class" where
  "weakestTrust ts = foldl (\<lambda>worst t. if weaker_trust t worst then t else worst) (hd ts) (tl ts)"

definition kernel_error :: "'a result \<Rightarrow> any_code + 'a" where
  "kernel_error r = (case r of Inl e \<Rightarrow> Inl (KernelCode e) | Inr x \<Rightarrow> Inr x)"

definition toRepresentationState ::
    "representation_record \<Rightarrow> requirements \<Rightarrow> any_code + representation_state observed" where
  "toRepresentationState r q =
     rbind (establishOrFail (rr_underlying r) q canonicalAssetKey) (\<lambda>underlying.
     rbind (establishOrFail (rr_issuer r) q identityKey) (\<lambda>iss.
     rbind (establishOrFail (rr_backing r) q (name_in BackingModel)) (\<lambda>backing.
     rbind (establishOrFail (rr_operationalStatus r) q (name_in RepresentationOperationalStatus)) (\<lambda>operational.
     let instr = (case resolveClaimSet (rr_instrumentType r) (claimPolicyOf q) (name_in InstrumentType) of
           ESTABLISHED v _ \<Rightarrow> JStr (name_in InstrumentType v) | _ \<Rightarrow> JNull);
         provs = [claim_prov underlying, claim_prov iss, claim_prov backing, claim_prov operational];
         trust = weakestTrust (map trustClass provs)
     in rbind (kernel_error (parseRepresentationState (JObj [
            (''representationId'', JStr (ri_value (representationId r))),
            (''canonicalAsset'', js_asset (claim_value underlying)),
            (''issuer'', JStr (claim_value iss)),
            (''chain'', JStr (ri_chain (representationId r))),
            (''instrumentType'', instr),
            (''synthetic'', JStr (if isSyntheticBacking (claim_value backing) then ''YES'' else ''NO'')),
            (''operationalState'', JStr (name_in RepresentationOperationalStatus (claim_value operational)))]))) (\<lambda>state.
        kernel_error (parseObserved (JObj [
            (''value'', js_representation state),
            (''provenance'', JObj [(''trustClass'', JStr (trust_class_text trust)), (''sourceId'', JStr ''registry''),
               (''observedAtUnixSeconds'', JBig (oldest (map observedAt provs)))])]) parseRepresentationState))))))"

end
