(* ===== verification/Reg_Encoding.thy ===== *)
theory Reg_Encoding
  imports Reg_Evaluate
begin

text \<open>
  The encodings behind the registry's digests (\<open>packages/registry/src/encoding.ts\<close>). As everywhere a writer is an
  optional byte list, \<^term>\<open>None\<close> where the code throws: on a string of more than 1024 bytes, on a count beyond its
  width, and on a trust class without a wire code.
\<close>

section \<open>Wire codes\<close>

definition ASSET_STATUS_CODE :: "(asset_status \<times> int) list" where
  "ASSET_STATUS_CODE = [(ASSET_ACTIVE, 1), (DELISTED, 2), (SUPERSEDED, 3), (ASSET_UNKNOWN, 4)]"

definition ALIAS_KIND_CODE :: "(alias_kind \<times> int) list" where
  "ALIAS_KIND_CODE = [(NAME, 1), (SYMBOL, 2), (LEGACY_TICKER, 3), (EXCHANGE_QUALIFIED, 4)]"

definition DATA_CLASS_CODE :: "(data_class \<times> int) list" where
  "DATA_CLASS_CODE = [(SYNTHETIC_FIXTURE, 1), (OBSERVED, 2)]"

definition REGISTRY_TRUST_CLASS_CODE :: "(trust_class \<times> int) list" where
  "REGISTRY_TRUST_CLASS_CODE = [(AUTHORITATIVE, 1), (VERIFIED, 2), (ADVISORY, 3), (UNTRUSTED, 4)]"

definition INSTRUMENT_TYPE_CODE :: "(instrument_type \<times> int) list" where
  "INSTRUMENT_TYPE_CODE = [(BACKED_NOTE, 1), (DEPOSITARY_RECEIPT, 2), (FUND_SHARE, 3), (SYNTHETIC_EXPOSURE, 4),
     (DEBT_INSTRUMENT, 5)]"

definition BACKING_CODE :: "(backing_model \<times> int) list" where
  "BACKING_CODE = [(FULLY_BACKED, 1), (PARTIALLY_BACKED, 2), (COLLATERALIZED, 3), (DEBT_LINKED, 4), (SYNTHETIC, 5),
     (UNBACKED, 6)]"

definition REDEMPTION_CODE :: "(redemption_model \<times> int) list" where
  "REDEMPTION_CODE = [(NO_REDEMPTION, 1), (QUALIFIED_HOLDERS_ONLY, 2), (OPEN_REDEMPTION, 3), (ISSUER_DISCRETION, 4)]"

definition RIGHT_KIND_CODE :: "(right_kind \<times> int) list" where
  "RIGHT_KIND_CODE = [(ECONOMIC_EXPOSURE, 1), (DIVIDEND_TREATMENT, 2), (VOTING_RIGHTS, 3), (REDEMPTION_RIGHTS, 4),
     (BENEFICIAL_OWNERSHIP, 5), (TRANSFERABILITY, 6)]"

definition RIGHT_STATE_CODE :: "(right_state \<times> int) list" where
  "RIGHT_STATE_CODE = [(RIGHT_PRESENT, 1), (PRICE_ADJUSTED, 2), (RIGHT_RESTRICTED, 3), (RIGHT_ABSENT, 4)]"

definition CORPORATE_ACTION_CODE :: "(corporate_action_model \<times> int) list" where
  "CORPORATE_ACTION_CODE = [(SUPPLY_REBASE, 1), (ON_CHAIN_MULTIPLIER, 2), (ISSUER_ACCOUNTING_ADJUSTMENT, 3),
     (CASH_DISTRIBUTION, 4), (NOT_APPLIED, 5)]"

definition SETTLEMENT_CODE :: "(settlement_model \<times> int) list" where
  "SETTLEMENT_CODE = [(ATOMIC_ON_CHAIN, 1), (DEFERRED_SETTLEMENT, 2), (ISSUER_CONFIRMED, 3)]"

definition OPERATIONAL_STATUS_CODE :: "(representation_status \<times> int) list" where
  "OPERATIONAL_STATUS_CODE = [(STATUS_ACTIVE, 1), (STATUS_PAUSED, 2), (STATUS_TRANSITION, 3), (STATUS_DEPRECATED, 4)]"

text \<open>\<open>w.u8(codeOf(table, value, label))\<close>; a trust class inherited from \<open>Object.prototype\<close> is no integer there and throws too.\<close>

definition wr_registry_code :: "('a \<times> int) list \<Rightarrow> 'a \<Rightarrow> u8 list option" where
  "wr_registry_code table x = (case map_of table x of None \<Rightarrow> None | Some c \<Rightarrow> wr_u8 c)"

definition code_in :: "('a \<times> int) list \<Rightarrow> 'a \<Rightarrow> int" where
  "code_in table x = the (map_of table x)"

section \<open>Component writers\<close>

definition writeAssetIdentity :: "asset_id \<Rightarrow> u8 list option" where
  "writeAssetIdentity a = wcat [wr_str (assetClass a), wr_str (idScheme a), wr_str (assetValue a)]"

definition write_claim :: "('a \<Rightarrow> u8 list option) \<Rightarrow> 'a claim \<Rightarrow> u8 list option" where
  "write_claim wv c = wcat [wr_registry_code REGISTRY_TRUST_CLASS_CODE (trustClass (claim_prov c)), wr_str (sourceId (claim_prov c)),
     wr_i64 (observedAt (claim_prov c)), wv (claim_value c)]"

definition writeClaims :: "'a claim list \<Rightarrow> ('a \<Rightarrow> string) \<Rightarrow> ('a \<Rightarrow> u8 list option) \<Rightarrow> u8 list option" where
  "writeClaims claims keyOf wv =
     (let s = sortClaims claims keyOf in wcat (wr_u16 (int (length s)) # map (write_claim wv) s))"

definition write_enum_claims :: "'a claim list \<Rightarrow> (string \<times> 'a) list \<Rightarrow> ('a \<times> int) list \<Rightarrow> u8 list option" where
  "write_enum_claims claims names codes = writeClaims claims (name_in names) (wr_registry_code codes)"

definition writeEligibility :: "eligibility_profile \<Rightarrow> u8 list option" where
  "writeEligibility p =
     (let ps = js_sort compareStrings (permitted p); xs = js_sort compareStrings (prohibited p)
      in wcat (wr_u16 (int (length ps)) # map wr_str ps @ wr_u16 (int (length xs)) # map wr_str xs))"

section \<open>Assets and representations\<close>

definition encodeCanonicalAssetIdentity :: "asset_id \<Rightarrow> u8 list option" where
  "encodeCanonicalAssetIdentity a = wcat [wr_tag ''MANDATE.REGISTRY.ASSETID.V1'', wr_u16 1, writeAssetIdentity a]"

definition canonicalAssetIdentityDigest :: "(u8 list \<Rightarrow> u8 list) \<Rightarrow> asset_id \<Rightarrow> string option" where
  "canonicalAssetIdentityDigest keccak a = map_option (keccak256 keccak) (encodeCanonicalAssetIdentity a)"

definition compare_listings :: "market_listing \<Rightarrow> market_listing \<Rightarrow> int" where
  "compare_listings a b = (let m = compareIdentifierBytes (mic a) (mic b)
     in if m \<noteq> 0 then m else compareIdentifierBytes (ticker a) (ticker b))"

definition compare_aliases :: "asset_alias \<Rightarrow> asset_alias \<Rightarrow> int" where
  "compare_aliases a b =
     (let k = code_in ALIAS_KIND_CODE (alias_kind_of a) - code_in ALIAS_KIND_CODE (alias_kind_of b)
      in if k \<noteq> 0 then k else compareIdentifierBytes (alias_value a) (alias_value b))"

definition encodeCanonicalAssetRecord :: "asset_record \<Rightarrow> u8 list option" where
  "encodeCanonicalAssetRecord r =
     (let d = asset_display_of r;
          ls = js_sort compare_listings (listings d);
          as = js_sort compare_aliases (aliases d)
      in wcat ([wr_tag ''MANDATE.REGISTRY.ASSET.V1'', wr_u16 1, writeAssetIdentity (identity r),
           wr_registry_code ASSET_STATUS_CODE (asset_status_of r), wr_str (primaryName d), wr_opt wr_str (displayTicker d),
           wr_opt wr_str (primaryMarketIdentifier d), wr_u16 (int (length ls))] @
           concat (map (\<lambda>l. [wr_str (mic l), wr_str (ticker l)]) ls) @
           wr_u16 (int (length as)) #
           concat (map (\<lambda>a. [wr_registry_code ALIAS_KIND_CODE (alias_kind_of a), wr_str (alias_value a)]) as)))"

definition canonicalAssetRecordDigest :: "(u8 list \<Rightarrow> u8 list) \<Rightarrow> asset_record \<Rightarrow> string option" where
  "canonicalAssetRecordDigest keccak r = map_option (keccak256 keccak) (encodeCanonicalAssetRecord r)"

definition encodeRepresentationRecord :: "representation_record \<Rightarrow> u8 list option" where
  "encodeRepresentationRecord r =
     (let kinds = js_sort (\<lambda>a b. code_in RIGHT_KIND_CODE a - code_in RIGHT_KIND_CODE b)
            (filter (\<lambda>k. map_of (rr_rights r) k \<noteq> None) (map snd RightKind))
      in wcat ([wr_tag ''MANDATE.REGISTRY.REPRESENTATION.V1'', wr_u16 1, wr_str (ri_value (representationId r)),
           wr_opt wr_str (tokenSymbol (rr_display r)), wr_opt wr_str (tokenName (rr_display r)),
           writeClaims (rr_underlying r) canonicalAssetKey writeAssetIdentity,
           writeClaims (rr_issuer r) identityKey wr_str,
           write_enum_claims (rr_instrumentType r) InstrumentType INSTRUMENT_TYPE_CODE,
           write_enum_claims (rr_backing r) BackingModel BACKING_CODE,
           write_enum_claims (rr_redemption r) RedemptionModel REDEMPTION_CODE,
           wr_u16 (int (length kinds))] @
           concat (map (\<lambda>k. [wr_registry_code RIGHT_KIND_CODE k,
             write_enum_claims (right_claims (rr_rights r) k) RightState RIGHT_STATE_CODE]) kinds) @
           [write_enum_claims (rr_corporateActionHandling r) CorporateActionModel CORPORATE_ACTION_CODE,
            write_enum_claims (rr_settlement r) SettlementModel SETTLEMENT_CODE,
            write_enum_claims (rr_operationalStatus r) RepresentationOperationalStatus OPERATIONAL_STATUS_CODE,
            writeClaims (rr_eligibility r) eligibilityKey writeEligibility]))"

definition representationRecordDigest :: "(u8 list \<Rightarrow> u8 list) \<Rightarrow> representation_record \<Rightarrow> string option" where
  "representationRecordDigest keccak r = map_option (keccak256 keccak) (encodeRepresentationRecord r)"

section \<open>Snapshots\<close>

text \<open>\<open>keccakBytes\<close>: the digest of an encoding as the bytes its hexadecimal form stands for.\<close>

definition keccakBytes :: "(u8 list \<Rightarrow> u8 list) \<Rightarrow> u8 list option \<Rightarrow> u8 list option" where
  "keccakBytes keccak bytes = map_option (\<lambda>b. bytes32ToBytes (keccak256 keccak b)) bytes"

definition compareAssets :: "asset_record \<Rightarrow> asset_record \<Rightarrow> int" where
  "compareAssets a b = compareIdentifierBytes (canonicalAssetKey (identity a)) (canonicalAssetKey (identity b))"

definition encodeRegistrySnapshot :: "(u8 list \<Rightarrow> u8 list) \<Rightarrow> registry_snapshot \<Rightarrow> u8 list option" where
  "encodeRegistrySnapshot keccak s =
     (let sources = js_sort (\<lambda>a b. compareIdentifierBytes (sv_sourceId a) (sv_sourceId b)) (sourceVersions s);
          as = js_sort compareAssets (assets s);
          rs = sort_records (representations s)
      in wcat ([wr_tag ''MANDATE.REGISTRY.SNAPSHOT.V1'', wr_u16 (registrySchemaVersion s), wr_str (snapshotId s),
           wr_i64 (createdAt s), wr_registry_code DATA_CLASS_CODE (dataClass s), wr_u16 (int (length sources))] @
           concat (map (\<lambda>v. [wr_str (sv_sourceId v), wr_str (sv_version v)]) sources) @
           wr_u16 (int (length as)) # map (\<lambda>a. keccakBytes keccak (encodeCanonicalAssetRecord a)) as @
           wr_u16 (int (length rs)) # map (\<lambda>r. keccakBytes keccak (encodeRepresentationRecord r)) rs))"

definition registrySnapshotDigest :: "(u8 list \<Rightarrow> u8 list) \<Rightarrow> registry_snapshot \<Rightarrow> string option" where
  "registrySnapshotDigest keccak s = map_option (keccak256 keccak) (encodeRegistrySnapshot keccak s)"

section \<open>Decisions\<close>

definition encode_exclusion :: "exclusion \<Rightarrow> u8 list option list" where
  "encode_exclusion e =
     (let keys = sorted_keys (ex_detail e)
      in [wr_str (any_reason_id (ex_code e)), wr_str (any_reason_name (ex_code e)), wr_u16 (int (length keys))] @
         concat (map (\<lambda>k. [wr_str k, wr_str (detail_get (ex_detail e) k)]) keys))"

fun encodeRepresentationDecision :: "representation_decision \<Rightarrow> u8 list option" where
  "encodeRepresentationDecision (ADMISSIBLE rid) =
     wcat [wr_tag ''MANDATE.REGISTRY.DECISION.V1'', wr_u16 1, wr_str ''ADMISSIBLE'',
       wr_opt (wr_str \<circ> ri_value) (Some rid), wr_u16 0]"
| "encodeRepresentationDecision (EXCLUDED rid codes es) =
     wcat ([wr_tag ''MANDATE.REGISTRY.DECISION.V1'', wr_u16 1, wr_str ''EXCLUDED'',
       wr_opt (wr_str \<circ> ri_value) rid, wr_u16 (int (length es))] @ concat (map encode_exclusion es))"

definition representationDecisionDigest :: "(u8 list \<Rightarrow> u8 list) \<Rightarrow> representation_decision \<Rightarrow> string option" where
  "representationDecisionDigest keccak d = map_option (keccak256 keccak) (encodeRepresentationDecision d)"

end
