(* ===== verification/Route_Base.thy ===== *)
theory Route_Base
  imports Reg_Encoding
begin

text \<open>
  The router's data (\<open>packages/router/src/types.ts\<close>), the strict parser of provider quotes (\<open>provider.ts\<close>) and of the
  costs established outside providers (\<open>cost-state.ts\<close>), and its encodings (\<open>encoding.ts\<close>).
\<close>

section \<open>Reason codes and exclusions\<close>

datatype routing_code =
    AnyCode any_code
  | MALFORMED_PROVIDER_RESPONSE | RESOURCE_LIMIT_EXCEEDED | DUPLICATE_ROUTE_ID | DUPLICATE_CANDIDATE
  | REPRESENTATION_NOT_DISCOVERABLE | PROVIDER_IDENTITY_MISMATCH | REQUESTED_QUANTITY_MISMATCH
  | PARTIAL_FILL_UNSUPPORTED | UNKNOWN_COST | UNTRUSTED_COST_MISMATCH | COST_UNIT_MISMATCH | COST_OVERFLOW
  | COST_STATE_STALE | COST_STATE_FUTURE | HANDOFF_TIME_REGRESSED | HANDOFF_STATE_MISSING | QUOTE_STALE
  | QUOTE_FROM_FUTURE | FINAL_REVERIFICATION_FAILED | INPUT_INVALID

fun routing_code_name :: "routing_code \<Rightarrow> string" where
  "routing_code_name (AnyCode c) = any_reason_name c"
| "routing_code_name MALFORMED_PROVIDER_RESPONSE = ''MALFORMED_PROVIDER_RESPONSE''"
| "routing_code_name RESOURCE_LIMIT_EXCEEDED = ''RESOURCE_LIMIT_EXCEEDED''"
| "routing_code_name DUPLICATE_ROUTE_ID = ''DUPLICATE_ROUTE_ID''"
| "routing_code_name DUPLICATE_CANDIDATE = ''DUPLICATE_CANDIDATE''"
| "routing_code_name REPRESENTATION_NOT_DISCOVERABLE = ''REPRESENTATION_NOT_DISCOVERABLE''"
| "routing_code_name PROVIDER_IDENTITY_MISMATCH = ''PROVIDER_IDENTITY_MISMATCH''"
| "routing_code_name REQUESTED_QUANTITY_MISMATCH = ''REQUESTED_QUANTITY_MISMATCH''"
| "routing_code_name PARTIAL_FILL_UNSUPPORTED = ''PARTIAL_FILL_UNSUPPORTED''"
| "routing_code_name UNKNOWN_COST = ''UNKNOWN_COST''"
| "routing_code_name UNTRUSTED_COST_MISMATCH = ''UNTRUSTED_COST_MISMATCH''"
| "routing_code_name COST_UNIT_MISMATCH = ''COST_UNIT_MISMATCH''"
| "routing_code_name COST_OVERFLOW = ''COST_OVERFLOW''"
| "routing_code_name COST_STATE_STALE = ''COST_STATE_STALE''"
| "routing_code_name COST_STATE_FUTURE = ''COST_STATE_FUTURE''"
| "routing_code_name HANDOFF_TIME_REGRESSED = ''HANDOFF_TIME_REGRESSED''"
| "routing_code_name HANDOFF_STATE_MISSING = ''HANDOFF_STATE_MISSING''"
| "routing_code_name QUOTE_STALE = ''QUOTE_STALE''"
| "routing_code_name QUOTE_FROM_FUTURE = ''QUOTE_FROM_FUTURE''"
| "routing_code_name FINAL_REVERIFICATION_FAILED = ''FINAL_REVERIFICATION_FAILED''"
| "routing_code_name INPUT_INVALID = ''INPUT_INVALID''"

record route_exclusion =
  rx_code :: routing_code
  rx_detail :: "(string \<times> string) list"

definition route_exclusion_of :: "routing_code \<Rightarrow> (string \<times> string) list \<Rightarrow> route_exclusion" where
  "route_exclusion_of c d = \<lparr>rx_code = c, rx_detail = d\<rparr>"

text \<open>
  The key exclusions are told apart and sorted by. \<open>Object.entries(detail).sort()\<close> compares the pairs as the strings
  \<open>name,value\<close>.
\<close>

definition entry_text :: "string \<times> string \<Rightarrow> string" where
  "entry_text e = fst e @ '','' @ snd e"

definition route_exclusion_key :: "route_exclusion \<Rightarrow> string" where
  "route_exclusion_key e = routing_code_name (rx_code e) @ '':'' @
     join ''|'' (map (\<lambda>(k, v). k @ ''='' @ v)
       (js_sort (\<lambda>a b. compareStrings (entry_text a) (entry_text b)) (rx_detail e)))"

text \<open>The \<open>Map\<close> by key: the first exclusion of each key, in order; then sorted by key.\<close>

fun first_routes :: "(string \<times> route_exclusion) list \<Rightarrow> route_exclusion list \<Rightarrow> (string \<times> route_exclusion) list" where
  "first_routes keyed [] = keyed"
| "first_routes keyed (e # es) =
     first_routes (if route_exclusion_key e \<in> set (map fst keyed) then keyed else keyed @ [(route_exclusion_key e, e)]) es"

definition canonicalExclusions :: "route_exclusion list \<Rightarrow> route_exclusion list" where
  "canonicalExclusions es = map snd (js_sort (\<lambda>a b. compareStrings (fst a) (fst b)) (first_routes [] es))"

section \<open>Quotes and costs (types.ts)\<close>

definition MAX_ROUTE_CANDIDATES :: int where
  "MAX_ROUTE_CANDIDATES = 256"

definition MAX_ROUTE_STEPS :: int where
  "MAX_ROUTE_STEPS = 8"

definition MAX_TRUSTED_ROUTE_COSTS :: int where
  "MAX_TRUSTED_ROUTE_COSTS = MAX_ROUTE_CANDIDATES"

datatype provider_class = RECORDED_REAL | SYNTHETIC_TEST
datatype fill_policy = FILL_OR_KILL | ALLOW_PARTIAL
datatype route_step_kind = TRADE

definition ProviderClass :: "(string \<times> provider_class) list" where
  "ProviderClass = [(''RECORDED_REAL'', RECORDED_REAL), (''SYNTHETIC_TEST'', SYNTHETIC_TEST)]"

definition FillPolicy :: "(string \<times> fill_policy) list" where
  "FillPolicy = [(''FILL_OR_KILL'', FILL_OR_KILL), (''ALLOW_PARTIAL'', ALLOW_PARTIAL)]"

definition RouteStepKind :: "(string \<times> route_step_kind) list" where
  "RouteStepKind = [(''TRADE'', TRADE)]"

record route_step =
  step_kind :: route_step_kind
  step_venue :: string
  step_chain :: string
  step_representationId :: string

record 'a cost_parts =
  venueFee :: 'a
  executionFee :: 'a
  settlementFee :: 'a
  routeFee :: 'a

type_synonym route_costs = "amount option cost_parts"
type_synonym known_costs = "amount cost_parts"

record provider_quote =
  pq_routeId :: string
  pq_providerId :: string
  pq_providerClass :: provider_class
  pq_canonicalAsset :: asset_id
  pq_representationId :: string
  pq_issuer :: string
  pq_chain :: string
  pq_venue :: string
  pq_side :: side
  pq_agent :: party
  pq_quantity :: amount
  pq_executionPrice :: price
  pq_notional :: amount
  pq_quoteObservedAt :: int
  pq_fillPolicy :: fill_policy
  pq_costs :: route_costs
  pq_steps :: "route_step list"
  pq_referenceStateId :: string
  pq_corporateActionEpoch :: int

record trusted_route_cost =
  tc_routeId :: string
  tc_costs :: route_costs
  tc_provenanceSourceId :: string
  tc_observedAt :: int

section \<open>Provider quotes (provider.ts)\<close>

type_synonym 'a route_result = "route_exclusion + 'a"

definition failure :: "string \<Rightarrow> 'a route_result" where
  "failure path = Inl (route_exclusion_of MALFORMED_PROVIDER_RESPONSE [(''path'', path)])"

definition strictObject :: "js \<Rightarrow> string list \<Rightarrow> js option" where
  "strictObject raw known = (if \<not> is_plain_object raw then None else if \<not> only_keys known raw then None else Some raw)"

definition enumValue :: "js \<Rightarrow> (string \<times> 'a) list \<Rightarrow> 'a option" where
  "enumValue raw values = (case raw of JStr s \<Rightarrow> map_of values s | _ \<Rightarrow> None)"

text \<open>\<open>null\<close> is an unknown cost; what does not parse is \<^term>\<open>None\<close>.\<close>

definition parseNullableAmount :: "js \<Rightarrow> amount option option" where
  "parseNullableAmount raw =
     (if raw = JNull then Some None else case parseAmount raw of Inl _ \<Rightarrow> None | Inr a \<Rightarrow> Some (Some a))"

definition COST_NAMES :: "string list" where
  "COST_NAMES = [''venueFee'', ''executionFee'', ''settlementFee'', ''routeFee'']"

definition parseCosts :: "js \<Rightarrow> route_costs option" where
  "parseCosts raw = (case strictObject raw COST_NAMES of
     None \<Rightarrow> None
   | Some v \<Rightarrow>
      (case (parseNullableAmount (jget v ''venueFee''), parseNullableAmount (jget v ''executionFee''),
             parseNullableAmount (jget v ''settlementFee''), parseNullableAmount (jget v ''routeFee'')) of
         (Some a, Some b, Some c, Some d) \<Rightarrow> Some \<lparr>venueFee = a, executionFee = b, settlementFee = c, routeFee = d\<rparr>
       | _ \<Rightarrow> None))"

definition parseStep :: "js \<Rightarrow> route_step option" where
  "parseStep raw = (case strictObject raw [''kind'', ''venue'', ''chain'', ''representationId''] of
     None \<Rightarrow> None
   | Some v \<Rightarrow>
      (case (enumValue (jget v ''kind'') RouteStepKind, parseIdentifier (jget v ''venue''),
             parseIdentifier (jget v ''chain''), parseIdentifier (jget v ''representationId'')) of
         (Some k, Inr ve, Inr ch, Inr rid) \<Rightarrow>
           Some \<lparr>step_kind = k, step_venue = ve, step_chain = ch, step_representationId = rid\<rparr>
       | _ \<Rightarrow> None))"

fun parse_steps :: "js list \<Rightarrow> route_step list option" where
  "parse_steps [] = Some []"
| "parse_steps (x # xs) = (case (parseStep x, parse_steps xs) of (Some s, Some ss) \<Rightarrow> Some (s # ss) | _ \<Rightarrow> None)"

definition QUOTE_FIELDS :: "string list" where
  "QUOTE_FIELDS = [''version'', ''routeId'', ''providerId'', ''providerClass'', ''canonicalAsset'', ''representationId'',
     ''issuer'', ''chain'', ''venue'', ''side'', ''agent'', ''quantity'', ''executionPrice'', ''notional'',
     ''quoteObservedAtUnixSeconds'', ''fillPolicy'', ''costs'', ''steps'', ''referenceStateId'', ''corporateActionEpoch'']"

definition ROUTE_QUOTE_SCHEMA_VERSION :: int where
  "ROUTE_QUOTE_SCHEMA_VERSION = 1"

text \<open>The conjunction of the code's one condition, field by field; \<^term>\<open>None\<close> is its single refusal.\<close>

definition obind :: "'a option \<Rightarrow> ('a \<Rightarrow> 'b option) \<Rightarrow> 'b option" where
  "obind x f = (case x of None \<Rightarrow> None | Some v \<Rightarrow> f v)"

definition quote_of :: "js \<Rightarrow> route_step list \<Rightarrow> provider_quote option" where
  "quote_of v steps =
     obind (value_opt (parseIdentifier (jget v ''routeId''))) (\<lambda>routeId.
     obind (value_opt (parseIdentifier (jget v ''providerId''))) (\<lambda>providerId.
     obind (enumValue (jget v ''providerClass'') ProviderClass) (\<lambda>cls.
     obind (value_opt (parseCanonicalAssetId (jget v ''canonicalAsset''))) (\<lambda>asset.
     obind (value_opt (parseIdentifier (jget v ''representationId''))) (\<lambda>rid.
     obind (value_opt (parseIdentifier (jget v ''issuer''))) (\<lambda>iss.
     obind (value_opt (parseIdentifier (jget v ''chain''))) (\<lambda>ch.
     obind (value_opt (parseIdentifier (jget v ''venue''))) (\<lambda>ve.
     obind (enumValue (jget v ''side'') Side) (\<lambda>sd.
     obind (value_opt (parsePartyId (jget v ''agent'') MALFORMED_CANDIDATE)) (\<lambda>ag.
     obind (value_opt (parseAmount (jget v ''quantity''))) (\<lambda>quantity.
     obind (value_opt (parsePrice (jget v ''executionPrice''))) (\<lambda>price'.
     obind (value_opt (parseAmount (jget v ''notional''))) (\<lambda>notional.
     obind (value_opt (parseUnixSeconds (jget v ''quoteObservedAtUnixSeconds'') MALFORMED_CANDIDATE)) (\<lambda>observed'.
     obind (enumValue (jget v ''fillPolicy'') FillPolicy) (\<lambda>fill.
     obind (parseCosts (jget v ''costs'')) (\<lambda>costs.
     obind (value_opt (parseIdentifier (jget v ''referenceStateId''))) (\<lambda>ref.
     obind (parseBigInt (jget v ''corporateActionEpoch'')) (\<lambda>e.
     if e < 0 \<or> e > UINT64_MAX then None else
     Some \<lparr>pq_routeId = routeId, pq_providerId = providerId, pq_providerClass = cls, pq_canonicalAsset = asset,
       pq_representationId = rid, pq_issuer = iss, pq_chain = ch, pq_venue = ve, pq_side = sd, pq_agent = ag,
       pq_quantity = quantity, pq_executionPrice = price', pq_notional = notional, pq_quoteObservedAt = observed',
       pq_fillPolicy = fill, pq_costs = costs, pq_steps = steps, pq_referenceStateId = ref,
       pq_corporateActionEpoch = e\<rparr>))))))))))))))))))"

definition parseProviderRouteQuote :: "js \<Rightarrow> nat \<Rightarrow> provider_quote route_result" where
  "parseProviderRouteQuote raw index =
     (let path = ''routes['' @ nat_str index @ '']'' in
      case strictObject raw QUOTE_FIELDS of
        None \<Rightarrow> failure path
      | Some v \<Rightarrow>
          if jget v ''version'' \<noteq> JNum (IntNum ROUTE_QUOTE_SCHEMA_VERSION) then failure path else
          (case (quote_of v [], jget v ''steps'') of
             (Some q, JArr raws) \<Rightarrow>
               if length raws = 0 \<or> int (length raws) > MAX_ROUTE_STEPS then failure path
               else (case parse_steps raws of
                       None \<Rightarrow> failure (path @ ''.steps'')
                     | Some steps \<Rightarrow> Inr (q\<lparr>pq_steps := steps\<rparr>))
           | _ \<Rightarrow> failure path))"

fun parse_quotes :: "string list \<Rightarrow> nat \<Rightarrow> js list \<Rightarrow> provider_quote list route_result" where
  "parse_quotes seen index [] = Inr []"
| "parse_quotes seen index (raw # raws) =
     rbind (parseProviderRouteQuote raw index) (\<lambda>q.
     if pq_routeId q \<in> set seen then Inl (route_exclusion_of DUPLICATE_ROUTE_ID [(''routeId'', pq_routeId q)])
     else rbind (parse_quotes (pq_routeId q # seen) (Suc index) raws) (\<lambda>qs. Inr (q # qs)))"

definition compare_quotes :: "provider_quote \<Rightarrow> provider_quote \<Rightarrow> int" where
  "compare_quotes a b = compareStrings (pq_routeId a) (pq_routeId b)"

definition parseProviderRouteSet :: "js \<Rightarrow> provider_quote list route_result" where
  "parseProviderRouteSet raw = (case raw of
     JArr raws \<Rightarrow>
       if int (length raws) > MAX_ROUTE_CANDIDATES
       then Inl (route_exclusion_of RESOURCE_LIMIT_EXCEEDED
              [(''limit'', int_str MAX_ROUTE_CANDIDATES), (''observed'', nat_str (length raws))])
       else rbind (parse_quotes [] 0 raws) (\<lambda>qs. Inr (js_sort compare_quotes qs))
   | _ \<Rightarrow> failure ''routes'')"

text \<open>
  A provider: its label as the values it carries, and \<open>discover\<close>, absent when that is no function; a call that throws
  is \<^term>\<open>None\<close>. The class must be among the values of the class list, which are its names.
\<close>

record route_provider =
  rp_providerId :: js
  rp_providerClass :: js
  rp_discover :: "js option option"

definition collectProviderRoutes :: "route_provider option \<Rightarrow> provider_quote list route_result" where
  "collectProviderRoutes provider = (case provider of
     None \<Rightarrow> failure ''provider''
   | Some p \<Rightarrow>
      (case (parseIdentifier (rp_providerId p), enumValue (rp_providerClass p) ProviderClass, rp_discover p) of
         (Inr pid, Some cls, Some answer) \<Rightarrow>
          (case answer of
             None \<Rightarrow> failure ''provider.discover''
           | Some raw \<Rightarrow>
               rbind (parseProviderRouteSet raw) (\<lambda>qs.
               (case List.find (\<lambda>q. pq_providerId q \<noteq> pid \<or> pq_providerClass q \<noteq> cls) qs of
                  Some q \<Rightarrow> Inl (route_exclusion_of PROVIDER_IDENTITY_MISMATCH
                              [(''routeId'', pq_routeId q), (''field'', ''provider'')])
                | None \<Rightarrow> Inr qs)))
       | _ \<Rightarrow> failure ''provider''))"

section \<open>Trusted costs (cost-state.ts)\<close>

definition invalid_cost :: "nat \<Rightarrow> 'a route_result" where
  "invalid_cost index =
     Inl (route_exclusion_of INPUT_INVALID [(''input'', ''trustedCosts['' @ nat_str index @ '']'')])"

definition parse_trusted_cost :: "js \<Rightarrow> trusted_route_cost option" where
  "parse_trusted_cost item =
     (if \<not> is_plain_object item then None else
      if \<not> only_keys [''routeId'', ''costs'', ''provenanceSourceId'', ''observedAtUnixSeconds''] item then None else
      obind (value_opt (parseIdentifier (jget item ''routeId''))) (\<lambda>routeId.
      obind (value_opt (parseIdentifier (jget item ''provenanceSourceId''))) (\<lambda>src.
      obind (value_opt (parseUnixSeconds (jget item ''observedAtUnixSeconds'') MALFORMED_TRUSTED_STATE)) (\<lambda>observed'.
      obind (parseCosts (jget item ''costs'')) (\<lambda>costs.
      Some \<lparr>tc_routeId = routeId, tc_costs = costs, tc_provenanceSourceId = src, tc_observedAt = observed'\<rparr>)))))"

text \<open>The entries in order, none with the route of an earlier one.\<close>

fun parse_costs_from :: "string list \<Rightarrow> nat \<Rightarrow> js list \<Rightarrow> trusted_route_cost list route_result" where
  "parse_costs_from seen index [] = Inr []"
| "parse_costs_from seen index (raw # raws) = (case parse_trusted_cost raw of
     None \<Rightarrow> invalid_cost index
   | Some c \<Rightarrow>
       if tc_routeId c \<in> set seen
       then Inl (route_exclusion_of DUPLICATE_ROUTE_ID [(''routeId'', tc_routeId c), (''input'', ''trustedCosts'')])
       else rbind (parse_costs_from (tc_routeId c # seen) (Suc index) raws) (\<lambda>cs. Inr (c # cs)))"

definition parseTrustedRouteCosts :: "js \<Rightarrow> (string \<Rightarrow> trusted_route_cost option) route_result" where
  "parseTrustedRouteCosts raw = (case raw of
     JArr raws \<Rightarrow>
       if int (length raws) > MAX_TRUSTED_ROUTE_COSTS
       then Inl (route_exclusion_of RESOURCE_LIMIT_EXCEEDED [(''input'', ''trustedCosts''),
              (''limit'', int_str MAX_TRUSTED_ROUTE_COSTS), (''observed'', nat_str (length raws))])
       else rbind (parse_costs_from [] 0 raws) (\<lambda>cs. Inr (map_of (map (\<lambda>c. (tc_routeId c, c)) cs)))
   | _ \<Rightarrow> Inl (route_exclusion_of INPUT_INVALID [(''input'', ''trustedCosts'')]))"

end
