(* ===== verification/Route_Candidate.thy ===== *)
theory Route_Candidate
  imports Route_Base
begin

text \<open>
  From a provider's quote to a candidate the kernel can check (\<open>packages/router/src/candidate.ts\<close>), with the encoding
  and digest of the candidate (\<open>encoding.ts\<close>). Digests may throw: \<^term>\<open>None\<close>.
\<close>

section \<open>Candidates and their encoding\<close>

text \<open>\<open>RoutingCandidate\<close> without its two digests, and with them.\<close>

record unsigned_candidate =
  rc_routeId :: string
  rc_providerId :: string
  rc_providerClass :: provider_class
  rc_fillPolicy :: fill_policy
  rc_quoteObservedAt :: int
  rc_referenceObservedAt :: int
  rc_referencePrice :: price
  rc_trustedCostSourceId :: string
  rc_trustedCostObservedAt :: int
  rc_costs :: known_costs
  rc_steps :: "route_step list"
  rc_feeTotal :: amount
  rc_executionCandidate :: candidate

record routing_candidate = unsigned_candidate +
  rc_kernelCandidateDigest :: string
  rc_candidateDigest :: string

record route_quality =
  economicValue :: amount
  executionDeviationBps :: int
  quoteAgeSeconds :: int
  routeSteps :: int
  explicitFeeTotal :: amount

definition write_step :: "route_step \<Rightarrow> u8 list option list" where
  "write_step s = [wr_str (name_in RouteStepKind (step_kind s)), wr_str (step_venue s), wr_str (step_chain s),
     wr_str (step_representationId s)]"

definition encodeRoutingCandidate ::
    "(u8 list \<Rightarrow> u8 list) \<Rightarrow> ('z unsigned_candidate_scheme) \<Rightarrow> u8 list option" where
  "encodeRoutingCandidate keccak c = wcat ([
     wr_tag ''MANDATE.ROUTING.CANDIDATE.V1'', wr_u16 1,
     map_option bytes32ToBytes (candidateDigest keccak (rc_executionCandidate c)),
     wr_str (rc_routeId c), wr_str (rc_providerId c), wr_str (name_in ProviderClass (rc_providerClass c)),
     wr_str (name_in FillPolicy (rc_fillPolicy c)), wr_i64 (rc_quoteObservedAt c), wr_i64 (rc_referenceObservedAt c),
     writePrice (rc_referencePrice c), wr_str (rc_trustedCostSourceId c), wr_i64 (rc_trustedCostObservedAt c),
     writeAmount (venueFee (rc_costs c)), writeAmount (executionFee (rc_costs c)),
     writeAmount (settlementFee (rc_costs c)), writeAmount (routeFee (rc_costs c)), writeAmount (rc_feeTotal c),
     wr_u8 (int (length (rc_steps c)))] @ concat (map write_step (rc_steps c)))"

definition routingCandidateDigest ::
    "(u8 list \<Rightarrow> u8 list) \<Rightarrow> ('z unsigned_candidate_scheme) \<Rightarrow> string option" where
  "routingCandidateDigest keccak c = map_option (keccak256 keccak) (encodeRoutingCandidate keccak c)"

section \<open>Costs\<close>

definition knownCosts :: "route_costs \<Rightarrow> known_costs option" where
  "knownCosts c = (case (venueFee c, executionFee c, settlementFee c, routeFee c) of
     (Some a, Some b, Some d, Some e) \<Rightarrow> Some \<lparr>venueFee = a, executionFee = b, settlementFee = d, routeFee = e\<rparr>
   | _ \<Rightarrow> None)"

definition sameAmount :: "amount \<Rightarrow> amount \<Rightarrow> bool" where
  "sameAmount l r \<longleftrightarrow> unit l = unit r \<and> decimals l = decimals r \<and> atoms l = atoms r"

text \<open>\<open>costs[name]\<close> for the names in order.\<close>

definition named_costs :: "known_costs \<Rightarrow> (string \<times> amount) list" where
  "named_costs c = [(''venueFee'', venueFee c), (''executionFee'', executionFee c),
     (''settlementFee'', settlementFee c), (''routeFee'', routeFee c)]"

definition incommensurable :: "known_costs \<Rightarrow> known_costs \<Rightarrow> amount \<Rightarrow> route_exclusion list" where
  "incommensurable quoted established notional = concat (map (\<lambda>((name, q), (_, t)).
     (if sameUnitAndScale q notional then []
      else [route_exclusion_of COST_UNIT_MISMATCH [(''component'', name), (''source'', ''quote'')]]) @
     (if sameUnitAndScale t notional then []
      else [route_exclusion_of COST_UNIT_MISMATCH [(''component'', name), (''source'', ''trusted'')]]))
     (zip (named_costs quoted) (named_costs established)))"

definition disagreements :: "known_costs \<Rightarrow> known_costs \<Rightarrow> route_exclusion list" where
  "disagreements quoted established = concat (map (\<lambda>((name, q), (_, t)).
     if sameAmount q t then [] else [route_exclusion_of UNTRUSTED_COST_MISMATCH [(''component'', name)]])
     (zip (named_costs quoted) (named_costs established)))"

definition validateCosts ::
    "route_costs \<Rightarrow> trusted_route_cost option \<Rightarrow> amount \<Rightarrow> route_exclusion list + known_costs \<times> amount" where
  "validateCosts quoteCosts trusted notional =
     (case (knownCosts quoteCosts, trusted) of
        (Some quoted, Some t) \<Rightarrow>
         (case knownCosts (tc_costs t) of
            None \<Rightarrow> Inl [route_exclusion_of UNKNOWN_COST []]
          | Some established \<Rightarrow>
              let wrong = incommensurable quoted established notional in
              if length wrong > 0 then Inl wrong else
              let differing = disagreements quoted established in
              if length differing > 0 then Inl differing else
              let fees = foldl (\<lambda>sum c. sum + atoms (snd c)) 0 (named_costs quoted) in
              if fees > UINT256_MAX then Inl [route_exclusion_of COST_OVERFLOW []]
              else Inr (quoted, \<lparr>unit = unit notional, decimals = decimals notional, atoms = fees\<rparr>))
      | _ \<Rightarrow> Inl [route_exclusion_of UNKNOWN_COST []])"

section \<open>Identity\<close>

definition identity_mismatch :: "string \<Rightarrow> route_exclusion" where
  "identity_mismatch field = route_exclusion_of PROVIDER_IDENTITY_MISMATCH [(''field'', field)]"

definition validateIdentity :: "provider_quote \<Rightarrow> mandate \<Rightarrow> trusted_state \<Rightarrow> route_exclusion list" where
  "validateIdentity q m s =
     (if canonicalAssetIdEquals (pq_canonicalAsset q) (m_canonicalAsset m) then [] else [identity_mismatch ''canonicalAsset'']) @
     (if pq_side q = m_side m then [] else [identity_mismatch ''side'']) @
     (if partyIdEquals (pq_agent q) (m_agent m) then [] else [identity_mismatch ''agent'']) @
     (if pq_referenceStateId q = s_stateId s then [] else [identity_mismatch ''referenceStateId'']) @
     (case findRepresentation s (pq_representationId q) of
        None \<Rightarrow> [route_exclusion_of REPRESENTATION_NOT_DISCOVERABLE [(''representationId'', pq_representationId q)]]
      | Some rep \<Rightarrow>
          (if canonicalAssetIdEquals (rep_asset (value_of rep)) (m_canonicalAsset m) then []
           else [identity_mismatch ''representationCanonicalAsset'']) @
          (if rep_issuer (value_of rep) = pq_issuer q then [] else [identity_mismatch ''issuer'']) @
          (if rep_chain (value_of rep) = pq_chain q then [] else [identity_mismatch ''chain''])) @
     (if list_ex (\<lambda>st. step_representationId st \<noteq> pq_representationId q \<or> step_chain st \<noteq> pq_chain q
          \<or> step_venue st \<noteq> pq_venue q) (pq_steps q) then [identity_mismatch ''steps''] else [])"

section \<open>Building a candidate\<close>

definition age_failures :: "int \<Rightarrow> int \<Rightarrow> routing_code \<Rightarrow> routing_code \<Rightarrow> route_exclusion list" where
  "age_failures age bound future stale =
     (if age < 0 then [route_exclusion_of future [(''ageSeconds'', int_str age)]]
      else if age > bound
      then [route_exclusion_of stale [(''ageSeconds'', int_str age), (''maximumSeconds'', int_str bound)]]
      else [])"

definition reference_price :: "trusted_state \<Rightarrow> (market_state observed \<times> price) option" where
  "reference_price s = (case s_market s of
     None \<Rightarrow> None
   | Some k \<Rightarrow> map_option (\<lambda>p. (k, p)) (referencePrice (value_of k)))"

definition build_failures ::
    "mandate \<Rightarrow> provider_quote \<Rightarrow> trusted_state \<Rightarrow> trusted_route_cost option \<Rightarrow> amount \<Rightarrow> int \<Rightarrow> route_exclusion list" where
  "build_failures m q s cost requested now =
     validateIdentity q m s @
     (if sameAmount (pq_quantity q) requested then [] else [route_exclusion_of REQUESTED_QUANTITY_MISMATCH []]) @
     (if pq_fillPolicy q = FILL_OR_KILL then [] else [route_exclusion_of PARTIAL_FILL_UNSUPPORTED []]) @
     age_failures (now - pq_quoteObservedAt q) (m_maxPriceAgeSeconds m) QUOTE_FROM_FUTURE QUOTE_STALE @
     (case reference_price s of
        None \<Rightarrow> [route_exclusion_of (AnyCode (KernelCode MARKET_STATE_UNKNOWN)) []] | Some _ \<Rightarrow> []) @
     (case cost of
        None \<Rightarrow> []
      | Some c \<Rightarrow> age_failures (now - tc_observedAt c) (m_maxPriceAgeSeconds m) COST_STATE_FUTURE COST_STATE_STALE) @
     (case validateCosts (pq_costs q) cost (pq_notional q) of Inl es \<Rightarrow> es | Inr _ \<Rightarrow> [])"

definition js_quoted_candidate :: "provider_quote \<Rightarrow> amount \<Rightarrow> string \<Rightarrow> string \<Rightarrow> js" where
  "js_quoted_candidate q fees stateDigest snapshotDigest = JObj [
     (''version'', JNum (IntNum 3)), (''representationId'', JStr (pq_representationId q)),
     (''canonicalAsset'', js_asset (pq_canonicalAsset q)), (''issuer'', JStr (pq_issuer q)),
     (''chain'', JStr (pq_chain q)), (''venue'', JStr (pq_venue q)), (''side'', JStr (side_name (pq_side q))),
     (''agent'', js_party (pq_agent q)), (''quantity'', js_amount (pq_quantity q)),
     (''executionPrice'', js_price (pq_executionPrice q)), (''notional'', js_amount (pq_notional q)),
     (''feeTotal'', js_amount fees), (''evaluationStateId'', JStr (pq_referenceStateId q)),
     (''evaluationStateDigest'', JStr stateDigest), (''registrySnapshotDigest'', JStr snapshotDigest),
     (''corporateActionEpoch'', JBig (pq_corporateActionEpoch q))]"

text \<open>The ranking value: what a buyer pays, what a seller receives (never below zero).\<close>

definition economic_atoms :: "side \<Rightarrow> int \<Rightarrow> int \<Rightarrow> int" where
  "economic_atoms sd notional fee =
     (case sd of BUY \<Rightarrow> notional + fee | SELL \<Rightarrow> if fee \<ge> notional then 0 else notional - fee)"

type_synonym built = "route_exclusion list + routing_candidate \<times> route_quality"

definition sign_candidate :: "(u8 list \<Rightarrow> u8 list) \<Rightarrow> unsigned_candidate \<Rightarrow> routing_candidate option" where
  "sign_candidate keccak u =
     obind (candidateDigest keccak (rc_executionCandidate u)) (\<lambda>kd.
     obind (routingCandidateDigest keccak u) (\<lambda>rd.
     Some (unsigned_candidate.extend u (routing_candidate.fields kd rd))))"

definition buildRoutingCandidate ::
    "(u8 list \<Rightarrow> u8 list) \<Rightarrow> mandate \<Rightarrow> provider_quote \<Rightarrow> trusted_state \<Rightarrow> trusted_route_cost option \<Rightarrow> amount \<Rightarrow> int
       \<Rightarrow> string \<Rightarrow> built option" where
  "buildRoutingCandidate keccak m q s cost requested now snapshotDigest =
     (let failures = build_failures m q s cost requested now in
      if length failures > 0 then Some (Inl (canonicalExclusions failures)) else
      case (reference_price s, validateCosts (pq_costs q) cost (pq_notional q), cost) of
        (Some (market, reference), Inr (costs, fees), Some trusted) \<Rightarrow>
          obind (trustedStateDigest keccak s) (\<lambda>stateDigest.
          case parseCandidate (js_quoted_candidate q fees stateDigest snapshotDigest) of
            Inl e \<Rightarrow> Some (Inl [route_exclusion_of (AnyCode (KernelCode e)) []])
          | Inr c \<Rightarrow> (case deviationBps (c_executionPrice c) reference of
              Inl e \<Rightarrow> Some (Inl [route_exclusion_of (AnyCode (KernelCode e)) []])
            | Inr deviation \<Rightarrow>
                let economic = economic_atoms (m_side m) (atoms (pq_notional q)) (atoms fees) in
                if m_side m = BUY \<and> economic > UINT256_MAX then Some (Inl [route_exclusion_of COST_OVERFLOW []]) else
                map_option (\<lambda>signed'. Inr (signed',
                    \<lparr>economicValue = \<lparr>unit = unit (pq_notional q), decimals = decimals (pq_notional q), atoms = economic\<rparr>,
                     executionDeviationBps = deviation, quoteAgeSeconds = now - pq_quoteObservedAt q,
                     routeSteps = int (length (pq_steps q)), explicitFeeTotal = fees\<rparr>))
                  (sign_candidate keccak \<lparr>rc_routeId = pq_routeId q, rc_providerId = pq_providerId q,
                     rc_providerClass = pq_providerClass q, rc_fillPolicy = FILL_OR_KILL,
                     rc_quoteObservedAt = pq_quoteObservedAt q, rc_referenceObservedAt = observedAt (prov market),
                     rc_referencePrice = reference, rc_trustedCostSourceId = tc_provenanceSourceId trusted,
                     rc_trustedCostObservedAt = tc_observedAt trusted, rc_costs = costs, rc_steps = pq_steps q,
                     rc_feeTotal = fees, rc_executionCandidate = c\<rparr>)))
      | _ \<Rightarrow> Some (Inl (canonicalExclusions failures)))"

end
