(* ===== verification/Route_Router.thy ===== *)
theory Route_Router
  imports Route_Candidate
begin

text \<open>
  The two stages of routing (\<open>packages/router/src/router.ts\<close>): evaluation closes the admissible set and ranks it,
  selection re-verifies one member of it on fresh state. The verifier is the seam of the code: a function from
  requests to receipts that may throw, \<^term>\<open>None\<close> as a whole when it is no function. A value the code brands in a
  weak set is an argument that is absent when it was not made by \<open>evaluateRoutes\<close>. \<^term>\<open>None\<close> as a result means that
  a digest or the verifier threw.
\<close>

record verify_request =
  vr_mandate :: mandate
  vr_authorization :: envelope
  vr_candidate :: candidate
  vr_trustedState :: trusted_state
  vr_clock :: int
  vr_expectedDomain :: eip712_domain

type_synonym verifier = "verify_request \<Rightarrow> receipt option"

text \<open>The default verifier: the kernel's \<open>verify\<close> on the request as an object.\<close>

definition js_verify_request :: "verify_request \<Rightarrow> js" where
  "js_verify_request r = JObj [(''mandate'', js_mandate (vr_mandate r)),
     (''authorization'', js_envelope (vr_authorization r)), (''candidate'', js_candidate (vr_candidate r)),
     (''trustedState'', js_state (vr_trustedState r)),
     (''clock'', JObj [(''nowUnixSeconds'', JBig (vr_clock r))]), (''expectedDomain'', js_domain (vr_expectedDomain r))]"

definition kernel_verifier :: "(u8 list \<Rightarrow> u8 list) \<Rightarrow> recovery \<Rightarrow> int \<Rightarrow> verifier" where
  "kernel_verifier keccak recover n r = verify keccak recover n (js_verify_request r) Default_checks"

section \<open>State of the stages\<close>

record admissible_route =
  ar_candidate :: routing_candidate
  ar_quality :: route_quality
  ar_receipt :: receipt

record routing_context =
  cx_mandate :: mandate
  cx_authorization :: envelope
  cx_registry :: registry
  cx_trustedState :: trusted_state
  cx_clock :: int
  cx_expectedDomain :: eip712_domain
  cx_requestedQuantity :: amount

datatype route_outcome =
    Route_excluded string "string option" "route_exclusion list" "receipt option"
  | Route_admissible string string route_quality receipt

record routing_evaluation =
  ev_context :: routing_context
  ev_admissible :: "admissible_route list"
  ev_outcomes :: "route_outcome list"

record unsigned_receipt =
  rr_mandateDigest :: string
  rr_registrySnapshotDigest :: string
  rr_marketStateDigest :: string
  rr_requestedQuantity :: amount
  rr_outcomes :: "route_outcome list"
  rr_rankedCandidateDigests :: "string list"
  rr_selectedCandidateDigest :: "string option"
  rr_finalVerificationReceiptDigest :: "string option"
  rr_evaluatedAt :: int
  rr_handoffStateDigest :: "string option"
  rr_handoffAt :: "int option"

record routing_receipt = unsigned_receipt +
  rr_receiptDigest :: string

datatype routing_result =
    SELECTED routing_candidate receipt routing_receipt
  | NO_VALID_ROUTE "receipt option" routing_receipt
  | INVALID_INPUT "route_exclusion list"

section \<open>Receipts (encoding.ts)\<close>

definition write_quality :: "route_quality \<Rightarrow> u8 list option list" where
  "write_quality q = [writeAmount (economicValue q), wr_u256 (executionDeviationBps q), wr_u64 (quoteAgeSeconds q),
     wr_u8 (routeSteps q), writeAmount (explicitFeeTotal q)]"

definition write_route_exclusion :: "route_exclusion \<Rightarrow> u8 list option list" where
  "write_route_exclusion e =
     (let entries = js_sort (\<lambda>a b. compareStrings (fst a) (fst b)) (rx_detail e)
      in wr_str (routing_code_name (rx_code e)) # wr_u8 (int (length entries)) #
         concat (map (\<lambda>(k, v). [wr_str k, wr_str v]) entries))"

fun write_outcome :: "route_outcome \<Rightarrow> u8 list option list" where
  "write_outcome (Route_admissible routeId digest q r) =
     [wr_str routeId, wr_str ''ADMISSIBLE'', wr_u8 1, wr_hex32 digest, wr_hex32 (receiptDigest r)] @ write_quality q"
| "write_outcome (Route_excluded routeId digest es r) =
     (let sorted' = js_sort (\<lambda>a b. compareStrings (route_exclusion_key a) (route_exclusion_key b)) es
      in [wr_str routeId, wr_str ''EXCLUDED'', wr_opt wr_hex32 digest, wr_u16 (int (length sorted'))] @
         concat (map write_route_exclusion sorted') @ [wr_opt wr_hex32 (map_option receiptDigest r)])"

definition encodeRoutingReceipt :: "('z unsigned_receipt_scheme) \<Rightarrow> u8 list option" where
  "encodeRoutingReceipt r = wcat ([
     wr_tag ''MANDATE.ROUTING.RECEIPT.V1'', wr_u16 1, wr_str ''mandate-router/2'',
     wr_hex32 (rr_mandateDigest r), wr_hex32 (rr_registrySnapshotDigest r), wr_hex32 (rr_marketStateDigest r),
     wr_i64 (rr_evaluatedAt r), wr_opt wr_hex32 (rr_handoffStateDigest r), wr_opt wr_i64 (rr_handoffAt r),
     writeAmount (rr_requestedQuantity r), wr_u16 (int (length (rr_outcomes r)))] @
     concat (map write_outcome (rr_outcomes r)) @
     wr_u16 (int (length (rr_rankedCandidateDigests r))) # map wr_hex32 (rr_rankedCandidateDigests r) @
     [wr_opt wr_hex32 (rr_selectedCandidateDigest r), wr_opt wr_hex32 (rr_finalVerificationReceiptDigest r)])"

definition routingReceiptDigest :: "(u8 list \<Rightarrow> u8 list) \<Rightarrow> ('z unsigned_receipt_scheme) \<Rightarrow> string option" where
  "routingReceiptDigest keccak r = map_option (keccak256 keccak) (encodeRoutingReceipt r)"

definition finishReceipt ::
    "(u8 list \<Rightarrow> u8 list) \<Rightarrow> routing_context \<Rightarrow> route_outcome list \<Rightarrow> string list \<Rightarrow> string option \<Rightarrow> string option
       \<Rightarrow> string option \<Rightarrow> int option \<Rightarrow> routing_receipt option" where
  "finishReceipt keccak cx outcomes ranked selected final handoffDigest handoffAt =
     obind (mandateDigest keccak (cx_mandate cx)) (\<lambda>md.
     obind (registrySnapshotDigest keccak (snapshot (cx_registry cx))) (\<lambda>rd.
     obind (trustedStateDigest keccak (cx_trustedState cx)) (\<lambda>sd.
     let u = \<lparr>rr_mandateDigest = md, rr_registrySnapshotDigest = rd, rr_marketStateDigest = sd,
           rr_requestedQuantity = cx_requestedQuantity cx, rr_outcomes = outcomes,
           rr_rankedCandidateDigests = ranked, rr_selectedCandidateDigest = selected,
           rr_finalVerificationReceiptDigest = final, rr_evaluatedAt = cx_clock cx,
           rr_handoffStateDigest = handoffDigest, rr_handoffAt = handoffAt\<rparr>
     in map_option (\<lambda>d. unsigned_receipt.extend u (routing_receipt.fields d)) (routingReceiptDigest keccak u))))"

section \<open>Stage one: evaluation\<close>

definition inputError :: "string \<Rightarrow> string \<Rightarrow> route_exclusion" where
  "inputError input cause = route_exclusion_of INPUT_INVALID [(''input'', input), (''cause'', cause)]"

definition input_errors :: "string \<Rightarrow> ('e \<Rightarrow> string) \<Rightarrow> 'e + 'a \<Rightarrow> route_exclusion list" where
  "input_errors input name r = (case r of Inl e \<Rightarrow> [inputError input (name e)] | Inr _ \<Rightarrow> [])"

definition own_errors :: "'a route_result \<Rightarrow> route_exclusion list" where
  "own_errors r = (case r of Inl e \<Rightarrow> [e] | Inr _ \<Rightarrow> [])"

definition excluded_route ::
    "string \<Rightarrow> route_exclusion list \<Rightarrow> string option \<Rightarrow> receipt option \<Rightarrow> route_outcome" where
  "excluded_route routeId es digest receipt' = Route_excluded routeId digest (canonicalExclusions es) receipt'"

fun outcome_id :: "route_outcome \<Rightarrow> string" where
  "outcome_id (Route_excluded r _ _ _) = r"
| "outcome_id (Route_admissible r _ _ _) = r"

fun outcome_digest :: "route_outcome \<Rightarrow> string option" where
  "outcome_digest (Route_excluded _ d _ _) = d"
| "outcome_digest (Route_admissible _ d _ _) = Some d"

definition registry_exclusion :: "exclusion \<Rightarrow> route_exclusion" where
  "registry_exclusion e = route_exclusion_of (AnyCode (ex_code e)) (ex_detail e)"

definition kernel_violation :: "found_violation \<Rightarrow> route_exclusion" where
  "kernel_violation v = route_exclusion_of (AnyCode (KernelCode (code v))) (detail v)"

text \<open>The trusted inputs of the loop over quotes.\<close>

record route_inputs =
  in_mandate :: mandate
  in_authorization :: envelope
  in_trustedState :: trusted_state
  in_clock :: int
  in_domain :: eip712_domain
  in_quantity :: amount
  in_costs :: "string \<Rightarrow> trusted_route_cost option"
  in_registry :: registry
  in_snapshotDigest :: string

definition request_for :: "route_inputs \<Rightarrow> candidate \<Rightarrow> verify_request" where
  "request_for i c = \<lparr>vr_mandate = in_mandate i, vr_authorization = in_authorization i, vr_candidate = c,
     vr_trustedState = in_trustedState i, vr_clock = in_clock i, vr_expectedDomain = in_domain i\<rparr>"

text \<open>\<open>decisions.get\<close>: one evaluation for each representation listed for the asset.\<close>

definition decisions_for ::
    "(u8 list \<Rightarrow> u8 list) \<Rightarrow> registry \<Rightarrow> requirements \<Rightarrow> string \<Rightarrow> representation_decision option" where
  "decisions_for keccak reg q rid =
     (if rid \<in> set (map (ri_value \<circ> representationId) (listRepresentations reg (q_canonicalAsset q)))
      then Some (evaluateRepresentation keccak reg q (JStr rid)) else None)"

text \<open>One quote: an outcome, the candidate when it was built, and the route when the verifier passed it.\<close>

datatype quote_verdict =
    Refused route_outcome
  | Verified string route_outcome "admissible_route option"

definition judge_quote ::
    "(u8 list \<Rightarrow> u8 list) \<Rightarrow> verifier \<Rightarrow> route_inputs \<Rightarrow> requirements \<Rightarrow> string list \<Rightarrow> provider_quote
       \<Rightarrow> (route_exclusion list + quote_verdict) option" where
  "judge_quote keccak verifier i q seen quote =
     (case decisions_for keccak (in_registry i) q (pq_representationId quote) of
        None \<Rightarrow> Some (Inr (Refused (excluded_route (pq_routeId quote) [route_exclusion_of REPRESENTATION_NOT_DISCOVERABLE
                  [(''representationId'', pq_representationId quote)]] None None)))
      | Some (EXCLUDED _ _ es) \<Rightarrow>
          Some (Inr (Refused (excluded_route (pq_routeId quote) (map registry_exclusion es) None None)))
      | Some (ADMISSIBLE _) \<Rightarrow>
          obind (buildRoutingCandidate keccak (in_mandate i) quote (in_trustedState i) (in_costs i (pq_routeId quote))
                   (in_quantity i) (in_clock i) (in_snapshotDigest i)) (\<lambda>b.
          case b of
            Inl es \<Rightarrow> Some (Inr (Refused (excluded_route (pq_routeId quote) es None None)))
          | Inr (c, quality) \<Rightarrow>
              if rc_candidateDigest c \<in> set seen
              then Some (Inl [route_exclusion_of DUPLICATE_CANDIDATE [(''candidateDigest'', rc_candidateDigest c)]])
              else obind (verifier (request_for i (rc_executionCandidate c))) (\<lambda>v.
                Some (Inr (if decision_of v = REJECT
                  then Verified (rc_candidateDigest c) (excluded_route (pq_routeId quote) (map kernel_violation (violations v))
                         (Some (rc_candidateDigest c)) (Some v)) None
                  else Verified (rc_candidateDigest c) (Route_admissible (pq_routeId quote) (rc_candidateDigest c) quality v)
                         (Some \<lparr>ar_candidate = c, ar_quality = quality, ar_receipt = v\<rparr>))))))"

fun judge_quotes ::
    "(u8 list \<Rightarrow> u8 list) \<Rightarrow> verifier \<Rightarrow> route_inputs \<Rightarrow> requirements \<Rightarrow> string list \<Rightarrow> provider_quote list
       \<Rightarrow> (route_exclusion list + route_outcome list \<times> admissible_route list) option" where
  "judge_quotes keccak verifier i q seen [] = Some (Inr ([], []))"
| "judge_quotes keccak verifier i q seen (quote # quotes) =
     obind (judge_quote keccak verifier i q seen quote) (\<lambda>r. case r of
       Inl es \<Rightarrow> Some (Inl es)
     | Inr (Refused out) \<Rightarrow>
         map_option (\<lambda>rest. rbind rest (\<lambda>(outs, routes). Inr (out # outs, routes)))
           (judge_quotes keccak verifier i q seen quotes)
     | Inr (Verified d out admitted) \<Rightarrow>
         map_option (\<lambda>rest. rbind rest (\<lambda>(outs, routes).
             Inr (out # outs, (case admitted of None \<Rightarrow> routes | Some a \<Rightarrow> a # routes))))
           (judge_quotes keccak verifier i q (d # seen) quotes))"

definition sign_of :: "int \<Rightarrow> int \<Rightarrow> int" where
  "sign_of a b = (if a < b then -1 else 1)"

definition compareRanked :: "side \<Rightarrow> admissible_route \<Rightarrow> admissible_route \<Rightarrow> int" where
  "compareRanked sd l r =
     (let ql = ar_quality l; qr = ar_quality r;
          ties = (if executionDeviationBps ql \<noteq> executionDeviationBps qr
                  then sign_of (executionDeviationBps ql) (executionDeviationBps qr)
                  else if quoteAgeSeconds ql \<noteq> quoteAgeSeconds qr then sign_of (quoteAgeSeconds ql) (quoteAgeSeconds qr)
                  else if routeSteps ql \<noteq> routeSteps qr then routeSteps ql - routeSteps qr
                  else compareStrings (rc_candidateDigest (ar_candidate l)) (rc_candidateDigest (ar_candidate r)))
      in case compareAmounts (economicValue ql) (economicValue qr) of
           Inl _ \<Rightarrow> ties
         | Inr e \<Rightarrow> if e \<noteq> 0 then (case sd of BUY \<Rightarrow> e | SELL \<Rightarrow> - e) else ties)"

definition compare_outcomes :: "route_outcome \<Rightarrow> route_outcome \<Rightarrow> int" where
  "compare_outcomes a b = compareStrings (outcome_id a) (outcome_id b)"

definition context_for :: "route_inputs \<Rightarrow> routing_context" where
  "context_for i = \<lparr>cx_mandate = in_mandate i, cx_authorization = in_authorization i, cx_registry = in_registry i,
     cx_trustedState = in_trustedState i, cx_clock = in_clock i, cx_expectedDomain = in_domain i,
     cx_requestedQuantity = in_quantity i\<rparr>"

text \<open>The part of \<open>evaluateRoutes\<close> behind the parsers: the snapshot binding, the requirements, the loop, the ranking.\<close>

definition evaluate_inputs ::
    "(u8 list \<Rightarrow> u8 list) \<Rightarrow> verifier \<Rightarrow> route_inputs \<Rightarrow> provider_quote list
       \<Rightarrow> (route_exclusion list + routing_evaluation) option" where
  "evaluate_inputs keccak verifier i quotes =
     (case s_registrySnapshotDigest (in_trustedState i) of
        None \<Rightarrow> Some (Inl [route_exclusion_of (AnyCode (KernelCode REGISTRY_SNAPSHOT_UNKNOWN))
                  [(''input'', ''trustedMarketState''), (''evaluated'', in_snapshotDigest i)]])
      | Some declared \<Rightarrow>
          if declared \<noteq> in_snapshotDigest i
          then Some (Inl [route_exclusion_of (AnyCode (KernelCode REGISTRY_SNAPSHOT_MISMATCH))
                  [(''declared'', declared), (''evaluated'', in_snapshotDigest i)]])
          else (case deriveRequirements (in_mandate i) \<lparr>ctx_now = in_clock i, ctx_maxClaimAge = None, ctx_minimumTrust = None\<rparr> of
             Inl e \<Rightarrow> Some (Inl [inputError ''requirements'' (any_reason_name (RegistryCode e))])
           | Inr q \<Rightarrow>
               map_option (\<lambda>r. rbind r (\<lambda>(outs, routes). Inr \<lparr>ev_context = context_for i,
                   ev_admissible = js_sort (compareRanked (m_side (in_mandate i))) routes,
                   ev_outcomes = js_sort compare_outcomes outs\<rparr>))
                 (judge_quotes keccak verifier i q [] quotes)))"

definition evaluateRoutes ::
    "(u8 list \<Rightarrow> u8 list) \<Rightarrow> verifier option \<Rightarrow> js \<Rightarrow> (route_exclusion list + routing_evaluation) option" where
  "evaluateRoutes keccak seam request =
     (case seam of
        None \<Rightarrow> Some (Inl [inputError ''verifier'' ''MALFORMED_VERIFIER''])
      | Some verifier \<Rightarrow>
         (let r = (if is_plain_object request then request else JObj []);
              mandate = parseMandate (jget r ''mandate'');
              authorization = parseAuthorizationEnvelope (jget r ''authorization'');
              state = parseTrustedState (jget r ''trustedMarketState'');
              clock = parseClock (jget r ''clock'');
              dom' = parseEip712Domain (jget r ''expectedDomain'');
              quantity = parseAmount (jget r ''requestedQuantity'');
              quotes = parseProviderRouteSet (jget r ''routes'');
              costs = parseTrustedRouteCosts (jget r ''trustedCosts'');
              raw = jget r ''registry'';
              reg = openRegistry keccak (if is_plain_object raw then jget raw ''snapshot'' else JUndef)
          in case (mandate, authorization, state, clock, dom', quantity, quotes, costs, reg) of
               (Inr m, Inr a, Inr s, Inr now, Inr d, Inr qty, Inr qs, Inr cs, Inr rg) \<Rightarrow>
                 obind (registrySnapshotDigest keccak (snapshot rg)) (\<lambda>digest.
                 evaluate_inputs keccak verifier \<lparr>in_mandate = m, in_authorization = a, in_trustedState = s,
                   in_clock = now, in_domain = d, in_quantity = qty, in_costs = cs, in_registry = rg,
                   in_snapshotDigest = digest\<rparr> qs)
             | _ \<Rightarrow> Some (Inl (
                 input_errors ''mandate'' reason_name mandate @ input_errors ''authorization'' reason_name authorization @
                 input_errors ''trustedMarketState'' reason_name state @ input_errors ''clock'' reason_name clock @
                 input_errors ''expectedDomain'' reason_name dom' @ input_errors ''requestedQuantity'' reason_name quantity @
                 own_errors quotes @ own_errors costs @
                 input_errors ''registry'' (\<lambda>e. any_reason_name (RegistryCode e)) reg))))"

section \<open>Stage two: selection\<close>

definition resolveValidatedHandoff ::
    "(u8 list \<Rightarrow> u8 list) \<Rightarrow> js \<Rightarrow> routing_context \<Rightarrow> (route_exclusion list + trusted_state \<times> int) option" where
  "resolveValidatedHandoff keccak handoff cx =
     (if \<not> is_plain_object handoff
      then Some (Inl [route_exclusion_of HANDOFF_STATE_MISSING [(''input'', ''handoff'')]])
      else case (parseTrustedState (jget handoff ''trustedMarketState''), parseClock (jget handoff ''clock'')) of
        (Inr s, Inr now) \<Rightarrow>
          if now < cx_clock cx
          then Some (Inl [route_exclusion_of HANDOFF_TIME_REGRESSED
                 [(''evaluatedAt'', int_str (cx_clock cx)), (''handoffAt'', int_str now)]])
          else obind (registrySnapshotDigest keccak (snapshot (cx_registry cx))) (\<lambda>evaluated.
            Some (case s_registrySnapshotDigest s of
                None \<Rightarrow> Inl [route_exclusion_of (AnyCode (KernelCode REGISTRY_SNAPSHOT_UNKNOWN))
                         [(''input'', ''handoff.trustedMarketState''), (''evaluated'', evaluated)]]
              | Some declared \<Rightarrow>
                  if declared \<noteq> evaluated
                  then Inl [route_exclusion_of (AnyCode (KernelCode REGISTRY_SNAPSHOT_MISMATCH))
                         [(''input'', ''handoff.trustedMarketState''), (''declared'', declared), (''evaluated'', evaluated)]]
                  else Inr (s, now)))
      | (state, clock) \<Rightarrow> Some (Inl (input_errors ''handoff.trustedMarketState'' reason_name state @
                                     input_errors ''handoff.clock'' reason_name clock)))"

definition resolveHandoff ::
    "(u8 list \<Rightarrow> u8 list) \<Rightarrow> js \<Rightarrow> routing_context option \<Rightarrow> (route_exclusion list + trusted_state \<times> int) option" where
  "resolveHandoff keccak handoff cx = (case cx of
     None \<Rightarrow> Some (Inl [inputError ''evaluation.context'' ''UNVALIDATED_ROUTING_CONTEXT''])
   | Some c \<Rightarrow> resolveValidatedHandoff keccak handoff c)"

text \<open>The index argument: a safe integer, or anything else by its text.\<close>

datatype index_argument = Safe_integer int | Other_index string

fun index_text :: "index_argument \<Rightarrow> string" where
  "index_text (Safe_integer i) = int_str i"
| "index_text (Other_index s) = s"

fun index_in :: "index_argument \<Rightarrow> nat \<Rightarrow> nat option" where
  "index_in (Safe_integer i) n = (if i < 0 \<or> i \<ge> int n then None else Some (nat i))"
| "index_in (Other_index _) _ = None"

definition selectValidatedEvaluation ::
    "(u8 list \<Rightarrow> u8 list) \<Rightarrow> verifier \<Rightarrow> routing_evaluation \<Rightarrow> index_argument \<Rightarrow> js \<Rightarrow> routing_result option" where
  "selectValidatedEvaluation keccak verifier e index handoff =
     obind (resolveValidatedHandoff keccak handoff (ev_context e)) (\<lambda>resolved. case resolved of
       Inl es \<Rightarrow> Some (INVALID_INPUT es)
     | Inr (state, now) \<Rightarrow>
         obind (trustedStateDigest keccak state) (\<lambda>handoffDigest.
         let cx = ev_context e;
             finishing = (\<lambda>outs ranked selected final.
               finishReceipt keccak cx outs ranked selected final (Some handoffDigest) (Some now))
         in if length (ev_admissible e) = 0
            then map_option (NO_VALID_ROUTE None) (finishing (ev_outcomes e) [] None None)
            else case index_in index (length (ev_admissible e)) of
              None \<Rightarrow> Some (INVALID_INPUT [inputError ''selectedIndex'' (index_text index)])
            | Some k \<Rightarrow>
                let selected = ev_admissible e ! k;
                    digest = rc_candidateDigest (ar_candidate selected);
                    ranked = map (rc_candidateDigest \<circ> ar_candidate) (ev_admissible e)
                in obind (verifier \<lparr>vr_mandate = cx_mandate cx, vr_authorization = cx_authorization cx,
                       vr_candidate = rc_executionCandidate (ar_candidate selected), vr_trustedState = state,
                       vr_clock = now, vr_expectedDomain = cx_expectedDomain cx\<rparr>) (\<lambda>final.
                   if decision_of final \<noteq> PASS
                   then map_option (NO_VALID_ROUTE (Some final)) (finishing
                          (map (\<lambda>out. if outcome_digest out = Some digest
                             then excluded_route (outcome_id out) [route_exclusion_of FINAL_REVERIFICATION_FAILED
                                    [(''receiptDigest'', receiptDigest final)]] (outcome_digest out) (Some final)
                             else out) (ev_outcomes e))
                          ranked None (Some (receiptDigest final)))
                   else map_option (SELECTED (ar_candidate selected) final)
                          (finishing (ev_outcomes e) ranked (Some digest) (Some (receiptDigest final))))))"

definition selectEvaluated ::
    "(u8 list \<Rightarrow> u8 list) \<Rightarrow> verifier option \<Rightarrow> routing_evaluation option \<Rightarrow> index_argument \<Rightarrow> js \<Rightarrow> routing_result option" where
  "selectEvaluated keccak seam evaluation index handoff = (case evaluation of
     None \<Rightarrow> Some (INVALID_INPUT [inputError ''evaluation'' ''UNVALIDATED_ROUTING_EVALUATION''])
   | Some e \<Rightarrow> (case seam of
       None \<Rightarrow> Some (INVALID_INPUT [inputError ''verifier'' ''MALFORMED_VERIFIER''])
     | Some verifier \<Rightarrow> selectValidatedEvaluation keccak verifier e index handoff))"

definition route :: "(u8 list \<Rightarrow> u8 list) \<Rightarrow> verifier option \<Rightarrow> js \<Rightarrow> js \<Rightarrow> routing_result option" where
  "route keccak seam request handoff = (case seam of
     None \<Rightarrow> Some (INVALID_INPUT [inputError ''verifier'' ''MALFORMED_VERIFIER''])
   | Some _ \<Rightarrow> obind (evaluateRoutes keccak seam request) (\<lambda>r. case r of
       Inl es \<Rightarrow> Some (INVALID_INPUT es)
     | Inr e \<Rightarrow> selectEvaluated keccak seam (Some e) (Safe_integer 0) handoff))"

end
