(* ===== verification/Route_Parsed.thy ===== *)
theory Route_Parsed
  imports Route_Router "HOL-Library.Multiset"
begin

text \<open>
  What the router's parsers establish: well-formed quotes under distinct identifiers, sorted; and that the order in
  which quotes and costs are listed has no influence.
\<close>

section \<open>Quotes\<close>

definition wf_quote :: "provider_quote \<Rightarrow> bool" where
  "wf_quote q \<longleftrightarrow> wf_asset (pq_canonicalAsset q) \<and> valid_ident (pq_representationId q) \<and> valid_ident (pq_issuer q)
   \<and> valid_ident (pq_chain q) \<and> valid_ident (pq_venue q) \<and> wf_party (pq_agent q) \<and> wf_amount (pq_quantity q)
   \<and> wf_price (pq_executionPrice q) \<and> wf_amount (pq_notional q) \<and> valid_ident (pq_referenceStateId q)
   \<and> 0 \<le> pq_corporateActionEpoch q \<and> pq_corporateActionEpoch q \<le> UINT64_MAX"

lemma obind_Some: "obind x f = Some y \<longleftrightarrow> (\<exists>v. x = Some v \<and> f v = Some y)"
  by (simp add: obind_def split: option.splits)

lemma value_opt_Some: "value_opt r = Some x \<longleftrightarrow> r = Inr x"
  by (cases r) (simp_all add: value_opt_def)

lemma quote_of_wf: "quote_of v ss = Some q \<Longrightarrow> wf_quote q"
  unfolding quote_of_def obind_Some value_opt_Some
  by (auto simp: wf_quote_def parseIdentifier_Inr split: if_splits
      dest: parseCanonicalAssetId_wf parsePartyId_wf parseAmount_wf parsePrice_wf)

lemma parseProviderRouteQuote_wf: "parseProviderRouteQuote raw index = Inr q \<Longrightarrow> wf_quote q"
  by (auto simp: parseProviderRouteQuote_def Let_def failure_def wf_quote_def
      dest!: quote_of_wf split: option.splits if_splits js.splits)

text \<open>The index only shows in errors.\<close>

lemma parse_quote_index: "parseProviderRouteQuote raw i = Inr q \<longleftrightarrow> parseProviderRouteQuote raw j = Inr q"
  by (auto simp: parseProviderRouteQuote_def Let_def failure_def split: option.splits if_splits js.splits)

abbreviation quote_in :: "js \<Rightarrow> provider_quote \<Rightarrow> bool" where
  "quote_in raw q \<equiv> parseProviderRouteQuote raw 0 = Inr q"

lemma parse_quotes_Inr:
  "parse_quotes seen i raws = Inr qs \<longleftrightarrow>
     list_all2 quote_in raws qs \<and> distinct (map pq_routeId qs) \<and> (\<forall>q \<in> set qs. pq_routeId q \<notin> set seen)"
proof (induction raws arbitrary: seen i qs)
  case Nil
  then show ?case by auto
next
  case (Cons raw raws)
  have i: "parseProviderRouteQuote raw i = Inr q \<longleftrightarrow> quote_in raw q" for q by (rule parse_quote_index)
  show ?case by (cases qs) (auto simp: rbind_eq_Inr Cons.IH i image_iff, metis)
qed

interpretation quote_order: cmp_preorder compare_quotes
  by unfold_locales (use str_cmp.cmp_total str_cmp.cmp_trans in \<open>auto simp: compare_quotes_def\<close>)

text \<open>Entries told apart by a key: a list of raw entries that parses, parses the same in any order, sorted by key.\<close>

lemma list_all2_perm:
  assumes "list_all2 P xs ys" "mset xs' = mset xs"
  shows "\<exists>ys'. list_all2 P xs' ys' \<and> mset ys' = mset ys"
  using list_all2_reorder_left_invariance [OF assms(1), of xs'] assms(2) by metis

lemma parseProviderRouteSet_perm:
  assumes "parseProviderRouteSet (JArr raws) = Inr qs" "mset raws' = mset raws"
  shows "parseProviderRouteSet (JArr raws') = Inr qs"
proof -
  obtain ps where ps: "int (length raws) \<le> MAX_ROUTE_CANDIDATES" "list_all2 quote_in raws ps"
      "distinct (map pq_routeId ps)" "qs = js_sort compare_quotes ps"
    using assms(1) by (auto simp: parseProviderRouteSet_def rbind_eq_Inr parse_quotes_Inr split: if_splits)
  obtain ps' where ps': "list_all2 quote_in raws' ps'" "mset ps' = mset ps"
    using list_all2_perm [OF ps(2) assms(2)] by blast
  have set: "set ps' = set ps" using ps'(2) by (rule mset_eq_setD)
  have d: "distinct (map pq_routeId ps')"
    using ps(3) ps'(2) by (metis mset_eq_imp_distinct_iff mset_map)
  have "js_sort compare_quotes ps' = js_sort compare_quotes ps"
  proof (rule quote_order.sorted_unique_on)
    fix a b
    assume "a \<in> set (js_sort compare_quotes ps')" "b \<in> set (js_sort compare_quotes ps')"
      "compare_quotes a b \<le> 0" "compare_quotes b a \<le> 0"
    then show "a = b" using d str_cmp.cmp_antisym by (auto simp: compare_quotes_def distinct_map dest: inj_onD)
  qed (use set d ps(3) in \<open>auto simp: quote_order.sorted_sort distinct_map\<close>)
  moreover have "length raws' = length raws" using assms(2) by (rule mset_eq_length)
  ultimately show ?thesis
    using ps(1,4) ps'(1) d by (auto simp: parseProviderRouteSet_def rbind_eq_Inr parse_quotes_Inr intro!: exI [of _ ps'])
qed

lemma parsed_quotes:
  assumes "parseProviderRouteSet raw = Inr qs"
  shows "\<forall>q \<in> set qs. wf_quote q" "distinct (map pq_routeId qs)" "sorted_wrt (\<lambda>a b. compare_quotes a b \<le> 0) qs"
proof -
  obtain raws ps where ps: "list_all2 quote_in raws ps" "distinct (map pq_routeId ps)" "qs = js_sort compare_quotes ps"
    using assms by (auto simp: parseProviderRouteSet_def rbind_eq_Inr parse_quotes_Inr failure_def
        split: if_splits js.splits)
  show "\<forall>q \<in> set qs. wf_quote q"
    using ps(1,3) parseProviderRouteQuote_wf by (fastforce simp: list_all2_conv_all_nth in_set_conv_nth)
  show "distinct (map pq_routeId qs)" using ps(2,3) by (simp add: distinct_map)
  show "sorted_wrt (\<lambda>a b. compare_quotes a b \<le> 0) qs" using ps(3) by (simp add: quote_order.sorted_sort)
qed

section \<open>Costs\<close>

abbreviation cost_in :: "js \<Rightarrow> trusted_route_cost \<Rightarrow> bool" where
  "cost_in raw c \<equiv> parse_trusted_cost raw = Some c"

lemma parse_costs_from_Inr:
  "parse_costs_from seen i raws = Inr cs \<longleftrightarrow>
     list_all2 cost_in raws cs \<and> distinct (map tc_routeId cs) \<and> (\<forall>c \<in> set cs. tc_routeId c \<notin> set seen)"
proof (induction raws arbitrary: seen i cs)
  case Nil
  then show ?case by auto
next
  case (Cons raw raws)
  show ?case by (cases cs) (auto simp: rbind_eq_Inr Cons.IH image_iff invalid_cost_def split: option.splits)
qed

lemma keyed_map_of: "distinct (map f xs) \<Longrightarrow> map_of (map (\<lambda>c. (f c, c)) xs) k = Some c \<longleftrightarrow> c \<in> set xs \<and> f c = k"
  by (induction xs) (auto simp: image_iff)

lemma map_eq_by_Some: "(\<And>k c. f k = Some c \<longleftrightarrow> g k = Some c) \<Longrightarrow> f = g"
  by (intro ext) (metis option.exhaust)

lemma parseTrustedRouteCosts_perm:
  assumes "parseTrustedRouteCosts (JArr raws) = Inr f" "mset raws' = mset raws"
  shows "parseTrustedRouteCosts (JArr raws') = Inr f"
proof -
  let ?m = "\<lambda>cs. map_of (map (\<lambda>c. (tc_routeId c, c)) cs)"
  obtain cs where cs: "int (length raws) \<le> MAX_TRUSTED_ROUTE_COSTS" "list_all2 cost_in raws cs"
      "distinct (map tc_routeId cs)" "f = ?m cs"
    using assms(1) by (auto simp: parseTrustedRouteCosts_def rbind_eq_Inr parse_costs_from_Inr split: if_splits)
  obtain cs' where cs': "list_all2 cost_in raws' cs'" "mset cs' = mset cs"
    using list_all2_perm [OF cs(2) assms(2)] by blast
  have set: "set cs' = set cs" using cs'(2) by (rule mset_eq_setD)
  have d: "distinct (map tc_routeId cs')" using cs(3) cs'(2) by (metis mset_eq_imp_distinct_iff mset_map)
  have "?m cs' k = Some c \<longleftrightarrow> ?m cs k = Some c" for k c
    by (simp only: keyed_map_of [OF cs(3)] keyed_map_of [OF d] set)
  then have "?m cs' = ?m cs" by (rule map_eq_by_Some)
  moreover have "length raws' = length raws" using assms(2) by (rule mset_eq_length)
  ultimately show ?thesis
    using cs(1,4) cs'(1) d by (auto simp: parseTrustedRouteCosts_def rbind_eq_Inr parse_costs_from_Inr intro!: exI [of _ cs'])
qed

section \<open>Whole requests\<close>

text \<open>Two request objects that differ in the order of their quotes and of their costs only.\<close>

definition reordered :: "js \<Rightarrow> js \<Rightarrow> bool" where
  "reordered r r' \<longleftrightarrow> is_plain_object r \<and> is_plain_object r'
   \<and> (\<forall>k. k \<noteq> ''routes'' \<longrightarrow> k \<noteq> ''trustedCosts'' \<longrightarrow> jget r' k = jget r k)
   \<and> (\<exists>as bs. jget r ''routes'' = JArr as \<and> jget r' ''routes'' = JArr bs \<and> mset bs = mset as)
   \<and> (\<exists>as bs. jget r ''trustedCosts'' = JArr as \<and> jget r' ''trustedCosts'' = JArr bs \<and> mset bs = mset as)"

lemma evaluateRoutes_reordered:
  assumes "evaluateRoutes keccak seam r = Some (Inr e)" "reordered r r'"
  shows "evaluateRoutes keccak seam r' = Some (Inr e)"
proof -
  have same: "jget r' k = jget r k" if "k \<noteq> ''routes''" "k \<noteq> ''trustedCosts''" for k
    using assms(2) that by (simp add: reordered_def)
  have keys: "jget r' ''mandate'' = jget r ''mandate''" "jget r' ''authorization'' = jget r ''authorization''"
    "jget r' ''trustedMarketState'' = jget r ''trustedMarketState''" "jget r' ''clock'' = jget r ''clock''"
    "jget r' ''expectedDomain'' = jget r ''expectedDomain''" "jget r' ''requestedQuantity'' = jget r ''requestedQuantity''"
    "jget r' ''registry'' = jget r ''registry''"
    by (rule same; simp)+
  have plain: "is_plain_object r" "is_plain_object r'" using assms(2) by (simp_all add: reordered_def)
  obtain as bs where ab: "jget r ''routes'' = JArr as" "jget r' ''routes'' = JArr bs" "mset bs = mset as"
    using assms(2) by (auto simp: reordered_def)
  obtain cs ds where cd: "jget r ''trustedCosts'' = JArr cs" "jget r' ''trustedCosts'' = JArr ds" "mset ds = mset cs"
    using assms(2) by (auto simp: reordered_def)
  obtain qs f where p: "parseProviderRouteSet (JArr as) = Inr qs" "parseTrustedRouteCosts (JArr cs) = Inr f"
    using assms(1) unfolding evaluateRoutes_def Let_def ab(1) cd(1)
    by (cases "parseProviderRouteSet (JArr as)"; cases "parseTrustedRouteCosts (JArr cs)")
      (simp_all add: plain ab(1) cd(1) split: option.splits sum.splits)
  have p': "parseProviderRouteSet (JArr bs) = Inr qs" "parseTrustedRouteCosts (JArr ds) = Inr f"
    using parseProviderRouteSet_perm [OF p(1) ab(3)] parseTrustedRouteCosts_perm [OF p(2) cd(3)] by simp_all
  have "evaluateRoutes keccak seam r' = evaluateRoutes keccak seam r"
    unfolding evaluateRoutes_def Let_def plain [THEN eqTrueI] if_True keys ab(1,2) cd(1,2) p p' ..
  with assms(1) show ?thesis by simp
qed

end
