(* ===== verification/Route_Ranked.thy ===== *)
theory Route_Ranked
  imports Route_Parsed
begin

text \<open>
  What a built candidate says of its quote, which routes the loop over quotes admits, and that the ranking is a total
  order by the exact economic value, then by deviation, age, steps and digest.
\<close>

section \<open>Costs\<close>

lemma sameAmount_eq [simp]: "sameAmount a b \<longleftrightarrow> a = b"
  by (auto simp: sameAmount_def)

lemma disagreements_Nil: "disagreements quoted established = [] \<longleftrightarrow> quoted = established"
  by (cases quoted; cases established) (auto simp: disagreements_def named_costs_def)

lemma incommensurable_Nil:
  "incommensurable quoted established notional = [] \<Longrightarrow> \<forall>c \<in> snd ` set (named_costs quoted). sameUnitAndScale c notional"
  by (auto simp: incommensurable_def named_costs_def split: if_splits)

text \<open>Accepted costs are known, and the same on both sides; their total is exact.\<close>

lemma validateCosts_Inr:
  assumes "validateCosts qc trusted notional = Inr (costs, fees)"
  shows "\<exists>t. trusted = Some t \<and> knownCosts (tc_costs t) = Some costs" "knownCosts qc = Some costs"
    and "sameUnitAndScale fees notional" "atoms fees \<le> UINT256_MAX"
    and "amount_val fees = (\<Sum>c \<leftarrow> named_costs costs. amount_val (snd c))"
proof -
  obtain quoted t established where k: "knownCosts qc = Some quoted" "trusted = Some t" "knownCosts (tc_costs t) = Some established"
    using assms unfolding validateCosts_def by (auto split: option.splits)
  have e: "incommensurable quoted established notional = []" "disagreements quoted established = []" "costs = quoted"
      "fees = \<lparr>unit = unit notional, decimals = decimals notional, atoms = foldl (\<lambda>sum c. sum + atoms (snd c)) 0 (named_costs quoted)\<rparr>"
      "foldl (\<lambda>sum c. sum + atoms (snd c)) 0 (named_costs quoted) \<le> UINT256_MAX"
    using assms unfolding validateCosts_def k by (auto simp: k Let_def split: if_splits)
  show "\<exists>t. trusted = Some t \<and> knownCosts (tc_costs t) = Some costs" "knownCosts qc = Some costs"
    using k e(2,3) by (auto simp: disagreements_Nil)
  show "sameUnitAndScale fees notional" "atoms fees \<le> UINT256_MAX" using e(4,5) by (simp_all add: sameUnitAndScale_def)
  show "amount_val fees = (\<Sum>c \<leftarrow> named_costs costs. amount_val (snd c))"
    using incommensurable_Nil [OF e(1)] unfolding e(3,4)
    by (simp add: named_costs_def sameUnitAndScale_def amount_val_def add_divide_distrib)
qed

section \<open>Built candidates\<close>

definition quoted_candidate :: "provider_quote \<Rightarrow> amount \<Rightarrow> string \<Rightarrow> string \<Rightarrow> candidate" where
  "quoted_candidate q fees stateDigest snapshotDigest = \<lparr>c_version = 3, c_representationId = pq_representationId q,
     c_canonicalAsset = pq_canonicalAsset q, c_issuer = pq_issuer q, c_chain = pq_chain q, c_venue = pq_venue q,
     c_side = pq_side q, c_agent = pq_agent q, c_quantity = pq_quantity q, c_executionPrice = pq_executionPrice q,
     c_notional = pq_notional q, c_feeTotal = fees, c_evaluationStateId = pq_referenceStateId q,
     c_evaluationStateDigest = stateDigest, c_registrySnapshotDigest = snapshotDigest,
     c_corporateActionEpoch = pq_corporateActionEpoch q\<rparr>"

lemma parse_quoted: "parseCandidate (js_quoted_candidate q fees sd gd) = Inr c \<Longrightarrow> c = quoted_candidate q fees sd gd"
proof -
  have "js_quoted_candidate q fees sd gd = js_candidate (quoted_candidate q fees sd gd)"
    by (simp add: js_quoted_candidate_def js_candidate_def quoted_candidate_def)
  then show "parseCandidate (js_quoted_candidate q fees sd gd) = Inr c \<Longrightarrow> ?thesis" using parseCandidate_js_Inr by metis
qed

lemma sign_candidate_fields:
  "sign_candidate keccak u = Some c \<Longrightarrow> rc_executionCandidate c = rc_executionCandidate u \<and> rc_routeId c = rc_routeId u
     \<and> rc_costs c = rc_costs u \<and> rc_feeTotal c = rc_feeTotal u
     \<and> candidateDigest keccak (rc_executionCandidate u) = Some (rc_kernelCandidateDigest c)"
  by (auto simp: sign_candidate_def obind_Some unsigned_candidate.defs routing_candidate.defs)

text \<open>What a quote offers, as a relation: the candidate made of it and the quality it is ranked by.\<close>

definition offers ::
    "(u8 list \<Rightarrow> u8 list) \<Rightarrow> mandate \<Rightarrow> provider_quote \<Rightarrow> trusted_state \<Rightarrow> trusted_route_cost option \<Rightarrow> amount \<Rightarrow> int
       \<Rightarrow> string \<Rightarrow> routing_candidate \<Rightarrow> route_quality \<Rightarrow> bool" where
  "offers keccak m q s cost requested now gd c k \<longleftrightarrow>
     (\<exists>t costs fees sd p. cost = Some t \<and> knownCosts (pq_costs q) = Some costs \<and> knownCosts (tc_costs t) = Some costs
      \<and> amount_val fees = (\<Sum>x \<leftarrow> named_costs costs. amount_val (snd x)) \<and> sameUnitAndScale fees (pq_notional q)
      \<and> trustedStateDigest keccak s = Some sd \<and> rc_executionCandidate c = quoted_candidate q fees sd gd
      \<and> wf_candidate (rc_executionCandidate c) \<and> rc_routeId c = pq_routeId q \<and> rc_costs c = costs \<and> rc_feeTotal c = fees
      \<and> pq_quantity q = requested \<and> pq_fillPolicy q = FILL_OR_KILL
      \<and> pq_side q = m_side m \<and> pq_agent q = m_agent m \<and> pq_canonicalAsset q = m_canonicalAsset m
      \<and> pq_referenceStateId q = s_stateId s
      \<and> 0 \<le> now - pq_quoteObservedAt q \<and> now - pq_quoteObservedAt q \<le> m_maxPriceAgeSeconds m
      \<and> 0 \<le> now - tc_observedAt t \<and> now - tc_observedAt t \<le> m_maxPriceAgeSeconds m
      \<and> deviationBps (pq_executionPrice q) p = Inr (executionDeviationBps k)
      \<and> unit (economicValue k) = unit (pq_notional q)
      \<and> amount_val (economicValue k) = (case m_side m of
           BUY \<Rightarrow> amount_val (pq_notional q) + amount_val fees
         | SELL \<Rightarrow> max 0 (amount_val (pq_notional q) - amount_val fees)))"

lemma economic_val:
  assumes "sameUnitAndScale fees notional"
  shows "amount_val \<lparr>unit = unit notional, decimals = decimals notional, atoms = economic_atoms sd (atoms notional) (atoms fees)\<rparr> =
    (case sd of BUY \<Rightarrow> amount_val notional + amount_val fees | SELL \<Rightarrow> max 0 (amount_val notional - amount_val fees))"
proof -
  have pos: "(0 :: rat) < of_int (pow10 (decimals notional))" by (simp add: pow10_def)
  have le: "amount_val notional \<le> amount_val fees \<longleftrightarrow> atoms notional \<le> atoms fees"
    using assms pos by (simp add: sameUnitAndScale_def amount_val_def divide_le_cancel)
  show ?thesis
    using assms le by (cases sd) (auto simp: economic_atoms_def sameUnitAndScale_def amount_val_def add_divide_distrib
        diff_divide_distrib max_def)
qed

lemma age_failures_Nil: "age_failures age bound f st = [] \<longleftrightarrow> 0 \<le> age \<and> age \<le> bound"
  by (auto simp: age_failures_def)

lemma build_offers:
  assumes "buildRoutingCandidate keccak m q s cost requested now gd = Some (Inr (c, k))"
  shows "offers keccak m q s cost requested now gd c k"
proof -
  have none: "build_failures m q s cost requested now = []"
    using assms by (auto simp: buildRoutingCandidate_def Let_def split: if_splits)
  obtain market p costs fees t where parts: "reference_price s = Some (market, p)" "cost = Some t"
      and v: "validateCosts (pq_costs q) cost (pq_notional q) = Inr (costs, fees)"
    using assms none by (auto simp: buildRoutingCandidate_def Let_def split: option.splits sum.splits)
  note b = assms [unfolded buildRoutingCandidate_def none v parts(1), unfolded parts(2), simplified]
  obtain sd x dev where sd: "trustedStateDigest keccak s = Some sd" and x: "parseCandidate (js_quoted_candidate q fees sd gd) = Inr x"
    and dev: "deviationBps (c_executionPrice x) p = Inr dev"
  proof -
    obtain sd where sd: "trustedStateDigest keccak s = Some sd"
      using b unfolding obind_Some by blast
    obtain x where x: "parseCandidate (js_quoted_candidate q fees sd gd) = Inr x"
      using b by (cases "parseCandidate (js_quoted_candidate q fees sd gd)") (simp_all add: obind_def sd)
    obtain dev where "deviationBps (c_executionPrice x) p = Inr dev"
      using b by (cases "deviationBps (c_executionPrice x) p") (simp_all add: obind_def sd x)
    with sd x show thesis by (rule that)
  qed
  have x': "x = quoted_candidate q fees sd gd" by (rule parse_quoted [OF x])
  have "rc_executionCandidate c = x \<and> rc_routeId c = pq_routeId q \<and> rc_costs c = costs \<and> rc_feeTotal c = fees
      \<and> k = \<lparr>economicValue = \<lparr>unit = unit (pq_notional q), decimals = decimals (pq_notional q),
              atoms = economic_atoms (m_side m) (atoms (pq_notional q)) (atoms fees)\<rparr>,
           executionDeviationBps = dev, quoteAgeSeconds = now - pq_quoteObservedAt q,
           routeSteps = int (length (pq_steps q)), explicitFeeTotal = fees\<rparr>"
    using b by (auto simp: obind_Some sd x dev Let_def dest!: sign_candidate_fields split: if_splits)
  moreover have "pq_quantity q = requested" "pq_fillPolicy q = FILL_OR_KILL"
      "0 \<le> now - pq_quoteObservedAt q \<and> now - pq_quoteObservedAt q \<le> m_maxPriceAgeSeconds m"
      "0 \<le> now - tc_observedAt t \<and> now - tc_observedAt t \<le> m_maxPriceAgeSeconds m" "validateIdentity q m s = []"
    using none unfolding build_failures_def parts(2) by (simp_all add: age_failures_Nil split: if_splits)
  moreover have "wf_candidate x" by (rule parseCandidate_wf [OF x])
  ultimately show ?thesis
    using validateCosts_Inr [OF v] parts(2) sd dev economic_val [OF validateCosts_Inr(3) [OF v], of "m_side m"]
    unfolding offers_def x' by (auto simp: quoted_candidate_def validateIdentity_def split: if_splits)
qed

section \<open>The admissible set\<close>

definition admits ::
    "(u8 list \<Rightarrow> u8 list) \<Rightarrow> verifier \<Rightarrow> route_inputs \<Rightarrow> requirements \<Rightarrow> provider_quote \<Rightarrow> admissible_route \<Rightarrow> bool" where
  "admits keccak verifier i q quote a \<longleftrightarrow>
     pq_representationId quote \<in> set (map (ri_value \<circ> representationId) (listRepresentations (in_registry i) (q_canonicalAsset q)))
   \<and> (\<exists>rid. evaluateRepresentation keccak (in_registry i) q (JStr (pq_representationId quote)) = ADMISSIBLE rid)
   \<and> buildRoutingCandidate keccak (in_mandate i) quote (in_trustedState i) (in_costs i (pq_routeId quote)) (in_quantity i)
       (in_clock i) (in_snapshotDigest i) = Some (Inr (ar_candidate a, ar_quality a))
   \<and> verifier (request_for i (rc_executionCandidate (ar_candidate a))) = Some (ar_receipt a)
   \<and> decision_of (ar_receipt a) = PASS"

abbreviation route_digest :: "admissible_route \<Rightarrow> string" where
  "route_digest a \<equiv> rc_candidateDigest (ar_candidate a)"

fun verdict_outcome :: "quote_verdict \<Rightarrow> route_outcome" where
  "verdict_outcome (Refused out) = out"
| "verdict_outcome (Verified _ out _) = out"

fun verdict_routes :: "quote_verdict \<Rightarrow> admissible_route list" where
  "verdict_routes (Refused _) = []"
| "verdict_routes (Verified _ _ admitted) = (case admitted of None \<Rightarrow> [] | Some a \<Rightarrow> [a])"

fun verdict_seen :: "quote_verdict \<Rightarrow> string list" where
  "verdict_seen (Refused _) = []"
| "verdict_seen (Verified d _ _) = [d]"

lemma not_reject: "d \<noteq> REJECT \<longleftrightarrow> d = PASS"
  by (cases d) auto

definition fits_verdict ::
    "(u8 list \<Rightarrow> u8 list) \<Rightarrow> verifier \<Rightarrow> route_inputs \<Rightarrow> requirements \<Rightarrow> string list \<Rightarrow> provider_quote \<Rightarrow> quote_verdict \<Rightarrow> bool" where
  "fits_verdict keccak verifier i q seen quote v \<longleftrightarrow>
     outcome_id (verdict_outcome v) = pq_routeId quote \<and> set (verdict_seen v) \<inter> set seen = {}
   \<and> (\<forall>a. a \<in> set (verdict_routes v) \<longleftrightarrow> admits keccak verifier i q quote a)
   \<and> set (map route_digest (verdict_routes v)) \<subseteq> set (verdict_seen v) \<and> length (verdict_routes v) \<le> 1"

lemma judge_quote_fits:
  assumes "judge_quote keccak verifier i q seen quote = Some (Inr v)"
  shows "fits_verdict keccak verifier i q seen quote v"
proof (cases "decisions_for keccak (in_registry i) q (pq_representationId quote)")
  case None
  then show ?thesis
    using assms by (auto simp: judge_quote_def fits_verdict_def excluded_route_def admits_def decisions_for_def split: if_splits)
next
  case (Some d)
  then have listed: "pq_representationId quote \<in> set (map (ri_value \<circ> representationId) (listRepresentations (in_registry i) (q_canonicalAsset q)))"
    and d: "evaluateRepresentation keccak (in_registry i) q (JStr (pq_representationId quote)) = d"
    unfolding decisions_for_def by (simp_all split: if_splits)
  show ?thesis
  proof (cases d)
    case (EXCLUDED rid cs es)
    with assms Some d show ?thesis
      by (simp add: judge_quote_def fits_verdict_def excluded_route_def admits_def)
        (auto simp: excluded_route_def)
  next
    case (ADMISSIBLE rid)
    note J = assms [unfolded judge_quote_def Some ADMISSIBLE option.case representation_decision.case obind_Some]
    obtain b where b: "buildRoutingCandidate keccak (in_mandate i) quote (in_trustedState i) (in_costs i (pq_routeId quote))
        (in_quantity i) (in_clock i) (in_snapshotDigest i) = Some b"
      using J by blast
    show ?thesis
    proof (cases b)
      case (Inl es)
      with J b have "v = Refused (excluded_route (pq_routeId quote) es None None)" by simp
      then show ?thesis by (simp add: fits_verdict_def excluded_route_def admits_def b Inl)
    next
      case (Inr ck)
      obtain c k where ck: "ck = (c, k)" by (cases ck)
      have fresh: "rc_candidateDigest c \<notin> set seen" using J b Inr ck by (auto split: if_splits)
      then obtain r where r: "verifier (request_for i (rc_executionCandidate c)) = Some r"
        using J b Inr ck by (auto simp: obind_Some)
      have A: "admits keccak verifier i q quote a \<longleftrightarrow>
          a = \<lparr>ar_candidate = c, ar_quality = k, ar_receipt = r\<rparr> \<and> decision_of r = PASS" for a
        using r b d listed unfolding Inr ck ADMISSIBLE by (cases a) (auto simp: admits_def)
      show ?thesis
        using J b fresh unfolding fits_verdict_def A
        by (cases "decision_of r") (auto simp: excluded_route_def Inr ck r obind_def)
    qed
  qed
qed

lemma judge_quote_verdict:
  assumes "judge_quote keccak verifier i q seen quote = Some (Inr v)"
  shows "outcome_id (verdict_outcome v) = pq_routeId quote" "set (verdict_seen v) \<inter> set seen = {}"
    and "a \<in> set (verdict_routes v) \<longleftrightarrow> admits keccak verifier i q quote a"
    and "set (map route_digest (verdict_routes v)) \<subseteq> set (verdict_seen v)" "length (verdict_routes v) \<le> 1"
  using judge_quote_fits [OF assms] unfolding fits_verdict_def by blast+

lemma judge_quotes_step:
  "judge_quotes keccak verifier i q seen (quote # quotes) = Some (Inr (outs, routes)) \<longleftrightarrow>
     (\<exists>v outs' routes'. judge_quote keccak verifier i q seen quote = Some (Inr v)
        \<and> judge_quotes keccak verifier i q (verdict_seen v @ seen) quotes = Some (Inr (outs', routes'))
        \<and> outs = verdict_outcome v # outs' \<and> routes = verdict_routes v @ routes')"
proof (cases "judge_quote keccak verifier i q seen quote")
  case None
  then show ?thesis by (simp add: obind_def)
next
  case (Some r)
  show ?thesis
  proof (cases r)
    case (Inl es)
    with Some show ?thesis by (simp add: obind_def)
  next
    case (Inr v)
    with Some show ?thesis by (cases v) (auto simp: obind_def rbind_eq_Inr split: option.splits)
  qed
qed

lemma judge_quotes_Inr:
  assumes "judge_quotes keccak verifier i q seen quotes = Some (Inr (outs, routes))"
  shows "map outcome_id outs = map pq_routeId quotes"
    and "a \<in> set routes \<longleftrightarrow> (\<exists>quote \<in> set quotes. admits keccak verifier i q quote a)"
    and "distinct (map route_digest routes)" "set (map route_digest routes) \<inter> set seen = {}"
proof -
  have "map outcome_id outs = map pq_routeId quotes \<and> (\<forall>a. a \<in> set routes \<longleftrightarrow> (\<exists>quote \<in> set quotes. admits keccak verifier i q quote a))
      \<and> distinct (map route_digest routes) \<and> set (map route_digest routes) \<inter> set seen = {}"
    using assms
  proof (induction quotes arbitrary: seen outs routes)
    case Nil
    then show ?case by simp
  next
    case (Cons quote quotes)
    then obtain v outs' routes' where v: "judge_quote keccak verifier i q seen quote = Some (Inr v)"
      and r: "judge_quotes keccak verifier i q (verdict_seen v @ seen) quotes = Some (Inr (outs', routes'))"
      and e: "outs = verdict_outcome v # outs'" "routes = verdict_routes v @ routes'"
      unfolding judge_quotes_step by blast
    note V = judge_quote_verdict [OF v] and IH = Cons.IH [OF r]
    have "distinct (map route_digest (verdict_routes v))"
      using V(5) by (cases "verdict_routes v"; cases "tl (verdict_routes v)") auto
    moreover have "set (map route_digest (verdict_routes v)) \<inter> set (map route_digest routes') = {}"
      using V(4) IH by auto
    ultimately have "distinct (map route_digest routes)" using IH unfolding e by simp
    moreover have "set (map route_digest routes) \<inter> set seen = {}"
      using V(2,4) IH unfolding e by auto
    moreover have "x \<in> set routes \<longleftrightarrow> (\<exists>quote \<in> set (quote # quotes). admits keccak verifier i q quote x)" for x
      using V(3) IH unfolding e by simp
    ultimately show ?case using V(1) IH unfolding e by simp
  qed
  then show "map outcome_id outs = map pq_routeId quotes"
    "a \<in> set routes \<longleftrightarrow> (\<exists>quote \<in> set quotes. admits keccak verifier i q quote a)"
    "distinct (map route_digest routes)" "set (map route_digest routes) \<inter> set seen = {}" by blast+
qed

section \<open>Ranking\<close>

definition total_preorder :: "('a \<Rightarrow> 'a \<Rightarrow> bool) \<Rightarrow> bool" where
  "total_preorder R \<longleftrightarrow> (\<forall>a b. R a b \<or> R b a) \<and> (\<forall>a b c. R a b \<longrightarrow> R b c \<longrightarrow> R a c)"

definition then_by :: "('a \<Rightarrow> 'a \<Rightarrow> bool) \<Rightarrow> ('a \<Rightarrow> 'a \<Rightarrow> bool) \<Rightarrow> 'a \<Rightarrow> 'a \<Rightarrow> bool" where
  "then_by P Q a b \<longleftrightarrow> P a b \<and> (P b a \<longrightarrow> Q a b)"

lemma total_preorder_then: "total_preorder P \<Longrightarrow> total_preorder Q \<Longrightarrow> total_preorder (then_by P Q)"
  unfolding total_preorder_def then_by_def by blast

lemma total_preorder_key: "total_preorder (\<lambda>a b. f a \<le> (f b :: 'b :: linorder))"
  unfolding total_preorder_def by (meson linear order_trans)

lemma total_preorder_text: "total_preorder (\<lambda>a b. compareStrings (f a) (f b) \<le> 0)"
  unfolding total_preorder_def using str_cmp.cmp_total str_cmp.cmp_trans by blast

text \<open>What makes a route better: less to pay or more to receive first.\<close>

definition route_cost :: "side \<Rightarrow> admissible_route \<Rightarrow> rat" where
  "route_cost sd a = (case sd of BUY \<Rightarrow> amount_val (economicValue (ar_quality a))
     | SELL \<Rightarrow> - amount_val (economicValue (ar_quality a)))"

definition ranks_before :: "side \<Rightarrow> admissible_route \<Rightarrow> admissible_route \<Rightarrow> bool" where
  "ranks_before sd = then_by (\<lambda>a b. route_cost sd a \<le> route_cost sd b)
    (then_by (\<lambda>a b. executionDeviationBps (ar_quality a) \<le> executionDeviationBps (ar_quality b))
    (then_by (\<lambda>a b. quoteAgeSeconds (ar_quality a) \<le> quoteAgeSeconds (ar_quality b))
    (then_by (\<lambda>a b. routeSteps (ar_quality a) \<le> routeSteps (ar_quality b))
      (\<lambda>a b. compareStrings (route_digest a) (route_digest b) \<le> 0))))"

lemma total_preorder_ranks: "total_preorder (ranks_before sd)"
  unfolding ranks_before_def
  by (intro total_preorder_then total_preorder_key total_preorder_text)

lemma tie_le:
  "(if x \<noteq> y then sign_of x y else t) \<le> 0 \<longleftrightarrow> x \<le> y \<and> (y \<le> x \<longrightarrow> t \<le> 0)"
  "(if x \<noteq> y then x - y else t) \<le> 0 \<longleftrightarrow> x \<le> y \<and> (y \<le> x \<longrightarrow> t \<le> (0 :: int))"
  by (auto simp: sign_of_def)

lemma compareRanked_le:
  assumes "unit (economicValue (ar_quality a)) = unit (economicValue (ar_quality b))"
  shows "compareRanked sd a b \<le> 0 \<longleftrightarrow> ranks_before sd a b"
proof -
  obtain e where e: "compareAmounts (economicValue (ar_quality a)) (economicValue (ar_quality b)) = Inr e"
    using assms by (simp add: compareAmounts_def Let_def)
  note v = compareAmounts_val [OF e]
  consider "e < 0" | "e > 0" | "e = 0" by linarith
  then show ?thesis
  proof cases
    case 1
    then show ?thesis
      using v by (cases sd) (simp_all add: compareRanked_def Let_def e ranks_before_def then_by_def route_cost_def)
  next
    case 2
    then show ?thesis
      using v by (cases sd) (simp_all add: compareRanked_def Let_def e ranks_before_def then_by_def route_cost_def)
  next
    case 3
    then have "route_cost sd a = route_cost sd b" using v by (cases sd) (simp_all add: route_cost_def)
    then show ?thesis
      unfolding compareRanked_def Let_def e ranks_before_def then_by_def by (simp add: 3 tie_le)
  qed
qed

text \<open>A sort depends on the comparisons among the elements alone.\<close>

lemma insort_cmp_cong:
  "(\<And>y. y \<in> set ys \<Longrightarrow> cmp x y \<le> 0 \<longleftrightarrow> cmp' x y \<le> 0) \<Longrightarrow> insort_cmp cmp x ys = insort_cmp cmp' x ys"
  by (induction ys) auto

lemma js_sort_cong:
  "(\<And>x y. x \<in> set xs \<Longrightarrow> y \<in> set xs \<Longrightarrow> cmp x y \<le> 0 \<longleftrightarrow> cmp' x y \<le> 0) \<Longrightarrow> js_sort cmp xs = js_sort cmp' xs"
proof (induction xs)
  case Nil
  then show ?case by simp
next
  case (Cons x xs)
  have "js_sort cmp xs = js_sort cmp' xs" by (rule Cons.IH) (use Cons.prems in auto)
  then show ?case using Cons.prems by (auto intro: insort_cmp_cong)
qed

definition rank_number :: "side \<Rightarrow> admissible_route \<Rightarrow> admissible_route \<Rightarrow> int" where
  "rank_number sd a b = (if ranks_before sd a b then 0 else 1)"

interpretation rank_order: cmp_preorder "rank_number sd" for sd
proof unfold_locales
  have le: "rank_number sd x y \<le> 0 \<longleftrightarrow> ranks_before sd x y" for x y by (simp add: rank_number_def)
  note R = total_preorder_ranks [of sd, unfolded total_preorder_def]
  show "rank_number sd a b \<le> 0 \<or> rank_number sd b a \<le> 0" for a b unfolding le using R by blast
  show "rank_number sd a b \<le> 0 \<Longrightarrow> rank_number sd b c \<le> 0 \<Longrightarrow> rank_number sd a c \<le> 0" for a b c
    unfolding le using R by blast
qed

lemma ranked_sorted:
  assumes "\<And>a. a \<in> set routes \<Longrightarrow> unit (economicValue (ar_quality a)) = u"
  shows "sorted_wrt (ranks_before sd) (js_sort (compareRanked sd) routes)"
proof -
  have eq: "js_sort (compareRanked sd) routes = js_sort (rank_number sd) routes"
    by (rule js_sort_cong) (use assms compareRanked_le in \<open>auto simp: rank_number_def\<close>)
  have "sorted_wrt (\<lambda>a b. rank_number sd a b \<le> 0) (js_sort (rank_number sd) routes)" by (rule rank_order.sorted_sort)
  then show ?thesis unfolding eq by (rule sorted_wrt_mono_rel [rotated]) (simp add: rank_number_def split: if_splits)
qed

lemma ranks_before_cost: "ranks_before sd a b \<Longrightarrow> route_cost sd a \<le> route_cost sd b"
  by (simp add: ranks_before_def then_by_def)

lemma first_is_best:
  assumes "sorted_wrt (ranks_before sd) as" "as \<noteq> []" "a \<in> set as"
  shows "ranks_before sd (hd as) a \<or> a = hd as"
  using assms by (cases as) auto

end
