(* ===== verification/Reg_Settled.thy ===== *)
theory Reg_Settled
  imports Reg_Encoding
begin

text \<open>
  Claims said without the resolution: a property is settled when some usable claim speaks of it, all usable claims
  agree, and what they say is acceptable. A claim is usable when it meets the trust floor and is fresh; no other claim
  has any influence. The locale \<open>claim_values\<close> is the contract between a kind of value and its comparison key.
\<close>

definition usable :: "requirements \<Rightarrow> 'a claim \<Rightarrow> bool" where
  "usable q c \<longleftrightarrow> at_floor (claimPolicyOf q) c \<and> fresh_claim (claimPolicyOf q) c"

definition agreed :: "'a claim list \<Rightarrow> requirements \<Rightarrow> ('a \<Rightarrow> string) \<Rightarrow> bool" where
  "agreed claims q keyOf \<longleftrightarrow> (\<forall>c \<in> set claims. \<forall>d \<in> set claims.
     usable q c \<longrightarrow> usable q d \<longrightarrow> keyOf (claim_value c) = keyOf (claim_value d))"

definition settled :: "'a claim list \<Rightarrow> requirements \<Rightarrow> ('a \<Rightarrow> string) \<Rightarrow> ('a \<Rightarrow> bool) \<Rightarrow> bool" where
  "settled claims q keyOf P \<longleftrightarrow> (\<exists>c \<in> set claims. usable q c) \<and> agreed claims q keyOf
     \<and> (\<forall>c \<in> set claims. usable q c \<longrightarrow> P (claim_value c))"

section \<open>Resolution\<close>

lemma usable_filter:
  "filter (fresh_claim (claimPolicyOf q)) (filter (at_floor (claimPolicyOf q)) claims) = filter (usable q) claims"
  by (simp add: usable_def [abs_def])

lemma several_keys: "length (remdups xs) > 1 \<longleftrightarrow> (\<exists>x \<in> set xs. \<exists>y \<in> set xs. x \<noteq> y)"
proof -
  have "length (remdups xs) \<le> 1 \<longleftrightarrow> (\<forall>x \<in> set xs. \<forall>y \<in> set xs. x = y)"
    using card_le_Suc0_iff_eq [of "set xs"] by (simp add: length_remdups_card_conv)
  then show ?thesis by (metis not_le)
qed

lemma nth_last_sort: "xs \<noteq> [] \<Longrightarrow> js_sort cmp xs ! (length xs - 1) \<in> set xs"
  by (metis One_nat_def Suc_pred diff_less length_greater_0_conv length_js_sort less_one nth_mem set_js_sort)

lemma set_sortClaims [simp]: "set (sortClaims cs k) = set cs"
  by (simp add: sortClaims_def)

text \<open>The three outcomes, by the usable claims.\<close>

definition why_unknown :: "'a claim list \<Rightarrow> requirements \<Rightarrow> unknown_reason" where
  "why_unknown claims q =
     (if claims = [] then NO_CLAIMS
      else if filter (at_floor (claimPolicyOf q)) claims = [] then BELOW_TRUST_FLOOR else STALE)"

definition best_claim :: "'a claim list \<Rightarrow> requirements \<Rightarrow> ('a \<Rightarrow> string) \<Rightarrow> 'a claim" where
  "best_claim claims q keyOf =
     sortClaims (filter (usable q) claims) keyOf ! (length (filter (usable q) claims) - 1)"

lemma disagreed_iff:
  "length (remdups (map (keyOf \<circ> claim_value) (filter (usable q) claims))) > 1 \<longleftrightarrow> \<not> agreed claims q keyOf"
  unfolding several_keys agreed_def by (simp only: set_map set_filter) auto

lemma usable_Nil: "filter (usable q) claims = [] \<longleftrightarrow> \<not> (\<exists>c \<in> set claims. usable q c)"
  by (simp only: filter_empty_conv) blast

lemma at_floor_Nil: "filter (at_floor (claimPolicyOf q)) claims = [] \<Longrightarrow> filter (usable q) claims = []"
  unfolding usable_filter [symmetric] by simp

lemma resolve_usable:
  "resolveClaimSet claims (claimPolicyOf q) keyOf =
     (if \<not> (\<exists>c \<in> set claims. usable q c) then UNESTABLISHED (why_unknown claims q)
      else if \<not> agreed claims q keyOf then CONFLICT (sortClaims (filter (usable q) claims) keyOf)
      else ESTABLISHED (claim_value (best_claim claims q keyOf)) (claim_prov (best_claim claims q keyOf)))"
  unfolding resolveClaimSet_def Let_def usable_filter disagreed_iff best_claim_def [symmetric]
    usable_Nil [symmetric] why_unknown_def
  using at_floor_Nil [of q claims]
  by (cases "claims = []"; cases "filter (at_floor (claimPolicyOf q)) claims = []";
      cases "filter (usable q) claims = []") simp_all

lemma best_claim_usable:
  assumes "\<exists>c \<in> set claims. usable q c"
  shows "best_claim claims q keyOf \<in> set claims" "usable q (best_claim claims q keyOf)"
proof -
  have "filter (usable q) claims \<noteq> []" using assms unfolding usable_Nil by blast
  then have "best_claim claims q keyOf \<in> set (filter (usable q) claims)"
    unfolding best_claim_def sortClaims_def by (rule nth_last_sort)
  then show "best_claim claims q keyOf \<in> set claims" "usable q (best_claim claims q keyOf)" by simp_all
qed

lemma resolve_established:
  assumes "resolveClaimSet claims (claimPolicyOf q) keyOf = ESTABLISHED v p"
  shows "agreed claims q keyOf"
    and "\<exists>c \<in> set claims. usable q c \<and> claim_value c = v \<and> claim_prov c = p"
  using assms best_claim_usable [of claims q keyOf] unfolding resolve_usable by (auto split: if_splits)

lemma resolve_agreed:
  assumes "\<exists>c \<in> set claims. usable q c" "agreed claims q keyOf"
  obtains v p where "resolveClaimSet claims (claimPolicyOf q) keyOf = ESTABLISHED v p"
  using assms unfolding resolve_usable by simp

lemma resolve_conflict:
  "resolveClaimSet claims (claimPolicyOf q) keyOf = CONFLICT cs \<Longrightarrow> \<not> agreed claims q keyOf"
  unfolding resolve_usable by (auto split: if_splits)

lemma resolve_unestablished:
  "resolveClaimSet claims (claimPolicyOf q) keyOf = UNESTABLISHED why \<Longrightarrow> \<not> (\<exists>c \<in> set claims. usable q c)"
  unfolding resolve_usable by (auto split: if_splits)

lemma resolve_disagreement:
  assumes "\<not> agreed claims q keyOf"
  shows "\<exists>cs. resolveClaimSet claims (claimPolicyOf q) keyOf = CONFLICT cs"
proof -
  have "\<exists>c \<in> set claims. usable q c" using assms unfolding agreed_def by blast
  with assms show ?thesis unfolding resolve_usable by simp
qed

text \<open>A kind of value and its key: values with one key are the same for every check.\<close>

locale claim_values =
  fixes keyOf :: "'a \<Rightarrow> string" and ok :: "'a \<Rightarrow> bool" and same :: "'a \<Rightarrow> 'a \<Rightarrow> bool"
  assumes key_same: "ok a \<Longrightarrow> ok b \<Longrightarrow> keyOf a = keyOf b \<Longrightarrow> same a b"
begin

lemma require_settled:
  assumes "\<forall>c \<in> set claims. ok (claim_value c)" "\<And>a b. same a b \<Longrightarrow> P a = P b" "\<And>v. check v = [] \<longleftrightarrow> P v"
  shows "require claims q keyOf property check = [] \<longleftrightarrow> settled claims q keyOf P"
proof (cases "resolveClaimSet claims (claimPolicyOf q) keyOf")
  case (ESTABLISHED v p)
  from resolve_established [OF this] obtain c where ag: "agreed claims q keyOf"
    and c: "c \<in> set claims" "usable q c" "claim_value c = v" by blast
  have P_eq: "P (claim_value d) = P v" if "d \<in> set claims" "usable q d" for d
  proof -
    have "keyOf (claim_value d) = keyOf v" using ag c that by (auto simp: agreed_def)
    then have "same (claim_value d) v"
      using assms(1) c that by (intro key_same) auto
    then show ?thesis by (rule assms(2))
  qed
  have "require claims q keyOf property check = [] \<longleftrightarrow> P v"
    using ESTABLISHED assms(3) by (simp add: require_def establish_def)
  also have "\<dots> \<longleftrightarrow> settled claims q keyOf P"
    using P_eq ag c by (auto simp: settled_def)
  finally show ?thesis .
next
  case (UNESTABLISHED why)
  then show ?thesis
    using resolve_unestablished [OF UNESTABLISHED] by (auto simp: require_def establish_def settled_def)
next
  case (CONFLICT cs)
  then show ?thesis
    using resolve_conflict [OF CONFLICT] by (auto simp: require_def establish_def settled_def)
qed

text \<open>Fewer usable claims and a weaker demand: what is settled stays settled, or the extra claims disagree.\<close>

lemma settled_mono:
  assumes "\<forall>c \<in> set claims. ok (claim_value c)" "\<And>a b. same a b \<Longrightarrow> P a = P b"
    and "settled claims q keyOf Q" "\<And>c :: 'a claim. usable q c \<Longrightarrow> usable q' c" "\<And>v. Q v \<Longrightarrow> P v"
    and "agreed claims q' keyOf"
  shows "settled claims q' keyOf P"
proof -
  obtain c where c: "c \<in> set claims" "usable q c" using assms(3) by (auto simp: settled_def)
  then have P: "P (claim_value c)" using assms(3,5) by (auto simp: settled_def)
  have "P (claim_value d)" if "d \<in> set claims" "usable q' d" for d
  proof -
    have "keyOf (claim_value d) = keyOf (claim_value c)"
      using assms(4) [OF c(2)] assms(6) c(1) that unfolding agreed_def by blast
    then have "same (claim_value d) (claim_value c)"
      using assms(1) c that by (intro key_same) auto
    then show ?thesis using assms(2) P by blast
  qed
  then show ?thesis using c(1) assms(4) [OF c(2)] assms(6) unfolding settled_def by blast
qed

end

end
