(* ===== verification/Reg_Parsed.thy ===== *)
theory Reg_Parsed
  imports Reg_Settled
begin

text \<open>
  What parsing a snapshot establishes of its records, and the keys of the values they claim: for each kind of value the
  contract \<open>claim_values\<close> is discharged on the code's own comparison key.
\<close>

section \<open>Keys\<close>

lemma name_back [simp]:
  "map_of InstrumentType (name_in InstrumentType i) = Some i"
  "map_of BackingModel (name_in BackingModel b) = Some b"
  "map_of RedemptionModel (name_in RedemptionModel d) = Some d"
  "map_of RightState (name_in RightState s) = Some s"
  "map_of RightKind (name_in RightKind k) = Some k"
  "map_of CorporateActionModel (name_in CorporateActionModel c) = Some c"
  "map_of SettlementModel (name_in SettlementModel t) = Some t"
  "map_of RepresentationOperationalStatus (name_in RepresentationOperationalStatus o') = Some o'"
proof -
  show "map_of InstrumentType (name_in InstrumentType i) = Some i"
    by (cases i) (simp_all add: InstrumentType_def name_in_def)
  show "map_of BackingModel (name_in BackingModel b) = Some b"
    by (cases b) (simp_all add: BackingModel_def name_in_def)
  show "map_of RedemptionModel (name_in RedemptionModel d) = Some d"
    by (cases d) (simp_all add: RedemptionModel_def name_in_def)
  show "map_of RightState (name_in RightState s) = Some s"
    by (cases s) (simp_all add: RightState_def name_in_def)
  show "map_of RightKind (name_in RightKind k) = Some k"
    by (cases k) (simp_all add: RightKind_def name_in_def)
  show "map_of CorporateActionModel (name_in CorporateActionModel c) = Some c"
    by (cases c) (simp_all add: CorporateActionModel_def name_in_def)
  show "map_of SettlementModel (name_in SettlementModel t) = Some t"
    by (cases t) (simp_all add: SettlementModel_def name_in_def)
  show "map_of RepresentationOperationalStatus (name_in RepresentationOperationalStatus o') = Some o'"
    by (cases o') (simp_all add: RepresentationOperationalStatus_def name_in_def)
qed

lemma name_inject:
  "(\<And>x. map_of table (name_in table x) = Some x) \<Longrightarrow> name_in table a = name_in table b \<Longrightarrow> a = b"
  by (metis option.inject)

lemma split_at_char:
  "c \<notin> set a \<Longrightarrow> c \<notin> set b \<Longrightarrow> a @ c # r = b @ c # s \<longleftrightarrow> a = b \<and> r = s"
proof (induction a arbitrary: b)
  case Nil
  then show ?case by (cases b) auto
next
  case (Cons x xs)
  then show ?case by (cases b) auto
qed

lemma ident_no_nul: "valid_ident s \<Longrightarrow> CHR 0x00 \<notin> set s"
  using ident_char_ascii by (auto simp: valid_ident_def list_all_iff)

lemma canonicalAssetKey_inject:
  "wf_asset a \<Longrightarrow> wf_asset b \<Longrightarrow> canonicalAssetKey a = canonicalAssetKey b \<Longrightarrow> a = b"
  by (simp add: canonicalAssetKey_def wf_asset_def split_at_char ident_no_nul)

definition jurisdiction :: "string \<Rightarrow> bool" where
  "jurisdiction j \<longleftrightarrow> length j = 2 \<and> list_all is_upper j"

definition wf_profile :: "eligibility_profile \<Rightarrow> bool" where
  "wf_profile p \<longleftrightarrow> list_all jurisdiction (permitted p) \<and> list_all jurisdiction (prohibited p)"

definition same_profile :: "eligibility_profile \<Rightarrow> eligibility_profile \<Rightarrow> bool" where
  "same_profile p r \<longleftrightarrow> set (permitted p) = set (permitted r) \<and> set (prohibited p) = set (prohibited r)"

lemma jurisdiction_chars: "jurisdiction j \<Longrightarrow> c \<in> set j \<Longrightarrow> c \<noteq> CHR '','' \<and> c \<noteq> CHR ''|''"
  by (auto simp: jurisdiction_def list_all_iff is_upper_def)

lemma join_no_bar: "list_all jurisdiction js \<Longrightarrow> CHR ''|'' \<notin> set (join '','' js)"
  by (induction "'',''" js rule: join.induct) (auto dest: jurisdiction_chars)

lemma join_inject:
  "list_all jurisdiction xs \<Longrightarrow> list_all jurisdiction ys \<Longrightarrow> join '','' xs = join '','' ys \<Longrightarrow> xs = ys"
proof (induction xs arbitrary: ys rule: list.induct)
  case Nil
  then show ?case by (cases ys; cases "tl ys") (auto simp: jurisdiction_def)
next
  case (Cons x xs)
  then obtain y zs where ys: "ys = y # zs" by (cases xs; cases ys) (auto simp: jurisdiction_def)
  have c: "CHR '','' \<notin> set x" "CHR '','' \<notin> set y" using Cons.prems ys by (auto dest: jurisdiction_chars)
  have j: "join '','' (w # ws) = (if ws = [] then w else w @ CHR '','' # join '','' ws)" for w ws
    by (cases ws) auto
  show ?case
  proof (cases "xs = [] \<or> zs = []")
    case True
    then show ?thesis using Cons.prems(3) c ys by (auto simp: j split: if_splits)
  next
    case False
    then have "x = y" "join '','' xs = join '','' zs"
      using Cons.prems(3) c ys by (simp_all add: j split_at_char)
    then show ?thesis using Cons.IH [of zs] Cons.prems ys by simp
  qed
qed

lemma list_all_js_sort [simp]: "list_all P (js_sort cmp xs) \<longleftrightarrow> list_all P xs"
  by (simp add: list_all_iff)

lemma eligibilityKey_same:
  assumes "wf_profile a" "wf_profile b" "eligibilityKey a = eligibilityKey b"
  shows "same_profile a b"
proof -
  let ?s = "js_sort compareStrings"
  have "join '','' (?s (permitted a)) = join '','' (?s (permitted b))
      \<and> join '','' (?s (prohibited a)) = join '','' (?s (prohibited b))"
    using assms by (simp add: eligibilityKey_def split_at_char join_no_bar wf_profile_def)
  then have "?s (permitted a) = ?s (permitted b)" "?s (prohibited a) = ?s (prohibited b)"
    using assms by (auto simp: wf_profile_def intro: join_inject)
  then have "set (?s (permitted a)) = set (?s (permitted b))" "set (?s (prohibited a)) = set (?s (prohibited b))"
    by simp_all
  then show ?thesis by (simp add: same_profile_def)
qed

interpretation asset_values: claim_values canonicalAssetKey wf_asset "(=)"
  by unfold_locales (rule canonicalAssetKey_inject)

interpretation issuer_values: claim_values identityKey "\<lambda>_. True" "(=)"
  by unfold_locales (simp add: identityKey_def)

interpretation instrument_values: claim_values "name_in InstrumentType" "\<lambda>_. True" "(=)"
  by unfold_locales (rule name_inject [OF name_back(1)])

interpretation backing_values: claim_values "name_in BackingModel" "\<lambda>_. True" "(=)"
  by unfold_locales (rule name_inject [OF name_back(2)])

interpretation redemption_values: claim_values "name_in RedemptionModel" "\<lambda>_. True" "(=)"
  by unfold_locales (rule name_inject [OF name_back(3)])

interpretation right_values: claim_values "name_in RightState" "\<lambda>_. True" "(=)"
  by unfold_locales (rule name_inject [OF name_back(4)])

interpretation corporate_values: claim_values "name_in CorporateActionModel" "\<lambda>_. True" "(=)"
  by unfold_locales (rule name_inject [OF name_back(6)])

interpretation settlement_values: claim_values "name_in SettlementModel" "\<lambda>_. True" "(=)"
  by unfold_locales (rule name_inject [OF name_back(7)])

interpretation status_values: claim_values "name_in RepresentationOperationalStatus" "\<lambda>_. True" "(=)"
  by unfold_locales (rule name_inject [OF name_back(8)])

interpretation eligibility_values: claim_values eligibilityKey wf_profile same_profile
  by unfold_locales (rule eligibilityKey_same)

section \<open>Parsed records\<close>

definition wf_claim :: "('a \<Rightarrow> bool) \<Rightarrow> 'a claim \<Rightarrow> bool" where
  "wf_claim ok c \<longleftrightarrow> ok (claim_value c) \<and> valid_ident (sourceId (claim_prov c)) \<and> wf_time (observedAt (claim_prov c))"

definition wf_rep_id :: "representation_id \<Rightarrow> bool" where
  "wf_rep_id rid \<longleftrightarrow> valid_ident (ri_value rid) \<and> valid_ident (ri_chain rid) \<and> chainSegmentOf (ri_value rid) = Some (ri_chain rid)"

definition wf_registered :: "representation_record \<Rightarrow> bool" where
  "wf_registered r \<longleftrightarrow> wf_rep_id (representationId r)
   \<and> list_all (wf_claim wf_asset) (rr_underlying r)
   \<and> list_all (wf_claim valid_ident) (rr_issuer r)
   \<and> list_all (wf_claim (\<lambda>_. True)) (rr_backing r)
   \<and> list_all (wf_claim (\<lambda>_. True)) (rr_operationalStatus r)
   \<and> list_all (wf_claim wf_profile) (rr_eligibility r)"

lemma validateCanonicalAssetId_wf: "validateCanonicalAssetId v = Inr a \<Longrightarrow> wf_asset a"
  by (auto simp: validateCanonicalAssetId_def rbind_eq_Inr split: if_splits option.splits dest: parseCanonicalAssetId_wf)

lemma parse_distinct_all: "parse_distinct f key seen es = Inr xs \<Longrightarrow> \<forall>x \<in> set xs. \<exists>e. f e = Inr x"
  by (induction es arbitrary: seen xs) (auto simp: rbind_eq_Inr split: if_splits)

lemma parse_distinct_keys:
  "parse_distinct f key seen es = Inr xs \<Longrightarrow> distinct (map key xs) \<and> (\<forall>x \<in> set xs. key x \<notin> set seen)"
  by (induction es arbitrary: seen xs) (force simp: rbind_eq_Inr split: if_splits)+

lemma parseProvenance_parts:
  "parseProvenance v = Inr p \<Longrightarrow> valid_ident (sourceId p) \<and> wf_time (observedAt p)"
  by (auto simp: parseProvenance_def rbind_eq_Inr parseIdentifier_Inr parseUnixSeconds_Inr
      split: if_splits js.splits option.splits)

lemma parseClaimSet_wf:
  assumes "parseClaimSet raw f k = Inr cs" "\<And>v x. f v = Inr x \<Longrightarrow> ok x"
  shows "list_all (wf_claim ok) cs"
proof -
  obtain es out where "parse_distinct (parse_claim f) (claim_key k) [] es = Inr out" "cs = sortClaims out k"
    using assms(1) by (auto simp: parseClaimSet_def rbind_eq_Inr split: js.splits if_splits)
  moreover have "wf_claim ok c" if "parse_claim f e = Inr c" for e c
    using that assms(2) by (auto simp: parse_claim_def rbind_eq_Inr wf_claim_def dest: parseProvenance_parts split: if_splits)
  ultimately show ?thesis by (auto simp: list_all_iff dest!: parse_distinct_all)
qed

lemma enum_claims_wf: "enum_claims raw table = Inr cs \<Longrightarrow> list_all (wf_claim (\<lambda>_. True)) cs"
  unfolding enum_claims_def by (rule parseClaimSet_wf) simp_all

lemma parse_jurisdictions_wf: "parse_jurisdictions v = Inr js \<Longrightarrow> list_all jurisdiction js"
  by (fastforce simp: parse_jurisdictions_def parseJurisdiction_def jurisdiction_def list_all_iff
      dest: parse_distinct_all split: js.splits if_splits)

lemma parseEligibilityProfile_wf: "parseEligibilityProfile v = Inr p \<Longrightarrow> wf_profile p"
  by (auto simp: parseEligibilityProfile_def rbind_eq_Inr wf_profile_def dest: parse_jurisdictions_wf split: if_splits)

lemma digit_not_slash: "is_digit c \<Longrightarrow> c \<noteq> CHR ''/''"
  by (auto simp: is_digit_def)

lemma buildId_wf:
  assumes "buildId ''eip155'' ref ''erc20'' addr = Inr rid" "list_all is_digit ref" "CHR ''/'' \<notin> set addr"
  shows "wf_rep_id rid"
proof -
  have "CHR ''/'' \<notin> set ref" using assms(2) by (auto simp: list_all_iff dest: digit_not_slash)
  then have "chainSegmentOf (ri_value rid) = Some (ri_chain rid)"
    using assms(1,3) by (auto simp: buildId_def Let_def rbind_eq_Inr parseIdentifier_Inr chainSegmentOf_Some)
  then show ?thesis using assms(1) by (auto simp: buildId_def Let_def rbind_eq_Inr parseIdentifier_Inr wf_rep_id_def)
qed

lemma parseContractAddress_chars: "parseContractAddress keccak v = Inr a \<Longrightarrow> CHR ''/'' \<notin> set a"
proof -
  have hex: "CHR ''/'' \<notin> set s" if "ANY_ADDRESS s" for s
  proof -
    have "set s = set (take 2 s) \<union> set (drop 2 s)" by (metis append_take_drop_id set_append)
    moreover have "CHR ''/'' \<notin> set (take 2 s)" using that by (simp add: ANY_ADDRESS_def)
    moreover have "CHR ''/'' \<notin> set (drop 2 s)"
      using that by (auto simp: ANY_ADDRESS_def list_all_iff any_hex_def is_hex_def)
    ultimately show ?thesis by simp
  qed
  have low: "CHR ''/'' \<notin> set (toLowerCase s)" if "ANY_ADDRESS s" for s
  proof -
    have "lower_char c \<noteq> CHR ''/''" if "c \<in> set s" for c
    proof (cases "is_upper c")
      case True
      then have "(of_char (lower_char c) :: nat) = of_char c + 32"
        by (simp add: lower_char_def is_upper_def)
      with True have "(of_char (lower_char c) :: nat) \<noteq> of_char (CHR ''/'')" by (simp add: is_upper_def)
      then show ?thesis by metis
    next
      case False
      then show ?thesis using hex [OF \<open>ANY_ADDRESS s\<close>] that by (auto simp: lower_char_def)
    qed
    then have "CHR ''/'' \<notin> lower_char ` set s" by (metis imageE)
    then show ?thesis by (simp add: toLowerCase_def)
  qed
  assume "parseContractAddress keccak v = Inr a"
  then show ?thesis using hex low by (auto simp: parseContractAddress_def split: js.splits if_splits)
qed

lemma parseRepresentationId_wf:
  assumes "parseRepresentationId keccak v = Inr rid"
  shows "wf_rep_id rid"
proof -
  obtain ref addr w where "CHAIN_REFERENCE ref" "parseContractAddress keccak w = Inr addr"
    and b: "buildId ''eip155'' ref ''erc20'' addr = Inr rid"
    using assms
    by (auto simp: parseRepresentationId_def parse_structured_id_def parse_string_id_def rbind_eq_Inr
        split: js.splits if_splits list.splits)
  then show ?thesis
    by (intro buildId_wf [OF b]) (auto simp: CHAIN_REFERENCE_def dest: parseContractAddress_chars)
qed

lemma parseRepresentationRecord_wf:
  assumes "parseRepresentationRecord keccak v = Inr r"
  shows "wf_registered r"
proof -
  have "parseRepresentationId keccak (jget v ''representationId'') = Inr (representationId r)"
    and "parseClaimSet (jget v ''underlying'') parseUnderlying canonicalAssetKey = Inr (rr_underlying r)"
    and "parseClaimSet (jget v ''issuer'') parseIssuerId identityKey = Inr (rr_issuer r)"
    and "enum_claims (jget v ''backing'') BackingModel = Inr (rr_backing r)"
    and "enum_claims (jget v ''operationalStatus'') RepresentationOperationalStatus = Inr (rr_operationalStatus r)"
    and "parseClaimSet (jget v ''eligibility'') parseEligibilityProfile eligibilityKey = Inr (rr_eligibility r)"
    using assms by (auto simp: parseRepresentationRecord_def rbind_eq_Inr Let_def split: if_splits)
  then show ?thesis
    unfolding wf_registered_def
    by (auto intro: parseRepresentationId_wf parseClaimSet_wf enum_claims_wf parseEligibilityProfile_wf
        simp: parseUnderlying_def parseIssuerId_def parseIdentifier_Inr validateCanonicalAssetId_wf)
qed

section \<open>An opened registry\<close>

lemma index_representations_Some:
  "index_representations m rs = Inr m' \<Longrightarrow> m' k = Some r \<Longrightarrow>
     m k = Some r \<or> (r \<in> set rs \<and> k = ri_value (representationId r))"
  by (induction rs arbitrary: m) (fastforce simp: Let_def split: if_splits)+

lemma parse_entries_all: "parse_entries f v = Inr xs \<Longrightarrow> \<forall>x \<in> set xs. \<exists>e. f e = Inr x"
proof -
  assume "parse_entries f v = Inr xs"
  then obtain es where "rmap f es = Inr xs" by (auto simp: parse_entries_def split: js.splits if_splits)
  then show ?thesis unfolding rmap_eq_Inr by (induction rule: list_all2_induct) auto
qed

lemma parseRegistrySnapshot_records:
  "parseRegistrySnapshot keccak v = Inr s \<Longrightarrow> \<forall>r \<in> set (representations s). wf_registered r"
  by (auto simp: parseRegistrySnapshot_def rbind_eq_Inr dest!: parse_entries_all parseRepresentationRecord_wf split: if_splits)

lemma openRegistry_parts:
  assumes "openRegistry keccak raw = Inr reg"
  shows "parseRegistrySnapshot keccak raw = Inr (snapshot reg)"
    and "buildAssetIndex (assets (snapshot reg)) = Inr (assetIndex reg)"
    and "index_representations Map.empty (representations (snapshot reg)) = Inr (byRepresentationId reg)"
  using assms by (auto simp: openRegistry_def index_snapshot_def rbind_eq_Inr Let_def)

lemma registered:
  assumes "openRegistry keccak raw = Inr reg" "byRepresentationId reg k = Some r"
  shows "wf_registered r" "ri_value (representationId r) = k"
  using index_representations_Some [OF openRegistry_parts(3) [OF assms(1)] assms(2)]
    parseRegistrySnapshot_records [OF openRegistry_parts(1) [OF assms(1)]] by auto

lemma same_chain: "wf_rep_id a \<Longrightarrow> wf_rep_id b \<Longrightarrow> ri_value a = ri_value b \<Longrightarrow> ri_chain a = ri_chain b"
  by (simp add: wf_rep_id_def)

end
