(* ===== verification/Reg_Admissible.thy ===== *)
theory Reg_Admissible
  imports Reg_Parsed
begin

text \<open>
  What a decision of the registry means. Evaluation is the declarative predicate \<open>satisfies\<close>; narrowing the requirements
  only adds exclusions as long as it leaves the claims that count alone; and a representation the registry admits
  under a mandate is one the kernel's own check accepts.
\<close>

section \<open>Evaluation decides a declarative predicate\<close>

definition permitted_by :: "'a list option \<Rightarrow> ('a \<Rightarrow> bool) \<Rightarrow> bool" where
  "permitted_by allowed P \<longleftrightarrow> (case allowed of None \<Rightarrow> True | Some xs \<Rightarrow> list_ex P xs)"

definition settled_in :: "'a list option \<Rightarrow> 'a claim list \<Rightarrow> requirements \<Rightarrow> (string \<times> 'a) list \<Rightarrow> bool" where
  "settled_in allowed claims q table \<longleftrightarrow>
     (case allowed of None \<Rightarrow> True | Some xs \<Rightarrow> settled claims q (name_in table) (\<lambda>x. x \<in> set xs))"

definition active_asset :: "registry \<Rightarrow> asset_id \<Rightarrow> bool" where
  "active_asset reg a \<longleftrightarrow> (case getAsset reg a of None \<Rightarrow> False | Some r \<Rightarrow> asset_status_of r = ASSET_ACTIVE)"

definition backing_fits :: "requirements \<Rightarrow> backing_model \<Rightarrow> bool" where
  "backing_fits q b \<longleftrightarrow> \<not> (isSyntheticBacking b \<and> q_syntheticPolicy q = FORBIDDEN)
     \<and> (case q_backingModels q of None \<Rightarrow> True | Some bs \<Rightarrow> b \<in> set bs)"

definition holder_fits :: "string \<Rightarrow> eligibility_profile \<Rightarrow> bool" where
  "holder_fits h p \<longleftrightarrow> h \<in> set (permitted p) \<and> h \<notin> set (prohibited p)"

definition right_fits :: "requirements \<Rightarrow> rights_claims \<Rightarrow> required_right \<Rightarrow> bool" where
  "right_fits q rights d \<longleftrightarrow>
     settled (right_claims rights (right_kind_of d)) q (name_in RightState) (\<lambda>s. s \<in> set (acceptable d))"

definition satisfies :: "registry \<Rightarrow> requirements \<Rightarrow> representation_record \<Rightarrow> bool" where
  "satisfies reg q r \<longleftrightarrow>
     settled (rr_underlying r) q canonicalAssetKey
       (\<lambda>a. canonicalAssetKey a = canonicalAssetKey (q_canonicalAsset q) \<and> active_asset reg (q_canonicalAsset q))
   \<and> settled (rr_issuer r) q identityKey (\<lambda>i. i \<in> set (q_allowedIssuers q))
   \<and> ri_chain (representationId r) \<in> set (q_allowedChains q)
   \<and> settled (rr_backing r) q (name_in BackingModel) (backing_fits q)
   \<and> settled (rr_operationalStatus r) q (name_in RepresentationOperationalStatus) (\<lambda>s. s = STATUS_ACTIVE)
   \<and> settled_in (q_instrumentTypes q) (rr_instrumentType r) q InstrumentType
   \<and> settled_in (q_redemptionModels q) (rr_redemption r) q RedemptionModel
   \<and> settled_in (q_corporateActionModels q) (rr_corporateActionHandling r) q CorporateActionModel
   \<and> settled_in (q_settlementModels q) (rr_settlement r) q SettlementModel
   \<and> list_all (right_fits q (rr_rights r)) (q_requiredRights q)
   \<and> (case q_holderJurisdiction q of None \<Rightarrow> True
      | Some h \<Rightarrow> settled (rr_eligibility r) q eligibilityKey (holder_fits h))"

lemma check_underlying_Nil:
  "check_underlying reg q a = [] \<longleftrightarrow>
     canonicalAssetKey a = canonicalAssetKey (q_canonicalAsset q) \<and> active_asset reg (q_canonicalAsset q)"
  by (auto simp: check_underlying_def active_asset_def split: option.splits)

lemma check_backing_Nil: "check_backing q b = [] \<longleftrightarrow> backing_fits q b"
  by (auto simp: check_backing_def backing_fits_def split: option.splits)

lemma check_holder_Nil: "check_holder h p = [] \<longleftrightarrow> holder_fits h p"
  by (auto simp: check_holder_def holder_fits_def)

lemma holder_fits_same: "same_profile a b \<Longrightarrow> holder_fits h a = holder_fits h b"
  by (simp add: same_profile_def holder_fits_def)

lemma wf_claims_ok: "list_all (wf_claim ok) cs \<Longrightarrow> \<forall>c \<in> set cs. ok (claim_value c)"
  by (simp add: list_all_iff wf_claim_def)

lemma constrained_Nil:
  assumes "claim_values (name_in table) (\<lambda>_. True) (=)"
  shows "constrained allowed claims q table property refusal = [] \<longleftrightarrow> settled_in allowed claims q table"
  unfolding constrained_def settled_in_def
  by (cases allowed) (simp_all, rule claim_values.require_settled [OF assms], simp_all)

lemma check_right_Nil: "check_right q rights d = [] \<longleftrightarrow> right_fits q rights d"
  unfolding check_right_def right_fits_def Let_def by (rule right_values.require_settled) simp_all

lemmas enum_values = instrument_values.claim_values_axioms redemption_values.claim_values_axioms
  corporate_values.claim_values_axioms settlement_values.claim_values_axioms

lemma exclusions_iff_fits:
  assumes "wf_registered r" "ri_chain rid = ri_chain (representationId r)"
  shows "exclusions_of reg q rid r = [] \<longleftrightarrow> satisfies reg q r"
proof -
  have wf: "\<forall>c \<in> set (rr_underlying r). wf_asset (claim_value c)"
      "\<forall>c \<in> set (rr_eligibility r). wf_profile (claim_value c)"
    using assms(1) unfolding wf_registered_def by (blast dest: wf_claims_ok)+
  have "require (rr_underlying r) q canonicalAssetKey ''underlying'' (check_underlying reg q) = [] \<longleftrightarrow>
      settled (rr_underlying r) q canonicalAssetKey
        (\<lambda>a. canonicalAssetKey a = canonicalAssetKey (q_canonicalAsset q) \<and> active_asset reg (q_canonicalAsset q))"
    by (rule asset_values.require_settled) (use wf in \<open>simp_all add: check_underlying_Nil\<close>)
  moreover have "require (rr_issuer r) q identityKey ''issuer'' (check_issuer q) = [] \<longleftrightarrow>
      settled (rr_issuer r) q identityKey (\<lambda>i. i \<in> set (q_allowedIssuers q))"
    by (rule issuer_values.require_settled) (simp_all add: check_issuer_def)
  moreover have "require (rr_backing r) q (name_in BackingModel) ''backing'' (check_backing q) = [] \<longleftrightarrow>
      settled (rr_backing r) q (name_in BackingModel) (backing_fits q)"
    by (rule backing_values.require_settled) (simp_all add: check_backing_Nil)
  moreover have "require (rr_operationalStatus r) q (name_in RepresentationOperationalStatus) ''operationalStatus''
        check_operational = [] \<longleftrightarrow>
      settled (rr_operationalStatus r) q (name_in RepresentationOperationalStatus) (\<lambda>s. s = STATUS_ACTIVE)"
    by (rule status_values.require_settled) (simp_all add: check_operational_def)
  moreover have "require (rr_eligibility r) q eligibilityKey ''eligibility'' (check_holder h) = [] \<longleftrightarrow>
      settled (rr_eligibility r) q eligibilityKey (holder_fits h)" for h
    by (rule eligibility_values.require_settled)
      (use wf in \<open>simp_all add: check_holder_Nil holder_fits_same\<close>)
  moreover have "check_chain q rid = [] \<longleftrightarrow> ri_chain (representationId r) \<in> set (q_allowedChains q)"
    by (simp add: check_chain_def assms(2))
  moreover have "concat (map (check_right q (rr_rights r)) (q_requiredRights q)) = [] \<longleftrightarrow>
      list_all (right_fits q (rr_rights r)) (q_requiredRights q)"
    by (simp add: list_all_iff check_right_Nil)
  ultimately show ?thesis
    unfolding exclusions_of_def satisfies_def append_is_Nil_conv constrained_Nil [OF enum_values(1)]
      constrained_Nil [OF enum_values(2)] constrained_Nil [OF enum_values(3)] constrained_Nil [OF enum_values(4)]
    by (simp split: option.splits)
qed

lemma first_by_key_prefix: "\<exists>ys. first_exclusions seen es = seen @ ys \<and> snd ` set ys \<subseteq> set es"
proof (induction es arbitrary: seen)
  case Nil
  then show ?case by simp
next
  case (Cons e es)
  define seen' where "seen' = (if exclusion_key e \<in> set (map fst seen) then seen else seen @ [(exclusion_key e, e)])"
  obtain ys where ys: "first_exclusions seen' es = seen' @ ys" "snd ` set ys \<subseteq> set es" using Cons.IH by blast
  have "first_exclusions seen (e # es) = first_exclusions seen' es" by (simp add: seen'_def)
  then show ?case
    using ys by (intro exI [of _ "drop (length seen) seen' @ ys"]) (auto simp: seen'_def)
qed

lemma canonical_exclusions_Nil [simp]: "canonical_exclusions es = [] \<longleftrightarrow> es = []"
proof -
  have "js_sort cmp xs = [] \<longleftrightarrow> xs = []" for cmp and xs :: "(string \<times> exclusion) list"
    by (metis length_0_conv length_js_sort)
  moreover have "first_exclusions [] es = [] \<longleftrightarrow> es = []"
    using first_by_key_prefix [of "[(exclusion_key (hd es), hd es)]" "tl es"] by (cases es) auto
  ultimately show ?thesis by (simp add: canonical_exclusions_def)
qed

lemma canonical_exclusions_sub: "set (canonical_exclusions es) \<subseteq> set es"
  using first_by_key_prefix [of "[]" es] by (auto simp: canonical_exclusions_def)

text \<open>The decision on a registered representation.\<close>

lemma decide_admissible: "decide reg q rid r = ADMISSIBLE rid' \<longleftrightarrow> rid' = rid \<and> exclusions_of reg q rid r = []"
  by (auto simp: decide_def Let_def)

lemma evaluate_admissible:
  assumes "openRegistry keccak raw = Inr reg"
  shows "evaluateRepresentation keccak reg q x = ADMISSIBLE rid \<longleftrightarrow>
     parseRepresentationId keccak x = Inr rid \<and> (\<exists>r. byRepresentationId reg (ri_value rid) = Some r \<and> satisfies reg q r)"
proof -
  have "ri_chain rid' = ri_chain (representationId r)"
    if "parseRepresentationId keccak x = Inr rid'" "byRepresentationId reg (ri_value rid') = Some r" for rid' r
    using that registered [OF assms that(2)] same_chain parseRepresentationId_wf
    by (metis wf_registered_def)
  then show ?thesis
    using exclusions_iff_fits registered(1) [OF assms]
    by (auto simp: evaluateRepresentation_def decide_admissible split: sum.splits option.splits)
qed

end
