(* ===== verification/Route_Selected.thy ===== *)
theory Route_Selected
  imports Route_Ranked Reg_Admissible Samples
begin

text \<open>
  The two stages as a whole: the evaluation admits exactly the routes that the registry and the verifier admit, ranked;
  a selected route passes the kernel's rule on the state it was evaluated on and again on the fresh state.
\<close>

section \<open>Evaluation\<close>

text \<open>The inputs of an accepted request.\<close>

definition parsed_request :: "(u8 list \<Rightarrow> u8 list) \<Rightarrow> js \<Rightarrow> route_inputs \<Rightarrow> provider_quote list \<Rightarrow> bool" where
  "parsed_request keccak request i quotes \<longleftrightarrow> (\<exists>r. r = (if is_plain_object request then request else JObj [])
     \<and> parseMandate (jget r ''mandate'') = Inr (in_mandate i)
     \<and> parseAuthorizationEnvelope (jget r ''authorization'') = Inr (in_authorization i)
     \<and> parseTrustedState (jget r ''trustedMarketState'') = Inr (in_trustedState i)
     \<and> parseClock (jget r ''clock'') = Inr (in_clock i) \<and> parseEip712Domain (jget r ''expectedDomain'') = Inr (in_domain i)
     \<and> parseAmount (jget r ''requestedQuantity'') = Inr (in_quantity i)
     \<and> parseProviderRouteSet (jget r ''routes'') = Inr quotes
     \<and> parseTrustedRouteCosts (jget r ''trustedCosts'') = Inr (in_costs i)
     \<and> openRegistry keccak (if is_plain_object (jget r ''registry'') then jget (jget r ''registry'') ''snapshot'' else JUndef)
         = Inr (in_registry i)
     \<and> registrySnapshotDigest keccak (snapshot (in_registry i)) = Some (in_snapshotDigest i))"

lemma evaluateRoutes_inputs:
  assumes "evaluateRoutes keccak (Some verifier) request = Some (Inr e)"
  obtains i quotes where "parsed_request keccak request i quotes" "evaluate_inputs keccak verifier i quotes = Some (Inr e)"
proof -
  define r where "r = (if is_plain_object request then request else JObj [])"
  define raw where "raw = jget r ''registry''"
  note ev = assms [unfolded evaluateRoutes_def Let_def option.case, folded r_def, folded raw_def]
  obtain m where 1: "parseMandate (jget r ''mandate'') = Inr m"
    using ev by (cases "parseMandate (jget r ''mandate'')") simp_all
  obtain a where 2: "parseAuthorizationEnvelope (jget r ''authorization'') = Inr a"
    using ev by (cases "parseAuthorizationEnvelope (jget r ''authorization'')") (simp_all add: 1)
  obtain s where 3: "parseTrustedState (jget r ''trustedMarketState'') = Inr s"
    using ev by (cases "parseTrustedState (jget r ''trustedMarketState'')") (simp_all add: 1 2)
  obtain now where 4: "parseClock (jget r ''clock'') = Inr now"
    using ev by (cases "parseClock (jget r ''clock'')") (simp_all add: 1 2 3)
  obtain d where 5: "parseEip712Domain (jget r ''expectedDomain'') = Inr d"
    using ev by (cases "parseEip712Domain (jget r ''expectedDomain'')") (simp_all add: 1 2 3 4)
  obtain qty where 6: "parseAmount (jget r ''requestedQuantity'') = Inr qty"
    using ev by (cases "parseAmount (jget r ''requestedQuantity'')") (simp_all add: 1 2 3 4 5)
  obtain qs where 7: "parseProviderRouteSet (jget r ''routes'') = Inr qs"
    using ev by (cases "parseProviderRouteSet (jget r ''routes'')") (simp_all add: 1 2 3 4 5 6)
  obtain cs where 8: "parseTrustedRouteCosts (jget r ''trustedCosts'') = Inr cs"
    using ev by (cases "parseTrustedRouteCosts (jget r ''trustedCosts'')") (simp_all add: 1 2 3 4 5 6 7)
  let ?raw = "if is_plain_object raw then jget raw ''snapshot'' else JUndef"
  obtain rg where 9: "openRegistry keccak ?raw = Inr rg"
    using ev unfolding 1 2 3 4 5 6 7 8 by (cases "openRegistry keccak ?raw") simp_all
  obtain gd where 10: "registrySnapshotDigest keccak (snapshot rg) = Some gd"
    and e: "evaluate_inputs keccak verifier \<lparr>in_mandate = m, in_authorization = a, in_trustedState = s, in_clock = now,
        in_domain = d, in_quantity = qty, in_costs = cs, in_registry = rg, in_snapshotDigest = gd\<rparr> qs = Some (Inr e)"
    using ev unfolding 1 2 3 4 5 6 7 8 9 by (auto simp: obind_Some)
  show thesis
    by (rule that [OF _ e], unfold parsed_request_def, rule exI [of _ r])
      (simp only: r_def [symmetric] raw_def [symmetric] 1 2 3 4 5 6 7 8 9 10 route_inputs.simps simp_thms)
qed

definition requirements_of :: "route_inputs \<Rightarrow> requirements \<Rightarrow> bool" where
  "requirements_of i q \<longleftrightarrow>
     deriveRequirements (in_mandate i) \<lparr>ctx_now = in_clock i, ctx_maxClaimAge = None, ctx_minimumTrust = None\<rparr> = Inr q"

lemma evaluate_inputs_Inr:
  assumes "evaluate_inputs keccak verifier i quotes = Some (Inr e)"
  obtains q outs routes where "s_registrySnapshotDigest (in_trustedState i) = Some (in_snapshotDigest i)"
    "requirements_of i q" "judge_quotes keccak verifier i q [] quotes = Some (Inr (outs, routes))"
    "ev_context e = context_for i" "ev_admissible e = js_sort (compareRanked (m_side (in_mandate i))) routes"
    "ev_outcomes e = js_sort compare_outcomes outs"
  using assms unfolding evaluate_inputs_def requirements_of_def
  by (auto simp: rbind_eq_Inr split: option.splits if_splits sum.splits)

text \<open>What an evaluation is, without the loop.\<close>

lemma evaluated:
  assumes "evaluateRoutes keccak (Some verifier) request = Some (Inr e)"
  obtains i quotes q where "parsed_request keccak request i quotes" "requirements_of i q" "ev_context e = context_for i"
    "s_registrySnapshotDigest (in_trustedState i) = Some (in_snapshotDigest i)"
    "\<And>a. a \<in> set (ev_admissible e) \<longleftrightarrow> (\<exists>quote \<in> set quotes. admits keccak verifier i q quote a)"
    "distinct (map route_digest (ev_admissible e))"
    "set (map outcome_id (ev_outcomes e)) = set (map pq_routeId quotes)" "length (ev_outcomes e) = length quotes"
    "\<exists>routes. ev_admissible e = js_sort (compareRanked (m_side (in_mandate i))) routes"
proof -
  obtain i quotes where p: "parsed_request keccak request i quotes"
    and ev: "evaluate_inputs keccak verifier i quotes = Some (Inr e)"
    using evaluateRoutes_inputs [OF assms] .
  obtain q outs routes where snap: "s_registrySnapshotDigest (in_trustedState i) = Some (in_snapshotDigest i)"
    and req: "requirements_of i q" and j: "judge_quotes keccak verifier i q [] quotes = Some (Inr (outs, routes))"
    and e: "ev_context e = context_for i" "ev_admissible e = js_sort (compareRanked (m_side (in_mandate i))) routes"
      "ev_outcomes e = js_sort compare_outcomes outs"
    using evaluate_inputs_Inr [OF ev] .
  note J = judge_quotes_Inr [OF j]
  have inj: "inj_on route_digest (set routes)" "distinct routes" using J(3) by (simp_all add: distinct_map)
  have ids: "set (map outcome_id (ev_outcomes e)) = set (map pq_routeId quotes)" "length (ev_outcomes e) = length quotes"
    using arg_cong [OF J(1), of set] arg_cong [OF J(1), of length] by (simp_all add: e(3))
  show thesis
    by (rule that [OF p req e(1) snap _ _ ids]) (use J(2) inj e(2) in \<open>auto simp: distinct_map\<close>)
qed

section \<open>Selection\<close>

lemma resolve_Inr:
  assumes "resolveValidatedHandoff keccak handoff cx = Some (Inr (s, now))"
  shows "parseTrustedState (jget handoff ''trustedMarketState'') = Inr s" "parseClock (jget handoff ''clock'') = Inr now"
    and "cx_clock cx \<le> now" "s_registrySnapshotDigest s = registrySnapshotDigest keccak (snapshot (cx_registry cx))"
  using assms unfolding resolveValidatedHandoff_def
  by (auto simp: obind_Some split: if_splits sum.splits option.splits)

lemma index_in_Some: "index_in index n = Some k \<Longrightarrow> k < n"
  by (cases index) (auto split: if_splits)

definition fresh_request :: "routing_context \<Rightarrow> candidate \<Rightarrow> trusted_state \<Rightarrow> int \<Rightarrow> verify_request" where
  "fresh_request cx c s now = \<lparr>vr_mandate = cx_mandate cx, vr_authorization = cx_authorization cx, vr_candidate = c,
     vr_trustedState = s, vr_clock = now, vr_expectedDomain = cx_expectedDomain cx\<rparr>"

lemma finishReceipt_fields:
  assumes "finishReceipt keccak cx outs ranked sel final hd' at' = Some r"
  shows "rr_outcomes r = outs \<and> rr_rankedCandidateDigests r = ranked \<and> rr_selectedCandidateDigest r = sel
    \<and> rr_finalVerificationReceiptDigest r = final \<and> rr_handoffStateDigest r = hd' \<and> rr_handoffAt r = at'
    \<and> rr_evaluatedAt r = cx_clock cx \<and> rr_requestedQuantity r = cx_requestedQuantity cx"
  using assms unfolding finishReceipt_def
  by (auto simp: obind_Some Let_def unsigned_receipt.defs routing_receipt.defs)

text \<open>What the receipt of a selection names.\<close>

definition receipt_names :: "routing_evaluation \<Rightarrow> routing_candidate \<Rightarrow> receipt \<Rightarrow> int \<Rightarrow> routing_receipt \<Rightarrow> bool" where
  "receipt_names e c final now r \<longleftrightarrow> rr_outcomes r = ev_outcomes e
     \<and> rr_rankedCandidateDigests r = map (rc_candidateDigest \<circ> ar_candidate) (ev_admissible e)
     \<and> rr_selectedCandidateDigest r = Some (rc_candidateDigest c)
     \<and> rr_finalVerificationReceiptDigest r = Some (receiptDigest final) \<and> rr_handoffAt r = Some now
     \<and> rr_evaluatedAt r = cx_clock (ev_context e)"

lemma selected:
  assumes "selectValidatedEvaluation keccak verifier e index handoff = Some (SELECTED c final receipt')"
  obtains k s now where "k < length (ev_admissible e)" "c = ar_candidate (ev_admissible e ! k)"
    "index_in index (length (ev_admissible e)) = Some k"
    "resolveValidatedHandoff keccak handoff (ev_context e) = Some (Inr (s, now))"
    "verifier (fresh_request (ev_context e) (rc_executionCandidate c) s now) = Some final" "decision_of final = PASS"
    "receipt_names e c final now receipt'"
proof (cases "resolveValidatedHandoff keccak handoff (ev_context e)")
  case None
  then show thesis using assms by (simp add: selectValidatedEvaluation_def obind_def)
next
  case (Some resolved)
  show thesis
  proof (cases resolved)
    case (Inl es)
    then show thesis using assms Some by (simp add: selectValidatedEvaluation_def obind_def)
  next
    case (Inr sn)
    obtain s now where sn: "sn = (s, now)" by (cases sn)
    note r = Some [unfolded Inr sn]
    obtain hd' where hd': "trustedStateDigest keccak s = Some hd'"
      using assms by (cases "trustedStateDigest keccak s") (simp_all add: selectValidatedEvaluation_def r obind_def)
    note S = assms [unfolded selectValidatedEvaluation_def r obind_def option.case sum.case prod.case Let_def hd']
    have ne: "length (ev_admissible e) \<noteq> 0" using S by (cases "length (ev_admissible e) = 0") auto
    obtain k where k: "index_in index (length (ev_admissible e)) = Some k"
      using S ne by (cases "index_in index (length (ev_admissible e))") simp_all
    let ?a = "ev_admissible e ! k"
    obtain v where v: "verifier (fresh_request (ev_context e) (rc_executionCandidate (ar_candidate ?a)) s now) = Some v"
      using S ne k by (cases "verifier (fresh_request (ev_context e) (rc_executionCandidate (ar_candidate ?a)) s now)")
        (simp_all add: fresh_request_def)
    have parts: "c = ar_candidate ?a \<and> final = v \<and> decision_of v = PASS \<and> receipt_names e c v now receipt'"
      using S ne k v [unfolded fresh_request_def]
      by (cases "decision_of v") (auto simp: receipt_names_def dest: finishReceipt_fields)
    then have c: "c = ar_candidate ?a" by blast
    show thesis by (rule that [OF index_in_Some [OF k] c k r]) (use v parts in auto)
  qed
qed

section \<open>With the kernel's verifier\<close>

lemma js_verify_request_eq:
  "js_verify_request r = js_request (vr_mandate r) (vr_authorization r) (vr_candidate r) (vr_trustedState r) (vr_clock r)
     (vr_expectedDomain r)"
  by (simp add: js_verify_request_def js_request_def)

lemma kernel_verifier_pass:
  assumes "kernel_verifier keccak recover n r = Some v" "decision_of v = PASS"
    and "wf_mandate (vr_mandate r)" "wf_envelope (vr_authorization r)" "wf_candidate (vr_candidate r)"
      "wf_state (vr_trustedState r)" "wf_time (vr_clock r)" "wf_domain (vr_expectedDomain r)"
  shows "admissible keccak recover n (context_of keccak (vr_mandate r) (vr_authorization r) (vr_candidate r)
     (vr_trustedState r) (vr_clock r) (vr_expectedDomain r))"
  using verify_pass_iff [OF assms(1) [unfolded kernel_verifier_def]] assms(2)
    request_context_js [OF assms(3-8), of keccak] unfolding js_verify_request_eq by simp

lemma parsed_wf:
  assumes "parsed_request keccak request i quotes"
  shows "wf_mandate (in_mandate i)" "wf_envelope (in_authorization i)" "wf_state (in_trustedState i)"
    "wf_time (in_clock i)" "wf_domain (in_domain i)"
  using assms unfolding parsed_request_def
  by (auto dest: parseMandate_wf parseAuthorizationEnvelope_wf parseTrustedState_wf parseClock_wf parseEip712Domain_wf)

text \<open>An admitted route, in the kernel's terms.\<close>

lemma admits_kernel:
  assumes "admits keccak (kernel_verifier keccak recover n) i q quote a" "parsed_request keccak request i quotes"
  shows "offers keccak (in_mandate i) quote (in_trustedState i) (in_costs i (pq_routeId quote)) (in_quantity i) (in_clock i)
      (in_snapshotDigest i) (ar_candidate a) (ar_quality a)"
    and "wf_candidate (rc_executionCandidate (ar_candidate a))"
    and "admissible keccak recover n (context_of keccak (in_mandate i) (in_authorization i)
      (rc_executionCandidate (ar_candidate a)) (in_trustedState i) (in_clock i) (in_domain i))"
proof -
  show o: "offers keccak (in_mandate i) quote (in_trustedState i) (in_costs i (pq_routeId quote)) (in_quantity i) (in_clock i)
      (in_snapshotDigest i) (ar_candidate a) (ar_quality a)"
    using assms(1) build_offers unfolding admits_def by blast
  then show wf: "wf_candidate (rc_executionCandidate (ar_candidate a))" unfolding offers_def by blast
  have "kernel_verifier keccak recover n (request_for i (rc_executionCandidate (ar_candidate a))) = Some (ar_receipt a)"
      "decision_of (ar_receipt a) = PASS"
    using assms(1) unfolding admits_def by blast+
  from kernel_verifier_pass [OF this] show "admissible keccak recover n (context_of keccak (in_mandate i) (in_authorization i)
      (rc_executionCandidate (ar_candidate a)) (in_trustedState i) (in_clock i) (in_domain i))"
    using parsed_wf [OF assms(2)] wf by (simp add: request_for_def)
qed

lemma admissible_unit:
  "admissible keccak recover n (context_of keccak m z c s now d) \<Longrightarrow> unit (c_notional c) = unit (m_maxNotional m)"
  by (simp add: admissible_def context_of_def within_max_notional_def Let_def)

text \<open>
  What the router promises of a route: the registry's record of the quoted representation satisfies the requirements of the
  mandate, the candidate says what the quote offers, and the kernel's rule holds of it.
\<close>

definition sound_route ::
    "(u8 list \<Rightarrow> u8 list) \<Rightarrow> recovery \<Rightarrow> int \<Rightarrow> route_inputs \<Rightarrow> requirements \<Rightarrow> provider_quote \<Rightarrow> admissible_route \<Rightarrow> bool" where
  "sound_route keccak recover n i q quote a \<longleftrightarrow>
     (\<exists>rid r. parseRepresentationId keccak (JStr (pq_representationId quote)) = Inr rid
        \<and> byRepresentationId (in_registry i) (ri_value rid) = Some r \<and> satisfies (in_registry i) q r)
   \<and> offers keccak (in_mandate i) quote (in_trustedState i) (in_costs i (pq_routeId quote)) (in_quantity i) (in_clock i)
       (in_snapshotDigest i) (ar_candidate a) (ar_quality a)
   \<and> admissible keccak recover n (context_of keccak (in_mandate i) (in_authorization i)
       (rc_executionCandidate (ar_candidate a)) (in_trustedState i) (in_clock i) (in_domain i))"

lemma admits_sound:
  assumes "admits keccak (kernel_verifier keccak recover n) i q quote a" "parsed_request keccak request i quotes"
  shows "sound_route keccak recover n i q quote a"
proof -
  obtain raw where "openRegistry keccak raw = Inr (in_registry i)" using assms(2) unfolding parsed_request_def by blast
  moreover obtain rid where "evaluateRepresentation keccak (in_registry i) q (JStr (pq_representationId quote)) = ADMISSIBLE rid"
    using assms(1) unfolding admits_def by blast
  ultimately have "\<exists>rid r. parseRepresentationId keccak (JStr (pq_representationId quote)) = Inr rid
      \<and> byRepresentationId (in_registry i) (ri_value rid) = Some r \<and> satisfies (in_registry i) q r"
    using evaluate_admissible by metis
  then show ?thesis using admits_kernel [OF assms] unfolding sound_route_def by blast
qed

lemma sound_unit:
  assumes "sound_route keccak recover n i q quote a"
  shows "unit (economicValue (ar_quality a)) = unit (m_maxNotional (in_mandate i))"
proof -
  have "unit (economicValue (ar_quality a)) = unit (c_notional (rc_executionCandidate (ar_candidate a)))"
    using assms unfolding sound_route_def offers_def by (auto simp: quoted_candidate_def)
  then show ?thesis using assms admissible_unit unfolding sound_route_def by metis
qed

lemma evaluated_kernel:
  assumes "evaluateRoutes keccak (Some (kernel_verifier keccak recover n)) request = Some (Inr e)"
  obtains i quotes q where "parsed_request keccak request i quotes" "requirements_of i q" "ev_context e = context_for i"
    "s_registrySnapshotDigest (in_trustedState i) = Some (in_snapshotDigest i)"
    "\<forall>a \<in> set (ev_admissible e). \<exists>quote \<in> set quotes. sound_route keccak recover n i q quote a"
    "sorted_wrt (ranks_before (m_side (in_mandate i))) (ev_admissible e)"
proof (rule evaluated [OF assms])
  fix i quotes q
  assume p: "parsed_request keccak request i quotes" "requirements_of i q" "ev_context e = context_for i"
      "s_registrySnapshotDigest (in_trustedState i) = Some (in_snapshotDigest i)"
    and a: "\<And>a. a \<in> set (ev_admissible e) \<longleftrightarrow> (\<exists>quote \<in> set quotes. admits keccak (kernel_verifier keccak recover n) i q quote a)"
    and s: "\<exists>routes. ev_admissible e = js_sort (compareRanked (m_side (in_mandate i))) routes"
  have sound: "\<forall>a \<in> set (ev_admissible e). \<exists>quote \<in> set quotes. sound_route keccak recover n i q quote a"
    using a admits_sound [OF _ p(1)] by blast
  obtain routes where r: "ev_admissible e = js_sort (compareRanked (m_side (in_mandate i))) routes" using s by blast
  have "set routes = set (ev_admissible e)" by (simp add: r)
  then have "unit (economicValue (ar_quality a)) = unit (m_maxNotional (in_mandate i))" if "a \<in> set routes" for a
    using that sound sound_unit by blast
  from ranked_sorted [OF this] have "sorted_wrt (ranks_before (m_side (in_mandate i))) (ev_admissible e)" by (simp add: r)
  then show thesis using that p sound by blast
qed

text \<open>A routed candidate: the first of the ranking, and admissible on the evaluated state and on the fresh one.\<close>

lemma route_selected:
  assumes "route keccak (Some verifier) request handoff = Some (SELECTED c final receipt')"
  obtains e s now where "evaluateRoutes keccak (Some verifier) request = Some (Inr e)" "ev_admissible e \<noteq> []"
    "c = ar_candidate (hd (ev_admissible e))" "resolveValidatedHandoff keccak handoff (ev_context e) = Some (Inr (s, now))"
    "verifier (fresh_request (ev_context e) (rc_executionCandidate c) s now) = Some final" "decision_of final = PASS"
    "receipt_names e c final now receipt'"
proof -
  obtain e where e: "evaluateRoutes keccak (Some verifier) request = Some (Inr e)"
      "selectValidatedEvaluation keccak verifier e (Safe_integer 0) handoff = Some (SELECTED c final receipt')"
  proof -
    obtain x where x: "evaluateRoutes keccak (Some verifier) request = Some x"
      using assms unfolding route_def by (auto simp: obind_Some)
    then show thesis using assms that by (cases x) (simp_all add: route_def obind_def selectEvaluated_def)
  qed
  from selected [OF e(2)] show thesis
  proof cases
    case (1 k s now)
    then have "k = 0" by (simp split: if_splits)
    with 1 e(1) show thesis by (intro that) (auto simp: hd_conv_nth)
  qed
qed

end
