(* ===== verification/Reg_Narrowing.thy ===== *)
theory Reg_Narrowing
  imports Reg_Admissible
begin

text \<open>
  Narrowing of requirements. A stricter trust floor or a shorter claim age leaves fewer usable claims, everything else
  asks for more; so what satisfies the narrowed requirements satisfies the original ones, unless claims that no longer count
  disagreed with the others.
\<close>

definition conflict_only :: "exclusion list \<Rightarrow> bool" where
  "conflict_only es \<longleftrightarrow> list_all (\<lambda>e. ex_code e = RegistryCode REPRESENTATION_METADATA_CONFLICT) es"

lemma conflict_only_append [simp]: "conflict_only (xs @ ys) \<longleftrightarrow> conflict_only xs \<and> conflict_only ys"
  by (simp add: conflict_only_def)

lemma conflict_only_Nil [simp]: "conflict_only []"
  by (simp add: conflict_only_def)

lemma conflict_only_concat: "conflict_only (concat xss) \<longleftrightarrow> list_all conflict_only xss"
  by (induction xss) simp_all

lemma require_disagreement: "\<not> agreed claims q keyOf \<Longrightarrow> conflict_only (require claims q keyOf property check)"
  using resolve_disagreement [of claims q keyOf]
  by (auto simp: require_def establish_def conflict_only_def exclusion_of_def)

section \<open>One property\<close>

context claim_values
begin

lemma require_narrowed:
  assumes "\<forall>c \<in> set claims. ok (claim_value c)" "\<And>a b. same a b \<Longrightarrow> P a = P b" "\<And>v. check v = [] \<longleftrightarrow> P v"
    and "settled claims q keyOf Q" "\<And>c :: 'a claim. usable q c \<Longrightarrow> usable q' c" "\<And>v. Q v \<Longrightarrow> P v"
  shows "conflict_only (require claims q' keyOf property check)"
proof (cases "agreed claims q' keyOf")
  case True
  have "settled claims q' keyOf P" by (rule settled_mono [OF assms(1,2,4,5,6) True])
  then have "require claims q' keyOf property check = []" using require_settled [where P = P and check = check, OF assms(1-3)] by blast
  then show ?thesis by simp
next
  case False
  then show ?thesis by (rule require_disagreement)
qed

end

lemma constrained_narrowed:
  assumes "claim_values (name_in table) (\<lambda>_. True) (=)" "settled_in allowed' claims q table"
    and "\<And>c :: 'a claim. usable q c \<Longrightarrow> usable q' c"
    and "\<And>xs. allowed = Some xs \<Longrightarrow> \<exists>ys. allowed' = Some ys \<and> set ys \<subseteq> set xs"
  shows "conflict_only (constrained allowed (claims :: 'a claim list) q' table property refusal)"
proof (cases allowed)
  case None
  then show ?thesis by (simp add: constrained_def)
next
  case (Some xs)
  then obtain ys where ys: "allowed' = Some ys" "set ys \<subseteq> set xs" using assms(4) by blast
  have "settled claims q (name_in table) (\<lambda>x. x \<in> set ys)" using assms(2) ys by (simp add: settled_in_def)
  then show ?thesis
    unfolding constrained_def Some option.case
    by (rule claim_values.require_narrowed [OF assms(1), rotated 3]) (use assms(3) ys in auto)
qed

section \<open>What narrowing does to requirements\<close>

lemma meetsTrustFloor_trans: "meetsTrustFloor a b \<Longrightarrow> meetsTrustFloor b c \<Longrightarrow> meetsTrustFloor a c"
  by (auto simp: meetsTrustFloor_def split: option.splits)

lemma intersectOrAdopt_sub:
  "base = Some xs \<Longrightarrow> \<exists>ys. intersectOrAdopt base extra = Some ys \<and> set ys \<subseteq> set xs"
  by (cases extra) (auto simp: intersectOrAdopt_def)

lemma narrow_identifiers_sub: "narrow_identifiers base extra = Inr xs \<Longrightarrow> x \<in> set xs \<Longrightarrow> x \<in> set base"
  by (auto simp: narrow_identifiers_def rbind_eq_Inr split: option.splits)

definition at_least :: "required_right \<Rightarrow> required_right \<Rightarrow> bool" where
  "at_least d d' \<longleftrightarrow> right_kind_of d' = right_kind_of d \<and> set (acceptable d') \<subseteq> set (acceptable d)"

lemma add_right_keeps: "d \<in> set ds \<Longrightarrow> \<exists>d' \<in> set (add_right ds r). at_least d d'"
  by (induction ds) (auto simp: at_least_def)

lemma add_rights_keep: "d \<in> set ds \<Longrightarrow> \<exists>d' \<in> set (foldl add_right ds rs). at_least d d'"
proof (induction rs arbitrary: d ds)
  case Nil
  then show ?case by (auto simp: at_least_def)
next
  case (Cons r rs)
  obtain e where e: "e \<in> set (add_right ds r)" "at_least d e" using add_right_keeps [OF Cons.prems] by blast
  from Cons.IH [OF e(1)] obtain d' where "d' \<in> set (foldl add_right (add_right ds r) rs)" "at_least e d'" by blast
  with e(2) show ?case by (auto simp: at_least_def intro!: bexI [of _ d'])
qed

lemma narrow_rights_keep: "d \<in> set base \<Longrightarrow> \<exists>d' \<in> set (narrow_rights base extra). at_least d d'"
  using add_rights_keep [of d base] by (simp add: narrow_rights_def)

lemma narrowRequirements_parts:
  assumes "narrowRequirements base extra = Inr q"
  shows "q_canonicalAsset q = q_canonicalAsset base" "q_now q = q_now base"
    and "set (q_allowedIssuers q) \<subseteq> set (q_allowedIssuers base)"
    and "set (q_allowedChains q) \<subseteq> set (q_allowedChains base)"
    and "q_syntheticPolicy base = FORBIDDEN \<Longrightarrow> q_syntheticPolicy q = FORBIDDEN"
    and "narrow_trust (q_minimumTrust base) (ar_minimumTrust extra) = Inr (q_minimumTrust q)"
    and "narrow_age (q_maxClaimAge base) (ar_maxClaimAge extra) = Inr (q_maxClaimAge q)"
    and "narrow_jurisdiction (q_holderJurisdiction base) (ar_holderJurisdiction extra) = Inr (q_holderJurisdiction q)"
    and "q_instrumentTypes q = intersectOrAdopt (q_instrumentTypes base) (ar_instrumentTypes extra)"
    and "q_backingModels q = intersectOrAdopt (q_backingModels base) (ar_backingModels extra)"
    and "q_redemptionModels q = intersectOrAdopt (q_redemptionModels base) (ar_redemptionModels extra)"
    and "q_corporateActionModels q = intersectOrAdopt (q_corporateActionModels base) (ar_corporateActionModels extra)"
    and "q_settlementModels q = intersectOrAdopt (q_settlementModels base) (ar_settlementModels extra)"
    and "q_requiredRights q = narrow_rights (q_requiredRights base) (ar_requiredRights extra)"
  using assms unfolding narrowRequirements_def rbind_eq_Inr
  by (auto dest: narrow_identifiers_sub)

lemma narrowed_trust:
  "narrowRequirements base extra = Inr q \<Longrightarrow>
     q_minimumTrust q = q_minimumTrust base \<or> meetsTrustFloor (q_minimumTrust q) (q_minimumTrust base)"
  by (drule narrowRequirements_parts(6)) (auto simp: narrow_trust_def split: option.splits if_splits)

lemma narrowed_usable:
  assumes "narrowRequirements base extra = Inr q" "usable q c"
  shows "usable base c"
proof -
  have floor_ok: "meetsTrustFloor (trustClass (claim_prov c)) (q_minimumTrust q)"
    using assms(2) by (simp add: usable_def at_floor_def claimPolicyOf_def)
  have "meetsTrustFloor (trustClass (claim_prov c)) (q_minimumTrust base)"
    using narrowed_trust [OF assms(1)] floor_ok meetsTrustFloor_trans by metis
  moreover have "fresh_claim (claimPolicyOf base) c"
    using assms(2) narrowRequirements_parts(2,7) [OF assms(1)]
    by (auto simp: usable_def fresh_claim_def claimPolicyOf_def narrow_age_def Let_def split: option.splits if_splits)
  ultimately show ?thesis by (simp add: usable_def at_floor_def claimPolicyOf_def)
qed

lemma narrowed_backing:
  assumes "narrowRequirements base extra = Inr q" "backing_fits q b"
  shows "backing_fits base b"
proof -
  have "b \<in> set xs" if xs: "q_backingModels base = Some xs" for xs
  proof -
    obtain ys where "q_backingModels q = Some ys" "set ys \<subseteq> set xs"
      using intersectOrAdopt_sub [OF xs] narrowRequirements_parts(10) [OF assms(1)] by metis
    then show ?thesis using assms(2) by (auto simp: backing_fits_def)
  qed
  moreover have "\<not> (isSyntheticBacking b \<and> q_syntheticPolicy base = FORBIDDEN)"
    using assms(2) narrowRequirements_parts(5) [OF assms(1)] by (auto simp: backing_fits_def)
  ultimately show ?thesis by (auto simp: backing_fits_def split: option.splits)
qed

lemma narrowed_holder:
  "narrowRequirements base extra = Inr q \<Longrightarrow> q_holderJurisdiction base = Some h \<Longrightarrow> q_holderJurisdiction q = Some h"
  using narrowRequirements_parts(8) [of base extra q]
  by (auto simp: narrow_jurisdiction_def rbind_eq_Inr split: option.splits if_splits)

section \<open>The whole evaluation\<close>

lemma narrowed_exclusions:
  assumes wf: "wf_registered r" and chain: "ri_chain rid = ri_chain (representationId r)"
    and narrow: "narrowRequirements base extra = Inr q" and fit: "satisfies reg q r"
  shows "conflict_only (exclusions_of reg base rid r)"
proof -
  note parts = narrowRequirements_parts [OF narrow] and use' = narrowed_usable [OF narrow]
  note satisfies = fit [unfolded satisfies_def]
  have wfs: "\<forall>c \<in> set (rr_underlying r). wf_asset (claim_value c)"
      "\<forall>c \<in> set (rr_eligibility r). wf_profile (claim_value c)"
    using wf unfolding wf_registered_def by (blast dest: wf_claims_ok)+
  have "conflict_only (require (rr_underlying r) base canonicalAssetKey ''underlying'' (check_underlying reg base))"
    by (rule asset_values.require_narrowed [where q = q
          and P = "\<lambda>a. canonicalAssetKey a = canonicalAssetKey (q_canonicalAsset base) \<and> active_asset reg (q_canonicalAsset base)"
          and Q = "\<lambda>a. canonicalAssetKey a = canonicalAssetKey (q_canonicalAsset q) \<and> active_asset reg (q_canonicalAsset q)"])
      (use satisfies parts(1) use' wfs in \<open>auto simp: check_underlying_Nil\<close>)
  moreover have "conflict_only (require (rr_issuer r) base identityKey ''issuer'' (check_issuer base))"
    by (rule issuer_values.require_narrowed [where P = "\<lambda>i. i \<in> set (q_allowedIssuers base)"
          and Q = "\<lambda>i. i \<in> set (q_allowedIssuers q)" and q = q])
      (use satisfies parts(3) use' in \<open>auto simp: check_issuer_def\<close>)
  moreover have "conflict_only (require (rr_backing r) base (name_in BackingModel) ''backing'' (check_backing base))"
    by (rule backing_values.require_narrowed [where P = "backing_fits base" and Q = "backing_fits q" and q = q])
      (use satisfies use' narrowed_backing [OF narrow] in \<open>auto simp: check_backing_Nil\<close>)
  moreover have "conflict_only (require (rr_operationalStatus r) base (name_in RepresentationOperationalStatus)
      ''operationalStatus'' check_operational)"
    by (rule status_values.require_narrowed [where P = "\<lambda>s. s = STATUS_ACTIVE" and Q = "\<lambda>s. s = STATUS_ACTIVE" and q = q])
      (use satisfies use' in \<open>auto simp: check_operational_def\<close>)
  moreover have "conflict_only (check_chain base rid)"
    using satisfies parts(4) chain by (auto simp: check_chain_def)
  ultimately have 1: "conflict_only (require (rr_underlying r) base canonicalAssetKey ''underlying'' (check_underlying reg base) @
      require (rr_issuer r) base identityKey ''issuer'' (check_issuer base) @ check_chain base rid @
      require (rr_backing r) base (name_in BackingModel) ''backing'' (check_backing base) @
      require (rr_operationalStatus r) base (name_in RepresentationOperationalStatus) ''operationalStatus'' check_operational)"
    by simp
  have lists: "settled_in (q_instrumentTypes q) (rr_instrumentType r) q InstrumentType"
      "settled_in (q_redemptionModels q) (rr_redemption r) q RedemptionModel"
      "settled_in (q_corporateActionModels q) (rr_corporateActionHandling r) q CorporateActionModel"
      "settled_in (q_settlementModels q) (rr_settlement r) q SettlementModel"
    using satisfies by blast+
  have 2: "conflict_only (constrained (q_instrumentTypes base) (rr_instrumentType r) base InstrumentType
      ''instrumentType'' INSTRUMENT_TYPE_NOT_ALLOWED)"
    using parts(9) by (intro constrained_narrowed [OF enum_values(1) lists(1) use']) (simp_all add: intersectOrAdopt_sub)
  have 3: "conflict_only (constrained (q_redemptionModels base) (rr_redemption r) base RedemptionModel
      ''redemption'' REDEMPTION_REQUIREMENT_NOT_MET)"
    using parts(11) by (intro constrained_narrowed [OF enum_values(2) lists(2) use']) (simp_all add: intersectOrAdopt_sub)
  have 4: "conflict_only (constrained (q_corporateActionModels base) (rr_corporateActionHandling r) base
      CorporateActionModel ''corporateActionHandling'' CORPORATE_ACTION_MODEL_NOT_ALLOWED)"
    using parts(12) by (intro constrained_narrowed [OF enum_values(3) lists(3) use']) (simp_all add: intersectOrAdopt_sub)
  have 5: "conflict_only (constrained (q_settlementModels base) (rr_settlement r) base SettlementModel
      ''settlement'' SETTLEMENT_MODEL_NOT_ALLOWED)"
    using parts(13) by (intro constrained_narrowed [OF enum_values(4) lists(4) use']) (simp_all add: intersectOrAdopt_sub)
  have 6: "conflict_only (check_right base (rr_rights r) d)" if d: "d \<in> set (q_requiredRights base)" for d
  proof -
    obtain d' where d': "d' \<in> set (q_requiredRights q)" "at_least d d'"
      using narrow_rights_keep [OF d] parts(14) by auto
    have "right_fits q (rr_rights r) d'" using satisfies d'(1) by (simp add: list_all_iff)
    then show ?thesis
      unfolding check_right_def Let_def
      by (intro right_values.require_narrowed [where P = "\<lambda>s. s \<in> set (acceptable d)"
            and Q = "\<lambda>s. s \<in> set (acceptable d')" and q = q])
        (use d'(2) use' in \<open>auto simp: right_fits_def at_least_def\<close>)
  qed
  have 7: "conflict_only (require (rr_eligibility r) base eligibilityKey ''eligibility'' (check_holder h))"
    if h: "q_holderJurisdiction base = Some h" for h
    by (rule eligibility_values.require_narrowed [OF wfs(2) holder_fits_same check_holder_Nil, where Q = "holder_fits h" and q = q])
      (use satisfies use' narrowed_holder [OF narrow h] in auto)
  show ?thesis
    using 1 2 3 4 5 6 7 unfolding exclusions_of_def
    by (auto simp: conflict_only_concat list_all_iff split: option.splits)
qed

text \<open>The decision after narrowing: a refusal of the original requirements can only be a conflict.\<close>

lemma dedupe_single: "list_all (\<lambda>x. x = c) xs \<Longrightarrow> xs \<noteq> [] \<Longrightarrow> dedupe xs = [c]"
proof -
  assume all: "list_all (\<lambda>x. x = c) xs" "xs \<noteq> []"
  then have "set (dedupe xs) = {c}" by (cases xs) (auto simp: dedupe_def list_all_iff)
  moreover have "distinct (dedupe xs)" by (simp add: dedupe_def)
  ultimately show ?thesis by (cases "dedupe xs"; cases "tl (dedupe xs)") auto
qed

lemma decide_conflict_only:
  assumes "conflict_only (exclusions_of reg q rid r)"
  shows "decide reg q rid r = ADMISSIBLE rid \<or>
    (\<exists>es. decide reg q rid r = EXCLUDED (Some rid) [RegistryCode REPRESENTATION_METADATA_CONFLICT] es)"
proof (cases "exclusions_of reg q rid r = []")
  case True
  then show ?thesis by (simp add: decide_admissible)
next
  case False
  let ?es = "canonical_exclusions (exclusions_of reg q rid r)"
  have "list_all (\<lambda>x. x = RegistryCode REPRESENTATION_METADATA_CONFLICT) (map ex_code ?es)"
    using assms canonical_exclusions_sub by (fastforce simp: conflict_only_def list_all_iff)
  then have "dedupe (map ex_code ?es) = [RegistryCode REPRESENTATION_METADATA_CONFLICT]"
    using False by (intro dedupe_single) simp_all
  then show ?thesis using False by (simp add: decide_def Let_def)
qed

section \<open>Narrowing that leaves the claims alone\<close>

lemma settled_policy:
  assumes "settled (claims :: 'a claim list) q keyOf Q" "claimPolicyOf q' = claimPolicyOf q" "\<And>v. Q v \<Longrightarrow> P v"
  shows "settled claims q' keyOf P"
proof -
  have u: "usable q' c = usable q c" for c :: "'a claim" by (simp add: usable_def assms(2))
  show ?thesis using assms(1,3) unfolding settled_def agreed_def u by blast
qed

lemma settled_in_policy:
  assumes "settled_in allowed' claims q table" "claimPolicyOf q' = claimPolicyOf q"
    and "\<And>xs. allowed = Some xs \<Longrightarrow> \<exists>ys. allowed' = Some ys \<and> set ys \<subseteq> set xs"
  shows "settled_in allowed claims q' table"
proof (cases allowed)
  case None
  then show ?thesis by (simp add: settled_in_def)
next
  case (Some xs)
  then obtain ys where ys: "allowed' = Some ys" "set ys \<subseteq> set xs" using assms(3) by blast
  have "settled claims q (name_in table) (\<lambda>x. x \<in> set ys)" using assms(1) ys by (simp add: settled_in_def)
  then have "settled claims q' (name_in table) (\<lambda>x. x \<in> set xs)"
    by (rule settled_policy [OF _ assms(2)]) (use ys in blast)
  then show ?thesis by (simp add: settled_in_def Some)
qed

lemma fits_policy:
  assumes narrow: "narrowRequirements base extra = Inr q" and pol: "claimPolicyOf base = claimPolicyOf q"
    and fit: "satisfies reg q r"
  shows "satisfies reg base r"
proof -
  note parts = narrowRequirements_parts [OF narrow] and fs = fit [unfolded satisfies_def] and sp = settled_policy [OF _ pol]
  have a: "settled (rr_underlying r) base canonicalAssetKey
      (\<lambda>a. canonicalAssetKey a = canonicalAssetKey (q_canonicalAsset base) \<and> active_asset reg (q_canonicalAsset base))"
    using fs unfolding parts(1) by (blast intro: sp)
  have i: "settled (rr_issuer r) base identityKey (\<lambda>i. i \<in> set (q_allowedIssuers base))"
    by (rule sp [where Q = "\<lambda>i. i \<in> set (q_allowedIssuers q)"]) (use fs parts(3) in blast)+
  have b: "settled (rr_backing r) base (name_in BackingModel) (backing_fits base)"
    by (rule sp [where Q = "backing_fits q"]) (use fs narrowed_backing [OF narrow] in blast)+
  have o: "settled (rr_operationalStatus r) base (name_in RepresentationOperationalStatus) (\<lambda>s. s = STATUS_ACTIVE)"
    by (rule sp [where Q = "\<lambda>s. s = STATUS_ACTIVE"]) (use fs in blast)+
  have lists: "settled_in (q_instrumentTypes q) (rr_instrumentType r) q InstrumentType"
      "settled_in (q_redemptionModels q) (rr_redemption r) q RedemptionModel"
      "settled_in (q_corporateActionModels q) (rr_corporateActionHandling r) q CorporateActionModel"
      "settled_in (q_settlementModels q) (rr_settlement r) q SettlementModel"
    using fs by blast+
  have s: "settled_in (q_instrumentTypes base) (rr_instrumentType r) base InstrumentType"
      "settled_in (q_redemptionModels base) (rr_redemption r) base RedemptionModel"
      "settled_in (q_corporateActionModels base) (rr_corporateActionHandling r) base CorporateActionModel"
      "settled_in (q_settlementModels base) (rr_settlement r) base SettlementModel"
    by (rule settled_in_policy [OF lists(1) pol] settled_in_policy [OF lists(2) pol] settled_in_policy [OF lists(3) pol]
        settled_in_policy [OF lists(4) pol]; use parts(9,11-13) intersectOrAdopt_sub in metis)+
  have r: "right_fits base (rr_rights r) d" if d: "d \<in> set (q_requiredRights base)" for d
  proof -
    obtain d' where d': "d' \<in> set (q_requiredRights q)" "at_least d d'"
      using narrow_rights_keep [OF d] parts(14) by auto
    have "right_fits q (rr_rights r) d'" using fs d'(1) by (simp add: list_all_iff)
    then show ?thesis using d'(2) unfolding right_fits_def at_least_def by (auto intro: settled_policy [OF _ pol])
  qed
  have h: "settled (rr_eligibility r) base eligibilityKey (holder_fits h)" if "q_holderJurisdiction base = Some h" for h
    by (rule sp [where Q = "holder_fits h"]) (use fs narrowed_holder [OF narrow that] in auto)
  show ?thesis
    unfolding satisfies_def using a i b o s r h fs parts(4) by (auto simp: list_all_iff split: option.splits)
qed

text \<open>Extra requirements that say nothing of trust and age leave the claims alone.\<close>

lemma narrow_same_policy:
  assumes "narrowRequirements base extra = Inr q" "ar_minimumTrust extra = None" "ar_maxClaimAge extra = None"
  shows "claimPolicyOf base = claimPolicyOf q"
  using narrowRequirements_parts(2,6,7) [OF assms(1)] assms(2,3)
  by (auto simp: claimPolicyOf_def narrow_trust_def narrow_age_def)

end
