(* ===== verification/Reg_Bridge.thy ===== *)
theory Reg_Bridge
  imports Reg_Narrowing
begin

text \<open>
  From the registry to the kernel. A record that satisfies requirements within a mandate translates into a well-formed
  observation, and the kernel's representation check passes on it.
\<close>

text \<open>Requirements that stay within a mandate: those derived from it, and every narrowing of those.\<close>

definition within_mandate :: "mandate \<Rightarrow> requirements \<Rightarrow> bool" where
  "within_mandate m q \<longleftrightarrow> q_canonicalAsset q = m_canonicalAsset m \<and> wf_asset (q_canonicalAsset q)
   \<and> set (q_allowedIssuers q) \<subseteq> set (m_allowedIssuers m) \<and> set (q_allowedChains q) \<subseteq> set (m_allowedChains m)
   \<and> (m_syntheticPolicy m = FORBIDDEN \<longrightarrow> q_syntheticPolicy q = FORBIDDEN)
   \<and> meetsTrustFloor (q_minimumTrust q) VERIFIED"

lemma validate_js_asset: "validateCanonicalAssetId (js_asset a) = Inr b \<Longrightarrow> b = a \<and> wf_asset a"
  by (auto simp: validateCanonicalAssetId_def rbind_eq_Inr split: if_splits option.splits)

lemma derive_within: "deriveRequirements m ctx = Inr q \<Longrightarrow> within_mandate m q"
  by (auto simp: deriveRequirements_def rbind_eq_Inr Let_def within_mandate_def EXECUTION_TRUST_FLOOR_def
      dest: validate_js_asset split: if_splits)

lemma narrow_within:
  assumes "narrowRequirements base extra = Inr q" "within_mandate m base"
  shows "within_mandate m q"
  using assms(2) narrowRequirements_parts(1,3-5) [OF assms(1)] narrowed_trust [OF assms(1)] meetsTrustFloor_trans
  unfolding within_mandate_def by (metis subset_trans)

lemma floor_verified: "meetsTrustFloor t VERIFIED \<longleftrightarrow> t = VERIFIED \<or> t = AUTHORITATIVE"
  by (cases t) (auto simp: meetsTrustFloor_def)

section \<open>Established properties\<close>

lemma establish_settled:
  assumes "settled claims q keyOf P"
  obtains c where "establishOrFail claims q keyOf = Inr c" "P (claim_value c)" "usable q c"
    "\<exists>d \<in> set claims. claim_value d = claim_value c \<and> claim_prov d = claim_prov c"
proof -
  have "\<exists>c \<in> set claims. usable q c" "agreed claims q keyOf" using assms unfolding settled_def by blast+
  then obtain v p where r: "resolveClaimSet claims (claimPolicyOf q) keyOf = ESTABLISHED v p"
    by (rule resolve_agreed)
  from resolve_established(2) [OF r]
  obtain c where c: "c \<in> set claims" "usable q c" "claim_value c = v" "claim_prov c = p" by blast
  have "establishOrFail claims q keyOf = Inr \<lparr>claim_value = v, claim_prov = p\<rparr>"
    using r by (simp add: establishOrFail_def)
  moreover have "P v" using assms c by (auto simp: settled_def)
  moreover have "usable q \<lparr>claim_value = v, claim_prov = p\<rparr>"
    using c by (auto simp: usable_def at_floor_def fresh_claim_def)
  ultimately show thesis using c by (intro that [of "\<lparr>claim_value = v, claim_prov = p\<rparr>"]) auto
qed

lemma usable_trusted: "usable q c \<Longrightarrow> meetsTrustFloor (q_minimumTrust q) VERIFIED \<Longrightarrow> trustClass (claim_prov c) \<in> {VERIFIED, AUTHORITATIVE}"
  using meetsTrustFloor_trans floor_verified by (auto simp: usable_def at_floor_def claimPolicyOf_def)

lemma weakest_in: "ts \<noteq> [] \<Longrightarrow> weakestTrust ts \<in> set ts"
proof -
  have "foldl (\<lambda>worst t. if weaker_trust t worst then t else worst) w ts \<in> insert w (set ts)" for w ts
    by (induction ts arbitrary: w) fastforce+
  then show "ts \<noteq> [] \<Longrightarrow> weakestTrust ts \<in> set ts" by (cases ts) (auto simp: weakestTrust_def)
qed

lemma oldest_in: "ts \<noteq> [] \<Longrightarrow> oldest ts \<in> set ts"
proof -
  have "foldl (\<lambda>o' t. if t < o' then t else o') w ts \<in> insert w (set ts)" for w ts
    by (induction ts arbitrary: w) fastforce+
  then show "ts \<noteq> [] \<Longrightarrow> oldest ts \<in> set ts" by (cases ts) (auto simp: oldest_def)
qed

lemma oldest_le: "t \<in> set ts \<Longrightarrow> oldest ts \<le> t"
proof -
  have "foldl (\<lambda>o' t. if t < o' then t else o') w ts \<le> w \<and>
      (\<forall>t \<in> set ts. foldl (\<lambda>o' t. if t < o' then t else o') w ts \<le> t)" for w and ts :: "int list"
    by (induction ts arbitrary: w) (auto, (meson order_trans less_imp_le not_le)+)
  then show "t \<in> set ts \<Longrightarrow> oldest ts \<le> t" by (cases ts) (auto simp: oldest_def)
qed

lemma instrument_name_ident: "valid_ident (name_in InstrumentType i)"
  by (cases i; hypsubst; code_simp)

text \<open>The observation the bridge emits.\<close>

definition bridged :: "representation_record \<Rightarrow> requirements \<Rightarrow> asset_id claim \<Rightarrow> string claim \<Rightarrow> backing_model claim
    \<Rightarrow> representation_status claim \<Rightarrow> representation_state observed" where
  "bridged r q u i b o' = \<lparr>value_of = \<lparr>rep_id = ri_value (representationId r), rep_asset = claim_value u,
       rep_issuer = claim_value i, rep_chain = ri_chain (representationId r),
       instrumentType = (case resolveClaimSet (rr_instrumentType r) (claimPolicyOf q) (name_in InstrumentType) of
         ESTABLISHED v _ \<Rightarrow> Some (name_in InstrumentType v) | _ \<Rightarrow> None),
       synthetic = (if isSyntheticBacking (claim_value b) then YES else NO), operationalState = ACTIVE\<rparr>,
     prov = \<lparr>trustClass = weakestTrust (map trustClass [claim_prov u, claim_prov i, claim_prov b, claim_prov o']),
       sourceId = ''registry'',
       observedAt = oldest (map observedAt [claim_prov u, claim_prov i, claim_prov b, claim_prov o'])\<rparr>\<rparr>"

lemma parseObserved_swap:
  "parseObserved (JObj [(''value'', v), (''provenance'', p)]) f = parseObserved (JObj [(''provenance'', p), (''value'', v)]) f"
proof -
  have "jget (JObj [(''value'', v), (''provenance'', p)]) ''value'' = v"
    "jget (JObj [(''provenance'', p), (''value'', v)]) ''value'' = v" by simp_all
  moreover have "jget (JObj [(''value'', v), (''provenance'', p)]) ''provenance'' = p"
    "jget (JObj [(''provenance'', p), (''value'', v)]) ''provenance'' = p" by simp_all
  ultimately show ?thesis unfolding parseObserved_def by (simp only: is_object.simps)
qed

lemma status_active_name: "name_in RepresentationOperationalStatus STATUS_ACTIVE = operational_state_name ACTIVE"
  by (simp add: name_in_def RepresentationOperationalStatus_def)

lemma toRepresentationState_bridged:
  assumes "establishOrFail (rr_underlying r) q canonicalAssetKey = Inr u"
    and "establishOrFail (rr_issuer r) q identityKey = Inr i"
    and "establishOrFail (rr_backing r) q (name_in BackingModel) = Inr b"
    and "establishOrFail (rr_operationalStatus r) q (name_in RepresentationOperationalStatus) = Inr o'"
    and "claim_value o' = STATUS_ACTIVE" and wf: "wf_observed wf_representation (bridged r q u i b o')"
  shows "toRepresentationState r q = Inr (bridged r q u i b o')"
proof -
  let ?s = "value_of (bridged r q u i b o')" and ?p = "prov (bridged r q u i b o')"
  have js: "JObj [(''representationId'', JStr (ri_value (representationId r))), (''canonicalAsset'', js_asset (claim_value u)),
        (''issuer'', JStr (claim_value i)), (''chain'', JStr (ri_chain (representationId r))),
        (''instrumentType'', case resolveClaimSet (rr_instrumentType r) (claimPolicyOf q) (name_in InstrumentType) of
           ESTABLISHED v _ \<Rightarrow> JStr (name_in InstrumentType v) | _ \<Rightarrow> JNull),
        (''synthetic'', JStr (if isSyntheticBacking (claim_value b) then ''YES'' else ''NO'')),
        (''operationalState'', JStr (name_in RepresentationOperationalStatus (claim_value o')))] = js_representation ?s"
    using assms(5) by (simp add: js_representation_def bridged_def js_nullable_def status_active_name
        split: claim_resolution.splits)
  have parsed: "parseRepresentationState (js_representation ?s) = Inr ?s"
    using wf by (simp add: parseRepresentationState_js wf_observed_def)
  have "trustClass ?p \<in> {VERIFIED, AUTHORITATIVE}"
    using wf by (auto simp: wf_observed_def wf_provenance_def isTrustedForAuthorization_def)
  then have "JObj [(''trustClass'', JStr (trust_class_text (trustClass ?p))), (''sourceId'', JStr ''registry''),
      (''observedAtUnixSeconds'', JBig (observedAt ?p))] = js_provenance ?p"
    by (auto simp: js_provenance_def bridged_def)
  moreover have "parseObserved (js_observed js_representation (bridged r q u i b o')) parseRepresentationState
      = Inr (bridged r q u i b o')"
    using wf by (simp add: parseObserved_js [where ok = wf_representation] parseRepresentationState_js)
  ultimately have "parseObserved (JObj [(''value'', js_representation ?s),
      (''provenance'', JObj [(''trustClass'', JStr (trust_class_text (trustClass ?p))), (''sourceId'', JStr ''registry''),
         (''observedAtUnixSeconds'', JBig (observedAt ?p))])]) parseRepresentationState = Inr (bridged r q u i b o')"
    by (simp add: parseObserved_swap js_observed_def)
  then show ?thesis
    unfolding toRepresentationState_def assms(1-4) rbind_simps Let_def js parsed kernel_error_def sum.case
    by (simp add: bridged_def)
qed

lemma wf_bridged:
  assumes "wf_registered r" "wf_asset (claim_value u)" "valid_ident (claim_value i)"
    and "\<forall>p \<in> {claim_prov u, claim_prov i, claim_prov b, claim_prov o'}.
           trustClass p \<in> {VERIFIED, AUTHORITATIVE} \<and> wf_time (observedAt p)"
  shows "wf_observed wf_representation (bridged r q u i b o')"
proof -
  have "weakestTrust (map trustClass [claim_prov u, claim_prov i, claim_prov b, claim_prov o']) \<in> {VERIFIED, AUTHORITATIVE}"
    using weakest_in [of "map trustClass [claim_prov u, claim_prov i, claim_prov b, claim_prov o']"] assms(4) by auto
  moreover have "wf_time (oldest (map observedAt [claim_prov u, claim_prov i, claim_prov b, claim_prov o']))"
    using oldest_in [of "map observedAt [claim_prov u, claim_prov i, claim_prov b, claim_prov o']"] assms(4) by auto
  moreover have "valid_ident ''registry''" by code_simp
  ultimately show ?thesis
    using assms(1-3) instrument_name_ident
    by (auto simp: wf_observed_def bridged_def wf_representation_def wf_provenance_def isTrustedForAuthorization_def
        wf_registered_def wf_rep_id_def split: claim_resolution.splits)
qed

lemma admitted_translates:
  assumes "wf_registered r" "satisfies reg q r" "within_mandate m q"
  shows "\<exists>ob. toRepresentationState r q = Inr ob \<and> wf_observed wf_representation ob
     \<and> rep_id (value_of ob) = ri_value (representationId r) \<and> rep_chain (value_of ob) = ri_chain (representationId r)
     \<and> rep_asset (value_of ob) = m_canonicalAsset m \<and> rep_issuer (value_of ob) \<in> set (m_allowedIssuers m)
     \<and> rep_chain (value_of ob) \<in> set (m_allowedChains m) \<and> operationalState (value_of ob) = ACTIVE
     \<and> (synthetic (value_of ob) = NO \<or> synthetic (value_of ob) = YES \<and> m_syntheticPolicy m \<noteq> FORBIDDEN)"
proof -
  note f = assms(2) [unfolded satisfies_def] and w = assms(3) [unfolded within_mandate_def]
  have st: "settled (rr_underlying r) q canonicalAssetKey
        (\<lambda>a. canonicalAssetKey a = canonicalAssetKey (q_canonicalAsset q) \<and> active_asset reg (q_canonicalAsset q))"
      "settled (rr_issuer r) q identityKey (\<lambda>i. i \<in> set (q_allowedIssuers q))"
      "settled (rr_backing r) q (name_in BackingModel) (backing_fits q)"
      "settled (rr_operationalStatus r) q (name_in RepresentationOperationalStatus) (\<lambda>s. s = STATUS_ACTIVE)"
    using f by blast+
  obtain u where u: "establishOrFail (rr_underlying r) q canonicalAssetKey = Inr u" "usable q u"
      "canonicalAssetKey (claim_value u) = canonicalAssetKey (q_canonicalAsset q)"
      "\<exists>d \<in> set (rr_underlying r). claim_value d = claim_value u \<and> claim_prov d = claim_prov u"
    by (rule establish_settled [OF st(1)]) blast
  obtain i where i: "establishOrFail (rr_issuer r) q identityKey = Inr i" "usable q i"
      "claim_value i \<in> set (q_allowedIssuers q)"
      "\<exists>d \<in> set (rr_issuer r). claim_value d = claim_value i \<and> claim_prov d = claim_prov i"
    by (rule establish_settled [OF st(2)]) blast
  obtain b where b: "establishOrFail (rr_backing r) q (name_in BackingModel) = Inr b" "usable q b"
      "backing_fits q (claim_value b)"
      "\<exists>d \<in> set (rr_backing r). claim_value d = claim_value b \<and> claim_prov d = claim_prov b"
    by (rule establish_settled [OF st(3)]) blast
  obtain o' where o': "establishOrFail (rr_operationalStatus r) q (name_in RepresentationOperationalStatus) = Inr o'"
      "usable q o'" "claim_value o' = STATUS_ACTIVE"
      "\<exists>d \<in> set (rr_operationalStatus r). claim_value d = claim_value o' \<and> claim_prov d = claim_prov o'"
    by (rule establish_settled [OF st(4)]) blast
  have wf_of: "ok (claim_value c) \<and> wf_time (observedAt (claim_prov c))"
    if "list_all (wf_claim ok) cs" "\<exists>d \<in> set cs. claim_value d = claim_value c \<and> claim_prov d = claim_prov c"
    for ok :: "'z \<Rightarrow> bool" and cs and c :: "'z claim"
    using that by (auto simp: list_all_iff wf_claim_def)
  note r = assms(1) [unfolded wf_registered_def]
  have vals: "wf_asset (claim_value u)" "valid_ident (claim_value i)"
    using r wf_of u(4) i(4) by blast+
  have times: "wf_time (observedAt (claim_prov u))" "wf_time (observedAt (claim_prov i))"
      "wf_time (observedAt (claim_prov b))" "wf_time (observedAt (claim_prov o'))"
    using r wf_of u(4) i(4) b(4) o'(4) by blast+
  have trust: "trustClass (claim_prov u) \<in> {VERIFIED, AUTHORITATIVE}" "trustClass (claim_prov i) \<in> {VERIFIED, AUTHORITATIVE}"
      "trustClass (claim_prov b) \<in> {VERIFIED, AUTHORITATIVE}" "trustClass (claim_prov o') \<in> {VERIFIED, AUTHORITATIVE}"
    using w u(2) i(2) b(2) o'(2) usable_trusted by blast+
  have wf: "wf_observed wf_representation (bridged r q u i b o')"
    using wf_bridged [OF assms(1) vals, of b o' q] times trust by blast
  have "claim_value u = m_canonicalAsset m"
    using canonicalAssetKey_inject [OF vals(1) _ u(3)] w by metis
  moreover have "claim_value i \<in> set (m_allowedIssuers m)" "ri_chain (representationId r) \<in> set (m_allowedChains m)"
    using i(3) f w by blast+
  moreover have "\<not> isSyntheticBacking (claim_value b) \<or> m_syntheticPolicy m \<noteq> FORBIDDEN"
    using b(3) w by (auto simp: backing_fits_def)
  ultimately show ?thesis
    using toRepresentationState_bridged [OF u(1) i(1) b(1) o'(1,3) wf] wf
    by (intro exI [of _ "bridged r q u i b o'"]) (simp add: bridged_def)
qed

text \<open>The kernel's check, on a state that carries the observation and a candidate that names it truthfully.\<close>

lemma translated_passes:
  assumes "toRepresentationState r q = Inr ob" "rep_asset (value_of ob) = m_canonicalAsset m"
    and "rep_issuer (value_of ob) \<in> set (m_allowedIssuers m)" "operationalState (value_of ob) = ACTIVE"
    and "synthetic (value_of ob) = NO \<or> synthetic (value_of ob) = YES \<and> m_syntheticPolicy m \<noteq> FORBIDDEN"
    and "x_mandate ctx = m" "findRepresentation (x_state ctx) (c_representationId (x_candidate ctx)) = Some ob"
    and "c_issuer (x_candidate ctx) = rep_issuer (value_of ob)" "c_chain (x_candidate ctx) = rep_chain (value_of ob)"
  shows "checkRepresentation ctx = []"
  using assms by (auto simp: checkRepresentation_def Let_def)

end
