(* ===== verification/Reg_CheckDigits.thy ===== *)
theory Reg_CheckDigits
  imports Reg_Base
begin

text \<open>
  What the check digits of \<open>packages/registry/src/asset-id.ts\<close> detect: a wrong digit always, in each of the three
  schemes. A wrong letter may pass: two letters can contribute the same to the sum.
\<close>

section \<open>One digit\<close>

lemma of_char_int: "(of_char c :: int) = int (of_char c)"
  by (simp add: of_nat_of_char)

lemma digit_ordinal: "is_digit c \<Longrightarrow> ordinal_of c = int (digit_val c) \<and> digit_val c \<le> 9"
  by (auto simp: is_digit_def ordinal_of_def digit_val_def Let_def of_nat_diff of_char_int)

lemma digit_val_inject: "is_digit c \<Longrightarrow> is_digit d \<Longrightarrow> digit_val c = digit_val d \<Longrightarrow> c = d"
  unfolding is_digit_def digit_val_def using of_char_eq_iff [of c d, where ?'a = nat] by linarith

lemma digitSum_digit: "0 \<le> v \<Longrightarrow> v \<le> 9 \<Longrightarrow> digitSum v = v"
  by (simp add: digitSum_def Let_def)

lemma digitSum_doubled:
  assumes "0 \<le> v" "v \<le> 9"
  shows "digitSum (v * 2) = (if v \<le> 4 then v * 2 else v * 2 - 9)"
proof (cases "v \<le> 4")
  case True
  with assms show ?thesis by (simp add: digitSum_digit)
next
  case False
  with assms have "(v * 2) mod 10 = v * 2 - 10" by presburger
  with assms False show ?thesis by (simp add: digitSum_def Let_def)
qed

text \<open>What a digit contributes, doubled or not, is different for different digits modulo ten.\<close>

definition digit_share :: "bool \<Rightarrow> int \<Rightarrow> int" where
  "digit_share dbl v = (if dbl then (if v \<le> 4 then v * 2 else v * 2 - 9) else v)"

lemma digit_share_inject:
  assumes "0 \<le> v" "v \<le> 9" "0 \<le> w" "w \<le> 9" "(digit_share dbl v - digit_share dbl w) mod 10 = 0"
  shows "v = w"
  using assms by (cases dbl; cases "v \<le> 4"; cases "w \<le> 4") (simp_all add: digit_share_def, presburger+)

lemma digitSum_share:
  "is_digit c \<Longrightarrow> digitSum (if dbl then ordinal_of c * 2 else ordinal_of c) = digit_share dbl (int (digit_val c))"
  using digit_ordinal [of c] by (simp add: digit_share_def digitSum_digit digitSum_doubled)

lemma check_digit_mod: "(10 - s mod 10) mod 10 = (10 - t mod 10) mod 10 \<Longrightarrow> (s - t) mod 10 = (0 :: int)"
proof -
  assume "(10 - s mod 10) mod 10 = (10 - t mod 10) mod 10"
  then have "10 dvd (10 - s mod 10) - (10 - t mod 10)" by (simp only: mod_eq_dvd_iff)
  then have "10 dvd s mod 10 - t mod 10" by (simp add: dvd_diff_commute)
  then have "(s mod 10 - t mod 10) mod 10 = 0" by (simp only: dvd_eq_mod_eq_0)
  then show ?thesis by (simp only: mod_diff_eq)
qed

lemma wrong_digit:
  assumes "is_digit c" "is_digit d" "c \<noteq> d"
    and "t = s - digit_share dbl (int (digit_val c)) + digit_share dbl (int (digit_val d))"
  shows "(10 - s mod 10) mod 10 \<noteq> (10 - t mod 10) mod (10 :: int)"
proof
  assume "(10 - s mod 10) mod 10 = (10 - t mod 10) mod 10"
  then have "(s - t) mod 10 = 0" by (rule check_digit_mod)
  then have "(digit_share dbl (int (digit_val c)) - digit_share dbl (int (digit_val d))) mod 10 = 0"
    using assms(4) by simp
  then have "int (digit_val c) = int (digit_val d)"
    by (rule digit_share_inject [rotated 4]) (use digit_ordinal [OF assms(1)] digit_ordinal [OF assms(2)] in simp_all)
  with assms(1-3) show False by (simp add: digit_val_inject)
qed

section \<open>Sums over positions\<close>

lemma sum_positions_update:
  fixes t :: "nat \<Rightarrow> char \<Rightarrow> int"
  assumes "i < n" "n \<le> length xs"
  shows "sum_list (map (\<lambda>j. t j (xs[i := d] ! j)) [0..<n]) = sum_list (map (\<lambda>j. t j (xs ! j)) [0..<n]) - t i (xs ! i) + t i d"
proof -
  have "sum (\<lambda>j. t j (xs[i := d] ! j)) {0..<n} = t i (xs[i := d] ! i) + sum (\<lambda>j. t j (xs[i := d] ! j)) ({0..<n} - {i})"
    using assms by (intro sum.remove) simp_all
  also have "sum (\<lambda>j. t j (xs[i := d] ! j)) ({0..<n} - {i}) = sum (\<lambda>j. t j (xs ! j)) ({0..<n} - {i})"
    by (rule sum.cong) auto
  also have "\<dots> = sum (\<lambda>j. t j (xs ! j)) {0..<n} - t i (xs ! i)"
    using assms by (subst sum.remove [of "{0..<n}" i]) simp_all
  finally show ?thesis
    using assms by (simp add: interv_sum_list_conv_sum_set_nat)
qed

lemma figi_wrong_digit:
  assumes "validateFigi v" "i < length v" "is_digit (v ! i)" "is_digit d" "d \<noteq> v ! i"
  shows "\<not> validateFigi (v[i := d])"
proof
  assume w: "validateFigi (v[i := d])"
  have len: "length v = 12" using assms(1) by (simp add: validateFigi_def)
  have chk: "ordinal_of (v ! 11) = figiCheckDigit (take 11 v)"
    "ordinal_of (v[i := d] ! 11) = figiCheckDigit (take 11 (v[i := d]))"
    using assms(1) w by (simp_all add: validateFigi_def)
  show False
  proof (cases "i = 11")
    case True
    then have "ordinal_of d = ordinal_of (v ! i)" using chk len by simp
    then show False using assms(3-5) digit_ordinal digit_val_inject by (metis of_nat_eq_iff)
  next
    case False
    then have i: "i < 11" using assms(2) len by simp
    let ?t = "\<lambda>j c. digitSum (if (j + 1) mod 2 = 0 then ordinal_of c * 2 else ordinal_of c)"
    let ?s = "\<lambda>xs. sum_list (map (\<lambda>j. ?t j (xs ! j)) [0..<11])"
    have c: "figiCheckDigit xs = (10 - ?s xs mod 10) mod 10" for xs
      by (simp add: figiCheckDigit_def Let_def)
    have "?s ((take 11 v)[i := d]) = ?s (take 11 v) - ?t i (take 11 v ! i) + ?t i d"
      using i len by (intro sum_positions_update) simp_all
    then have "?s ((take 11 v)[i := d]) =
        ?s (take 11 v) - digit_share ((i + 1) mod 2 = 0) (int (digit_val (v ! i)))
          + digit_share ((i + 1) mod 2 = 0) (int (digit_val d))"
      using i assms(3,4) by (simp only: digitSum_share nth_take)
    from wrong_digit [OF assms(3,4) assms(5) [symmetric] this]
    have "figiCheckDigit (take 11 v) \<noteq> figiCheckDigit ((take 11 v)[i := d])" unfolding c .
    moreover have "take 11 (v[i := d]) = (take 11 v)[i := d]" by (rule take_update_swap)
    ultimately show False using chk False by simp
  qed
qed

lemma cusip_wrong_digit:
  assumes "validateCusip v" "i < length v" "is_digit (v ! i)" "is_digit d" "d \<noteq> v ! i"
  shows "\<not> validateCusip (v[i := d])"
proof
  assume w: "validateCusip (v[i := d])"
  have len: "length v = 9" using assms(1) by (simp add: validateCusip_def)
  have chk: "of_char (v ! 8) - 48 = cusipCheckDigit (take 8 v)" "0 \<le> cusipCheckDigit (take 8 v)"
    "of_char (v[i := d] ! 8) - 48 = cusipCheckDigit (take 8 (v[i := d]))" "0 \<le> cusipCheckDigit (take 8 (v[i := d]))"
    using assms(1) w by (simp_all add: validateCusip_def)
  show False
  proof (cases "i = 8")
    case True
    then have "v[i := d] ! 8 = d" "take 8 (v[i := d]) = take 8 v" using len by simp_all
    then have "(of_char d :: int) - 48 = of_char (v ! 8) - 48" using chk(1,3) by metis
    then have "(of_char d :: int) = of_char (v ! i)" using True by simp
    then show False using assms(5) of_char_eq_iff [of d "v ! i", where ?'a = nat] by (simp add: of_char_int)
  next
    case False
    then have i: "i < 8" using assms(2) len by simp
    let ?t = "\<lambda>j c. digitSum (if j mod 2 = 1 then cusipOrdinal c * 2 else cusipOrdinal c)"
    let ?s = "\<lambda>xs. sum_list (map (\<lambda>j. ?t j (xs ! j)) [0..<8])"
    have c: "cusipCheckDigit xs = (10 - ?s xs mod 10) mod 10" if "0 \<le> cusipCheckDigit xs" for xs
      using that by (simp add: cusipCheckDigit_def Let_def split: if_splits)
    have o': "cusipOrdinal x = ordinal_of x" if "is_digit x" for x
      using that by (auto simp: cusipOrdinal_def is_digit_def)
    have "?s ((take 8 v)[i := d]) = ?s (take 8 v) - ?t i (take 8 v ! i) + ?t i d"
      using i len by (intro sum_positions_update) simp_all
    then have "?s ((take 8 v)[i := d]) =
        ?s (take 8 v) - digit_share (i mod 2 = 1) (int (digit_val (v ! i))) + digit_share (i mod 2 = 1) (int (digit_val d))"
      using i assms(3,4) by (simp only: o' digitSum_share nth_take)
    note differ = wrong_digit [OF assms(3,4) assms(5) [symmetric] this]
    have sw: "take 8 (v[i := d]) = (take 8 v)[i := d]" by (rule take_update_swap)
    have "cusipCheckDigit (take 8 v) \<noteq> cusipCheckDigit ((take 8 v)[i := d])"
      unfolding c [OF chk(2)] c [OF chk(4) [unfolded sw]] by (rule differ)
    then show False using chk sw False by simp
  qed
qed

section \<open>Luhn\<close>

lemma luhn_append: "luhn_sum dbl (xs @ ys) = luhn_sum dbl xs + luhn_sum (if even (length xs) then dbl else \<not> dbl) ys"
  by (induction xs arbitrary: dbl) (auto simp: Let_def)

lemma luhn_digit: "is_digit c \<Longrightarrow> luhn_sum dbl (c # cs) = digit_share dbl (int (digit_val c)) + luhn_sum (\<not> dbl) cs"
  by (auto simp: digit_share_def Let_def is_digit_def digit_val_def of_nat_diff of_char_int)

lemma expand_append [simp]: "expand_letters (xs @ ys) = expand_letters xs @ expand_letters ys"
  by (simp add: expand_letters_def)

lemma expand_digit: "is_digit c \<Longrightarrow> expand_letters [c] = [c]"
proof -
  assume c: "is_digit c"
  then have "nat_str (digit_val c) = [digit_char (digit_val c)]"
    using digit_ordinal [OF c] by (subst nat_str.simps) simp
  also have "digit_char (digit_val c) = c"
    using c by (intro digit_val_inject) (use digit_ordinal [OF c] in auto)
  finally show ?thesis using digit_ordinal [OF c] by (simp add: expand_letters_def int_str_def)
qed

lemma isin_wrong_digit:
  assumes "validateIsin v" "i < length v" "is_digit (v ! i)" "is_digit d" "d \<noteq> v ! i"
  shows "\<not> validateIsin (v[i := d])"
proof
  assume w: "validateIsin (v[i := d])"
  have len: "length v = 12" using assms(1) by (simp add: validateIsin_def)
  have chk: "ordinal_of (v ! 11) = luhnCheckDigit (expand_letters (take 11 v))"
    "ordinal_of (v[i := d] ! 11) = luhnCheckDigit (expand_letters (take 11 (v[i := d])))"
    using assms(1) w by (simp_all add: validateIsin_def)
  show False
  proof (cases "i = 11")
    case True
    then have "ordinal_of d = ordinal_of (v ! i)" using chk len by simp
    then show False using assms(3-5) digit_ordinal digit_val_inject by (metis of_nat_eq_iff)
  next
    case False
    define b where "b = take 11 v"
    have i: "i < length b" "b ! i = v ! i" using False assms(2) len by (simp_all add: b_def)
    define pre post where "pre = expand_letters (take i b)" and "post = expand_letters (drop (Suc i) b)"
    have b: "b = take i b @ [v ! i] @ drop (Suc i) b" "b[i := d] = take i b @ [d] @ drop (Suc i) b"
      using i id_take_nth_drop [OF i(1)] upd_conv_take_nth_drop [OF i(1)] by auto
    have "expand_letters (take i b @ [x] @ drop (Suc i) b) = pre @ [x] @ post" if "is_digit x" for x
      unfolding pre_def post_def expand_append expand_digit [OF that] ..
    then have "expand_letters b = pre @ [v ! i] @ post" "expand_letters (b[i := d]) = pre @ [d] @ post"
      using b assms(3,4) by metis+
    then have "luhn_sum True (rev (expand_letters (b[i := d]))) = luhn_sum True (rev (expand_letters b))
        - digit_share (even (length post)) (int (digit_val (v ! i))) + digit_share (even (length post)) (int (digit_val d))"
      using luhn_digit [OF assms(3)] luhn_digit [OF assms(4)] by (simp add: luhn_append del: luhn_sum.simps)
    from wrong_digit [OF assms(3,4) assms(5) [symmetric] this]
    have "luhnCheckDigit (expand_letters b) \<noteq> luhnCheckDigit (expand_letters (b[i := d]))"
      by (simp add: luhnCheckDigit_def)
    moreover have "take 11 (v[i := d]) = b[i := d]" unfolding b_def by (rule take_update_swap)
    ultimately show False using chk False unfolding b_def by simp
  qed
qed

lemma scheme_wrong_digit:
  "isValidSchemeValue s v \<Longrightarrow> i < length v \<Longrightarrow> is_digit (v ! i) \<Longrightarrow> is_digit d \<Longrightarrow> d \<noteq> v ! i \<Longrightarrow>
     \<not> isValidSchemeValue s (v[i := d])"
  by (cases s) (simp_all add: figi_wrong_digit isin_wrong_digit cusip_wrong_digit)

text \<open>A letter for a letter: \<open>B\<close> and \<open>K\<close> have digit sums 2 and 2.\<close>

lemma figi_wrong_letter: "validateFigi ''BBG000B9XRY4'' \<and> validateFigi (''BBG000B9XRY4''[0 := CHR ''K''])"
  by code_simp

text \<open>The characters that only CUSIP knows are no identifier characters, so no canonical asset id carries them.\<close>

lemma validated_plain:
  assumes "validateCanonicalAssetId v = Inr a"
  shows "set (assetValue a) \<inter> set ''*@#'' = {}"
proof -
  have "list_all ident_char (assetValue a)"
    using assms by (auto simp: validateCanonicalAssetId_def rbind_eq_Inr wf_asset_def valid_ident_def
        dest!: parseCanonicalAssetId_wf split: if_splits option.splits)
  moreover have "\<not> ident_char c" if "c \<in> set ''*@#''" for c
    using that by (auto simp: ident_char_def)
  ultimately show ?thesis by (auto simp: list_all_iff)
qed

end
