(* ===== verification/Reg_Resolution.thy ===== *)
theory Reg_Resolution
  imports Reg_Index
begin

text \<open>
  The resolver never guesses. The candidates of a reference are exactly the assets that answer to it, in the order of
  their canonical keys, whatever was indexed first; one candidate resolves, several are all reported.
\<close>

fun answers :: "parsed_reference \<Rightarrow> asset_record \<Rightarrow> bool" where
  "answers (CANONICAL_ID i) a \<longleftrightarrow> canonicalAssetKey (identity a) = canonicalAssetKey i"
| "answers (SCHEME_VALUE s v) a \<longleftrightarrow> scheme_value_key (identity a) = s @ [CHR 0x00] @ v"
| "answers (QUALIFIED _ _ k) a \<longleftrightarrow> k \<in> set (qualified_keys (asset_display_of a))"
| "answers (PLAIN k) a \<longleftrightarrow> k \<in> set (plain_keys (asset_display_of a))"

section \<open>Pushing\<close>

lemma found_list_push:
  "found_list (push m key a k) =
     (if k = key \<and> a \<notin> set (found_list (m k)) then found_list (m k) @ [a] else found_list (m k))"
  by (auto simp: push_def found_list_def split: option.splits)

lemma found_list_push_all:
  "found_list (push_all m keys a k) =
     (if k \<in> set keys \<and> a \<notin> set (found_list (m k)) then found_list (m k) @ [a] else found_list (m k))"
proof (induction keys arbitrary: m)
  case Nil
  then show ?case by (simp add: push_all_def)
next
  case (Cons key keys)
  have "push_all m (key # keys) a = push_all (push m key a) keys a" by (simp add: push_all_def)
  then show ?case by (simp add: Cons.IH found_list_push)
qed

definition asset_key :: "asset_record \<Rightarrow> string" where
  "asset_key a = canonicalAssetKey (identity a)"

text \<open>What the indexes hold is indexed under its canonical key.\<close>

definition indexed :: "asset_index \<Rightarrow> asset_record set" where
  "indexed ix = {a. \<exists>k. a \<in> set (found_list (bySchemeValue ix k)) \<or> a \<in> set (found_list (byQualified ix k))
     \<or> a \<in> set (found_list (byPlain ix k))}"

definition coherent :: "asset_index \<Rightarrow> bool" where
  "coherent ix \<longleftrightarrow> (\<forall>a \<in> indexed ix. byCanonicalKey ix (asset_key a) = Some a)"

definition add_asset :: "asset_index \<Rightarrow> asset_record \<Rightarrow> asset_index" where
  "add_asset ix a = ix\<lparr>byCanonicalKey := (byCanonicalKey ix)(canonicalAssetKey (identity a) \<mapsto> a),
     bySchemeValue := push (bySchemeValue ix) (scheme_value_key (identity a)) a,
     byQualified := push_all (byQualified ix) (qualified_keys (asset_display_of a)) a,
     byPlain := push_all (byPlain ix) (plain_keys (asset_display_of a)) a\<rparr>"

lemma index_assets_Cons:
  "index_assets ix (a # as) = Inr ix' \<longleftrightarrow>
     byCanonicalKey ix (asset_key a) = None \<and> index_assets (add_asset ix a) as = Inr ix'"
  by (simp add: add_asset_def asset_key_def Let_def)

lemma indexed_add: "indexed (add_asset ix a) \<subseteq> insert a (indexed ix)"
proof
  fix b
  assume "b \<in> indexed (add_asset ix a)"
  then obtain k where "b \<in> set (found_list (bySchemeValue (add_asset ix a) k)) \<or>
      b \<in> set (found_list (byQualified (add_asset ix a) k)) \<or> b \<in> set (found_list (byPlain (add_asset ix a) k))"
    by (auto simp: indexed_def)
  then have "b = a \<or> b \<in> set (found_list (bySchemeValue ix k)) \<or> b \<in> set (found_list (byQualified ix k))
      \<or> b \<in> set (found_list (byPlain ix k))"
    by (auto simp: add_asset_def found_list_push found_list_push_all split: if_splits)
  then show "b \<in> insert a (indexed ix)" unfolding indexed_def by blast
qed

lemma canonical_add: "byCanonicalKey (add_asset ix a) = (byCanonicalKey ix)(asset_key a \<mapsto> a)"
  by (simp add: add_asset_def asset_key_def)

lemma coherent_add:
  assumes "coherent ix" "byCanonicalKey ix (asset_key a) = None"
  shows "coherent (add_asset ix a)"
  unfolding coherent_def canonical_add
proof
  fix b
  assume "b \<in> indexed (add_asset ix a)"
  then have "b = a \<or> byCanonicalKey ix (asset_key b) = Some b"
    using indexed_add [of ix a] assms(1) unfolding coherent_def by blast
  then show "((byCanonicalKey ix)(asset_key a \<mapsto> a)) (asset_key b) = Some b"
    using assms(2) by (cases "asset_key b = asset_key a") auto
qed

lemma fresh_asset:
  assumes "coherent ix" "byCanonicalKey ix (asset_key a) = None"
  shows "a \<notin> set (found_list (bySchemeValue ix k))" "a \<notin> set (found_list (byQualified ix k))"
    "a \<notin> set (found_list (byPlain ix k))"
proof -
  have "a \<notin> indexed ix" using assms unfolding coherent_def by force
  then show "a \<notin> set (found_list (bySchemeValue ix k))" "a \<notin> set (found_list (byQualified ix k))"
    "a \<notin> set (found_list (byPlain ix k))" by (auto simp: indexed_def)
qed

lemma found_add:
  assumes "coherent ix" "byCanonicalKey ix (asset_key a) = None"
  shows "found_list (bySchemeValue (add_asset ix a) k) =
      found_list (bySchemeValue ix k) @ (if scheme_value_key (identity a) = k then [a] else [])"
    and "found_list (byQualified (add_asset ix a) k) =
      found_list (byQualified ix k) @ (if k \<in> set (qualified_keys (asset_display_of a)) then [a] else [])"
    and "found_list (byPlain (add_asset ix a) k) =
      found_list (byPlain ix k) @ (if k \<in> set (plain_keys (asset_display_of a)) then [a] else [])"
  using fresh_asset [OF assms, of k] by (auto simp: add_asset_def found_list_push found_list_push_all)

lemma index_assets_found:
  assumes "index_assets ix as = Inr ix'" "coherent ix"
  shows "found_list (bySchemeValue ix' k) = found_list (bySchemeValue ix k) @ filter (\<lambda>a. scheme_value_key (identity a) = k) as"
    and "found_list (byQualified ix' k) = found_list (byQualified ix k) @ filter (\<lambda>a. k \<in> set (qualified_keys (asset_display_of a))) as"
    and "found_list (byPlain ix' k) = found_list (byPlain ix k) @ filter (\<lambda>a. k \<in> set (plain_keys (asset_display_of a))) as"
  using assms
proof (induction as arbitrary: ix)
  case Nil
  { case 1 then show ?case by simp next case 2 then show ?case by simp next case 3 then show ?case by simp }
next
  case (Cons a as)
  have step: "byCanonicalKey ix (asset_key a) = None" "index_assets (add_asset ix a) as = Inr ix'"
    if "index_assets ix (a # as) = Inr ix'" for ix
    using that unfolding index_assets_Cons by simp_all
  { case 1 then show ?case using Cons.IH(1) [OF step(2) coherent_add] step(1) found_add(1) by simp
  next case 2 then show ?case using Cons.IH(2) [OF step(2) coherent_add] step(1) found_add(2) by simp
  next case 3 then show ?case using Cons.IH(3) [OF step(2) coherent_add] step(1) found_add(3) by simp }
qed

lemma index_assets_keys:
  "index_assets ix as = Inr ix' \<Longrightarrow> coherent ix \<Longrightarrow>
     distinct (map asset_key as) \<and> (\<forall>a \<in> set as. byCanonicalKey ix (asset_key a) = None)
   \<and> byCanonicalKey ix' = (\<lambda>k. case List.find (\<lambda>a. asset_key a = k) as of None \<Rightarrow> byCanonicalKey ix k | Some a \<Rightarrow> Some a)"
proof (induction as arbitrary: ix)
  case Nil
  then show ?case by simp
next
  case (Cons a as)
  then have n: "byCanonicalKey ix (asset_key a) = None" and i: "index_assets (add_asset ix a) as = Inr ix'"
    unfolding index_assets_Cons by simp_all
  note IH = Cons.IH [OF i coherent_add [OF Cons.prems(2) n], unfolded canonical_add]
  then have new: "\<forall>b \<in> set as. asset_key b \<noteq> asset_key a \<and> byCanonicalKey ix (asset_key b) = None"
    by (auto split: if_splits)
  moreover have "List.find (\<lambda>b. asset_key b = asset_key a) as = None"
    using new by (simp add: find_None_iff)
  ultimately show ?case using IH n by (auto simp: fun_eq_iff split: option.splits)
qed

lemma coherent_empty: "coherent empty_index"
  by (simp add: coherent_def indexed_def empty_index_def found_list_def)

section \<open>The built index\<close>

interpretation candidate_order: cmp_preorder "\<lambda>a b. compareStrings (canonicalAssetKey (identity a)) (canonicalAssetKey (identity b))"
  by unfold_locales (use str_cmp.cmp_total str_cmp.cmp_trans in blast)+

lemma found_map_sort: "found_list (map_option sortCandidates o') = sortCandidates (found_list o')"
  by (cases o') (simp_all add: found_list_def sortCandidates_def)

lemma build_parts:
  assumes "buildAssetIndex as = Inr ix"
  obtains ix' where "index_assets empty_index as = Inr ix'" "byCanonicalKey ix = byCanonicalKey ix'"
    "\<And>k. bySchemeValue ix k = map_option sortCandidates (bySchemeValue ix' k)"
    "\<And>k. byQualified ix k = map_option sortCandidates (byQualified ix' k)"
    "\<And>k. byPlain ix k = map_option sortCandidates (byPlain ix' k)"
  using assms unfolding buildAssetIndex_def rbind_eq_Inr by auto

lemma filter_unique_key:
  "distinct (map f xs) \<Longrightarrow> filter (\<lambda>a. f a = k) xs = (case List.find (\<lambda>a. f a = k) xs of None \<Rightarrow> [] | Some a \<Rightarrow> [a])"
proof (induction xs)
  case Nil
  then show ?case by simp
next
  case (Cons x xs)
  show ?case
  proof (cases "f x = k")
    case True
    with Cons.prems have "filter (\<lambda>a. f a = k) xs = []" by (auto simp: filter_empty_conv intro: rev_image_eqI)
    with True show ?thesis by simp
  next
    case False
    with Cons show ?thesis by simp
  qed
qed

lemma candidates_exact:
  assumes "buildAssetIndex as = Inr ix"
  shows "candidatesFor ix ref = sortCandidates (filter (answers ref) as)"
proof -
  obtain ix' where i: "index_assets empty_index as = Inr ix'" and c: "byCanonicalKey ix = byCanonicalKey ix'"
    and s: "\<And>k. bySchemeValue ix k = map_option sortCandidates (bySchemeValue ix' k)"
    and q: "\<And>k. byQualified ix k = map_option sortCandidates (byQualified ix' k)"
    and p: "\<And>k. byPlain ix k = map_option sortCandidates (byPlain ix' k)"
    using build_parts [OF assms] by metis
  note found = index_assets_found [OF i coherent_empty]
  have e: "found_list (bySchemeValue empty_index k) = []" "found_list (byQualified empty_index k) = []"
    "found_list (byPlain empty_index k) = []" "byCanonicalKey empty_index k = None" for k
    by (simp_all add: empty_index_def found_list_def)
  show ?thesis
  proof (cases ref)
    case (CANONICAL_ID a)
    have "filter (\<lambda>b. asset_key b = canonicalAssetKey a) as =
        (case byCanonicalKey ix (canonicalAssetKey a) of None \<Rightarrow> [] | Some b \<Rightarrow> [b])"
      using index_assets_keys [OF i coherent_empty] filter_unique_key [of asset_key as "canonicalAssetKey a"] e(4) c
      by (simp split: option.splits)
    then show ?thesis
      unfolding CANONICAL_ID candidatesFor.simps answers.simps(1) [abs_def] asset_key_def
      by (auto simp: sortCandidates_def split: option.splits)
  next
    case (SCHEME_VALUE t v)
    show ?thesis
      unfolding SCHEME_VALUE candidatesFor.simps answers.simps(2) [abs_def] s found_map_sort found(1) e append_Nil ..
  next
    case (QUALIFIED x y k)
    show ?thesis
      unfolding QUALIFIED candidatesFor.simps answers.simps(3) [abs_def] q found_map_sort found(2) e append_Nil ..
  next
    case (PLAIN k)
    show ?thesis
      unfolding PLAIN candidatesFor.simps answers.simps(4) [abs_def] p found_map_sort found(3) e append_Nil ..
  qed
qed

lemma built_distinct: "buildAssetIndex as = Inr ix \<Longrightarrow> distinct (map asset_key as)"
  using index_assets_keys [OF _ coherent_empty] build_parts by metis

text \<open>The order in which assets were supplied does not matter.\<close>

lemma sortCandidates_set:
  assumes "distinct (map asset_key xs)" "distinct (map asset_key ys)" "set xs = set ys"
  shows "sortCandidates xs = sortCandidates ys"
  unfolding sortCandidates_def
proof (rule candidate_order.sorted_unique_on)
  have d: "distinct xs" "distinct ys" using assms(1,2) by (simp_all add: distinct_map)
  then show "distinct (js_sort (\<lambda>a b. compareStrings (canonicalAssetKey (identity a)) (canonicalAssetKey (identity b))) xs)"
    "distinct (js_sort (\<lambda>a b. compareStrings (canonicalAssetKey (identity a)) (canonicalAssetKey (identity b))) ys)"
    by simp_all
next
  fix a b
  assume "a \<in> set (js_sort (\<lambda>a b. compareStrings (canonicalAssetKey (identity a)) (canonicalAssetKey (identity b))) xs)"
    "b \<in> set (js_sort (\<lambda>a b. compareStrings (canonicalAssetKey (identity a)) (canonicalAssetKey (identity b))) xs)"
    "compareStrings (canonicalAssetKey (identity a)) (canonicalAssetKey (identity b)) \<le> 0"
    "compareStrings (canonicalAssetKey (identity b)) (canonicalAssetKey (identity a)) \<le> 0"
  then have "a \<in> set xs" "b \<in> set xs" "asset_key a = asset_key b"
    unfolding asset_key_def using str_cmp.cmp_antisym by auto
  then show "a = b" using assms(1) by (auto simp: distinct_map dest: inj_onD)
qed (simp_all add: assms(3) candidate_order.sorted_sort)

lemma resolution_cases:
  assumes "buildAssetIndex as = Inr ix" "parseReference raw = Inr ref"
  shows "resolveReference ix raw = (case sortCandidates (filter (answers ref) as) of
     [] \<Rightarrow> UNRESOLVED
   | [a] \<Rightarrow> RESOLVED (reference_kind_of ref) a
   | cs \<Rightarrow> AMBIGUOUS (reference_kind_of ref) cs)"
proof -
  have idem: "sortCandidates (sortCandidates xs) = sortCandidates xs" for xs
    unfolding sortCandidates_def by (rule candidate_order.sort_idem)
  show ?thesis
    unfolding resolveReference_def assms(2) sum.case Let_def candidates_exact [OF assms(1)] idem
    by (cases "sortCandidates (filter (answers ref) as)"; cases "tl (sortCandidates (filter (answers ref) as))") auto
qed

end
