(* ===== verification/Reg_Samples.thy ===== *)
theory Reg_Samples
  imports Reg_Bridge Reg_CheckDigits Reg_Resolution Samples
begin

text \<open>
  Concrete snapshots for the properties of the registry: one asset, a representation whose sources agree, and one whose
  issuer a verified and an authoritative source name differently.
\<close>

definition reg_keccak :: "u8 list \<Rightarrow> u8 list" where
  "reg_keccak bytes = replicate 32 0"

definition js_claim :: "string \<Rightarrow> string \<Rightarrow> js \<Rightarrow> js" where
  "js_claim trust source v = JObj [(''value'', v), (''provenance'', JObj [(''trustClass'', JStr trust),
     (''sourceId'', JStr source), (''observedAtUnixSeconds'', JBig 100)])]"

definition js_stated :: "string \<Rightarrow> js" where
  "js_stated v = JArr [js_claim ''AUTHORITATIVE'' ''desk'' (JStr v)]"

definition reg_asset :: asset_id where
  "reg_asset = \<lparr>assetClass = ''equity'', idScheme = ''figi'', assetValue = ''BBG000B9XRY4''\<rparr>"

definition js_reg_asset :: js where
  "js_reg_asset = JObj [(''identity'', js_asset reg_asset), (''status'', JStr ''ACTIVE''),
     (''display'', JObj [(''primaryName'', JStr ''Apple''), (''displayTicker'', JStr ''AAPL''), (''listings'', JArr []),
       (''aliases'', JArr [])])]"

definition reg_id :: "string \<Rightarrow> string" where
  "reg_id c = ''eip155:1/erc20:0x'' @ concat (replicate 40 c)"

definition js_reg_record :: "string \<Rightarrow> js list \<Rightarrow> js" where
  "js_reg_record c issuers = JObj [(''representationId'', JStr (reg_id c)), (''display'', JObj []),
     (''underlying'', JArr [js_claim ''AUTHORITATIVE'' ''desk'' (js_asset reg_asset)]), (''issuer'', JArr issuers),
     (''instrumentType'', js_stated ''BACKED_NOTE''), (''backing'', js_stated ''FULLY_BACKED''),
     (''redemption'', js_stated ''NONE''), (''corporateActionHandling'', js_stated ''NOT_APPLIED''),
     (''settlement'', js_stated ''DEFERRED''), (''operationalStatus'', js_stated ''ACTIVE''),
     (''eligibility'', JArr [])]"

definition js_reg_snapshot :: "js list \<Rightarrow> js" where
  "js_reg_snapshot records = JObj [(''registrySchemaVersion'', JNum (IntNum 1)), (''snapshotId'', JStr ''s1''),
     (''createdAtUnixSeconds'', JBig 200), (''dataClass'', JStr ''SYNTHETIC_FIXTURE''), (''sourceVersions'', JArr []),
     (''assets'', JArr [js_reg_asset]), (''representations'', JArr records)]"

definition agreeing :: js where
  "agreeing = js_reg_record ''a'' [js_claim ''VERIFIED'' ''feed'' (JStr ''acme''), js_claim ''AUTHORITATIVE'' ''desk'' (JStr ''acme'')]"

definition disagreeing :: js where
  "disagreeing = js_reg_record ''b'' [js_claim ''VERIFIED'' ''feed'' (JStr ''bogus''),
     js_claim ''AUTHORITATIVE'' ''desk'' (JStr ''acme'')]"

text \<open>The same as parsed values.\<close>

definition stated :: "trust_class \<Rightarrow> string \<Rightarrow> 'a \<Rightarrow> 'a claim" where
  "stated t source v = \<lparr>claim_value = v, claim_prov = \<lparr>trustClass = t, sourceId = source, observedAt = 100\<rparr>\<rparr>"

abbreviation by_desk :: "'a \<Rightarrow> 'a claim" where
  "by_desk v \<equiv> stated AUTHORITATIVE ''desk'' v"

definition parsed_id :: "string \<Rightarrow> representation_id" where
  "parsed_id c = \<lparr>chainNamespace = ''eip155'', chainReference = ''1'', ri_chain = ''eip155:1'', assetNamespace = ''erc20'',
     contractAddress = ''0x'' @ concat (replicate 40 c), ri_value = reg_id c\<rparr>"

definition reg_record :: "string \<Rightarrow> string claim list \<Rightarrow> representation_record" where
  "reg_record c issuers = \<lparr>representationId = parsed_id c, rr_display = \<lparr>tokenSymbol = None, tokenName = None\<rparr>,
     rr_underlying = [by_desk reg_asset], rr_issuer = issuers, rr_instrumentType = [by_desk BACKED_NOTE],
     rr_backing = [by_desk FULLY_BACKED], rr_redemption = [by_desk NO_REDEMPTION], rr_rights = [],
     rr_corporateActionHandling = [by_desk NOT_APPLIED], rr_settlement = [by_desk DEFERRED_SETTLEMENT],
     rr_operationalStatus = [by_desk STATUS_ACTIVE], rr_eligibility = []\<rparr>"

definition sample_asset_record :: asset_record where
  "sample_asset_record = \<lparr>identity = reg_asset, asset_status_of = ASSET_ACTIVE,
     asset_display_of = \<lparr>primaryName = ''Apple'', displayTicker = Some ''AAPL'', primaryMarketIdentifier = None,
       listings = [], aliases = []\<rparr>\<rparr>"

definition snapshot_of :: "representation_record list \<Rightarrow> registry_snapshot" where
  "snapshot_of rs = \<lparr>registrySchemaVersion = 1, snapshotId = ''s1'', createdAt = 200, dataClass = SYNTHETIC_FIXTURE,
     sourceVersions = [], assets = [sample_asset_record], representations = rs\<rparr>"

definition agreeing_record :: representation_record where
  "agreeing_record = reg_record ''a'' [stated VERIFIED ''feed'' ''acme'', by_desk ''acme'']"

definition disagreeing_record :: representation_record where
  "disagreeing_record = reg_record ''b'' [stated VERIFIED ''feed'' ''bogus'', by_desk ''acme'']"

definition sample_snapshot :: registry_snapshot where
  "sample_snapshot = snapshot_of [agreeing_record, disagreeing_record]"

definition js_sample :: js where
  "js_sample = js_reg_snapshot [agreeing, disagreeing]"

lemma sample_snapshot: "parseRegistrySnapshot reg_keccak js_sample = Inr sample_snapshot"
  by code_simp

definition sample_registry :: registry where
  "sample_registry = (case index_snapshot sample_snapshot of Inr reg \<Rightarrow> reg)"

lemma sample_registry: "openRegistry reg_keccak js_sample = Inr sample_registry"
proof -
  have "isOk (index_snapshot sample_snapshot)" by code_simp
  then show ?thesis
    unfolding openRegistry_def sample_snapshot sample_registry_def rbind_simps
    by (cases "index_snapshot sample_snapshot") auto
qed

definition reg_mandate :: mandate where
  "reg_mandate = sample_mandate\<lparr>m_canonicalAsset := reg_asset, m_allowedIssuers := [''acme''],
     m_allowedChains := [''eip155:1'']\<rparr>"

definition reg_context :: evaluation_context where
  "reg_context = \<lparr>ctx_now = 300, ctx_maxClaimAge = None, ctx_minimumTrust = None\<rparr>"

definition reg_base :: requirements where
  "reg_base = (case deriveRequirements reg_mandate reg_context of Inr q \<Rightarrow> q)"

lemma reg_base: "deriveRequirements reg_mandate reg_context = Inr reg_base"
proof -
  have "isOk (deriveRequirements reg_mandate reg_context)" by code_simp
  then show ?thesis unfolding reg_base_def by (cases "deriveRequirements reg_mandate reg_context") auto
qed

text \<open>Institutional policy that trusts authoritative sources alone.\<close>

definition strict_policy :: additional_requirements where
  "strict_policy = no_additional\<lparr>ar_minimumTrust := Some AUTHORITATIVE\<rparr>"

definition reg_strict :: requirements where
  "reg_strict = (case narrowRequirements reg_base strict_policy of Inr q \<Rightarrow> q)"

lemma reg_strict: "narrowRequirements reg_base strict_policy = Inr reg_strict"
proof -
  have "isOk (narrowRequirements reg_base strict_policy)" by code_simp
  then show ?thesis unfolding reg_strict_def by (cases "narrowRequirements reg_base strict_policy") auto
qed

lemma agreeing_admitted:
  "evaluateRepresentation reg_keccak sample_registry reg_strict (JStr (reg_id ''a'')) = ADMISSIBLE (parsed_id ''a'')"
  by code_simp

lemma disagreeing_excluded:
  "evaluateRepresentation reg_keccak sample_registry reg_base (JStr (reg_id ''b'')) =
     EXCLUDED (Some (parsed_id ''b'')) [RegistryCode REPRESENTATION_METADATA_CONFLICT]
       [reg_exclusion REPRESENTATION_METADATA_CONFLICT [(''property'', ''issuer''), (''values'', ''acme,bogus'')]]"
  by code_simp

lemma disagreeing_admitted:
  "evaluateRepresentation reg_keccak sample_registry reg_strict (JStr (reg_id ''b'')) = ADMISSIBLE (parsed_id ''b'')"
  by code_simp

text \<open>Narrowing can admit: the documentation says that it can only add exclusions.\<close>

lemma narrowing_can_admit:
  "\<exists>keccak raw reg m ctx base extra q x rid.
     openRegistry keccak raw = Inr reg \<and> deriveRequirements m ctx = Inr base \<and> narrowRequirements base extra = Inr q
   \<and> evaluateRepresentation keccak reg base x \<noteq> ADMISSIBLE rid \<and> evaluateRepresentation keccak reg q x = ADMISSIBLE rid"
proof -
  have "evaluateRepresentation reg_keccak sample_registry reg_base (JStr (reg_id ''b'')) \<noteq> ADMISSIBLE (parsed_id ''b'')"
    by (simp add: disagreeing_excluded)
  then show ?thesis using sample_registry reg_base reg_strict disagreeing_admitted by blast
qed

section \<open>Digests that throw\<close>

text \<open>A source of trust class \<open>toString\<close> passes the parser, which asks with the operator \<open>in\<close>; it has no wire code.\<close>

definition inherited_record :: js where
  "inherited_record = js_reg_record ''a'' [js_claim ''toString'' ''feed'' (JStr ''acme'')]"

definition inherited_snapshot :: registry_snapshot where
  "inherited_snapshot = snapshot_of [reg_record ''a'' [stated (INHERITED ''toString'') ''feed'' ''acme'']]"

lemma snapshot_digest_throws:
  "\<exists>keccak raw s. parseRegistrySnapshot keccak raw = Inr s \<and> registrySnapshotDigest keccak s = None"
proof -
  have "parseRegistrySnapshot reg_keccak (js_reg_snapshot [inherited_record]) = Inr inherited_snapshot" by code_simp
  moreover have "registrySnapshotDigest reg_keccak inherited_snapshot = None" by code_simp
  ultimately show ?thesis by blast
qed

end
