(* ===== verification/Route_Samples.thy ===== *)
theory Route_Samples
  imports Route_Selected Reg_Samples
begin

text \<open>
  A request with two quotes for the properties of the router: the registry admits the representation of the one and
  refuses the other's, and the kernel passes the candidate built from the first now and on the later state.
\<close>

section \<open>The request\<close>

definition rt_state :: "string \<Rightarrow> trusted_state" where
  "rt_state sid = \<lparr>s_version = 2, s_stateId = sid, s_registrySnapshotDigest = Some zero_digest,
     s_representations = [observe \<lparr>rep_id = reg_id ''a'', rep_asset = reg_asset, rep_issuer = ''acme'',
       rep_chain = ''eip155:1'', instrumentType = None, synthetic = NO, operationalState = ACTIVE\<rparr>],
     s_market = Some (observe \<lparr>market_asset = reg_asset, referencePrice = Some (sample_price 10000), haltStatus = TRADING\<rparr>),
     s_corporateAction = Some (observe \<lparr>ca_asset = reg_asset, ca_epoch = Some 3\<rparr>),
     s_replay = Some (observe \<lparr>rs_mandateDigest = zero_digest, rs_status = UNUSED\<rparr>)\<rparr>"

definition rt_quantity :: amount where
  "rt_quantity = \<lparr>unit = ''share'', decimals = 0, atoms = 5\<rparr>"

definition rt_costs :: known_costs where
  "rt_costs = \<lparr>venueFee = usd 40, executionFee = usd 30, settlementFee = usd 20, routeFee = usd 10\<rparr>"

definition js_rt_costs :: js where
  "js_rt_costs = JObj (map (\<lambda>(name, a). (name, js_amount a)) (named_costs rt_costs))"

definition js_rt_quote :: "string \<Rightarrow> string \<Rightarrow> js" where
  "js_rt_quote rid c = JObj [(''version'', JNum (IntNum 1)), (''routeId'', JStr rid), (''providerId'', JStr ''desk''),
     (''providerClass'', JStr ''SYNTHETIC_TEST''), (''canonicalAsset'', js_asset reg_asset),
     (''representationId'', JStr (reg_id c)), (''issuer'', JStr ''acme''), (''chain'', JStr ''eip155:1''),
     (''venue'', JStr ''venue''), (''side'', JStr ''BUY''), (''agent'', js_party sample_party),
     (''quantity'', js_amount rt_quantity), (''executionPrice'', js_price (sample_price 10010)),
     (''notional'', js_amount (usd 50050)), (''quoteObservedAtUnixSeconds'', JBig 145),
     (''fillPolicy'', JStr ''FILL_OR_KILL''), (''costs'', js_rt_costs),
     (''steps'', JArr [JObj [(''kind'', JStr ''TRADE''), (''venue'', JStr ''venue''), (''chain'', JStr ''eip155:1''),
        (''representationId'', JStr (reg_id c))]]),
     (''referenceStateId'', JStr ''s2''), (''corporateActionEpoch'', JBig 3)]"

definition js_rt_cost :: "string \<Rightarrow> js" where
  "js_rt_cost rid = JObj [(''routeId'', JStr rid), (''costs'', js_rt_costs),
     (''provenanceSourceId'', JStr ''fees''), (''observedAtUnixSeconds'', JBig 140)]"

definition js_route_request :: "js list \<Rightarrow> js list \<Rightarrow> js" where
  "js_route_request routes costs = JObj [(''mandate'', js_mandate reg_mandate), (''authorization'', js_envelope sample_envelope),
     (''registry'', JObj [(''snapshot'', js_sample)]), (''routes'', JArr routes),
     (''trustedMarketState'', js_state (rt_state ''s2'')), (''trustedCosts'', JArr costs),
     (''clock'', JObj [(''nowUnixSeconds'', JBig 150)]), (''requestedQuantity'', js_amount rt_quantity),
     (''expectedDomain'', js_domain sample_domain)]"

definition rt_request :: js where
  "rt_request = js_route_request [js_rt_quote ''r1'' ''a'', js_rt_quote ''r2'' ''b''] [js_rt_cost ''r1'', js_rt_cost ''r2'']"

definition rt_handoff :: js where
  "rt_handoff = JObj [(''trustedMarketState'', js_state (rt_state ''s3'')), (''clock'', JObj [(''nowUnixSeconds'', JBig 160)])]"

section \<open>Its parts, parsed\<close>

definition rt_quote :: "string \<Rightarrow> string \<Rightarrow> provider_quote" where
  "rt_quote rid c = \<lparr>pq_routeId = rid, pq_providerId = ''desk'', pq_providerClass = SYNTHETIC_TEST,
     pq_canonicalAsset = reg_asset, pq_representationId = reg_id c, pq_issuer = ''acme'', pq_chain = ''eip155:1'',
     pq_venue = ''venue'', pq_side = BUY, pq_agent = sample_party, pq_quantity = rt_quantity,
     pq_executionPrice = sample_price 10010, pq_notional = usd 50050, pq_quoteObservedAt = 145,
     pq_fillPolicy = FILL_OR_KILL, pq_costs = \<lparr>venueFee = Some (usd 40), executionFee = Some (usd 30),
       settlementFee = Some (usd 20), routeFee = Some (usd 10)\<rparr>,
     pq_steps = [\<lparr>step_kind = TRADE, step_venue = ''venue'', step_chain = ''eip155:1'', step_representationId = reg_id c\<rparr>],
     pq_referenceStateId = ''s2'', pq_corporateActionEpoch = 3\<rparr>"

definition rt_cost :: "string \<Rightarrow> trusted_route_cost" where
  "rt_cost rid = \<lparr>tc_routeId = rid, tc_costs = pq_costs (rt_quote rid ''a''), tc_provenanceSourceId = ''fees'', tc_observedAt = 140\<rparr>"

lemma rt_idents:
  "valid_ident ''desk''" "valid_ident ''acme''" "valid_ident ''eip155:1''" "valid_ident ''venue''" "valid_ident ''s2''"
  "valid_ident ''fees''" "valid_ident ''r1''" "valid_ident ''r2''" "valid_ident (reg_id ''a'')" "valid_ident (reg_id ''b'')"
  "wf_asset reg_asset" "wf_party sample_party" "wf_amount rt_quantity" "wf_price (sample_price 10010)"
  by code_simp+

lemma rt_amounts:
  "0 \<le> a \<Longrightarrow> a \<le> UINT256_MAX \<Longrightarrow> parseAmount (js_amount (usd a)) = Inr (usd a)" "js_amount x \<noteq> JNull"
  "parseAmount (js_amount rt_quantity) = Inr rt_quantity" "parsePrice (js_price (sample_price 10010)) = Inr (sample_price 10010)"
  "parsePartyId (js_party sample_party) MALFORMED_CANDIDATE = Inr sample_party"
  using rt_idents(12-14)
  by (simp_all add: wf_amount_def usd_def valid_ident_def ident_char_def SEPARATORS_def IDENTIFIER_MAX_LENGTH_def MAX_DECIMALS_def)
    (simp add: js_amount_def)

lemma rt_costs_parsed: "parseCosts js_rt_costs = Some (pq_costs (rt_quote rid c))"
  by (simp add: parseCosts_def strictObject_def js_rt_costs_def named_costs_def rt_costs_def rt_quote_def COST_NAMES_def
      only_keys_def parseNullableAmount_def rt_amounts)

lemma rt_quote_parsed:
  assumes "valid_ident rid" "valid_ident (reg_id c)"
  shows "parseProviderRouteQuote (js_rt_quote rid c) n = Inr (rt_quote rid c)"
proof -
  have steps: "parse_steps [JObj [(''kind'', JStr ''TRADE''), (''venue'', JStr ''venue''), (''chain'', JStr ''eip155:1''),
      (''representationId'', JStr (reg_id c))]] = Some (pq_steps (rt_quote rid c))"
    using assms rt_idents
    by (simp add: parseStep_def strictObject_def only_keys_def enumValue_def RouteStepKind_def rt_quote_def)
  have "quote_of (js_rt_quote rid c) [] = Some ((rt_quote rid c)\<lparr>pq_steps := []\<rparr>)"
    using assms rt_idents
    by (simp add: quote_of_def js_rt_quote_def obind_def value_opt_def enumValue_def ProviderClass_def Side_def FillPolicy_def
        rt_amounts rt_costs_parsed [of rid c])
      (simp add: parseUnixSeconds_def parseRange_def rt_quote_def)
  then show ?thesis
    using steps
    by (simp add: parseProviderRouteQuote_def strictObject_def Let_def js_rt_quote_def only_keys_def QUOTE_FIELDS_def
        ROUTE_QUOTE_SCHEMA_VERSION_def MAX_ROUTE_STEPS_def rt_quote_def)
qed

lemma rt_quotes:
  "parseProviderRouteSet (JArr [js_rt_quote ''r1'' ''a'', js_rt_quote ''r2'' ''b'']) = Inr [rt_quote ''r1'' ''a'', rt_quote ''r2'' ''b'']"
proof -
  have "compareStrings ''r1'' ''r2'' \<le> 0" by code_simp
  then show ?thesis
    by (simp add: parseProviderRouteSet_def MAX_ROUTE_CANDIDATES_def rt_quote_parsed rt_idents)
      (simp add: rt_quote_def compare_quotes_def)
qed

definition rt_cost_map :: "string \<Rightarrow> trusted_route_cost option" where
  "rt_cost_map = map_of [(''r1'', rt_cost ''r1''), (''r2'', rt_cost ''r2'')]"

lemma rt_cost_map: "parseTrustedRouteCosts (JArr [js_rt_cost ''r1'', js_rt_cost ''r2'']) = Inr rt_cost_map"
proof -
  have "parse_trusted_cost (js_rt_cost rid) = Some (rt_cost rid)" if "valid_ident rid" for rid
    using that rt_idents
    by (simp add: parse_trusted_cost_def js_rt_cost_def only_keys_def obind_def value_opt_def rt_costs_parsed [of rid "''a''"])
      (simp add: parseUnixSeconds_def parseRange_def rt_cost_def)
  then have "parse_costs_from [] 0 [js_rt_cost ''r1'', js_rt_cost ''r2''] = Inr [rt_cost ''r1'', rt_cost ''r2'']"
    using rt_idents by (simp add: rt_cost_def)
  then show ?thesis
    by (simp add: parseTrustedRouteCosts_def MAX_TRUSTED_ROUTE_COSTS_def MAX_ROUTE_CANDIDATES_def rt_cost_map_def rt_cost_def)
qed

lemma reg_keccak: "reg_keccak = keccak0"
  by (rule ext) (simp add: reg_keccak_def keccak0_def)

lemma rt_snapshot: "snapshot sample_registry = sample_snapshot"
  using sample_snapshot openRegistry_parts(1) [OF sample_registry] by simp

definition rt_inputs :: route_inputs where
  "rt_inputs = \<lparr>in_mandate = reg_mandate, in_authorization = sample_envelope, in_trustedState = rt_state ''s2'', in_clock = 150,
     in_domain = sample_domain, in_quantity = rt_quantity, in_costs = rt_cost_map, in_registry = sample_registry,
     in_snapshotDigest = zero_digest\<rparr>"

definition rt_requirements :: requirements where
  "rt_requirements = (case deriveRequirements reg_mandate \<lparr>ctx_now = 150, ctx_maxClaimAge = None, ctx_minimumTrust = None\<rparr> of
     Inr q \<Rightarrow> q)"

lemma rt_requirements: "requirements_of rt_inputs rt_requirements"
proof -
  let ?r = "deriveRequirements reg_mandate \<lparr>ctx_now = 150, ctx_maxClaimAge = None, ctx_minimumTrust = None\<rparr>"
  have "isOk ?r" by code_simp
  then show ?thesis unfolding rt_requirements_def requirements_of_def rt_inputs_def by (cases ?r) auto
qed

lemma rt_decisions:
  "decisions_for keccak0 sample_registry rt_requirements (reg_id ''a'') = Some (ADMISSIBLE (parsed_id ''a''))"
  "decisions_for keccak0 sample_registry rt_requirements (reg_id ''b'') = Some (EXCLUDED (Some (parsed_id ''b''))
     [RegistryCode REPRESENTATION_METADATA_CONFLICT]
     [reg_exclusion REPRESENTATION_METADATA_CONFLICT [(''property'', ''issuer''), (''values'', ''acme,bogus'')]])"
  by code_simp+

definition rt_execution :: candidate where
  "rt_execution = quoted_candidate (rt_quote ''r1'' ''a'') (usd 100) zero_digest zero_digest"

definition rt_candidate :: routing_candidate where
  "rt_candidate = \<lparr>rc_routeId = ''r1'', rc_providerId = ''desk'', rc_providerClass = SYNTHETIC_TEST,
     rc_fillPolicy = FILL_OR_KILL, rc_quoteObservedAt = 145, rc_referenceObservedAt = 140,
     rc_referencePrice = sample_price 10000, rc_trustedCostSourceId = ''fees'', rc_trustedCostObservedAt = 140,
     rc_costs = rt_costs, rc_steps = pq_steps (rt_quote ''r1'' ''a''), rc_feeTotal = usd 100,
     rc_executionCandidate = rt_execution, rc_kernelCandidateDigest = zero_digest, rc_candidateDigest = zero_digest\<rparr>"

definition rt_quality :: route_quality where
  "rt_quality = \<lparr>economicValue = usd 50150, executionDeviationBps = 10, quoteAgeSeconds = 5, routeSteps = 1,
     explicitFeeTotal = usd 100\<rparr>"

lemma rt_no_failures:
  "build_failures reg_mandate (rt_quote ''r1'' ''a'') (rt_state ''s2'') (Some (rt_cost ''r1'')) rt_quantity 150 = []"
  by code_simp

lemma rt_valid_costs:
  "validateCosts (pq_costs (rt_quote ''r1'' ''a'')) (Some (rt_cost ''r1'')) (pq_notional (rt_quote ''r1'' ''a'')) =
     Inr (rt_costs, usd 100)"
  by code_simp

lemma rt_reference: "map_option (\<lambda>(k, p). (observedAt (prov k), p)) (reference_price (rt_state ''s2'')) = Some (140, sample_price 10000)"
  by code_simp

lemma rt_parts_wf: "wf_candidate rt_execution" "wf_mandate reg_mandate"
proof -
  show "wf_candidate rt_execution" by code_simp
  have "wf_id_set [''acme'']" "wf_id_set [''eip155:1'']" "wf_asset reg_asset" by code_simp+
  then show "wf_mandate reg_mandate" using sample_wf(1) by (simp add: wf_mandate_def reg_mandate_def)
qed

lemma rt_deviation: "deviationBps (sample_price 10010) (sample_price 10000) = Inr 10"
  by code_simp

lemma rt_encoded: "\<not> Option.is_none (encodeRoutingCandidate keccak0 rt_candidate)"
  by code_simp

section \<open>The verifier on them\<close>

definition rt_context :: "string \<Rightarrow> int \<Rightarrow> check_context" where
  "rt_context sid now = \<lparr>x_mandate = reg_mandate, x_authorization = sample_envelope, x_candidate = rt_execution,
     x_state = rt_state sid, x_now = now, x_expectedDomain = sample_domain, x_mandateDigest = zero_digest,
     x_trustedStateDigest = zero_digest\<rparr>"

lemma rt_signature: "checkSignature keccak0 recover0 7 (rt_context sid now) = Some []"
  using good_signature [OF sample_idents(3)]
  by (simp add: checkSignature_def rt_context_def reg_mandate_def sample_mandate_def)

lemmas rt_defs = rt_context_def reg_mandate_def sample_mandate_def rt_execution_def quoted_candidate_def rt_quote_def
  rt_state_def observe_def sample_provenance_def sample_price_def usd_def rt_quantity_def Let_def

lemma rt_chain: "chainSegmentOf (reg_id ''a'') = Some ''eip155:1''"
  by code_simp

lemma rt_passes:
  assumes "150 \<le> now" "now \<le> 160"
  shows "checkAgent (rt_context sid now) = []" "checkValidityWindow (rt_context sid now) = []"
    "checkReplay (rt_context sid now) = []" "checkCanonicalAsset (rt_context sid now) = []"
    "checkChain (rt_context sid now) = []" "checkVenue (rt_context sid now) = []"
    "checkSide (rt_context sid now) = []" "checkRepresentation (rt_context sid now) = []"
    "checkRepresentationChain (rt_context sid now) = []" "checkNotionalConsistency (rt_context sid now) = []"
    "checkMaxNotional (rt_context sid now) = []" "checkEconomicLimit (rt_context sid now) = []"
    "checkPriceDeviation (rt_context sid now) = []" "checkPriceFreshness (rt_context sid now) = []"
    "checkHalt (rt_context sid now) = []" "checkCorporateAction (rt_context sid now) = []"
    "checkRegistrySnapshotBinding (rt_context sid now) = []" "checkTrustLevels (rt_context sid now) = []" 
  using assms by (simp_all add: checkAgent_def checkValidityWindow_def checkReplay_def checkCanonicalAsset_def checkChain_def checkVenue_def checkSide_def checkRepresentation_def checkRepresentationChain_def checkNotionalConsistency_def checkMaxNotional_def checkEconomicLimit_def checkPriceDeviation_def checkPriceFreshness_def checkHalt_def checkCorporateAction_def checkRegistrySnapshotBinding_def checkTrustLevels_def
      rt_defs units_defs findRepresentation_def chain_inconsistent_def untrusted_def
      isTrustedForAuthorization_def rt_chain)

lemma rt_run_checks:
  "150 \<le> now \<Longrightarrow> now \<le> 160 \<Longrightarrow> run_checks (CHECKS keccak0 recover0 7) (rt_context sid now) = []"
  unfolding run_checks_def CHECKS_def pure_check_def by (simp add: rt_signature rt_passes)

lemma rt_state_wf: "valid_ident sid \<Longrightarrow> wf_state (rt_state sid)"
proof -
  have "wf_asset reg_asset" "wf_price (sample_price 10000)" "wf_provenance sample_provenance" "hex_literal 64 zero_digest"
    "valid_ident (reg_id ''a'')" "valid_ident ''acme''" "valid_ident ''eip155:1''"
    by code_simp+
  then show "valid_ident sid \<Longrightarrow> ?thesis"
    by (simp add: wf_state_def rt_state_def STATE_SCHEMA_VERSION_def wf_observed_def observe_def wf_representation_def
        wf_market_def wf_corporate_action_def wf_replay_state_def MAX_STATE_REPRESENTATIONS_def)
qed

lemma rt_parse_state: "valid_ident sid \<Longrightarrow> parseTrustedState (js_state (rt_state sid)) = Inr (rt_state sid)"
  by (simp add: parseTrustedState_js rt_state_wf)

definition rt_receipt :: "int \<Rightarrow> receipt" where
  "rt_receipt now = \<lparr>verifierVersion = VERIFIER_VERSION, b_digests = \<lparr>g_mandate = Some zero_digest,
     g_candidate = Some zero_digest, g_state = Some zero_digest, g_evaluatedAt = Some now\<rparr>, decision_of = PASS,
     reasonCodes = [], violations = [], receiptDigest = zero_digest\<rparr>"

definition rt_verify :: "string \<Rightarrow> int \<Rightarrow> verify_request" where
  "rt_verify sid now = \<lparr>vr_mandate = reg_mandate, vr_authorization = sample_envelope, vr_candidate = rt_execution,
     vr_trustedState = rt_state sid, vr_clock = now, vr_expectedDomain = sample_domain\<rparr>"

lemma rt_digests:
  "mandateDigest keccak0 reg_mandate = Some zero_digest" "candidateDigest keccak0 rt_execution = Some zero_digest"
  "valid_ident sid \<Longrightarrow> trustedStateDigest keccak0 (rt_state sid) = Some zero_digest"
  "registrySnapshotDigest keccak0 sample_snapshot = Some zero_digest"
proof -
  show "mandateDigest keccak0 reg_mandate = Some zero_digest"
    using mandateDigest_total [OF rt_parts_wf(2)] by (metis mandateDigest_def keccak0_digest map_option_eq_Some)
  show "candidateDigest keccak0 rt_execution = Some zero_digest"
    using encodeCandidate_total [OF rt_parts_wf(1)] by (auto simp: candidateDigest_def keccak0_digest)
  show "valid_ident sid \<Longrightarrow> trustedStateDigest keccak0 (rt_state sid) = Some zero_digest"
    using trustedStateDigest_total [OF rt_state_wf] by (metis trustedStateDigest_def keccak0_digest map_option_eq_Some)
  show "registrySnapshotDigest keccak0 sample_snapshot = Some zero_digest" by code_simp
qed

lemma rt_verified:
  assumes "(sid, now) = (''s2'', 150) \<or> (sid, now) = (''s3'', 160)"
  shows "kernel_verifier keccak0 recover0 7 (rt_verify sid now) = Some (rt_receipt now)"
proof -
  have "valid_ident ''s2''" "valid_ident ''s3''" by code_simp+
  then have sid: "valid_ident sid" and now: "150 \<le> now" "now \<le> 160" using assms by auto
  have "request_context keccak0 (js_verify_request (rt_verify sid now)) = Some (rt_context sid now)"
    unfolding js_verify_request_eq
    by (subst request_context_js)
      (use rt_parts_wf sample_wf rt_state_wf [OF sid] now in \<open>auto simp: rt_verify_def rt_context_def context_of_def
        rt_digests sid wf_time_def\<close>)
  note v = verify_parsed(1) [OF this, of recover0 7, unfolded rt_run_checks [OF now]]
  have "encodeReceipt (receipt_body.truncate (rt_receipt 150)) \<noteq> None" "encodeReceipt (receipt_body.truncate (rt_receipt 160)) \<noteq> None"
    by code_simp+
  then have "encodeReceipt (receipt_body.truncate (rt_receipt now)) \<noteq> None" using assms by auto
  then show ?thesis
    unfolding kernel_verifier_def v finish_def request_digests_def
    by (auto simp: rt_receipt_def rt_context_def rt_digests receipt_body.defs receipt.defs keccak0_digest canonicalize_def dedupe_def)
qed

section \<open>Both stages\<close>

definition rt_excluded :: route_outcome where
  "rt_excluded = excluded_route ''r2'' [route_exclusion_of (AnyCode (RegistryCode REPRESENTATION_METADATA_CONFLICT))
     [(''property'', ''issuer''), (''values'', ''acme,bogus'')]] None None"

definition rt_evaluation :: routing_evaluation where
  "rt_evaluation = \<lparr>ev_context = context_for rt_inputs,
     ev_admissible = [\<lparr>ar_candidate = rt_candidate, ar_quality = rt_quality, ar_receipt = rt_receipt 150\<rparr>],
     ev_outcomes = [Route_admissible ''r1'' zero_digest rt_quality (rt_receipt 150), rt_excluded]\<rparr>"

abbreviation rt_verifier :: verifier where
  "rt_verifier \<equiv> kernel_verifier keccak0 recover0 7"

lemma rt_fields:
  "in_mandate rt_inputs = reg_mandate" "in_authorization rt_inputs = sample_envelope" "in_trustedState rt_inputs = rt_state ''s2''"
  "in_clock rt_inputs = 150" "in_domain rt_inputs = sample_domain" "in_quantity rt_inputs = rt_quantity"
  "in_costs rt_inputs ''r1'' = Some (rt_cost ''r1'')" "in_registry rt_inputs = sample_registry"
  "in_snapshotDigest rt_inputs = zero_digest" "m_side reg_mandate = BUY"
  "pq_routeId (rt_quote rid c) = rid" "pq_representationId (rt_quote rid c) = reg_id c" "pq_side (rt_quote rid c) = BUY"
  "pq_notional (rt_quote rid c) = usd 50050" "pq_quoteObservedAt (rt_quote rid c) = 145"
  "pq_providerId (rt_quote rid c) = ''desk''" "pq_providerClass (rt_quote rid c) = SYNTHETIC_TEST"
  "length (pq_steps (rt_quote rid c)) = 1" "tc_provenanceSourceId (rt_cost rid) = ''fees''" "tc_observedAt (rt_cost rid) = 140"
  "c_executionPrice rt_execution = sample_price 10010" "rc_candidateDigest rt_candidate = zero_digest"
  "rc_executionCandidate rt_candidate = rt_execution" "decision_of (rt_receipt now) = PASS" "receiptDigest (rt_receipt now) = zero_digest"
  "unit (usd a) = ''USD''" "decimals (usd a) = 2" "atoms (usd a) = a"
  by (simp_all add: rt_inputs_def rt_cost_map_def reg_mandate_def sample_mandate_def rt_quote_def rt_cost_def rt_execution_def
      quoted_candidate_def rt_candidate_def rt_receipt_def usd_def)

lemma rt_sign: "sign_candidate keccak0 (unsigned_candidate.truncate rt_candidate) = Some rt_candidate"
proof -
  obtain b where b: "encodeRoutingCandidate keccak0 rt_candidate = Some b"
    using rt_encoded by (auto simp: Option.is_none_def)
  have "encodeRoutingCandidate keccak0 (unsigned_candidate.truncate rt_candidate) = encodeRoutingCandidate keccak0 rt_candidate"
    by (simp add: encodeRoutingCandidate_def unsigned_candidate.defs)
  then show ?thesis
    using b by (simp add: sign_candidate_def obind_def rt_digests routingCandidateDigest_def keccak0_digest
        unsigned_candidate.defs routing_candidate.defs rt_candidate_def)
qed

lemma rt_built:
  "buildRoutingCandidate keccak0 reg_mandate (rt_quote ''r1'' ''a'') (rt_state ''s2'') (Some (rt_cost ''r1'')) rt_quantity 150
     zero_digest = Some (Inr (rt_candidate, rt_quality))"
proof -
  obtain k where k: "reference_price (rt_state ''s2'') = Some (k, sample_price 10000)" "observedAt (prov k) = 140"
    using rt_reference by auto
  have s2: "valid_ident ''s2''" by code_simp
  have q: "js_quoted_candidate (rt_quote ''r1'' ''a'') (usd 100) zero_digest zero_digest = js_candidate rt_execution"
    by (simp add: js_quoted_candidate_def js_candidate_def rt_execution_def quoted_candidate_def)
  note sign = rt_sign [unfolded unsigned_candidate.defs, unfolded rt_candidate_def, simplified, folded rt_candidate_def]
  show ?thesis
    unfolding buildRoutingCandidate_def rt_no_failures Let_def k rt_valid_costs using sign
    by (simp add: q rt_digests(3) [OF s2] rt_parts_wf obind_def rt_deviation k(2) rt_fields economic_atoms_def)
      (simp add: rt_quality_def usd_def)
qed

lemma rt_judged:
  "judge_quotes keccak0 rt_verifier rt_inputs rt_requirements [] [rt_quote ''r1'' ''a'', rt_quote ''r2'' ''b''] =
     Some (Inr (ev_outcomes rt_evaluation, ev_admissible rt_evaluation))"
proof -
  have r: "request_for rt_inputs rt_execution = rt_verify ''s2'' 150"
    by (simp add: request_for_def rt_fields rt_verify_def)
  have "judge_quote keccak0 rt_verifier rt_inputs rt_requirements [] (rt_quote ''r1'' ''a'') =
      Some (Inr (Verified zero_digest (hd (ev_outcomes rt_evaluation)) (Some (hd (ev_admissible rt_evaluation)))))"
    unfolding judge_quote_def
    by (simp add: rt_decisions rt_fields rt_built r rt_verified obind_def rt_evaluation_def)
  moreover have "judge_quote keccak0 rt_verifier rt_inputs rt_requirements seen (rt_quote ''r2'' ''b'') = Some (Inr (Refused rt_excluded))" for seen
    unfolding judge_quote_def
    by (simp add: rt_decisions rt_fields rt_excluded_def registry_exclusion_def exclusion_of_def route_exclusion_of_def)
  ultimately show ?thesis by (simp add: obind_def rt_evaluation_def)
qed

lemma rt_evaluated: "evaluateRoutes keccak0 (Some rt_verifier) rt_request = Some (Inr rt_evaluation)"
proof -
  have s2: "valid_ident ''s2''" by code_simp
  have side: "s_registrySnapshotDigest (rt_state ''s2'') = Some zero_digest" by (simp add: rt_state_def)
  note snap = rt_snapshot
  have r12: "compareStrings ''r1'' ''r2'' \<le> 0" by code_simp
  have sorted: "js_sort (compareRanked sd) (ev_admissible rt_evaluation) = ev_admissible rt_evaluation"
    "js_sort compare_outcomes (ev_outcomes rt_evaluation) = ev_outcomes rt_evaluation" for sd
    using r12 by (simp_all add: rt_evaluation_def compare_outcomes_def rt_excluded_def excluded_route_def)
  have ev: "evaluate_inputs keccak0 rt_verifier rt_inputs [rt_quote ''r1'' ''a'', rt_quote ''r2'' ''b''] = Some (Inr rt_evaluation)"
    using rt_requirements unfolding evaluate_inputs_def rt_fields side requirements_of_def
    by (simp add: rt_judged sorted del: judge_quotes.simps) (simp add: rt_evaluation_def)
  have amount: "parseAmount (js_amount rt_quantity) = Inr rt_quantity" "parseClock (JObj [(''nowUnixSeconds'', JBig 150)]) = Inr 150"
    by code_simp+
  have fields: "jget rt_request ''mandate'' = js_mandate reg_mandate" "jget rt_request ''authorization'' = js_envelope sample_envelope"
    "jget rt_request ''trustedMarketState'' = js_state (rt_state ''s2'')" "jget rt_request ''clock'' = JObj [(''nowUnixSeconds'', JBig 150)]"
    "jget rt_request ''expectedDomain'' = js_domain sample_domain" "jget rt_request ''requestedQuantity'' = js_amount rt_quantity"
    "jget rt_request ''routes'' = JArr [js_rt_quote ''r1'' ''a'', js_rt_quote ''r2'' ''b'']"
    "jget rt_request ''trustedCosts'' = JArr [js_rt_cost ''r1'', js_rt_cost ''r2'']"
    "jget rt_request ''registry'' = JObj [(''snapshot'', js_sample)]" "is_plain_object rt_request"
    "is_plain_object (JObj [(''snapshot'', js_sample)])" "jget (JObj [(''snapshot'', js_sample)]) ''snapshot'' = js_sample"
    by (simp_all add: rt_request_def js_route_request_def)
  show ?thesis
    unfolding evaluateRoutes_def option.case Let_def fields(10) [THEN eqTrueI] if_True fields fields(11) [THEN eqTrueI]
      parseMandate_js [OF rt_parts_wf(2)] parseAuthorizationEnvelope_js [OF sample_wf(3)] rt_parse_state [OF s2]
      amount parseEip712Domain_js [OF sample_wf(4)] rt_quotes rt_cost_map sample_registry [unfolded reg_keccak]
    by (simp add: snap rt_digests obind_def ev [unfolded rt_inputs_def])
qed

definition rt_routing_receipt :: routing_receipt where
  "rt_routing_receipt = \<lparr>rr_mandateDigest = zero_digest, rr_registrySnapshotDigest = zero_digest,
     rr_marketStateDigest = zero_digest, rr_requestedQuantity = rt_quantity,
     rr_outcomes = [Route_admissible ''r1'' zero_digest rt_quality (rt_receipt 150), rt_excluded],
     rr_rankedCandidateDigests = [zero_digest], rr_selectedCandidateDigest = Some zero_digest,
     rr_finalVerificationReceiptDigest = Some zero_digest, rr_evaluatedAt = 150, rr_handoffStateDigest = Some zero_digest,
     rr_handoffAt = Some 160, rr_receiptDigest = zero_digest\<rparr>"

lemma rt_selected:
  "route keccak0 (Some rt_verifier) rt_request rt_handoff = Some (SELECTED rt_candidate (rt_receipt 160) rt_routing_receipt)"
proof -
  have s: "valid_ident ''s2''" "valid_ident ''s3''" by code_simp+
  have digest: "s_registrySnapshotDigest (rt_state ''s3'') = Some zero_digest" by (simp add: rt_state_def)
  note snap = rt_snapshot
  have clock: "parseClock (JObj [(''nowUnixSeconds'', JBig 160)]) = Inr 160" by code_simp
  have cx: "cx_mandate (ev_context rt_evaluation) = reg_mandate" "cx_authorization (ev_context rt_evaluation) = sample_envelope"
    "cx_registry (ev_context rt_evaluation) = sample_registry" "cx_trustedState (ev_context rt_evaluation) = rt_state ''s2''"
    "cx_clock (ev_context rt_evaluation) = 150" "cx_expectedDomain (ev_context rt_evaluation) = sample_domain"
    "cx_requestedQuantity (ev_context rt_evaluation) = rt_quantity"
    by (simp_all add: rt_evaluation_def context_for_def rt_fields)
  have adm: "ev_admissible rt_evaluation = [\<lparr>ar_candidate = rt_candidate, ar_quality = rt_quality, ar_receipt = rt_receipt 150\<rparr>]"
    by (simp add: rt_evaluation_def)
  have handoff: "resolveValidatedHandoff keccak0 rt_handoff (ev_context rt_evaluation) = Some (Inr (rt_state ''s3'', 160))"
    unfolding resolveValidatedHandoff_def
    by (simp add: rt_handoff_def rt_parse_state [OF s(2)] clock cx digest snap rt_digests obind_def)
  have "\<not> Option.is_none (encodeRoutingReceipt (unsigned_receipt.truncate rt_routing_receipt))" by code_simp
  then have enc: "routingReceiptDigest keccak0 (unsigned_receipt.truncate rt_routing_receipt) = Some zero_digest"
    by (auto simp: routingReceiptDigest_def keccak0_digest Option.is_none_def)
  have fin: "finishReceipt keccak0 (ev_context rt_evaluation) (ev_outcomes rt_evaluation) [zero_digest] (Some zero_digest)
      (Some zero_digest) (Some zero_digest) (Some 160) = Some rt_routing_receipt"
    using enc unfolding finishReceipt_def
    by (simp add: cx snap rt_digests s obind_def rt_routing_receipt_def unsigned_receipt.defs routing_receipt.defs)
      (simp add: rt_evaluation_def)
  have "selectValidatedEvaluation keccak0 rt_verifier rt_evaluation (Safe_integer 0) rt_handoff =
      Some (SELECTED rt_candidate (rt_receipt 160) rt_routing_receipt)"
    using fin rt_verified [of "''s3''" 160] unfolding selectValidatedEvaluation_def handoff obind_def
    by (simp add: rt_digests(3) [OF s(2)] cx rt_verify_def rt_fields Let_def adm)
  then show ?thesis unfolding route_def by (simp add: rt_evaluated obind_def selectEvaluated_def)
qed

end
