(* ===== verification/Explain.thy ===== *)
theory Explain
  imports Verify
begin

text \<open>
  The user-facing reading of a receipt (\<open>packages/kernel/src/explain.ts\<close>) and the two texts the
  registry of \<open>reason-codes.ts\<close> gives each code: the developer message and the human message.
\<close>

type_synonym message_row = "reason_code \<times> string \<times> string"

definition INPUT_MESSAGES :: "message_row list" where
  "INPUT_MESSAGES = [
    (MALFORMED_MANDATE,
      ''The mandate is not a well-formed canonical mandate: a field is missing, of the wrong type, or outside its permitted range.'',
      ''This authorization could not be read and was not used.''),
    (UNSUPPORTED_MANDATE_VERSION,
      ''The mandate declares a schema version this verifier does not implement. Unknown versions are never interpreted leniently.'',
      ''This authorization uses a newer format than this system supports.''),
    (MALFORMED_CANDIDATE,
      ''The execution candidate is not well-formed: a field is missing, of the wrong type, or outside its permitted range.'',
      ''The proposed trade could not be read and was not executed.''),
    (MALFORMED_TRUSTED_STATE,
      ''The supplied trusted state is not well-formed: a field is missing, of the wrong type, or outside its permitted range.'',
      ''Market information was unusable, so the trade was not executed.''),
    (MALFORMED_AUTHORIZATION,
      ''The authorization envelope is not well-formed: signature length, signer format or domain fields are invalid.'',
      ''The approval attached to this authorization could not be read.''),
    (MALFORMED_IDENTIFIER,
      ''An identifier string violates the canonical charset, length or shape rules (ADR 0002). Identifiers are never trimmed, case-folded or otherwise repaired.'',
      ''An identifier in this request was not valid.''),
    (RESOURCE_LIMIT_EXCEEDED,
      ''An externally sized collection exceeds its declared bound. Every counted collection the kernel encodes has a parse-time limit, so an oversized input is a typed rejection rather than an encoder assertion.'',
      ''This request was larger than the system accepts and was not used.''),
    (UNIT_MISMATCH,
      ''Two quantities that must share a unit or decimal scale do not. No implicit conversion is performed.'',
      ''The amounts in this request were expressed in incompatible units.''),
    (VALUE_OUT_OF_RANGE,
      ''A numeric value is negative where unsigned, or exceeds the maximum this encoding supports. Arithmetic is never allowed to wrap.'',
      ''A value in this request was outside the supported range.''),
    (NOTIONAL_INCONSISTENT,
      ''The candidate declared notional does not equal quantity multiplied by execution price, rounded either down or up. The declared value is never substituted with the recomputed one.'',
      ''The quantity, price and total of this trade did not agree.''),
    (VERIFIER_INTERNAL_ERROR,
      ''A check raised an unexpected error. This is a defect in the verifier, and it fails closed: an internal fault produces a rejection, never a pass.'',
      ''This trade could not be checked and was not executed.'')]"

definition AUTH_MESSAGES :: "message_row list" where
  "AUTH_MESSAGES = [
    (MANDATE_EXPIRED,
      ''The evaluation time is at or after the mandate expiry. Expiry is inclusive of rejection: t >= expiresAt rejects.'',
      ''This authorization has expired. Approve the trade again to continue.''),
    (MANDATE_NOT_YET_ACTIVE,
      ''The evaluation time is before the mandate notBefore time.'',
      ''This authorization is not active yet.''),
    (SIGNATURE_INVALID,
      ''The authorization signature does not verify against the mandate digest under the declared scheme and domain.'',
      ''The approval for this authorization was not valid.''),
    (SIGNER_UNAUTHORIZED,
      ''The signature recovered a valid signer, but that signer is not the mandate principal. A valid signature is not authorization unless it is the right party.'',
      ''This authorization was approved by someone who does not own the account.''),
    (MANDATE_QUARANTINED,
      ''A previous attempt reserved this authorization and its outcome was never established, so the authorization is quarantined pending reconciliation. It may already have executed; permitting a second attempt would risk executing the same trade twice.'',
      ''A previous attempt on this authorization is still unresolved, so it cannot be used again yet.''),
    (AGENT_UNAUTHORIZED,
      ''The acting agent presented with the candidate is not the agent named in the mandate.'',
      ''This trade was proposed by an agent that is not authorized here.''),
    (MANDATE_ALREADY_CONSUMED,
      ''Replay state reports this mandate digest as already consumed. A consumed authorization never executes again.'',
      ''This authorization has already been used.''),
    (MANDATE_RESERVED,
      ''Replay state reports this mandate digest as reserved by an in-flight execution attempt. A reserved mandate is not available to a second attempt.'',
      ''This authorization is already being used by another trade in progress.''),
    (REPLAY_STATE_UNKNOWN,
      ''Replay state for this mandate digest could not be established. Unknown replay state fails closed; it is never treated as unused.'',
      ''This authorization could not be checked against previous use.''),
    (AUTHORIZATION_SCHEME_UNSUPPORTED,
      ''The authorization envelope declares a signature scheme this verifier does not implement. An unrecognized scheme rejects; it is never skipped.'',
      ''The approval method used for this authorization is not supported.''),
    (AUTHORIZATION_DOMAIN_MISMATCH,
      ''The authorization envelope domain does not match the domain the caller requires. The verifier never accepts whatever domain an envelope claims.'',
      ''This approval was issued for a different application or network.'')]"

definition ASSET_MESSAGES :: "message_row list" where
  "ASSET_MESSAGES = [
    (CANONICAL_ASSET_MISMATCH,
      ''The candidate names a different canonical asset than the mandate authorizes.'',
      ''The selected asset does not match your authorization.''),
    (REPRESENTATION_ASSET_MISMATCH,
      ''The trusted representation state maps this representation to a canonical asset other than the one the mandate authorizes.'',
      ''The selected token does not represent the asset you authorized.''),
    (REPRESENTATION_UNKNOWN,
      ''No trusted representation state was supplied for the representation the candidate names. An unregistered representation is never admissible.'',
      ''The selected token is not recognized and was not traded.'')]"

definition REPR_MESSAGES :: "message_row list" where
  "REPR_MESSAGES = [
    (ISSUER_NOT_ALLOWED,
      ''The representation issuer is not in the mandate allowed-issuer set.'',
      ''This token comes from an issuer your authorization does not permit.''),
    (SYNTHETIC_NOT_ALLOWED,
      ''The representation is synthetic and the mandate forbids synthetic exposure.'',
      ''This token is synthetic exposure, which your authorization does not allow.''),
    (REPRESENTATION_INACTIVE,
      ''The representation operational state is not ACTIVE: it is paused, deprecated or in transition.'',
      ''Trading in this token is currently suspended.''),
    (REPRESENTATION_METADATA_UNKNOWN,
      ''A representation metadata field the mandate constrains is UNKNOWN. UNKNOWN on a constrained field rejects; it is never read as a default permit.'',
      ''Required information about this token was unavailable.''),
    (REPRESENTATION_CHAIN_INCONSISTENT,
      ''The chain segment of a representation identifier disagrees with the chain field carried beside it. The identifier is the canonical source of chain identity, so a disagreement means one of the two describes a different deployment and both fail closed.'',
      ''The network named for this token did not match the token itself.''),
    (REPRESENTATION_ATTRIBUTES_MISMATCH,
      ''The issuer or chain the candidate declares differs from the trusted representation state for that representation. The candidate does not get to describe the representation.'',
      ''The details of the proposed trade did not match the token it names.'')]"

definition ECON_MESSAGES :: "message_row list" where
  "ECON_MESSAGES = [
    (MAX_NOTIONAL_EXCEEDED,
      ''The candidate gross notional exceeds the mandate maximum notional: either the exact quantity times execution price, at the mandate precision, or the declared notional.'',
      ''This trade is larger than the amount you authorized.''),
    (PRICE_DEVIATION_EXCEEDED,
      ''The execution price deviates from the trusted reference price by more than the mandate maximum, measured in basis points and rounded up.'',
      ''The price moved further from the reference than your authorization allows.''),
    (SIDE_MISMATCH,
      ''The candidate side is not the side the mandate authorizes.'',
      ''This trade is in the opposite direction to your authorization.''),
    (TOTAL_DEBIT_EXCEEDED,
      ''On a BUY, notional plus the candidate fee total exceeds the mandate economic limit, which a BUY mandate carries as a maximum total debit. Fees are part of what the principal spends, so they are inside the bound rather than beside it.'',
      ''The full cost of this trade, including fees, is more than you authorized.''),
    (TOTAL_CREDIT_BELOW_MINIMUM,
      ''On a SELL, notional minus the candidate fee total is below the mandate economic limit, which a SELL mandate carries as a minimum total credit. A sale whose fees erode the proceeds past the principal floor is refused however good the execution price was.'',
      ''After fees, this sale would return less than you authorized.''),
    (FEES_EXCEED_NOTIONAL,
      ''On a SELL, the candidate fee total is greater than or equal to the notional, so the trade is a net debit rather than a credit. There is no defensible minimum credit to compare against, so it fails closed before the comparison.'',
      ''The fees on this sale would consume the entire proceeds.'')]"

definition STATE_MESSAGES :: "message_row list" where
  "STATE_MESSAGES = [
    (PRICE_STATE_STALE,
      ''The reference price observation is older than the mandate market-data freshness bound at the evaluation time.'',
      ''Price information was too old to trade against.''),
    (CORPORATE_ACTION_STATE_CHANGED,
      ''The observed corporate-action epoch is ahead of the epoch the mandate was authorized under. Recovery is reauthorization; the mandate is never rescaled automatically.'',
      ''A corporate action has changed this asset since you approved. Approve again to continue.''),
    (CORPORATE_ACTION_STATE_INCONSISTENT,
      ''The observed corporate-action epoch is behind the epoch the mandate was authorized under. The epoch source is inconsistent with the authorization and fails closed.'',
      ''Corporate action information for this asset was inconsistent.''),
    (TRADING_HALTED,
      ''The underlying is halted and the mandate halt policy forbids execution while halted.'',
      ''Trading in this asset is halted.''),
    (MARKET_STATE_UNKNOWN,
      ''A market state field the verifier requires is UNKNOWN: the halt status or the reference price could not be established.'',
      ''Market information for this asset was unavailable.''),
    (CORPORATE_ACTION_STATE_UNKNOWN,
      ''The corporate-action epoch for this asset could not be established. An unknown epoch fails closed; it is never assumed to match the authorization.'',
      ''Corporate action information for this asset was unavailable.''),
    (CORPORATE_ACTION_STATE_STALE,
      ''The corporate-action observation is older than the mandate corporate-action freshness bound at the evaluation time. A fresh epoch feed is itself state that can go stale.'',
      ''Corporate action information for this asset was too old to trade against.''),
    (CANDIDATE_STATE_MISMATCH,
      ''The corporate-action epoch the candidate was constructed against differs from the observed epoch. The candidate was built against a different world than the one being verified.'',
      ''The proposed trade was prepared against outdated information.''),
    (REGISTRY_SNAPSHOT_MISMATCH,
      ''The registry snapshot the candidate was constructed against is not the snapshot the trusted state being verified declares. A registry snapshot is structural: a different snapshot can retire a representation, rename an issuer or move a contract, so it must be identical rather than merely re-observed. Rerouting against the current snapshot is the remedy.'',
      ''The list of tokenized assets changed while this trade was being prepared, so it was not executed.''),
    (REGISTRY_SNAPSHOT_UNKNOWN,
      ''The trusted state declares no registry snapshot digest, so the candidate'' @ [CHR 0xE2, CHR 0x80, CHR 0x99] @ ''s structural binding to a registry snapshot cannot be established. Absent provenance fails closed; it is not treated as agreement.'',
      ''The source of the tokenized asset list could not be established, so this trade was not executed.'')]"

definition NET_MESSAGES :: "message_row list" where
  "NET_MESSAGES = [
    (CHAIN_NOT_ALLOWED,
      ''The candidate chain is not in the mandate allowed-chain set.'',
      ''This trade would execute on a network your authorization does not permit.''),
    (VENUE_NOT_ALLOWED,
      ''The candidate venue is not in the mandate allowed-venue set.'',
      ''This trade would execute at a venue your authorization does not permit.'')]"

definition TRUST_MESSAGES :: "message_row list" where
  "TRUST_MESSAGES = [
    (UNTRUSTED_REQUIRED_STATE,
      ''A required state input carries an ADVISORY or UNTRUSTED provenance. Advisory and untrusted sources can never satisfy an authoritative or verified input.'',
      ''Information required to check this trade came from a source that is not trusted for it.''),
    (TRUSTED_STATE_MISSING,
      ''A required trusted state input was not supplied at all. Absent trusted state fails closed.'',
      ''Information required to check this trade was not available.'')]"

definition MESSAGES :: "message_row list" where
  "MESSAGES = INPUT_MESSAGES @
     AUTH_MESSAGES @
     ASSET_MESSAGES @
     REPR_MESSAGES @
     ECON_MESSAGES @
     STATE_MESSAGES @
     NET_MESSAGES @
     TRUST_MESSAGES"

lemmas message_rows = MESSAGES_def INPUT_MESSAGES_def AUTH_MESSAGES_def ASSET_MESSAGES_def REPR_MESSAGES_def ECON_MESSAGES_def STATE_MESSAGES_def NET_MESSAGES_def TRUST_MESSAGES_def append_Cons append_Nil

definition developerMessage :: "reason_code \<Rightarrow> string" where
  "developerMessage c = fst (the (map_of MESSAGES c))"

definition humanMessage :: "reason_code \<Rightarrow> string" where
  "humanMessage c = snd (the (map_of MESSAGES c))"

record explained_violation =
  e_code :: reason_code
  e_id :: string
  e_family :: reason_family
  e_enforcementPoint :: enforcement_point
  e_humanMessage :: string
  e_developerMessage :: string
  e_detail :: "(string \<times> string) list"

record explained_receipt =
  e_decision :: decision
  e_headline :: string
  e_userMessages :: "string list"
  e_violations :: "explained_violation list"
  e_receiptDigest :: string
  e_evaluatedAt :: "int option"

definition explain_violation :: "found_violation \<Rightarrow> explained_violation" where
  "explain_violation v = (let (i, _, family, point) = reasonCode (code v) in
     \<lparr>e_code = code v, e_id = i, e_family = family, e_enforcementPoint = point,
      e_humanMessage = humanMessage (code v), e_developerMessage = developerMessage (code v), e_detail = detail v\<rparr>)"

definition explain :: "receipt \<Rightarrow> explained_receipt" where
  "explain r = (let vs = map explain_violation (violations r) in
     \<lparr>e_decision = decision_of r,
      e_headline = (if decision_of r = PASS then ''Trade authorized'' else ''Trade blocked''),
      e_userMessages = dedupe (map e_humanMessage vs), e_violations = vs,
      e_receiptDigest = receiptDigest r, e_evaluatedAt = g_evaluatedAt (b_digests r)\<rparr>)"

lemma message_codes: "map fst MESSAGES = map fst DEFINITIONS"
  by (simp only: message_rows reason_rows list.map fst_conv)

lemma message_defined: "map_of MESSAGES c \<noteq> None"
proof -
  have "set (map fst MESSAGES) = set (map fst DEFINITIONS)" by (simp only: message_codes)
  then show ?thesis using reasonCode_defined [of c] by (simp add: map_of_eq_None_iff)
qed

text \<open>What a user is told depends on the reason codes of the receipt alone.\<close>

lemma remdups_snoc: "remdups (ys @ [x]) = remdups (filter (\<lambda>y. y \<noteq> x) ys) @ [x]"
  by (induction ys) auto

lemma dedupe_simps [simp]: "dedupe [] = []" "dedupe (x # xs) = x # dedupe (filter (\<lambda>y. y \<noteq> x) xs)"
  by (simp_all add: dedupe_def remdups_snoc rev_filter)

lemma filter_dedupe: "filter P (dedupe xs) = dedupe (filter P xs)"
  by (simp add: dedupe_def rev_filter remdups_filter)

lemma dedupe_map_dedupe: "dedupe (map f (dedupe xs)) = dedupe (map f xs)"
proof (induction "length xs" arbitrary: xs rule: less_induct)
  case less
  show ?case
  proof (cases xs)
    case (Cons x ys)
    let ?zs = "filter (\<lambda>y. f y \<noteq> f x) ys"
    have "filter (\<lambda>y. f y \<noteq> f x) (filter (\<lambda>y. y \<noteq> x) ys) = ?zs" by (auto simp: filter_filter intro!: filter_cong)
    then have "dedupe (map f (dedupe xs)) = f x # dedupe (map f (dedupe ?zs))"
      using Cons by (simp add: filter_map o_def filter_dedupe)
    also have "\<dots> = f x # dedupe (map f ?zs)"
      using less [of ?zs] Cons by (simp add: le_imp_less_Suc)
    also have "\<dots> = dedupe (map f xs)" using Cons by (simp add: filter_map o_def)
    finally show ?thesis .
  qed simp
qed

lemma explain_messages:
  "reasonCodes r = dedupe (map code (violations r)) \<Longrightarrow>
     e_userMessages (explain r) = dedupe (map humanMessage (reasonCodes r))"
  by (simp add: explain_def Let_def dedupe_map_dedupe o_def explain_violation_def split_beta)

end
