(* ===== verification/Spec2Isabelle.thy ===== *)
theory Spec2Isabelle
  imports Ledger_Samples Gate_Samples Route_Samples Explain Replay
begin

text \<open>
  Mandate checks what an autonomous agent is about to do against what its principal allowed, and accounts for it.
  This development models six of its packages, function by function, and proves what makes them correct.

  The kernel (\<open>packages/kernel/src\<close>) decides one request: it parses a mandate, a candidate and a trusted state,
  recomputes their digests, checks the signature and runs nineteen checks; every outcome is a receipt.

  \<^item> \<open>Prelude\<close>: results (\<open>result.ts\<close>) as sums with \<open>rbind\<close>, values of type unknown as the datatype \<open>js\<close>, sorting.
  \<^item> \<open>Wire\<close>: \<open>encoding/writer.ts\<close> and \<open>encoding/reader.ts\<close>; bytes are \<open>8 word\<close>, a writer is an optional byte list
    (None where the code throws), a reader a function from bytes to a result and the rest.
  \<^item> \<open>Values\<close>, \<open>Units\<close>: identifiers, clocks, reason codes; amounts and prices over unbounded integers.
  \<^item> \<open>Mandate\<close>, \<open>Candidate\<close>, \<open>Trusted_State\<close>: the records with their parsers, and \<open>wf_\<close> predicates that say
    exactly what the parsers accept.
  \<^item> \<open>Wire_Codec\<close>, \<open>Codec\<close>, \<open>Digest\<close>: the codec, its round trips and the digests. Keccak-256 and the recovery of
    secp256k1 keys are third-party code: parameters \<open>keccak\<close> and \<open>recover\<close> of everything that uses them.
  \<^item> \<open>Authorization\<close>, \<open>Checks\<close>, \<open>Verify\<close>, \<open>Explain\<close>, \<open>Replay\<close>: EIP-712, the checks, the verifier and its receipts,
    the explanations, and the machine that spends a mandate once, with a store that serves any requests over it.
  \<^item> \<open>Admissible\<close>, \<open>Totality\<close>, \<open>Verify_Correct\<close>: what a passing request is, said without the checks; that the
    verifier returns a receipt; and that the two agree.

  The core package (\<open>packages/core/src\<close>) has the vocabulary of authority: \<open>Core_Base\<close> (JSON keys, tagged encodings,
  references), \<open>Core_Quantity\<close> (quantities, bounds, ratios, fixed-point text), \<open>Core_Terms\<close> (terms, grants, policies).

  The ledger (\<open>packages/ledger/src\<close>) is a pure state machine over events: grants are delegated, budgets reserved along
  a lineage, reservations consumed, closed and restored, attempts admitted.

  \<^item> \<open>Hash_Bits\<close>, \<open>PMap\<close>: the persistent hash trie \<open>pmap.ts\<close> of every table, on 32-bit words; the type \<open>pmap\<close> keeps
    its invariant and refines finite maps.
  \<^item> \<open>Ledger_Base\<close>, \<open>Ledger_State\<close>: refusals, revocations, plans; the state record and its canonical encoding.
  \<^item> \<open>Ledger_Semantic\<close>, \<open>Ledger_Graph\<close>, \<open>Ledger_Meet\<close>, \<open>Ledger_Charging\<close>, \<open>Ledger_Events\<close>: bindings and proofs of
    invariants, the subset check and lineages, effective authority, legs and headroom, events and attempts.
  \<^item> \<open>Ledger_Reducer\<close>: one function per event, the batch, the replay from genesis. A value the code reads without a
    look at whether it is there is \<open>may_throw\<close>: the model stops with an exception where the code would.
  \<^item> \<open>Ledger_Accounting\<close>, \<open>Ledger_Conservation\<close>, \<open>Ledger_Invariant\<close>: the locale \<open>leg_operation\<close> is the contract
    between the loop over legs and the three updates of a balance; \<open>ledger_invariant\<close> that between the events and an
    invariant, interpreted for the books (\<open>conservation\<close>), the budgets (\<open>Ledger_Budget\<close>), the life of actions,
    reservations and attempts (\<open>Ledger_Lifecycle\<close>) and the authority graph (\<open>Ledger_Authority\<close>).
  \<^item> \<open>Ledger_Confinement\<close>: what follows along a whole lineage, and that revocation is final.

  The execution gate (\<open>packages/execution-gate/src\<close>) stands between the kernel and a venue: it decides before the
  venue is called whether to call it, and afterwards what happened.

  \<^item> \<open>Gate\<close>: the errors of the contract and their arguments (\<open>errors.ts\<close>), ABI words (\<open>wire.ts\<close>), exact scales
    (\<open>scale.ts\<close>), the domain and the commitments (\<open>commitment.ts\<close>), plans and settlements (\<open>model.ts\<close>).
  \<^item> \<open>Gate_Reconciliation\<close>: the strict parsers of the two boundaries, the admission of an attempt under an open
    reservation, the observation derived from a reading of the gate (\<open>reconciliation.ts\<close>). \<open>Gate_Protocol\<close>: what
    admissions bound, and that a reservation observed failed cannot settle.
  \<^item> \<open>Gate_Correct\<close>: the gate's bytes are the kernel's, its scaling is exact, a plan keeps the mandate's bounds.

  The registry (\<open>packages/registry/src\<close>) knows which on-chain representations of an asset exist and what sources say
  of them, and decides which of them a mandate admits. Its bridge produces the observations the kernel reads.

  \<^item> \<open>Reg_Base\<close>: reason codes, vocabularies, identifier schemes and check digits, representation identifiers
    (\<open>reason-codes.ts\<close>, \<open>limits.ts\<close>, \<open>semantics.ts\<close>, \<open>asset-id.ts\<close>, \<open>representation-id.ts\<close>). \<open>Reg_Claims\<close>: claims and
    their resolution (\<open>claims.ts\<close>). \<open>Reg_Records\<close>: the parsers of records and snapshots (\<open>asset.ts\<close>,
    \<open>representation.ts\<close>, \<open>snapshot.ts\<close>). \<open>Reg_Index\<close>: references, the index, the registry (\<open>reference.ts\<close>,
    \<open>asset-index.ts\<close>, \<open>registry.ts\<close>). \<open>Reg_Requirements\<close>, \<open>Reg_Evaluate\<close>, \<open>Reg_Encoding\<close>: requirements, the decision
    and the bridge, encodings (\<open>requirements.ts\<close>, \<open>evaluate.ts\<close>, \<open>bridge.ts\<close>, \<open>encoding.ts\<close>).
  \<^item> \<open>Reg_Settled\<close>: a property is settled when all claims that count agree on an allowed value; the locale
    \<open>claim_values\<close> is the contract between a kind of value and its comparison key, interpreted in \<open>Reg_Parsed\<close> for the
    ten kinds. \<open>Reg_Admissible\<close>: evaluation decides the predicate \<open>satisfies\<close>. \<open>Reg_Narrowing\<close>: what narrowed requirements
    admit. \<open>Reg_Bridge\<close>: admitted representations pass the kernel's check. \<open>Reg_CheckDigits\<close>, \<open>Reg_Resolution\<close>: what
    check digits detect, and that resolution is exact.

  The router (\<open>packages/router/src\<close>) turns providers' quotes into candidates, closes the set of the ones that the registry
  admits and the kernel passes, ranks it, and re-verifies the selected one on fresh state.

  \<^item> \<open>Route_Base\<close>: quotes, costs and their parsers (\<open>types.ts\<close>, \<open>provider.ts\<close>, \<open>cost-state.ts\<close>). \<open>Route_Candidate\<close>:
    validation and construction (\<open>candidate.ts\<close>). \<open>Route_Router\<close>: the two stages and their receipts (\<open>router.ts\<close>,
    \<open>encoding.ts\<close>), over a verifier that may throw; the default is the kernel's \<open>verify\<close>.
  \<^item> \<open>Route_Parsed\<close>: what parsing establishes, and that the order of quotes and costs has no influence. \<open>Route_Ranked\<close>:
    what a built candidate says of its quote, the loop as the set it admits, the ranking as a total order by exact value.
    \<open>Route_Selected\<close>: the stages as a whole, with the kernel's rule and the registry's predicate.

  \<open>Samples\<close>, \<open>Ledger_Samples\<close>, \<open>Gate_Samples\<close>, \<open>Reg_Samples\<close> and \<open>Route_Samples\<close> hold the concrete requests and ledgers of the witnesses, with constant functions for
  the parameters.

  Bounds. Integers of the code are bigints: \<open>int\<close> here, with the ranges the code checks. Hashes and bitmaps of the
  trie are \<open>32 word\<close>. The walk up a lineage has \<open>MAX_LINEAGE_LENGTH\<close> steps of fuel, which the code counts too;
  \<open>lineage_resolves\<close> shows that a registered node never runs out of it.

  Not modelled: the readers and input validators of the core and the ledger, so the replay of stored batch encodings;
  the ledger's store and engine; the control plane; adapters, the
  database store, contracts, the web application, and everything that is input and output.
\<close>

section \<open>The verifier\<close>

text \<open>C1: A receipt says PASS exactly when the six inputs of the request parse and the context they give is
  admissible: the 19 checks of the verifier decide the declarative rule of theory \<open>Admissible\<close>
  (signature by the principal, live window, unused replay state, matching identities, allow-lists,
  economic bounds over rationals, fresh market and corporate-action state, registry binding).\<close>

theorem verify_pass_iff_admissible:
  assumes "verify keccak recover n request Default_checks = Some r"
  shows "decision_of r = PASS \<longleftrightarrow>
    (\<exists>ctx. request_context keccak request = Some ctx \<and> admissible keccak recover n ctx)"
  using assms by (rule verify_pass_iff)

theorem verify_pass_witness:
  "\<exists>r. verify keccak0 recover0 7 good_request Default_checks = Some r \<and> decision_of r = PASS"
proof -
  obtain r where r: "verify keccak0 recover0 7 good_request Default_checks = Some r" using good_verify by blast
  then have "decision_of r = PASS"
    by (subst verify_pass_iff_admissible [OF r]) (use good_context good_admissible in blast)
  with r show ?thesis by blast
qed

text \<open>C2: The verifier returns a receipt for every request, well-formed or not, as long as the digest
  function returns 32 bytes and the trusted state lists at most 65494 representations.\<close>

theorem verify_returns:
  assumes "\<forall>b. length (keccak b) = 32"
    and "\<forall>ctx. request_context keccak request = Some ctx \<longrightarrow> length (s_representations (x_state ctx)) \<le> 65494"
  shows "\<exists>r. verify keccak recover n request Default_checks = Some r"
  using assms by (intro verify_total) auto

theorem verify_returns_witness: "\<exists>r. verify keccak0 recover0 7 good_request Default_checks = Some r"
  by (rule verify_returns) (auto simp: keccak0_length good_context context_of_def good_state_def sample_state_def)

text \<open>C3: The bound of the previous property is needed. A well-formed request whose state lists 65535
  representations, each with a chain that is not its own, makes the verifier throw: the receipt encoder
  writes the number of violations in 16 bits.\<close>

theorem verify_not_total: "verify keccak recover n crowd_request Default_checks = None"
  by (rule crowd_throws)

text \<open>The order in which checks run, and how often, does not reach the receipt: two lists with the same
  checks give the same decision, the same reason codes and the same canonical violations.\<close>

theorem verify_check_order:
  assumes "verify keccak recover n request (Given_checks cs) = Some r"
    and "verify keccak recover n request (Given_checks cs') = Some r'" and "set cs = set cs'"
  shows "decision_of r = decision_of r' \<and> reasonCodes r = reasonCodes r'
    \<and> map violation_key (violations r) = map violation_key (violations r')"
  using assms by (rule verify_order_independent)

theorem verify_check_order_witness:
  "\<exists>r r'. verify keccak0 recover0 7 good_request (Given_checks (CHECKS keccak0 recover0 7)) = Some r \<and>
     verify keccak0 recover0 7 good_request (Given_checks (rev (CHECKS keccak0 recover0 7))) = Some r' \<and>
     decision_of r = decision_of r'"
proof -
  obtain r r' where r: "verify keccak0 recover0 7 good_request (Given_checks (CHECKS keccak0 recover0 7)) = Some r"
      "verify keccak0 recover0 7 good_request (Given_checks (rev (CHECKS keccak0 recover0 7))) = Some r'"
    using good_given [of "CHECKS keccak0 recover0 7"] good_given [of "rev (CHECKS keccak0 recover0 7)"] by auto
  moreover from verify_check_order [OF r] have "decision_of r = decision_of r'" by simp
  ultimately show ?thesis by blast
qed

text \<open>C4: A check that finds something is always heard: every violation of every check of a parsed request
  is in the receipt, up to the duplicates with the same code and detail, and so is its code.\<close>

theorem verify_reports_all:
  assumes "verify keccak recover n request Default_checks = Some r"
    and "request_context keccak request = Some ctx"
    and "c \<in> set (CHECKS keccak recover n)" "run c ctx = Some vs" "v \<in> set vs"
  shows "\<exists>w \<in> set (violations r). violation_key w = violation_key v \<and> code w = code v \<and> code v \<in> set (reasonCodes r)"
  using assms by (rule verify_explains)

theorem verify_reports_all_witness:
  "\<exists>r. verify keccak0 recover0 7 late_request Default_checks = Some r \<and> MANDATE_EXPIRED \<in> set (reasonCodes r)"
proof -
  obtain r where r: "verify keccak0 recover0 7 late_request Default_checks = Some r" using late_verify by blast
  let ?ctx = "context_of keccak0 sample_mandate sample_envelope sample_candidate good_state 1000 sample_domain"
  let ?v = "violation MANDATE_EXPIRED [(''now'', int_str 1000), (''expiresAt'', int_str 200)]"
  have c: "pure_check ''validity-window'' checkValidityWindow \<in> set (CHECKS keccak0 recover0 7)"
    by (simp add: CHECKS_def)
  have "run (pure_check ''validity-window'' checkValidityWindow) ?ctx = Some [?v]"
    by (simp add: pure_check_def checkValidityWindow_def context_of_def sample_mandate_def)
  from verify_reports_all [OF r late_context c this, of ?v] r show ?thesis by (auto simp: violation_def)
qed

text \<open>What a user is told depends on the reason codes alone: the user messages of an explained receipt
  are the human texts of its reason codes, each once; no detail of a violation reaches them.\<close>

theorem explain_user_messages:
  assumes "verify keccak recover n request Default_checks = Some r"
  shows "e_userMessages (explain r) = dedupe (map humanMessage (reasonCodes r))
    \<and> (e_headline (explain r) = ''Trade authorized'' \<longleftrightarrow> decision_of r = PASS)"
proof -
  have "reasonCodes r = dedupe (map code (violations r))"
  proof (cases "request_context keccak request")
    case None
    obtain ds where
      "verify keccak recover n request Default_checks = finish keccak ds (parse_failures (plain_request request))"
      using verify_unparsed [OF None, where recover = recover and n = n and checks = Default_checks] by metis
    then show ?thesis using assms by (simp add: finish_Some)
  next
    case (Some ctx)
    then show ?thesis using assms finish_Some by (simp add: verify_parsed(1))
  qed
  then show ?thesis using explain_messages by (simp add: explain_def Let_def)
qed

theorem explain_user_messages_witness:
  "\<exists>r. verify keccak0 recover0 7 late_request Default_checks = Some r \<and>
     e_userMessages (explain r) = dedupe (map humanMessage (reasonCodes r))"
  using late_verify explain_user_messages by blast

section \<open>Encodings and digests\<close>

text \<open>C5: A well-formed mandate, candidate or trusted state always encodes. Decoding the bytes gives the mandate or the
  candidate back, and the state with its representations in encoding order; a state that lists the same representations
  in another order has the same bytes.\<close>

theorem decode_encode:
  assumes "wf_mandate m" "wf_candidate c"
    and "wf_state s" "wf_state (s\<lparr>s_representations := reps\<rparr>)" "set reps = set (s_representations s)"
  shows "(\<exists>b. encodeMandate m = Some b \<and> decodeMandate b = Inr m)
    \<and> (\<exists>b. encodeCandidate c = Some b \<and> decodeCandidate b = Inr c)
    \<and> (\<exists>b. encodeTrustedState s = Some b \<and> decodeTrustedState b = Inr (sort_representations s)
        \<and> encodeTrustedState (s\<lparr>s_representations := reps\<rparr>) = Some b)"
proof -
  obtain b where b: "encodeTrustedState s = Some b" using encodeTrustedState_total [OF assms(3)] by blast
  moreover have "encodeTrustedState (s\<lparr>s_representations := reps\<rparr>) = encodeTrustedState s"
    using encodeTrustedState_sort sort_representations_perm [OF assms(3-5)] by metis
  ultimately have "\<exists>b. encodeTrustedState s = Some b \<and> decodeTrustedState b = Inr (sort_representations s)
        \<and> encodeTrustedState (s\<lparr>s_representations := reps\<rparr>) = Some b"
    using decode_encodeTrustedState [OF assms(3) b] by simp
  then show ?thesis
    using encodeMandate_total [OF assms(1)] decode_encodeMandate [OF assms(1)]
      encodeCandidate_total [OF assms(2)] decode_encodeCandidate [OF assms(2)] by blast
qed

theorem decode_encode_witness:
  "(\<exists>b. encodeMandate sample_mandate = Some b \<and> decodeMandate b = Inr sample_mandate)
   \<and> (\<exists>b. encodeCandidate sample_candidate = Some b \<and> decodeCandidate b = Inr sample_candidate)
   \<and> (\<exists>b. encodeTrustedState good_state = Some b \<and> decodeTrustedState b = Inr (sort_representations good_state))"
  using decode_encode [OF sample_wf(1,2) good_state_wf, of "s_representations good_state"] good_state_wf by auto

text \<open>C6: Bytes without a byte-order mark that decode to a mandate are the encoding of that mandate: the
  decoder accepts one form of each object only.\<close>

theorem mandate_canonical:
  assumes "decodeMandate b = Inr m" "no_bom b"
  shows "encodeMandate m = Some b \<and> wf_mandate m"
  using encode_decodeMandate [OF assms] decodeMandate_wf [OF assms(1)] by simp

theorem mandate_canonical_witness:
  "\<exists>b. decodeMandate b = Inr sample_mandate \<and> no_bom b \<and> encodeMandate sample_mandate = Some b"
proof -
  obtain b where b: "encodeMandate sample_mandate = Some b" "no_bom b" using sample_mandate_bytes by blast
  then have "decodeMandate b = Inr sample_mandate" using decode_encodeMandate sample_wf(1) by blast
  from mandate_canonical [OF this b(2)] this b(2) show ?thesis by blast
qed

text \<open>C7: The byte-order mark is a real exception: every well-formed candidate is also decoded from bytes
  other than its encoding, because the reader's text decoder drops a leading mark of each string.\<close>

theorem candidate_not_canonical:
  assumes "wf_candidate c" "encodeCandidate c = Some b"
  shows "\<exists>b'. b' \<noteq> b \<and> decodeCandidate b' = Inr c"
  using assms by (rule decodeCandidate_bom)

theorem candidate_not_canonical_witness:
  "\<exists>b b'. encodeCandidate sample_candidate = Some b \<and> b' \<noteq> b \<and> decodeCandidate b' = Inr sample_candidate"
  using encodeCandidate_total [OF sample_wf(2)] candidate_not_canonical [OF sample_wf(2)] by blast

text \<open>C8: Decoding a trusted state does not check the order of its representations: bytes without a
  byte-order mark that decode to a state are its encoding exactly when the decoded list is in order, and
  every well-formed state, in whatever order, is decoded from some bytes.\<close>

theorem state_order_unchecked:
  assumes "wf_state s" "decodeTrustedState b = Inr t" "no_bom b"
  shows "(encodeTrustedState t = Some b \<longleftrightarrow> reps_sorted t) \<and> (\<exists>b'. decodeTrustedState b' = Inr s)"
  using encode_decodeTrustedState [OF assms(2,3)] decodeTrustedState_any_order [OF assms(1)] by simp

theorem state_order_unchecked_witness:
  "\<exists>b t. decodeTrustedState b = Inr t \<and> no_bom b \<and> (encodeTrustedState t = Some b \<longleftrightarrow> reps_sorted t)"
proof -
  obtain b where b: "encodeTrustedState good_state = Some b" "no_bom b" using good_state_bytes by blast
  have "decodeTrustedState b = Inr (sort_representations good_state)"
    using good_state_wf b(1) by (rule decode_encodeTrustedState)
  from state_order_unchecked [OF good_state_wf this b(2)] this b(2) show ?thesis by blast
qed

text \<open>C9: A digest binds its object. Two mandates, two candidates or two trusted states with the same digest are the same
  (a state up to the order of its representations), or else their two encodings are a collision of the hash function: two
  different byte strings, these two, with one hash. No byte string is the encoding of two kinds of object, so objects of
  different kinds with the same digest are such a collision too.\<close>

theorem digest_binds:
  assumes "wf_mandate m" "wf_mandate m'" "wf_candidate c" "wf_candidate c'" "wf_state s" "wf_state s'"
  shows "(mandateDigest keccak m = mandateDigest keccak m' \<longrightarrow> m = m' \<or> collides keccak (encodeMandate m) (encodeMandate m'))
    \<and> (candidateDigest keccak c = candidateDigest keccak c' \<longrightarrow> c = c' \<or> collides keccak (encodeCandidate c) (encodeCandidate c'))
    \<and> (trustedStateDigest keccak s = trustedStateDigest keccak s' \<longrightarrow> sort_representations s = sort_representations s'
          \<or> collides keccak (encodeTrustedState s) (encodeTrustedState s'))
    \<and> distinct [encodeMandate m, encodeCandidate c, encodeTrustedState s]
    \<and> (mandateDigest keccak m = candidateDigest keccak c \<longrightarrow> collides keccak (encodeMandate m) (encodeCandidate c))
    \<and> (mandateDigest keccak m = trustedStateDigest keccak s \<longrightarrow> collides keccak (encodeMandate m) (encodeTrustedState s))
    \<and> (candidateDigest keccak c = trustedStateDigest keccak s \<longrightarrow> collides keccak (encodeCandidate c) (encodeTrustedState s))"
proof -
  obtain a a' b b' e e' where enc: "encodeMandate m = Some a" "encodeMandate m' = Some a'" "encodeCandidate c = Some b"
      "encodeCandidate c' = Some b'" "encodeTrustedState s = Some e" "encodeTrustedState s' = Some e'"
    using encodeMandate_total [OF assms(1)] encodeMandate_total [OF assms(2)] encodeCandidate_total [OF assms(3)]
      encodeCandidate_total [OF assms(4)] encodeTrustedState_total [OF assms(5)] encodeTrustedState_total [OF assms(6)] by blast
  have "a = a' \<Longrightarrow> m = m'" "b = b' \<Longrightarrow> c = c'" "e = e' \<Longrightarrow> sort_representations s = sort_representations s'"
    using decode_encodeMandate [OF assms(1) enc(1)] decode_encodeMandate [OF assms(2) enc(2)]
      decode_encodeCandidate [OF assms(3) enc(3)] decode_encodeCandidate [OF assms(4) enc(4)]
      decode_encodeTrustedState [OF assms(5) enc(5)] decode_encodeTrustedState [OF assms(6) enc(6)] by simp_all
  moreover have "a \<noteq> b" "a \<noteq> e" "b \<noteq> e" using encodings_apart [OF assms(1,3,5) enc(1,3,5)] by simp_all
  ultimately show ?thesis
    unfolding mandateDigest_def candidateDigest_def trustedStateDigest_def enc collides_def
    by (auto simp: keccak256_inj)
qed

theorem digest_binds_witness: "collides keccak0 (encodeMandate sample_mandate) (encodeCandidate sample_candidate)"
proof -
  have "mandateDigest keccak0 sample_mandate = candidateDigest keccak0 sample_candidate"
    using encodeMandate_total [OF sample_wf(1)] encodeCandidate_total [OF sample_wf(2)]
    by (auto simp: mandateDigest_def candidateDigest_def keccak256_def keccak0_def)
  with digest_binds [OF sample_wf(1,1,2,2) good_state_wf good_state_wf, of keccak0] show ?thesis by blast
qed

section \<open>Signatures\<close>

text \<open>C10: An accepted envelope is bound to its domain, its digest and its signer: the key that the signature recovers over
  the EIP-712 hash of exactly this digest in exactly this domain has the signer's address. Its signature is canonical:
  65 bytes, recovery byte 27 or 28, r and s in range, s in the lower half of the order. For an odd order the other half of
  the pair (same r, order minus s) is not accepted, whatever its recovery byte. The same envelope is accepted for another
  digest only if the signature recovers a key of that same address over the other digest's hash too.\<close>

theorem authorization_canonical:
  assumes "verifyAuthorization keccak recover n env d ed = Some (Inr p)" "hexToBytes (signature env) = Some sig"
  shows "p = signer env \<and> domain env = ed \<and> signs_for keccak recover sig ed d (party_value (signer env))
    \<and> length sig = 65 \<and> uint (sig ! 64) \<in> {27, 28}
    \<and> 0 < be_val (take 32 sig) \<and> be_val (take 32 sig) < n
    \<and> 0 < be_val (take 32 (drop 32 sig)) \<and> be_val (take 32 (drop 32 sig)) \<le> n div 2
    \<and> (\<forall>twin sig'. odd n \<and> hexToBytes (signature twin) = Some sig'
          \<and> be_val (take 32 (drop 32 sig')) = n - be_val (take 32 (drop 32 sig))
        \<longrightarrow> verifyAuthorization keccak recover n twin d ed \<noteq> Some (Inr p))
    \<and> (\<forall>d' p'. verifyAuthorization keccak recover n env d' ed = Some (Inr p') \<longleftrightarrow>
          p' = p \<and> signs_for keccak recover sig ed d' (party_value p))"
proof -
  from assms have s: "p = signer env" "domain env = ed" "signs_for keccak recover sig ed d (party_value (signer env))"
      "length sig = 65" "uint (sig ! 64) \<in> {27, 28}" "0 < be_val (take 32 sig)" "be_val (take 32 sig) < n"
      "0 < be_val (take 32 (drop 32 sig))" "be_val (take 32 (drop 32 sig)) < n"
      "be_val (take 32 (drop 32 sig)) \<le> n div 2"
    unfolding verifyAuthorization_Inr signs_for_def by auto
  moreover have "verifyAuthorization keccak recover n env d' ed = Some (Inr p') \<longleftrightarrow>
      p' = p \<and> signs_for keccak recover sig ed d' (party_value p)" for d' p'
    unfolding verifyAuthorization_Inr signs_for_def assms(2) using s by auto
  moreover have "verifyAuthorization keccak recover n twin d ed \<noteq> Some (Inr p)"
    if "odd n" "hexToBytes (signature twin) = Some sig'"
      "be_val (take 32 (drop 32 sig')) = n - be_val (take 32 (drop 32 sig))" for twin sig'
  proof
    assume "verifyAuthorization keccak recover n twin d ed = Some (Inr p)"
    then have "be_val (take 32 (drop 32 sig')) \<le> n div 2"
      unfolding verifyAuthorization_Inr using that(2) by auto
    with that(1,3) s(10) show False by presburger
  qed
  ultimately show ?thesis by blast
qed

theorem authorization_canonical_witness:
  "verifyAuthorization keccak0 recover0 7 sample_envelope zero_digest sample_domain = Some (Inr sample_party)
   \<and> signs_for keccak0 recover0 sample_signature sample_domain zero_digest zero_address"
proof -
  have "hexToBytes (signature sample_envelope) = Some sample_signature" by (simp add: sample_envelope_def)
  from authorization_canonical [OF good_signature [OF sample_idents(3)] this] good_signature [OF sample_idents(3)]
  have "signs_for keccak0 recover0 sample_signature sample_domain zero_digest (party_value (signer sample_envelope))" by blast
  then show ?thesis using good_signature [OF sample_idents(3)] by (simp add: sample_envelope_def sample_party_def)
qed

section \<open>Parsing\<close>

text \<open>C11: The parsers accept exactly the well-formed objects: a mandate, a candidate or a trusted state is the
  result of parsing some JavaScript value if and only if it satisfies its well-formedness predicate.\<close>

theorem parse_exactly_wf:
  "((\<exists>v. parseMandate v = Inr m) \<longleftrightarrow> wf_mandate m)
   \<and> ((\<exists>v. parseCandidate v = Inr c) \<longleftrightarrow> wf_candidate c)
   \<and> ((\<exists>v. parseTrustedState v = Inr s) \<longleftrightarrow> wf_state s)"
  using parseMandate_wf parseMandate_js parseCandidate_wf parseCandidate_js parseTrustedState_wf
    parseTrustedState_js [of s s] by blast

section \<open>Amounts and prices\<close>

text \<open>C12: The arithmetic on amounts is exact over the rationals the decimal amounts stand for: comparison,
  addition and subtraction agree with the rationals, the notional bounds are the floor and the ceiling of
  quantity times price at the requested scale, and the deviation in basis points is rounded up.\<close>

theorem units_exact:
  assumes "wf_amount a" "wf_amount b" "wf_price p" "wf_price q"
  shows "(\<forall>i. compareAmounts a b = Inr i \<longrightarrow>
        (i < 0 \<longleftrightarrow> amount_val a < amount_val b) \<and> (i = 0 \<longleftrightarrow> amount_val a = amount_val b))
    \<and> (\<forall>c. addAmounts a b = Inr c \<longrightarrow> amount_val c = amount_val a + amount_val b \<and> atoms c \<le> UINT256_MAX)
    \<and> (\<forall>c. subtractAmounts a b = Inr c \<longrightarrow> amount_val c = amount_val a - amount_val b \<and> 0 \<le> atoms c)
    \<and> (\<forall>nb. notionalBounds a p u d = Inr nb \<longrightarrow>
        floorAtoms nb = \<lfloor>amount_val a * price_val p * of_int (pow10 d)\<rfloor>
        \<and> ceilAtoms nb = \<lceil>amount_val a * price_val p * of_int (pow10 d)\<rceil>)
    \<and> (\<forall>i. deviationBps p q = Inr i \<longrightarrow> i = \<lceil>\<bar>price_val p - price_val q\<bar> / price_val q * 10000\<rceil>)"
proof -
  have d: "0 \<le> decimals a" "0 \<le> decimals b" using assms(1,2) by (simp_all add: wf_amount_def)
  show ?thesis
    by (intro conjI allI impI; (drule compareAmounts_val | drule addAmounts_val [OF _ d] | drule subtractAmounts_val [OF _ d]
          | drule notionalBounds_val [OF _ assms(1,3)] | drule deviationBps_val); blast)
qed

theorem units_exact_witness: "amount_val (usd 350) = amount_val (usd 100) + amount_val (usd 250)"
proof -
  have "addAmounts (usd 100) (usd 250) = Inr (usd 350)" by (simp add: usd_def addAmounts_def pow10_def MAX_DECIMALS_def)
  then show ?thesis
    using units_exact [of "usd 100" "usd 250" "sample_price 1" "sample_price 1"]
    by (simp add: wf_amount_def wf_price_def usd_def sample_price_def valid_ident_def ident_char_def SEPARATORS_def
        IDENTIFIER_MAX_LENGTH_def MAX_DECIMALS_def)
qed

section \<open>Consumption\<close>

text \<open>C13: The transition function is the machine: from a record, it reaches exactly the records that one step
  of the machine reaches. Every accepted request makes one of the moves, on a well-formed record, and every move
  from a well-formed record is made by some request.\<close>

theorem applyTransition_refines:
  "(\<exists>req. parseReplayRecord (jget req ''current'') = Inr r \<and> applyTransition req = Inr r')
    \<longleftrightarrow> wf_record r \<and> (\<exists>l. replay_step r l r')"
proof
  assume "\<exists>req. parseReplayRecord (jget req ''current'') = Inr r \<and> applyTransition req = Inr r'"
  then show "wf_record r \<and> (\<exists>l. replay_step r l r')" by (auto elim!: applyTransition_step)
next
  assume "wf_record r \<and> (\<exists>l. replay_step r l r')"
  then obtain l where l: "wf_record r" "replay_step r l r'" by blast
  have "jget (js_transition r l r') ''current'' = js_record r"
    by (simp add: js_transition_def split: replay_move.split)
  with l show "\<exists>req. parseReplayRecord (jget req ''current'') = Inr r \<and> applyTransition req = Inr r'"
    using applyTransition_js parseReplayRecord_js by metis
qed


definition held_record :: replay_record where
  "held_record = \<lparr>rr_key = zero_digest, rr_status = RESERVED, rr_updatedAt = 110, rr_expiresAt = Some 120,
     rr_resolution = None, rr_generation = 1\<rparr>"

definition seen_outcome :: "reconciled_outcome \<Rightarrow> observation" where
  "seen_outcome x = \<lparr>o_outcome = x, o_observedAt = 115, o_sourceId = ''feed'', o_reference = zero_digest, o_generation = 1\<rparr>"

definition resolved_record :: "reconciled_outcome \<Rightarrow> replay_record" where
  "resolved_record x = \<lparr>rr_key = zero_digest, rr_status = (if x = SETTLED then CONSUMED else UNUSED), rr_updatedAt = 116,
     rr_expiresAt = None, rr_resolution = Some (seen_outcome x), rr_generation = 1\<rparr>"

definition again_record :: replay_record where
  "again_record = \<lparr>rr_key = zero_digest, rr_status = RESERVED, rr_updatedAt = 116, rr_expiresAt = Some 130,
     rr_resolution = None, rr_generation = 2\<rparr>"

lemma sample_steps:
  "replay_step (unusedRecord zero_digest 100) Reserved held_record"
  "replay_step held_record (Resolved (seen_outcome x)) (resolved_record x)"
  "replay_step (resolved_record FAILED) Reserved again_record"
  "wf_record held_record" "wf_record (resolved_record x)" "wf_record (unusedRecord zero_digest 100)"
proof -
  have "valid_ident ''feed''" by code_simp
  then show "replay_step held_record (Resolved (seen_outcome x)) (resolved_record x)"
    using sample_idents(3) by (simp add: replay_step_simps held_record_def resolved_record_def seen_outcome_def
        wf_time_def wf_observation_def)
  show "replay_step (unusedRecord zero_digest 100) Reserved held_record"
    by (simp add: replay_step_simps unusedRecord_def held_record_def wf_time_def)
  show "replay_step (resolved_record FAILED) Reserved again_record"
    by (simp add: replay_step_simps resolved_record_def again_record_def wf_time_def)
  show "wf_record (unusedRecord zero_digest 100)" using sample_idents(3) by (simp add: wf_unusedRecord wf_time_def)
  show held: "wf_record held_record"
    using sample_idents(3) by (simp add: wf_record_def wf_time_def valid_shape_def held_record_def)
  show "wf_record (resolved_record x)"
    by (rule replay_step_wf [OF \<open>replay_step held_record (Resolved (seen_outcome x)) (resolved_record x)\<close> held])
qed


text \<open>C15: A mandate is spent at most once: a store that accepted a report of settlement accepts nothing after it,
  and the record stays consumed. The generations of the reports a store accepts increase strictly, so no two reports
  resolve the same reservation and a late report of an earlier attempt resolves nothing.\<close>

theorem replay_spent_once:
  assumes "wf_record r" "accepted r qs = ps @ q # ms" "observation_of q = Some x"
  shows "(o_outcome x = SETTLED \<longrightarrow> ms = [] \<and> rr_status (serve_all r qs) = CONSUMED)
    \<and> sorted_wrt (<) (map o_generation (List.map_filter observation_of (accepted r qs)))"
proof -
  have run: "replay_run r (map move_of ps @ Resolved x # map move_of ms) (serve_all r qs)"
    using store_run [of r qs] assms(2,3) move_Resolved [of q x] by simp
  then show ?thesis
    using replay_run_settled [OF run] replay_run_resolved [OF store_run [of r qs] assms(1)] by (simp add: moves_resolved)
qed

theorem replay_spent_once_witness:
  "rr_status (serve_all held_record [js_transition held_record (Resolved (seen_outcome SETTLED)) (resolved_record SETTLED), JNull]) = CONSUMED"
proof -
  let ?q = "js_transition held_record (Resolved (seen_outcome SETTLED)) (resolved_record SETTLED)"
  have "\<not> served r JNull" for r by (simp add: served_def applyTransition_def)
  then have acc: "accepted held_record [?q, JNull] = [] @ ?q # []" using serve_js [OF sample_steps(4,2)] by simp
  have obs: "observation_of ?q = Some (seen_outcome SETTLED)"
    using move_of_js [OF sample_steps(2)] by (simp add: move_Resolved)
  from replay_spent_once [OF sample_steps(4) acc obs] show ?thesis by (simp add: seen_outcome_def)
qed

text \<open>C16: No second attempt without evidence that the first failed: once the record is reserved or quarantined, a store
  accepts another reservation only after it accepted a report of that very reservation with outcome FAILED. Time alone
  never frees a record.\<close>

theorem replay_no_second_attempt:
  assumes "rr_status r \<in> {RESERVED, QUARANTINED}" "accepted r qs = ps @ q # ms" "asks RESERVE q"
  shows "\<exists>p \<in> set ps. \<exists>x. observation_of p = Some x \<and> o_generation x = rr_generation r \<and> o_outcome x = FAILED"
  using assms by (rule store_failed)

theorem replay_no_second_attempt_witness:
  "\<exists>qs q. accepted held_record (qs @ [q]) = qs @ [q] \<and> asks RESERVE q
     \<and> (\<exists>p \<in> set qs. \<exists>x. observation_of p = Some x \<and> o_outcome x = FAILED)"
proof -
  let ?p = "js_transition held_record (Resolved (seen_outcome FAILED)) (resolved_record FAILED)"
  let ?q = "js_transition (resolved_record FAILED) Reserved again_record"
  have acc: "accepted held_record ([?p] @ [?q]) = [?p] @ ?q # []"
    using serve_js [OF sample_steps(4,2), of FAILED] serve_js [OF sample_steps(5,3)] by simp
  have q: "asks RESERVE ?q" using move_of_js [OF sample_steps(3)] by (simp add: move_Reserved)
  have "rr_status held_record \<in> {RESERVED, QUARANTINED}" by (simp add: held_record_def)
  from replay_no_second_attempt [OF this, of "[?p] @ [?q]" "[?p]" ?q "[]"] acc q
  have "\<exists>p \<in> set [?p]. \<exists>x. observation_of p = Some x \<and> o_outcome x = FAILED" by blast
  with acc q show ?thesis by (intro exI [of _ "[?p]"] exI [of _ ?q]) simp
qed

section \<open>The persistent map of the ledger\<close>

text \<open>The bit-parallel population count of the trie counts the set bits of a 32-bit bitmap, and masking off
  the bits from a slot upwards counts the children before it: every set slot addresses its own child.\<close>

theorem popcount_counts_bits:
  "popcount x = card {i. bit x i} \<and> popcount x \<le> 32 \<and>
    (i < 32 \<and> bit x i \<longrightarrow> child_pos x i < popcount x \<and> bits x ! child_pos x i = i)"
proof (intro conjI impI)
  have "set (bits x) = {i. bit x i}" by (auto simp: set_bits)
  then show "popcount x = card {i. bit x i}"
    using distinct_card [OF bits_distinct, of x] by (simp add: popcount_bits)
  show "popcount x \<le> 32" using length_filter_le [of "bit x" "[0..<32]"] by (simp add: popcount_bits bits_def)
qed (simp_all add: child_pos_nth popcount_bits)

theorem popcount_counts_bits_witness: "child_pos 0xA0 7 < popcount 0xA0 \<and> bits 0xA0 ! child_pos 0xA0 7 = 7"
  using popcount_counts_bits [of "0xA0" 7] by (simp add: bit_iff_odd_drop_bit flip: drop_bit_eq_div)

text \<open>C17: The trie is a map: setting a key of a well-formed trie never loops (merging two leaves always ends,
  even when the hashes collide), keeps the trie well-formed, gives the key its value, leaves every other key
  as it was, and counts the key exactly when it is new.\<close>

theorem pmap_set_refines_update:
  assumes "wf_pmap m"
  shows "\<exists>m'. state_set m k v = Some m' \<and> wf_pmap m' \<and> state_get m' = (state_get m)(k \<mapsto> v) \<and>
    pm_size m' = card (insert k (dom (state_get m)))"
proof -
  obtain m' where m': "state_set m k v = Some m'" "wf_pmap m'" "state_get m' = (state_get m)(k \<mapsto> v)"
    using state_set_ok [OF assms] by blast
  moreover have "pm_size m' = card (dom (state_get m'))"
    using m'(2) by (simp add: state_get_dom wf_pmap_def)
  ultimately show ?thesis by simp
qed

theorem pmap_set_refines_update_witness:
  "\<exists>m'. state_set state_empty ''a'' (1 :: nat) = Some m' \<and> wf_pmap m' \<and> state_get m' = [''a'' \<mapsto> 1]"
proof -
  have "state_get (state_empty :: nat pmap_state) = Map.empty"
    by (simp add: state_get_def state_empty_def fun_eq_iff)
  then show ?thesis using pmap_set_refines_update [OF wf_state_empty, of "''a''" "1 :: nat"] by auto
qed

text \<open>A map built by any sequence of updates reads as the last value written under each key, counts its
  keys, and lists them once each, in ascending order of UTF-16 code units, whatever the order of the updates.\<close>

theorem pmap_updates_sorted:
  "pm_get (foldl (\<lambda>m (k, v). pm_set m k v) pm_empty kvs) = map_of (rev kvs) \<and>
   pm_count (foldl (\<lambda>m (k, v). pm_set m k v) pm_empty kvs) = card (fst ` set kvs) \<and>
   set (pm_sortedKeys (foldl (\<lambda>m (k, v). pm_set m k v) pm_empty kvs)) = fst ` set kvs \<and>
   distinct (pm_sortedKeys (foldl (\<lambda>m (k, v). pm_set m k v) pm_empty kvs)) \<and>
   sorted_wrt (\<lambda>a b. compare_keys a b \<le> 0) (pm_sortedKeys (foldl (\<lambda>m (k, v). pm_set m k v) pm_empty kvs))"
proof -
  have get: "pm_get (foldl (\<lambda>m (k, v). pm_set m k v) pm_empty kvs) = map_of (rev kvs)"
    by (simp add: pm.get_fold fun_eq_iff map_add_def split: option.splits)
  then show ?thesis
    by (simp add: pm_count_card pm_sortedKeys(1,2) dom_map_of_conv_image_fst)
      (simp add: pm_sortedKeys_def key_cmp.sorted_sort)
qed

section \<open>The ledger's books\<close>

text \<open>C18: Conservation. In every state that a sequence of batches leads to from genesis, the three figures of every
  balance are sums over the reservations: what is reserved of a target is exactly what the open reservations still
  hold of it, what is consumed and restored is exactly what they consumed and restored, each in the units of the
  target; and no demand consumes more than it reserved or restores more than it consumed.\<close>

theorem ledger_conserves:
  assumes "replay_ledger keccak order_fn p batches = Inr s"
  shows "(\<forall>k b. pm_get (targets s) k = Some b \<longrightarrow>
      of_int (tb_reserved b) = total (reserved_at k) (pm_get (reservations s)) \<and>
      of_int (tb_consumed b) = total (consumed_at k) (pm_get (reservations s)) \<and>
      of_int (tb_restored b) = total (restored_at k) (pm_get (reservations s)) \<and>
      0 \<le> tb_restored b \<and> tb_restored b \<le> tb_consumed b) \<and>
    (\<forall>i r d. pm_get (reservations s) i = Some r \<longrightarrow> d \<in> set (demands r) \<longrightarrow>
      0 \<le> dm_restored d \<and> dm_restored d \<le> dm_consumed d \<and> (dm_consumed d = 0 \<or> dm_consumed d \<le> dm_reserved d))"
proof -
  have "books s" using assms by (intro conservation.replay_inv) (auto simp: list_all_iff)
  then show ?thesis by (auto simp: books_balance books_restored dest: books_demand simp: demand_ok_def)
qed

theorem ledger_conserves_witness:
  "\<exists>b. pm_get (targets sample_ledger) (nodeTargetKey zero_digest ''trading'') = Some b \<and> tb_reserved b = 200 \<and>
     total (reserved_at (nodeTargetKey zero_digest ''trading'')) (pm_get (reservations sample_ledger)) = 200"
proof -
  have "tb_reserved (balance_of trading GrantSource 200 400) = 200" by (simp add: balance_of_def)
  then show ?thesis
    using ledger_conserves [OF sample_replay] sample_ledger_get(1) by (metis of_int_numeral)
qed

text \<open>C19: Budgets are never overspent. When every registered grant has distinct dimensions with limits that are not
  negative, and every plan charges positive amounts, then after every replay, and at every time from the last event
  on, what is available of a dimension of a grant is not negative: neither reservations of several actions nor the
  turn of an epoch nor restorations let more be held than the limit. Nothing reserved is negative either.\<close>

theorem budgets_never_overspent:
  assumes "replay_ledger keccak order_fn p batches = Inr s" "list_all (list_all admissible_event) batches"
    "pm_get (targets s) (nodeTargetKey i x) = Some b" "\<And>t0. lastAt s = Some t0 \<Longrightarrow> t0 \<le> t"
  shows "0 \<le> availableOf b t \<and> 0 \<le> tb_reserved b"
proof -
  have "budgets s" using budget.replay_inv assms(1,2) by blast
  then show ?thesis using budgets_available [OF _ assms(3)] budgets_reserved assms(3,4) by blast
qed

theorem budgets_never_overspent_witness: "0 \<le> availableOf (balance_of trading GrantSource 200 400) 30"
proof -
  have "wf_grant sample_grant" "positive_plan sample_plan"
    by (simp_all add: wf_grant_def sample_terms positive_plan_def wf_dimension_def usd_dimension_def sample_contribution_def)
  then have "list_all (list_all admissible_event) [registrations, charges]" by (simp add: registrations_def charges_def)
  then show ?thesis
    using budgets_never_overspent [OF sample_replay _ sample_ledger_get(1)] by (simp add: sample_ledger_get)
qed

text \<open>C20: What a reservation does. When the reducer accepts a reservation, its lineage resolves and is valid at the
  time of the event, the actor holds the leaf, the module is allowed by the effective authority, every leg asks of
  its target exactly the contribution's value, and the sum asked of a target is available there and is what its
  reserved figure grows by; no other balance changes.\<close>

theorem reserve_sound:
  assumes "applyReserve keccak s t plan lin pol legs v = Inr s'"
  shows "\<exists>ns eff derived. resolveLineage s (cpl_authority plan) ''plan.authority'' = Inr ns \<and> valid_lineage s t ns \<and>
    lin = map n_id ns \<and> actor plan = holder (n_grant (hd ns)) \<and> moduleAllowed eff (cpl_module plan) \<and> sameLegs legs derived \<and>
    effectiveAuthority ns (pr_policy (the (policy s))) ''plan.authority'' (pr_bindings (the (policy s))) = Inr eff \<and>
    list_all2 (\<lambda>c ls. \<forall>l \<in> set ls. leg_of c t l \<and> leg_source ns l) (contributions plan) derived \<and>
    (\<forall>l \<in> set (concat derived). \<exists>b. pm_get (targets s) (ld_key l) = Some b \<and>
       asked (concat derived) (ld_key l) \<le> availableOf b t \<and>
       pm_get (targets s') (ld_key l) = Some (b\<lparr>tb_reserved := tb_reserved b + asked (concat derived) (ld_key l)\<rparr>)) \<and>
    (\<forall>k. k \<notin> ld_key ` set (concat derived) \<longrightarrow> pm_get (targets s') k = pm_get (targets s) k)"
proof -
  obtain d dem where d: "deriveReservation keccak s plan t = Inr d"
      and avail: "checkAvailability s (dr_legs d) t ''plan'' = Inr dem"
      and fold: "rfold reserve_target dem (targets s) = Inr (targets s')"
      and same: "sameLegs legs (dr_legs d)" "lin = map n_id (dr_lineage d)"
    using applyReserve_effect [OF assms] by blast
  note facts = deriveReservation_facts [OF d]
  have dem: "dem = demand_of (concat (dr_legs d))" using avail by (auto simp: checkAvailability_def rbind_eq_Inr Let_def split: if_splits)
  then have dist: "distinct (map fst dem)" using demand_of_distinct by simp
  note get = reserve_targets_get [OF fold dist]
  show ?thesis
  proof (intro exI [of _ "dr_lineage d"] exI [of _ "dr_effective d"] exI [of _ "dr_legs d"] conjI ballI allI impI)
    fix l assume l: "l \<in> set (concat (dr_legs d))"
    then have "map_of dem (ld_key l) = Some (asked (concat (dr_legs d)) (ld_key l))" by (auto simp: dem demand_of_asked simp del: set_concat)
    then show "\<exists>b. pm_get (targets s) (ld_key l) = Some b \<and> asked (concat (dr_legs d)) (ld_key l) \<le> availableOf b t \<and>
       pm_get (targets s') (ld_key l) = Some (b\<lparr>tb_reserved := tb_reserved b + asked (concat (dr_legs d)) (ld_key l)\<rparr>)"
      using checkAvailability_room [OF avail l] get [of "ld_key l"] by auto
  next
    fix k assume "k \<notin> ld_key ` set (concat (dr_legs d))"
    then have "map_of dem k = None" by (simp only: dem demand_of_asked if_False)
    then show "pm_get (targets s') k = pm_get (targets s) k" using get [of k] by (simp add: option.map_ident)
  qed (use facts same in \<open>auto simp: checkLineageValid_ok\<close>)
qed

theorem reserve_sound_witness:
  "\<exists>s' ns. applyReserve keccak0 registered 20 sample_plan [zero_digest] zero_digest sample_legs 2 = Inr s' \<and>
     resolveLineage registered zero_digest ''plan.authority'' = Inr ns \<and> valid_lineage registered 20 ns"
proof -
  obtain s' where s': "applyReserve keccak0 registered 20 sample_plan [zero_digest] zero_digest sample_legs 2 = Inr s'"
    using reserve_event by (auto simp: applyEvent_def rbind_eq_Inr)
  have "cpl_authority sample_plan = zero_digest" by (simp add: sample_plan_def)
  then show ?thesis using reserve_sound [OF s'] s' by auto
qed

section \<open>Delegated authority\<close>

text \<open>C21: The subset check decides containment. \<open>checkDelegationSubset\<close> compares keys, ranks and scaled integers;
  it reports no violation exactly when the child's window is inside the parent's, its delegation depth fits, every
  term of the child is within the parent's term of the same key as values (sets as sets, bounds as rationals), or
  may stand without one, and no bound, invariant or state policy of the parent is dropped.\<close>

theorem delegation_check_exact: "checkDelegationSubset par child depth prove = [] \<longleftrightarrow> grant_within prove depth par child"
  by (rule checkDelegationSubset_within)

text \<open>C22: A registered grant always resolves: after every replay the lineage of every registered node exists, starts
  with the node, ends in a root, links each node to its parent and is no longer than the ledger's bound, so the
  loop that walks it never runs out.\<close>

theorem lineage_resolves:
  assumes "replay_ledger keccak order_fn p batches = Inr s" "pm_get (nodes s) i = Some n"
  shows "\<exists>rest. resolveLineage s i path = Inr (n # rest) \<and> linked (n # rest) \<and> length (n # rest) \<le> MAX_LINEAGE_LENGTH"
proof -
  have fo: "forest s" using assms(1) by (intro authority.replay_inv) (auto simp: list_all_iff)
  obtain rest where rest: "resolveLineage s i path = Inr (n # rest)" "length rest = n_depth n"
    using resolveLineage_total [OF fo assms(2)] by blast
  have "linked (n # rest)" using resolve_from_linked rest(1) fo unfolding resolveLineage_def forest_def by blast
  moreover have "n_depth n < MAX_LINEAGE_LENGTH" using fo assms(2) by (auto simp: forest_def node_ok_def)
  ultimately show ?thesis using rest by auto
qed

theorem lineage_resolves_witness: "\<exists>rest. resolveLineage sample_ledger zero_digest ''x'' = Inr (sample_node # rest)"
  using lineage_resolves [OF sample_replay sample_ledger_get(4)] by blast

text \<open>C23: Authority only narrows. After every replay, a grant is confined by every grant of its lineage up to the
  root, not only by its parent: its window is inside theirs, every set it allows is a subset of theirs, every right
  but delegation is theirs, and every bound of theirs is one of its own that is at least as tight.\<close>

theorem lineage_confines:
  assumes "replay_ledger keccak order_fn p batches = Inr s" "resolveLineage s i path = Inr lin" "m \<in> set lin"
  shows "confined (n_grant m) (n_grant (hd lin))"
proof -
  have "forest s" using assms(1) by (intro authority.replay_inv) (auto simp: list_all_iff)
  then show ?thesis using lineage_confined assms(2,3) unfolding resolveLineage_def by blast
qed

theorem lineage_confines_witness: "confined sample_grant sample_grant"
proof -
  have "resolveLineage sample_ledger zero_digest ''x'' = Inr [sample_node]" by (rule sample_resolve [OF sample_ledger_get(4)])
  then show ?thesis using lineage_confines [OF sample_replay, of zero_digest "''x''" "[sample_node]" sample_node] by (simp add: sample_node_def)
qed

text \<open>C24: Revocation is final. Once a node is revoked in a replayed state, then after any further batches nothing is
  reserved through a lineage that holds it, whatever the plan, the time and the recorded legs.\<close>

theorem revocation_is_final:
  assumes "replay_ledger keccak order_fn p batches = Inr s" "pm_get (nodes s) i = Some n" "revokedAt n \<noteq> None"
    "replay_from keccak order_fn j later s = Inr s'"
    "resolveLineage s' (cpl_authority plan) path = Inr lin" "m \<in> set lin" "n_id m = i"
  shows "\<exists>e. applyReserve keccak s' t plan ids pol legs v = Inl e"
proof (rule ccontr)
  assume "\<nexists>e. applyReserve keccak s' t plan ids pol legs v = Inl e"
  then obtain s2 where "applyReserve keccak s' t plan ids pol legs v = Inr s2"
    by (cases "applyReserve keccak s' t plan ids pol legs v") auto
  from reserve_live [OF this assms(5,6)] have live: "revokedAt m = None" by (simp add: live_node_def)
  have "forest s" using assms(1) by (intro authority.replay_inv) (auto simp: list_all_iff)
  then have "revoked_in i s" using assms(2,3) by (auto simp: revoked_in_def)
  then have rev: "revoked_in i s'" using replay_from_revoked assms(4) by blast
  obtain k where k: "pm_get (nodes s') k = Some m" using resolve_from_nodes assms(5,6) unfolding resolveLineage_def by blast
  then have "k = i" using rev assms(7) by (auto simp: revoked_in_def forest_def)
  then show False using k rev live by (auto simp: revoked_in_def)
qed

theorem revocation_is_final_witness: "\<exists>e. applyReserve keccak0 revoked_ledger 20 sample_plan [zero_digest] zero_digest sample_legs 3 = Inl e"
proof -
  let ?n = "sample_node\<lparr>revokedAt := Some 2, n_revocation := Some zero_digest\<rparr>"
  have n: "pm_get (nodes revoked_ledger) zero_digest = Some ?n" by (simp add: revoked_ledger_def)
  have "resolveLineage revoked_ledger (cpl_authority sample_plan) ''x'' = Inr [?n]"
    using n by (simp add: resolveLineage_def MAX_LINEAGE_LENGTH_def sample_plan_def sample_node_def sample_grant_def)
  then show ?thesis
    using revocation_is_final [OF revoked_replay n, of 0 "[]" revoked_ledger sample_plan "''x''" "[?n]" ?n] by (simp add: sample_node_def)
qed

section \<open>Actions, reservations and attempts\<close>

text \<open>C25: One reservation at a time. After every replay, two reservations of one action with the same generation are
  one; at most one of them is open, it is the latest, and the generations below every reservation are all there.\<close>

theorem one_open_reservation:
  assumes "replay_ledger keccak order_fn p batches = Inr s" "pm_get (reservations s) i = Some r"
    "pm_get (reservations s) j = Some q" "rs_action r = rs_action q"
  shows "(rs_generation r = rs_generation q \<longrightarrow> i = j) \<and> (rs_status r = IsActive \<longrightarrow> rs_status q = IsActive \<longrightarrow> i = j) \<and>
    (rs_status r = IsActive \<longrightarrow> rs_generation q \<le> rs_generation r) \<and>
    (\<forall>g. 1 \<le> g \<longrightarrow> g \<le> rs_generation r \<longrightarrow> (\<exists>k. reservation_of s (rs_action r) g k))"
proof -
  have "life s" using assms(1) by (intro lifecycle.replay_inv) (auto simp: list_all_iff)
  then have ok: "generations_ok s" by (simp add: life_def)
  obtain a where a: "pm_get (actions s) (rs_action r) = Some a" "1 \<le> rs_generation r" "rs_generation r \<le> lastGeneration a"
      "rs_status r = IsActive \<longleftrightarrow> open_reservation a = Some i"
    using generations_reservation [OF ok assms(2)] by blast
  with generations_reservation [OF ok assms(3)] assms(4) have q: "rs_generation q \<le> lastGeneration a"
      "rs_status q = IsActive \<longleftrightarrow> open_reservation a = Some j" by auto
  have "reservation_of s (rs_action r) (rs_generation r) i" "reservation_of s (rs_action r) (rs_generation q) j"
    using assms(2-4) by (auto simp: reservation_of_def)
  then have "rs_generation r = rs_generation q \<longrightarrow> i = j" using generations_unique [OF ok a(1-3)] by auto
  moreover have "rs_generation q \<le> rs_generation r" if act: "rs_status r = IsActive"
  proof -
    have "reservation_of s (rs_action r) (lastGeneration a) i" using ok a(1,4) act unfolding generations_ok_def by blast
    then show ?thesis using q(1) assms(2) by (auto simp: reservation_of_def)
  qed
  moreover have "rs_status r = IsActive \<longrightarrow> rs_status q = IsActive \<longrightarrow> i = j" using a(4) q(2) by simp
  moreover have "\<exists>k. reservation_of s (rs_action r) g k" if "1 \<le> g" "g \<le> rs_generation r" for g
    using generations_unique [OF ok a(1) that(1)] that(2) a(3) by auto
  ultimately show ?thesis by blast
qed

theorem one_open_reservation_witness: "\<exists>k. reservation_of sample_ledger zero_digest 1 k"
proof -
  let ?r = "sample_record\<lparr>demands := [(demand_record sample_contribution [trading, all_charges])\<lparr>dm_consumed := 4\<rparr>]\<rparr>"
  have "rs_action ?r = zero_digest" "rs_generation ?r = 1" by (simp_all add: sample_record_def)
  then show ?thesis using one_open_reservation [OF sample_replay sample_ledger_get(2,2)] by auto
qed

text \<open>C26: One attempt. After every replay, two attempts that share their reservation, their artifact or their venue
  slot are one attempt, and it is the first one of a reservation of the action it names, at the generation it names.\<close>

theorem one_attempt:
  assumes "replay_ledger keccak order_fn p batches = Inr s" "pm_get (attempts s) i = Some a" "pm_get (attempts s) j = Some b"
    "at_reservation a = at_reservation b \<or> artifactKey (artifact a) = artifactKey (artifact b) \<or>
     (\<exists>x y. slot a = Some x \<and> slot b = Some y \<and> slotKey x = slotKey y)"
  shows "i = j \<and> ordinal a = 1 \<and> reservation_of s (at_action a) (at_generation a) (at_reservation a)"
proof -
  have "life s" using assms(1) by (intro lifecycle.replay_inv) (auto simp: list_all_iff)
  then have ok: "pm_get (attempts s) k = Some c \<Longrightarrow> ordinal c = 1 \<and> pm_get (reservationAttempts s) (at_reservation c) = Some [k] \<and>
      pm_get (attemptArtifacts s) (artifactKey (artifact c)) = Some k \<and>
      (\<forall>sl. slot c = Some sl \<longrightarrow> pm_get (attemptSlots s) (slotKey sl) = Some k) \<and>
      reservation_of s (at_action c) (at_generation c) (at_reservation c)" for k c
    by (simp add: life_def attempts_ok_def)
  show ?thesis using ok [OF assms(2)] ok [OF assms(3)] assms(4) by (auto split: option.splits)
qed

theorem one_attempt_witness: "ordinal (admitted sample_attempt 2 25) = 1 \<and> reservation_of sample_ledger zero_digest 1 zero_digest"
  using one_attempt [OF sample_replay sample_ledger_get(3,3)] by (simp add: sample_attempt_def)

section \<open>Core quantities\<close>



text \<open>Fixed-point text is read back. At every number of decimals the core admits, parsing what \<open>formatFixedDecimal\<close>
  prints for any integer gives that integer, exactly as long as the text keeps to the 120 characters of the parser, and
  is refused when it is longer. Every integer of at most 118 digits fits.\<close>

theorem fixed_decimal_roundtrip:
  assumes "d \<le> MAX_DECIMALS_core"
  shows "parseFixedDecimal (formatFixedDecimal n d) d path =
      (if length (formatFixedDecimal n d) \<le> 120 then Inr n else Inl (''NON_CANONICAL_DECIMAL'', path))
    \<and> (\<bar>n\<bar> < 10 ^ 118 \<longrightarrow> length (formatFixedDecimal n d) \<le> 120)"
  using parse_format_fixed_iff [OF assms] fixed_decimal_fits [OF assms] by blast

theorem fixed_decimal_roundtrip_witness: "parseFixedDecimal (formatFixedDecimal (- 350) 2) 2 ''x'' = Inr (- 350)"
  using fixed_decimal_roundtrip [of 2 "- 350" "''x''"] by (simp add: MAX_DECIMALS_core_def)

section \<open>The execution gate\<close>

text \<open>C28: The gate speaks the kernel's bytes. For a well-formed mandate and candidate whose parties are EVM addresses,
  the gate's own struct has exactly the kernel's encoding, and decoding the struct gives back the kernel's object
  with the digest the kernel signs.\<close>

theorem gate_speaks_kernel:
  assumes "wf_mandate m" "toGateMandate m = Some g" "wf_candidate c" "toGateCandidate c = Some h"
  shows "(\<exists>b. encodeMandate m = Some b \<and> encodeGateMandate g = Some b \<and>
      decodeGateMandate keccak g = Inr (m, keccak256 keccak b)) \<and>
    (\<exists>b. encodeCandidate c = Some b \<and> encodeGateCandidate h = Some b \<and>
      decodeGateCandidate keccak h = Inr (c, keccak256 keccak b))"
  using decodeGateMandate_to [OF assms(1,2)] decodeGateCandidate_to [OF assms(3,4)] encodeGateMandate_to [OF assms(1,2)]
    encodeGateCandidate_to [OF assms(4)] by metis

theorem gate_speaks_kernel_witness:
  "\<exists>b g. toGateMandate sample_mandate = Some g \<and> encodeMandate sample_mandate = Some b \<and> encodeGateMandate g = Some b"
proof -
  obtain g h where "toGateMandate sample_mandate = Some g" "toGateCandidate sample_candidate = Some h" using sample_gate_objects by blast
  then show ?thesis using gate_speaks_kernel [OF sample_wf(1) _ sample_wf(2)] by blast
qed

text \<open>C29: What an accepted plan rests on. If the gate authorizes an attempt, the bytes of its structs decode to a
  mandate and a candidate, the mandate's principal signed its digest under the gate's domain and the mandate's agent
  signed the commitment, the chain's time is inside the mandate's window and not past the deadline, the digest is not
  consumed, chain, venue, issuer and asset are the mandate's, the recipient is the principal, and the true value of
  the quantity at the pinned price is at most the mandate's maximum.\<close>

theorem gate_plan_sound:
  assumes "authorizeExecution keccak recover n dep att ch = Inr p" "\<forall>k \<in> set (gd_markets dep). wf_market_data k"
  shows "\<exists>bm m bc c k hash who. encodeGateMandate (ga_mandate att) = Some bm \<and> decodeMandate bm = Inr m \<and>
    encodeGateCandidate (ga_candidate att) = Some bc \<and> decodeCandidate bc = Inr c \<and>
    xp_mandateDigest p = keccak256 keccak bm \<and> xp_candidateDigest p = keccak256 keccak bc \<and>
    verifyAuthorization keccak recover n \<lparr>scheme = EIP712_SECP256K1, signer = m_principal m,
      signature = ga_principalSignature att, domain = gateDomain (gd_chainId dep) (gd_gate dep)\<rparr> (xp_mandateDigest p)
      (gateDomain (gd_chainId dep) (gd_gate dep)) = Some (Inr who) \<and>
    executionCommitment keccak (xp_mandateDigest p) (xp_candidateDigest p) (ga_terms att) = Some (xp_commitment p) \<and>
    eip712Hash keccak (gateDomain (gd_chainId dep) (gd_gate dep)) (xp_commitment p) = Some hash \<and>
    recoverSigner keccak recover n hash (ga_agentSignature att) = Some (party_value (m_agent m)) \<and>
    m_notBeforeUnixSeconds m \<le> cc_timestamp ch \<and> cc_timestamp ch < m_expiresAtUnixSeconds m \<and>
    cc_timestamp ch \<le> gt_deadline (ga_terms att) \<and> xp_mandateDigest p \<notin> cc_consumed ch \<and>
    k \<in> set (gd_markets dep) \<and> xp_market p = k \<and> caip2 (gd_chainId dep) \<in> set (m_allowedChains m) \<and>
    gk_venue k \<in> set (m_allowedVenues m) \<and> gk_issuer k \<in> set (m_allowedIssuers m) \<and>
    c_canonicalAsset c = m_canonicalAsset m \<and> xp_recipient p = party_value (m_principal m) \<and>
    amount_val (c_quantity c) * price_val (gk_fixturePrice k) \<le> amount_val (m_maxNotional m)"
proof -
  obtain m md c cd k commitment hash who where f: "decodeGateMandate keccak (ga_mandate att) = Inr (m, md)"
      "decodeGateCandidate keccak (ga_candidate att) = Inr (c, cd)" "k \<in> set (gd_markets dep)"
      "verifyAuthorization keccak recover n \<lparr>scheme = EIP712_SECP256K1, signer = m_principal m,
        signature = ga_principalSignature att, domain = gateDomain (gd_chainId dep) (gd_gate dep)\<rparr> md
        (gateDomain (gd_chainId dep) (gd_gate dep)) = Some (Inr who)"
      "executionCommitment keccak md cd (ga_terms att) = Some commitment"
      "eip712Hash keccak (gateDomain (gd_chainId dep) (gd_gate dep)) commitment = Some hash"
      "recoverSigner keccak recover n hash (ga_agentSignature att) = Some (party_value (m_agent m))"
      "m_notBeforeUnixSeconds m \<le> cc_timestamp ch" "cc_timestamp ch < m_expiresAtUnixSeconds m"
      "cc_timestamp ch \<le> gt_deadline (ga_terms att)" "md \<notin> cc_consumed ch"
      and b: "checkBinding dep m c k = Inr ()" and e: "checkEconomics m c k = Inr ()"
      and pl: "plan_gate m c k (ga_terms att) ch md cd commitment = Inr p"
    using authorizeExecution_Inr [OF assms(1)] by blast
  obtain bm bc where bm: "encodeGateMandate (ga_mandate att) = Some bm" "decodeMandate bm = Inr m" "md = keccak256 keccak bm"
      and bc: "encodeGateCandidate (ga_candidate att) = Some bc" "decodeCandidate bc = Inr c" "cd = keccak256 keccak bc"
    using decodeGateMandate_Inr [OF f(1)] decodeGateCandidate_Inr [OF f(2)] by blast
  note wf = decodeMandate_wf [OF bm(2)] decodeCandidate_wf [OF bc(2)]
  have k: "wf_market_data k" using assms(2) f(3) by blast
  then have "wf_price (gk_fixturePrice k)" by (simp add: wf_market_data_def)
  note econ = checkEconomics_Inr(3) [OF e wf this]
  note pl = plan_gate_Inr [OF pl wf(1) k]
  have "caip2 (gd_chainId dep) \<in> set (m_allowedChains m)" "gk_venue k \<in> set (m_allowedVenues m)"
      "gk_issuer k \<in> set (m_allowedIssuers m)" "c_canonicalAsset c = m_canonicalAsset m"
    using b by (auto simp: checkBinding_def)
  with f bm bc econ pl show ?thesis by (intro exI conjI) (assumption | simp)+
qed

theorem gate_plan_sound_witness: "zero_digest \<notin> cc_consumed (sample_chain 150) \<and> xp_recipient sample_plan_of_gate = zero_address"
proof -
  have "xp_mandateDigest sample_plan_of_gate = zero_digest" "xp_recipient sample_plan_of_gate = zero_address"
    by (simp_all add: sample_plan_of_gate_def execution_plan_of_def sample_gate_terms_def)
  then show ?thesis using gate_plan_sound [OF sample_authorized sample_market_wf] by auto
qed



section \<open>Reservations and reconciliation at the gate\<close>

text \<open>C31: Admissions keep a reservation bounded. From a record with no attempt, or one that is bounded, an admitted
  attempt leaves at most eight attempts, with distinct commitments that are those of their own fields, none with a
  deadline past the reservation's expiry; the reservation is unchanged and the commitment to sign is recorded.\<close>

theorem admissions_bounded:
  assumes "admitAttemptUnderReservation keccak rawRecord rawAttempt rawNow = Inr adm"
    "parse_reservation keccak rawRecord = Some pv"
    "gr_attempts (pv_value pv) = [] \<or> bounded_attempts keccak (pv_digest pv) (pv_value pv)"
  shows "bounded_attempts keccak (pv_digest pv) (aa_record adm) \<and> gr_reservation (aa_record adm) = gr_reservation (pv_value pv) \<and>
    aa_commitment adm \<in> sa_commitment ` set (gr_attempts (aa_record adm))"
proof -
  have "bounded_attempts keccak (pv_digest pv) (pv_value pv)" using assms(3) by (auto simp: bounded_attempts_def)
  then show ?thesis using admit_bounded [OF assms(1,2)] by blast
qed

theorem admissions_bounded_witness:
  "\<exists>adm. admitAttemptUnderReservation keccak0 (sample_reservation []) (js_signed sample_signed) (JBig 155) = Inr adm \<and>
     bounded_attempts keccak0 zero_digest (aa_record adm)"
proof -
  have pv: "parse_reservation keccak0 (sample_reservation []) = Some (sample_parsed [])" by (rule sample_reservation_parse) simp
  have "parse_seconds (JBig 155) = Some 155" "gt_deadline sample_gate_terms = 160" by code_simp+
  then obtain adm where adm: "admitAttemptUnderReservation keccak0 (sample_reservation []) (js_signed sample_signed) (JBig 155) = Inr adm"
    by (simp add: admitAttemptUnderReservation_def pv sample_terms_parse sample_parsed_def sample_gate_record_def Let_def
        sample_gate_signatures(3) MAX_ATTEMPTS_def)
  then show ?thesis using admissions_bounded [OF adm pv] by (auto simp: sample_parsed_def)
qed

text \<open>C32: A failed reservation cannot settle. If a final reading of the gate makes the reconciliation report FAILED,
  then at every chain time from that reading on the gate refuses every attempt under that mandate that is one the
  record holds or whose deadline is at most the reservation's expiry, whatever the candidate and the signatures.\<close>

theorem failed_cannot_settle:
  assumes "observationFromGateEvidence keccak rawRecord rawEvidence rawPolicy = Inr rn" "o_outcome (rn_observation rn) = FAILED"
    "parse_reservation keccak rawRecord = Some pv" "parse_evidence rawEvidence = Some ev"
    "encodeGateMandate (ga_mandate att) = hexToBytes (gr_mandateEncoding (pv_value pv))"
    "(\<exists>a \<in> set (gr_attempts (pv_value pv)). ga_terms att = sa_terms a) \<or>
     (\<exists>t. rr_expiresAt (gr_reservation (pv_value pv)) = Some t \<and> gt_deadline (ga_terms att) \<le> t)"
    "ev_blockTimestamp ev \<le> cc_timestamp ch"
  shows "\<exists>e. authorizeExecution keccak recover n dep att ch = Inl e"
proof (rule ccontr)
  assume "\<nexists>e. authorizeExecution keccak recover n dep att ch = Inl e"
  then obtain p where "authorizeExecution keccak recover n dep att ch = Inr p"
    by (cases "authorizeExecution keccak recover n dep att ch") auto
  from authorizeExecution_Inr [OF this] obtain m md where m: "decodeGateMandate keccak (ga_mandate att) = Inr (m, md)"
      "cc_timestamp ch < m_expiresAtUnixSeconds m" "cc_timestamp ch \<le> gt_deadline (ga_terms att)" by blast
  have "pv_expiresAt pv = m_expiresAtUnixSeconds m"
    using decodeGateMandate_Inr [OF m(1)] parse_reservation_facts [OF assms(3)] assms(5) by auto
  then show False
    using observation_failed [OF assms(1,2)] assms(3,4,6,7) m(2,3) by fastforce
qed

theorem failed_cannot_settle_witness:
  "\<exists>e. authorizeExecution keccak0 recover0 100 sample_gate sample_gate_attempt (sample_chain 175) = Inl e"
proof -
  obtain rn ev where rn: "observationFromGateEvidence keccak0 (sample_reservation [sample_signed]) sample_reading sample_reading_policy = Inr rn"
      "o_outcome (rn_observation rn) = FAILED" and ev: "parse_evidence sample_reading = Some ev" "ev_blockTimestamp ev = 171"
    using sample_failure by blast
  have pv: "parse_reservation keccak0 (sample_reservation [sample_signed]) = Some (sample_parsed [sample_signed])"
    by (rule sample_reservation_parse) simp
  obtain g b where g: "toGateMandate sample_mandate = Some g" "encodeMandate sample_mandate = Some b"
    using sample_gate_objects encodeMandate_total [OF sample_wf(1)] by blast
  have "encodeGateMandate (ga_mandate sample_gate_attempt) = hexToBytes (gr_mandateEncoding (pv_value (sample_parsed [sample_signed])))"
    using encodeGateMandate_to [OF sample_wf(1) g(1)] g by (simp add: sample_gate_attempt_def sample_parsed_def)
  moreover have "ga_terms sample_gate_attempt = sa_terms sample_signed" by (simp add: sample_gate_attempt_def sample_signed_def)
  ultimately show ?thesis
    using failed_cannot_settle [OF rn pv ev(1), of sample_gate_attempt "sample_chain 175" recover0 100 sample_gate] ev(2)
    by (auto simp: sample_parsed_def sample_chain_def)
qed

section \<open>The registry\<close>

text \<open>C33: Admissibility is decided exactly. In an opened registry, evaluating requirements admits a representation just
  when its identifier parses, it is registered, and its record satisfies them: every demanded property has a usable claim, all
  usable claims on it agree, and what they say is allowed. A claim below the trust floor or stale has no influence.\<close>

theorem registry_admits_exactly:
  assumes "openRegistry keccak raw = Inr reg"
  shows "evaluateRepresentation keccak reg q x = ADMISSIBLE rid \<longleftrightarrow>
    parseRepresentationId keccak x = Inr rid \<and> (\<exists>r. byRepresentationId reg (ri_value rid) = Some r \<and> satisfies reg q r)"
  by (rule evaluate_admissible [OF assms])

theorem registry_admits_exactly_witness:
  "(\<exists>r. byRepresentationId sample_registry (reg_id ''a'') = Some r \<and> satisfies sample_registry reg_strict r)
   \<and> \<not> (\<exists>r. byRepresentationId sample_registry (reg_id ''b'') = Some r \<and> satisfies sample_registry reg_base r)"
proof -
  have p: "parseRepresentationId reg_keccak (JStr (reg_id ''b'')) = Inr (parsed_id ''b'')" by code_simp
  have v: "ri_value (parsed_id c) = reg_id c" for c by (simp add: parsed_id_def)
  show ?thesis
    using registry_admits_exactly [OF sample_registry, of reg_strict "JStr (reg_id ''a'')" "parsed_id ''a''"]
      registry_admits_exactly [OF sample_registry, of reg_base "JStr (reg_id ''b'')" "parsed_id ''b''"]
      agreeing_admitted disagreeing_excluded p unfolding v by auto
qed

text \<open>C34: What narrowing can do. A representation admitted under narrowed requirements is admitted under the original
  ones too, or it was refused there for one reason only: claims that the stricter trust floor or the shorter age no
  longer count contradicted the others. When the policy on trust and age is not narrowed, the admissible set only
  shrinks.\<close>

theorem narrowing_shrinks:
  assumes "openRegistry keccak raw = Inr reg" "narrowRequirements base extra = Inr q"
    and "evaluateRepresentation keccak reg q x = ADMISSIBLE rid"
  shows "evaluateRepresentation keccak reg base x = ADMISSIBLE rid \<or>
    (ar_minimumTrust extra \<noteq> None \<or> ar_maxClaimAge extra \<noteq> None) \<and>
    (\<exists>es. evaluateRepresentation keccak reg base x =
       EXCLUDED (Some rid) [RegistryCode REPRESENTATION_METADATA_CONFLICT] es)"
proof -
  obtain r where p: "parseRepresentationId keccak x = Inr rid" and r: "byRepresentationId reg (ri_value rid) = Some r"
    and fit: "satisfies reg q r"
    using assms(3) evaluate_admissible [OF assms(1)] by metis
  have ev: "evaluateRepresentation keccak reg base x = decide reg base rid r"
    by (simp add: evaluateRepresentation_def p r)
  have chain: "ri_chain rid = ri_chain (representationId r)"
    using registered [OF assms(1) r] parseRepresentationId_wf [OF p] same_chain by (metis wf_registered_def)
  show ?thesis
  proof (cases "ar_minimumTrust extra = None \<and> ar_maxClaimAge extra = None")
    case True
    then have "satisfies reg base r" using fits_policy [OF assms(2) narrow_same_policy [OF assms(2)] fit] by blast
    then show ?thesis using evaluate_admissible [OF assms(1)] p r by metis
  next
    case False
    have "conflict_only (exclusions_of reg base rid r)"
      by (rule narrowed_exclusions [OF registered(1) [OF assms(1) r] chain assms(2) fit])
    from decide_conflict_only [OF this] show ?thesis using False unfolding ev by auto
  qed
qed

theorem narrowing_shrinks_witness:
  "evaluateRepresentation reg_keccak sample_registry reg_base (JStr (reg_id ''a'')) = ADMISSIBLE (parsed_id ''a'')
   \<or> (\<exists>es. evaluateRepresentation reg_keccak sample_registry reg_base (JStr (reg_id ''a'')) =
       EXCLUDED (Some (parsed_id ''a'')) [RegistryCode REPRESENTATION_METADATA_CONFLICT] es)"
  using narrowing_shrinks [OF sample_registry reg_strict agreeing_admitted] by blast

text \<open>C35: The registry feeds the kernel what the kernel accepts. Derive requirements from a mandate, narrow them, and
  evaluate: every representation the registry admits translates into a well-formed kernel observation of itself, and
  on any trusted state that carries the observation the kernel's representation check passes for a candidate that
  names its issuer and chain.\<close>

theorem registry_feeds_kernel:
  assumes "openRegistry keccak raw = Inr reg" "deriveRequirements m ctx = Inr base"
    and "narrowRequirements base extra = Inr q" "evaluateRepresentation keccak reg q x = ADMISSIBLE rid"
  shows "\<exists>r ob. byRepresentationId reg (ri_value rid) = Some r \<and> toRepresentationState r q = Inr ob
    \<and> wf_observed wf_representation ob \<and> rep_id (value_of ob) = ri_value rid
    \<and> rep_asset (value_of ob) = m_canonicalAsset m \<and> rep_issuer (value_of ob) \<in> set (m_allowedIssuers m)
    \<and> rep_chain (value_of ob) \<in> set (m_allowedChains m)
    \<and> (\<forall>k. x_mandate k = m \<and> findRepresentation (x_state k) (c_representationId (x_candidate k)) = Some ob
          \<and> c_issuer (x_candidate k) = rep_issuer (value_of ob) \<and> c_chain (x_candidate k) = rep_chain (value_of ob)
        \<longrightarrow> checkRepresentation k = [])"
proof -
  obtain r where r: "byRepresentationId reg (ri_value rid) = Some r" and fit: "satisfies reg q r"
    using assms(4) evaluate_admissible [OF assms(1)] by metis
  from admitted_translates [OF registered(1) [OF assms(1) r] fit narrow_within [OF assms(3) derive_within [OF assms(2)]]]
  obtain ob where ob: "toRepresentationState r q = Inr ob" "wf_observed wf_representation ob"
      "rep_id (value_of ob) = ri_value (representationId r)" "rep_asset (value_of ob) = m_canonicalAsset m"
      "rep_issuer (value_of ob) \<in> set (m_allowedIssuers m)" "rep_chain (value_of ob) \<in> set (m_allowedChains m)"
      "operationalState (value_of ob) = ACTIVE"
      "synthetic (value_of ob) = NO \<or> synthetic (value_of ob) = YES \<and> m_syntheticPolicy m \<noteq> FORBIDDEN"
    by blast
  have "checkRepresentation k = []"
    if "x_mandate k = m" "findRepresentation (x_state k) (c_representationId (x_candidate k)) = Some ob"
      "c_issuer (x_candidate k) = rep_issuer (value_of ob)" "c_chain (x_candidate k) = rep_chain (value_of ob)" for k
    by (rule translated_passes [OF ob(1,4,5,7,8) that])
  then show ?thesis using r ob registered(2) [OF assms(1) r] by (intro exI [of _ r] exI [of _ ob]) simp
qed

definition feeding_context :: "representation_state observed \<Rightarrow> check_context" where
  "feeding_context ob = \<lparr>x_mandate = reg_mandate, x_authorization = sample_envelope,
     x_candidate = sample_candidate\<lparr>c_representationId := rep_id (value_of ob), c_issuer := rep_issuer (value_of ob),
       c_chain := rep_chain (value_of ob)\<rparr>,
     x_state = (sample_state [])\<lparr>s_representations := [ob]\<rparr>, x_now = 150, x_expectedDomain = sample_domain,
     x_mandateDigest = zero_digest, x_trustedStateDigest = zero_digest\<rparr>"

theorem registry_feeds_kernel_witness:
  "\<exists>r ob. byRepresentationId sample_registry (reg_id ''a'') = Some r \<and> toRepresentationState r reg_strict = Inr ob
    \<and> checkRepresentation (feeding_context ob) = []"
proof -
  have "ri_value (parsed_id ''a'') = reg_id ''a''" by (simp add: parsed_id_def)
  then obtain r ob where "byRepresentationId sample_registry (reg_id ''a'') = Some r"
      "toRepresentationState r reg_strict = Inr ob"
      and k: "\<And>k. x_mandate k = reg_mandate \<and> findRepresentation (x_state k) (c_representationId (x_candidate k)) = Some ob
          \<and> c_issuer (x_candidate k) = rep_issuer (value_of ob) \<and> c_chain (x_candidate k) = rep_chain (value_of ob)
        \<Longrightarrow> checkRepresentation k = []"
    using registry_feeds_kernel [OF sample_registry reg_base reg_strict agreeing_admitted] by metis
  moreover have "checkRepresentation (feeding_context ob) = []"
    by (rule k) (simp add: feeding_context_def findRepresentation_def)
  ultimately show ?thesis by blast
qed

text \<open>C36: A wrong digit never passes as another instrument. Whatever identifier the registry accepts, under FIGI, ISIN
  or CUSIP, replacing one digit of it by another digit gives an identifier the registry refuses.\<close>

theorem check_digits_catch:
  assumes "validateCanonicalAssetId raw = Inr a" "i < length (assetValue a)" "is_digit (assetValue a ! i)"
    and "is_digit d" "d \<noteq> assetValue a ! i"
  shows "validateCanonicalAssetId (js_asset (a\<lparr>assetValue := (assetValue a)[i := d]\<rparr>)) \<noteq> Inr b"
proof
  assume acc: "validateCanonicalAssetId (js_asset (a\<lparr>assetValue := (assetValue a)[i := d]\<rparr>)) = Inr b"
  obtain s where s: "map_of AssetIdScheme (idScheme a) = Some s" "isValidSchemeValue s (assetValue a)"
    using assms(1) by (auto simp: validateCanonicalAssetId_def rbind_eq_Inr split: if_splits option.splits)
  have "b = a\<lparr>assetValue := (assetValue a)[i := d]\<rparr>" using validate_js_asset [OF acc] by blast
  then have "isValidSchemeValue s ((assetValue a)[i := d])"
    using acc s(1) by (auto simp: validateCanonicalAssetId_def rbind_eq_Inr split: if_splits option.splits)
  then show False using scheme_wrong_digit [OF s(2) assms(2-5)] by blast
qed

theorem check_digits_catch_witness:
  "validateCanonicalAssetId (js_asset reg_asset) = Inr reg_asset \<and>
   (\<forall>b. validateCanonicalAssetId (js_asset (reg_asset\<lparr>assetValue := (assetValue reg_asset)[4 := CHR ''8'']\<rparr>)) \<noteq> Inr b)"
proof -
  have v: "validateCanonicalAssetId (js_asset reg_asset) = Inr reg_asset" by code_simp
  have "4 < length (assetValue reg_asset)" "is_digit (assetValue reg_asset ! 4)" "is_digit (CHR ''8'')"
    "CHR ''8'' \<noteq> assetValue reg_asset ! 4" by code_simp+
  then show ?thesis using v check_digits_catch [OF v] by blast
qed

text \<open>C37: The resolver never guesses. Over the assets of a registry that built its index, a reference resolves to an
  asset just when that asset alone answers to it; it is unresolved just when none does; otherwise every asset that
  answers is reported. The order in which the assets were listed has no influence on the answer.\<close>

theorem resolution_exact:
  assumes "buildAssetIndex as = Inr ix" "buildAssetIndex bs = Inr iy" "set bs = set as" "parseReference raw = Inr ref"
  shows "(resolveReference ix raw = RESOLVED k a \<longleftrightarrow> k = reference_kind_of ref \<and> {b \<in> set as. answers ref b} = {a})
    \<and> (resolveReference ix raw = UNRESOLVED \<longleftrightarrow> {b \<in> set as. answers ref b} = {})
    \<and> (resolveReference ix raw = AMBIGUOUS k cs \<longleftrightarrow> k = reference_kind_of ref \<and> length cs \<ge> 2
         \<and> cs = sortCandidates (filter (answers ref) as))
    \<and> resolveReference iy raw = resolveReference ix raw"
proof -
  let ?found = "sortCandidates (filter (answers ref) as)"
  have d: "distinct (map asset_key (filter (answers ref) as))" "distinct (map asset_key (filter (answers ref) bs))"
    using built_distinct [OF assms(1)] built_distinct [OF assms(2)] by (simp_all add: distinct_map_filter)
  have same: "sortCandidates (filter (answers ref) bs) = ?found"
    by (rule sortCandidates_set [OF d(2,1)]) (use assms(3) in simp)
  have set: "{b \<in> set as. answers ref b} = set ?found" by (simp add: sortCandidates_def)
  have "distinct ?found" using d(1) by (simp add: sortCandidates_def distinct_map)
  then have one: "set ?found = {a} \<longleftrightarrow> ?found = [a]"
    by (cases ?found; cases "tl ?found") auto
  show ?thesis
    unfolding resolution_cases [OF assms(1,4)] resolution_cases [OF assms(2,4)] same set one
    by (cases ?found; cases "tl ?found") auto
qed

theorem resolution_exact_witness:
  "\<exists>ix. buildAssetIndex [sample_asset_record] = Inr ix \<and>
     resolveReference ix (JStr ''aapl'') = RESOLVED (reference_kind_of (PLAIN ''AAPL'')) sample_asset_record"
proof -
  have "isOk (buildAssetIndex [sample_asset_record])" by code_simp
  then obtain ix where ix: "buildAssetIndex [sample_asset_record] = Inr ix"
    by (cases "buildAssetIndex [sample_asset_record]") auto
  have p: "parseReference (JStr ''aapl'') = Inr (PLAIN ''AAPL'')" by code_simp
  have "answers (PLAIN ''AAPL'') sample_asset_record" by code_simp
  then have "{b \<in> set [sample_asset_record]. answers (PLAIN ''AAPL'') b} = {sample_asset_record}" by auto
  then show ?thesis
    using ix resolution_exact [OF ix ix refl p, of "reference_kind_of (PLAIN ''AAPL'')" sample_asset_record "[]"] by blast
qed

section \<open>The router\<close>

text \<open>C38: The admissible set is closed. A request that evaluates parses, and its trusted state was observed under the very
  registry snapshot it was evaluated with. The admissible routes are exactly those of the parsed quotes whose
  representation the registry lists and admits, from which a candidate is built, and which the verifier passes; no two of
  them have one digest, and every quote has one outcome.\<close>

theorem routes_closed:
  assumes "evaluateRoutes keccak (Some verifier) request = Some (Inr e)"
  shows "\<exists>i quotes q. parsed_request keccak request i quotes \<and> requirements_of i q \<and> ev_context e = context_for i
    \<and> s_registrySnapshotDigest (in_trustedState i) = Some (in_snapshotDigest i)
    \<and> (\<forall>a. a \<in> set (ev_admissible e) \<longleftrightarrow> (\<exists>quote \<in> set quotes. admits keccak verifier i q quote a))
    \<and> distinct (map route_digest (ev_admissible e))
    \<and> set (map outcome_id (ev_outcomes e)) = set (map pq_routeId quotes) \<and> length (ev_outcomes e) = length quotes"
  using evaluated [OF assms] by metis

theorem routes_closed_witness:
  "\<exists>i quotes q. parsed_request keccak0 rt_request i quotes \<and> requirements_of i q \<and> length quotes = 2
     \<and> (\<forall>a. a = hd (ev_admissible rt_evaluation) \<longleftrightarrow> (\<exists>quote \<in> set quotes. admits keccak0 rt_verifier i q quote a))"
proof -
  have two: "length (ev_outcomes rt_evaluation) = 2" "set (ev_admissible rt_evaluation) = {hd (ev_admissible rt_evaluation)}"
    by (simp_all add: rt_evaluation_def)
  obtain i quotes q where p: "parsed_request keccak0 rt_request i quotes" "requirements_of i q"
    and a: "\<forall>a. a \<in> set (ev_admissible rt_evaluation) \<longleftrightarrow> (\<exists>quote \<in> set quotes. admits keccak0 rt_verifier i q quote a)"
    and l: "length (ev_outcomes rt_evaluation) = length quotes"
    using routes_closed [OF rt_evaluated] by blast
  show ?thesis
    by (rule exI [of _ i], rule exI [of _ quotes], rule exI [of _ q]) (use p a l two in simp)
qed

text \<open>C39: With the kernel's verifier every admissible route is sound, and the ranking is by what is paid or received. The
  registry's record of the representation satisfies the requirements of the mandate; the candidate says exactly what the
  quote offers, its costs are the ones established outside the provider and sum to its fee; the kernel's rule holds of it.
  The routes stand in order of the exact rational total a buyer pays (or net a seller receives, largest first), then of
  deviation, age, steps and digest.\<close>

theorem routes_sound_ranked:
  assumes "evaluateRoutes keccak (Some (kernel_verifier keccak recover n)) request = Some (Inr e)"
  shows "\<exists>i quotes q. parsed_request keccak request i quotes \<and> requirements_of i q
    \<and> (\<forall>a \<in> set (ev_admissible e). \<exists>quote \<in> set quotes. sound_route keccak recover n i q quote a)
    \<and> sorted_wrt (ranks_before (m_side (in_mandate i))) (ev_admissible e)
    \<and> (\<forall>a \<in> set (ev_admissible e). route_cost (m_side (in_mandate i)) (hd (ev_admissible e)) \<le> route_cost (m_side (in_mandate i)) a)"
proof -
  obtain i quotes q where p: "parsed_request keccak request i quotes" "requirements_of i q"
    and s: "\<forall>a \<in> set (ev_admissible e). \<exists>quote \<in> set quotes. sound_route keccak recover n i q quote a"
    and o: "sorted_wrt (ranks_before (m_side (in_mandate i))) (ev_admissible e)"
    using evaluated_kernel [OF assms] by metis
  have "route_cost (m_side (in_mandate i)) (hd (ev_admissible e)) \<le> route_cost (m_side (in_mandate i)) a"
    if "a \<in> set (ev_admissible e)" for a
    using first_is_best [OF o _ that] that ranks_before_cost by force
  with p s o show ?thesis by blast
qed

theorem routes_sound_ranked_witness:
  "\<exists>i quotes q. parsed_request keccak0 rt_request i quotes
     \<and> (\<exists>quote \<in> set quotes. sound_route keccak0 recover0 7 i q quote (hd (ev_admissible rt_evaluation)))"
proof -
  have "hd (ev_admissible rt_evaluation) \<in> set (ev_admissible rt_evaluation)" by (simp add: rt_evaluation_def)
  then show ?thesis using routes_sound_ranked [OF rt_evaluated] by metis
qed

text \<open>C40: What is selected is the best sound route and still admissible. When routing selects a candidate, it is the first
  of the ranked admissible set, it passed the kernel's rule on the state it was evaluated on, and it passes the rule
  again on the fresh state of the handoff, which parses, is not earlier, and was observed under the same registry
  snapshot. The receipt names the candidate, the final verification and all the ranked alternatives.\<close>

theorem route_selected_sound:
  assumes "route keccak (Some (kernel_verifier keccak recover n)) request handoff = Some (SELECTED c final receipt')"
  shows "\<exists>e i quotes q s now. evaluateRoutes keccak (Some (kernel_verifier keccak recover n)) request = Some (Inr e)
    \<and> parsed_request keccak request i quotes \<and> requirements_of i q
    \<and> ev_admissible e \<noteq> [] \<and> c = ar_candidate (hd (ev_admissible e))
    \<and> (\<exists>quote \<in> set quotes. sound_route keccak recover n i q quote (hd (ev_admissible e)))
    \<and> parseTrustedState (jget handoff ''trustedMarketState'') = Inr s \<and> parseClock (jget handoff ''clock'') = Inr now
    \<and> in_clock i \<le> now \<and> s_registrySnapshotDigest s = Some (in_snapshotDigest i)
    \<and> admissible keccak recover n (context_of keccak (in_mandate i) (in_authorization i) (rc_executionCandidate c) s now (in_domain i))
    \<and> receipt_names e c final now receipt'"
proof -
  obtain e s now where e: "evaluateRoutes keccak (Some (kernel_verifier keccak recover n)) request = Some (Inr e)"
      "ev_admissible e \<noteq> []" "c = ar_candidate (hd (ev_admissible e))"
    and h: "resolveValidatedHandoff keccak handoff (ev_context e) = Some (Inr (s, now))"
    and v: "kernel_verifier keccak recover n (fresh_request (ev_context e) (rc_executionCandidate c) s now) = Some final"
      "decision_of final = PASS"
    and names: "receipt_names e c final now receipt'"
    using route_selected [OF assms] by metis
  obtain i quotes q where p: "parsed_request keccak request i quotes" "requirements_of i q" "ev_context e = context_for i"
      "s_registrySnapshotDigest (in_trustedState i) = Some (in_snapshotDigest i)"
    and s: "\<forall>a \<in> set (ev_admissible e). \<exists>quote \<in> set quotes. sound_route keccak recover n i q quote a"
    using evaluated_kernel [OF e(1)] by metis
  have best: "\<exists>quote \<in> set quotes. sound_route keccak recover n i q quote (hd (ev_admissible e))"
    using s hd_in_set [OF e(2)] by blast
  note H = resolve_Inr [OF h]
  have "registrySnapshotDigest keccak (snapshot (in_registry i)) = Some (in_snapshotDigest i)"
    using p(1) unfolding parsed_request_def by blast
  then have H': "in_clock i \<le> now" "s_registrySnapshotDigest s = Some (in_snapshotDigest i)"
    using H(3,4) by (simp_all add: p(3) context_for_def)
  have "wf_candidate (rc_executionCandidate c)" using best e(3) unfolding sound_route_def offers_def by blast
  then have "admissible keccak recover n (context_of keccak (in_mandate i) (in_authorization i) (rc_executionCandidate c) s now (in_domain i))"
    using kernel_verifier_pass [OF v] parsed_wf [OF p(1)] parseTrustedState_wf [OF H(1)] parseClock_wf [OF H(2)]
    by (simp add: fresh_request_def p(3) context_for_def)
  then show ?thesis
    using e p(1,2) best H(1,2) H' names by (intro exI [of _ e] exI [of _ i] exI [of _ quotes] exI [of _ q] exI [of _ s] exI [of _ now]) blast
qed

theorem route_selected_sound_witness:
  "\<exists>e now. route keccak0 (Some rt_verifier) rt_request rt_handoff = Some (SELECTED rt_candidate (rt_receipt 160) rt_routing_receipt)
     \<and> rt_candidate = ar_candidate (hd (ev_admissible e)) \<and> receipt_names e rt_candidate (rt_receipt 160) now rt_routing_receipt"
  using route_selected_sound [OF rt_selected] rt_selected by metis

text \<open>The order in which quotes and costs are listed has no influence.\<close>

theorem routes_order_free:
  assumes "evaluateRoutes keccak seam request = Some (Inr e)" "reordered request request'"
  shows "evaluateRoutes keccak seam request' = Some (Inr e)"
  using assms by (rule evaluateRoutes_reordered)

theorem routes_order_free_witness:
  "evaluateRoutes keccak0 (Some rt_verifier)
     (js_route_request [js_rt_quote ''r2'' ''b'', js_rt_quote ''r1'' ''a''] [js_rt_cost ''r2'', js_rt_cost ''r1'']) =
     Some (Inr rt_evaluation)"
proof (rule routes_order_free [OF rt_evaluated])
  show "reordered rt_request
     (js_route_request [js_rt_quote ''r2'' ''b'', js_rt_quote ''r1'' ''a''] [js_rt_cost ''r2'', js_rt_cost ''r1''])"
    by (auto simp: reordered_def rt_request_def js_route_request_def)
qed

end
